(* ===== verification/Prelude.thy ===== *)
theory Prelude
  imports Complex_Main
    "HOL-Library.Char_ord" "HOL-Library.List_Lexorder" "HOL-Library.Product_Lexorder"
    "HOL-Library.AList" "HOL-Library.Multiset" "HOL-Library.Sublist"
begin

text \<open>
  What every component of the model shares: the exceptions of the Python code as values of a sum
  type with its bind, guards and traversals; sorted duplicate-free lists
  (\<^verbatim>\<open>tuple(sorted(set(xs)))\<close>); dictionaries as association lists in insertion order;
  and the named theorem collections the component proofs use.
\<close>

named_theorems result_simps \<open>equations and characterisations of the result combinators\<close>
named_theorems dict_simps \<open>lookup after the dictionary operations\<close>
named_theorems mk_defs \<open>definitions of the validating constructors\<close>

section \<open>Exceptions as values\<close>

text \<open>
  One constructor per exception class the modelled code raises or lets escape. A message is kept
  where the code has a fixed one. \<open>InvalidTransitionError\<close> is a subclass of
  \<open>DomainValidationError\<close>, which is a subclass of \<open>ValueError\<close>;
  \<open>IdempotencyConflict\<close> is a subclass of \<open>PersistenceConflict\<close>. A provider or activity
  failure keeps its code and whether it may be retried, a problem of the API its code and HTTP status.
\<close>

datatype py_error =
    DomainValidationError string
  | InvalidTransitionError string
  | ValueError string
  | ProofContractError string
  | KeyError
  | IndexError
  | TypeError
  | AttributeError
  | StopIteration
  | OverflowError
  | ZeroDivisionError
  | InvalidOperation
  | RuntimeError
  | RecursionError
  | PersistenceConflict string
  | IdempotencyConflict string
  | RecordNotFound
  | NoResultFound
  | MultipleResultsFound
  | IntegrityError string
  | AssertionError
  | ProviderError string bool
  | ApplicationError string bool
  | ActivityTimeout
  | ApiProblem string int

type_synonym 'a result = "py_error + 'a"

definition is_domain_validation_error :: "py_error \<Rightarrow> bool" where
  "is_domain_validation_error e =
     (case e of DomainValidationError _ \<Rightarrow> True | InvalidTransitionError _ \<Rightarrow> True | _ \<Rightarrow> False)"

text \<open>What \<^verbatim>\<open>except ValueError\<close> catches.\<close>

definition is_value_error :: "py_error \<Rightarrow> bool" where
  "is_value_error e =
     (case e of ValueError _ \<Rightarrow> True | DomainValidationError _ \<Rightarrow> True | InvalidTransitionError _ \<Rightarrow> True
      | _ \<Rightarrow> False)"

definition bindR :: "'a result \<Rightarrow> ('a \<Rightarrow> 'b result) \<Rightarrow> 'b result" where
  "bindR r f = (case r of Inl e \<Rightarrow> Inl e | Inr x \<Rightarrow> f x)"

definition ensure :: "bool \<Rightarrow> py_error \<Rightarrow> unit result" where
  "ensure b e = (if b then Inr () else Inl e)"

definition mapR_res :: "('a \<Rightarrow> 'b) \<Rightarrow> 'a result \<Rightarrow> 'b result" where
  "mapR_res f r = bindR r (\<lambda>x. Inr (f x))"

text \<open>A comprehension whose body may raise: the first exception, in order, is the result.\<close>

fun traverse :: "('a \<Rightarrow> 'b result) \<Rightarrow> 'a list \<Rightarrow> 'b list result" where
  "traverse f [] = Inr []"
| "traverse f (x # xs) = bindR (f x) (\<lambda>y. bindR (traverse f xs) (\<lambda>ys. Inr (y # ys)))"

text \<open>A loop that threads a state and stops at the first exception.\<close>

fun foldR :: "('a \<Rightarrow> 's \<Rightarrow> 's result) \<Rightarrow> 'a list \<Rightarrow> 's \<Rightarrow> 's result" where
  "foldR f [] s = Inr s"
| "foldR f (x # xs) s = bindR (f x s) (foldR f xs)"

definition is_ok :: "'a result \<Rightarrow> bool" where
  "is_ok r = (case r of Inl _ \<Rightarrow> False | Inr _ \<Rightarrow> True)"

lemma bindR_simps [simp]:
  "bindR (Inl e) f = Inl e" "bindR (Inr x) f = f x"
  by (simp_all add: bindR_def)

lemma bindR_Inr_iff [result_simps]: "bindR r f = Inr y \<longleftrightarrow> (\<exists>x. r = Inr x \<and> f x = Inr y)"
  by (cases r) auto

lemma bindR_Inl_iff [result_simps]:
  "bindR r f = Inl e \<longleftrightarrow> r = Inl e \<or> (\<exists>x. r = Inr x \<and> f x = Inl e)"
  by (cases r) auto

lemma bindR_assoc: "bindR (bindR r f) g = bindR r (\<lambda>x. bindR (f x) g)"
  by (cases r) auto

lemma bindR_Inr_right [simp]: "bindR r Inr = r"
  by (cases r) auto

lemma bindR_cong [fundef_cong]:
  "r = r' \<Longrightarrow> (\<And>x. r' = Inr x \<Longrightarrow> f x = f' x) \<Longrightarrow> bindR r f = bindR r' f'"
  by (cases r') auto

lemma ensure_Inr_iff [result_simps]: "ensure b e = Inr u \<longleftrightarrow> b"
  by (simp add: ensure_def)

lemma ensure_Inl_iff [result_simps]: "ensure b e = Inl e' \<longleftrightarrow> \<not> b \<and> e' = e"
  by (auto simp: ensure_def)

lemma ensure_True [simp]: "ensure True e = Inr ()"
  and ensure_False [simp]: "ensure False e = Inl e"
  by (simp_all add: ensure_def)

lemma mapR_res_Inr_iff [result_simps]: "mapR_res f r = Inr y \<longleftrightarrow> (\<exists>x. r = Inr x \<and> y = f x)"
  by (auto simp: mapR_res_def bindR_Inr_iff)

lemma mapR_res_simps [simp]: "mapR_res f (Inr x) = Inr (f x)" "mapR_res f (Inl e) = Inl e"
  by (simp_all add: mapR_res_def)

lemma is_ok_simps [simp]: "is_ok (Inr x)" "\<not> is_ok (Inl e)"
  by (simp_all add: is_ok_def)

lemma is_ok_iff: "is_ok r \<longleftrightarrow> (\<exists>x. r = Inr x)"
  by (cases r) auto

lemma traverse_Inr_iff [result_simps]:
  "traverse f xs = Inr ys \<longleftrightarrow> list_all2 (\<lambda>x y. f x = Inr y) xs ys"
proof (induction xs arbitrary: ys)
  case Nil
  then show ?case by auto
next
  case (Cons x xs)
  then show ?case
    by (auto simp: bindR_Inr_iff list_all2_Cons1)
qed

lemma traverse_Inr_length: "traverse f xs = Inr ys \<Longrightarrow> length ys = length xs"
  by (auto simp: traverse_Inr_iff dest: list_all2_lengthD)

lemma traverse_Inr_set:
  assumes "traverse f xs = Inr ys" "y \<in> set ys"
  shows "\<exists>x\<in>set xs. f x = Inr y"
  using assms by (fastforce simp: traverse_Inr_iff in_set_conv_nth list_all2_conv_all_nth)

lemma traverse_Inr_set':
  assumes "traverse f xs = Inr ys" "x \<in> set xs"
  shows "\<exists>y\<in>set ys. f x = Inr y"
  using assms by (fastforce simp: traverse_Inr_iff in_set_conv_nth list_all2_conv_all_nth)

lemma traverse_ok: "(\<And>x. x \<in> set xs \<Longrightarrow> f x = Inr (g x)) \<Longrightarrow> traverse f xs = Inr (map g xs)"
  by (induction xs) auto

lemma traverse_cong [fundef_cong]:
  "xs = ys \<Longrightarrow> (\<And>x. x \<in> set ys \<Longrightarrow> f x = g x) \<Longrightarrow> traverse f xs = traverse g ys"
  by (induction ys arbitrary: xs) auto

lemma foldR_append: "foldR f (xs @ ys) s = bindR (foldR f xs s) (foldR f ys)"
  by (induction xs arbitrary: s) (auto simp: bindR_assoc intro: bindR_cong)

lemma foldR_invariant:
  assumes "foldR f xs s = Inr t" "P s"
    and "\<And>x s t. x \<in> set xs \<Longrightarrow> P s \<Longrightarrow> f x s = Inr t \<Longrightarrow> P t"
  shows "P t"
  using assms
proof (induction xs arbitrary: s)
  case Nil
  then show ?case by simp
next
  case (Cons x xs)
  from Cons.prems(1) obtain s' where s': "f x s = Inr s'" "foldR f xs s' = Inr t"
    by (auto simp: bindR_Inr_iff)
  have "P s'" using Cons.prems(2,3) s'(1) by (meson list.set_intros(1))
  with Cons.IH [OF s'(2)] Cons.prems(3) show ?case by (meson list.set_intros(2))
qed

section \<open>Sorted duplicate-free lists\<close>

definition sorted_set :: "'a::linorder list \<Rightarrow> 'a list" where
  "sorted_set xs = sort (remdups xs)"

lemma set_sorted_set [simp]: "set (sorted_set xs) = set xs"
  by (simp add: sorted_set_def)

lemma sorted_sorted_set [simp]: "sorted (sorted_set xs)"
  by (simp add: sorted_set_def)

lemma distinct_sorted_set [simp]: "distinct (sorted_set xs)"
  by (simp add: sorted_set_def)

lemma sorted_set_eq_Nil_iff [simp]: "sorted_set xs = [] \<longleftrightarrow> xs = []"
  using set_sorted_set [of xs] by (metis set_empty)

lemma sorted_set_cong: "set xs = set ys \<Longrightarrow> sorted_set xs = sorted_set ys"
  by (intro sorted_distinct_set_unique) auto

lemma sorted_set_id: "sorted xs \<Longrightarrow> distinct xs \<Longrightarrow> sorted_set xs = xs"
  by (intro sorted_distinct_set_unique) auto

lemma sorted_set_idem [simp]: "sorted_set (sorted_set xs) = sorted_set xs"
  by (simp add: sorted_set_id)

lemma sorted_set_append_idem: "set ys \<subseteq> set xs \<Longrightarrow> sorted_set (xs @ ys) = sorted_set xs"
  by (rule sorted_set_cong) auto

section \<open>Stable sorting by a key\<close>

lemma sort_key_perm:
  assumes "mset xs = mset ys" "inj_on f (set xs)"
  shows "sort_key f xs = sort_key f ys"
  by (rule sort_key_inj_key_eq [OF _ assms(2)]) (simp_all add: assms(1))

lemma distinct_map_inj_on: "distinct (map f xs) \<Longrightarrow> inj_on f (set xs)"
  by (simp add: distinct_map)

lemma hd_sort_key_le:
  assumes "xs \<noteq> []" "y \<in> set xs"
  shows "f (hd (sort_key f xs)) \<le> f y"
proof -
  obtain z zs where zs: "sort_key f xs = z # zs"
    using assms(1) by (metis list.exhaust length_0_conv length_sort)
  have "sorted (map f (z # zs))"
    by (metis sorted_sort_key zs)
  moreover have "y \<in> set (z # zs)"
    using assms(2) by (metis set_sort zs)
  ultimately show ?thesis
    using zs by auto
qed

section \<open>Dictionaries\<close>

text \<open>
  A dictionary whose insertion order the code can observe is an association list with distinct
  keys, updated with \<^const>\<open>AList.update\<close>, which keeps the position of a key that is
  present and appends a new one, as \<^verbatim>\<open>d[k] = v\<close> does. \<open>dict_of\<close> is a dict
  comprehension: a later pair overwrites an earlier one.
\<close>

definition dict_of :: "('k \<times> 'v) list \<Rightarrow> ('k \<times> 'v) list" where
  "dict_of ps = fold (\<lambda>(k, v) d. AList.update k v d) ps []"

definition dict_values :: "('k \<times> 'v) list \<Rightarrow> 'v list" where
  "dict_values d = map snd d"

lemma map_of_update [dict_simps]: "map_of (AList.update k v d) = (map_of d)(k \<mapsto> v)"
  by (rule update_conv')

lemma map_of_delete [dict_simps]: "map_of (AList.delete k d) = (map_of d)(k := None)"
  by (rule delete_conv')

lemma map_of_fold_update:
  "map_of (fold (\<lambda>(k, v) d. AList.update k v d) ps d) = map_of d ++ map_of (rev ps)"
  by (induction ps arbitrary: d) (auto simp: update_conv' map_add_def fun_eq_iff split: option.splits)

lemma map_of_dict_of [dict_simps]: "map_of (dict_of ps) = map_of (rev ps)"
  by (simp add: dict_of_def map_of_fold_update)

lemma distinct_fold_update:
  "distinct (map fst d) \<Longrightarrow> distinct (map fst (fold (\<lambda>(k, v) d. AList.update k v d) ps d))"
  by (induction ps arbitrary: d) (auto simp: distinct_update)

lemma distinct_dict_of [simp]: "distinct (map fst (dict_of ps))"
  by (simp add: dict_of_def distinct_fold_update)

lemma fold_update_distinct:
  "distinct (map fst (d @ ps)) \<Longrightarrow> fold (\<lambda>(k, v) d. AList.update k v d) ps d = d @ ps"
proof (induction ps arbitrary: d)
  case Nil
  then show ?case by simp
next
  case (Cons p ps)
  obtain k v where p: "p = (k, v)" by fastforce
  have new: "k \<notin> fst ` set d" using Cons.prems p by auto
  then have "AList.update k v d = d @ [(k, v)]"
    by (induction d) auto
  with Cons.IH [of "d @ [(k, v)]"] Cons.prems p show ?case by simp
qed

lemma dict_of_distinct: "distinct (map fst ps) \<Longrightarrow> dict_of ps = ps"
  by (simp add: dict_of_def fold_update_distinct)

lemma set_update_cases: "(k, v) \<in> set (AList.update k' v' d) \<Longrightarrow> (k, v) \<in> set d \<or> k = k' \<and> v = v'"
  by (induction d) (auto split: if_splits)

lemma map_of_dict_of_distinct: "distinct (map fst ps) \<Longrightarrow> map_of (dict_of ps) = map_of ps"
  by (simp add: dict_of_distinct)

lemma fst_set_dict_of [simp]: "fst ` set (dict_of ps) = fst ` set ps"
proof -
  have "fst ` set (dict_of ps) = dom (map_of (dict_of ps))" by (rule dom_map_of_conv_image_fst [symmetric])
  also have "\<dots> = fst ` set ps" unfolding dict_simps by (simp only: dom_map_of_conv_image_fst set_rev)
  finally show ?thesis .
qed

lemma length_dict_of: "length (dict_of ps) = card (fst ` set ps)"
  by (metis distinct_card distinct_dict_of fst_set_dict_of length_map list.set_map)

lemma length_dict_of_iff: "length (dict_of ps) = length ps \<longleftrightarrow> distinct (map fst ps)"
  by (metis card_distinct distinct_card length_dict_of length_map list.set_map)

lemma foldR_unit_iff: "foldR (\<lambda>x _. f x) xs () = Inr u \<longleftrightarrow> (\<forall>x\<in>set xs. f x = Inr ())"
  by (induction xs) (auto simp: bindR_Inr_iff)

lemma foldR_ok:
  assumes "P s" "\<And>x s. x \<in> set xs \<Longrightarrow> P s \<Longrightarrow> \<exists>t. f x s = Inr t \<and> P t"
  shows "\<exists>t. foldR f xs s = Inr t \<and> P t"
  using assms
proof (induction xs arbitrary: s)
  case Nil
  then show ?case by simp
next
  case (Cons x xs)
  then obtain t where "f x s = Inr t" "P t" by (meson list.set_intros(1))
  with Cons show ?case by simp
qed

end
