(* ===== verification/PyValue.thy ===== *)
theory PyValue
  imports PyText
begin

text \<open>
  The dynamically typed values of the program (\<^verbatim>\<open>Any\<close>, \<^verbatim>\<open>Mapping[str, Any]\<close>)
  and the standard library operations it applies to them: \<^verbatim>\<open>decimal.Decimal\<close> with
  the default context (28 digits, half-even), \<^verbatim>\<open>datetime.date\<close> and
  \<^verbatim>\<open>datetime\<close> on the proleptic Gregorian calendar, \<^verbatim>\<open>==\<close> across the numeric
  types, and membership. A \<open>StrEnum\<close> member is a \<^verbatim>\<open>str\<close> and is a
  \<open>PStr\<close> here. Signalling NaNs, negative zero and object identity (a NaN found in a list by
  identity) have no counterpart.
\<close>

section \<open>Decimals\<close>

text \<open>\<open>Dec c e\<close> is the number \<open>c * 10 ^ e\<close>; the sign is the coefficient's.\<close>

datatype decimal = Dec int int | DInf bool | DNaN

definition pow10 :: "int \<Rightarrow> rat" where
  "pow10 e = (if 0 \<le> e then 10 ^ nat e else 1 / 10 ^ nat (- e))"

definition dec_value :: "int \<Rightarrow> int \<Rightarrow> rat" where
  "dec_value c e = of_int c * pow10 e"

fun dec_finite :: "decimal \<Rightarrow> bool" where
  "dec_finite (Dec _ _) = True"
| "dec_finite _ = False"

text \<open>Ordering comparisons signal InvalidOperation on a NaN; equality does not.\<close>

fun dec_less :: "decimal \<Rightarrow> decimal \<Rightarrow> bool result" where
  "dec_less DNaN _ = Inl InvalidOperation"
| "dec_less _ DNaN = Inl InvalidOperation"
| "dec_less (Dec c e) (Dec c' e') = Inr (dec_value c e < dec_value c' e')"
| "dec_less (DInf neg) (DInf neg') = Inr (neg \<and> \<not> neg')"
| "dec_less (DInf neg) (Dec _ _) = Inr neg"
| "dec_less (Dec _ _) (DInf neg) = Inr (\<not> neg)"

fun dec_eq :: "decimal \<Rightarrow> decimal \<Rightarrow> bool" where
  "dec_eq (Dec c e) (Dec c' e') = (dec_value c e = dec_value c' e')"
| "dec_eq (DInf neg) (DInf neg') = (neg = neg')"
| "dec_eq _ _ = False"

definition dec_le :: "decimal \<Rightarrow> decimal \<Rightarrow> bool result" where
  "dec_le a b = bindR (dec_less a b) (\<lambda>l. Inr (l \<or> dec_eq a b))"

text \<open>Number of digits of a coefficient, and a quotient rounded half to even.\<close>

definition digit_count :: "int \<Rightarrow> nat" where
  "digit_count c = length (show_digits \<bar>c\<bar>)"

definition round_half_even :: "int \<Rightarrow> int \<Rightarrow> int" where
  "round_half_even n d =
     (let q = n div d; r = n mod d
      in if 2 * r > d \<or> 2 * r = d \<and> odd q then q + 1 else q)"

fun strip_zeros :: "nat \<Rightarrow> int \<Rightarrow> int \<times> int" where
  "strip_zeros 0 n = (n, 0)"
| "strip_zeros (Suc f) n =
     (if n mod 10 = 0 \<and> n \<noteq> 0 then (case strip_zeros f (n div 10) of (m, k) \<Rightarrow> (m, k + 1))
      else (n, 0))"

text \<open>
  Rounding a coefficient to the context precision, half to even: the coefficient and the number
  of digits dropped. \<^verbatim>\<open>Decimal.normalize\<close> rounds and then drops trailing zeros.
\<close>

definition round28 :: "int \<Rightarrow> int \<times> nat" where
  "round28 c =
     (let extra = digit_count c - 28 in (sgn c * round_half_even \<bar>c\<bar> (10 ^ extra), extra))"

definition dec_normalize :: "int \<Rightarrow> int \<Rightarrow> int \<times> int" where
  "dec_normalize c e =
     (if c = 0 then (0, 0)
      else case round28 c of (n, extra) \<Rightarrow>
           case strip_zeros (digit_count n) n of (m, k) \<Rightarrow> (m, e + int extra + k))"

text \<open>
  Addition rounds to the context precision; \<^verbatim>\<open>quantize(Decimal("0.01"))\<close> rounds half to
  even to two places and signals InvalidOperation when the result needs more than 28 digits.
\<close>

definition dec_round :: "int \<Rightarrow> int \<Rightarrow> decimal" where
  "dec_round c e = (case round28 c of (n, extra) \<Rightarrow> Dec n (e + int extra))"

definition dec_add :: "int \<Rightarrow> int \<Rightarrow> int \<Rightarrow> int \<Rightarrow> decimal" where
  "dec_add c e c' e' =
     (let m = min e e' in dec_round (c * 10 ^ nat (e - m) + c' * 10 ^ nat (e' - m)) m)"

definition cents_of :: "int \<Rightarrow> int \<Rightarrow> int" where
  "cents_of c e =
     (if - 2 \<le> e then c * 10 ^ nat (e + 2) else sgn c * round_half_even \<bar>c\<bar> (10 ^ nat (- 2 - e)))"

definition dec_quantize2 :: "int \<Rightarrow> int \<Rightarrow> decimal result" where
  "dec_quantize2 c e =
     (let n = cents_of c e in if 28 < digit_count n then Inl InvalidOperation else Inr (Dec n (- 2)))"

text \<open>\<^verbatim>\<open>format(d, "f")\<close> of a coefficient and exponent: no exponent notation.\<close>

definition dec_plain :: "int \<Rightarrow> int \<Rightarrow> string" where
  "dec_plain c e =
     (let sign = (if c < 0 then ''-'' else []); ds = show_digits \<bar>c\<bar>
      in if 0 \<le> e then sign @ ds @ (if c = 0 then [] else replicate (nat e) CHR ''0'')
         else let k = nat (- e);
                  padded = (if length ds \<le> k then replicate (Suc k - length ds) CHR ''0'' @ ds else ds);
                  n = length padded - k
              in sign @ take n padded @ ''.'' @ drop n padded)"

text \<open>\<^verbatim>\<open>str(d)\<close>: scientific notation for a positive exponent or a small number.\<close>

definition dec_str :: "int \<Rightarrow> int \<Rightarrow> string" where
  "dec_str c e =
     (let ds = show_digits \<bar>c\<bar>; left = e + int (length ds)
      in if e \<le> 0 \<and> - 6 < left then dec_plain c e
         else (if c < 0 then ''-'' else []) @ take 1 ds
              @ (if length ds = 1 then [] else CHR ''.'' # drop 1 ds)
              @ ''E'' @ (if 0 \<le> left - 1 then ''+'' else ''-'') @ show_digits \<bar>left - 1\<bar>)"

text \<open>
  \<^verbatim>\<open>Decimal(str)\<close>: surrounding white space and underscores are dropped; a sign, digits
  with an optional point, an optional exponent; or an infinity or NaN in any case. \<open>None\<close> is
  InvalidOperation (conversion syntax).
\<close>

definition take_sign :: "string \<Rightarrow> bool \<times> string" where
  "take_sign s =
     (case s of
        [] \<Rightarrow> (False, [])
      | c # cs \<Rightarrow> if c = CHR ''-'' then (True, cs) else if c = CHR ''+'' then (False, cs) else (False, s))"

definition parse_exponent :: "string \<Rightarrow> int option" where
  "parse_exponent s =
     (case s of
        [] \<Rightarrow> Some 0
      | c # cs \<Rightarrow>
          if lower_char c = CHR ''e'' then
            (case take_sign cs of (neg, ds) \<Rightarrow>
               if ds \<noteq> [] \<and> list_all is_digit ds
               then Some ((if neg then - 1 else 1) * digits_value 0 ds) else None)
          else None)"

definition parse_unsigned :: "string \<Rightarrow> (int \<times> int) option" where
  "parse_unsigned s =
     (let whole = takeWhile is_digit s; rest = dropWhile is_digit s;
          (frac, rest') =
            (case rest of
               c # cs \<Rightarrow> if c = CHR ''.'' then (takeWhile is_digit cs, dropWhile is_digit cs)
                          else ([], rest)
             | [] \<Rightarrow> ([], []))
      in if whole = [] \<and> frac = [] then None
         else map_option (\<lambda>e. (digits_value 0 (whole @ frac), e - int (length frac)))
                (parse_exponent rest'))"

definition parse_decimal :: "string \<Rightarrow> decimal option" where
  "parse_decimal s =
     (let t = filter (\<lambda>c. c \<noteq> CHR ''_'') (str_strip s);
          (neg, u) = take_sign t; l = str_lower u
      in if l = ''inf'' \<or> l = ''infinity'' then Some (DInf neg)
         else if prefix ''nan'' l \<and> list_all is_digit (drop 3 l) then Some DNaN
         else map_option (\<lambda>(c, e). Dec (if neg then - c else c) e) (parse_unsigned u))"

definition decimal_of_int :: "int \<Rightarrow> decimal" where
  "decimal_of_int i = Dec i 0"

definition decimal_of_str :: "string \<Rightarrow> decimal result" where
  "decimal_of_str s = (case parse_decimal s of None \<Rightarrow> Inl InvalidOperation | Some d \<Rightarrow> Inr d)"

section \<open>Facts on decimals\<close>

lemma pow10_pos [simp]: "0 < pow10 e"
  by (simp add: pow10_def)

lemma pow10_neq_0 [simp]: "pow10 e \<noteq> 0"
  by (simp add: pow10_def)

lemma pow10_add: "pow10 (a + b) = pow10 a * pow10 b"
proof -
  have real: "pow10 e = 10 powi e" for e
    by (simp add: pow10_def power_int_def inverse_eq_divide power_divide)
  show ?thesis by (simp add: real power_int_add)
qed

lemma pow10_nat: "0 \<le> k \<Longrightarrow> pow10 k = of_int (10 ^ nat k)"
  by (simp add: pow10_def)

lemma dec_value_shift: "0 \<le> k \<Longrightarrow> dec_value (m * 10 ^ nat k) e = dec_value m (e + k)"
  by (simp add: dec_value_def pow10_add pow10_nat)

lemma dec_value_same_exponent [simp]: "dec_value c e = dec_value c' e \<longleftrightarrow> c = c'"
  by (simp add: dec_value_def)

lemma dec_value_less_iff [simp]: "dec_value c e < dec_value c' e \<longleftrightarrow> c < c'"
  by (simp add: dec_value_def)

lemma dec_value_zero [simp]: "dec_value 0 e = 0"
  by (simp add: dec_value_def)

lemma dec_value_less_0_iff: "dec_value c e < 0 \<longleftrightarrow> c < 0"
  by (simp add: dec_value_def mult_less_0_iff) (meson not_less_iff_gr_or_eq pow10_pos)

lemma strip_zeros_spec:
  assumes "strip_zeros f n = (m, k)"
  shows "n = m * 10 ^ nat k \<and> 0 \<le> k \<and> (n \<noteq> 0 \<longrightarrow> m \<noteq> 0)"
  using assms
proof (induction f arbitrary: n m k)
  case 0
  then show ?case by simp
next
  case (Suc f)
  show ?case
  proof (cases "n mod 10 = 0 \<and> n \<noteq> 0")
    case True
    obtain m' k' where r: "strip_zeros f (n div 10) = (m', k')" by fastforce
    with Suc.prems True have mk: "m = m'" "k = k' + 1" by auto
    from Suc.IH [OF r] True have "n div 10 = m' * 10 ^ nat k'" "0 \<le> k'" "m' \<noteq> 0" by auto
    with True mk show ?thesis by (auto simp: nat_add_distrib)
  next
    case False
    with Suc.prems show ?thesis by auto
  qed
qed

text \<open>A coefficient in lowest terms, and that a number has one such form.\<close>

definition stripped :: "int \<Rightarrow> bool" where
  "stripped m = (m mod 10 \<noteq> 0)"

lemma digit_count_pos [simp]: "0 < digit_count n"
  by (simp add: digit_count_def)

lemma show_digits_length: "0 \<le> n \<Longrightarrow> n < 10 ^ length (show_digits n)"
proof (induction n rule: show_digits.induct)
  case (1 n)
  show ?case
  proof (cases "n < 10")
    case True
    with 1 show ?thesis by (simp add: show_digits.simps [of n])
  next
    case False
    with 1 have "n div 10 < 10 ^ length (show_digits (n div 10))" by auto
    then have "n < 10 ^ Suc (length (show_digits (n div 10)))" by simp
    with False show ?thesis by (simp add: show_digits.simps [of n])
  qed
qed

lemma show_digits_length_le: "0 < n \<Longrightarrow> 10 ^ (length (show_digits n) - 1) \<le> n"
proof (induction n rule: show_digits.induct)
  case (1 n)
  show ?case
  proof (cases "n < 10")
    case True
    with 1 show ?thesis by (simp add: show_digits.simps [of n])
  next
    case False
    with 1 have "10 ^ (length (show_digits (n div 10)) - 1) \<le> n div 10" by auto
    then have "10 * 10 ^ (length (show_digits (n div 10)) - 1) \<le> n" by simp
    moreover have "10 * 10 ^ (length (show_digits (n div 10)) - 1) = (10 :: int) ^ length (show_digits (n div 10))"
      by (cases "show_digits (n div 10)") auto
    ultimately show ?thesis using False by (simp add: show_digits.simps [of n])
  qed
qed

lemma digit_count_le_iff: "0 < k \<Longrightarrow> digit_count n \<le> k \<longleftrightarrow> \<bar>n\<bar> < 10 ^ k"
proof -
  assume k: "0 < k"
  let ?l = "length (show_digits \<bar>n\<bar>)"
  show ?thesis
  proof (cases "n = 0")
    case True
    with k show ?thesis by (simp add: digit_count_def show_digits.simps)
  next
    case False
    have lo: "10 ^ (?l - 1) \<le> \<bar>n\<bar>" and hi: "\<bar>n\<bar> < 10 ^ ?l"
      using show_digits_length_le [of "\<bar>n\<bar>"] show_digits_length [of "\<bar>n\<bar>"] False by auto
    show ?thesis
    proof
      assume "digit_count n \<le> k"
      then have "(10 :: int) ^ ?l \<le> 10 ^ k" by (simp add: digit_count_def)
      with hi show "\<bar>n\<bar> < 10 ^ k" by linarith
    next
      assume "\<bar>n\<bar> < 10 ^ k"
      with lo have "(10 :: int) ^ (?l - 1) < 10 ^ k" by linarith
      then have "?l - 1 < k" by simp
      then show "digit_count n \<le> k" by (simp add: digit_count_def)
    qed
  qed
qed

lemma strip_zeros_stripped:
  assumes "strip_zeros f n = (m, k)" "n \<noteq> 0" "\<bar>n\<bar> < 10 ^ f"
  shows "stripped m"
  using assms
proof (induction f arbitrary: n m k)
  case 0
  then show ?case by simp
next
  case (Suc f)
  show ?case
  proof (cases "n mod 10 = 0")
    case True
    obtain m' k' where r: "strip_zeros f (n div 10) = (m', k')" by fastforce
    with Suc.prems True have mk: "m = m'" by auto
    have "\<bar>n div 10\<bar> < 10 ^ f" "n div 10 \<noteq> 0" using Suc.prems True by auto
    with Suc.IH [OF r] mk show ?thesis by blast
  next
    case False
    with Suc.prems show ?thesis by (auto simp: stripped_def)
  qed
qed

lemma stripped_unique:
  assumes "dec_value m e = dec_value m' e'" "stripped m" "stripped m'"
  shows "m = m' \<and> e = e'"
  using assms
proof (induction e e' arbitrary: m m' rule: linorder_wlog)
  case (le e e')
  define k where "k = e' - e"
  from le(1) have k: "0 \<le> k" "e' = e + k" by (auto simp: k_def)
  with le(2) have "m = m' * 10 ^ nat k" using dec_value_shift [of k m' e] by (metis dec_value_same_exponent)
  with le(3) have "nat k = 0" by (cases "nat k") (auto simp: stripped_def)
  with k \<open>m = m' * 10 ^ nat k\<close> show ?case by auto
next
  case (sym e e')
  then show ?case by metis
qed

text \<open>Coefficients that rounding to 28 digits leaves exact.\<close>

definition exact28 :: "int \<Rightarrow> bool" where
  "exact28 c = (10 ^ (digit_count c - 28) dvd c)"

lemma exact28_small: "digit_count c \<le> 28 \<Longrightarrow> exact28 c"
  by (simp add: exact28_def)

lemma digit_count_less_iff: "0 < k \<Longrightarrow> k < digit_count n \<longleftrightarrow> 10 ^ k \<le> \<bar>n\<bar>"
  using digit_count_le_iff [of k n] by linarith

lemma exact28_shift:
  assumes "digit_count n \<le> 28"
  shows "exact28 (n * 10 ^ j)"
proof -
  have "\<bar>n\<bar> < 10 ^ 28" using assms digit_count_le_iff [of 28 n] by simp
  then have "\<bar>n * 10 ^ j\<bar> < 10 ^ (28 + j)"
    by (simp add: abs_mult power_add)
  then have "digit_count (n * 10 ^ j) \<le> 28 + j"
    by (subst digit_count_le_iff) auto
  then have "(10 :: int) ^ (digit_count (n * 10 ^ j) - 28) dvd 10 ^ j"
    by (intro le_imp_power_dvd) simp
  then show ?thesis by (simp add: exact28_def dvd_mult)
qed

lemma round28_exact:
  assumes "exact28 c"
  obtains n where "round28 c = (n, digit_count c - 28)" "c = n * 10 ^ (digit_count c - 28)"
proof -
  let ?x = "digit_count c - 28"
  from assms obtain n where n: "c = n * 10 ^ ?x" by (auto simp: exact28_def mult.commute elim: dvdE)
  have "\<bar>c\<bar> = \<bar>n\<bar> * 10 ^ ?x" by (subst n) (simp add: abs_mult)
  moreover have "sgn c = sgn n" by (subst n) (simp add: sgn_mult)
  ultimately have "round28 c = (n, ?x)"
    by (simp add: round28_def round_half_even_def sgn_mult_abs Let_def)
  with n that show thesis by blast
qed

lemma dec_normalize_spec:
  assumes "dec_normalize c e = (m, k)" "c \<noteq> 0" "exact28 c"
  shows "dec_value m k = dec_value c e \<and> stripped m \<and> e \<le> k"
proof -
  define x where "x = digit_count c - 28"
  obtain n where n: "round28 c = (n, x)" "c = n * 10 ^ x"
    using round28_exact [OF assms(3)] x_def by metis
  obtain j where s: "strip_zeros (digit_count n) n = (m, j)" "k = e + int x + j"
    using assms n by (auto simp: dec_normalize_def split: prod.splits)
  have n0: "n \<noteq> 0" using n(2) assms(2) by auto
  have small: "\<bar>n\<bar> < 10 ^ digit_count n"
    using digit_count_le_iff [of "digit_count n" n] by simp
  have "dec_value c e = dec_value n (e + int x)"
    using dec_value_shift [of "int x" n e] n(2) by simp
  with strip_zeros_spec [OF s(1)] s(2) dec_value_shift [of j m "e + int x"]
    strip_zeros_stripped [OF s(1) n0 small] n0
  show ?thesis by auto
qed

lemma dec_normalize_unique:
  assumes "dec_value c e = dec_value c' e'" "exact28 c" "exact28 c'"
  shows "dec_normalize c e = dec_normalize c' e'"
proof (cases "c = 0 \<or> c' = 0")
  case True
  with assms(1) have "c = 0" "c' = 0" by (auto simp: dec_value_def)
  then show ?thesis by (simp add: dec_normalize_def)
next
  case False
  obtain m k m' k' where n: "dec_normalize c e = (m, k)" "dec_normalize c' e' = (m', k')"
    by fastforce
  from dec_normalize_spec [OF n(1)] dec_normalize_spec [OF n(2)] False assms
  show ?thesis using n stripped_unique [of m k m' k'] by auto
qed

lemma dec_normalize_value:
  assumes "dec_normalize c e = (m, k)" "exact28 c"
  shows "dec_value m k = dec_value c e"
  using assms dec_normalize_spec [OF assms(1)] by (cases "c = 0") (auto simp: dec_normalize_def)

text \<open>Hundredths: \<open>cents_of\<close> is exact on the numbers that are a whole number of them.\<close>

lemma cents_of_whole [simp]: "cents_of n (- 2) = n"
  by (simp add: cents_of_def)

lemma cents_of_exact:
  assumes "dec_value c e = dec_value n (- 2)"
  shows "cents_of c e = n"
proof (cases "- 2 \<le> e")
  case True
  with dec_value_shift [of "e + 2" c "- 2"] assms have "dec_value (c * 10 ^ nat (e + 2)) (- 2) = dec_value n (- 2)"
    by simp
  with True show ?thesis by (simp add: cents_of_def del: of_int_mult)
next
  case False
  let ?j = "nat (- 2 - e)"
  from False dec_value_shift [of "- 2 - e" n e] assms have "dec_value (n * 10 ^ ?j) e = dec_value c e"
    by simp
  then have c: "c = n * 10 ^ ?j" by (metis dec_value_same_exponent)
  have "\<bar>c\<bar> = \<bar>n\<bar> * 10 ^ ?j" by (subst c) (simp add: abs_mult)
  moreover have "sgn c = sgn n" by (subst c) (simp add: sgn_mult)
  ultimately show ?thesis
    using False by (simp add: cents_of_def round_half_even_def sgn_mult_abs Let_def)
qed

lemma exact28_of_cents:
  assumes "dec_value c e = dec_value n (- 2)" "digit_count n \<le> 28"
  shows "exact28 c"
proof (cases "- 2 \<le> e")
  case True
  with cents_of_exact [OF assms(1)] have n: "n = c * 10 ^ nat (e + 2)" by (simp add: cents_of_def)
  have "\<bar>n\<bar> < 10 ^ 28" using assms(2) digit_count_le_iff [of 28 n] by simp
  moreover have "\<bar>c\<bar> \<le> \<bar>n\<bar>" by (subst n) (simp add: abs_mult mult_le_cancel_left1)
  ultimately have "\<bar>c\<bar> < 10 ^ 28" by linarith
  then show ?thesis using digit_count_le_iff [of 28 c] by (intro exact28_small) simp
next
  case False
  from False dec_value_shift [of "- 2 - e" n e] assms(1) have "dec_value (n * 10 ^ nat (- 2 - e)) e = dec_value c e"
    by simp
  then have "c = n * 10 ^ nat (- 2 - e)" by (metis dec_value_same_exponent)
  with exact28_shift [OF assms(2)] show ?thesis by simp
qed

text \<open>Reading back plain decimal text.\<close>

lemma digit_not_sep: "is_digit c \<Longrightarrow> c \<noteq> CHR ''.'' \<and> c \<noteq> CHR ''-'' \<and> c \<noteq> CHR ''+'' \<and> c \<noteq> CHR ''_''
   \<and> \<not> is_space c \<and> lower_char c = c"
  by (auto simp: is_digit_def is_space_def lower_char_def is_upper_def less_eq_char_def Let_def)

lemma str_strip_id: "\<forall>c\<in>set s. \<not> is_space c \<Longrightarrow> str_strip s = s"
proof -
  assume a: "\<forall>c\<in>set s. \<not> is_space c"
  then have d: "dropWhile is_space s = s" by (cases s) auto
  from a have "dropWhile is_space (rev s) = rev s" by (cases "rev s") (auto simp: dest: arg_cong [of _ _ set])
  with d show ?thesis by (simp add: str_strip_def)
qed

definition plain_text :: "bool \<Rightarrow> string \<Rightarrow> string \<Rightarrow> string" where
  "plain_text neg w f = (if neg then ''-'' else []) @ w @ (if f = [] then [] else CHR ''.'' # f)"

lemma parse_plain_text:
  assumes w: "w \<noteq> []" "list_all is_digit w" and f: "list_all is_digit f"
  shows "parse_decimal (plain_text neg w f) =
    Some (Dec ((if neg then - 1 else 1) * digits_value 0 (w @ f)) (- int (length f)))"
proof -
  let ?u = "w @ (if f = [] then [] else CHR ''.'' # f)"
  have chars: "\<forall>c\<in>set (plain_text neg w f). \<not> is_space c \<and> c \<noteq> CHR ''_''"
    using w f digit_not_sep by (auto simp: plain_text_def list_all_iff is_space_def split: if_splits)
  then have t: "filter (\<lambda>c. c \<noteq> CHR ''_'') (str_strip (plain_text neg w f)) = plain_text neg w f"
    by (simp add: str_strip_id filter_id_conv)
  obtain d ds where d: "w = d # ds" "is_digit d" using w by (cases w) auto
  have sgn: "take_sign (plain_text neg w f) = (neg, ?u)"
    using d digit_not_sep [OF d(2)] by (auto simp: plain_text_def take_sign_def)
  have low: "hd (str_lower ?u) = d" "str_lower ?u \<noteq> []"
    using d digit_not_sep [OF d(2)] by (auto simp: str_lower_def)
  have no_inf: "str_lower ?u \<noteq> ''inf''" "str_lower ?u \<noteq> ''infinity''" "\<not> prefix ''nan'' (str_lower ?u)"
    using low d(2) by (auto simp: is_digit_def prefix_def)
  have tw: "takeWhile is_digit ?u = w" "dropWhile is_digit ?u = (if f = [] then [] else CHR ''.'' # f)"
    using w by (auto simp: list_all_iff takeWhile_append dropWhile_append is_digit_def)
  have fr: "takeWhile is_digit f = f" "dropWhile is_digit f = []"
    using f by (auto simp: list_all_iff takeWhile_eq_all_conv dropWhile_eq_Nil_conv)
  have "parse_unsigned ?u = Some (digits_value 0 (w @ f), - int (length f))"
    unfolding parse_unsigned_def tw Let_def
    by (cases "f = []") (simp_all add: fr w parse_exponent_def)
  with no_inf show ?thesis
    unfolding parse_decimal_def t sgn Let_def by auto
qed

lemma show_digits_all: "0 \<le> n \<Longrightarrow> list_all is_digit (show_digits n)"
  by (auto simp: list_all_iff intro: show_digits_digits)

lemma digits_value_zeros: "digits_value acc (replicate k CHR ''0'') = acc * 10 ^ k"
  by (induction k arbitrary: acc) auto

lemma is_digit_zero [simp]: "is_digit CHR ''0''"
  by (simp add: is_digit_def)

lemma sign_abs: "(if c < 0 then - 1 else 1) * \<bar>c :: int\<bar> = c"
  by simp

lemma parse_dec_plain_nonneg:
  assumes "0 \<le> e"
  shows "parse_decimal (dec_plain c e) = Some (Dec (c * 10 ^ nat e) 0)"
proof -
  have eq: "dec_plain c e =
      plain_text (c < 0) (show_digits \<bar>c\<bar> @ (if c = 0 then [] else replicate (nat e) CHR ''0'')) []"
    using assms by (simp add: dec_plain_def plain_text_def)
  have "parse_decimal (dec_plain c e) = Some (Dec ((if c < 0 then - 1 else 1)
      * digits_value 0 (show_digits \<bar>c\<bar> @ (if c = 0 then [] else replicate (nat e) CHR ''0''))) 0)"
    unfolding eq by (subst parse_plain_text) (use show_digits_all [OF abs_ge_zero [of c]] in \<open>auto simp: list_all_iff\<close>)
  then show ?thesis
    by (auto simp: digits_value_append digits_value_zeros digits_value_show_digits)
qed

lemma parse_dec_plain_neg:
  assumes "e < 0"
  shows "parse_decimal (dec_plain c e) = Some (Dec c e)"
proof -
  define ds where "ds = show_digits \<bar>c\<bar>"
  define k where "k = nat (- e)"
  define p where "p = (if length ds \<le> k then replicate (Suc k - length ds) CHR ''0'' @ ds else ds)"
  have ds: "list_all is_digit ds" "digits_value 0 ds = \<bar>c\<bar>"
    by (auto simp: ds_def show_digits_all digits_value_show_digits)
  then have p: "list_all is_digit p" "digits_value 0 p = \<bar>c\<bar>" "k < length p"
    by (auto simp: p_def digits_value_append digits_value_zeros list_all_iff)
  have k: "0 < k" "int k = - e" using assms by (auto simp: k_def)
  have dig: "list_all is_digit (take n p)" "list_all is_digit (drop n p)" for n
    using p(1) by (auto simp: list_all_iff dest: in_set_takeD in_set_dropD)
  have ne: "take (length p - k) p \<noteq> []" using p(3) by auto
  have eq: "dec_plain c e = plain_text (c < 0) (take (length p - k) p) (drop (length p - k) p)"
    using assms k p(3)
    by (simp add: dec_plain_def plain_text_def ds_def [symmetric] k_def [symmetric] p_def [symmetric] Let_def)
  have "parse_decimal (dec_plain c e)
      = Some (Dec ((if c < 0 then - 1 else 1) * digits_value 0 p) (- int k))"
    unfolding eq parse_plain_text [OF ne dig(1) dig(2)] using p(3) by simp
  then show ?thesis using p(2) k sign_abs [of c] by simp
qed

section \<open>Dates and times\<close>

definition is_leap :: "int \<Rightarrow> bool" where
  "is_leap y = (y mod 4 = 0 \<and> (y mod 100 \<noteq> 0 \<or> y mod 400 = 0))"

definition days_before_year :: "int \<Rightarrow> int" where
  "days_before_year y = (let p = y - 1 in p * 365 + p div 4 - p div 100 + p div 400)"

definition days_in_month :: "int \<Rightarrow> int \<Rightarrow> int" where
  "days_in_month y m =
     (if m = 2 then (if is_leap y then 29 else 28) else if m \<in> {4, 6, 9, 11} then 30 else 31)"

definition days_before_month :: "int \<Rightarrow> int \<Rightarrow> int" where
  "days_before_month y m = (\<Sum>k \<leftarrow> [1..m - 1]. days_in_month y k)"

definition ymd2ord :: "int \<Rightarrow> int \<Rightarrow> int \<Rightarrow> int" where
  "ymd2ord y m d = days_before_year y + days_before_month y m + d"

definition valid_ymd :: "int \<Rightarrow> int \<Rightarrow> int \<Rightarrow> bool" where
  "valid_ymd y m d = (1 \<le> y \<and> y \<le> 9999 \<and> 1 \<le> m \<and> m \<le> 12 \<and> 1 \<le> d \<and> d \<le> days_in_month y m)"

text \<open>The year of an ordinal, by the 400, 100, 4 and 1 year cycles; then the month by scanning.\<close>

definition ord2year :: "int \<Rightarrow> int \<times> int" where
  "ord2year ord =
     (let n = ord - 1; n400 = n div 146097; n1 = n mod 146097;
          n100 = n1 div 36524; n2 = n1 mod 36524; n4 = n2 div 1461; n3 = n2 mod 1461; ny = n3 div 365;
          y = n400 * 400 + n100 * 100 + n4 * 4 + ny + 1
      in if ny = 4 \<or> n100 = 4 then (y - 1, 366) else (y, n3 mod 365 + 1))"

fun month_scan :: "int \<Rightarrow> int list \<Rightarrow> int \<Rightarrow> int \<times> int" where
  "month_scan y [] r = (12, r)"
| "month_scan y (m # ms) r =
     (if r \<le> days_in_month y m then (m, r) else month_scan y ms (r - days_in_month y m))"

definition ord2ymd :: "int \<Rightarrow> int \<times> int \<times> int" where
  "ord2ymd ord = (case ord2year ord of (y, r) \<Rightarrow> (case month_scan y [1..12] r of (m, d) \<Rightarrow> (y, m, d)))"

definition pad :: "nat \<Rightarrow> int \<Rightarrow> string" where
  "pad w n = (let s = show_digits n in replicate (w - length s) CHR ''0'' @ s)"

definition date_isoformat :: "int \<Rightarrow> string" where
  "date_isoformat ord =
     (case ord2ymd ord of (y, m, d) \<Rightarrow> pad 4 y @ ''-'' @ pad 2 m @ ''-'' @ pad 2 d)"

text \<open>
  \<^verbatim>\<open>date.fromisoformat\<close>: \<open>YYYY-MM-DD\<close>, \<open>YYYYMMDD\<close>, \<open>YYYY-Www\<close>, \<open>YYYYWww\<close>,
  \<open>YYYY-Www-D\<close> and \<open>YYYYWwwD\<close>. \<open>None\<close> is ValueError.
\<close>

definition num_field :: "string \<Rightarrow> int option" where
  "num_field s = (if s \<noteq> [] \<and> list_all is_digit s then Some (digits_value 0 s) else None)"

definition iso_week1_monday :: "int \<Rightarrow> int" where
  "iso_week1_monday y =
     (let first = ymd2ord y 1 1; wd = (first + 6) mod 7; monday = first - wd
      in if 3 < wd then monday + 7 else monday)"

definition weeks_in_year :: "int \<Rightarrow> int" where
  "weeks_in_year y = (iso_week1_monday (y + 1) - iso_week1_monday y) div 7"

definition date_of_ymd :: "int \<Rightarrow> int \<Rightarrow> int \<Rightarrow> int option" where
  "date_of_ymd y m d = (if valid_ymd y m d then Some (ymd2ord y m d) else None)"

definition date_of_week :: "int \<Rightarrow> int \<Rightarrow> int \<Rightarrow> int option" where
  "date_of_week y w d =
     (let ord = iso_week1_monday y + (w - 1) * 7 + (d - 1)
      in if 1 \<le> y \<and> y \<le> 9999 \<and> 1 \<le> w \<and> w \<le> weeks_in_year y \<and> 1 \<le> d \<and> d \<le> 7
            \<and> 1 \<le> ord \<and> ord \<le> 3652059
         then Some ord else None)"

definition bind3 :: "(int \<Rightarrow> int \<Rightarrow> int \<Rightarrow> int option) \<Rightarrow> string \<Rightarrow> string \<Rightarrow> string \<Rightarrow> int option" where
  "bind3 f a b c =
     (case (num_field a, num_field b, num_field c) of
        (Some x, Some y, Some z) \<Rightarrow> f x y z | _ \<Rightarrow> None)"

definition date_fromisoformat :: "string \<Rightarrow> int option" where
  "date_fromisoformat s =
     (let n = length s; sub = (\<lambda>i k. take k (drop i s)); is_at = (\<lambda>i c. sub i 1 = c)
      in if n = 10 \<and> is_at 4 ''-'' \<and> is_at 7 ''-'' \<and> \<not> is_at 5 ''W''
           then bind3 date_of_ymd (sub 0 4) (sub 5 2) (sub 8 2)
         else if n = 10 \<and> is_at 4 ''-'' \<and> is_at 5 ''W'' \<and> is_at 8 ''-''
           then bind3 date_of_week (sub 0 4) (sub 6 2) (sub 9 1)
         else if n = 8 \<and> is_at 4 ''-'' \<and> is_at 5 ''W''
           then bind3 date_of_week (sub 0 4) (sub 6 2) ''1''
         else if n = 8 \<and> is_at 4 ''W'' then bind3 date_of_week (sub 0 4) (sub 5 2) (sub 7 1)
         else if n = 7 \<and> is_at 4 ''W'' then bind3 date_of_week (sub 0 4) (sub 5 2) ''1''
         else if n = 8 then bind3 date_of_ymd (sub 0 4) (sub 4 2) (sub 6 2)
         else None)"

text \<open>
  A datetime is its local time in microseconds since 0001-01-01T00:00 and, when it is aware, its
  UTC offset in microseconds.
\<close>

record py_datetime =
  dt_local :: int
  dt_offset :: "int option"

definition day_us :: int where
  "day_us = 86400000000"

definition dt_date :: "py_datetime \<Rightarrow> int" where
  "dt_date t = dt_local t div day_us + 1"

definition dt_aware :: "py_datetime \<Rightarrow> bool" where
  "dt_aware t = (dt_offset t \<noteq> None)"

text \<open>The instant of an aware datetime (a naive one is read as UTC where the code never asks).\<close>

definition dt_instant :: "py_datetime \<Rightarrow> int" where
  "dt_instant t = dt_local t - (case dt_offset t of None \<Rightarrow> 0 | Some off \<Rightarrow> off)"

section \<open>Values\<close>

datatype pyfloat = FFin rat | FInf bool | FNaN

text \<open>
  \<open>PData fields payload\<close> is a dataclass instance: its fields and, when its class has a
  \<^verbatim>\<open>to_hash_payload\<close> method, the value that method returns. \<open>POther\<close> is an instance
  of any other class, by the name of its type.
\<close>

datatype pyval =
    PNone
  | PBool bool
  | PInt int
  | PFloat pyfloat
  | PDecimal decimal
  | PStr string
  | PBytes string
  | PUuid string
  | PDate int
  | PDateTime int "int option"
  | PList "pyval list"
  | PTuple "pyval list"
  | PSet "pyval list"
  | PDict "(pyval \<times> pyval) list"
  | PData "(string \<times> pyval) list" "pyval option"
  | POther string

fun is_bool :: "pyval \<Rightarrow> bool" where
  "is_bool (PBool _) = True"
| "is_bool _ = False"

text \<open>A number's exact value; booleans are the integers 0 and 1, as in Python.\<close>

datatype num_value = NFin rat | NInf bool | NNaN

fun py_num :: "pyval \<Rightarrow> num_value option" where
  "py_num (PBool b) = Some (NFin (if b then 1 else 0))"
| "py_num (PInt i) = Some (NFin (of_int i))"
| "py_num (PFloat (FFin q)) = Some (NFin q)"
| "py_num (PFloat (FInf neg)) = Some (NInf neg)"
| "py_num (PFloat FNaN) = Some NNaN"
| "py_num (PDecimal (Dec c e)) = Some (NFin (dec_value c e))"
| "py_num (PDecimal (DInf neg)) = Some (NInf neg)"
| "py_num (PDecimal DNaN) = Some NNaN"
| "py_num _ = None"

fun num_eq :: "num_value \<Rightarrow> num_value \<Rightarrow> bool" where
  "num_eq (NFin a) (NFin b) = (a = b)"
| "num_eq (NInf a) (NInf b) = (a = b)"
| "num_eq _ _ = False"

text \<open>
  \<^verbatim>\<open>a == b\<close>. Numbers compare by value whatever their types; lists with lists, tuples with
  tuples, sets and dictionaries without regard to order; an aware datetime by its instant, never
  equal to a naive one.
\<close>

lemma size_pair_less [termination_simp]:
  "(k, v) \<in> set kvs \<Longrightarrow> size k < Suc (size_list (size_prod size size) kvs)"
  "(k, v) \<in> set kvs \<Longrightarrow> size v < Suc (size_list (size_prod size size) kvs)"
  by (induction kvs) auto

lemma size_field_less [termination_simp]:
  "(n, v) \<in> set fs \<Longrightarrow> size v < Suc (size_list (size_prod (\<lambda>_. 0) size) fs + m)"
  by (induction fs) auto

function (sequential) py_eq :: "pyval \<Rightarrow> pyval \<Rightarrow> bool" where
  "py_eq (PList xs) b = (case b of PList ys \<Rightarrow> list_all2 py_eq xs ys | _ \<Rightarrow> False)"
| "py_eq (PTuple xs) b = (case b of PTuple ys \<Rightarrow> list_all2 py_eq xs ys | _ \<Rightarrow> False)"
| "py_eq (PSet xs) b =
     (case b of
        PSet ys \<Rightarrow> length xs = length ys \<and> list_all (\<lambda>x. list_ex (py_eq x) ys) xs | _ \<Rightarrow> False)"
| "py_eq (PDict xs) b =
     (case b of
        PDict ys \<Rightarrow> length xs = length ys
          \<and> list_all (\<lambda>(k, v). list_ex (\<lambda>(k', v'). py_eq k k' \<and> py_eq v v') ys) xs
      | _ \<Rightarrow> False)"
| "py_eq (PData xs p) b =
     (case b of
        PData ys q \<Rightarrow> list_all2 (\<lambda>(n, v) (n', v'). n = n' \<and> py_eq v v') xs ys | _ \<Rightarrow> False)"
| "py_eq (PDateTime t off) b =
     (case b of PDateTime t' off' \<Rightarrow>
        (case (off, off') of (None, None) \<Rightarrow> t = t' | (Some u, Some v) \<Rightarrow> t - u = t' - v | _ \<Rightarrow> False)
      | _ \<Rightarrow> False)"
| "py_eq a b =
     (case (py_num a, py_num b) of
        (Some x, Some y) \<Rightarrow> num_eq x y
      | (None, None) \<Rightarrow> a = b
      | _ \<Rightarrow> False)"
  by pat_completeness auto
termination
  by (relation "measure (\<lambda>(a, b). size a)") (auto simp: termination_simp)

text \<open>\<^verbatim>\<open>_collection\<close>'s view of a value: the elements of a list, tuple or set.\<close>

fun elements :: "pyval \<Rightarrow> pyval list option" where
  "elements (PList xs) = Some xs"
| "elements (PTuple xs) = Some xs"
| "elements (PSet xs) = Some xs"
| "elements _ = None"

text \<open>Only immutable values have a hash, which membership in a set or a dictionary needs.\<close>

fun hashable :: "pyval \<Rightarrow> bool" where
  "hashable (PList _) = False"
| "hashable (PSet _) = False"
| "hashable (PDict _) = False"
| "hashable (PTuple xs) = list_all hashable xs"
| "hashable _ = True"

text \<open>\<^verbatim>\<open>x in container\<close>; TypeError where the container does not support the test.\<close>

definition py_contains :: "pyval \<Rightarrow> pyval \<Rightarrow> bool result" where
  "py_contains container x =
     (case container of
        PStr s \<Rightarrow> (case x of PStr t \<Rightarrow> Inr (str_contains t s) | _ \<Rightarrow> Inl TypeError)
      | PList xs \<Rightarrow> Inr (list_ex (\<lambda>y. py_eq y x) xs)
      | PTuple xs \<Rightarrow> Inr (list_ex (\<lambda>y. py_eq y x) xs)
      | PSet xs \<Rightarrow> if hashable x then Inr (list_ex (\<lambda>y. py_eq y x) xs) else Inl TypeError
      | PDict kvs \<Rightarrow>
          if hashable x then Inr (list_ex (\<lambda>(k, _). py_eq k x) kvs) else Inl TypeError
      | PBytes s \<Rightarrow>
          (case x of
             PBytes t \<Rightarrow> Inr (str_contains t s)
           | PInt i \<Rightarrow> if 0 \<le> i \<and> i < 256 then Inr (list_ex (\<lambda>c. of_char c = i) s)
                       else Inl (ValueError ''byte must be in range(0, 256)'')
           | PBool b \<Rightarrow> Inr (list_ex (\<lambda>c. of_char c = (if b then 1 else 0 :: int)) s)
           | _ \<Rightarrow> Inl TypeError)
      | _ \<Rightarrow> Inl TypeError)"

text \<open>Lookup of a string key, \<^verbatim>\<open>d[key]\<close> and \<^verbatim>\<open>key in d\<close>.\<close>

fun dict_get :: "(pyval \<times> pyval) list \<Rightarrow> string \<Rightarrow> pyval option" where
  "dict_get [] k = None"
| "dict_get ((k', v) # kvs) k = (if k' = PStr k then Some v else dict_get kvs k)"

lemma dict_get_map_of: "dict_get kvs k = map_of kvs (PStr k)"
  by (induction kvs) auto

lemma py_eq_scalar_refl:
  "py_eq (PStr s) (PStr s)" "py_eq (PInt i) (PInt i)" "py_eq (PBool b) (PBool b)" "py_eq PNone PNone"
  by simp_all

section \<open>Reading parsed documents\<close>

text \<open>\<^verbatim>\<open>bool(x)\<close>.\<close>

fun py_truthy :: "pyval \<Rightarrow> bool" where
  "py_truthy PNone = False"
| "py_truthy (PBool b) = b"
| "py_truthy (PInt i) = (i \<noteq> 0)"
| "py_truthy (PFloat f) = (f \<noteq> FFin 0)"
| "py_truthy (PDecimal d) = (case d of Dec c e \<Rightarrow> c \<noteq> 0 | _ \<Rightarrow> True)"
| "py_truthy (PStr s) = (s \<noteq> [])"
| "py_truthy (PBytes s) = (s \<noteq> [])"
| "py_truthy (PList xs) = (xs \<noteq> [])"
| "py_truthy (PTuple xs) = (xs \<noteq> [])"
| "py_truthy (PSet xs) = (xs \<noteq> [])"
| "py_truthy (PDict kvs) = (kvs \<noteq> [])"
| "py_truthy _ = True"

text \<open>
  \<^verbatim>\<open>int(s)\<close> of a string: white space around it, a sign, digits with single underscores
  between them.
\<close>

definition int_literal :: "string \<Rightarrow> int option" where
  "int_literal s =
     (case take_sign (str_strip s) of (neg, t) \<Rightarrow>
        let groups = split_on CHR ''_'' t
        in if list_all (\<lambda>g. g \<noteq> [] \<and> list_all is_digit g) groups
           then Some ((if neg then - 1 else 1) * digits_value 0 (concat groups)) else None)"

definition truncate_rat :: "rat \<Rightarrow> int" where
  "truncate_rat q = (if q < 0 then - \<lfloor>- q\<rfloor> else \<lfloor>q\<rfloor>)"

fun py_int :: "pyval \<Rightarrow> int result" where
  "py_int (PInt i) = Inr i"
| "py_int (PBool b) = Inr (if b then 1 else 0)"
| "py_int (PStr s) =
     (case int_literal s of Some i \<Rightarrow> Inr i | None \<Rightarrow> Inl (ValueError ''invalid literal for int()''))"
| "py_int (PFloat f) =
     (case f of FFin q \<Rightarrow> Inr (truncate_rat q) | FInf _ \<Rightarrow> Inl OverflowError
      | FNaN \<Rightarrow> Inl (ValueError ''cannot convert float NaN to integer''))"
| "py_int (PDecimal d) =
     (case d of Dec c e \<Rightarrow> Inr (truncate_rat (dec_value c e)) | DInf _ \<Rightarrow> Inl OverflowError
      | DNaN \<Rightarrow> Inl (ValueError ''cannot convert NaN to integer''))"
| "py_int _ = Inl TypeError"

text \<open>
  \<^verbatim>\<open>data[key]\<close> with a string key, \<^verbatim>\<open>data.get(key, default)\<close> on a value that may not be a
  mapping, and iteration; the keys are what iterating a mapping yields.
\<close>

fun py_item :: "pyval \<Rightarrow> string \<Rightarrow> pyval result" where
  "py_item (PDict kvs) key = (case dict_get kvs key of Some v \<Rightarrow> Inr v | None \<Rightarrow> Inl KeyError)"
| "py_item _ key = Inl TypeError"

fun py_get :: "pyval \<Rightarrow> string \<Rightarrow> pyval \<Rightarrow> pyval result" where
  "py_get (PDict kvs) key dflt = Inr (case dict_get kvs key of Some v \<Rightarrow> v | None \<Rightarrow> dflt)"
| "py_get _ key dflt = Inl AttributeError"

fun py_iter :: "pyval \<Rightarrow> pyval list result" where
  "py_iter (PList xs) = Inr xs"
| "py_iter (PTuple xs) = Inr xs"
| "py_iter (PSet xs) = Inr xs"
| "py_iter (PDict kvs) = Inr (map fst kvs)"
| "py_iter (PStr s) = Inr (map (\<lambda>c. PStr [c]) s)"
| "py_iter (PBytes s) = Inr (map (\<lambda>c. PInt (of_char c)) s)"
| "py_iter _ = Inl TypeError"

section \<open>Decimal division and negation\<close>

definition decimal_value :: "decimal \<Rightarrow> rat" where
  "decimal_value d = (case d of Dec c e \<Rightarrow> dec_value c e | _ \<Rightarrow> 0)"

text \<open>\<^verbatim>\<open>-d\<close> rounds to the context precision.\<close>

definition decimal_neg :: "decimal \<Rightarrow> decimal" where
  "decimal_neg d =
     (case d of Dec c e \<Rightarrow> dec_round (- c) e | DInf neg \<Rightarrow> DInf (\<not> neg) | DNaN \<Rightarrow> DNaN)"

text \<open>
  The quotient of two integers at precision \<open>p\<close>: one guard digit with a sticky last digit for a
  remainder, then half-even rounding; an exact quotient gives up trailing zeros down to exponent 0.
\<close>

fun shed_zeros :: "nat \<Rightarrow> int \<Rightarrow> int \<Rightarrow> int \<times> int" where
  "shed_zeros 0 c e = (c, e)"
| "shed_zeros (Suc f) c e = (if e < 0 \<and> c mod 10 = 0 then shed_zeros f (c div 10) (e + 1) else (c, e))"

definition round_prec :: "nat \<Rightarrow> int \<Rightarrow> int \<Rightarrow> int \<times> int" where
  "round_prec p c e =
     (let extra = digit_count c - p in (round_half_even c (10 ^ extra), e + int extra))"

definition dec_div_int :: "nat \<Rightarrow> int \<Rightarrow> int \<Rightarrow> int \<times> int" where
  "dec_div_int p n d =
     (if n = 0 then (0, 0)
      else let shift = int (digit_count d) - int (digit_count n) + int p + 1;
               num = (if 0 \<le> shift then \<bar>n\<bar> * 10 ^ nat shift else \<bar>n\<bar>);
               den = (if 0 \<le> shift then \<bar>d\<bar> else \<bar>d\<bar> * 10 ^ nat (- shift));
               q = num div den;
               (c, e) = (if num mod den \<noteq> 0 then (if q mod 5 = 0 then q + 1 else q, - shift)
                         else shed_zeros (nat shift) q (- shift));
               (c', e') = round_prec p c e
           in (sgn n * sgn d * c', e'))"

end
