(* ===== verification/Enums.thy ===== *)
theory Enums
  imports PyText
begin

text \<open>
  The enumerations of \<^verbatim>\<open>domain/enums.py\<close> that the modelled code computes with. Each
  \<^verbatim>\<open>StrEnum\<close> is a datatype of the same name with the members as its constructors, so that
  \<open>ApprovalStatus.PENDING\<close> is written as in the code; \<open>_value\<close> functions give the string of a
  member where the code prints, hashes or parses it.
\<close>

text \<open>\<^verbatim>\<open>E(text)\<close>: the member with that value, \<open>None\<close> for the ValueError.\<close>

definition enum_of :: "('e \<Rightarrow> string) \<Rightarrow> 'e list \<Rightarrow> string \<Rightarrow> 'e option" where
  "enum_of value members s = find (\<lambda>m. value m = s) members"


datatype CandidateStatus =
    ELIGIBLE | ELIGIBLE_WITH_EXCEPTION | CONDITIONAL | SIRA_INELIGIBLE
  | SEIL_PASS | UNAVAILABLE | STALE_EVIDENCE | INSUFFICIENT_EVIDENCE | CONFLICTING_EVIDENCE
  | AUTHORITY_REQUIRED | ADVISORY_ONLY

fun CandidateStatus_value :: "CandidateStatus \<Rightarrow> string" where
  "CandidateStatus_value CandidateStatus.ELIGIBLE = ''ELIGIBLE''"
| "CandidateStatus_value CandidateStatus.ELIGIBLE_WITH_EXCEPTION = ''ELIGIBLE_WITH_EXCEPTION''"
| "CandidateStatus_value CandidateStatus.CONDITIONAL = ''CONDITIONAL''"
| "CandidateStatus_value CandidateStatus.SIRA_INELIGIBLE = ''SIRA_INELIGIBLE''"
| "CandidateStatus_value CandidateStatus.SEIL_PASS = ''SEIL_PASS''"
| "CandidateStatus_value CandidateStatus.UNAVAILABLE = ''UNAVAILABLE''"
| "CandidateStatus_value CandidateStatus.STALE_EVIDENCE = ''STALE_EVIDENCE''"
| "CandidateStatus_value CandidateStatus.INSUFFICIENT_EVIDENCE = ''INSUFFICIENT_EVIDENCE''"
| "CandidateStatus_value CandidateStatus.CONFLICTING_EVIDENCE = ''CONFLICTING_EVIDENCE''"
| "CandidateStatus_value CandidateStatus.AUTHORITY_REQUIRED = ''AUTHORITY_REQUIRED''"
| "CandidateStatus_value CandidateStatus.ADVISORY_ONLY = ''ADVISORY_ONLY''"

datatype RankStability =
    STABLE | UNSTABLE | UNDETERMINED

fun RankStability_value :: "RankStability \<Rightarrow> string" where
  "RankStability_value RankStability.STABLE = ''STABLE''"
| "RankStability_value RankStability.UNSTABLE = ''UNSTABLE''"
| "RankStability_value RankStability.UNDETERMINED = ''UNDETERMINED''"

datatype PackAuthority =
    SELLER_SEALED | PLATFORM_COMPILED | EXTERNAL_UNSEALED

fun PackAuthority_value :: "PackAuthority \<Rightarrow> string" where
  "PackAuthority_value PackAuthority.SELLER_SEALED = ''SELLER_SEALED''"
| "PackAuthority_value PackAuthority.PLATFORM_COMPILED = ''PLATFORM_COMPILED''"
| "PackAuthority_value PackAuthority.EXTERNAL_UNSEALED = ''EXTERNAL_UNSEALED''"

datatype ApprovalStatus =
    NOT_REQUIRED | NOT_REQUESTED | PENDING | APPROVED | REJECTED
  | REVOKED | EXPIRED | SUPERSEDED

datatype PaymentStatus =
    NOT_REQUIRED | NOT_STARTED | SESSION_CREATED | CARDHOLDER_PENDING
  | CHECKOUT_PENDING | MERCHANT_APPROVED | REPORTING | PRAVA_COMPLETED | DECLINED | EXPIRED
  | UNCERTAIN | FAILED

datatype FulfillmentStatus =
    NOT_REQUIRED | NOT_STARTED | PENDING | PARTIAL | VERIFIED
  | FAILED_RETRYABLE | FAILED_FINAL | REVOKED

datatype PurchaseState =
    AWAITING_APPROVAL | APPROVED_NOT_STARTED | PAYMENT_IN_PROGRESS
  | PAYMENT_NOT_COMPLETED | PAYMENT_UNCERTAIN | PAID_UNFULFILLED | PURCHASE_FULFILLED
  | REFUND_PENDING | REFUNDED

datatype ReversalStatus =
    REQUESTED | PROVIDER_PENDING | PARTIALLY_REFUNDED | REFUNDED
  | REJECTED | FAILED_RETRYABLE | COMPENSATION_REQUIRED | COMPENSATED | CANCELLED

datatype SolutionAction =
    REUSE_EXISTING | CONFIGURE_EXISTING | NO_ACTION | BUY | RENEW
  | RESIZE | REPLACE | CONSOLIDATE | CANCEL

fun SolutionAction_value :: "SolutionAction \<Rightarrow> string" where
  "SolutionAction_value SolutionAction.REUSE_EXISTING = ''REUSE_EXISTING''"
| "SolutionAction_value SolutionAction.CONFIGURE_EXISTING = ''CONFIGURE_EXISTING''"
| "SolutionAction_value SolutionAction.NO_ACTION = ''NO_ACTION''"
| "SolutionAction_value SolutionAction.BUY = ''BUY''"
| "SolutionAction_value SolutionAction.RENEW = ''RENEW''"
| "SolutionAction_value SolutionAction.RESIZE = ''RESIZE''"
| "SolutionAction_value SolutionAction.REPLACE = ''REPLACE''"
| "SolutionAction_value SolutionAction.CONSOLIDATE = ''CONSOLIDATE''"
| "SolutionAction_value SolutionAction.CANCEL = ''CANCEL''"

datatype StackRisk =
    LOW | MEDIUM | HIGH | CRITICAL

fun StackRisk_value :: "StackRisk \<Rightarrow> string" where
  "StackRisk_value StackRisk.LOW = ''LOW''"
| "StackRisk_value StackRisk.MEDIUM = ''MEDIUM''"
| "StackRisk_value StackRisk.HIGH = ''HIGH''"
| "StackRisk_value StackRisk.CRITICAL = ''CRITICAL''"

datatype TruthValue =
    TRUE | FALSE | UNKNOWN | CONFLICT | UNRESOLVED

fun TruthValue_value :: "TruthValue \<Rightarrow> string" where
  "TruthValue_value TruthValue.TRUE = ''TRUE''"
| "TruthValue_value TruthValue.FALSE = ''FALSE''"
| "TruthValue_value TruthValue.UNKNOWN = ''UNKNOWN''"
| "TruthValue_value TruthValue.CONFLICT = ''CONFLICT''"
| "TruthValue_value TruthValue.UNRESOLVED = ''UNRESOLVED''"

datatype RuleOperator =
    EQ | NEQ | IN | NOT_IN | CONTAINS | CONTAINS_ALL | GTE | LTE | GT | LT
  | EXISTS | DATE_BEFORE | DATE_ON_OR_BEFORE | DATE_AFTER | DATE_ON_OR_AFTER

fun RuleOperator_value :: "RuleOperator \<Rightarrow> string" where
  "RuleOperator_value RuleOperator.EQ = ''eq''"
| "RuleOperator_value RuleOperator.NEQ = ''neq''"
| "RuleOperator_value RuleOperator.IN = ''in''"
| "RuleOperator_value RuleOperator.NOT_IN = ''not_in''"
| "RuleOperator_value RuleOperator.CONTAINS = ''contains''"
| "RuleOperator_value RuleOperator.CONTAINS_ALL = ''contains_all''"
| "RuleOperator_value RuleOperator.GTE = ''gte''"
| "RuleOperator_value RuleOperator.LTE = ''lte''"
| "RuleOperator_value RuleOperator.GT = ''gt''"
| "RuleOperator_value RuleOperator.LT = ''lt''"
| "RuleOperator_value RuleOperator.EXISTS = ''exists''"
| "RuleOperator_value RuleOperator.DATE_BEFORE = ''date_before''"
| "RuleOperator_value RuleOperator.DATE_ON_OR_BEFORE = ''date_on_or_before''"
| "RuleOperator_value RuleOperator.DATE_AFTER = ''date_after''"
| "RuleOperator_value RuleOperator.DATE_ON_OR_AFTER = ''date_on_or_after''"

datatype ProductInstanceState =
    PROPOSED | CONTRACTED | PROVISIONED | DEPLOYING | ACTIVE
  | DEGRADED | RETIRING | CANCELLED

fun ProductInstanceState_value :: "ProductInstanceState \<Rightarrow> string" where
  "ProductInstanceState_value ProductInstanceState.PROPOSED = ''proposed''"
| "ProductInstanceState_value ProductInstanceState.CONTRACTED = ''contracted''"
| "ProductInstanceState_value ProductInstanceState.PROVISIONED = ''provisioned''"
| "ProductInstanceState_value ProductInstanceState.DEPLOYING = ''deploying''"
| "ProductInstanceState_value ProductInstanceState.ACTIVE = ''active''"
| "ProductInstanceState_value ProductInstanceState.DEGRADED = ''degraded''"
| "ProductInstanceState_value ProductInstanceState.RETIRING = ''retiring''"
| "ProductInstanceState_value ProductInstanceState.CANCELLED = ''cancelled''"

datatype StackPatchStatus =
    DRAFT | VALIDATED | AWAITING_APPROVAL | APPROVED | APPLYING
  | APPLIED | CONFLICT | FAILED | COMPENSATING_PATCH

fun StackRisk_rank :: "StackRisk \<Rightarrow> int" where
  "StackRisk_rank StackRisk.LOW = 0"
| "StackRisk_rank StackRisk.MEDIUM = 1"
| "StackRisk_rank StackRisk.HIGH = 2"
| "StackRisk_rank StackRisk.CRITICAL = 3"

definition all_RuleOperator :: "RuleOperator list" where
  "all_RuleOperator =
     [RuleOperator.EQ, RuleOperator.NEQ, RuleOperator.IN, RuleOperator.NOT_IN, RuleOperator.CONTAINS,
      RuleOperator.CONTAINS_ALL, RuleOperator.GTE, RuleOperator.LTE, RuleOperator.GT, RuleOperator.LT,
      RuleOperator.EXISTS, RuleOperator.DATE_BEFORE, RuleOperator.DATE_ON_OR_BEFORE,
      RuleOperator.DATE_AFTER, RuleOperator.DATE_ON_OR_AFTER]"

definition all_StackRisk :: "StackRisk list" where
  "all_StackRisk = [StackRisk.LOW, StackRisk.MEDIUM, StackRisk.HIGH, StackRisk.CRITICAL]"

definition all_ProductInstanceState :: "ProductInstanceState list" where
  "all_ProductInstanceState =
     [ProductInstanceState.PROPOSED, ProductInstanceState.CONTRACTED, ProductInstanceState.PROVISIONED,
      ProductInstanceState.DEPLOYING, ProductInstanceState.ACTIVE, ProductInstanceState.DEGRADED,
      ProductInstanceState.RETIRING, ProductInstanceState.CANCELLED]"

text \<open>Risks are ordered by their rank, so that \<open>max\<close> and sorting apply to them.\<close>

lemma StackRisk_rank_inject [simp]: "StackRisk_rank a = StackRisk_rank b \<longleftrightarrow> a = b"
  by (cases a; cases b) auto

instantiation StackRisk :: linorder
begin

definition less_eq_StackRisk :: "StackRisk \<Rightarrow> StackRisk \<Rightarrow> bool" where
  "less_eq_StackRisk a b = (StackRisk_rank a \<le> StackRisk_rank b)"

definition less_StackRisk :: "StackRisk \<Rightarrow> StackRisk \<Rightarrow> bool" where
  "less_StackRisk a b = (StackRisk_rank a < StackRisk_rank b)"

instance
  by standard (auto simp: less_eq_StackRisk_def less_StackRisk_def)

end

section \<open>Lifecycle statuses as the rows hold them\<close>

fun PaymentStatus_value :: "PaymentStatus \<Rightarrow> string" where
  "PaymentStatus_value PaymentStatus.NOT_REQUIRED = ''NOT_REQUIRED''"
| "PaymentStatus_value PaymentStatus.NOT_STARTED = ''NOT_STARTED''"
| "PaymentStatus_value PaymentStatus.SESSION_CREATED = ''SESSION_CREATED''"
| "PaymentStatus_value PaymentStatus.CARDHOLDER_PENDING = ''CARDHOLDER_PENDING''"
| "PaymentStatus_value PaymentStatus.CHECKOUT_PENDING = ''CHECKOUT_PENDING''"
| "PaymentStatus_value PaymentStatus.MERCHANT_APPROVED = ''MERCHANT_APPROVED''"
| "PaymentStatus_value PaymentStatus.REPORTING = ''REPORTING''"
| "PaymentStatus_value PaymentStatus.PRAVA_COMPLETED = ''PRAVA_COMPLETED''"
| "PaymentStatus_value PaymentStatus.DECLINED = ''DECLINED''"
| "PaymentStatus_value PaymentStatus.EXPIRED = ''EXPIRED''"
| "PaymentStatus_value PaymentStatus.UNCERTAIN = ''UNCERTAIN''"
| "PaymentStatus_value PaymentStatus.FAILED = ''FAILED''"

fun FulfillmentStatus_value :: "FulfillmentStatus \<Rightarrow> string" where
  "FulfillmentStatus_value FulfillmentStatus.NOT_REQUIRED = ''NOT_REQUIRED''"
| "FulfillmentStatus_value FulfillmentStatus.NOT_STARTED = ''NOT_STARTED''"
| "FulfillmentStatus_value FulfillmentStatus.PENDING = ''PENDING''"
| "FulfillmentStatus_value FulfillmentStatus.PARTIAL = ''PARTIAL''"
| "FulfillmentStatus_value FulfillmentStatus.VERIFIED = ''VERIFIED''"
| "FulfillmentStatus_value FulfillmentStatus.FAILED_RETRYABLE = ''FAILED_RETRYABLE''"
| "FulfillmentStatus_value FulfillmentStatus.FAILED_FINAL = ''FAILED_FINAL''"
| "FulfillmentStatus_value FulfillmentStatus.REVOKED = ''REVOKED''"

fun ReversalStatus_value :: "ReversalStatus \<Rightarrow> string" where
  "ReversalStatus_value ReversalStatus.REQUESTED = ''REQUESTED''"
| "ReversalStatus_value ReversalStatus.PROVIDER_PENDING = ''PROVIDER_PENDING''"
| "ReversalStatus_value ReversalStatus.PARTIALLY_REFUNDED = ''PARTIALLY_REFUNDED''"
| "ReversalStatus_value ReversalStatus.REFUNDED = ''REFUNDED''"
| "ReversalStatus_value ReversalStatus.REJECTED = ''REJECTED''"
| "ReversalStatus_value ReversalStatus.FAILED_RETRYABLE = ''FAILED_RETRYABLE''"
| "ReversalStatus_value ReversalStatus.COMPENSATION_REQUIRED = ''COMPENSATION_REQUIRED''"
| "ReversalStatus_value ReversalStatus.COMPENSATED = ''COMPENSATED''"
| "ReversalStatus_value ReversalStatus.CANCELLED = ''CANCELLED''"

definition all_ReversalStatus :: "ReversalStatus list" where
  "all_ReversalStatus =
     [ReversalStatus.REQUESTED, ReversalStatus.PROVIDER_PENDING, ReversalStatus.PARTIALLY_REFUNDED,
      ReversalStatus.REFUNDED, ReversalStatus.REJECTED, ReversalStatus.FAILED_RETRYABLE,
      ReversalStatus.COMPENSATION_REQUIRED, ReversalStatus.COMPENSATED, ReversalStatus.CANCELLED]"

definition all_PaymentStatus :: "PaymentStatus list" where
  "all_PaymentStatus =
     [PaymentStatus.NOT_REQUIRED, PaymentStatus.NOT_STARTED, PaymentStatus.SESSION_CREATED,
      PaymentStatus.CARDHOLDER_PENDING, PaymentStatus.CHECKOUT_PENDING, PaymentStatus.MERCHANT_APPROVED,
      PaymentStatus.REPORTING, PaymentStatus.PRAVA_COMPLETED, PaymentStatus.DECLINED,
      PaymentStatus.EXPIRED, PaymentStatus.UNCERTAIN, PaymentStatus.FAILED]"

definition all_FulfillmentStatus :: "FulfillmentStatus list" where
  "all_FulfillmentStatus =
     [FulfillmentStatus.NOT_REQUIRED, FulfillmentStatus.NOT_STARTED, FulfillmentStatus.PENDING,
      FulfillmentStatus.PARTIAL, FulfillmentStatus.VERIFIED, FulfillmentStatus.FAILED_RETRYABLE,
      FulfillmentStatus.FAILED_FINAL, FulfillmentStatus.REVOKED]"

end
