(* ===== verification/Rules.thy ===== *)
theory Rules
  imports PyValue Enums
begin

text \<open>
  \<^verbatim>\<open>domain/rules.py\<close>: the three-valued rule grammar. A condition looks a dotted path up in
  a context and compares the value found with an expected one; a missing, null or incomparable
  value makes it UNRESOLVED. An expression combines conditions in mode \<^verbatim>\<open>all\<close> or
  \<^verbatim>\<open>any\<close>.
\<close>

section \<open>Resolving a dotted path\<close>

definition path_segment_ok :: "string \<Rightarrow> bool" where
  "path_segment_ok s =
     (case s of
        [] \<Rightarrow> False
      | c # cs \<Rightarrow> is_lower c \<and> list_all (\<lambda>x. is_lower x \<or> is_digit x \<or> x = CHR ''_'') cs)"

definition field_path_matches :: "string \<Rightarrow> bool" where
  "field_path_matches path = list_all path_segment_ok (split_on CHR ''.'' path)"

fun walk_path :: "pyval \<Rightarrow> string list \<Rightarrow> pyval option result" where
  "walk_path current [] = Inr (Some current)"
| "walk_path current (segment # rest) =
     (if segment = [] \<or> prefix ''_'' segment
      then Inl (DomainValidationError ''private or empty field path segments are prohibited'')
      else case current of
             PDict kvs \<Rightarrow>
               (case dict_get kvs segment of Some v \<Rightarrow> walk_path v rest | None \<Rightarrow> Inr None)
           | _ \<Rightarrow> Inr None)"

definition resolve_field :: "pyval \<Rightarrow> string \<Rightarrow> pyval option result" where
  "resolve_field context path =
     (if field_path_matches path then walk_path context (split_on CHR ''.'' path)
      else Inl (DomainValidationError ''rule field must be a valid dotted path''))"

section \<open>Conversions and equality\<close>

definition as_decimal :: "pyval \<Rightarrow> decimal result" where
  "as_decimal v =
     (case v of
        PDecimal d \<Rightarrow> Inr d
      | PInt i \<Rightarrow> Inr (decimal_of_int i)
      | PStr s \<Rightarrow> decimal_of_str s
      | _ \<Rightarrow> Inl InvalidOperation)"

definition as_date :: "pyval \<Rightarrow> int result" where
  "as_date v =
     (case v of
        PDateTime t off \<Rightarrow> Inr (t div day_us + 1)
      | PDate d \<Rightarrow> Inr d
      | PStr s \<Rightarrow> (case date_fromisoformat s of
                     Some d \<Rightarrow> Inr d | None \<Rightarrow> Inl (ValueError ''Invalid isoformat string''))
      | _ \<Rightarrow> Inl (ValueError ''''))"

definition collection :: "pyval \<Rightarrow> bool" where
  "collection v = (elements v \<noteq> None)"

definition strict_equal :: "pyval \<Rightarrow> pyval \<Rightarrow> bool" where
  "strict_equal left right =
     (if is_bool left \<or> is_bool right then is_bool left \<and> is_bool right \<and> left = right
      else py_eq left right)"

section \<open>Conditions\<close>

record RuleCondition =
  rc_field :: string
  rc_operator :: RuleOperator
  rc_value :: pyval

text \<open>The operator argument of the constructor: a member, or text that is looked up.\<close>

datatype operator_arg = OpMember RuleOperator | OpText string

definition coerce_operator :: "operator_arg \<Rightarrow> RuleOperator result" where
  "coerce_operator a =
     (case a of
        OpMember m \<Rightarrow> Inr m
      | OpText s \<Rightarrow>
          (case enum_of RuleOperator_value all_RuleOperator s of
             Some m \<Rightarrow> Inr m
           | None \<Rightarrow> Inl (DomainValidationError ''unsupported rule operator'')))"

definition mk_RuleCondition :: "string \<Rightarrow> operator_arg \<Rightarrow> pyval \<Rightarrow> RuleCondition result" where
  "mk_RuleCondition field operator value =
     bindR (coerce_operator operator) (\<lambda>op.
     bindR (resolve_field (PDict []) field) (\<lambda>_.
       if op \<in> {RuleOperator.IN, RuleOperator.NOT_IN, RuleOperator.CONTAINS_ALL}
          \<and> \<not> collection value
       then Inl (DomainValidationError (RuleOperator_value op @ '' requires a list-like value''))
       else if op = RuleOperator.EXISTS \<and> \<not> is_bool value
       then Inl (DomainValidationError ''exists requires a boolean expected value'')
       else Inr \<lparr>rc_field = field, rc_operator = op, rc_value = value\<rparr>))"

definition any_equal :: "pyval \<Rightarrow> pyval \<Rightarrow> bool result" where
  "any_equal actual expected =
     (case elements expected of
        None \<Rightarrow> Inl TypeError
      | Some items \<Rightarrow> Inr (list_ex (strict_equal actual) items))"

definition compare_decimals :: "RuleOperator \<Rightarrow> decimal \<Rightarrow> decimal \<Rightarrow> bool result" where
  "compare_decimals op left right =
     bindR (dec_le right left) (\<lambda>ge.
     bindR (dec_le left right) (\<lambda>le.
     bindR (dec_less right left) (\<lambda>gt.
     bindR (dec_less left right) (\<lambda>lt.
       Inr (case op of RuleOperator.GTE \<Rightarrow> ge | RuleOperator.LTE \<Rightarrow> le | RuleOperator.GT \<Rightarrow> gt | _ \<Rightarrow> lt)))))"

definition compare_dates :: "RuleOperator \<Rightarrow> int \<Rightarrow> int \<Rightarrow> bool" where
  "compare_dates op left right =
     (case op of
        RuleOperator.DATE_BEFORE \<Rightarrow> left < right
      | RuleOperator.DATE_ON_OR_BEFORE \<Rightarrow> left \<le> right
      | RuleOperator.DATE_AFTER \<Rightarrow> left > right
      | _ \<Rightarrow> left \<ge> right)"

definition compare_values :: "RuleOperator \<Rightarrow> pyval \<Rightarrow> pyval \<Rightarrow> bool result" where
  "compare_values op actual expected =
     (if op = RuleOperator.EQ then Inr (strict_equal actual expected)
      else if op = RuleOperator.NEQ then Inr (\<not> strict_equal actual expected)
      else if op = RuleOperator.IN then any_equal actual expected
      else if op = RuleOperator.NOT_IN then mapR_res Not (any_equal actual expected)
      else if op = RuleOperator.CONTAINS then py_contains actual expected
      else if op = RuleOperator.CONTAINS_ALL then
        (case (elements actual, elements expected) of
           (None, _) \<Rightarrow> Inl TypeError
         | (_, None) \<Rightarrow> Inl TypeError
         | (Some present, Some needed) \<Rightarrow>
             Inr (list_all (\<lambda>item. list_ex (strict_equal item) present) needed))
      else if op \<in> {RuleOperator.GTE, RuleOperator.LTE, RuleOperator.GT, RuleOperator.LT} then
        bindR (as_decimal actual) (\<lambda>left. bindR (as_decimal expected) (\<lambda>right.
          compare_decimals op left right))
      else if op \<in> {RuleOperator.DATE_BEFORE, RuleOperator.DATE_ON_OR_BEFORE,
                    RuleOperator.DATE_AFTER, RuleOperator.DATE_ON_OR_AFTER} then
        bindR (as_date actual) (\<lambda>left. bindR (as_date expected) (\<lambda>right.
          Inr (compare_dates op left right)))
      else Inl (DomainValidationError ''unsupported operator''))"

record RuleEvaluation =
  re_value :: TruthValue
  re_unresolved_fields :: "string list"

definition of_bool_truth :: "bool \<Rightarrow> TruthValue" where
  "of_bool_truth b = (if b then TruthValue.TRUE else TruthValue.FALSE)"

text \<open>
  The exceptions \<^verbatim>\<open>evaluate\<close> catches around the comparison: \<^verbatim>\<open>InvalidOperation\<close>,
  \<^verbatim>\<open>TypeError\<close>, \<^verbatim>\<open>ValueError\<close> and its subclasses.
\<close>

definition compare_caught :: "py_error \<Rightarrow> bool" where
  "compare_caught e =
     (case e of
        DomainValidationError _ \<Rightarrow> True
      | InvalidTransitionError _ \<Rightarrow> True
      | ValueError _ \<Rightarrow> True
      | TypeError \<Rightarrow> True
      | InvalidOperation \<Rightarrow> True
      | _ \<Rightarrow> False)"

definition RuleCondition_evaluate :: "RuleCondition \<Rightarrow> pyval \<Rightarrow> RuleEvaluation result" where
  "RuleCondition_evaluate c context =
     bindR (resolve_field context (rc_field c)) (\<lambda>found.
       if rc_operator c = RuleOperator.EXISTS then
         Inr \<lparr>re_value = of_bool_truth
                (py_eq (PBool (found \<noteq> None \<and> found \<noteq> Some PNone)) (rc_value c)),
              re_unresolved_fields = []\<rparr>
       else case found of
         None \<Rightarrow> Inr \<lparr>re_value = TruthValue.UNRESOLVED, re_unresolved_fields = [rc_field c]\<rparr>
       | Some actual \<Rightarrow>
           if actual = PNone
           then Inr \<lparr>re_value = TruthValue.UNRESOLVED, re_unresolved_fields = [rc_field c]\<rparr>
           else case compare_values (rc_operator c) actual (rc_value c) of
                  Inr matched \<Rightarrow> Inr \<lparr>re_value = of_bool_truth matched, re_unresolved_fields = []\<rparr>
                | Inl e \<Rightarrow>
                    if compare_caught e
                    then Inr \<lparr>re_value = TruthValue.UNRESOLVED, re_unresolved_fields = [rc_field c]\<rparr>
                    else Inl e)"

section \<open>Expressions\<close>

record RuleExpression =
  rx_conditions :: "RuleCondition list"
  rx_mode :: string

definition mk_RuleExpression :: "RuleCondition list \<Rightarrow> string \<Rightarrow> RuleExpression result" where
  "mk_RuleExpression conditions mode =
     (if conditions = []
      then Inl (DomainValidationError ''a rule expression needs at least one condition'')
      else if mode \<noteq> ''all'' \<and> mode \<noteq> ''any''
      then Inl (DomainValidationError ''rule expression mode must be all or any'')
      else Inr \<lparr>rx_conditions = conditions, rx_mode = mode\<rparr>)"

definition combine_evaluations :: "string \<Rightarrow> RuleEvaluation list \<Rightarrow> RuleEvaluation" where
  "combine_evaluations mode results =
     (let unresolved = sorted_set (concat (map re_unresolved_fields results));
          vals = map re_value results
      in if mode = ''all'' then
           if TruthValue.FALSE \<in> set vals
           then \<lparr>re_value = TruthValue.FALSE, re_unresolved_fields = unresolved\<rparr>
           else if TruthValue.UNRESOLVED \<in> set vals
           then \<lparr>re_value = TruthValue.UNRESOLVED, re_unresolved_fields = unresolved\<rparr>
           else \<lparr>re_value = TruthValue.TRUE, re_unresolved_fields = []\<rparr>
         else if TruthValue.TRUE \<in> set vals
         then \<lparr>re_value = TruthValue.TRUE, re_unresolved_fields = unresolved\<rparr>
         else if TruthValue.UNRESOLVED \<in> set vals
         then \<lparr>re_value = TruthValue.UNRESOLVED, re_unresolved_fields = unresolved\<rparr>
         else \<lparr>re_value = TruthValue.FALSE, re_unresolved_fields = []\<rparr>)"

definition RuleExpression_evaluate :: "RuleExpression \<Rightarrow> pyval \<Rightarrow> RuleEvaluation result" where
  "RuleExpression_evaluate x context =
     bindR (traverse (\<lambda>c. RuleCondition_evaluate c context) (rx_conditions x)) (\<lambda>results.
       Inr (combine_evaluations (rx_mode x) results))"

section \<open>Well-formed rules evaluate\<close>

text \<open>What the constructors guarantee of the objects they return.\<close>

definition wf_condition :: "RuleCondition \<Rightarrow> bool" where
  "wf_condition c =
     (field_path_matches (rc_field c)
      \<and> (rc_operator c \<in> {RuleOperator.IN, RuleOperator.NOT_IN, RuleOperator.CONTAINS_ALL}
           \<longrightarrow> collection (rc_value c))
      \<and> (rc_operator c = RuleOperator.EXISTS \<longrightarrow> is_bool (rc_value c)))"

definition wf_expression :: "RuleExpression \<Rightarrow> bool" where
  "wf_expression x =
     (rx_conditions x \<noteq> [] \<and> list_all wf_condition (rx_conditions x)
      \<and> (rx_mode x = ''all'' \<or> rx_mode x = ''any''))"

lemma path_segment_ok_public:
  "path_segment_ok s \<Longrightarrow> s \<noteq> [] \<and> \<not> prefix ''_'' s"
  by (auto simp: path_segment_ok_def is_lower_def less_eq_char_def split: list.splits)

lemma walk_path_total:
  "list_all path_segment_ok segs \<Longrightarrow> \<exists>r. walk_path v segs = Inr r"
proof (induction segs arbitrary: v)
  case Nil
  then show ?case by simp
next
  case (Cons s segs)
  then have s: "s \<noteq> []" "\<not> prefix ''_'' s" and rest: "\<And>v. \<exists>r. walk_path v segs = Inr r"
    using path_segment_ok_public by auto
  show ?case
  proof (cases v)
    case (PDict kvs)
    then show ?thesis using s rest by (cases "dict_get kvs s") auto
  qed (use s in auto)
qed

lemma resolve_field_ok_iff:
  "(\<exists>r. resolve_field v p = Inr r) \<longleftrightarrow> field_path_matches p"
  using walk_path_total by (auto simp: resolve_field_def field_path_matches_def)

lemma resolve_field_total: "field_path_matches p \<Longrightarrow> \<exists>r. resolve_field v p = Inr r"
  by (simp add: resolve_field_ok_iff)

lemma mk_RuleCondition_wf: "mk_RuleCondition f op v = Inr c \<Longrightarrow> wf_condition c"
  by (auto simp: mk_RuleCondition_def wf_condition_def result_simps split: if_splits
      dest: resolve_field_ok_iff [THEN iffD1, OF exI])

lemma py_contains_caught: "py_contains c x = Inl e \<Longrightarrow> compare_caught e"
  by (auto simp: py_contains_def compare_caught_def split: pyval.splits if_splits)

lemma as_decimal_error: "as_decimal v = Inl e \<Longrightarrow> e = InvalidOperation"
  by (auto simp: as_decimal_def decimal_of_str_def split: pyval.splits option.splits)

lemma dec_less_error: "dec_less a b = Inl e \<Longrightarrow> e = InvalidOperation"
  by (cases "(a, b)" rule: dec_less.cases) auto

lemma dec_le_error: "dec_le a b = Inl e \<Longrightarrow> e = InvalidOperation"
  by (auto simp: dec_le_def bindR_Inl_iff dest: dec_less_error)

lemma compare_decimals_error: "compare_decimals op a b = Inl e \<Longrightarrow> e = InvalidOperation"
  by (auto simp: compare_decimals_def bindR_Inl_iff dest: dec_less_error dec_le_error)

lemma as_date_error: "as_date v = Inl e \<Longrightarrow> compare_caught e"
  by (auto simp: as_date_def compare_caught_def split: pyval.splits option.splits)

lemma any_equal_error: "any_equal a x = Inl e \<Longrightarrow> compare_caught e"
  by (auto simp: any_equal_def compare_caught_def split: option.splits)

lemma compare_values_error: "compare_values op a x = Inl e \<Longrightarrow> compare_caught e"
  by (auto simp: compare_values_def bindR_Inl_iff mapR_res_def
      dest: any_equal_error py_contains_caught as_decimal_error compare_decimals_error as_date_error
      split: if_splits option.splits)
     (auto simp: compare_caught_def dest: as_decimal_error compare_decimals_error)

lemma of_bool_truth_simps [simp]:
  "of_bool_truth b = TruthValue.TRUE \<longleftrightarrow> b"
  "of_bool_truth b = TruthValue.FALSE \<longleftrightarrow> \<not> b"
  "of_bool_truth b \<noteq> TruthValue.UNRESOLVED"
  by (simp_all add: of_bool_truth_def)

text \<open>A condition's outcome: a truth value, or UNRESOLVED naming exactly its own field.\<close>

definition condition_outcome :: "RuleCondition \<Rightarrow> RuleEvaluation \<Rightarrow> bool" where
  "condition_outcome c e =
     ((\<exists>b. e = \<lparr>re_value = of_bool_truth b, re_unresolved_fields = []\<rparr>)
      \<or> e = \<lparr>re_value = TruthValue.UNRESOLVED, re_unresolved_fields = [rc_field c]\<rparr>)"

lemma RuleCondition_evaluate_outcome:
  "RuleCondition_evaluate c ctx = Inr e \<Longrightarrow> condition_outcome c e"
  unfolding RuleCondition_evaluate_def condition_outcome_def bindR_Inr_iff
  by (auto split: if_splits option.splits sum.splits)

lemma RuleCondition_evaluate_total:
  assumes "wf_condition c"
  shows "\<exists>e. RuleCondition_evaluate c ctx = Inr e"
proof -
  obtain r where r: "resolve_field ctx (rc_field c) = Inr r"
    using assms resolve_field_total by (auto simp: wf_condition_def)
  have "\<exists>e. (case compare_values op a v of
            Inr matched \<Rightarrow> Inr \<lparr>re_value = of_bool_truth matched, re_unresolved_fields = []\<rparr>
          | Inl e \<Rightarrow> if compare_caught e
              then Inr \<lparr>re_value = TruthValue.UNRESOLVED, re_unresolved_fields = [rc_field c]\<rparr>
              else Inl e) = Inr e" for op a v
    using compare_values_error by (cases "compare_values op a v") auto
  then show ?thesis
    by (simp add: RuleCondition_evaluate_def r split: option.splits)
qed

lemma RuleExpression_evaluate_total:
  assumes "wf_expression x"
  shows "\<exists>e. RuleExpression_evaluate x ctx = Inr e"
proof -
  have "\<forall>c\<in>set (rx_conditions x). \<exists>e. RuleCondition_evaluate c ctx = Inr e"
    using assms RuleCondition_evaluate_total by (auto simp: wf_expression_def list_all_iff)
  then obtain g where "\<And>c. c \<in> set (rx_conditions x) \<Longrightarrow> RuleCondition_evaluate c ctx = Inr (g c)"
    by metis
  then have "traverse (\<lambda>c. RuleCondition_evaluate c ctx) (rx_conditions x)
             = Inr (map g (rx_conditions x))"
    by (rule traverse_ok)
  then show ?thesis by (simp add: RuleExpression_evaluate_def)
qed

section \<open>Properties\<close>

text \<open>The specification of the two modes: strong Kleene conjunction and disjunction.\<close>

fun truth_level :: "TruthValue \<Rightarrow> nat" where
  "truth_level TruthValue.FALSE = 0"
| "truth_level TruthValue.TRUE = 2"
| "truth_level _ = 1"

definition kleene :: "string \<Rightarrow> TruthValue list \<Rightarrow> nat" where
  "kleene mode vs = (if mode = ''all'' then Min (truth_level ` set vs) else Max (truth_level ` set vs))"

lemma Min_level:
  assumes "finite A" "A \<noteq> {}" "A \<subseteq> {0, 1, 2 :: nat}"
  shows "Min A = (if 0 \<in> A then 0 else if 1 \<in> A then 1 else 2)"
    and "Max A = (if 2 \<in> A then 2 else if 1 \<in> A then 1 else 0)"
proof -
  have cases: "\<And>y. y \<in> A \<Longrightarrow> y = 0 \<or> y = 1 \<or> y = 2" using assms(3) by auto
  obtain a where "a \<in> A" using assms(2) by auto
  then show "Min A = (if 0 \<in> A then 0 else if 1 \<in> A then 1 else 2)"
    using cases by (intro Min_eqI [OF assms(1)]) (force split: if_splits)+
  from \<open>a \<in> A\<close> show "Max A = (if 2 \<in> A then 2 else if 1 \<in> A then 1 else 0)"
    using cases by (intro Max_eqI [OF assms(1)]) (force split: if_splits)+
qed

lemma condition_outcome_value:
  "condition_outcome c e \<Longrightarrow> re_value e \<in> {TruthValue.TRUE, TruthValue.FALSE, TruthValue.UNRESOLVED}"
  by (auto simp: condition_outcome_def)

lemma combine_evaluations_kleene:
  assumes "es \<noteq> []" "\<forall>e\<in>set es. \<exists>c. condition_outcome c e"
  shows "truth_level (re_value (combine_evaluations mode es)) = kleene mode (map re_value es)"
proof -
  let ?A = "truth_level ` set (map re_value es)"
  have v: "re_value e \<in> {TruthValue.TRUE, TruthValue.FALSE, TruthValue.UNRESOLVED}" if "e \<in> set es" for e
    using assms(2) that condition_outcome_value by blast
  then have sub: "?A \<subseteq> {0, 1, 2}" by fastforce
  have lvl: "0 \<in> ?A \<longleftrightarrow> TruthValue.FALSE \<in> set (map re_value es)"
    "1 \<in> ?A \<longleftrightarrow> TruthValue.UNRESOLVED \<in> set (map re_value es)"
    "2 \<in> ?A \<longleftrightarrow> TruthValue.TRUE \<in> set (map re_value es)"
    using v by (force simp: image_iff)+
  have "finite ?A" "?A \<noteq> {}" using assms(1) by auto
  note mm = Min_level [OF this sub]
  show ?thesis
    unfolding kleene_def mm lvl by (simp add: combine_evaluations_def Let_def)
qed

lemma combine_evaluations_unresolved:
  assumes "\<forall>e\<in>set es. \<exists>c\<in>cs. condition_outcome c e"
    and "re_value (combine_evaluations mode es) = TruthValue.UNRESOLVED"
  shows "re_unresolved_fields (combine_evaluations mode es) \<noteq> []
         \<and> set (re_unresolved_fields (combine_evaluations mode es)) \<subseteq> rc_field ` cs"
proof -
  have sub: "set (re_unresolved_fields e) \<subseteq> rc_field ` cs" if "e \<in> set es" for e
    using assms(1) that by (auto simp: condition_outcome_def)
  obtain e where e: "e \<in> set es" "re_value e = TruthValue.UNRESOLVED"
    using assms(2) by (auto simp: combine_evaluations_def Let_def split: if_splits)
  then have "re_unresolved_fields e \<noteq> []"
    using assms(1) by (auto simp: condition_outcome_def dest: sym)
  with e have "concat (map re_unresolved_fields es) \<noteq> []" by auto
  then show ?thesis
    using assms(2) sub by (auto simp: combine_evaluations_def Let_def split: if_splits)
qed

lemma RuleExpression_evaluateE:
  assumes "RuleExpression_evaluate x ctx = Inr e"
  obtains es where "list_all2 (\<lambda>c r. RuleCondition_evaluate c ctx = Inr r) (rx_conditions x) es"
    "e = combine_evaluations (rx_mode x) es"
    "\<forall>r\<in>set es. \<exists>c\<in>set (rx_conditions x). condition_outcome c r"
proof -
  obtain es where es: "traverse (\<lambda>c. RuleCondition_evaluate c ctx) (rx_conditions x) = Inr es"
    and e: "e = combine_evaluations (rx_mode x) es"
    using assms by (auto simp: RuleExpression_evaluate_def bindR_Inr_iff)
  have "\<forall>r\<in>set es. \<exists>c\<in>set (rx_conditions x). condition_outcome c r"
    using traverse_Inr_set [OF es] RuleCondition_evaluate_outcome by blast
  then show thesis using that es e by (simp add: traverse_Inr_iff)
qed


definition sample_rule :: RuleExpression where
  "sample_rule = \<lparr>rx_conditions =
     [\<lparr>rc_field = ''seat.count'', rc_operator = RuleOperator.GTE, rc_value = PInt 10\<rparr>,
      \<lparr>rc_field = ''region'', rc_operator = RuleOperator.EQ, rc_value = PStr ''EU''\<rparr>],
     rx_mode = ''all''\<rparr>"


text \<open>A context that keeps every non-null value the rule found in another context.\<close>

definition knows_more :: "RuleExpression \<Rightarrow> pyval \<Rightarrow> pyval \<Rightarrow> bool" where
  "knows_more x ctx ctx' =
     (\<forall>c\<in>set (rx_conditions x). \<forall>v. resolve_field ctx (rc_field c) = Inr (Some v) \<and> v \<noteq> PNone \<longrightarrow>
        resolve_field ctx' (rc_field c) = Inr (Some v))"

lemma RuleCondition_evaluate_stable:
  assumes "RuleCondition_evaluate c ctx = Inr e" "re_value e \<noteq> TruthValue.UNRESOLVED"
    and "rc_operator c \<noteq> RuleOperator.EXISTS"
    and "\<And>v. resolve_field ctx (rc_field c) = Inr (Some v) \<Longrightarrow> v \<noteq> PNone \<Longrightarrow>
           resolve_field ctx' (rc_field c) = Inr (Some v)"
  shows "RuleCondition_evaluate c ctx' = Inr e"
proof -
  obtain f where f: "resolve_field ctx (rc_field c) = Inr f"
    using assms(1) by (auto simp: RuleCondition_evaluate_def bindR_Inr_iff)
  then have "f \<noteq> None" "f \<noteq> Some PNone"
    using assms(1-3) by (cases f; auto simp: RuleCondition_evaluate_def)+
  then obtain v where v: "f = Some v" "v \<noteq> PNone" by auto
  then have "resolve_field ctx' (rc_field c) = resolve_field ctx (rc_field c)"
    using assms(4) f by simp
  then show ?thesis
    using assms(1) by (simp add: RuleCondition_evaluate_def)
qed

lemma list_all2_in:
  assumes "list_all2 P xs ys"
  shows "y \<in> set ys \<Longrightarrow> \<exists>x\<in>set xs. P x y" and "x \<in> set xs \<Longrightarrow> \<exists>y\<in>set ys. P x y"
  using assms by (fastforce simp: list_all2_conv_all_nth in_set_conv_nth)+

text \<open>
  A decided rule stays decided: for a rule without the exists operator, if the expression is
  TRUE or FALSE in one context, it has the same value in every context that keeps the non-null
  values the rule found, whatever facts are added (an unresolved rule can only become more
  informed, an eligibility verdict is never flipped by new facts).
\<close>

theorem rule_expression_monotone:
  assumes wf: "wf_expression x"
    and no_exists: "\<forall>c\<in>set (rx_conditions x). rc_operator c \<noteq> RuleOperator.EXISTS"
    and more: "knows_more x ctx ctx'"
    and ev: "RuleExpression_evaluate x ctx = Inr e" and dec: "re_value e \<noteq> TruthValue.UNRESOLVED"
  shows "\<exists>e'. RuleExpression_evaluate x ctx' = Inr e' \<and> re_value e' = re_value e"
proof -
  from ev obtain es where es: "list_all2 (\<lambda>c r. RuleCondition_evaluate c ctx = Inr r) (rx_conditions x) es"
    and comb: "e = combine_evaluations (rx_mode x) es"
    and out: "\<forall>r\<in>set es. \<exists>c\<in>set (rx_conditions x). condition_outcome c r"
    by (rule RuleExpression_evaluateE)
  obtain e' where e': "RuleExpression_evaluate x ctx' = Inr e'"
    using wf RuleExpression_evaluate_total by blast
  then obtain es' where es': "list_all2 (\<lambda>c r. RuleCondition_evaluate c ctx' = Inr r) (rx_conditions x) es'"
    and comb': "e' = combine_evaluations (rx_mode x) es'"
    and out': "\<forall>r\<in>set es'. \<exists>c\<in>set (rx_conditions x). condition_outcome c r"
    by (rule RuleExpression_evaluateE)
  have stable: "RuleCondition_evaluate c ctx' = Inr r"
    if "c \<in> set (rx_conditions x)" "RuleCondition_evaluate c ctx = Inr r" "re_value r \<noteq> TruthValue.UNRESOLVED" for c r
    using RuleCondition_evaluate_stable [OF that(2,3)] no_exists more that(1)
    by (auto simp: knows_more_def)
  have keep: "v \<in> re_value ` set es'" if v: "v \<in> re_value ` set es" "v \<noteq> TruthValue.UNRESOLVED" for v
    using v list_all2_in(1) [OF es] list_all2_in(2) [OF es'] stable by fastforce
  have only: "re_value r' \<in> re_value ` set es"
    if "r' \<in> set es'" "TruthValue.UNRESOLVED \<notin> re_value ` set es" for r'
    using that list_all2_in(1) [OF es'] list_all2_in(2) [OF es] stable by (metis Inr_inject image_eqI)
  have vals: "re_value r \<in> {TruthValue.TRUE, TruthValue.FALSE, TruthValue.UNRESOLVED}"
    if "r \<in> set es \<union> set es'" for r
    using that out out' condition_outcome_value by blast
  have val: "re_value (combine_evaluations m rs) =
      (if m = ''all''
       then if TruthValue.FALSE \<in> re_value ` set rs then TruthValue.FALSE
            else if TruthValue.UNRESOLVED \<in> re_value ` set rs then TruthValue.UNRESOLVED else TruthValue.TRUE
       else if TruthValue.TRUE \<in> re_value ` set rs then TruthValue.TRUE
            else if TruthValue.UNRESOLVED \<in> re_value ` set rs then TruthValue.UNRESOLVED else TruthValue.FALSE)" for m rs
    by (simp add: combine_evaluations_def Let_def)
  have sub: "re_value ` set es' \<subseteq> re_value ` set es" if "TruthValue.UNRESOLVED \<notin> re_value ` set es"
    using only that by blast
  have "re_value e' = re_value e"
  proof (cases "TruthValue.UNRESOLVED \<in> re_value ` set es")
    case True
    with dec keep show ?thesis unfolding comb comb' val by (auto split: if_splits)
  next
    case False
    with sub [OF False] keep dec show ?thesis unfolding comb comb' val by (auto split: if_splits)
  qed
  with e' show ?thesis by blast
qed

definition us_buyer :: pyval where
  "us_buyer = PDict [(PStr ''region'', PStr ''US'')]"

definition us_buyer_with_seats :: pyval where
  "us_buyer_with_seats =
     PDict [(PStr ''seat'', PDict [(PStr ''count'', PInt 12)]), (PStr ''region'', PStr ''US'')]"

theorem rule_expression_monotone_witness:
  "\<exists>e'. RuleExpression_evaluate sample_rule us_buyer_with_seats = Inr e' \<and> re_value e' = TruthValue.FALSE"
proof -
  let ?e = "\<lparr>re_value = TruthValue.FALSE, re_unresolved_fields = [''seat.count'']\<rparr>"
  have region: "resolve_field us_buyer ''region'' = Inr (Some (PStr ''US''))"
    "resolve_field us_buyer_with_seats ''region'' = Inr (Some (PStr ''US''))"
    "resolve_field us_buyer ''seat.count'' = Inr None"
    by code_simp+
  have "wf_expression sample_rule" by code_simp
  moreover have "\<forall>c\<in>set (rx_conditions sample_rule). rc_operator c \<noteq> RuleOperator.EXISTS"
    by code_simp
  moreover have "knows_more sample_rule us_buyer us_buyer_with_seats"
    by (simp add: knows_more_def sample_rule_def region)
  moreover have "RuleExpression_evaluate sample_rule us_buyer = Inr ?e" by code_simp
  moreover have "re_value ?e \<noteq> TruthValue.UNRESOLVED" by simp
  ultimately show ?thesis using rule_expression_monotone [of sample_rule us_buyer us_buyer_with_seats ?e]
    by simp
qed

text \<open>
  Equality tests never confuse a boolean with a number: eq, neq, in, not_in and contains_all
  match a boolean only with the same boolean. The contains operator does not go through that
  comparison and does confuse them: a list holding the integer 1 contains True.
\<close>

theorem boolean_strictness:
  "compare_values RuleOperator.EQ (PBool b) v = Inr (v = PBool b)
   \<and> compare_values RuleOperator.NEQ v (PBool b) = Inr (v \<noteq> PBool b)
   \<and> compare_values RuleOperator.IN (PBool b) (PList vs) = Inr (PBool b \<in> set vs)
   \<and> compare_values RuleOperator.NOT_IN (PBool b) (PList vs) = Inr (PBool b \<notin> set vs)
   \<and> compare_values RuleOperator.CONTAINS_ALL (PList vs) (PList [PBool b]) = Inr (PBool b \<in> set vs)
   \<and> compare_values RuleOperator.CONTAINS (PList [PInt 1]) (PBool True) = Inr True"
proof -
  have left: "strict_equal (PBool b) v \<longleftrightarrow> v = PBool b" for v
    by (auto simp: strict_equal_def split: if_splits elim: is_bool.elims)
  have right: "strict_equal v (PBool b) \<longleftrightarrow> v = PBool b" for v
    by (auto simp: strict_equal_def)
  show ?thesis
    by (auto simp: compare_values_def any_equal_def left right list_ex_iff py_contains_def)
qed

end
