(* ===== verification/Sha256.thy ===== *)
theory Sha256
  imports PyText "HOL-Library.Word"
begin

unbundle bit_operations_syntax

text \<open>
  \<^verbatim>\<open>hashlib.sha256(data).hexdigest()\<close> (FIPS 180-4) on 32-bit words, the standard library
  function \<^verbatim>\<open>domain/hashing.py\<close> and the proof modules digest their canonical JSON with.
\<close>

type_synonym word32 = "32 word"

text \<open>
  The constants as the standard defines them: the first 32 bits of the fractional parts of the cube
  roots of the first 64 primes, and of the square roots of the first eight. The root of \<open>n * 2 ^ 96\<close>
  (of \<open>n * 2 ^ 64\<close>) is found bit by bit; its low 32 bits are that fraction.
\<close>

definition int_root :: "nat \<Rightarrow> int \<Rightarrow> int" where
  "int_root k n = foldl (\<lambda>r b. if (r + 2 ^ b) ^ k \<le> n then r + 2 ^ b else r) 0 (rev [0..<40])"

definition primes_upto :: "int \<Rightarrow> int list" where
  "primes_upto n = filter (\<lambda>p. list_all (\<lambda>d. p mod d \<noteq> 0) [2..p - 1]) [2..n]"

definition sha_k :: "word32 list" where
  "sha_k = map (\<lambda>p. word_of_int (int_root 3 (p * 2 ^ 96) mod 2 ^ 32)) (primes_upto 311)"

definition sha_h0 :: "word32 list" where
  "sha_h0 = map (\<lambda>p. word_of_int (int_root 2 (p * 2 ^ 64) mod 2 ^ 32)) (primes_upto 19)"

lemma length_sha_h0 [simp]: "length sha_h0 = 8"
proof -
  have "length (primes_upto 19) = 8" by code_simp
  then show ?thesis by (simp add: sha_h0_def)
qed

definition rotr :: "nat \<Rightarrow> word32 \<Rightarrow> word32" where
  "rotr n w = drop_bit n w OR push_bit (32 - n) w"

definition sigma0 :: "word32 \<Rightarrow> word32" where
  "sigma0 x = (rotr 7 x XOR rotr 18 x) XOR drop_bit 3 x"

definition sigma1 :: "word32 \<Rightarrow> word32" where
  "sigma1 x = (rotr 17 x XOR rotr 19 x) XOR drop_bit 10 x"

definition big_sigma0 :: "word32 \<Rightarrow> word32" where
  "big_sigma0 x = (rotr 2 x XOR rotr 13 x) XOR rotr 22 x"

definition big_sigma1 :: "word32 \<Rightarrow> word32" where
  "big_sigma1 x = (rotr 6 x XOR rotr 11 x) XOR rotr 25 x"

definition sha_ch :: "word32 \<Rightarrow> word32 \<Rightarrow> word32 \<Rightarrow> word32" where
  "sha_ch x y z = (x AND y) XOR (NOT x AND z)"

definition sha_maj :: "word32 \<Rightarrow> word32 \<Rightarrow> word32 \<Rightarrow> word32" where
  "sha_maj x y z = ((x AND y) XOR (x AND z)) XOR (y AND z)"

text \<open>The message: the bytes, 0x80, zeros up to 56 modulo 64, the bit length in eight bytes.\<close>

definition be_bytes :: "nat \<Rightarrow> int \<Rightarrow> int list" where
  "be_bytes k n = map (\<lambda>i. n div 256 ^ i mod 256) (rev [0..<k])"

definition sha_pad :: "string \<Rightarrow> int list" where
  "sha_pad msg =
     (let bytes = map of_char msg; n = length msg; zeros = (119 - n mod 64) mod 64
      in bytes @ [128] @ replicate zeros 0 @ be_bytes 8 (8 * int n))"

fun words_of_bytes :: "int list \<Rightarrow> word32 list" where
  "words_of_bytes (a # b # c # d # rest) =
     of_int (((a * 256 + b) * 256 + c) * 256 + d) # words_of_bytes rest"
| "words_of_bytes _ = []"

text \<open>The message schedule, built with the most recent word first.\<close>

fun extend_schedule :: "nat \<Rightarrow> word32 list \<Rightarrow> word32 list" where
  "extend_schedule 0 w = w"
| "extend_schedule (Suc n) w =
     extend_schedule n ((((sigma1 (w ! 1) + w ! 6) + sigma0 (w ! 14)) + w ! 15) # w)"

definition schedule :: "word32 list \<Rightarrow> word32 list" where
  "schedule block = rev (extend_schedule 48 (rev block))"

fun sha_round :: "word32 list \<Rightarrow> word32 \<times> word32 \<Rightarrow> word32 list" where
  "sha_round [a, b, c, d, e, f, g, h] (k, w) =
     (let t1 = h + big_sigma1 e + sha_ch e f g + k + w; t2 = big_sigma0 a + sha_maj a b c
      in [t1 + t2, a, b, c, d + t1, e, f, g])"
| "sha_round st _ = st"

definition compress :: "word32 list \<Rightarrow> word32 list \<Rightarrow> word32 list" where
  "compress h block = map2 (+) h (foldl sha_round h (zip sha_k (schedule block)))"

fun sha_blocks :: "nat \<Rightarrow> word32 list \<Rightarrow> word32 list \<Rightarrow> word32 list" where
  "sha_blocks 0 h ws = h"
| "sha_blocks (Suc n) h ws = sha_blocks n (compress h (take 16 ws)) (drop 16 ws)"

definition sha256_words :: "string \<Rightarrow> word32 list" where
  "sha256_words msg =
     (let ws = words_of_bytes (sha_pad msg) in sha_blocks (length ws div 16) sha_h0 ws)"

definition hex_digit :: "int \<Rightarrow> char" where
  "hex_digit n = (if n < 10 then char_of (48 + n) else char_of (87 + n))"

definition word_hex :: "word32 \<Rightarrow> string" where
  "word_hex w = map (\<lambda>i. hex_digit (uint w div 16 ^ i mod 16)) (rev [0..<8])"

definition sha256_hexdigest :: "string \<Rightarrow> string" where
  "sha256_hexdigest msg = concat (map word_hex (sha256_words msg))"

section \<open>Shape of a digest\<close>

lemma length_sha_round [simp]: "length (sha_round st kw) = length st"
  by (cases "(st, kw)" rule: sha_round.cases) (auto simp: Let_def)

lemma length_foldl_sha_round [simp]: "length (foldl sha_round st kws) = length st"
  by (induction kws arbitrary: st) auto

lemma length_compress [simp]: "length (compress h block) = length h"
  by (simp add: compress_def)

lemma length_sha_blocks [simp]: "length (sha_blocks n h ws) = length h"
  by (induction n arbitrary: h ws) auto

lemma length_sha256_words [simp]: "length (sha256_words msg) = 8"
  by (simp add: sha256_words_def Let_def)

lemma hex_digit_ok: "0 \<le> n \<Longrightarrow> n < 16 \<Longrightarrow> is_hex_lower (hex_digit n)"
proof -
  assume "0 \<le> n" "n < 16"
  then have "n \<in> set [0..15]" by simp
  moreover have "list_all (\<lambda>j. is_hex_lower (hex_digit j)) [0..15]" by code_simp
  ultimately show ?thesis by (simp only: list_all_iff)
qed

lemma word_hex_shape: "length (word_hex w) = 8" "c \<in> set (word_hex w) \<Longrightarrow> is_hex_lower c"
  by (auto simp: word_hex_def intro!: hex_digit_ok)

lemma sha256_hexdigest_shape:
  "length (sha256_hexdigest msg) = 64" "list_all is_hex_lower (sha256_hexdigest msg)"
proof -
  have "length (concat (map word_hex ws)) = 8 * length ws" for ws
    by (induction ws) (auto simp: word_hex_shape)
  then show "length (sha256_hexdigest msg) = 64" by (simp add: sha256_hexdigest_def)
  show "list_all is_hex_lower (sha256_hexdigest msg)"
    by (auto simp: sha256_hexdigest_def list_all_iff word_hex_shape)
qed

end
