(* ===== verification/Hashing.thy ===== *)
theory Hashing
  imports PyValue Sha256
begin

text \<open>
  \<^verbatim>\<open>domain/hashing.py\<close>: the typed normalisation every hashed artifact goes through, canonical
  JSON and the content hash. \<^verbatim>\<open>rfc8785.dumps\<close> is a third-party function and stays a
  parameter \<open>dumps\<close>: the bytes of a normalised value, or \<open>None\<close> where it raises
  \<^verbatim>\<open>CanonicalizationError\<close>.
\<close>

section \<open>Text of decimals and times\<close>

definition drop_trailing :: "char \<Rightarrow> string \<Rightarrow> string" where
  "drop_trailing c s = rev (dropWhile (\<lambda>x. x = c) (rev s))"

definition hash_decimal_text :: "decimal \<Rightarrow> string result" where
  "hash_decimal_text d =
     (case d of
        Dec c e \<Rightarrow>
          if c = 0 then Inr ''0''
          else case dec_normalize c e of (m, k) \<Rightarrow>
            let text = dec_plain m k
            in Inr (if CHR ''.'' \<in> set text then drop_trailing CHR ''.'' (drop_trailing CHR ''0'' text)
                    else text)
      | _ \<Rightarrow> Inl (DomainValidationError ''non-finite decimals are not canonical JSON''))"

definition max_local_us :: int where
  "max_local_us = 3652059 * day_us - 1"

text \<open>
  UTC ISO text with microseconds, \<^verbatim>\<open>Z\<close> for the offset and no empty fraction. Moving a time at
  either end of the calendar to UTC overflows.
\<close>

definition hash_datetime_text :: "int \<Rightarrow> int option \<Rightarrow> string result" where
  "hash_datetime_text local offset =
     (case offset of
        None \<Rightarrow> Inl (DomainValidationError ''naive datetimes cannot enter canonical artifacts'')
      | Some off \<Rightarrow>
          let u = local - off; tod = u mod day_us; us = tod mod 1000000; sec = tod div 1000000
          in if u < 0 \<or> max_local_us < u then Inl OverflowError
             else Inr (date_isoformat (u div day_us + 1) @ ''T'' @ pad 2 (sec div 3600) @ '':''
                       @ pad 2 (sec div 60 mod 60) @ '':'' @ pad 2 (sec mod 60)
                       @ (if us = 0 then [] else CHR ''.'' # pad 6 us) @ ''Z''))"

section \<open>Normalisation\<close>

function normalize_value :: "string list \<Rightarrow> pyval \<Rightarrow> pyval result" where
  "normalize_value ex v =
     (case v of
        PNone \<Rightarrow> Inr PNone
      | PStr s \<Rightarrow> Inr (PStr s)
      | PBool b \<Rightarrow> Inr (PBool b)
      | PUuid s \<Rightarrow> Inr (PStr s)
      | PDateTime t off \<Rightarrow> mapR_res PStr (hash_datetime_text t off)
      | PDate d \<Rightarrow> Inr (PStr (date_isoformat d))
      | PDecimal d \<Rightarrow> mapR_res PStr (hash_decimal_text d)
      | PInt i \<Rightarrow> Inr (PInt i)
      | PFloat f \<Rightarrow>
          (case f of
             FFin q \<Rightarrow> Inl (DomainValidationError
               ''binary floating point is prohibited in canonical artifacts; use Decimal'')
           | _ \<Rightarrow> Inl (DomainValidationError ''non-finite floats are not canonical JSON''))
      | PData fs payload \<Rightarrow>
          (case payload of
             Some p \<Rightarrow> normalize_value ex p
           | None \<Rightarrow>
               mapR_res (\<lambda>kvs. PDict (concat kvs))
                 (traverse (\<lambda>(n, item).
                    if n \<in> set ex then Inr []
                    else mapR_res (\<lambda>w. [(PStr n, w)]) (normalize_value ex item)) fs))
      | PDict kvs \<Rightarrow>
          mapR_res (\<lambda>rs. PDict (concat rs))
            (traverse (\<lambda>(k, item).
               case k of
                 PStr key \<Rightarrow>
                   if key \<in> set ex then Inr []
                   else mapR_res (\<lambda>w. [(k, w)]) (normalize_value ex item)
               | _ \<Rightarrow> Inl (DomainValidationError ''canonical JSON object keys must be strings'')) kvs)
      | PList xs \<Rightarrow> mapR_res PList (traverse (normalize_value ex) xs)
      | PTuple xs \<Rightarrow> mapR_res PList (traverse (normalize_value ex) xs)
      | PSet _ \<Rightarrow> Inl (DomainValidationError ''unsupported canonical JSON value: set'')
      | PBytes _ \<Rightarrow> Inl (DomainValidationError ''unsupported canonical JSON value: bytes'')
      | POther type_name \<Rightarrow> Inl (DomainValidationError (''unsupported canonical JSON value: '' @ type_name)))"
  by pat_completeness auto
termination
  by (relation "measure (\<lambda>(ex, v). size v)") (auto simp: termination_simp)

declare normalize_value.simps [simp del]

definition canonical_json :: "(pyval \<Rightarrow> string option) \<Rightarrow> pyval \<Rightarrow> string list \<Rightarrow> string result" where
  "canonical_json dumps value excluded =
     bindR (normalize_value excluded value) (\<lambda>normalized.
       case dumps normalized of
         Some text \<Rightarrow> Inr text
       | None \<Rightarrow> Inl (DomainValidationError ''RFC 8785 canonicalization failed''))"

definition content_hash :: "(pyval \<Rightarrow> string option) \<Rightarrow> pyval \<Rightarrow> string list \<Rightarrow> string result" where
  "content_hash dumps value excluded =
     bindR (canonical_json dumps value excluded) (\<lambda>payload.
       Inr (''sha256:'' @ sha256_hexdigest payload))"

section \<open>The interface the rest of the program relies on\<close>

text \<open>\<^verbatim>\<open>_HASH\<close> of \<^verbatim>\<open>domain/models.py\<close>: the shape \<^verbatim>\<open>require_hash\<close> asks for.\<close>

definition is_content_hash :: "string \<Rightarrow> bool" where
  "is_content_hash s =
     (prefix ''sha256:'' s \<and> length (drop 7 s) = 64 \<and> list_all is_hex_lower (drop 7 s))"

text \<open>
  The clients take \<^verbatim>\<open>content_hash\<close> as a function argument. What they rely on is its contract:
  a hash it returns has the shape \<^verbatim>\<open>require_hash\<close> accepts and a part behind the colon that
  does not depend on anything but the value.
\<close>

locale content_hasher =
  fixes H :: "pyval \<Rightarrow> string result"
  assumes hash_shape: "H v = Inr h \<Longrightarrow> is_content_hash h"
begin

lemma hash_suffix:
  assumes "H v = Inr h"
  obtains digest where "after_first CHR '':'' h = Some digest" "length digest = 64"
    "list_all is_hex_lower digest" "h = ''sha256:'' @ digest"
proof -
  from hash_shape [OF assms] obtain d where h: "h = ''sha256:'' @ d" "length d = 64" "list_all is_hex_lower d"
    by (auto simp: is_content_hash_def prefix_def)
  then have "after_first CHR '':'' h = Some d" by (simp add: after_first_def)
  with h show thesis using that by blast
qed

lemma hash_nonempty: "H v = Inr h \<Longrightarrow> h \<noteq> []"
  using hash_suffix by fastforce

end

interpretation domain_hash: content_hasher "\<lambda>v. content_hash dumps v excluded" for dumps excluded
  by unfold_locales
     (auto simp: content_hash_def bindR_Inr_iff is_content_hash_def sha256_hexdigest_shape)

section \<open>Normal values\<close>

text \<open>Values \<^verbatim>\<open>rfc8785.dumps\<close> is called with: JSON without floats, string keys, no excluded key.\<close>

function canonical_form :: "string list \<Rightarrow> pyval \<Rightarrow> bool" where
  "canonical_form ex v =
     (case v of
        PNone \<Rightarrow> True | PStr _ \<Rightarrow> True | PBool _ \<Rightarrow> True | PInt _ \<Rightarrow> True
      | PList xs \<Rightarrow> list_all (canonical_form ex) xs
      | PDict kvs \<Rightarrow>
          list_all (\<lambda>(k, w). (case k of PStr s \<Rightarrow> s \<notin> set ex | _ \<Rightarrow> False) \<and> canonical_form ex w) kvs
      | _ \<Rightarrow> False)"
  by pat_completeness auto
termination
  by (relation "measure (\<lambda>(ex, v). size v)") (auto simp: termination_simp)

declare canonical_form.simps [simp del]

lemma canonical_form_eqs [simp]:
  "canonical_form ex PNone" "canonical_form ex (PStr s)" "canonical_form ex (PBool b)"
  "canonical_form ex (PInt i)"
  "canonical_form ex (PList xs) \<longleftrightarrow> list_all (canonical_form ex) xs"
  "canonical_form ex (PDict kvs) \<longleftrightarrow>
     list_all (\<lambda>(k, w). (case k of PStr s \<Rightarrow> s \<notin> set ex | _ \<Rightarrow> False) \<and> canonical_form ex w) kvs"
  by (simp_all add: canonical_form.simps)

lemma normalize_canonical: "normalize_value ex v = Inr w \<Longrightarrow> canonical_form ex w"
proof (induction ex v arbitrary: w rule: normalize_value.induct)
  case (1 ex v)
  note res = "1.prems" [unfolded normalize_value.simps [of ex v]]
  show ?case
  proof (cases v)
    case (PList xs)
    with res obtain ys where ys: "w = PList ys" "traverse (normalize_value ex) xs = Inr ys"
      by (auto simp: mapR_res_Inr_iff)
    have "canonical_form ex y" if "y \<in> set ys" for y
      using traverse_Inr_set [OF ys(2) that] "1.IH"(1) [OF PList] by blast
    with ys(1) show ?thesis by (simp add: list_all_iff)
  next
    case (PTuple xs)
    with res obtain ys where ys: "w = PList ys" "traverse (normalize_value ex) xs = Inr ys"
      by (auto simp: mapR_res_Inr_iff)
    have "canonical_form ex y" if "y \<in> set ys" for y
      using traverse_Inr_set [OF ys(2) that] "1.IH"(2) [OF PTuple] by blast
    with ys(1) show ?thesis by (simp add: list_all_iff)
  next
    case (PDict kvs)
    have item: "list_all (\<lambda>(k, w). (case k of PStr s \<Rightarrow> s \<notin> set ex | _ \<Rightarrow> False) \<and> canonical_form ex w) r"
      if "(k, x) \<in> set kvs" "(case k of PStr key \<Rightarrow> if key \<in> set ex then Inr []
            else mapR_res (\<lambda>w. [(k, w)]) (normalize_value ex x)
          | _ \<Rightarrow> Inl (DomainValidationError ''canonical JSON object keys must be strings'')) = Inr r" for k x r
    proof (cases k)
      case (PStr key)
      then show ?thesis
        using that "1.IH"(3) [OF PDict that(1) refl PStr]
        by (cases "key \<in> set ex") (auto simp: mapR_res_Inr_iff)
    qed (use that in simp_all)
    from res PDict obtain rs where rs: "w = PDict (concat rs)"
      and t: "traverse (\<lambda>(k, item).
               case k of
                 PStr key \<Rightarrow>
                   if key \<in> set ex then Inr []
                   else mapR_res (\<lambda>w. [(k, w)]) (normalize_value ex item)
               | _ \<Rightarrow> Inl (DomainValidationError ''canonical JSON object keys must be strings'')) kvs = Inr rs"
      by (auto simp: mapR_res_Inr_iff)
    have "list_all (\<lambda>(k, w). (case k of PStr s \<Rightarrow> s \<notin> set ex | _ \<Rightarrow> False) \<and> canonical_form ex w) r"
      if "r \<in> set rs" for r
      using traverse_Inr_set [OF t that] item by auto
    with rs show ?thesis by (simp add: list_all_iff)
  next
    case (PData fs payload)
    show ?thesis
    proof (cases payload)
      case (Some p)
      with res PData "1.IH"(5) [OF PData Some] show ?thesis by simp
    next
      case None
      have item: "list_all (\<lambda>(k, w). (case k of PStr s \<Rightarrow> s \<notin> set ex | _ \<Rightarrow> False) \<and> canonical_form ex w) r"
        if "(n, x) \<in> set fs" "(if n \<in> set ex then Inr []
              else mapR_res (\<lambda>w. [(PStr n, w)]) (normalize_value ex x)) = Inr r" for n x r
        using that "1.IH"(4) [OF PData None that(1) refl]
        by (cases "n \<in> set ex") (auto simp: mapR_res_Inr_iff)
      from res PData None obtain rs where rs: "w = PDict (concat rs)"
        and t: "traverse (\<lambda>(n, item). if n \<in> set ex then Inr []
                  else mapR_res (\<lambda>w. [(PStr n, w)]) (normalize_value ex item)) fs = Inr rs"
        by (auto simp: mapR_res_Inr_iff)
      have "list_all (\<lambda>(k, w). (case k of PStr s \<Rightarrow> s \<notin> set ex | _ \<Rightarrow> False) \<and> canonical_form ex w) r"
        if "r \<in> set rs" for r
        using traverse_Inr_set [OF t that] item by auto
      with rs show ?thesis by (simp add: list_all_iff)
    qed
  qed (use res in \<open>auto simp: mapR_res_Inr_iff split: pyfloat.splits\<close>)
qed

text \<open>
  Canonicalisation is total on what it accepts and strict on the rest: whatever value
  \<^verbatim>\<open>rfc8785.dumps\<close> is called with is JSON without floats, with string keys and without any
  excluded field at any depth, and a returned hash is \<^verbatim>\<open>sha256:\<close> with 64 lower-case
  hexadecimal digits of the SHA-256 of that text.
\<close>

theorem content_hash_canonical:
  assumes "content_hash dumps v ex = Inr h"
  shows "\<exists>w t. normalize_value ex v = Inr w \<and> canonical_form ex w \<and> dumps w = Some t
    \<and> h = ''sha256:'' @ sha256_hexdigest t \<and> is_content_hash h"
proof -
  from assms obtain w t where w: "normalize_value ex v = Inr w" "dumps w = Some t"
      "h = ''sha256:'' @ sha256_hexdigest t"
    by (auto simp: content_hash_def canonical_json_def bindR_Inr_iff split: option.splits)
  with normalize_canonical [OF w(1)] domain_hash.hash_shape [OF assms] show ?thesis by blast
qed

lemma content_hash_canonical_witness:
  "\<exists>w. normalize_value [''secret''] (PDict [(PStr ''a'', PDecimal (Dec 120 (- 2))), (PStr ''secret'', PFloat (FFin 1))])
     = Inr w \<and> canonical_form [''secret''] w"
proof -
  let ?v = "PDict [(PStr ''a'', PDecimal (Dec 120 (- 2))), (PStr ''secret'', PFloat (FFin 1))]"
  have "normalize_value [''secret''] ?v = Inr (PDict [(PStr ''a'', PStr ''1.2'')])" by code_simp
  then have "content_hash (\<lambda>_. Some ''{}'') ?v [''secret''] = Inr (''sha256:'' @ sha256_hexdigest ''{}'')"
    by (simp add: content_hash_def canonical_json_def)
  from content_hash_canonical [OF this] show ?thesis by blast
qed

section \<open>Decimals as hash input\<close>

lemma drop_trailing_id: "s = [] \<or> last s \<noteq> c \<Longrightarrow> drop_trailing c s = s"
  by (cases s rule: rev_cases) (auto simp: drop_trailing_def)

lemma last_show_digits:
  assumes "0 \<le> n" "n mod 10 \<noteq> 0"
  shows "last (show_digits n) \<noteq> CHR ''0''"
proof -
  have "last (show_digits n) = digit_char (n mod 10)"
    using assms(1) by (subst show_digits.simps) auto
  moreover have "of_char (digit_char (n mod 10)) - 48 = n mod 10" by (rule digit_char_value) auto
  ultimately show ?thesis using assms(2) by auto
qed

lemma dec_plain_last:
  assumes "stripped m" "k < 0"
  shows "dec_plain m k \<noteq> []" "last (dec_plain m k) \<noteq> CHR ''0''" "last (dec_plain m k) \<noteq> CHR ''.''"
proof -
  define ds where "ds = show_digits \<bar>m\<bar>"
  define p where "p = (if length ds \<le> nat (- k) then replicate (Suc (nat (- k)) - length ds) CHR ''0'' @ ds else ds)"
  have "\<bar>m\<bar> mod 10 \<noteq> 0" using assms(1) by (auto simp: stripped_def abs_if) presburger?
  then have l: "last ds \<noteq> CHR ''0''" unfolding ds_def by (intro last_show_digits) auto
  have d: "last ds \<noteq> CHR ''.''"
    using show_digits_digits [of "\<bar>m\<bar>" "last ds"] digit_not_sep [of "last ds"] by (auto simp: ds_def)
  have p: "nat (- k) < length p" "last p = last ds" by (auto simp: p_def ds_def)
  have eq: "dec_plain m k = (if m < 0 then ''-'' else []) @ take (length p - nat (- k)) p
      @ CHR ''.'' # drop (length p - nat (- k)) p"
    using assms(2) by (simp add: dec_plain_def ds_def [symmetric] p_def [symmetric] Let_def)
  have ne: "drop (length p - nat (- k)) p \<noteq> []" using p(1) assms(2) by simp
  then have "last (dec_plain m k) = last ds" by (simp add: eq p(2) last_drop)
  with l d show "last (dec_plain m k) \<noteq> CHR ''0''" "last (dec_plain m k) \<noteq> CHR ''.''" by simp_all
  show "dec_plain m k \<noteq> []" by (simp add: eq)
qed

lemma dec_plain_no_point:
  "0 \<le> k \<Longrightarrow> CHR ''.'' \<notin> set (dec_plain m k)"
  using show_digits_digits [of "\<bar>m\<bar>" "CHR ''.''"] by (auto simp: dec_plain_def is_digit_def)

lemma hash_decimal_text_eq:
  assumes "exact28 c" "c \<noteq> 0"
  obtains m k where "dec_normalize c e = (m, k)" "dec_value m k = dec_value c e"
    "hash_decimal_text (Dec c e) = Inr (dec_plain m k)"
proof -
  obtain m k where n: "dec_normalize c e = (m, k)" by fastforce
  from dec_normalize_spec [OF n assms(2,1)] have s: "dec_value m k = dec_value c e" "stripped m" by auto
  have "hash_decimal_text (Dec c e) = Inr (dec_plain m k)"
  proof (cases "0 \<le> k")
    case True
    then show ?thesis by (simp add: hash_decimal_text_def assms(2) n dec_plain_no_point)
  next
    case False
    with dec_plain_last [OF s(2), of k] show ?thesis
      by (simp add: hash_decimal_text_def assms(2) n drop_trailing_id Let_def)
  qed
  with n s that show thesis by blast
qed

text \<open>
  Decimals are hashed by value: two decimals the 28-digit context represents exactly get the
  same text exactly when they are numerically equal (so \<^verbatim>\<open>1.50\<close>, \<^verbatim>\<open>1.5\<close> and
  \<^verbatim>\<open>15E-1\<close> hash alike, and no two different amounts collide), and the text reads back as that
  number.
\<close>

theorem hash_decimal_text_by_value:
  assumes "exact28 c" "exact28 c'"
  shows "(hash_decimal_text (Dec c e) = hash_decimal_text (Dec c' e') \<longleftrightarrow> dec_value c e = dec_value c' e')
    \<and> (\<exists>t a b. hash_decimal_text (Dec c e) = Inr t \<and> parse_decimal t = Some (Dec a b)
               \<and> dec_value a b = dec_value c e)"
proof -
  have read: "\<exists>t a b. hash_decimal_text (Dec c e) = Inr t \<and> parse_decimal t = Some (Dec a b)
      \<and> dec_value a b = dec_value c e" if "exact28 c" for c e
  proof (cases "c = 0")
    case True
    have "parse_decimal ''0'' = Some (Dec 0 0)" by code_simp
    with True show ?thesis by (simp add: hash_decimal_text_def)
  next
    case False
    from hash_decimal_text_eq [OF that False] obtain m k where mk: "dec_value m k = dec_value c e"
      "hash_decimal_text (Dec c e) = Inr (dec_plain m k)" .
    have "\<exists>a b. parse_decimal (dec_plain m k) = Some (Dec a b) \<and> dec_value a b = dec_value m k"
      using parse_dec_plain_nonneg [of k m] parse_dec_plain_neg [of k m] dec_value_shift [of k m 0]
      by (cases "0 \<le> k") auto
    with mk show ?thesis by auto
  qed
  have "hash_decimal_text (Dec c e) = hash_decimal_text (Dec c' e')" if "dec_value c e = dec_value c' e'"
  proof (cases "c = 0")
    case True
    with that have "c' = 0" by (auto simp: dec_value_def)
    with True show ?thesis by (simp add: hash_decimal_text_def)
  next
    case False
    with that have "c' \<noteq> 0" by (auto simp: dec_value_def)
    with False dec_normalize_unique [OF that assms] show ?thesis by (simp add: hash_decimal_text_def)
  qed
  with read [OF assms(1), of e] read [OF assms(2), of e'] show ?thesis by auto
qed

lemma hash_decimal_text_by_value_witness:
  "hash_decimal_text (Dec 150 (- 2)) = hash_decimal_text (Dec 15 (- 1))"
proof -
  have "exact28 150" "exact28 15" by code_simp+
  from hash_decimal_text_by_value [OF this, of "- 2" "- 1"] show ?thesis
    by (simp add: dec_value_def pow10_def)
qed

end
