(* ===== verification/Money.thy ===== *)
theory Money
  imports PyValue
begin

text \<open>
  \<^verbatim>\<open>domain/money.py\<close>: the exact money value object. The amount is the normalised
  \<^verbatim>\<open>Decimal\<close> the constructor stores; \<open>money_cents\<close> reads it as a whole number of cents,
  and the arithmetic lemmas are stated through that reading.
\<close>

section \<open>Coercion\<close>

text \<open>
  \<^verbatim>\<open>Decimal((sign, digits, exponent))\<close>, which the constructor of \<^verbatim>\<open>Decimal\<close> also accepts:
  \<open>None\<close> is the ValueError of a malformed triple.
\<close>

definition digit_of :: "pyval \<Rightarrow> int option" where
  "digit_of v = (case v of PInt d \<Rightarrow> if 0 \<le> d \<and> d \<le> 9 then Some d else None | _ \<Rightarrow> None)"

definition decimal_of_triple :: "pyval list \<Rightarrow> decimal option" where
  "decimal_of_triple xs =
     (case xs of
        [PInt s, PTuple ds, ex] \<Rightarrow>
          if (s = 0 \<or> s = 1) \<and> list_all (\<lambda>d. digit_of d \<noteq> None) ds then
            (case ex of
               PInt e \<Rightarrow> Some (Dec ((if s = 1 then - 1 else 1)
                                    * fold (\<lambda>d acc. 10 * acc + the (digit_of d)) ds 0) e)
             | PStr t \<Rightarrow> if t = ''F'' then Some (DInf (s = 1))
                         else if t = ''n'' \<or> t = ''N'' then Some DNaN else None
             | _ \<Rightarrow> None)
          else None
      | _ \<Rightarrow> None)"

text \<open>
  \<^verbatim>\<open>Decimal(value)\<close> inside a handler that turns InvalidOperation and ValueError into the
  error \<open>invalid\<close>.
\<close>

definition decimal_from :: "py_error \<Rightarrow> pyval \<Rightarrow> decimal result" where
  "decimal_from invalid v =
     (case v of
        PDecimal d \<Rightarrow> Inr d
      | PInt i \<Rightarrow> Inr (decimal_of_int i)
      | PStr s \<Rightarrow> (case parse_decimal s of Some d \<Rightarrow> Inr d | None \<Rightarrow> Inl invalid)
      | PTuple xs \<Rightarrow> (case decimal_of_triple xs of Some d \<Rightarrow> Inr d | None \<Rightarrow> Inl invalid)
      | PList xs \<Rightarrow> (case decimal_of_triple xs of Some d \<Rightarrow> Inr d | None \<Rightarrow> Inl invalid)
      | _ \<Rightarrow> Inl TypeError)"

definition construct_decimal :: "pyval \<Rightarrow> decimal result" where
  "construct_decimal v = decimal_from (DomainValidationError ''invalid decimal money amount'') v"

definition check_amount :: "decimal \<Rightarrow> decimal result" where
  "check_amount result =
     (case result of
        Dec c e \<Rightarrow>
          if c < 0 then Inl (DomainValidationError ''money amount cannot be negative'')
          else bindR (dec_quantize2 c e) (\<lambda>q.
                 if \<not> dec_eq q (Dec c e)
                 then Inl (DomainValidationError ''money amount must have at most two decimal places'')
                 else case dec_normalize c e of (m, k) \<Rightarrow> Inr (Dec m k))
      | _ \<Rightarrow> Inl (DomainValidationError ''money amount must be finite''))"

definition coerce_decimal :: "pyval \<Rightarrow> decimal result" where
  "coerce_decimal value =
     (case value of
        PFloat _ \<Rightarrow> Inl (DomainValidationError ''binary floating point is prohibited for money'')
      | PBool _ \<Rightarrow> Inl (DomainValidationError ''money must be constructed from Decimal, string, or int'')
      | _ \<Rightarrow> bindR (construct_decimal value) check_amount)"

text \<open>\<^verbatim>\<open>format(value, ".2f")\<close>.\<close>

definition decimal_text :: "decimal \<Rightarrow> string" where
  "decimal_text d =
     (case d of Dec c e \<Rightarrow> dec_plain (cents_of c e) (- 2)
      | DInf neg \<Rightarrow> (if neg then ''-Infinity'' else ''Infinity'')
      | DNaN \<Rightarrow> ''NaN'')"

section \<open>The value object\<close>

record Money =
  m_amount :: decimal
  m_currency :: string

definition is_currency :: "string \<Rightarrow> bool" where
  "is_currency s = (length s = 3 \<and> list_all is_upper s)"

definition mk_Money :: "pyval \<Rightarrow> pyval \<Rightarrow> Money result" where
  "mk_Money amount currency =
     bindR (coerce_decimal amount) (\<lambda>amount_value.
       case currency of
         PStr s \<Rightarrow>
           if is_currency (str_upper s) then Inr \<lparr>m_amount = amount_value, m_currency = str_upper s\<rparr>
           else Inl (DomainValidationError ''currency must be a three-letter ISO code'')
       | PBytes _ \<Rightarrow> Inl TypeError
       | _ \<Rightarrow> Inl AttributeError)"

definition Money_from_dict :: "(pyval \<times> pyval) list \<Rightarrow> Money result" where
  "Money_from_dict value =
     (if set (map fst value) \<noteq> {PStr ''amount'', PStr ''currency''}
      then Inl (DomainValidationError ''money requires exactly amount and currency'')
      else case (dict_get value ''amount'', dict_get value ''currency'') of
             (Some a, Some c) \<Rightarrow> mk_Money a c
           | _ \<Rightarrow> Inl KeyError)"

definition Money_to_dict :: "Money \<Rightarrow> (pyval \<times> pyval) list" where
  "Money_to_dict m =
     [(PStr ''amount'', PStr (decimal_text (m_amount m))), (PStr ''currency'', PStr (m_currency m))]"

definition Money_to_hash_payload :: "Money \<Rightarrow> pyval" where
  "Money_to_hash_payload m = PDict (Money_to_dict m)"

text \<open>A \<^verbatim>\<open>Money\<close> object inside a hashed value: a dataclass with its own payload.\<close>

definition Money_pyval :: "Money \<Rightarrow> pyval" where
  "Money_pyval m =
     PData [(''amount'', PDecimal (m_amount m)), (''currency'', PStr (m_currency m))]
       (Some (Money_to_hash_payload m))"

definition require_currency :: "Money \<Rightarrow> Money \<Rightarrow> unit result" where
  "require_currency a b =
     ensure (m_currency a = m_currency b)
       (DomainValidationError ''money values use different currencies'')"

text \<open>The sum of two stored decimals; \<open>Money(...)\<close> coerces the sum again.\<close>

definition decimal_plus :: "decimal \<Rightarrow> decimal \<Rightarrow> decimal" where
  "decimal_plus a b =
     (case (a, b) of (Dec c e, Dec c' e') \<Rightarrow> dec_add c e c' e' | _ \<Rightarrow> DNaN)"

definition Money_add :: "Money \<Rightarrow> Money \<Rightarrow> Money result" where
  "Money_add a b =
     bindR (require_currency a b) (\<lambda>_.
       mk_Money (PDecimal (decimal_plus (m_amount a) (m_amount b))) (PStr (m_currency a)))"

definition Money_lt :: "Money \<Rightarrow> Money \<Rightarrow> bool result" where
  "Money_lt a b = bindR (require_currency a b) (\<lambda>_. dec_less (m_amount a) (m_amount b))"

section \<open>Amounts are whole cents\<close>

definition max_cents :: int where
  "max_cents = 10 ^ 28"

definition amount_of_cents :: "int \<Rightarrow> decimal" where
  "amount_of_cents n = (case dec_normalize n (- 2) of (m, k) \<Rightarrow> Dec m k)"

definition money_cents :: "Money \<Rightarrow> int" where
  "money_cents m = (case m_amount m of Dec c e \<Rightarrow> cents_of c e | _ \<Rightarrow> 0)"

text \<open>What the constructor guarantees of the object it returns.\<close>

definition wf_money :: "Money \<Rightarrow> bool" where
  "wf_money m =
     (0 \<le> money_cents m \<and> money_cents m < max_cents
      \<and> m_amount m = amount_of_cents (money_cents m) \<and> is_currency (m_currency m))"

lemma cents_digits: "0 \<le> n \<Longrightarrow> digit_count n \<le> 28 \<longleftrightarrow> n < max_cents"
  using digit_count_le_iff [of 28 n] by (simp add: max_cents_def)

lemma amount_of_cents_cases:
  assumes "0 \<le> n" "n < max_cents"
  obtains c e where "amount_of_cents n = Dec c e" "dec_normalize n (- 2) = (c, e)"
    "dec_value c e = dec_value n (- 2)" "- 2 \<le> e" "0 \<le> c"
proof -
  obtain c e where ce: "dec_normalize n (- 2) = (c, e)" by fastforce
  have ex: "exact28 n" using assms cents_digits exact28_small by blast
  have v: "dec_value c e = dec_value n (- 2)" using dec_normalize_value [OF ce ex] .
  have e: "- 2 \<le> e"
    using ce dec_normalize_spec [OF ce _ ex] by (cases "n = 0") (auto simp: dec_normalize_def)
  have "\<not> c < 0" using v assms(1) by (metis dec_value_less_0_iff linorder_not_le)
  with ce v e that show thesis by (auto simp: amount_of_cents_def)
qed

lemma cents_amount_of_cents:
  assumes "0 \<le> n" "n < max_cents" "amount_of_cents n = Dec c e"
  shows "cents_of c e = n"
  using assms amount_of_cents_cases [OF assms(1,2)] cents_of_exact by (metis decimal.inject(1))

lemma check_amount_cents:
  assumes n: "dec_value c e = dec_value n (- 2)" "0 \<le> n"
  shows "check_amount (Dec c e) = (if n < max_cents then Inr (amount_of_cents n) else Inl InvalidOperation)"
proof -
  have pos: "\<not> c < 0" using n by (metis dec_value_less_0_iff linorder_not_le)
  have cents: "cents_of c e = n" using n(1) by (rule cents_of_exact)
  have "dec_normalize c e = dec_normalize n (- 2)" if "digit_count n \<le> 28"
    using that n exact28_of_cents [OF n(1) that] by (intro dec_normalize_unique) (auto intro: exact28_small)
  then show ?thesis
    using n pos cents_digits [OF n(2)]
    by (auto simp: check_amount_def dec_quantize2_def cents amount_of_cents_def split: prod.splits)
qed

lemma check_amount_Inr:
  assumes "check_amount r = Inr d"
  obtains n where "0 \<le> n" "n < max_cents" "d = amount_of_cents n"
proof -
  obtain c e where c: "r = Dec c e" "\<not> c < 0"
    and q: "bindR (dec_quantize2 c e) (\<lambda>q.
      if \<not> dec_eq q (Dec c e)
      then Inl (DomainValidationError ''money amount must have at most two decimal places'')
      else case dec_normalize c e of (m, k) \<Rightarrow> Inr (Dec m k)) = Inr d"
    using assms by (cases r) (auto simp: check_amount_def split: if_splits)
  define n where "n = cents_of c e"
  have n: "dec_value c e = dec_value n (- 2)" "digit_count n \<le> 28"
    using q by (auto simp: dec_quantize2_def bindR_Inr_iff n_def Let_def split: if_splits)
  have "0 \<le> n" using n(1) c(2) by (metis dec_value_less_0_iff linorder_not_le)
  with that check_amount_cents [OF n(1)] assms c(1) n(2) cents_digits show thesis
    by (auto split: if_splits)
qed

lemma coerce_decimal_eq:
  "\<not> is_bool v \<Longrightarrow> (\<And>f. v \<noteq> PFloat f) \<Longrightarrow> coerce_decimal v = bindR (construct_decimal v) check_amount"
  by (cases v) (auto simp: coerce_decimal_def)

lemma coerce_decimal_Inr:
  assumes "coerce_decimal v = Inr d"
  obtains n where "0 \<le> n" "n < max_cents" "d = amount_of_cents n"
proof -
  have "\<not> is_bool v" "\<And>f. v \<noteq> PFloat f"
    using assms by (auto simp: coerce_decimal_def elim: is_bool.elims)
  with assms obtain r where "check_amount r = Inr d"
    by (auto simp: coerce_decimal_eq bindR_Inr_iff)
  from check_amount_Inr [OF this] that show thesis by blast
qed

lemma mk_Money_wf: "mk_Money a c = Inr m \<Longrightarrow> wf_money m"
proof -
  assume "mk_Money a c = Inr m"
  then obtain d s where d: "coerce_decimal a = Inr d" and s: "is_currency (str_upper s)"
    and m: "m = \<lparr>m_amount = d, m_currency = str_upper s\<rparr>"
    by (cases c) (auto simp: mk_Money_def bindR_Inr_iff split: if_splits)
  from coerce_decimal_Inr [OF d] obtain n where n: "0 \<le> n" "n < max_cents" "d = amount_of_cents n" .
  from amount_of_cents_cases [OF n(1,2)] obtain c e where "amount_of_cents n = Dec c e" .
  with n m have "money_cents m = n" by (simp add: money_cents_def cents_amount_of_cents)
  with n m s show "wf_money m" by (simp add: wf_money_def)
qed

lemma upper_char_upper: "is_upper c \<Longrightarrow> upper_char c = c"
  by (auto simp: upper_char_def is_lower_def is_upper_def less_eq_char_def)

lemma currency_upper: "is_currency s \<Longrightarrow> str_upper s = s"
  by (simp add: is_currency_def str_upper_def list_all_iff map_idI upper_char_upper)

lemma wf_money_eqI:
  "wf_money a \<Longrightarrow> wf_money b \<Longrightarrow> money_cents a = money_cents b \<Longrightarrow> m_currency a = m_currency b \<Longrightarrow> a = b"
  by (cases a; cases b) (auto simp: wf_money_def)

lemma mk_Money_cents:
  assumes "construct_decimal v = Inr (Dec c e)" "\<not> is_bool v" "\<And>f. v \<noteq> PFloat f"
    and "dec_value c e = dec_value n (- 2)" "0 \<le> n" and "is_currency s"
  shows "mk_Money v (PStr s) =
    (if n < max_cents then Inr \<lparr>m_amount = amount_of_cents n, m_currency = s\<rparr> else Inl InvalidOperation)"
  using assms by (simp add: mk_Money_def coerce_decimal_eq check_amount_cents [OF assms(4,5)] currency_upper)

lemma money_cents_mk:
  assumes "0 \<le> n" "n < max_cents"
  shows "money_cents \<lparr>m_amount = amount_of_cents n, m_currency = s\<rparr> = n"
proof -
  from amount_of_cents_cases [OF assms] obtain c e where "amount_of_cents n = Dec c e" .
  with assms show ?thesis by (simp add: money_cents_def cents_amount_of_cents)
qed

section \<open>Sums\<close>

lemma dec_round_exact: "digit_count s \<le> 28 \<Longrightarrow> dec_round s m = Dec s m"
  using round28_exact [OF exact28_small] by (fastforce simp: dec_round_def)

lemma round_half_even_ge: "n div d \<le> round_half_even n d"
  by (simp add: round_half_even_def Let_def)

lemma dec_round_large:
  assumes s: "0 < s" "28 < digit_count s" and m: "- 2 \<le> m" and r: "dec_round s m = Dec c e"
  shows "max_cents \<le> cents_of c e"
proof -
  let ?x = "digit_count s - 28"
  have "10 ^ (digit_count s - 1) \<le> s"
    using digit_count_less_iff [of "digit_count s - 1" s] s by auto
  then have "10 ^ (27 + ?x) div 10 ^ ?x \<le> s div 10 ^ ?x"
    using s(2) by (intro zdiv_mono1) auto
  moreover have "(10 :: int) ^ (27 + ?x) div 10 ^ ?x = 10 ^ 27"
    by (simp add: power_add)
  ultimately have lo: "10 ^ 27 \<le> round_half_even s (10 ^ ?x)"
    using round_half_even_ge [of s "10 ^ ?x"] by linarith
  have ce: "c = round_half_even s (10 ^ ?x)" "e = m + int ?x"
    using r s(1) by (auto simp: dec_round_def round28_def Let_def)
  then have j: "1 \<le> nat (e + 2)" "- 2 \<le> e" using s(2) m by auto
  then obtain k where k: "nat (e + 2) = Suc k" by (cases "nat (e + 2)") auto
  have "(10 :: int) ^ 27 * 10 \<le> c * 10 ^ nat (e + 2)"
    unfolding k power_Suc using lo ce(1) by (intro mult_mono) auto
  with j show ?thesis by (simp add: cents_of_def max_cents_def)
qed

lemma dec_add_cents:
  assumes "- 2 \<le> e" "- 2 \<le> e'" "dec_value c e = dec_value a (- 2)" "dec_value c' e' = dec_value b (- 2)"
    and "m = min e e'"
  shows "dec_value (c * 10 ^ nat (e - m) + c' * 10 ^ nat (e' - m)) m = dec_value (a + b) (- 2)"
  using assms dec_value_shift [of "e - m" c m] dec_value_shift [of "e' - m" c' m]
  by (simp add: dec_value_def distrib_right)

lemma check_amount_big:
  assumes "0 \<le> c" "max_cents \<le> cents_of c e"
  shows "check_amount (Dec c e) = Inl InvalidOperation"
proof -
  have "\<not> digit_count (cents_of c e) \<le> 28"
    using assms(2) cents_digits [of "cents_of c e"] by (auto simp: max_cents_def)
  with assms(1) show ?thesis by (simp add: check_amount_def dec_quantize2_def)
qed

lemma check_amount_sum:
  assumes a: "0 \<le> a" "a < max_cents" and b: "0 \<le> b" "b < max_cents"
  shows "check_amount (decimal_plus (amount_of_cents a) (amount_of_cents b)) =
    (if a + b < max_cents then Inr (amount_of_cents (a + b)) else Inl InvalidOperation)"
proof -
  from amount_of_cents_cases [OF a] obtain c e where c: "amount_of_cents a = Dec c e"
    "dec_value c e = dec_value a (- 2)" "- 2 \<le> e" "0 \<le> c" .
  from amount_of_cents_cases [OF b] obtain c' e' where c': "amount_of_cents b = Dec c' e'"
    "dec_value c' e' = dec_value b (- 2)" "- 2 \<le> e'" "0 \<le> c'" .
  define m where "m = min e e'"
  define s where "s = c * 10 ^ nat (e - m) + c' * 10 ^ nat (e' - m)"
  have v: "dec_value s m = dec_value (a + b) (- 2)"
    unfolding s_def using c c' by (intro dec_add_cents) (auto simp: m_def)
  have s: "0 \<le> s" using c c' by (simp add: s_def)
  have m: "- 2 \<le> m" using c c' by (simp add: m_def)
  have plus: "decimal_plus (amount_of_cents a) (amount_of_cents b) = dec_round s m"
    by (simp add: decimal_plus_def c c' dec_add_def s_def m_def Let_def)
  show ?thesis
  proof (cases "digit_count s \<le> 28")
    case True
    then show ?thesis using v a b by (simp add: plus dec_round_exact check_amount_cents)
  next
    case False
    then have "s \<noteq> 0" by (auto simp: digit_count_def show_digits.simps)
    with s have pos: "0 < s" by simp
    obtain k j where r: "dec_round s m = Dec k j" by (cases "round28 s") (auto simp: dec_round_def)
    have big: "max_cents \<le> cents_of k j" using dec_round_large [OF pos _ m r] False by simp
    have k: "0 \<le> k" using r pos round_half_even_ge [of s "10 ^ (digit_count s - 28)"]
      by (auto simp: dec_round_def round28_def Let_def pos_imp_zdiv_nonneg_iff intro: order_trans [rotated])
    have "\<not> a + b < max_cents"
    proof
      assume "a + b < max_cents"
      then have "digit_count (a + b) \<le> 28" using a b cents_digits by simp
      moreover have "\<bar>s\<bar> \<le> \<bar>a + b\<bar>"
      proof -
        have "a + b = s * 10 ^ nat (m + 2)"
          using cents_of_exact [OF v] m by (simp add: cents_of_def)
        then show ?thesis by (simp add: abs_mult mult_le_cancel_left1)
      qed
      ultimately show False using False digit_count_le_iff [of 28 s] digit_count_le_iff [of 28 "a + b"] by simp
    qed
    with check_amount_big [OF k big] show ?thesis by (simp add: plus r)
  qed
qed

text \<open>
  Adding money is exact or refused: for values constructors returned, a sum in one currency
  is the value with the added cents, whatever the exponents of the two stored decimals, as long as
  it stays below \<open>10 ^ 28\<close> cents; beyond that the decimal context raises, never rounds; and
  different currencies never add.
\<close>

theorem money_add_exact:
  assumes "wf_money a" "wf_money b"
  shows "Money_add a b =
      (if m_currency a \<noteq> m_currency b
       then Inl (DomainValidationError ''money values use different currencies'')
       else if max_cents \<le> money_cents a + money_cents b then Inl InvalidOperation
       else Inr \<lparr>m_amount = amount_of_cents (money_cents a + money_cents b), m_currency = m_currency a\<rparr>)
    \<and> (\<forall>m. Money_add a b = Inr m \<longrightarrow> wf_money m \<and> money_cents m = money_cents a + money_cents b)"
proof -
  have add: "Money_add a b =
      (if m_currency a \<noteq> m_currency b
       then Inl (DomainValidationError ''money values use different currencies'')
       else if max_cents \<le> money_cents a + money_cents b then Inl InvalidOperation
       else Inr \<lparr>m_amount = amount_of_cents (money_cents a + money_cents b), m_currency = m_currency a\<rparr>)"
    using assms check_amount_sum [of "money_cents a" "money_cents b"]
    by (auto simp: Money_add_def require_currency_def wf_money_def mk_Money_def coerce_decimal_eq
        construct_decimal_def decimal_from_def currency_upper ensure_def)
  moreover have "wf_money m \<and> money_cents m = money_cents a + money_cents b" if "Money_add a b = Inr m" for m
    using that assms unfolding add by (auto simp: wf_money_def money_cents_mk split: if_splits)
  ultimately show ?thesis by blast
qed

lemma money_add_exact_witness:
  "Money_add \<lparr>m_amount = Dec 1 2, m_currency = ''EUR''\<rparr> \<lparr>m_amount = Dec 25 (- 2), m_currency = ''EUR''\<rparr>
     = Inr \<lparr>m_amount = Dec 10025 (- 2), m_currency = ''EUR''\<rparr>"
proof -
  have wf: "wf_money \<lparr>m_amount = Dec 1 2, m_currency = ''EUR''\<rparr>"
    "wf_money \<lparr>m_amount = Dec 25 (- 2), m_currency = ''EUR''\<rparr>" by code_simp+
  have c: "money_cents \<lparr>m_amount = Dec 1 2, m_currency = ''EUR''\<rparr> = 10000"
    "money_cents \<lparr>m_amount = Dec 25 (- 2), m_currency = ''EUR''\<rparr> = 25"
    "amount_of_cents 10025 = Dec 10025 (- 2)" by code_simp+
  from money_add_exact [OF wf] c show ?thesis by (simp add: max_cents_def)
qed

text \<open>
  C39. Printing and reading money is a round trip: for any money value a constructor returned,
  \<^verbatim>\<open>from_dict(to_dict(m))\<close> is \<^verbatim>\<open>m\<close> again, and the printed amount has exactly the stored
  number of cents.
\<close>

theorem money_roundtrip:
  assumes "mk_Money a c = Inr m"
  shows "Money_from_dict (Money_to_dict m) = Inr m
    \<and> parse_decimal (decimal_text (m_amount m)) = Some (Dec (money_cents m) (- 2))"
proof -
  have wf: "wf_money m" using mk_Money_wf [OF assms] .
  let ?n = "money_cents m"
  from wf have n: "0 \<le> ?n" "?n < max_cents" "m_amount m = amount_of_cents ?n" "is_currency (m_currency m)"
    by (auto simp: wf_money_def)
  from amount_of_cents_cases [OF n(1,2)] obtain k e where ke: "amount_of_cents ?n = Dec k e" .
  have shown: "decimal_text (m_amount m) = dec_plain ?n (- 2)"
    using n ke by (simp add: decimal_text_def cents_amount_of_cents)
  have parse: "parse_decimal (dec_plain ?n (- 2)) = Some (Dec ?n (- 2))"
    by (rule parse_dec_plain_neg) simp
  have "mk_Money (PStr (dec_plain ?n (- 2))) (PStr (m_currency m))
      = Inr \<lparr>m_amount = amount_of_cents ?n, m_currency = m_currency m\<rparr>"
    using n parse by (subst mk_Money_cents [where c = ?n and e = "- 2" and n = ?n]) (auto simp: construct_decimal_def decimal_from_def)
  with n shown parse show ?thesis by (auto simp: Money_from_dict_def Money_to_dict_def)
qed

lemma money_roundtrip_witness:
  "Money_from_dict (Money_to_dict \<lparr>m_amount = Dec 1 2, m_currency = ''EUR''\<rparr>)
     = Inr \<lparr>m_amount = Dec 1 2, m_currency = ''EUR''\<rparr>"
proof -
  have "mk_Money (PStr ''100.00'') (PStr ''eur'') = Inr \<lparr>m_amount = Dec 1 2, m_currency = ''EUR''\<rparr>"
    by code_simp
  from money_roundtrip [OF this] show ?thesis by simp
qed

end
