(* ===== verification/DomainModels.thy ===== *)
theory DomainModels
  imports Hashing Money Enums
begin

text \<open>
  \<^verbatim>\<open>domain/models.py\<close>: the value objects of the commerce vertical. A frozen dataclass is a
  record; its \<^verbatim>\<open>__post_init__\<close> is a function from the record as given to the record as stored,
  or the first exception. \<^verbatim>\<open>content_hash\<close> is the argument \<open>H\<close>.
\<close>

section \<open>Field checks\<close>

definition is_id_char :: "char \<Rightarrow> bool" where
  "is_id_char c = (is_alnum c \<or> c \<in> set ''_.:-'')"

definition is_id :: "string \<Rightarrow> bool" where
  "is_id s =
     (case s of [] \<Rightarrow> False | c # cs \<Rightarrow> is_alnum c \<and> length cs \<le> 127 \<and> list_all is_id_char cs)"

definition require_id :: "string \<Rightarrow> string \<Rightarrow> unit result" where
  "require_id value field_name =
     ensure (is_id value)
       (DomainValidationError (field_name @ '' must be a stable non-empty identifier''))"

definition require_hash :: "string \<Rightarrow> string \<Rightarrow> unit result" where
  "require_hash value field_name =
     ensure (is_content_hash value)
       (DomainValidationError (field_name @ '' must be a sha256 content hash''))"

definition require_aware :: "py_datetime \<Rightarrow> string \<Rightarrow> unit result" where
  "require_aware value field_name =
     ensure (dt_aware value) (DomainValidationError (field_name @ '' must be timezone-aware''))"

definition require_aware_opt :: "py_datetime option \<Rightarrow> string \<Rightarrow> unit result" where
  "require_aware_opt value field_name =
     (case value of None \<Rightarrow> Inr () | Some t \<Rightarrow> require_aware t field_name)"

lemmas require_defs = require_id_def require_hash_def require_aware_def require_aware_opt_def

lemma require_Inr [result_simps]:
  "require_id v n = Inr u \<longleftrightarrow> is_id v"
  "require_hash v n = Inr u \<longleftrightarrow> is_content_hash v"
  "require_aware t n = Inr u \<longleftrightarrow> dt_aware t"
  by (simp_all add: require_defs result_simps)

section \<open>Freezing\<close>

text \<open>
  \<^verbatim>\<open>str(key)\<close> of a mapping key. The text of keys that are neither strings nor the scalars below
  is left to \<open>text_of\<close>.
\<close>

definition key_text :: "(pyval \<Rightarrow> string) \<Rightarrow> pyval \<Rightarrow> string" where
  "key_text text_of k =
     (case k of
        PStr s \<Rightarrow> s
      | PUuid s \<Rightarrow> s
      | PInt i \<Rightarrow> show_int i
      | PBool b \<Rightarrow> (if b then ''True'' else ''False'')
      | PNone \<Rightarrow> ''None''
      | PDate d \<Rightarrow> date_isoformat d
      | _ \<Rightarrow> text_of k)"

function deep_freeze :: "(pyval \<Rightarrow> string) \<Rightarrow> pyval \<Rightarrow> pyval" where
  "deep_freeze text_of v =
     (case v of
        PDict kvs \<Rightarrow> PDict (dict_of (map (\<lambda>(k, x). (PStr (key_text text_of k), deep_freeze text_of x)) kvs))
      | PList xs \<Rightarrow> PTuple (map (deep_freeze text_of) xs)
      | PTuple xs \<Rightarrow> PTuple (map (deep_freeze text_of) xs)
      | PSet xs \<Rightarrow> PSet (map (deep_freeze text_of) xs)
      | _ \<Rightarrow> v)"
  by pat_completeness auto
termination
  by (relation "measure (\<lambda>(t, v). size v)") (auto simp: termination_simp)

declare deep_freeze.simps [simp del]

lemma deep_freeze_eqs [simp]:
  "deep_freeze t (PDict kvs) = PDict (dict_of (map (\<lambda>(k, x). (PStr (key_text t k), deep_freeze t x)) kvs))"
  "deep_freeze t (PList xs) = PTuple (map (deep_freeze t) xs)"
  "deep_freeze t (PTuple xs) = PTuple (map (deep_freeze t) xs)"
  "deep_freeze t (PSet xs) = PSet (map (deep_freeze t) xs)"
  "deep_freeze t (PStr s) = PStr s"
  by (simp_all add: deep_freeze.simps)

text \<open>A frozen value: string keys that occur once, tuples for lists, at every depth.\<close>

lemma set_fold_update:
  "set (fold (\<lambda>(k, v) d. AList.update k v d) ps d) \<subseteq> set ps \<union> set d"
proof (induction ps arbitrary: d)
  case Nil
  then show ?case by simp
next
  case (Cons p ps)
  obtain k v where p: "p = (k, v)" by fastforce
  have "set (AList.update k v d) \<subseteq> insert (k, v) (set d)" by (induction d) auto
  with Cons.IH [of "AList.update k v d"] p show ?case by auto
qed

lemma set_dict_of: "set (dict_of ps) \<subseteq> set ps"
  using set_fold_update [of ps "[]"] by (simp add: dict_of_def)

lemma deep_freeze_idem: "deep_freeze t (deep_freeze t v) = deep_freeze t v"
proof (induction t v rule: deep_freeze.induct)
  case (1 t v)
  show ?case
  proof (cases v)
    case (PDict kvs)
    let ?f = "\<lambda>(k, x). (PStr (key_text t k), deep_freeze t x)"
    have fix_pair: "?f p = p" if "p \<in> set (dict_of (map ?f kvs))" for p
    proof -
      from that set_dict_of obtain k x where p: "p = ?f (k, x)" "(k, x) \<in> set kvs" by fastforce
      with "1.IH"(4) [OF PDict p(2) refl] show ?thesis by (simp add: key_text_def)
    qed
    then have "map ?f (dict_of (map ?f kvs)) = dict_of (map ?f kvs)" by (rule map_idI)
    then show ?thesis by (simp add: PDict dict_of_distinct)
  qed (use "1.IH" in \<open>simp_all add: deep_freeze.simps [of t v] deep_freeze.simps\<close>)
qed

section \<open>Facts and evidence\<close>

record SourceRef =
  sr_provider :: string
  sr_content_id :: string
  sr_version_id :: string
  sr_fragment_hash :: string
  sr_retrieved_at :: py_datetime
  sr_fragment_ordinal :: "int option"

definition mk_SourceRef :: "SourceRef \<Rightarrow> SourceRef result" where
  "mk_SourceRef s =
     bindR (require_id (sr_provider s) ''provider'') (\<lambda>_.
     bindR (require_id (sr_content_id s) ''content_id'') (\<lambda>_.
     bindR (require_id (sr_version_id s) ''version_id'') (\<lambda>_.
     bindR (require_hash (sr_fragment_hash s) ''fragment_hash'') (\<lambda>_.
     bindR (require_aware (sr_retrieved_at s) ''retrieved_at'') (\<lambda>_.
       case sr_fragment_ordinal s of
         Some n \<Rightarrow> if n < 0 then Inl (DomainValidationError ''fragment_ordinal cannot be negative'')
                    else Inr s
       | None \<Rightarrow> Inr s)))))"

record Verification =
  ve_status :: string
  ve_method :: string
  ve_verified_by :: "string option"
  ve_verified_at :: "py_datetime option"
  ve_scope :: string

definition verification_statuses :: "string list" where
  "verification_statuses =
     [''unverified'', ''verified'', ''human_approved'', ''disputed'', ''expired'', ''revoked'']"

definition mk_Verification :: "Verification \<Rightarrow> Verification result" where
  "mk_Verification v =
     bindR (ensure (ve_status v \<in> set verification_statuses)
              (DomainValidationError ''unsupported verification status'')) (\<lambda>_.
     bindR (ensure (ve_method v \<noteq> []) (DomainValidationError ''verification method is required'')) (\<lambda>_.
     bindR (ensure (ve_status v \<in> {''verified'', ''human_approved''} \<longrightarrow>
                      ve_verified_by v \<notin> {None, Some []} \<and> ve_verified_at v \<noteq> None)
              (DomainValidationError ''verified facts require verifier and timestamp'')) (\<lambda>_.
     bindR (require_aware_opt (ve_verified_at v) ''verified_at'') (\<lambda>_. Inr v))))"

record BuyerFact =
  bf_fact_id :: string
  bf_organization_id :: string
  bf_subject_type :: string
  bf_subject_id :: string
  bf_field :: string
  bf_operator :: string
  bf_value :: pyval
  bf_kind :: string
  bf_stakeholder_role :: string
  bf_source :: SourceRef
  bf_verification :: Verification
  bf_valid_from :: py_datetime
  bf_valid_until :: "py_datetime option"
  bf_sensitivity :: string
  bf_confidence :: string

definition check_window :: "py_datetime \<Rightarrow> py_datetime option \<Rightarrow> unit result" where
  "check_window valid_from valid_until =
     (case valid_until of
        None \<Rightarrow> Inr ()
      | Some u \<Rightarrow>
          bindR (require_aware u ''valid_until'') (\<lambda>_.
          ensure (dt_instant valid_from < dt_instant u)
            (DomainValidationError ''valid_until must be after valid_from'')))"

definition BuyerFact_post_init :: "(pyval \<Rightarrow> string) \<Rightarrow> BuyerFact \<Rightarrow> BuyerFact result" where
  "BuyerFact_post_init text_of b =
     bindR (require_id (bf_fact_id b) ''fact_id'') (\<lambda>_.
     bindR (require_id (bf_organization_id b) ''organization_id'') (\<lambda>_.
     bindR (require_id (bf_subject_id b) ''subject_id'') (\<lambda>_.
     bindR (ensure (bf_subject_type b \<noteq> [] \<and> bf_field b \<noteq> [] \<and> bf_operator b \<noteq> [])
              (DomainValidationError ''fact subject, field, and operator are required'')) (\<lambda>_.
     bindR (ensure (bf_kind b \<in> {''hard_constraint'', ''preference'', ''observation'', ''authority''})
              (DomainValidationError ''unsupported buyer fact kind'')) (\<lambda>_.
     bindR (ensure (bf_confidence b \<in> {''confirmed'', ''measured'', ''inferred'', ''unknown''})
              (DomainValidationError ''unsupported confidence'')) (\<lambda>_.
     bindR (require_aware (bf_valid_from b) ''valid_from'') (\<lambda>_.
     bindR (check_window (bf_valid_from b) (bf_valid_until b)) (\<lambda>_.
     bindR (ensure (bf_kind b = ''hard_constraint'' \<longrightarrow>
                      ve_status (bf_verification b) \<in> {''verified'', ''human_approved''})
              (DomainValidationError ''hard constraints require verified or owner-approved facts'')) (\<lambda>_.
     Inr (b\<lparr>bf_value := deep_freeze text_of (bf_value b)\<rparr>))))))))))"

text \<open>\<open>now\<close> is \<^verbatim>\<open>datetime.now(UTC)\<close>, read when no point in time is given.\<close>

definition BuyerFact_is_current :: "BuyerFact \<Rightarrow> py_datetime option \<Rightarrow> py_datetime \<Rightarrow> bool result" where
  "BuyerFact_is_current b at_time now =
     (let point = (case at_time of Some t \<Rightarrow> t | None \<Rightarrow> now)
      in bindR (require_aware point ''at'') (\<lambda>_.
           Inr (dt_instant (bf_valid_from b) \<le> dt_instant point
                \<and> (case bf_valid_until b of None \<Rightarrow> True | Some u \<Rightarrow> dt_instant point < dt_instant u))))"

record EvidenceRef =
  er_evidence_id :: string
  er_claim_id :: string
  er_source :: SourceRef
  er_assertion_source :: string
  er_visibility :: string
  er_verification_method :: string
  er_verification_scope :: string
  er_verification_state :: string
  er_expires_at :: "py_datetime option"

definition mk_EvidenceRef :: "EvidenceRef \<Rightarrow> EvidenceRef result" where
  "mk_EvidenceRef r =
     bindR (require_id (er_evidence_id r) ''evidence_id'') (\<lambda>_.
     bindR (require_id (er_claim_id r) ''claim_id'') (\<lambda>_.
     bindR (ensure (er_verification_state r \<in> {''unverified'', ''verified'', ''disputed'', ''expired'', ''revoked''})
              (DomainValidationError ''unsupported evidence verification state'')) (\<lambda>_.
     bindR (require_aware_opt (er_expires_at r) ''expires_at'') (\<lambda>_. Inr r))))"

record MerchantIdentity =
  mi_merchant_id :: string
  mi_name :: string
  mi_url :: string
  mi_country :: string

definition mk_MerchantIdentity :: "MerchantIdentity \<Rightarrow> MerchantIdentity result" where
  "mk_MerchantIdentity m =
     bindR (require_id (mi_merchant_id m) ''merchant_id'') (\<lambda>_.
     bindR (ensure (mi_name m \<noteq> []) (DomainValidationError ''merchant name is required'')) (\<lambda>_.
     bindR (ensure (prefix ''https://'' (mi_url m))
              (DomainValidationError ''merchant URL must use HTTPS'')) (\<lambda>_.
     bindR (ensure (length (mi_country m) = 2 \<and> list_all is_upper (mi_country m))
              (DomainValidationError ''merchant country must be ISO alpha-2'')) (\<lambda>_. Inr m))))"

record ExpectedFulfillment =
  ef_fulfillment_item_id :: string
  ef_line_item_id :: string
  ef_type :: string
  ef_subject_type :: string
  ef_required :: bool
  ef_minimum_quantity :: int
  ef_expected_quantity :: int
  ef_verification_method :: string

definition mk_ExpectedFulfillment :: "ExpectedFulfillment \<Rightarrow> ExpectedFulfillment result" where
  "mk_ExpectedFulfillment f =
     bindR (require_id (ef_fulfillment_item_id f) ''fulfillment_item_id'') (\<lambda>_.
     bindR (require_id (ef_line_item_id f) ''line_item_id'') (\<lambda>_.
     bindR (ensure (ef_type f \<noteq> [] \<and> ef_subject_type f \<noteq> [] \<and> ef_verification_method f \<noteq> [])
              (DomainValidationError ''fulfillment type, subject, and verification are required'')) (\<lambda>_.
     bindR (ensure (0 \<le> ef_minimum_quantity f \<and> ef_minimum_quantity f \<le> ef_expected_quantity f)
              (DomainValidationError ''fulfillment quantities are inconsistent'')) (\<lambda>_.
     bindR (ensure (ef_required f \<longrightarrow> 1 \<le> ef_minimum_quantity f)
              (DomainValidationError ''required fulfillment needs a positive minimum'')) (\<lambda>_. Inr f)))))"

section \<open>The purchase intent\<close>

record PurchaseIntent =
  pi_schema_version :: string
  pi_purchase_intent_id :: string
  pi_organization_id :: string
  pi_decision_id :: string
  pi_decision_hash :: string
  pi_solution_plan_id :: string
  pi_procurement_plan_id :: string
  pi_procurement_gate_result_hash :: string
  pi_pack_id :: string
  pi_pack_version :: int
  pi_offer_id :: string
  pi_offer_version :: int
  pi_quote_id :: string
  pi_quote_expires_at :: py_datetime
  pi_merchant :: MerchantIdentity
  pi_approved_merchant_chain_id :: string
  pi_amount :: Money
  pi_line_items :: "pyval list"
  pi_expected_fulfillments :: "ExpectedFulfillment list"
  pi_approval_policy_version :: int
  pi_approval_plan_hash :: string
  pi_buyer_legal_entity_id :: string
  pi_seller_contracting_entity_id :: string
  pi_billing_identity_id :: string
  pi_cost_center_id :: string
  pi_contract_version_id :: string
  pi_intent_hash :: string

text \<open>Dataclasses as hashed values: every field, in declaration order.\<close>

definition MerchantIdentity_pyval :: "MerchantIdentity \<Rightarrow> pyval" where
  "MerchantIdentity_pyval m =
     PData [(''merchant_id'', PStr (mi_merchant_id m)), (''name'', PStr (mi_name m)),
            (''url'', PStr (mi_url m)), (''country'', PStr (mi_country m))] None"

definition ExpectedFulfillment_pyval :: "ExpectedFulfillment \<Rightarrow> pyval" where
  "ExpectedFulfillment_pyval f =
     PData [(''fulfillment_item_id'', PStr (ef_fulfillment_item_id f)),
            (''line_item_id'', PStr (ef_line_item_id f)), (''type'', PStr (ef_type f)),
            (''subject_type'', PStr (ef_subject_type f)), (''required'', PBool (ef_required f)),
            (''minimum_quantity'', PInt (ef_minimum_quantity f)),
            (''expected_quantity'', PInt (ef_expected_quantity f)),
            (''verification_method'', PStr (ef_verification_method f))] None"

definition datetime_pyval :: "py_datetime \<Rightarrow> pyval" where
  "datetime_pyval t = PDateTime (dt_local t) (dt_offset t)"

definition PurchaseIntent_to_hash_payload :: "PurchaseIntent \<Rightarrow> pyval" where
  "PurchaseIntent_to_hash_payload p = PDict
     [(PStr ''schema_version'', PStr (pi_schema_version p)),
      (PStr ''purchase_intent_id'', PStr (pi_purchase_intent_id p)),
      (PStr ''organization_id'', PStr (pi_organization_id p)),
      (PStr ''decision_id'', PStr (pi_decision_id p)),
      (PStr ''decision_hash'', PStr (pi_decision_hash p)),
      (PStr ''solution_plan_id'', PStr (pi_solution_plan_id p)),
      (PStr ''procurement_plan_id'', PStr (pi_procurement_plan_id p)),
      (PStr ''procurement_gate_result_hash'', PStr (pi_procurement_gate_result_hash p)),
      (PStr ''pack_id'', PStr (pi_pack_id p)),
      (PStr ''pack_version'', PInt (pi_pack_version p)),
      (PStr ''offer_id'', PStr (pi_offer_id p)),
      (PStr ''offer_version'', PInt (pi_offer_version p)),
      (PStr ''quote_id'', PStr (pi_quote_id p)),
      (PStr ''quote_expires_at'', datetime_pyval (pi_quote_expires_at p)),
      (PStr ''merchant'', MerchantIdentity_pyval (pi_merchant p)),
      (PStr ''approved_merchant_chain_id'', PStr (pi_approved_merchant_chain_id p)),
      (PStr ''amount'', Money_pyval (pi_amount p)),
      (PStr ''line_items'', PTuple (pi_line_items p)),
      (PStr ''expected_fulfillments'', PTuple (map ExpectedFulfillment_pyval (pi_expected_fulfillments p))),
      (PStr ''approval_policy_version'', PInt (pi_approval_policy_version p)),
      (PStr ''approval_plan_hash'', PStr (pi_approval_plan_hash p)),
      (PStr ''buyer_legal_entity_id'', PStr (pi_buyer_legal_entity_id p)),
      (PStr ''seller_contracting_entity_id'', PStr (pi_seller_contracting_entity_id p)),
      (PStr ''billing_identity_id'', PStr (pi_billing_identity_id p)),
      (PStr ''cost_center_id'', PStr (pi_cost_center_id p)),
      (PStr ''contract_version_id'', PStr (pi_contract_version_id p))]"

definition PurchaseIntent_ids :: "PurchaseIntent \<Rightarrow> (string \<times> string) list" where
  "PurchaseIntent_ids p =
     [(''purchase_intent_id'', pi_purchase_intent_id p), (''organization_id'', pi_organization_id p),
      (''decision_id'', pi_decision_id p), (''solution_plan_id'', pi_solution_plan_id p),
      (''procurement_plan_id'', pi_procurement_plan_id p), (''pack_id'', pi_pack_id p),
      (''offer_id'', pi_offer_id p), (''quote_id'', pi_quote_id p),
      (''approved_merchant_chain_id'', pi_approved_merchant_chain_id p),
      (''buyer_legal_entity_id'', pi_buyer_legal_entity_id p),
      (''seller_contracting_entity_id'', pi_seller_contracting_entity_id p),
      (''billing_identity_id'', pi_billing_identity_id p), (''cost_center_id'', pi_cost_center_id p),
      (''contract_version_id'', pi_contract_version_id p)]"

text \<open>The field checks, up to the freezing of the line items; then the hash.\<close>

definition PurchaseIntent_checks :: "PurchaseIntent \<Rightarrow> unit result" where
  "PurchaseIntent_checks p =
     bindR (foldR (\<lambda>(field_name, value) _. require_id value field_name) (PurchaseIntent_ids p) ()) (\<lambda>_.
     bindR (require_hash (pi_decision_hash p) ''decision_hash'') (\<lambda>_.
     bindR (require_hash (pi_procurement_gate_result_hash p) ''procurement_gate_result_hash'') (\<lambda>_.
     bindR (require_hash (pi_approval_plan_hash p) ''approval_plan_hash'') (\<lambda>_.
     bindR (require_aware (pi_quote_expires_at p) ''quote_expires_at'') (\<lambda>_.
     bindR (ensure (1 \<le> pi_pack_version p \<and> 1 \<le> pi_offer_version p \<and> 1 \<le> pi_approval_policy_version p)
              (DomainValidationError ''artifact versions must be positive'')) (\<lambda>_.
     ensure (pi_schema_version p \<noteq> []) (DomainValidationError ''schema_version is required'')))))))"

definition PurchaseIntent_seal :: "PurchaseIntent \<Rightarrow> string \<Rightarrow> PurchaseIntent result" where
  "PurchaseIntent_seal q computed =
     (if pi_intent_hash q \<noteq> [] then
        bindR (require_hash (pi_intent_hash q) ''intent_hash'') (\<lambda>_.
        if pi_intent_hash q \<noteq> computed
        then Inl (DomainValidationError ''intent_hash does not match the canonical payload'')
        else Inr q)
      else Inr (q\<lparr>pi_intent_hash := computed\<rparr>))"

definition PurchaseIntent_post_init ::
    "(pyval \<Rightarrow> string result) \<Rightarrow> (pyval \<Rightarrow> string) \<Rightarrow> PurchaseIntent \<Rightarrow> PurchaseIntent result" where
  "PurchaseIntent_post_init H text_of p =
     bindR (PurchaseIntent_checks p) (\<lambda>_.
     let q = p\<lparr>pi_line_items := map (deep_freeze text_of) (pi_line_items p)\<rparr>
     in bindR (ensure (pi_line_items q \<noteq> [] \<and> pi_expected_fulfillments q \<noteq> [])
                 (DomainValidationError ''a purchase intent needs line items and expected fulfillment'')) (\<lambda>_.
        bindR (H (PurchaseIntent_to_hash_payload q)) (PurchaseIntent_seal q)))"

record ApprovalBinding =
  ab_approval_request_id :: string
  ab_intent_hash :: string
  ab_status :: ApprovalStatus

definition mk_ApprovalBinding :: "ApprovalBinding \<Rightarrow> ApprovalBinding result" where
  "mk_ApprovalBinding b =
     bindR (require_id (ab_approval_request_id b) ''approval_request_id'') (\<lambda>_.
     bindR (require_hash (ab_intent_hash b) ''intent_hash'') (\<lambda>_. Inr b))"

section \<open>Sealed objects\<close>

lemma deep_freeze_comp [simp]: "deep_freeze t \<circ> deep_freeze t = deep_freeze t"
  by (simp add: fun_eq_iff deep_freeze_idem)

lemma PurchaseIntent_checks_cong [simp]:
  "PurchaseIntent_checks (p\<lparr>pi_line_items := xs\<rparr>) = PurchaseIntent_checks p"
  "PurchaseIntent_checks (p\<lparr>pi_intent_hash := h\<rparr>) = PurchaseIntent_checks p"
  by (simp_all add: PurchaseIntent_checks_def PurchaseIntent_ids_def)

lemma payload_ignores_hash [simp]:
  "PurchaseIntent_to_hash_payload (p\<lparr>pi_intent_hash := h\<rparr>) = PurchaseIntent_to_hash_payload p"
  by (simp add: PurchaseIntent_to_hash_payload_def)

context content_hasher
begin

lemma post_init_Inr:
  assumes "PurchaseIntent_post_init H t p = Inr q"
  obtains h where "PurchaseIntent_checks p = Inr ()" "pi_line_items p \<noteq> []"
    "pi_expected_fulfillments p \<noteq> []" "is_content_hash h"
    "H (PurchaseIntent_to_hash_payload (p\<lparr>pi_line_items := map (deep_freeze t) (pi_line_items p)\<rparr>)) = Inr h"
    "q = p\<lparr>pi_line_items := map (deep_freeze t) (pi_line_items p), pi_intent_hash := h\<rparr>"
    "pi_intent_hash p \<noteq> [] \<longrightarrow> h = pi_intent_hash p"
proof -
  let ?q = "p\<lparr>pi_line_items := map (deep_freeze t) (pi_line_items p)\<rparr>"
  have "PurchaseIntent_post_init H t p =
      bindR (PurchaseIntent_checks p) (\<lambda>_.
      bindR (ensure (pi_line_items p \<noteq> [] \<and> pi_expected_fulfillments p \<noteq> [])
        (DomainValidationError ''a purchase intent needs line items and expected fulfillment'')) (\<lambda>_.
      bindR (H (PurchaseIntent_to_hash_payload ?q)) (PurchaseIntent_seal ?q)))"
    by (simp add: PurchaseIntent_post_init_def Let_def)
  with assms obtain h where h: "PurchaseIntent_checks p = Inr ()" "pi_line_items p \<noteq> []"
      "pi_expected_fulfillments p \<noteq> []" "H (PurchaseIntent_to_hash_payload ?q) = Inr h"
    and r: "PurchaseIntent_seal ?q h = Inr q"
    by (auto simp: bindR_Inr_iff ensure_Inr_iff)
  have "q = ?q\<lparr>pi_intent_hash := h\<rparr> \<and> (pi_intent_hash p \<noteq> [] \<longrightarrow> h = pi_intent_hash p)"
  proof (cases "pi_intent_hash p = []")
    case True
    with r show ?thesis by (simp add: PurchaseIntent_seal_def)
  next
    case False
    with r have "h = pi_intent_hash p" "q = ?q"
      by (simp_all add: PurchaseIntent_seal_def bindR_Inr_iff split: if_splits)
    then show ?thesis by (cases p) simp
  qed
  with h hash_shape [OF h(4)] that show thesis by blast
qed

lemma post_init_seals:
  assumes "PurchaseIntent_post_init H t p = Inr q"
  shows "H (PurchaseIntent_to_hash_payload q) = Inr (pi_intent_hash q)"
    and "is_content_hash (pi_intent_hash q)"
    and "PurchaseIntent_post_init H t q = Inr q"
proof -
  from post_init_Inr [OF assms] obtain h where h: "PurchaseIntent_checks p = Inr ()" "pi_line_items p \<noteq> []"
    "pi_expected_fulfillments p \<noteq> []" "is_content_hash h"
    "H (PurchaseIntent_to_hash_payload (p\<lparr>pi_line_items := map (deep_freeze t) (pi_line_items p)\<rparr>)) = Inr h"
    and q: "q = p\<lparr>pi_line_items := map (deep_freeze t) (pi_line_items p), pi_intent_hash := h\<rparr>" .
  show "H (PurchaseIntent_to_hash_payload q) = Inr (pi_intent_hash q)" using h(5) by (simp add: q)
  show "is_content_hash (pi_intent_hash q)" using h(4) by (simp add: q)
  have same: "q\<lparr>pi_line_items := map (deep_freeze t) (pi_line_items q)\<rparr> = q"
    unfolding q by simp
  have "h \<noteq> []" using h(4) by (auto simp: is_content_hash_def)
  then show "PurchaseIntent_post_init H t q = Inr q"
    using h unfolding PurchaseIntent_post_init_def same Let_def
    by (simp add: q require_hash_def PurchaseIntent_seal_def)
qed

end

text \<open>
  C2. A stored purchase intent is sealed: its \<^verbatim>\<open>intent_hash\<close> is the content hash of its own payload,
  in the shape every consumer requires; validating the stored object again returns it unchanged;
  and an object that claims a stored intent's hash is accepted only if its own frozen payload has
  that very hash, so no field of an approved intent can be altered under its hash unless the hash
  function itself collides.
\<close>

theorem purchase_intent_sealed:
  assumes "PurchaseIntent_post_init (\<lambda>v. content_hash dumps v []) t p = Inr q"
  shows "content_hash dumps (PurchaseIntent_to_hash_payload q) [] = Inr (pi_intent_hash q)
    \<and> is_content_hash (pi_intent_hash q)
    \<and> PurchaseIntent_post_init (\<lambda>v. content_hash dumps v []) t q = Inr q
    \<and> (\<forall>r r'. pi_intent_hash r = pi_intent_hash q \<longrightarrow>
         PurchaseIntent_post_init (\<lambda>v. content_hash dumps v []) t r = Inr r' \<longrightarrow>
         content_hash dumps (PurchaseIntent_to_hash_payload r') []
           = content_hash dumps (PurchaseIntent_to_hash_payload q) [])"
proof -
  note sealed = domain_hash.post_init_seals [OF assms]
  have "content_hash dumps (PurchaseIntent_to_hash_payload r') [] = Inr (pi_intent_hash q)"
    if "pi_intent_hash r = pi_intent_hash q"
      "PurchaseIntent_post_init (\<lambda>v. content_hash dumps v []) t r = Inr r'" for r r'
  proof -
    have "pi_intent_hash r \<noteq> []" using sealed(2) that(1) by (auto simp: is_content_hash_def)
    with domain_hash.post_init_Inr [OF that(2)] have "pi_intent_hash r' = pi_intent_hash r"
      by (metis PurchaseIntent.select_convs(27) PurchaseIntent.surjective PurchaseIntent.update_convs(27))
    with domain_hash.post_init_seals(1) [OF that(2)] that(1) show ?thesis by simp
  qed
  with sealed show ?thesis by simp
qed

definition sample_intent :: PurchaseIntent where
  "sample_intent =
     (let h = ''sha256:'' @ replicate 64 CHR ''0''
      in \<lparr>pi_schema_version = ''1'', pi_purchase_intent_id = ''pi-1'', pi_organization_id = ''org-1'',
          pi_decision_id = ''d-1'', pi_decision_hash = h, pi_solution_plan_id = ''sp-1'',
          pi_procurement_plan_id = ''pp-1'', pi_procurement_gate_result_hash = h, pi_pack_id = ''pk-1'',
          pi_pack_version = 1, pi_offer_id = ''o-1'', pi_offer_version = 1, pi_quote_id = ''q-1'',
          pi_quote_expires_at = \<lparr>dt_local = 63000000000000000, dt_offset = Some 0\<rparr>,
          pi_merchant = \<lparr>mi_merchant_id = ''m-1'', mi_name = ''M'', mi_url = ''https://m'', mi_country = ''DE''\<rparr>,
          pi_approved_merchant_chain_id = ''c-1'',
          pi_amount = \<lparr>m_amount = Dec 25 (- 2), m_currency = ''EUR''\<rparr>,
          pi_line_items = [PDict [(PStr ''sku'', PList [PStr ''a''])]],
          pi_expected_fulfillments =
            [\<lparr>ef_fulfillment_item_id = ''f-1'', ef_line_item_id = ''l-1'', ef_type = ''seat'',
              ef_subject_type = ''user'', ef_required = True, ef_minimum_quantity = 1,
              ef_expected_quantity = 2, ef_verification_method = ''api''\<rparr>],
          pi_approval_policy_version = 1, pi_approval_plan_hash = h, pi_buyer_legal_entity_id = ''b-1'',
          pi_seller_contracting_entity_id = ''s-1'', pi_billing_identity_id = ''bi-1'',
          pi_cost_center_id = ''cc-1'', pi_contract_version_id = ''cv-1'', pi_intent_hash = []\<rparr>)"

lemma purchase_intent_sealed_witness:
  "\<exists>q. PurchaseIntent_post_init (\<lambda>v. content_hash (\<lambda>_. Some ''{}'') v []) (\<lambda>_. []) sample_intent = Inr q
     \<and> pi_line_items q = [PDict [(PStr ''sku'', PTuple [PStr ''a''])]]
     \<and> PurchaseIntent_post_init (\<lambda>v. content_hash (\<lambda>_. Some ''{}'') v []) (\<lambda>_. []) q = Inr q"
proof -
  let ?d = "\<lambda>_. Some ''{}''"
  define h where "h = ''sha256:'' @ sha256_hexdigest ''{}''"
  let ?q = "sample_intent\<lparr>pi_line_items := map (deep_freeze (\<lambda>_. [])) (pi_line_items sample_intent)\<rparr>"
  have "is_ok (normalize_value [] (PurchaseIntent_to_hash_payload ?q))" by code_simp
  then obtain w where "normalize_value [] (PurchaseIntent_to_hash_payload ?q) = Inr w"
    by (auto simp: is_ok_iff)
  then have hash: "content_hash ?d (PurchaseIntent_to_hash_payload ?q) [] = Inr h"
    by (simp add: content_hash_def canonical_json_def h_def)
  have c: "PurchaseIntent_checks sample_intent = Inr ()" by code_simp
  have "pi_line_items sample_intent \<noteq> [] \<and> pi_expected_fulfillments sample_intent \<noteq> []
      \<and> pi_intent_hash sample_intent = []" by code_simp
  with hash c have "PurchaseIntent_post_init (\<lambda>v. content_hash ?d v []) (\<lambda>_. []) sample_intent
      = Inr (?q\<lparr>pi_intent_hash := h\<rparr>)"
    by (simp add: PurchaseIntent_post_init_def PurchaseIntent_seal_def Let_def)
  moreover have "map (deep_freeze (\<lambda>_. [])) (pi_line_items sample_intent) = [PDict [(PStr ''sku'', PTuple [PStr ''a''])]]"
    by code_simp
  moreover note purchase_intent_sealed [OF calculation(1)]
  ultimately show ?thesis by auto
qed

text \<open>
  A stored buyer fact stays what it was checked to be: its validity interval is half open and
  not empty (current at its start, not at its end), a hard constraint is verified or approved by its
  owner, and constructing it again from its stored fields returns it unchanged.
\<close>

theorem buyer_fact_stored:
  assumes "BuyerFact_post_init t b = Inr f"
  shows "BuyerFact_post_init t f = Inr f
    \<and> BuyerFact_is_current f (Some (bf_valid_from f)) now = Inr True
    \<and> (\<forall>u. bf_valid_until f = Some u \<longrightarrow> BuyerFact_is_current f (Some u) now = Inr False)
    \<and> (bf_kind f = ''hard_constraint'' \<longrightarrow>
         ve_status (bf_verification f) \<in> {''verified'', ''human_approved''})"
proof -
  from assms have f: "f = b\<lparr>bf_value := deep_freeze t (bf_value b)\<rparr>"
    and aware: "dt_aware (bf_valid_from b)"
    and upto: "\<And>u. bf_valid_until b = Some u \<Longrightarrow> dt_aware u \<and> dt_instant (bf_valid_from b) < dt_instant u"
    and hard: "bf_kind b = ''hard_constraint'' \<longrightarrow>
      ve_status (bf_verification b) \<in> {''verified'', ''human_approved''}"
    by (auto simp: BuyerFact_post_init_def check_window_def result_simps)
  have "BuyerFact_post_init t f = Inr f"
    using assms unfolding f by (simp add: BuyerFact_post_init_def result_simps deep_freeze_idem)
  moreover have "BuyerFact_is_current f (Some (bf_valid_from f)) now = Inr True"
    using aware upto by (auto simp: f BuyerFact_is_current_def require_aware_def split: option.splits)
  moreover have "BuyerFact_is_current f (Some u) now = Inr False" if "bf_valid_until f = Some u" for u
    using that upto by (auto simp: f BuyerFact_is_current_def require_aware_def)
  ultimately show ?thesis using hard by (auto simp: f)
qed

lemma buyer_fact_stored_witness:
  "\<exists>b f. BuyerFact_post_init (\<lambda>_. []) b = Inr f \<and> b \<noteq> f \<and> BuyerFact_post_init (\<lambda>_. []) f = Inr f"
proof -
  define t where "t = \<lparr>dt_local = 63000000000000000, dt_offset = Some 0\<rparr>"
  define b where "b = \<lparr>bf_fact_id = ''f-1'', bf_organization_id = ''o-1'', bf_subject_type = ''team'',
    bf_subject_id = ''s-1'', bf_field = ''seats'', bf_operator = ''eq'', bf_value = PList [PInt 1],
    bf_kind = ''observation'', bf_stakeholder_role = ''owner'',
    bf_source = \<lparr>sr_provider = ''p'', sr_content_id = ''c'', sr_version_id = ''v'', sr_fragment_hash = '''',
                 sr_retrieved_at = t, sr_fragment_ordinal = None\<rparr>,
    bf_verification = \<lparr>ve_status = ''verified'', ve_method = ''m'', ve_verified_by = None,
                       ve_verified_at = None, ve_scope = ''''\<rparr>,
    bf_valid_from = t, bf_valid_until = None, bf_sensitivity = ''low'', bf_confidence = ''confirmed''\<rparr>"
  have "BuyerFact_post_init (\<lambda>_. []) b = Inr (b\<lparr>bf_value := PTuple [PInt 1]\<rparr>)"
    unfolding b_def t_def by code_simp
  from this buyer_fact_stored [OF this, of t] show ?thesis
    by (intro exI [of _ b] exI [of _ "b\<lparr>bf_value := PTuple [PInt 1]\<rparr>"]) (simp add: b_def)
qed

end
