(* ===== verification/Transitions.thy ===== *)
theory Transitions
  imports DomainModels
begin

text \<open>
  \<^verbatim>\<open>domain/state_machines.py\<close>: the four transition services and the purchase state derived
  from them. An \<^verbatim>\<open>_allowed\<close> table is a function to \<open>option\<close>: \<open>None\<close> where the dictionary has
  no such key, which is a KeyError of the code. An InvalidTransitionError keeps the fixed part of its
  message.
\<close>

section \<open>The services\<close>

definition check_allowed :: "('s \<Rightarrow> 's list option) \<Rightarrow> string \<Rightarrow> 's \<Rightarrow> 's \<Rightarrow> unit result" where
  "check_allowed allowed subject current target =
     (case allowed current of
        None \<Rightarrow> Inl KeyError
      | Some targets \<Rightarrow>
          ensure (target \<in> set targets) (InvalidTransitionError (subject @ '' cannot transition'')))"

fun approval_allowed :: "ApprovalStatus \<Rightarrow> ApprovalStatus list option" where
  "approval_allowed ApprovalStatus.NOT_REQUESTED = Some [ApprovalStatus.PENDING]"
| "approval_allowed ApprovalStatus.PENDING =
     Some [ApprovalStatus.APPROVED, ApprovalStatus.REJECTED, ApprovalStatus.REVOKED,
           ApprovalStatus.EXPIRED, ApprovalStatus.SUPERSEDED]"
| "approval_allowed ApprovalStatus.APPROVED = Some [ApprovalStatus.REVOKED, ApprovalStatus.SUPERSEDED]"
| "approval_allowed ApprovalStatus.REJECTED = Some []"
| "approval_allowed ApprovalStatus.REVOKED = Some []"
| "approval_allowed ApprovalStatus.EXPIRED = Some []"
| "approval_allowed ApprovalStatus.SUPERSEDED = Some []"
| "approval_allowed ApprovalStatus.NOT_REQUIRED = None"

definition approval_transition :: "ApprovalStatus \<Rightarrow> ApprovalStatus \<Rightarrow> ApprovalStatus result" where
  "approval_transition current target =
     bindR (check_allowed approval_allowed ''approval'' current target) (\<lambda>_. Inr target)"

definition approve_exact :: "ApprovalBinding \<Rightarrow> string \<Rightarrow> ApprovalBinding result" where
  "approve_exact binding presented_intent_hash =
     bindR (require_hash presented_intent_hash ''presented_intent_hash'') (\<lambda>_.
     bindR (ensure (presented_intent_hash = ab_intent_hash binding)
              (DomainValidationError ''approval payload hash does not match Purchase Intent'')) (\<lambda>_.
     bindR (approval_transition (ab_status binding) ApprovalStatus.APPROVED) (\<lambda>status.
     mk_ApprovalBinding
       \<lparr>ab_approval_request_id = ab_approval_request_id binding,
        ab_intent_hash = ab_intent_hash binding, ab_status = status\<rparr>)))"

definition reconcile_payload :: "ApprovalBinding \<Rightarrow> string \<Rightarrow> ApprovalBinding result" where
  "reconcile_payload binding current_intent_hash =
     bindR (require_hash current_intent_hash ''current_intent_hash'') (\<lambda>_.
     if ab_intent_hash binding = current_intent_hash then Inr binding
     else if ab_status binding \<in> {ApprovalStatus.PENDING, ApprovalStatus.APPROVED} then
       mk_ApprovalBinding
         \<lparr>ab_approval_request_id = ab_approval_request_id binding,
          ab_intent_hash = ab_intent_hash binding, ab_status = ApprovalStatus.SUPERSEDED\<rparr>
     else Inr binding)"

fun payment_allowed :: "PaymentStatus \<Rightarrow> PaymentStatus list option" where
  "payment_allowed PaymentStatus.NOT_STARTED = Some [PaymentStatus.SESSION_CREATED]"
| "payment_allowed PaymentStatus.SESSION_CREATED =
     Some [PaymentStatus.CARDHOLDER_PENDING, PaymentStatus.EXPIRED, PaymentStatus.FAILED,
           PaymentStatus.UNCERTAIN]"
| "payment_allowed PaymentStatus.CARDHOLDER_PENDING =
     Some [PaymentStatus.CHECKOUT_PENDING, PaymentStatus.EXPIRED, PaymentStatus.FAILED,
           PaymentStatus.UNCERTAIN]"
| "payment_allowed PaymentStatus.CHECKOUT_PENDING =
     Some [PaymentStatus.MERCHANT_APPROVED, PaymentStatus.DECLINED, PaymentStatus.UNCERTAIN]"
| "payment_allowed PaymentStatus.MERCHANT_APPROVED =
     Some [PaymentStatus.REPORTING, PaymentStatus.UNCERTAIN]"
| "payment_allowed PaymentStatus.REPORTING =
     Some [PaymentStatus.PRAVA_COMPLETED, PaymentStatus.UNCERTAIN]"
| "payment_allowed PaymentStatus.PRAVA_COMPLETED = Some []"
| "payment_allowed PaymentStatus.DECLINED = Some []"
| "payment_allowed PaymentStatus.EXPIRED = Some []"
| "payment_allowed PaymentStatus.UNCERTAIN =
     Some [PaymentStatus.MERCHANT_APPROVED, PaymentStatus.REPORTING, PaymentStatus.PRAVA_COMPLETED,
           PaymentStatus.DECLINED, PaymentStatus.FAILED]"
| "payment_allowed PaymentStatus.FAILED = Some []"
| "payment_allowed PaymentStatus.NOT_REQUIRED = None"

definition payment_transition :: "bool \<Rightarrow> PaymentStatus \<Rightarrow> PaymentStatus \<Rightarrow> PaymentStatus result" where
  "payment_transition reconciled current target =
     bindR (check_allowed payment_allowed ''payment'' current target) (\<lambda>_.
     bindR (ensure (\<not> (current = PaymentStatus.UNCERTAIN \<and> \<not> reconciled))
              (InvalidTransitionError ''uncertain payment can change only after reconciliation'')) (\<lambda>_.
     Inr target))"

definition blocks_new_attempt :: "PaymentStatus \<Rightarrow> bool" where
  "blocks_new_attempt status =
     (status \<in> {PaymentStatus.CHECKOUT_PENDING, PaymentStatus.MERCHANT_APPROVED,
                PaymentStatus.REPORTING, PaymentStatus.PRAVA_COMPLETED, PaymentStatus.UNCERTAIN})"

fun fulfillment_allowed :: "FulfillmentStatus \<Rightarrow> FulfillmentStatus list option" where
  "fulfillment_allowed FulfillmentStatus.NOT_STARTED = Some [FulfillmentStatus.PENDING]"
| "fulfillment_allowed FulfillmentStatus.PENDING =
     Some [FulfillmentStatus.PARTIAL, FulfillmentStatus.VERIFIED, FulfillmentStatus.FAILED_RETRYABLE,
           FulfillmentStatus.FAILED_FINAL]"
| "fulfillment_allowed FulfillmentStatus.PARTIAL =
     Some [FulfillmentStatus.VERIFIED, FulfillmentStatus.FAILED_RETRYABLE, FulfillmentStatus.FAILED_FINAL]"
| "fulfillment_allowed FulfillmentStatus.FAILED_RETRYABLE =
     Some [FulfillmentStatus.PENDING, FulfillmentStatus.VERIFIED]"
| "fulfillment_allowed FulfillmentStatus.VERIFIED = Some [FulfillmentStatus.REVOKED]"
| "fulfillment_allowed FulfillmentStatus.FAILED_FINAL = Some []"
| "fulfillment_allowed FulfillmentStatus.REVOKED = Some []"
| "fulfillment_allowed FulfillmentStatus.NOT_REQUIRED = None"

definition fulfillment_transition ::
    "PaymentStatus \<Rightarrow> FulfillmentStatus \<Rightarrow> FulfillmentStatus \<Rightarrow> FulfillmentStatus result" where
  "fulfillment_transition payment_status current target =
     bindR (check_allowed fulfillment_allowed ''fulfillment'' current target) (\<lambda>_.
     bindR (ensure (\<not> (current = FulfillmentStatus.NOT_STARTED
                        \<and> payment_status \<noteq> PaymentStatus.PRAVA_COMPLETED))
              (InvalidTransitionError ''fulfillment cannot start before Prava completion'')) (\<lambda>_.
     Inr target))"

fun reversal_allowed :: "ReversalStatus \<Rightarrow> ReversalStatus list option" where
  "reversal_allowed ReversalStatus.REQUESTED =
     Some [ReversalStatus.PROVIDER_PENDING, ReversalStatus.PARTIALLY_REFUNDED, ReversalStatus.REFUNDED,
           ReversalStatus.REJECTED, ReversalStatus.COMPENSATION_REQUIRED, ReversalStatus.CANCELLED]"
| "reversal_allowed ReversalStatus.PROVIDER_PENDING =
     Some [ReversalStatus.PARTIALLY_REFUNDED, ReversalStatus.REFUNDED, ReversalStatus.REJECTED,
           ReversalStatus.FAILED_RETRYABLE, ReversalStatus.COMPENSATION_REQUIRED]"
| "reversal_allowed ReversalStatus.FAILED_RETRYABLE =
     Some [ReversalStatus.PROVIDER_PENDING, ReversalStatus.COMPENSATION_REQUIRED, ReversalStatus.CANCELLED]"
| "reversal_allowed ReversalStatus.PARTIALLY_REFUNDED =
     Some [ReversalStatus.PROVIDER_PENDING, ReversalStatus.REFUNDED, ReversalStatus.COMPENSATION_REQUIRED]"
| "reversal_allowed ReversalStatus.COMPENSATION_REQUIRED = Some [ReversalStatus.COMPENSATED]"
| "reversal_allowed ReversalStatus.REFUNDED = Some []"
| "reversal_allowed ReversalStatus.REJECTED = Some []"
| "reversal_allowed ReversalStatus.COMPENSATED = Some []"
| "reversal_allowed ReversalStatus.CANCELLED = Some []"

definition reversal_transition :: "ReversalStatus \<Rightarrow> ReversalStatus \<Rightarrow> ReversalStatus result" where
  "reversal_transition current target =
     bindR (check_allowed reversal_allowed ''reversal'' current target) (\<lambda>_. Inr target)"

definition derive_purchase_state ::
    "ApprovalStatus \<Rightarrow> PaymentStatus \<Rightarrow> FulfillmentStatus \<Rightarrow> bool \<Rightarrow> bool \<Rightarrow> PurchaseState result" where
  "derive_purchase_state approval_status payment_status fulfillment_status refund_pending fully_refunded =
     (if refund_pending \<and> fully_refunded
        then Inl (DomainValidationError ''refund cannot be pending and complete'')
      else if fully_refunded then Inr PurchaseState.REFUNDED
      else if refund_pending then Inr PurchaseState.REFUND_PENDING
      else if approval_status \<noteq> ApprovalStatus.APPROVED then Inr PurchaseState.AWAITING_APPROVAL
      else if payment_status = PaymentStatus.NOT_STARTED then
        if fulfillment_status \<noteq> FulfillmentStatus.NOT_STARTED
        then Inl (DomainValidationError ''fulfillment exists before payment'')
        else Inr PurchaseState.APPROVED_NOT_STARTED
      else if payment_status = PaymentStatus.UNCERTAIN then Inr PurchaseState.PAYMENT_UNCERTAIN
      else if payment_status \<in> {PaymentStatus.DECLINED, PaymentStatus.EXPIRED, PaymentStatus.FAILED}
        then Inr PurchaseState.PAYMENT_NOT_COMPLETED
      else if payment_status \<noteq> PaymentStatus.PRAVA_COMPLETED then
        if fulfillment_status \<noteq> FulfillmentStatus.NOT_STARTED
        then Inl (DomainValidationError ''fulfillment exists before payment completion'')
        else Inr PurchaseState.PAYMENT_IN_PROGRESS
      else if fulfillment_status = FulfillmentStatus.VERIFIED then Inr PurchaseState.PURCHASE_FULFILLED
      else Inr PurchaseState.PAID_UNFULFILLED)"

section \<open>What a service promises\<close>

text \<open>A sequence of requested targets; the first refusal ends it.\<close>

definition run_transitions :: "('s \<Rightarrow> 's \<Rightarrow> 's result) \<Rightarrow> 's list \<Rightarrow> 's \<Rightarrow> 's result" where
  "run_transitions step targets s = foldR (\<lambda>t s. step s t) targets s"

locale transition_service =
  fixes allowed :: "'s \<Rightarrow> 's list option"
    and step :: "'s \<Rightarrow> 's \<Rightarrow> 's result"
  assumes step_allowed: "step s t = Inr u \<Longrightarrow> u = t \<and> (\<exists>ts. allowed s = Some ts \<and> t \<in> set ts)"
begin

lemma terminal_stuck: "allowed s = Some [] \<Longrightarrow> \<exists>e. step s t = Inl e"
  using step_allowed by (cases "step s t") fastforce+

lemma unknown_stuck: "allowed s = None \<Longrightarrow> \<exists>e. step s t = Inl e"
  using step_allowed by (cases "step s t") fastforce+

lemma run_closed:
  assumes "run_transitions step targets s = Inr u" "s \<in> C"
    and "\<And>s t ts. s \<in> C \<Longrightarrow> allowed s = Some ts \<Longrightarrow> t \<in> set ts \<Longrightarrow> t \<in> C"
  shows "u \<in> C"
  using assms(1) unfolding run_transitions_def
  by (rule foldR_invariant [where P = "\<lambda>s. s \<in> C"]) (use assms(2,3) step_allowed in blast)+

lemma run_terminal:
  assumes "run_transitions step targets s = Inr u" "allowed s = Some []"
  shows "targets = [] \<and> u = s"
  using assms terminal_stuck [OF assms(2)]
  by (cases targets) (auto simp: run_transitions_def bindR_Inr_iff, metis Inl_Inr_False)

end

lemma check_allowed_Inr [result_simps]:
  "check_allowed allowed subject s t = Inr u \<longleftrightarrow> (\<exists>ts. allowed s = Some ts \<and> t \<in> set ts)"
  by (auto simp: check_allowed_def ensure_Inr_iff split: option.splits)

interpretation approvals: transition_service approval_allowed approval_transition
  by unfold_locales (auto simp: approval_transition_def result_simps)

interpretation payments: transition_service payment_allowed "payment_transition reconciled" for reconciled
  by unfold_locales (auto simp: payment_transition_def result_simps)

interpretation fulfillments: transition_service fulfillment_allowed "fulfillment_transition payment" for payment
  by unfold_locales (auto simp: fulfillment_transition_def result_simps)

interpretation reversals: transition_service reversal_allowed reversal_transition
  by unfold_locales (auto simp: reversal_transition_def result_simps)

section \<open>Approval\<close>

text \<open>
  An approval is granted only for the exact payload: \<^verbatim>\<open>approve_exact\<close> succeeds precisely on a
  pending binding with valid identifiers whose stored hash is the presented hash, changes nothing but
  the status, and a second approval of the result is always refused.
\<close>

theorem approve_exact_spec:
  "(approve_exact b h = Inr b' \<longleftrightarrow>
      is_content_hash h \<and> h = ab_intent_hash b \<and> is_id (ab_approval_request_id b)
      \<and> ab_status b = ApprovalStatus.PENDING
      \<and> b' = b\<lparr>ab_status := ApprovalStatus.APPROVED\<rparr>)
   \<and> (approve_exact b h = Inr b' \<longrightarrow> (\<forall>h'. \<exists>e. approve_exact b' h' = Inl e))"
proof -
  have pend: "approval_transition s ApprovalStatus.APPROVED = Inr u \<longleftrightarrow>
      s = ApprovalStatus.PENDING \<and> u = ApprovalStatus.APPROVED" for s u
    by (cases s) (auto simp: approval_transition_def check_allowed_def ensure_def)
  have spec: "approve_exact b h = Inr b' \<longleftrightarrow>
      is_content_hash h \<and> h = ab_intent_hash b \<and> is_id (ab_approval_request_id b)
      \<and> ab_status b = ApprovalStatus.PENDING
      \<and> b' = b\<lparr>ab_status := ApprovalStatus.APPROVED\<rparr>" for b h b'
    by (cases b) (auto simp: approve_exact_def mk_ApprovalBinding_def result_simps pend)
  have "\<exists>e. approve_exact (b\<lparr>ab_status := ApprovalStatus.APPROVED\<rparr>) h' = Inl e" for h'
  proof (cases "approve_exact (b\<lparr>ab_status := ApprovalStatus.APPROVED\<rparr>) h'")
    case (Inr y)
    with spec [of "b\<lparr>ab_status := ApprovalStatus.APPROVED\<rparr>" h' y] show ?thesis by simp
  next
    case (Inl e)
    then show ?thesis by simp
  qed
  with spec [of b h b'] show ?thesis by simp
qed

lemma approve_exact_spec_witness:
  "let h = ''sha256:'' @ replicate 64 CHR ''a'';
       b = \<lparr>ab_approval_request_id = ''ar-1'', ab_intent_hash = h, ab_status = ApprovalStatus.PENDING\<rparr>
   in approve_exact b h = Inr (b\<lparr>ab_status := ApprovalStatus.APPROVED\<rparr>)
      \<and> (\<exists>e. approve_exact (b\<lparr>ab_status := ApprovalStatus.APPROVED\<rparr>) h = Inl e)"
proof -
  define h where "h = ''sha256:'' @ replicate 64 CHR ''a''"
  define b where "b = \<lparr>ab_approval_request_id = ''ar-1'', ab_intent_hash = h, ab_status = ApprovalStatus.PENDING\<rparr>"
  have a: "approve_exact b h = Inr (b\<lparr>ab_status := ApprovalStatus.APPROVED\<rparr>)"
    unfolding b_def h_def by code_simp
  with approve_exact_spec [of b h "b\<lparr>ab_status := ApprovalStatus.APPROVED\<rparr>"]
  have "\<exists>e. approve_exact (b\<lparr>ab_status := ApprovalStatus.APPROVED\<rparr>) h = Inl e" by blast
  with a show ?thesis by (simp add: h_def b_def)
qed

text \<open>
  A changed payload kills the approval: when the current intent hash differs from the bound one,
  reconciling a pending or approved binding supersedes it, and from there no sequence of transitions
  and no approval reaches APPROVED again. A binding that was not requested yet is left as it is.
\<close>

theorem reconcile_payload_supersedes:
  assumes "reconcile_payload b h = Inr b'" "h \<noteq> ab_intent_hash b"
  shows "ab_intent_hash b' = ab_intent_hash b \<and> ab_status b' \<notin> {ApprovalStatus.PENDING, ApprovalStatus.APPROVED}
    \<and> (ab_status b \<in> {ApprovalStatus.PENDING, ApprovalStatus.APPROVED} \<longrightarrow>
         ab_status b' = ApprovalStatus.SUPERSEDED
         \<and> (\<forall>ts s. run_transitions approval_transition ts (ab_status b') = Inr s \<longrightarrow>
                    s = ApprovalStatus.SUPERSEDED)
         \<and> (\<forall>h'. \<exists>e. approve_exact b' h' = Inl e))
    \<and> (ab_status b = ApprovalStatus.NOT_REQUESTED \<longrightarrow> b' = b)"
proof -
  from assms have b': "ab_intent_hash b' = ab_intent_hash b"
      "ab_status b' = (if ab_status b \<in> {ApprovalStatus.PENDING, ApprovalStatus.APPROVED}
                       then ApprovalStatus.SUPERSEDED else ab_status b)"
      "ab_status b \<notin> {ApprovalStatus.PENDING, ApprovalStatus.APPROVED} \<longrightarrow> b' = b"
    by (auto simp: reconcile_payload_def mk_ApprovalBinding_def result_simps split: if_splits)
  have stuck: "\<exists>e. approve_exact b' h' = Inl e" if "ab_status b' = ApprovalStatus.SUPERSEDED" for h'
    using that by (cases "approve_exact b' h'")
      (auto simp: approve_exact_def approval_transition_def result_simps)
  have stay: "s = ApprovalStatus.SUPERSEDED"
    if "run_transitions approval_transition ts ApprovalStatus.SUPERSEDED = Inr s" for ts s
    using approvals.run_terminal [OF that] by simp
  from b' stuck stay show ?thesis by auto
qed

lemma reconcile_payload_supersedes_witness:
  "let h = ''sha256:'' @ replicate 64 CHR ''a'';
       b = \<lparr>ab_approval_request_id = ''ar-1'', ab_intent_hash = h, ab_status = ApprovalStatus.APPROVED\<rparr>
   in \<forall>h'. \<exists>e. approve_exact (b\<lparr>ab_status := ApprovalStatus.SUPERSEDED\<rparr>) h' = Inl e"
proof -
  define h where "h = ''sha256:'' @ replicate 64 CHR ''a''"
  define h2 where "h2 = ''sha256:'' @ replicate 64 CHR ''b''"
  define b where "b = \<lparr>ab_approval_request_id = ''ar-1'', ab_intent_hash = h, ab_status = ApprovalStatus.APPROVED\<rparr>"
  have a: "reconcile_payload b h2 = Inr (b\<lparr>ab_status := ApprovalStatus.SUPERSEDED\<rparr>)"
    unfolding b_def h_def h2_def by code_simp
  have ne: "h2 \<noteq> ab_intent_hash b" unfolding b_def h_def h2_def by code_simp
  from reconcile_payload_supersedes [OF a ne] show ?thesis by (auto simp: h_def b_def Let_def)
qed

section \<open>Payment\<close>

text \<open>
  Once a payment may have reached the merchant it can never be started again: from a status that
  blocks a new attempt, every sequence of transitions, reconciled or not, stays among the blocking
  statuses and the two refusals; an uncertain payment does not move at all without reconciliation.
\<close>

theorem payment_no_second_attempt:
  assumes "blocks_new_attempt s" "run_transitions (payment_transition r) ts s = Inr u"
  shows "(blocks_new_attempt u \<or> u \<in> {PaymentStatus.DECLINED, PaymentStatus.FAILED})
    \<and> (s = PaymentStatus.UNCERTAIN \<and> \<not> r \<longrightarrow> u = s)"
proof -
  let ?C = "{s. blocks_new_attempt s \<or> s \<in> {PaymentStatus.DECLINED, PaymentStatus.FAILED}}"
  have "u \<in> ?C"
  proof (rule payments.run_closed [OF assms(2)])
    show "s \<in> ?C" using assms(1) by simp
    show "t \<in> ?C" if "s \<in> ?C" "payment_allowed s = Some ts" "t \<in> set ts" for s t ts
      using that by (cases s) (auto simp: blocks_new_attempt_def)
  qed
  moreover have "u = s" if "s = PaymentStatus.UNCERTAIN" "\<not> r"
    using assms(2) that by (cases ts) (auto simp: run_transitions_def payment_transition_def result_simps)
  ultimately show ?thesis by auto
qed

lemma payment_no_second_attempt_witness:
  "run_transitions (payment_transition True) [PaymentStatus.UNCERTAIN, PaymentStatus.FAILED]
     PaymentStatus.CHECKOUT_PENDING = Inr PaymentStatus.FAILED
   \<and> (blocks_new_attempt PaymentStatus.FAILED \<or> PaymentStatus.FAILED \<in> {PaymentStatus.DECLINED, PaymentStatus.FAILED})"
proof -
  have b: "blocks_new_attempt PaymentStatus.CHECKOUT_PENDING" by code_simp
  have r: "run_transitions (payment_transition True) [PaymentStatus.UNCERTAIN, PaymentStatus.FAILED]
     PaymentStatus.CHECKOUT_PENDING = Inr PaymentStatus.FAILED" by code_simp
  from payment_no_second_attempt [OF b r] r show ?thesis by blast
qed

section \<open>The purchase as a whole\<close>

record Purchase =
  pu_approval :: ApprovalStatus
  pu_payment :: PaymentStatus
  pu_fulfillment :: FulfillmentStatus

definition initial_purchase :: Purchase where
  "initial_purchase =
     \<lparr>pu_approval = ApprovalStatus.NOT_REQUESTED, pu_payment = PaymentStatus.NOT_STARTED,
      pu_fulfillment = FulfillmentStatus.NOT_STARTED\<rparr>"

text \<open>The three machines move independently, each only through its service.\<close>

inductive purchase_step :: "Purchase \<Rightarrow> Purchase \<Rightarrow> bool" where
  approval_moves: "approval_transition (pu_approval p) t = Inr a \<Longrightarrow> purchase_step p (p\<lparr>pu_approval := a\<rparr>)"
| payment_moves: "payment_transition r (pu_payment p) t = Inr s \<Longrightarrow> purchase_step p (p\<lparr>pu_payment := s\<rparr>)"
| fulfillment_moves:
    "fulfillment_transition (pu_payment p) (pu_fulfillment p) t = Inr f \<Longrightarrow>
     purchase_step p (p\<lparr>pu_fulfillment := f\<rparr>)"

inductive_cases purchase_stepE: "purchase_step p q"

definition purchase_inv :: "Purchase \<Rightarrow> bool" where
  "purchase_inv p =
     (pu_fulfillment p \<noteq> FulfillmentStatus.NOT_STARTED \<longrightarrow> pu_payment p = PaymentStatus.PRAVA_COMPLETED)"

lemma purchase_inv_step: "purchase_step p q \<Longrightarrow> purchase_inv p \<Longrightarrow> purchase_inv q"
proof (erule purchase_stepE)
  fix r t s
  assume inv: "purchase_inv p" and q: "q = p\<lparr>pu_payment := s\<rparr>"
    and s: "payment_transition r (pu_payment p) t = Inr s"
  from payments.terminal_stuck [of PaymentStatus.PRAVA_COMPLETED r t] s
  have "pu_payment p \<noteq> PaymentStatus.PRAVA_COMPLETED" by auto
  with inv q show "purchase_inv q" by (simp add: purchase_inv_def)
next
  fix t f
  assume inv: "purchase_inv p" and q: "q = p\<lparr>pu_fulfillment := f\<rparr>"
    and "fulfillment_transition (pu_payment p) (pu_fulfillment p) t = Inr f"
  then show "purchase_inv q"
    by (auto simp: purchase_inv_def fulfillment_transition_def result_simps)
qed (simp add: purchase_inv_def)

lemma purchase_inv_reachable: "purchase_step\<^sup>*\<^sup>* initial_purchase p \<Longrightarrow> purchase_inv p"
  by (induction rule: rtranclp_induct) (auto simp: purchase_inv_step, simp add: purchase_inv_def initial_purchase_def)

text \<open>
  C3. No interleaving of the services reaches an inconsistent purchase: in every state the three
  machines can reach together, \<^verbatim>\<open>derive_purchase_state\<close> is defined (it raises only for
  contradictory refund flags), fulfillment has begun only after the payment completed, and a purchase
  is reported fulfilled exactly when it is approved, paid and verified with no refund.
\<close>

theorem purchase_state_defined:
  assumes "purchase_step\<^sup>*\<^sup>* initial_purchase p"
  shows "(\<exists>s. derive_purchase_state (pu_approval p) (pu_payment p) (pu_fulfillment p) pending refunded = Inr s)
      = (\<not> (pending \<and> refunded))
    \<and> (pu_fulfillment p \<noteq> FulfillmentStatus.NOT_STARTED \<longrightarrow> pu_payment p = PaymentStatus.PRAVA_COMPLETED)
    \<and> (derive_purchase_state (pu_approval p) (pu_payment p) (pu_fulfillment p) pending refunded
         = Inr PurchaseState.PURCHASE_FULFILLED \<longleftrightarrow>
       \<not> pending \<and> \<not> refunded \<and> pu_approval p = ApprovalStatus.APPROVED
       \<and> pu_fulfillment p = FulfillmentStatus.VERIFIED)"
  using purchase_inv_reachable [OF assms]
  by (cases "pu_payment p = PaymentStatus.NOT_STARTED"; cases "pu_payment p = PaymentStatus.UNCERTAIN")
     (auto simp: derive_purchase_state_def purchase_inv_def)

lemma purchase_state_defined_witness:
  "\<exists>p. purchase_step\<^sup>*\<^sup>* initial_purchase p \<and> p \<noteq> initial_purchase
     \<and> (\<exists>s. derive_purchase_state (pu_approval p) (pu_payment p) (pu_fulfillment p) False False = Inr s)"
proof -
  let ?p = "initial_purchase\<lparr>pu_payment := PaymentStatus.SESSION_CREATED\<rparr>"
  have "payment_transition False (pu_payment initial_purchase) PaymentStatus.SESSION_CREATED
      = Inr PaymentStatus.SESSION_CREATED" by code_simp
  from payment_moves [OF this] have r: "purchase_step\<^sup>*\<^sup>* initial_purchase ?p" by blast
  have "?p \<noteq> initial_purchase" by (simp add: initial_purchase_def)
  with r purchase_state_defined [OF r, of False False] show ?thesis by blast
qed

section \<open>Reversals and missing keys\<close>

text \<open>
  Reversals end: the four closed statuses accept no target, and once compensation is required
  every further sequence of transitions is in it or compensated.
\<close>

theorem reversal_terminal:
  "(s \<in> {ReversalStatus.REFUNDED, ReversalStatus.REJECTED, ReversalStatus.COMPENSATED, ReversalStatus.CANCELLED}
      \<longrightarrow> (\<exists>m. reversal_transition s t = Inl (InvalidTransitionError m)))
   \<and> (run_transitions reversal_transition ts ReversalStatus.COMPENSATION_REQUIRED = Inr u
      \<longrightarrow> u \<in> {ReversalStatus.COMPENSATION_REQUIRED, ReversalStatus.COMPENSATED})"
proof -
  have "u \<in> {ReversalStatus.COMPENSATION_REQUIRED, ReversalStatus.COMPENSATED}"
    if "run_transitions reversal_transition ts ReversalStatus.COMPENSATION_REQUIRED = Inr u"
    by (rule reversals.run_closed [OF that]) auto
  then show ?thesis
    by (auto simp: reversal_transition_def check_allowed_def ensure_def)
qed

lemma reversal_terminal_witness:
  "\<exists>m. reversal_transition ReversalStatus.REFUNDED ReversalStatus.REQUESTED = Inl (InvalidTransitionError m)"
  using reversal_terminal [of ReversalStatus.REFUNDED ReversalStatus.REQUESTED "[]" ReversalStatus.REFUNDED]
  by blast

text \<open>
  The tables are closed except for one key: every listed target is itself a key, and a status
  has no entry exactly when it is NOT_REQUIRED, where the services fail with a KeyError instead of
  the InvalidTransitionError they raise for every other refused move.
\<close>

theorem not_required_key_error:
  "(approval_transition a a' = Inl KeyError \<longleftrightarrow> a = ApprovalStatus.NOT_REQUIRED)
   \<and> (payment_transition r p p' = Inl KeyError \<longleftrightarrow> p = PaymentStatus.NOT_REQUIRED)
   \<and> (fulfillment_transition p f f' = Inl KeyError \<longleftrightarrow> f = FulfillmentStatus.NOT_REQUIRED)
   \<and> reversal_transition s s' \<noteq> Inl KeyError"
proof -
  have none: "approval_allowed a = None \<longleftrightarrow> a = ApprovalStatus.NOT_REQUIRED"
    "payment_allowed p = None \<longleftrightarrow> p = PaymentStatus.NOT_REQUIRED"
    "fulfillment_allowed f = None \<longleftrightarrow> f = FulfillmentStatus.NOT_REQUIRED"
    "reversal_allowed s \<noteq> None" for a p f s
    subgoal by (cases a) simp_all
    subgoal by (cases p) simp_all
    subgoal by (cases f) simp_all
    subgoal by (cases s) simp_all
    done
  have key: "check_allowed al m x y = Inl KeyError \<longleftrightarrow> al x = None" for al :: "'x \<Rightarrow> 'x list option" and m x y
    by (auto simp: check_allowed_def ensure_def split: option.splits)
  have "approval_transition a a' = Inl KeyError \<longleftrightarrow> a = ApprovalStatus.NOT_REQUIRED"
    by (simp add: approval_transition_def bindR_Inl_iff key none(1))
  moreover have "payment_transition r p p' = Inl KeyError \<longleftrightarrow> p = PaymentStatus.NOT_REQUIRED"
    by (simp add: payment_transition_def bindR_Inl_iff ensure_Inl_iff key none(2))
  moreover have "fulfillment_transition p f f' = Inl KeyError \<longleftrightarrow> f = FulfillmentStatus.NOT_REQUIRED"
    by (simp add: fulfillment_transition_def bindR_Inl_iff ensure_Inl_iff key none(3))
  moreover have "reversal_transition s s' \<noteq> Inl KeyError"
    by (simp add: reversal_transition_def bindR_Inl_iff key none(4))
  ultimately show ?thesis by blast
qed

end
