(* ===== verification/Publication.thy ===== *)
theory Publication
  imports DomainModels
begin

text \<open>
  \<^verbatim>\<open>domain/publication.py\<close>: the deny-by-default boundary between private records and what the
  other side of the exchange may see. Mappings are dictionaries (\<open>PDict\<close>) and \<^verbatim>\<open>deepcopy\<close> is
  the identity on values; \<open>text_of\<close> is \<^verbatim>\<open>str\<close> on a key that is not a string.
\<close>

definition DEFAULT_REQUIREMENT_BRIEF_ALLOWLIST :: "string list" where
  "DEFAULT_REQUIREMENT_BRIEF_ALLOWLIST =
    [''schema_version'', ''requirement_brief_id'', ''request_id'', ''version'', ''visibility'',
     ''category_id'', ''jtbd_id'', ''intent'', ''desired_outcome'', ''desired_outcome.metric'',
     ''desired_outcome.target'', ''desired_outcome.operator'',
     ''desired_outcome.checkpoint_days'', ''seat_count'', ''deadline'', ''region'', ''currency'',
     ''meeting_platforms'', ''required_capabilities'', ''workflow_requirements'',
     ''privacy_requirements'', ''privacy_requirements.customer_training_allowed'',
     ''privacy_requirements.residency'', ''privacy_requirements.retention'',
     ''privacy_requirements.recording_notice_required'',
     ''privacy_requirements.source_links_required'', ''identity_requirements'',
     ''integration_requirements'', ''implementation_constraints'', ''disclosed_stack_interfaces'']"

definition DEFAULT_PACK_PUBLICATION_ALLOWLIST :: "string list" where
  "DEFAULT_PACK_PUBLICATION_ALLOWLIST =
    [''schema_version'', ''pack_id'', ''version'', ''status'', ''seller_id'', ''product_id'',
     ''offer_ids'', ''category_ids'', ''jtbd_ids'', ''identity'', ''jobs_and_segments'',
     ''capabilities'', ''requirements'', ''compatibility'', ''security_privacy'', ''deployment'',
     ''commercial'', ''contract'', ''facts'', ''fit_rules'', ''anti_fit_rules'',
     ''dependency_rules'', ''positioning_angles'', ''claims'', ''fulfillment_spec'',
     ''merchant_chain'', ''operations'', ''learning_policy'', ''published_at'',
     ''supersedes_version'', ''content_hash'']"

definition DENIED_SEGMENTS :: "string list" where
  "DENIED_SEGMENTS =
    [''organization_name'', ''organization_id'', ''company_name'', ''company_identity'',
     ''buyer_identity'', ''hidden_budget'', ''hidden_maximum'', ''maximum_budget'',
     ''budget_envelope'', ''payer_identity'', ''employee'', ''employees'', ''contacts'',
     ''contact_details'', ''email'', ''phone'', ''private_failures'', ''prior_private_failures'',
     ''competing_bids'', ''competing_offers'', ''competitor_list'', ''unrestricted_stackfile'',
     ''raw_buyer_passport'', ''roadmap_notes'', ''negotiation_bounds'', ''seller_floor'',
     ''fulfillment_credentials'', ''provider_credentials'', ''source_material'',
     ''compilation_history'']"

definition DENIED_MARKERS :: "string list" where
  "DENIED_MARKERS =
    [''secret'', ''password'', ''credential'', ''dynamic_cvv'', ''hidden_budget'',
     ''hidden_maximum'', ''budget_envelope'', ''roadmap'', ''negotiation_bound'',
     ''seller_floor'', ''service_account'', ''private_failure'', ''competing_bid'',
     ''competing_offer'', ''competitor_list'', ''source_material'', ''compilation_history'',
     ''unpublished_constraint'']"

definition is_denied_segment :: "string \<Rightarrow> bool" where
  "is_denied_segment value =
     (let lowered = str_lower value
      in lowered \<in> set DENIED_SEGMENTS \<or> list_ex (\<lambda>marker. str_contains marker lowered) DENIED_MARKERS)"

text \<open>The read loop of \<^verbatim>\<open>_copy_path\<close>: \<open>None\<close> is its early return.\<close>

fun walk :: "pyval \<Rightarrow> string list \<Rightarrow> pyval option" where
  "walk current [] = Some current"
| "walk (PDict kvs) (segment # rest) =
     (case dict_get kvs segment of None \<Rightarrow> None | Some item \<Rightarrow> walk item rest)"
| "walk _ (segment # rest) = None"

text \<open>
  The write loop, through the nested dictionaries \<^verbatim>\<open>setdefault\<close> returns. A value that is not
  a dictionary has no \<^verbatim>\<open>setdefault\<close>, and no item assignment.
\<close>

fun put_path :: "(pyval \<times> pyval) list \<Rightarrow> string list \<Rightarrow> pyval \<Rightarrow> (pyval \<times> pyval) list result" where
  "put_path destination [] v = Inl IndexError"
| "put_path destination [segment] v = Inr (AList.update (PStr segment) v destination)"
| "put_path destination (segment # s # rest) v =
     (case dict_get destination segment of
        None \<Rightarrow>
          mapR_res (\<lambda>inner. AList.update (PStr segment) (PDict inner) destination) (put_path [] (s # rest) v)
      | Some (PDict kvs) \<Rightarrow>
          mapR_res (\<lambda>inner. AList.update (PStr segment) (PDict inner) destination) (put_path kvs (s # rest) v)
      | Some _ \<Rightarrow> Inl (if rest = [] then TypeError else AttributeError))"

definition copy_path ::
    "(pyval \<times> pyval) list \<Rightarrow> (pyval \<times> pyval) list \<Rightarrow> string \<Rightarrow> (pyval \<times> pyval) list result" where
  "copy_path source target path =
     (let segments = split_on CHR ''.'' path
      in case walk (PDict source) segments of
           None \<Rightarrow> Inr target
         | Some current \<Rightarrow> put_path target segments current)"

definition index_path :: "string \<Rightarrow> int \<Rightarrow> string" where
  "index_path pre i = pre @ ''['' @ show_int i @ '']''"

function forbidden_paths :: "(pyval \<Rightarrow> string) \<Rightarrow> pyval \<Rightarrow> string \<Rightarrow> string list" where
  "forbidden_paths text_of payload pre =
     (case payload of
        PDict kvs \<Rightarrow>
          concat (map (\<lambda>(key, item).
            let name = key_text text_of key;
                path = (if pre \<noteq> [] then pre @ ''.'' @ name else name)
            in (if is_denied_segment (str_lower name) then [path] else [])
               @ forbidden_paths text_of item path) kvs)
      | PList xs \<Rightarrow>
          concat (map (\<lambda>(i, item). forbidden_paths text_of item (index_path pre i)) (zip [0..int (length xs) - 1] xs))
      | PTuple xs \<Rightarrow>
          concat (map (\<lambda>(i, item). forbidden_paths text_of item (index_path pre i)) (zip [0..int (length xs) - 1] xs))
      | _ \<Rightarrow> [])"
  by pat_completeness auto
termination
  by (relation "measure (\<lambda>(t, v, p). size v)") (auto simp: termination_simp dest: set_zip_rightD)

declare forbidden_paths.simps [simp del]

definition assert_public_payload :: "(pyval \<Rightarrow> string) \<Rightarrow> (pyval \<times> pyval) list \<Rightarrow> unit result" where
  "assert_public_payload text_of payload =
     (let paths = forbidden_paths text_of (PDict payload) []
      in ensure (paths = [])
           (DomainValidationError (''publication payload contains denied fields: '' @ str_join '', '' paths)))"

definition allowlist_step ::
    "(pyval \<times> pyval) list \<Rightarrow> string \<Rightarrow> (pyval \<times> pyval) list \<Rightarrow> (pyval \<times> pyval) list result" where
  "allowlist_step source path output =
     (if list_ex is_denied_segment (split_on CHR ''.'' path)
      then Inl (DomainValidationError (''allowlist contains prohibited field: '' @ path))
      else copy_path source output path)"

definition allowlisted_copy ::
    "(pyval \<Rightarrow> string) \<Rightarrow> (pyval \<times> pyval) list \<Rightarrow> string list \<Rightarrow> (pyval \<times> pyval) list result" where
  "allowlisted_copy text_of source allowed_paths =
     bindR (foldR (allowlist_step source) (sorted_set allowed_paths) []) (\<lambda>output.
     bindR (assert_public_payload text_of output) (\<lambda>_. Inr output))"

definition sanitize_requirement_brief ::
    "(pyval \<Rightarrow> string) \<Rightarrow> (pyval \<times> pyval) list \<Rightarrow> string list \<Rightarrow> (pyval \<times> pyval) list result" where
  "sanitize_requirement_brief text_of purchase_brief allowlist = allowlisted_copy text_of purchase_brief allowlist"

definition publish_seil_pack ::
    "(pyval \<Rightarrow> string) \<Rightarrow> (pyval \<times> pyval) list \<Rightarrow> string list \<Rightarrow> (pyval \<times> pyval) list result" where
  "publish_seil_pack text_of product_passport allowlist = allowlisted_copy text_of product_passport allowlist"

section \<open>Reading a written path\<close>

declare dict_get_map_of [simp]

lemma put_path_Cons:
  assumes "put_path d (s # ss) v = Inr d'"
  obtains (last) "ss = []" "d' = AList.update (PStr s) v d"
  | (inner) e e' where "ss \<noteq> []" "put_path e ss v = Inr e'" "d' = AList.update (PStr s) (PDict e') d"
      "map_of d (PStr s) = None \<and> e = [] \<or> map_of d (PStr s) = Some (PDict e)"
proof (cases ss)
  case Nil
  with assms last show thesis by simp
next
  case (Cons t ts)
  with assms inner show thesis
    by (cases "dict_get d s") (auto simp: mapR_res_Inr_iff dict_get_map_of split: pyval.splits)
qed

lemma walk_put_extend:
  "put_path d ss v = Inr d' \<Longrightarrow> walk (PDict d') (ss @ r) = walk v r"
proof (induction ss arbitrary: d d')
  case Nil
  then show ?case by simp
next
  case (Cons s ss)
  from Cons.prems show ?case
    by (cases rule: put_path_Cons) (auto simp: dict_simps Cons.IH)
qed

lemma walk_put_other:
  "put_path d ss v = Inr d' \<Longrightarrow> \<not> prefix ss q \<Longrightarrow> \<not> prefix q ss \<Longrightarrow> walk (PDict d') q = walk (PDict d) q"
proof (induction ss arbitrary: d d' q)
  case Nil
  then show ?case by simp
next
  case (Cons s ss)
  from Cons.prems(3) obtain t q' where q: "q = t # q'" by (cases q) auto
  from Cons.prems(1) show ?case
  proof (cases rule: put_path_Cons)
    case last
    with Cons.prems q show ?thesis by (auto simp: dict_simps)
  next
    case (inner e e')
    show ?thesis
    proof (cases "t = s")
      case True
      with Cons.prems q have np: "\<not> prefix ss q'" "\<not> prefix q' ss" by auto
      with Cons.IH [OF inner(2)] have eq: "walk (PDict e') q' = walk (PDict e) q'" by blast
      from np(2) obtain a b where "q' = a # b" by (cases q') auto
      with eq inner True q show ?thesis by (auto simp: dict_simps)
    next
      case False
      with inner q show ?thesis by (simp add: dict_simps)
    qed
  qed
qed

lemma walk_put_above:
  "put_path d ss v = Inr d' \<Longrightarrow> strict_prefix q ss \<Longrightarrow> \<exists>e. walk (PDict d') q = Some (PDict e)"
proof (induction ss arbitrary: d d' q)
  case Nil
  then show ?case by simp
next
  case (Cons s ss)
  show ?case
  proof (cases q)
    case Nil
    then show ?thesis by simp
  next
    case (Cons t q')
    with Cons.prems(2) have t: "t = s" "strict_prefix q' ss" by auto
    from Cons.prems(1) show ?thesis
    proof (cases rule: put_path_Cons)
      case last
      with t show ?thesis by simp
    next
      case (inner e e')
      with Cons.IH [OF inner(2) t(2)] t Cons show ?thesis by (simp add: dict_simps)
    qed
  qed
qed

lemma update_same: "map_of d k = Some v \<Longrightarrow> AList.update k v d = d"
  by (induction d) (auto split: if_splits)

lemma put_path_same:
  "put_path d ss v = Inr d' \<Longrightarrow> walk (PDict d) ss = Some v \<Longrightarrow> d' = d"
proof (induction ss arbitrary: d d')
  case Nil
  then show ?case by simp
next
  case (Cons s ss)
  from Cons.prems(1) show ?case
  proof (cases rule: put_path_Cons)
    case last
    with Cons.prems(2) show ?thesis by (auto simp: update_same split: option.splits)
  next
    case (inner e e')
    with Cons.prems(2) Cons.IH [OF inner(2)] show ?thesis by (auto simp: update_same split: option.splits)
  qed
qed

lemma put_path_ok:
  assumes "ss \<noteq> []" "\<And>q. strict_prefix q ss \<Longrightarrow> walk (PDict d) q = None \<or> (\<exists>e. walk (PDict d) q = Some (PDict e))"
  shows "\<exists>d'. put_path d ss v = Inr d'"
  using assms
proof (induction d ss v rule: put_path.induct)
  case (3 d s t rest v)
  show ?case
  proof (cases "dict_get d s")
    case None
    have "walk (PDict []) q = None \<or> (\<exists>e. walk (PDict []) q = Some (PDict e))" for q
      by (cases q) auto
    with "3.IH"(1) [OF None] None show ?thesis by (auto simp: mapR_res_def)
  next
    case (Some w)
    from "3.prems"(2) [of "[s]"] Some obtain kvs where w: "w = PDict kvs"
      by (auto simp: dict_get_map_of)
    have "walk (PDict kvs) q = None \<or> (\<exists>e. walk (PDict kvs) q = Some (PDict e))"
      if "strict_prefix q (t # rest)" for q
      using "3.prems"(2) [of "s # q"] that Some w by (simp add: dict_get_map_of)
    with "3.IH"(2) [OF Some w] Some w show ?thesis by (auto simp: mapR_res_def)
  qed
qed auto

section \<open>What is published\<close>

text \<open>No key at any depth of dictionaries, lists and tuples is denied.\<close>

function no_denied_key :: "(pyval \<Rightarrow> string) \<Rightarrow> pyval \<Rightarrow> bool" where
  "no_denied_key t v =
     (case v of
        PDict kvs \<Rightarrow> list_all (\<lambda>(k, x). \<not> is_denied_segment (key_text t k) \<and> no_denied_key t x) kvs
      | PList xs \<Rightarrow> list_all (no_denied_key t) xs
      | PTuple xs \<Rightarrow> list_all (no_denied_key t) xs
      | _ \<Rightarrow> True)"
  by pat_completeness auto
termination
  by (relation "measure (\<lambda>(t, v). size v)") (auto simp: termination_simp)

declare no_denied_key.simps [simp del]

lemma denied_lower [simp]: "is_denied_segment (str_lower s) = is_denied_segment s"
  by (simp add: is_denied_segment_def)

lemma zip_index_all: "length is = length xs \<Longrightarrow> (\<forall>(i, x) \<in> set (zip is xs). P x) \<longleftrightarrow> (\<forall>x \<in> set xs. P x)"
  by (induction "is" xs rule: list_induct2) auto

lemma forbidden_paths_Nil_iff: "forbidden_paths t v p = [] \<longleftrightarrow> no_denied_key t v"
proof (induction t v arbitrary: p rule: no_denied_key.induct)
  case (1 t v)
  have elems: "(\<forall>(i, x) \<in> set (zip [0..int (length xs) - 1] xs). forbidden_paths t x (index_path p i) = [])
      \<longleftrightarrow> list_all (no_denied_key t) xs" if "\<And>x q. x \<in> set xs \<Longrightarrow> forbidden_paths t x q = [] \<longleftrightarrow> no_denied_key t x" for xs
  proof -
    have "(\<forall>(i, x) \<in> set (zip [0..int (length xs) - 1] xs). forbidden_paths t x (index_path p i) = [])
        \<longleftrightarrow> (\<forall>(i, x) \<in> set (zip [0..int (length xs) - 1] xs). no_denied_key t x)"
      using that by (intro ball_cong refl) (auto dest: set_zip_rightD)
    also have "\<dots> \<longleftrightarrow> (\<forall>x \<in> set xs. no_denied_key t x)"
      by (rule zip_index_all) simp
    finally show ?thesis by (simp add: list_all_iff)
  qed
  show ?case
  proof (cases v)
    case (PDict kvs)
    have "forbidden_paths t x q = [] \<longleftrightarrow> no_denied_key t x" if "(k, x) \<in> set kvs" for k x q
      using "1.IH" PDict that by blast
    then show ?thesis
      by (simp add: PDict forbidden_paths.simps [of t "PDict kvs"] no_denied_key.simps [of t "PDict kvs"]
          list_all_iff Let_def) fastforce
  next
    case (PList xs)
    have "forbidden_paths t x q = [] \<longleftrightarrow> no_denied_key t x" if "x \<in> set xs" for x q
      using "1.IH" PList that by blast
    from elems [OF this] show ?thesis
      by (simp add: PList forbidden_paths.simps [of t "PList xs"] no_denied_key.simps [of t "PList xs"] case_prod_unfold)
  next
    case (PTuple xs)
    have "forbidden_paths t x q = [] \<longleftrightarrow> no_denied_key t x" if "x \<in> set xs" for x q
      using "1.IH" PTuple that by blast
    from elems [OF this] show ?thesis
      by (simp add: PTuple forbidden_paths.simps [of t "PTuple xs"] no_denied_key.simps [of t "PTuple xs"] case_prod_unfold)
  qed (simp_all add: forbidden_paths.simps no_denied_key.simps)
qed

text \<open>
  The output after the paths \<open>P\<close>: below an allowed path it is the source, above one it is a
  dictionary, and elsewhere it has nothing.
\<close>

definition mirrors :: "(pyval \<times> pyval) list \<Rightarrow> string list set \<Rightarrow> (pyval \<times> pyval) list \<Rightarrow> bool" where
  "mirrors source P out =
     ((\<forall>p\<in>P. walk (PDict out) p = walk (PDict source) p)
      \<and> (\<forall>q v. q \<noteq> [] \<longrightarrow> walk (PDict out) q = Some v \<longrightarrow>
           (\<exists>p\<in>P. prefix p q) \<and> walk (PDict source) q = Some v
           \<or> (\<exists>p\<in>P. strict_prefix q p \<and> walk (PDict source) p \<noteq> None) \<and> (\<exists>e. v = PDict e)))"

lemma mirrors_allowed: "mirrors source P out \<Longrightarrow> p \<in> P \<Longrightarrow> walk (PDict out) p = walk (PDict source) p"
  by (simp add: mirrors_def)

lemma mirrors_found:
  "mirrors source P out \<Longrightarrow> q \<noteq> [] \<Longrightarrow> walk (PDict out) q = Some v \<Longrightarrow>
     (\<exists>p\<in>P. prefix p q) \<and> walk (PDict source) q = Some v
     \<or> (\<exists>p\<in>P. strict_prefix q p \<and> walk (PDict source) p \<noteq> None) \<and> (\<exists>e. v = PDict e)"
  by (simp add: mirrors_def)

lemma walk_append: "walk v (p @ q) = (case walk v p of None \<Rightarrow> None | Some w \<Rightarrow> walk w q)"
  by (induction v p rule: walk.induct) (auto split: option.splits)

lemma walk_above_dict:
  assumes "walk v p \<noteq> None" "strict_prefix q p"
  shows "\<exists>e. walk v q = Some (PDict e)"
proof -
  from assms(2) obtain z where z: "p = q @ z" "z \<noteq> []"
    by (auto simp: strict_prefix_def prefix_def)
  then obtain s r where p: "p = q @ s # r" by (cases z) auto
  then obtain w where w: "walk v q = Some w" "walk w (s # r) \<noteq> None"
    using assms(1) by (auto simp: walk_append split: option.splits)
  then show ?thesis by (cases w) auto
qed

lemma mirrors_put:
  assumes m: "mirrors source P out" and p: "p \<noteq> []" "walk (PDict source) p = Some v"
    and put: "put_path out p v = Inr out'"
  shows "mirrors source (insert p P) out'"
proof -
  have below: "walk (PDict out') (p @ r) = walk (PDict source) (p @ r)" for r
    using walk_put_extend [OF put] p(2) by (simp add: walk_append)
  have at_p: "walk (PDict out') p = walk (PDict source) p" using below [of "[]"] by simp
  have old: "walk (PDict out') p' = walk (PDict source) p'" if p': "p' \<in> P" for p'
  proof -
    have same: "walk (PDict out) p' = walk (PDict source) p'" using m p' by (simp add: mirrors_def)
    consider (ext) "prefix p p'" | (above) "strict_prefix p' p" | (other) "\<not> prefix p p'" "\<not> prefix p' p"
      by (auto simp: strict_prefix_def)
    then show ?thesis
    proof cases
      case ext
      then show ?thesis using below by (auto simp: prefix_def)
    next
      case above
      then obtain r where r: "p = p' @ r" by (auto simp: strict_prefix_def prefix_def)
      from p(2) have "walk (PDict out) p = Some v" unfolding r walk_append same by simp
      from put_path_same [OF put this] same show ?thesis by simp
    next
      case other
      from walk_put_other [OF put this] same show ?thesis by simp
    qed
  qed
  have q: "(\<exists>p\<in>insert p P. prefix p q) \<and> walk (PDict source) q = Some w
      \<or> (\<exists>p\<in>insert p P. strict_prefix q p \<and> walk (PDict source) p \<noteq> None) \<and> (\<exists>e. w = PDict e)"
    if "q \<noteq> []" "walk (PDict out') q = Some w" for q w
  proof -
    consider (ext) "prefix p q" | (above) "strict_prefix q p" | (other) "\<not> prefix p q" "\<not> prefix q p"
      by (auto simp: strict_prefix_def)
    then show ?thesis
    proof cases
      case ext
      with that below show ?thesis by (auto simp: prefix_def)
    next
      case above
      with walk_put_above [OF put above] that p show ?thesis by auto
    next
      case other
      with walk_put_other [OF put this] that mirrors_found [OF m that(1), of w] show ?thesis by (simp, blast)
    qed
  qed
  show ?thesis unfolding mirrors_def using at_p old q by blast
qed

lemma mirrors_skip: "mirrors source P out \<Longrightarrow> walk (PDict source) p = None \<Longrightarrow> mirrors source (insert p P) out"
proof -
  assume m: "mirrors source P out" and none: "walk (PDict source) p = None"
  have "walk (PDict out) p = None"
  proof (cases "p = []")
    case False
    show ?thesis
    proof (rule ccontr)
      assume "walk (PDict out) p \<noteq> None"
      then obtain v where "walk (PDict out) p = Some v" by blast
      from mirrors_found [OF m False this] none
      obtain p' where "strict_prefix p p'" "walk (PDict source) p' \<noteq> None" by auto
      from walk_above_dict [OF this(2,1)] none show False by simp
    qed
  qed (use none in simp)
  with m none show "mirrors source (insert p P) out" unfolding mirrors_def by (simp, blast)
qed

lemma copy_path_mirrors:
  assumes "mirrors source P out"
  shows "\<exists>out'. copy_path source out path = Inr out' \<and> mirrors source (insert (split_on CHR ''.'' path) P) out'"
proof -
  let ?p = "split_on CHR ''.'' path"
  show ?thesis
  proof (cases "walk (PDict source) ?p")
    case None
    with mirrors_skip [OF assms None] show ?thesis by (simp add: copy_path_def)
  next
    case (Some v)
    have "walk (PDict out) q = None \<or> (\<exists>e. walk (PDict out) q = Some (PDict e))" if "strict_prefix q ?p" for q
    proof (cases "q = []")
      case False
      have "\<exists>e. walk (PDict source) q = Some (PDict e)" using walk_above_dict that Some by blast
      with mirrors_found [OF assms False] show ?thesis by (cases "walk (PDict out) q") auto
    qed simp
    from put_path_ok [OF split_on_not_Nil this, where v = v] obtain out' where out': "put_path out ?p v = Inr out'"
      by blast
    with mirrors_put [OF assms _ Some out'] Some show ?thesis by (simp add: copy_path_def)
  qed
qed

lemma allowlist_fold:
  assumes "mirrors source P out"
  shows "(\<exists>path \<in> set paths. list_ex is_denied_segment (split_on CHR ''.'' path)
            \<and> foldR (allowlist_step source) paths out
                = Inl (DomainValidationError (''allowlist contains prohibited field: '' @ path)))
    \<or> (\<exists>out'. foldR (allowlist_step source) paths out = Inr out'
            \<and> mirrors source (split_on CHR ''.'' ` set paths \<union> P) out')"
  using assms
proof (induction paths arbitrary: out P)
  case Nil
  then show ?case by auto
next
  case (Cons a paths)
  show ?case
  proof (cases "list_ex is_denied_segment (split_on CHR ''.'' a)")
    case True
    then show ?thesis by (simp add: allowlist_step_def)
  next
    case False
    from copy_path_mirrors [OF Cons.prems] obtain out' where
      out': "copy_path source out a = Inr out'" "mirrors source (insert (split_on CHR ''.'' a) P) out'" by blast
    with False have "allowlist_step source a out = Inr out'" by (simp add: allowlist_step_def)
    with Cons.IH [OF out'(2)] show ?thesis by auto
  qed
qed

lemma mirrors_empty: "mirrors source {} []"
  by (auto simp: mirrors_def neq_Nil_conv)

text \<open>
  C1. What a published brief contains: nothing under a denied key at any depth; at every allowed
  path exactly what the source has there, present or absent; and every value in it that is not a
  dictionary is the source's value at the same path, at or below an allowed path. Nothing else of the
  buyer's record reaches the seller.
\<close>

theorem published_brief_boundary:
  assumes "sanitize_requirement_brief t source allowlist = Inr out"
  shows "no_denied_key t (PDict out)
    \<and> (\<forall>p\<in>set allowlist. walk (PDict out) (split_on CHR ''.'' p) = walk (PDict source) (split_on CHR ''.'' p))
    \<and> (\<forall>q v. q \<noteq> [] \<and> walk (PDict out) q = Some v \<and> (\<nexists>e. v = PDict e) \<longrightarrow>
         (\<exists>p\<in>set allowlist. prefix (split_on CHR ''.'' p) q) \<and> walk (PDict source) q = Some v)"
proof -
  from assms have f: "foldR (allowlist_step source) (sorted_set allowlist) [] = Inr out"
    and clean: "forbidden_paths t (PDict out) [] = []"
    by (auto simp: sanitize_requirement_brief_def allowlisted_copy_def assert_public_payload_def result_simps Let_def)
  from allowlist_fold [OF mirrors_empty, where source = source and paths = "sorted_set allowlist"] f
  have m: "mirrors source (split_on CHR ''.'' ` set allowlist) out" by auto
  have "walk (PDict out) (split_on CHR ''.'' p) = walk (PDict source) (split_on CHR ''.'' p)"
    if "p \<in> set allowlist" for p
    using that by (intro mirrors_allowed [OF m]) simp
  moreover have "(\<exists>p\<in>set allowlist. prefix (split_on CHR ''.'' p) q) \<and> walk (PDict source) q = Some v"
    if "q \<noteq> []" "walk (PDict out) q = Some v" "\<nexists>e. v = PDict e" for q v
  proof -
    from mirrors_found [OF m that(1,2)] that(3)
    have "(\<exists>p\<in>split_on CHR ''.'' ` set allowlist. prefix p q) \<and> walk (PDict source) q = Some v" by blast
    then show ?thesis by blast
  qed
  moreover have "no_denied_key t (PDict out)" using clean by (simp add: forbidden_paths_Nil_iff)
  ultimately show ?thesis by blast
qed

lemma published_brief_boundary_witness:
  "let source = [(PStr ''seat_count'', PInt 5), (PStr ''organization_id'', PStr ''o''),
                 (PStr ''desired_outcome'', PDict [(PStr ''metric'', PStr ''m''), (PStr ''note'', PStr ''n'')])];
       out = [(PStr ''desired_outcome'', PDict [(PStr ''metric'', PStr ''m'')]), (PStr ''seat_count'', PInt 5)]
   in sanitize_requirement_brief (\<lambda>_. []) source [''seat_count'', ''desired_outcome.metric'', ''deadline''] = Inr out
      \<and> no_denied_key (\<lambda>_. []) (PDict out)"
proof -
  define source where "source = [(PStr ''seat_count'', PInt 5), (PStr ''organization_id'', PStr ''o''),
     (PStr ''desired_outcome'', PDict [(PStr ''metric'', PStr ''m''), (PStr ''note'', PStr ''n'')])]"
  define out where "out = [(PStr ''desired_outcome'', PDict [(PStr ''metric'', PStr ''m'')]), (PStr ''seat_count'', PInt 5)]"
  have "sanitize_requirement_brief (\<lambda>_. []) source [''seat_count'', ''desired_outcome.metric'', ''deadline''] = Inr out"
    unfolding source_def out_def by code_simp
  from this published_brief_boundary [OF this] show ?thesis by (simp add: source_def out_def)
qed

text \<open>
  Publication is total: it never fails in the copying (no attribute, type or index error,
  whatever shape the source has), only by refusing a denied allowlist entry or a denied key in what it
  copied; with the default allowlist of packs only the second can happen.
\<close>

theorem publish_pack_total:
  "(\<exists>out. publish_seil_pack t source allowlist = Inr out)
   \<or> (\<exists>m. publish_seil_pack t source allowlist = Inl (DomainValidationError m))
     \<and> (allowlist = DEFAULT_PACK_PUBLICATION_ALLOWLIST \<longrightarrow>
          (\<exists>out. foldR (allowlist_step source) (sorted_set allowlist) [] = Inr out
                 \<and> \<not> no_denied_key t (PDict out)))"
proof -
  have d: "list_all (\<lambda>p. \<not> list_ex is_denied_segment (split_on CHR ''.'' p)) DEFAULT_PACK_PUBLICATION_ALLOWLIST"
    by code_simp
  show ?thesis
    using allowlist_fold [OF mirrors_empty, where source = source and paths = "sorted_set allowlist"] d
    by (auto simp: publish_seil_pack_def allowlisted_copy_def assert_public_payload_def Let_def ensure_def
        forbidden_paths_Nil_iff list_all_iff)
qed

lemma publish_pack_total_witness:
  "\<exists>m. publish_seil_pack (\<lambda>_. []) [(PStr ''claims'', PDict [(PStr ''seller_floor'', PInt 1)])] [''claims'']
     = Inl (DomainValidationError m)"
proof -
  let ?s = "[(PStr ''claims'', PDict [(PStr ''seller_floor'', PInt 1)])]"
  have "\<not> is_ok (publish_seil_pack (\<lambda>_. []) ?s [''claims''])" by code_simp
  with publish_pack_total [of "\<lambda>_. []" ?s "[''claims'']"] show ?thesis by (auto simp: is_ok_iff)
qed

text \<open>
  The default brief allowlist is wider than its dotted entries suggest: because it also names the
  parents \<^verbatim>\<open>desired_outcome\<close> and \<^verbatim>\<open>privacy_requirements\<close>, a nested field that no entry names
  is published with them.
\<close>

theorem default_brief_publishes_unlisted:
  "sanitize_requirement_brief t [(PStr ''privacy_requirements'', PDict [(PStr ''internal_note'', PStr ''n'')])]
       DEFAULT_REQUIREMENT_BRIEF_ALLOWLIST
     = Inr [(PStr ''privacy_requirements'', PDict [(PStr ''internal_note'', PStr ''n'')])]
   \<and> ''privacy_requirements.internal_note'' \<notin> set DEFAULT_REQUIREMENT_BRIEF_ALLOWLIST"
proof -
  let ?s = "[(PStr ''privacy_requirements'', PDict [(PStr ''internal_note'', PStr ''n'')])]"
  have f: "foldR (allowlist_step ?s) (sorted_set DEFAULT_REQUIREMENT_BRIEF_ALLOWLIST) [] = Inr ?s"
    by code_simp
  have "\<not> is_denied_segment ''privacy_requirements'' \<and> \<not> is_denied_segment ''internal_note''" by code_simp
  then have "no_denied_key t (PDict ?s)"
    by (simp add: no_denied_key.simps key_text_def)
  with f have "sanitize_requirement_brief t ?s DEFAULT_REQUIREMENT_BRIEF_ALLOWLIST = Inr ?s"
    by (simp add: sanitize_requirement_brief_def allowlisted_copy_def assert_public_payload_def
        forbidden_paths_Nil_iff)
  moreover have "''privacy_requirements.internal_note'' \<notin> set DEFAULT_REQUIREMENT_BRIEF_ALLOWLIST" by code_simp
  ultimately show ?thesis by blast
qed

end
