(* ===== verification/Stackfile.thy ===== *)
theory Stackfile
  imports DomainModels
begin

text \<open>
  \<^verbatim>\<open>stackfile/models.py\<close>: the Stackfile graph, its validation and its two lock formats.
\<close>

section \<open>Node and edge types\<close>

datatype NodeType =
    ORGANIZATION | BUSINESS_GOAL | JTBD | WORKFLOW | CAPABILITY | TEAM | ROLE | PERSON_REF
    | PRODUCT | PRODUCT_VERSION | PRODUCT_INSTANCE | IMPLEMENTATION_PROJECT | OFFER | CONTRACT
    | ENTITLEMENT | INTEGRATION | DATA_ASSET | POLICY | BUDGET | VENDOR | DECISION | OUTCOME
    | RISK

fun NodeType_value :: "NodeType \<Rightarrow> string" where
  "NodeType_value NodeType.ORGANIZATION = ''organization''"
| "NodeType_value NodeType.BUSINESS_GOAL = ''business_goal''"
| "NodeType_value NodeType.JTBD = ''jtbd''"
| "NodeType_value NodeType.WORKFLOW = ''workflow''"
| "NodeType_value NodeType.CAPABILITY = ''capability''"
| "NodeType_value NodeType.TEAM = ''team''"
| "NodeType_value NodeType.ROLE = ''role''"
| "NodeType_value NodeType.PERSON_REF = ''person_ref''"
| "NodeType_value NodeType.PRODUCT = ''product''"
| "NodeType_value NodeType.PRODUCT_VERSION = ''product_version''"
| "NodeType_value NodeType.PRODUCT_INSTANCE = ''product_instance''"
| "NodeType_value NodeType.IMPLEMENTATION_PROJECT = ''implementation_project''"
| "NodeType_value NodeType.OFFER = ''offer''"
| "NodeType_value NodeType.CONTRACT = ''contract''"
| "NodeType_value NodeType.ENTITLEMENT = ''entitlement''"
| "NodeType_value NodeType.INTEGRATION = ''integration''"
| "NodeType_value NodeType.DATA_ASSET = ''data_asset''"
| "NodeType_value NodeType.POLICY = ''policy''"
| "NodeType_value NodeType.BUDGET = ''budget''"
| "NodeType_value NodeType.VENDOR = ''vendor''"
| "NodeType_value NodeType.DECISION = ''decision''"
| "NodeType_value NodeType.OUTCOME = ''outcome''"
| "NodeType_value NodeType.RISK = ''risk''"

definition all_NodeType :: "NodeType list" where
  "all_NodeType =
     [NodeType.ORGANIZATION, NodeType.BUSINESS_GOAL, NodeType.JTBD, NodeType.WORKFLOW
      , NodeType.CAPABILITY, NodeType.TEAM, NodeType.ROLE, NodeType.PERSON_REF, NodeType.PRODUCT
      , NodeType.PRODUCT_VERSION, NodeType.PRODUCT_INSTANCE, NodeType.IMPLEMENTATION_PROJECT
      , NodeType.OFFER, NodeType.CONTRACT, NodeType.ENTITLEMENT, NodeType.INTEGRATION
      , NodeType.DATA_ASSET, NodeType.POLICY, NodeType.BUDGET, NodeType.VENDOR
      , NodeType.DECISION, NodeType.OUTCOME, NodeType.RISK]"

datatype EdgeType =
    FULFILLS | FULFILLED_BY | PROVIDES | REQUIRES_CAPABILITY | DEPLOYED_FOR | REQUIRES
    | INTEGRATES_WITH | SENDS_DATA_TO | REPLACES | OVERLAPS_WITH | BLOCKS | CONSTRAINED_BY
    | OWNED_BY | USED_BY | PAID_BY | PROVISIONED_BY | GOVERNED_BY | MEASURED_BY | RENEWED_BY

fun EdgeType_value :: "EdgeType \<Rightarrow> string" where
  "EdgeType_value EdgeType.FULFILLS = ''fulfills''"
| "EdgeType_value EdgeType.FULFILLED_BY = ''fulfilled_by''"
| "EdgeType_value EdgeType.PROVIDES = ''provides''"
| "EdgeType_value EdgeType.REQUIRES_CAPABILITY = ''requires_capability''"
| "EdgeType_value EdgeType.DEPLOYED_FOR = ''deployed_for''"
| "EdgeType_value EdgeType.REQUIRES = ''requires''"
| "EdgeType_value EdgeType.INTEGRATES_WITH = ''integrates_with''"
| "EdgeType_value EdgeType.SENDS_DATA_TO = ''sends_data_to''"
| "EdgeType_value EdgeType.REPLACES = ''replaces''"
| "EdgeType_value EdgeType.OVERLAPS_WITH = ''overlaps_with''"
| "EdgeType_value EdgeType.BLOCKS = ''blocks''"
| "EdgeType_value EdgeType.CONSTRAINED_BY = ''constrained_by''"
| "EdgeType_value EdgeType.OWNED_BY = ''owned_by''"
| "EdgeType_value EdgeType.USED_BY = ''used_by''"
| "EdgeType_value EdgeType.PAID_BY = ''paid_by''"
| "EdgeType_value EdgeType.PROVISIONED_BY = ''provisioned_by''"
| "EdgeType_value EdgeType.GOVERNED_BY = ''governed_by''"
| "EdgeType_value EdgeType.MEASURED_BY = ''measured_by''"
| "EdgeType_value EdgeType.RENEWED_BY = ''renewed_by''"

definition all_EdgeType :: "EdgeType list" where
  "all_EdgeType =
     [EdgeType.FULFILLS, EdgeType.FULFILLED_BY, EdgeType.PROVIDES, EdgeType.REQUIRES_CAPABILITY
      , EdgeType.DEPLOYED_FOR, EdgeType.REQUIRES, EdgeType.INTEGRATES_WITH
      , EdgeType.SENDS_DATA_TO, EdgeType.REPLACES, EdgeType.OVERLAPS_WITH, EdgeType.BLOCKS
      , EdgeType.CONSTRAINED_BY, EdgeType.OWNED_BY, EdgeType.USED_BY, EdgeType.PAID_BY
      , EdgeType.PROVISIONED_BY, EdgeType.GOVERNED_BY, EdgeType.MEASURED_BY, EdgeType.RENEWED_BY]"

text \<open>
  \<^verbatim>\<open>_enum\<close>: a member, its value, or the value in another case that upper-casing repairs.
\<close>

definition coerce_enum :: "('e \<Rightarrow> string) \<Rightarrow> 'e list \<Rightarrow> pyval \<Rightarrow> string \<Rightarrow> 'e result" where
  "coerce_enum value_of members v field_name =
     (let unsupported = DomainValidationError (''unsupported '' @ field_name)
      in case v of
           PStr s \<Rightarrow>
             (case enum_of value_of members s of
                Some m \<Rightarrow> Inr m
              | None \<Rightarrow>
                  (case enum_of value_of members (str_upper s) of Some m \<Rightarrow> Inr m | None \<Rightarrow> Inl unsupported))
         | _ \<Rightarrow> Inl unsupported)"

abbreviation NodeType_enum :: "pyval \<Rightarrow> NodeType result" where
  "NodeType_enum v \<equiv> coerce_enum NodeType_value all_NodeType v ''node_type''"

abbreviation EdgeType_enum :: "pyval \<Rightarrow> EdgeType result" where
  "EdgeType_enum v \<equiv> coerce_enum EdgeType_value all_EdgeType v ''edge_type''"

abbreviation StackRisk_enum :: "pyval \<Rightarrow> StackRisk result" where
  "StackRisk_enum v \<equiv> coerce_enum StackRisk_value all_StackRisk v ''criticality''"

abbreviation ProductInstanceState_enum :: "pyval \<Rightarrow> ProductInstanceState result" where
  "ProductInstanceState_enum v \<equiv>
     coerce_enum ProductInstanceState_value all_ProductInstanceState v ''product_instance_state''"

text \<open>An object whose hashed form is its own payload.\<close>

definition payload_object :: "(string \<times> pyval) list \<Rightarrow> pyval" where
  "payload_object kvs = PData kvs (Some (PDict (map (\<lambda>(k, v). (PStr k, v)) kvs)))"

section \<open>Nodes and edges\<close>

record StackNode =
  sn_node_id :: string
  sn_alias :: string
  sn_node_type :: NodeType
  sn_attributes :: pyval
  sn_state :: "ProductInstanceState option"

definition StackNode_post_init :: "(pyval \<Rightarrow> string) \<Rightarrow> StackNode \<Rightarrow> StackNode result" where
  "StackNode_post_init text_of n =
     bindR (require_id (sn_node_id n) ''node_id'') (\<lambda>_.
     bindR (require_id (sn_alias n) ''alias'') (\<lambda>_.
     bindR (if sn_node_type n = NodeType.PRODUCT_INSTANCE
            then ensure (sn_state n \<noteq> None)
                   (DomainValidationError ''product_instance nodes require lifecycle state'')
            else ensure (sn_state n = None)
                   (DomainValidationError ''only product_instance nodes have lifecycle state'')) (\<lambda>_.
     Inr (n\<lparr>sn_attributes := deep_freeze text_of (sn_attributes n)\<rparr>))))"

definition state_pyval :: "ProductInstanceState option \<Rightarrow> pyval" where
  "state_pyval s = (case s of None \<Rightarrow> PNone | Some v \<Rightarrow> PStr (ProductInstanceState_value v))"

definition StackNode_to_hash_payload :: "StackNode \<Rightarrow> pyval" where
  "StackNode_to_hash_payload n = payload_object
     [(''node_id'', PStr (sn_node_id n)), (''alias'', PStr (sn_alias n)),
      (''node_type'', PStr (NodeType_value (sn_node_type n))), (''attributes'', sn_attributes n),
      (''product_instance_state'', state_pyval (sn_state n))]"

definition StackNode_from_dict :: "(pyval \<Rightarrow> string) \<Rightarrow> pyval \<Rightarrow> StackNode result" where
  "StackNode_from_dict text_of data =
     bindR (py_item data ''node_id'') (\<lambda>node_id.
     bindR (py_item data ''alias'') (\<lambda>alias.
     bindR (bindR (py_item data ''node_type'') NodeType_enum) (\<lambda>node_type.
     bindR (py_get data ''attributes'' (PDict [])) (\<lambda>attributes.
     bindR (py_get data ''product_instance_state'' PNone) (\<lambda>raw_state.
     bindR (if raw_state = PNone then Inr None else mapR_res Some (ProductInstanceState_enum raw_state)) (\<lambda>state.
     StackNode_post_init text_of
       \<lparr>sn_node_id = key_text text_of node_id, sn_alias = key_text text_of alias,
        sn_node_type = node_type, sn_attributes = attributes, sn_state = state\<rparr>))))))"

record StackEdge =
  se_edge_id :: string
  se_from :: string
  se_to :: string
  se_type :: EdgeType
  se_criticality :: StackRisk
  se_hard :: bool
  se_evidence_ref :: pyval
  se_confidence :: string

definition StackEdge_post_init :: "StackEdge \<Rightarrow> StackEdge result" where
  "StackEdge_post_init e =
     bindR (require_id (se_edge_id e) ''edge_id'') (\<lambda>_.
     bindR (require_id (se_from e) ''from_node_id'') (\<lambda>_.
     bindR (require_id (se_to e) ''to_node_id'') (\<lambda>_.
     bindR (ensure (se_from e \<noteq> se_to e) (DomainValidationError ''Stackfile self-edges are prohibited'')) (\<lambda>_.
     bindR (ensure (se_confidence e \<in> {''confirmed'', ''measured'', ''observed'', ''inferred'', ''unknown''})
              (DomainValidationError ''unsupported Stackfile edge confidence'')) (\<lambda>_.
     Inr e)))))"

definition StackEdge_to_hash_payload :: "StackEdge \<Rightarrow> pyval" where
  "StackEdge_to_hash_payload e = payload_object
     [(''edge_id'', PStr (se_edge_id e)), (''from_node_id'', PStr (se_from e)),
      (''to_node_id'', PStr (se_to e)), (''edge_type'', PStr (EdgeType_value (se_type e))),
      (''criticality'', PStr (StackRisk_value (se_criticality e))), (''hard'', PBool (se_hard e)),
      (''evidence_ref'', se_evidence_ref e), (''confidence'', PStr (se_confidence e))]"

definition StackEdge_from_dict :: "(pyval \<Rightarrow> string) \<Rightarrow> pyval \<Rightarrow> StackEdge result" where
  "StackEdge_from_dict text_of data =
     bindR (py_item data ''edge_id'') (\<lambda>edge_id.
     bindR (py_item data ''from_node_id'') (\<lambda>from_id.
     bindR (py_item data ''to_node_id'') (\<lambda>to_id.
     bindR (bindR (py_item data ''edge_type'') EdgeType_enum) (\<lambda>edge_type.
     bindR (bindR (py_get data ''criticality'' (PStr ''LOW'')) StackRisk_enum) (\<lambda>criticality.
     bindR (py_get data ''hard'' (PBool False)) (\<lambda>hard.
     bindR (py_get data ''evidence_ref'' PNone) (\<lambda>evidence_ref.
     bindR (py_get data ''confidence'' (PStr ''confirmed'')) (\<lambda>confidence.
     StackEdge_post_init
       \<lparr>se_edge_id = key_text text_of edge_id, se_from = key_text text_of from_id,
        se_to = key_text text_of to_id, se_type = edge_type, se_criticality = criticality,
        se_hard = py_truthy hard, se_evidence_ref = evidence_ref,
        se_confidence = key_text text_of confidence\<rparr>))))))))"

section \<open>Graph validation\<close>

type_synonym dependency_graph = "(string \<times> string list) list"

definition is_hard_dependency :: "StackEdge \<Rightarrow> bool" where
  "is_hard_dependency e = (se_hard e \<and> se_type e \<in> {EdgeType.REQUIRES, EdgeType.REQUIRES_CAPABILITY})"

text \<open>
  The adjacency dictionary: one entry per node, one append per hard edge; appending under a missing
  key is a KeyError.
\<close>

definition add_dependency :: "StackEdge \<Rightarrow> dependency_graph \<Rightarrow> dependency_graph result" where
  "add_dependency e graph =
     (if is_hard_dependency e
      then case map_of graph (se_from e) of
             None \<Rightarrow> Inl KeyError
           | Some targets \<Rightarrow> Inr (AList.update (se_from e) (targets @ [se_to e]) graph)
      else Inr graph)"

definition dependency_graph_of :: "StackNode list \<Rightarrow> StackEdge list \<Rightarrow> dependency_graph result" where
  "dependency_graph_of nodes edges =
     foldR add_dependency edges (dict_of (map (\<lambda>n. (sn_node_id n, [])) nodes))"

definition cycle_error :: py_error where
  "cycle_error = DomainValidationError ''hard directed dependency cycle detected''"

text \<open>
  The recursive \<^verbatim>\<open>visit\<close> with the two sets it mutates, \<open>visiting\<close> and \<open>visited\<close>. The
  first argument bounds the depth of the recursion; \<open>visit_outcome\<close> below shows that the number
  of nodes is always enough.
\<close>

primrec visit ::
    "nat \<Rightarrow> dependency_graph \<Rightarrow> string \<Rightarrow> string list \<times> string list \<Rightarrow> (string list \<times> string list) result" where
  "visit 0 graph node_id st = Inl RecursionError"
| "visit (Suc depth) graph node_id st =
     (case st of (visiting, visited) \<Rightarrow>
        if node_id \<in> set visiting then Inl cycle_error
        else if node_id \<in> set visited then Inr st
        else case map_of graph node_id of
               None \<Rightarrow> Inl KeyError
             | Some targets \<Rightarrow>
                 bindR (foldR (visit depth graph) targets (node_id # visiting, visited)) (\<lambda>(visiting', visited').
                 Inr (remove1 node_id visiting', node_id # visited')))"

definition validate_no_hard_dependency_cycle :: "StackNode list \<Rightarrow> StackEdge list \<Rightarrow> unit result" where
  "validate_no_hard_dependency_cycle nodes edges =
     bindR (dependency_graph_of nodes edges) (\<lambda>graph.
     bindR (foldR (visit (Suc (length graph)) graph) (sort (map fst graph)) ([], [])) (\<lambda>_. Inr ()))"

definition not_active_instance :: "StackNode \<Rightarrow> bool" where
  "not_active_instance n =
     (sn_node_type n = NodeType.PRODUCT_INSTANCE \<and> sn_state n \<noteq> Some ProductInstanceState.ACTIVE)"

definition validate_edge :: "(string \<times> StackNode) list \<Rightarrow> StackEdge \<Rightarrow> unit result" where
  "validate_edge node_by_id e =
     (case (map_of node_by_id (se_from e), map_of node_by_id (se_to e)) of
        (Some source, Some target) \<Rightarrow>
          ensure (\<not> (se_type e = EdgeType.FULFILLS \<and> not_active_instance source)
                  \<and> \<not> (se_type e = EdgeType.FULFILLED_BY \<and> not_active_instance target))
            (DomainValidationError ''only active product instances can fulfill a JTBD'')
      | _ \<Rightarrow> Inl (DomainValidationError ''Stackfile edges must reference nodes in the same snapshot''))"

definition validate_graph :: "StackNode list \<Rightarrow> StackEdge list \<Rightarrow> unit result" where
  "validate_graph nodes edges =
     (let node_by_id = dict_of (map (\<lambda>n. (sn_node_id n, n)) nodes)
      in bindR (ensure (length node_by_id = length nodes)
                  (DomainValidationError ''Stackfile node IDs must be unique'')) (\<lambda>_.
         bindR (ensure (length (remdups (map sn_alias nodes)) = length nodes)
                  (DomainValidationError ''Stackfile aliases must be unique per snapshot'')) (\<lambda>_.
         bindR (ensure (length (remdups (map se_edge_id edges)) = length edges)
                  (DomainValidationError ''Stackfile edge IDs must be unique'')) (\<lambda>_.
         bindR (foldR (\<lambda>e _. validate_edge node_by_id e) edges ()) (\<lambda>_.
         validate_no_hard_dependency_cycle nodes edges)))))"

section \<open>Snapshots\<close>

record StackSnapshot =
  ss_schema_version :: string
  ss_organization_id :: string
  ss_version :: int
  ss_nodes :: "StackNode list"
  ss_edges :: "StackEdge list"
  ss_content_hash :: string

definition StackSnapshot_to_hash_payload :: "StackSnapshot \<Rightarrow> pyval" where
  "StackSnapshot_to_hash_payload s = PDict
     [(PStr ''schema_version'', PStr (ss_schema_version s)),
      (PStr ''organization_id'', PStr (ss_organization_id s)), (PStr ''version'', PInt (ss_version s)),
      (PStr ''nodes'', PTuple (map StackNode_to_hash_payload (ss_nodes s))),
      (PStr ''edges'', PTuple (map StackEdge_to_hash_payload (ss_edges s)))]"

definition sort_snapshot :: "StackSnapshot \<Rightarrow> StackSnapshot" where
  "sort_snapshot s =
     s\<lparr>ss_nodes := sort_key sn_node_id (ss_nodes s), ss_edges := sort_key se_edge_id (ss_edges s)\<rparr>"

definition seal_snapshot :: "StackSnapshot \<Rightarrow> string \<Rightarrow> StackSnapshot result" where
  "seal_snapshot s computed =
     (if ss_content_hash s \<noteq> [] then
        bindR (require_hash (ss_content_hash s) ''content_hash'') (\<lambda>_.
        if computed \<noteq> ss_content_hash s
        then Inl (DomainValidationError ''Stackfile content_hash does not match snapshot'')
        else Inr s)
      else Inr (s\<lparr>ss_content_hash := computed\<rparr>))"

definition StackSnapshot_post_init :: "(pyval \<Rightarrow> string result) \<Rightarrow> StackSnapshot \<Rightarrow> StackSnapshot result" where
  "StackSnapshot_post_init H s =
     bindR (ensure (ss_schema_version s \<noteq> [])
              (DomainValidationError ''Stackfile schema_version is required'')) (\<lambda>_.
     bindR (require_id (ss_organization_id s) ''organization_id'') (\<lambda>_.
     bindR (ensure (1 \<le> ss_version s)
              (DomainValidationError ''Stackfile snapshot version must be positive'')) (\<lambda>_.
     let t = sort_snapshot s
     in bindR (validate_graph (ss_nodes t) (ss_edges t)) (\<lambda>_.
        bindR (H (StackSnapshot_to_hash_payload t)) (seal_snapshot t)))))"

definition StackSnapshot_node :: "StackSnapshot \<Rightarrow> string \<Rightarrow> StackNode result" where
  "StackSnapshot_node s node_id =
     (case find (\<lambda>n. sn_node_id n = node_id) (ss_nodes s) of Some n \<Rightarrow> Inr n | None \<Rightarrow> Inl KeyError)"

section \<open>Lock formats\<close>

definition lock_fields :: "string list" where
  "lock_fields = [''schema_version'', ''organization_id'', ''version'', ''nodes'', ''edges'', ''content_hash'']"

definition StackSnapshot_from_dict ::
    "(pyval \<Rightarrow> string result) \<Rightarrow> (pyval \<Rightarrow> string) \<Rightarrow> (pyval \<times> pyval) list \<Rightarrow> StackSnapshot result" where
  "StackSnapshot_from_dict H text_of data =
     (let d = PDict data
      in bindR (ensure (list_all (\<lambda>(k, v). k \<in> PStr ` set lock_fields) data)
                  (DomainValidationError ''unknown Stackfile lock fields'')) (\<lambda>_.
         bindR (py_item d ''schema_version'') (\<lambda>schema_version.
         bindR (py_item d ''organization_id'') (\<lambda>organization_id.
         bindR (bindR (py_item d ''version'') py_int) (\<lambda>version.
         bindR (bindR (py_get d ''nodes'' (PTuple [])) py_iter) (\<lambda>raw_nodes.
         bindR (traverse (StackNode_from_dict text_of) raw_nodes) (\<lambda>nodes.
         bindR (bindR (py_get d ''edges'' (PTuple [])) py_iter) (\<lambda>raw_edges.
         bindR (traverse (StackEdge_from_dict text_of) raw_edges) (\<lambda>edges.
         bindR (py_get d ''content_hash'' (PStr [])) (\<lambda>hash.
         StackSnapshot_post_init H
           \<lparr>ss_schema_version = key_text text_of schema_version,
            ss_organization_id = key_text text_of organization_id, ss_version = version,
            ss_nodes = nodes, ss_edges = edges, ss_content_hash = key_text text_of hash\<rparr>))))))))))"

definition compact_lifecycle :: "(string \<times> ProductInstanceState) list" where
  "compact_lifecycle =
     [(''planned'', ProductInstanceState.PROPOSED), (''staged'', ProductInstanceState.PROVISIONED),
      (''active'', ProductInstanceState.ACTIVE), (''degraded'', ProductInstanceState.DEGRADED),
      (''retiring'', ProductInstanceState.RETIRING), (''retired'', ProductInstanceState.CANCELLED),
      (''cancelled'', ProductInstanceState.CANCELLED), (''failed'', ProductInstanceState.DEGRADED)]"

type_synonym node_map = "(string \<times> StackNode) list"

definition add_compact_instance :: "(pyval \<Rightarrow> string) \<Rightarrow> pyval \<Rightarrow> node_map \<Rightarrow> node_map result" where
  "add_compact_instance text_of instance_data nodes =
     bindR (py_item instance_data ''product_id'') (\<lambda>raw_id.
     bindR (py_item instance_data ''lifecycle'') (\<lambda>raw_state.
     let product_id = key_text text_of raw_id
     in case map_of compact_lifecycle (key_text text_of raw_state) of
          None \<Rightarrow> Inl (DomainValidationError ''unknown compact lock lifecycle'')
        | Some state \<Rightarrow>
            bindR (py_item instance_data ''instance_id'') (\<lambda>instance_id.
            bindR (py_item instance_data ''version'') (\<lambda>version.
            bindR (py_item instance_data ''serves'') (\<lambda>serves.
            bindR (py_item instance_data ''integrations'') (\<lambda>integrations.
            bindR (StackNode_post_init text_of
                     \<lparr>sn_node_id = product_id, sn_alias = product_id,
                      sn_node_type = NodeType.PRODUCT_INSTANCE,
                      sn_attributes = PDict [(PStr ''instance_id'', instance_id), (PStr ''version'', version),
                                             (PStr ''serves'', serves), (PStr ''integrations'', integrations)],
                      sn_state = Some state\<rparr>) (\<lambda>node.
            Inr (AList.update product_id node nodes)))))))) "

text \<open>An endpoint no instance names becomes a node of the type the edge suggests.\<close>

definition infer_endpoint :: "(pyval \<Rightarrow> string) \<Rightarrow> EdgeType \<Rightarrow> string \<times> bool \<Rightarrow> node_map \<Rightarrow> node_map result" where
  "infer_endpoint text_of edge_type endpoint_source nodes =
     (case endpoint_source of (endpoint, is_source) \<Rightarrow>
        if map_of nodes endpoint \<noteq> None then Inr nodes
        else let inferred =
                   (if edge_type = EdgeType.FULFILLED_BY \<and> is_source
                       \<or> edge_type = EdgeType.FULFILLS \<and> \<not> is_source
                    then NodeType.JTBD else NodeType.CAPABILITY)
             in bindR (StackNode_post_init text_of
                         \<lparr>sn_node_id = endpoint, sn_alias = endpoint, sn_node_type = inferred,
                          sn_attributes = PDict [], sn_state = None\<rparr>) (\<lambda>node.
                Inr (AList.update endpoint node nodes)))"

definition add_compact_edge ::
    "(pyval \<Rightarrow> string) \<Rightarrow> int \<times> pyval \<Rightarrow> node_map \<times> StackEdge list \<Rightarrow> (node_map \<times> StackEdge list) result" where
  "add_compact_edge text_of indexed_item st =
     (case (indexed_item, st) of ((index, item), (nodes, edges)) \<Rightarrow>
        bindR (bindR (py_item item ''type'') EdgeType_enum) (\<lambda>edge_type.
        bindR (py_item item ''from'') (\<lambda>raw_from.
        bindR (py_item item ''to'') (\<lambda>raw_to.
        let from_id = key_text text_of raw_from; to_id = key_text text_of raw_to
        in bindR (foldR (infer_endpoint text_of edge_type) [(from_id, True), (to_id, False)] nodes) (\<lambda>nodes'.
           bindR (bindR (py_item item ''criticality'') StackRisk_enum) (\<lambda>criticality.
           bindR (StackEdge_post_init
                    \<lparr>se_edge_id = ''edge_'' @ show_int index @ ''_'' @ from_id @ ''_''
                                    @ EdgeType_value edge_type @ ''_'' @ to_id,
                     se_from = from_id, se_to = to_id, se_type = edge_type, se_criticality = criticality,
                     se_hard = False, se_evidence_ref = PNone, se_confidence = ''confirmed''\<rparr>) (\<lambda>edge.
           Inr (nodes', edges @ [edge]))))))))"

definition first_build_lock ::
    "(pyval \<Rightarrow> string result) \<Rightarrow> (pyval \<Rightarrow> string) \<Rightarrow> (pyval \<times> pyval) list \<Rightarrow> StackSnapshot result" where
  "first_build_lock H text_of data =
     (let d = PDict data
      in bindR (bindR (py_get d ''instances'' (PTuple [])) py_iter) (\<lambda>instances.
         bindR (foldR (add_compact_instance text_of) instances []) (\<lambda>instance_nodes.
         bindR (bindR (py_get d ''edges'' (PTuple [])) py_iter) (\<lambda>items.
         bindR (foldR (add_compact_edge text_of) (zip [0..int (length items) - 1] items) (instance_nodes, []))
           (\<lambda>(nodes, edges).
         bindR (py_item d ''schema_version'') (\<lambda>schema_version.
         bindR (py_item d ''organization_id'') (\<lambda>organization_id.
         bindR (bindR (py_item d ''snapshot'') py_int) (\<lambda>version.
         StackSnapshot_post_init H
           \<lparr>ss_schema_version = key_text text_of schema_version,
            ss_organization_id = key_text text_of organization_id, ss_version = version,
            ss_nodes = dict_values nodes, ss_edges = edges, ss_content_hash = []\<rparr>))))))))"

text \<open>\<^verbatim>\<open>load_stackfile_lock\<close> after the file is read and parsed.\<close>

definition load_stackfile_lock ::
    "(pyval \<Rightarrow> string result) \<Rightarrow> (pyval \<Rightarrow> string) \<Rightarrow> pyval \<Rightarrow> StackSnapshot result" where
  "load_stackfile_lock H text_of parsed =
     (case parsed of
        PDict data \<Rightarrow>
          if dict_get data ''instances'' \<noteq> None \<and> dict_get data ''snapshot'' \<noteq> None
          then first_build_lock H text_of data
          else StackSnapshot_from_dict H text_of data
      | _ \<Rightarrow> Inl (DomainValidationError ''Stackfile lock root must be an object''))"

section \<open>The cycle check is exact\<close>

definition dependency_edges :: "StackEdge list \<Rightarrow> (string \<times> string) set" where
  "dependency_edges edges = {(se_from e, se_to e) | e. e \<in> set edges \<and> is_hard_dependency e}"

definition graph_edges :: "dependency_graph \<Rightarrow> (string \<times> string) set" where
  "graph_edges g = {(n, m) | n m targets. map_of g n = Some targets \<and> m \<in> set targets}"

text \<open>A set of finished nodes: closed under dependencies and on no cycle.\<close>

definition settled :: "(string \<times> string) set \<Rightarrow> string set \<Rightarrow> bool" where
  "settled E A = ((\<forall>x\<in>A. E `` {x} \<subseteq> A) \<and> (\<forall>x\<in>A. (x, x) \<notin> E\<^sup>+))"

lemma settled_closed:
  assumes "settled E A" "(x, y) \<in> E\<^sup>*" "x \<in> A"
  shows "y \<in> A"
  using assms(2,1,3) by (induction rule: rtrancl_induct) (auto simp: settled_def)

lemma settled_insert:
  assumes A: "settled E A" and n: "n \<notin> A" "E `` {n} \<subseteq> A"
  shows "settled E (insert n A)"
proof -
  have "(n, n) \<notin> E\<^sup>+"
  proof
    assume "(n, n) \<in> E\<^sup>+"
    then obtain m where "(n, m) \<in> E" "(m, n) \<in> E\<^sup>*" by (auto dest: tranclD)
    with n settled_closed [OF A] show False by blast
  qed
  with A n(2) show ?thesis by (auto simp: settled_def)
qed

definition visit_ok ::
    "(string \<times> string) set \<Rightarrow> string set \<Rightarrow> string list \<Rightarrow> string list \<Rightarrow> bool" where
  "visit_ok E N vg vd = (settled E (set vd) \<and> set vd \<subseteq> N \<and> set vg \<inter> set vd = {})"

text \<open>
  One call of \<open>visit\<close>, and the loop over a list of nodes: it returns with the same stack and the
  nodes settled, or it raises because the graph has a cycle. It never runs out of depth.
\<close>

definition visit_outcome ::
    "(string \<times> string) set \<Rightarrow> string set \<Rightarrow> string list \<Rightarrow> string list \<Rightarrow> string set
      \<Rightarrow> (string list \<times> string list) result \<Rightarrow> bool" where
  "visit_outcome E N vg vd ns r =
     ((\<exists>vd'. r = Inr (vg, vd') \<and> visit_ok E N vg vd' \<and> set vd \<subseteq> set vd' \<and> ns \<subseteq> set vd')
      \<or> r = Inl cycle_error \<and> (\<exists>x. (x, x) \<in> E\<^sup>+))"

lemma visit_list_outcome:
  assumes step: "\<And>n vd. n \<in> set ns \<Longrightarrow> visit_ok E N vg vd \<Longrightarrow> visit_outcome E N vg vd {n} (f n (vg, vd))"
    and "visit_ok E N vg vd"
  shows "visit_outcome E N vg vd (set ns) (foldR f ns (vg, vd))"
  using assms
proof (induction ns arbitrary: vd)
  case Nil
  then show ?case by (simp add: visit_outcome_def)
next
  case (Cons n ns)
  have "visit_outcome E N vg vd {n} (f n (vg, vd))" using Cons.prems by simp
  then consider (ok) vd' where "f n (vg, vd) = Inr (vg, vd')" "visit_ok E N vg vd'" "set vd \<subseteq> set vd'" "n \<in> set vd'"
    | (err) "f n (vg, vd) = Inl cycle_error" "\<exists>x. (x, x) \<in> E\<^sup>+"
    by (auto simp: visit_outcome_def)
  then show ?case
  proof cases
    case ok
    with Cons.IH [OF _ ok(2)] Cons.prems(1) show ?thesis by (fastforce simp: visit_outcome_def)
  next
    case err
    then show ?thesis by (simp add: visit_outcome_def)
  qed
qed

lemma visit_correct:
  assumes g: "\<And>n. n \<in> N \<longleftrightarrow> map_of g n \<noteq> None" "graph_edges g \<subseteq> N \<times> N" "finite N"
    and "visit_ok (graph_edges g) N vg vd" "n \<in> N" "set vg \<subseteq> N" "card (N - set vg) < depth"
    and "\<And>v. v \<in> set vg \<Longrightarrow> (v, n) \<in> (graph_edges g)\<^sup>+"
  shows "visit_outcome (graph_edges g) N vg vd {n} (visit depth g n (vg, vd))"
  using assms(4-)
proof (induction depth arbitrary: n vg vd)
  case 0
  then show ?case by simp
next
  case (Suc depth)
  let ?E = "graph_edges g"
  show ?case
  proof (cases "n \<in> set vg")
    case True
    with Suc.prems(5) have "(n, n) \<in> ?E\<^sup>+" by blast
    with True show ?thesis by (auto simp: visit_outcome_def)
  next
    case fresh: False
    show ?thesis
    proof (cases "n \<in> set vd")
      case True
      with fresh Suc.prems(1) show ?thesis by (simp add: visit_outcome_def)
    next
      case False
      from Suc.prems(2) g(1) obtain ts where ts: "map_of g n = Some ts" by auto
      have edge: "(n, m) \<in> ?E" if "m \<in> set ts" for m using ts that by (auto simp: graph_edges_def)
      have succ: "?E `` {n} = set ts" using ts by (auto simp: graph_edges_def)
      have "card (N - set (n # vg)) < card (N - set vg)"
        using fresh Suc.prems(2) g(3) by (intro psubset_card_mono) auto
      then have card: "card (N - set (n # vg)) < depth" using Suc.prems(4) by linarith
      have ok: "visit_ok ?E N (n # vg) vd" using Suc.prems(1) False by (simp add: visit_ok_def)
      have step: "visit_outcome ?E N (n # vg) vd' {m} (visit depth g m (n # vg, vd'))"
        if "m \<in> set ts" "visit_ok ?E N (n # vg) vd'" for m vd'
      proof (rule Suc.IH [OF that(2) _ _ card])
        show "m \<in> N" using edge [OF that(1)] g(2) by auto
        show "set (n # vg) \<subseteq> N" using Suc.prems(2,3) by simp
        show "(v, m) \<in> ?E\<^sup>+" if "v \<in> set (n # vg)" for v
          using that edge [OF \<open>m \<in> set ts\<close>] Suc.prems(5) by (auto intro: trancl_into_trancl)
      qed
      have out: "visit_outcome ?E N (n # vg) vd (set ts) (foldR (visit depth g) ts (n # vg, vd))"
        by (rule visit_list_outcome [OF step ok])
      then consider (ok) vd' where "foldR (visit depth g) ts (n # vg, vd) = Inr (n # vg, vd')"
          "visit_ok ?E N (n # vg) vd'" "set vd \<subseteq> set vd'" "set ts \<subseteq> set vd'"
        | (err) "foldR (visit depth g) ts (n # vg, vd) = Inl cycle_error" "\<exists>x. (x, x) \<in> ?E\<^sup>+"
        by (auto simp: visit_outcome_def)
      then show ?thesis
      proof cases
        case ok
        then have "settled ?E (insert n (set vd'))"
          using succ by (intro settled_insert) (auto simp: visit_ok_def)
        with ok fresh False ts Suc.prems(2) show ?thesis
          by (auto simp: visit_outcome_def visit_ok_def)
      next
        case err
        with fresh False ts show ?thesis by (simp add: visit_outcome_def)
      qed
    qed
  qed
qed

text \<open>The adjacency dictionary of a snapshot whose edges join its own nodes.\<close>

lemma add_dependency_spec:
  assumes "map_of g (se_from e) \<noteq> None"
  shows "\<exists>g'. add_dependency e g = Inr g' \<and> dom (map_of g') = dom (map_of g)
    \<and> graph_edges g' = graph_edges g \<union> dependency_edges [e]"
proof (cases "is_hard_dependency e")
  case True
  from assms obtain ts where ts: "map_of g (se_from e) = Some ts" by auto
  let ?g = "AList.update (se_from e) (ts @ [se_to e]) g"
  have "graph_edges ?g = graph_edges g \<union> {(se_from e, se_to e)}"
    using ts unfolding graph_edges_def dict_simps by (auto split: if_splits)
  moreover have "dependency_edges [e] = {(se_from e, se_to e)}" using True by (auto simp: dependency_edges_def)
  moreover have "dom (map_of ?g) = dom (map_of g)" using ts by (auto simp: dict_simps)
  ultimately show ?thesis using True ts by (simp add: add_dependency_def)
next
  case False
  then show ?thesis by (auto simp: add_dependency_def dependency_edges_def)
qed

lemma dependency_fold:
  assumes "\<forall>e\<in>set edges. se_from e \<in> dom (map_of g)"
  shows "\<exists>g'. foldR add_dependency edges g = Inr g' \<and> dom (map_of g') = dom (map_of g)
    \<and> graph_edges g' = graph_edges g \<union> dependency_edges edges"
  using assms
proof (induction edges arbitrary: g)
  case Nil
  then show ?case by (simp add: dependency_edges_def)
next
  case (Cons e edges)
  from Cons.prems have "map_of g (se_from e) \<noteq> None" by auto
  from add_dependency_spec [OF this] obtain g1 where g1: "add_dependency e g = Inr g1"
    "dom (map_of g1) = dom (map_of g)" "graph_edges g1 = graph_edges g \<union> dependency_edges [e]" by blast
  from Cons.IH [of g1] Cons.prems g1(2) obtain g2 where g2: "foldR add_dependency edges g1 = Inr g2"
    "dom (map_of g2) = dom (map_of g1)" "graph_edges g2 = graph_edges g1 \<union> dependency_edges edges" by auto
  have "dependency_edges (e # edges) = dependency_edges [e] \<union> dependency_edges edges"
    by (auto simp: dependency_edges_def)
  with g1 g2 show ?case by auto
qed

definition edges_inside :: "StackNode list \<Rightarrow> StackEdge list \<Rightarrow> bool" where
  "edges_inside nodes edges =
     (\<forall>e\<in>set edges. se_from e \<in> sn_node_id ` set nodes \<and> se_to e \<in> sn_node_id ` set nodes)"

lemma map_of_constant: "map_of (map (\<lambda>x. (f x, c)) xs) k = (if k \<in> f ` set xs then Some c else None)"
  by (induction xs) auto

lemma dependency_graph_of_spec:
  assumes "edges_inside nodes edges"
  obtains g where "dependency_graph_of nodes edges = Inr g" "dom (map_of g) = sn_node_id ` set nodes"
    "graph_edges g = dependency_edges edges"
proof -
  let ?g = "dict_of (map (\<lambda>n. (sn_node_id n, [])) nodes) :: dependency_graph"
  have map: "map_of ?g k = (if k \<in> sn_node_id ` set nodes then Some [] else None)" for k
    by (simp add: dict_simps rev_map map_of_constant)
  then have d: "dom (map_of ?g) = sn_node_id ` set nodes" by (auto split: if_splits)
  have e: "graph_edges ?g = {}" using map by (auto simp: graph_edges_def split: if_splits)
  from dependency_fold [of edges ?g] assms d e that show thesis
    unfolding dependency_graph_of_def edges_inside_def by auto
qed

text \<open>
  C34. The hard dependency check decides acyclicity: for nodes and edges that reference each other,
  it accepts exactly when no node reaches itself through hard REQUIRES or REQUIRES_CAPABILITY edges,
  otherwise it raises exactly the cycle error, and the traversal always terminates within a recursion
  depth of the number of nodes plus one.
\<close>

theorem dependency_cycle_check:
  assumes "edges_inside nodes edges"
  shows "validate_no_hard_dependency_cycle nodes edges =
    (if \<forall>x. (x, x) \<notin> (dependency_edges edges)\<^sup>+ then Inr () else Inl cycle_error)"
proof -
  from dependency_graph_of_spec [OF assms] obtain g where g: "dependency_graph_of nodes edges = Inr g"
    "dom (map_of g) = sn_node_id ` set nodes" "graph_edges g = dependency_edges edges" .
  let ?N = "dom (map_of g)" and ?E = "graph_edges g"
  have inside: "?E \<subseteq> ?N \<times> ?N"
    using assms g(2,3) by (auto simp: edges_inside_def dependency_edges_def)
  have "card ?N \<le> length g"
    by (metis card_length dom_map_of_conv_image_fst length_map list.set_map)
  then have "card (?N - set []) < Suc (length g)" by simp
  then have "visit_outcome ?E ?N [] vd {n} (visit (Suc (length g)) g n ([], vd))"
    if "n \<in> set (sort (map fst g))" "visit_ok ?E ?N [] vd" for n vd
    using that inside
    by (intro visit_correct) (auto simp: dom_map_of_conv_image_fst map_of_eq_None_iff)
  then have out: "visit_outcome ?E ?N [] [] (set (sort (map fst g)))
      (foldR (visit (Suc (length g)) g) (sort (map fst g)) ([], []))"
    by (rule visit_list_outcome) (auto simp: visit_ok_def settled_def)
  then consider (ok) vd where "foldR (visit (Suc (length g)) g) (sort (map fst g)) ([], []) = Inr ([], vd)"
      "settled ?E (set vd)" "?N \<subseteq> set vd"
    | (err) "foldR (visit (Suc (length g)) g) (sort (map fst g)) ([], []) = Inl cycle_error"
      "\<exists>x. (x, x) \<in> ?E\<^sup>+"
    by (auto simp: visit_outcome_def visit_ok_def dom_map_of_conv_image_fst)
  then show ?thesis
  proof cases
    case ok
    have "(x, x) \<notin> ?E\<^sup>+" for x
    proof
      assume "(x, x) \<in> ?E\<^sup>+"
      then have "x \<in> ?N" using inside by (meson mem_Sigma_iff subset_iff tranclD)
      with ok(2,3) \<open>(x, x) \<in> ?E\<^sup>+\<close> show False by (auto simp: settled_def)
    qed
    with ok(1) g show ?thesis by (simp add: validate_no_hard_dependency_cycle_def)
  next
    case err
    with g show ?thesis by (auto simp: validate_no_hard_dependency_cycle_def)
  qed
qed

definition sample_node :: "string \<Rightarrow> StackNode" where
  "sample_node i = \<lparr>sn_node_id = i, sn_alias = i, sn_node_type = NodeType.CAPABILITY,
     sn_attributes = PDict [], sn_state = None\<rparr>"

definition sample_edge :: "string \<Rightarrow> string \<Rightarrow> string \<Rightarrow> StackEdge" where
  "sample_edge i a b = \<lparr>se_edge_id = i, se_from = a, se_to = b, se_type = EdgeType.REQUIRES,
     se_criticality = StackRisk.LOW, se_hard = True, se_evidence_ref = PNone, se_confidence = ''confirmed''\<rparr>"

lemma dependency_cycle_check_witness:
  "\<exists>x. (x, x) \<in> (dependency_edges [sample_edge ''e1'' ''a'' ''b'', sample_edge ''e2'' ''b'' ''a''])\<^sup>+"
proof -
  let ?ns = "[sample_node ''a'', sample_node ''b'']"
  let ?es = "[sample_edge ''e1'' ''a'' ''b'', sample_edge ''e2'' ''b'' ''a'']"
  have "edges_inside ?ns ?es" by (simp add: edges_inside_def sample_node_def sample_edge_def)
  moreover have "validate_no_hard_dependency_cycle ?ns ?es = Inl cycle_error" by code_simp
  ultimately show ?thesis using dependency_cycle_check [of ?ns ?es] by (auto split: if_splits)
qed

section \<open>Well-formed snapshots\<close>

definition wf_stack_graph :: "StackNode list \<Rightarrow> StackEdge list \<Rightarrow> bool" where
  "wf_stack_graph nodes edges =
     (distinct (map sn_node_id nodes) \<and> distinct (map sn_alias nodes) \<and> distinct (map se_edge_id edges)
      \<and> edges_inside nodes edges
      \<and> (\<forall>e\<in>set edges. \<forall>n\<in>set nodes.
           (se_type e = EdgeType.FULFILLS \<and> sn_node_id n = se_from e
            \<or> se_type e = EdgeType.FULFILLED_BY \<and> sn_node_id n = se_to e) \<longrightarrow> \<not> not_active_instance n)
      \<and> (\<forall>x. (x, x) \<notin> (dependency_edges edges)\<^sup>+))"

lemma validate_edge_iff:
  assumes "distinct (map sn_node_id nodes)"
  shows "validate_edge (dict_of (map (\<lambda>n. (sn_node_id n, n)) nodes)) e = Inr u \<longleftrightarrow>
    se_from e \<in> sn_node_id ` set nodes \<and> se_to e \<in> sn_node_id ` set nodes
    \<and> (\<forall>n\<in>set nodes. (se_type e = EdgeType.FULFILLS \<and> sn_node_id n = se_from e
            \<or> se_type e = EdgeType.FULFILLED_BY \<and> sn_node_id n = se_to e) \<longrightarrow> \<not> not_active_instance n)"
proof -
  let ?d = "dict_of (map (\<lambda>n. (sn_node_id n, n)) nodes)"
  have dist: "distinct (map fst (map (\<lambda>n. (sn_node_id n, n)) nodes))"
    using assms by (simp add: comp_def)
  have map: "map_of ?d k = Some n \<longleftrightarrow> n \<in> set nodes \<and> sn_node_id n = k" for k n
    unfolding dict_of_distinct [OF dist] map_of_eq_Some_iff [OF dist] by auto
  have none: "map_of ?d k = None \<longleftrightarrow> k \<notin> sn_node_id ` set nodes" for k
    unfolding dict_of_distinct [OF dist] map_of_eq_None_iff by (simp add: image_image)
  have uniq: "n = n'" if "n \<in> set nodes" "n' \<in> set nodes" "sn_node_id n = sn_node_id n'" for n n'
    using assms that by (auto simp: distinct_map dest: inj_onD)
  show ?thesis
  proof (cases "map_of ?d (se_from e) = None \<or> map_of ?d (se_to e) = None")
    case True
    then have "validate_edge ?d e \<noteq> Inr u" by (auto simp: validate_edge_def split: option.splits)
    moreover have "\<not> (se_from e \<in> sn_node_id ` set nodes \<and> se_to e \<in> sn_node_id ` set nodes)"
      using True none by blast
    ultimately show ?thesis by blast
  next
    case False
    then obtain a b where ab: "map_of ?d (se_from e) = Some a" "map_of ?d (se_to e) = Some b" by auto
    with map have m: "a \<in> set nodes" "sn_node_id a = se_from e" "b \<in> set nodes" "sn_node_id b = se_to e" by auto
    have a: "n = a" if "n \<in> set nodes" "sn_node_id n = se_from e" for n using uniq [OF that(1) m(1)] that(2) m(2) by simp
    have b: "n = b" if "n \<in> set nodes" "sn_node_id n = se_to e" for n using uniq [OF that(1) m(3)] that(2) m(4) by simp
    have "(\<forall>n\<in>set nodes. (se_type e = EdgeType.FULFILLS \<and> sn_node_id n = se_from e
            \<or> se_type e = EdgeType.FULFILLED_BY \<and> sn_node_id n = se_to e) \<longrightarrow> \<not> not_active_instance n)
      \<longleftrightarrow> (se_type e = EdgeType.FULFILLS \<longrightarrow> \<not> not_active_instance a)
        \<and> (se_type e = EdgeType.FULFILLED_BY \<longrightarrow> \<not> not_active_instance b)"
      using m a b by blast
    moreover have "se_from e \<in> sn_node_id ` set nodes" "se_to e \<in> sn_node_id ` set nodes"
      using m by (auto intro: rev_image_eqI)
    ultimately show ?thesis using ab by (simp add: validate_edge_def ensure_Inr_iff)
  qed
qed

lemma length_remdups_map [simp]: "length (remdups (map f xs)) = length xs \<longleftrightarrow> distinct (map f xs)"
  using length_remdups_eq [of "map f xs"] by simp

text \<open>
  \<^verbatim>\<open>_validate_graph\<close> accepts exactly the well-formed graphs: unique node identifiers, aliases
  and edge identifiers, every edge between nodes of the snapshot, only active product instances
  fulfilling a job, and no cycle of hard dependencies.
\<close>

theorem validate_graph_exact: "validate_graph nodes edges = Inr () \<longleftrightarrow> wf_stack_graph nodes edges"
proof (cases "distinct (map sn_node_id nodes)")
  case False
  then have "length (dict_of (map (\<lambda>n. (sn_node_id n, n)) nodes)) \<noteq> length nodes"
    using length_dict_of_iff [of "map (\<lambda>n. (sn_node_id n, n)) nodes"] by (simp add: comp_def)
  with False show ?thesis by (simp add: validate_graph_def wf_stack_graph_def Let_def)
next
  case True
  then have "length (dict_of (map (\<lambda>n. (sn_node_id n, n)) nodes)) = length nodes"
    using length_dict_of_iff [of "map (\<lambda>n. (sn_node_id n, n)) nodes"] by (simp add: comp_def)
  then have "validate_graph nodes edges = Inr () \<longleftrightarrow>
      distinct (map sn_alias nodes) \<and> distinct (map se_edge_id edges)
      \<and> (\<forall>e\<in>set edges. validate_edge (dict_of (map (\<lambda>n. (sn_node_id n, n)) nodes)) e = Inr ())
      \<and> validate_no_hard_dependency_cycle nodes edges = Inr ()"
    by (simp add: validate_graph_def Let_def bindR_Inr_iff ensure_Inr_iff foldR_unit_iff)
  also have "\<dots> \<longleftrightarrow> wf_stack_graph nodes edges"
  proof (cases "edges_inside nodes edges")
    case True
    with \<open>distinct (map sn_node_id nodes)\<close> show ?thesis
      by (auto simp: validate_edge_iff wf_stack_graph_def dependency_cycle_check edges_inside_def)
  next
    case False
    with \<open>distinct (map sn_node_id nodes)\<close> show ?thesis
      by (auto simp: validate_edge_iff wf_stack_graph_def edges_inside_def)
  qed
  finally show ?thesis .
qed

lemma sort_key_mset: "mset xs = mset ys \<Longrightarrow> distinct (map f xs) \<Longrightarrow> sort_key f xs = sort_key f ys"
  by (intro sort_key_perm distinct_map_inj_on)

lemma distinct_map_mset: "mset xs = mset ys \<Longrightarrow> distinct (map f xs) = distinct (map f ys)"
  by (rule mset_eq_imp_distinct_iff) simp

lemma length_node_dict: "length (dict_of (map (\<lambda>n. (sn_node_id n, n)) nodes)) = length nodes \<longleftrightarrow>
    distinct (map sn_node_id nodes)"
  using length_dict_of_iff [of "map (\<lambda>n. (sn_node_id n, n)) nodes"] by (simp add: comp_def)

lemma validate_graph_cases:
  "validate_graph nodes edges =
     (if \<not> distinct (map sn_node_id nodes) then Inl (DomainValidationError ''Stackfile node IDs must be unique'')
      else if \<not> distinct (map sn_alias nodes)
        then Inl (DomainValidationError ''Stackfile aliases must be unique per snapshot'')
      else if \<not> distinct (map se_edge_id edges) then Inl (DomainValidationError ''Stackfile edge IDs must be unique'')
      else bindR (foldR (\<lambda>e _. validate_edge (dict_of (map (\<lambda>n. (sn_node_id n, n)) nodes)) e) edges ()) (\<lambda>_.
           validate_no_hard_dependency_cycle nodes edges))"
  by (simp add: validate_graph_def length_node_dict Let_def)

lemma validate_graph_sorted:
  assumes "mset ns = mset ns'" "mset es = mset es'"
  shows "validate_graph (sort_key sn_node_id ns) (sort_key se_edge_id es)
       = validate_graph (sort_key sn_node_id ns') (sort_key se_edge_id es')"
proof -
  have len: "length ns = length ns'" "length es = length es'"
    using assms by (metis size_mset)+
  have d: "distinct (map sn_node_id (sort_key sn_node_id ms)) = distinct (map sn_node_id ms)"
    "distinct (map sn_alias (sort_key sn_node_id ms)) = distinct (map sn_alias ms)"
    "distinct (map se_edge_id (sort_key se_edge_id fs)) = distinct (map se_edge_id fs)" for ms fs
    by (intro distinct_map_mset; simp)+
  have m: "distinct (map sn_node_id ns) = distinct (map sn_node_id ns')"
    "distinct (map sn_alias ns) = distinct (map sn_alias ns')"
    "distinct (map se_edge_id es) = distinct (map se_edge_id es')"
    by (intro distinct_map_mset assms)+
  consider (ids) "\<not> distinct (map sn_node_id ns)" | (names) "distinct (map sn_node_id ns)" "\<not> distinct (map sn_alias ns)"
    | (edges) "distinct (map sn_node_id ns)" "distinct (map sn_alias ns)" "\<not> distinct (map se_edge_id es)"
    | (ok) "distinct (map sn_node_id ns)" "distinct (map se_edge_id es)" by blast
  then show ?thesis
  proof cases
    case ok
    with assms show ?thesis by (simp add: sort_key_mset)
  qed (simp_all add: validate_graph_cases d m)
qed

text \<open>
  A snapshot does not depend on the order its nodes and edges arrive in: constructing it from
  any permutation of both gives the same result, the same stored order and content hash or the same
  error.
\<close>

theorem snapshot_order_independent:
  assumes "mset ns = mset (ss_nodes s)" "mset es = mset (ss_edges s)"
  shows "StackSnapshot_post_init H (s\<lparr>ss_nodes := ns, ss_edges := es\<rparr>) = StackSnapshot_post_init H s"
proof (cases "\<exists>u. validate_graph (sort_key sn_node_id (ss_nodes s)) (sort_key se_edge_id (ss_edges s)) = Inr u")
  case True
  then have "validate_graph (sort_key sn_node_id (ss_nodes s)) (sort_key se_edge_id (ss_edges s)) = Inr ()" by auto
  then have "distinct (map sn_node_id (sort_key sn_node_id (ss_nodes s)))"
      "distinct (map se_edge_id (sort_key se_edge_id (ss_edges s)))"
    by (auto simp: validate_graph_exact wf_stack_graph_def)
  then have "distinct (map sn_node_id (ss_nodes s))" "distinct (map se_edge_id (ss_edges s))"
    by (metis distinct_map_mset mset_sort)+
  with assms have "sort_key sn_node_id ns = sort_key sn_node_id (ss_nodes s)"
      "sort_key se_edge_id es = sort_key se_edge_id (ss_edges s)"
    by (metis distinct_map_mset sort_key_mset)+
  then have "sort_snapshot (s\<lparr>ss_nodes := ns, ss_edges := es\<rparr>) = sort_snapshot s"
    by (simp add: sort_snapshot_def)
  then show ?thesis by (simp add: StackSnapshot_post_init_def)
next
  case False
  then obtain e where "validate_graph (sort_key sn_node_id (ss_nodes s)) (sort_key se_edge_id (ss_edges s)) = Inl e"
    by (cases "validate_graph (sort_key sn_node_id (ss_nodes s)) (sort_key se_edge_id (ss_edges s))") auto
  moreover from this validate_graph_sorted [OF assms]
  have "validate_graph (sort_key sn_node_id ns) (sort_key se_edge_id es) = Inl e" by simp
  ultimately show ?thesis
    by (simp add: StackSnapshot_post_init_def sort_snapshot_def Let_def)
qed

definition fixed_hash :: "pyval \<Rightarrow> string result" where
  "fixed_hash v = Inr (''sha256:'' @ replicate 64 CHR ''0'')"

interpretation fixed: content_hasher fixed_hash
proof
  have "is_content_hash (''sha256:'' @ replicate 64 CHR ''0'')" by code_simp
  then show "fixed_hash v = Inr h \<Longrightarrow> is_content_hash h" for v h by (simp add: fixed_hash_def)
qed

definition sample_snapshot :: StackSnapshot where
  "sample_snapshot =
     \<lparr>ss_schema_version = ''1'', ss_organization_id = ''org'', ss_version = 1,
      ss_nodes = [sample_node ''b'', sample_node ''a''], ss_edges = [sample_edge ''e1'' ''a'' ''b''],
      ss_content_hash = []\<rparr>"

lemma snapshot_order_independent_witness:
  "StackSnapshot_post_init fixed_hash (sample_snapshot\<lparr>ss_nodes := [sample_node ''a'', sample_node ''b'']\<rparr>)
     = StackSnapshot_post_init fixed_hash sample_snapshot
   \<and> is_ok (StackSnapshot_post_init fixed_hash sample_snapshot)"
proof -
  have "StackSnapshot_post_init fixed_hash
      (sample_snapshot\<lparr>ss_nodes := [sample_node ''a'', sample_node ''b''], ss_edges := ss_edges sample_snapshot\<rparr>)
    = StackSnapshot_post_init fixed_hash sample_snapshot"
    by (rule snapshot_order_independent) (simp_all add: sample_snapshot_def add_mset_commute)
  moreover have "is_ok (StackSnapshot_post_init fixed_hash sample_snapshot)" by code_simp
  ultimately show ?thesis by (simp add: sample_snapshot_def)
qed

context content_hasher
begin

lemma snapshot_Inr:
  assumes "StackSnapshot_post_init H s = Inr t"
  obtains h where "wf_stack_graph (ss_nodes t) (ss_edges t)" "H (StackSnapshot_to_hash_payload t) = Inr h"
    "t = (sort_snapshot s)\<lparr>ss_content_hash := h\<rparr>" "1 \<le> ss_version s" "is_id (ss_organization_id s)"
    "ss_schema_version s \<noteq> []" "is_content_hash h"
proof -
  let ?s = "sort_snapshot s"
  from assms have chk: "1 \<le> ss_version s" "is_id (ss_organization_id s)" "ss_schema_version s \<noteq> []"
    and r: "bindR (validate_graph (ss_nodes ?s) (ss_edges ?s)) (\<lambda>_.
        bindR (H (StackSnapshot_to_hash_payload ?s)) (seal_snapshot ?s)) = Inr t"
    by (auto simp: StackSnapshot_post_init_def Let_def bindR_Inr_iff ensure_Inr_iff require_Inr)
  from r obtain h where v: "validate_graph (ss_nodes ?s) (ss_edges ?s) = Inr ()"
    and h: "H (StackSnapshot_to_hash_payload ?s) = Inr h" "seal_snapshot ?s h = Inr t"
    by (auto simp: bindR_Inr_iff)
  have t: "t = ?s\<lparr>ss_content_hash := h\<rparr>"
  proof (cases "ss_content_hash ?s = []")
    case True
    with h(2) show ?thesis by (simp add: seal_snapshot_def)
  next
    case False
    with h(2) have "ss_content_hash ?s = h" "t = ?s"
      by (simp_all add: seal_snapshot_def bindR_Inr_iff split: if_splits)
    then show ?thesis by simp
  qed
  have p: "StackSnapshot_to_hash_payload t = StackSnapshot_to_hash_payload ?s"
    by (simp add: t StackSnapshot_to_hash_payload_def)
  show thesis
  proof (rule that [OF _ _ t chk hash_shape [OF h(1)]])
    show "wf_stack_graph (ss_nodes t) (ss_edges t)" using v by (simp add: t validate_graph_exact)
    show "H (StackSnapshot_to_hash_payload t) = Inr h" using h(1) p by simp
  qed
qed

lemma sort_snapshot_idem: "sort_snapshot ((sort_snapshot s)\<lparr>ss_content_hash := h\<rparr>) = (sort_snapshot s)\<lparr>ss_content_hash := h\<rparr>"
  by (simp add: sort_snapshot_def sort_key_id_if_sorted)

lemma snapshot_stable:
  assumes "StackSnapshot_post_init H s = Inr t"
  shows "StackSnapshot_post_init H t = Inr t"
proof -
  from snapshot_Inr [OF assms] obtain h where h: "wf_stack_graph (ss_nodes t) (ss_edges t)"
    "H (StackSnapshot_to_hash_payload t) = Inr h" "t = (sort_snapshot s)\<lparr>ss_content_hash := h\<rparr>"
    "1 \<le> ss_version s" "is_id (ss_organization_id s)" "ss_schema_version s \<noteq> []" "is_content_hash h" .
  have t: "sort_snapshot t = t" unfolding h(3) by (rule sort_snapshot_idem)
  have f: "ss_version t = ss_version s" "ss_organization_id t = ss_organization_id s"
    "ss_schema_version t = ss_schema_version s" "ss_content_hash t = h"
    by (simp_all add: h(3) sort_snapshot_def)
  have "seal_snapshot t h = Inr t" using h(7) f(4) by (auto simp: seal_snapshot_def require_hash_def)
  with h(1,2,4-7) f t show ?thesis
    by (simp add: StackSnapshot_post_init_def require_id_def Let_def iffD2 [OF validate_graph_exact])
qed

end

text \<open>
  A stored snapshot is a sealed well-formed graph: its nodes and edges are sorted by
  identifier and satisfy every graph rule, its version is positive, its content hash is the hash of
  what it stores, and constructing it again from its own fields returns it unchanged.
\<close>

theorem snapshot_sealed:
  assumes "StackSnapshot_post_init (\<lambda>v. content_hash dumps v []) s = Inr t"
  shows "wf_stack_graph (ss_nodes t) (ss_edges t) \<and> sorted (map sn_node_id (ss_nodes t))
    \<and> sorted (map se_edge_id (ss_edges t)) \<and> 1 \<le> ss_version t
    \<and> content_hash dumps (StackSnapshot_to_hash_payload t) [] = Inr (ss_content_hash t)
    \<and> StackSnapshot_post_init (\<lambda>v. content_hash dumps v []) t = Inr t"
proof -
  from domain_hash.snapshot_Inr [OF assms] obtain h where h: "wf_stack_graph (ss_nodes t) (ss_edges t)"
    "content_hash dumps (StackSnapshot_to_hash_payload t) [] = Inr h"
    "t = (sort_snapshot s)\<lparr>ss_content_hash := h\<rparr>" "1 \<le> ss_version s" .
  then have "sorted (map sn_node_id (ss_nodes t))" "sorted (map se_edge_id (ss_edges t))"
      "ss_version t = ss_version s" "ss_content_hash t = h"
    by (simp_all add: sort_snapshot_def)
  with h domain_hash.snapshot_stable [OF assms] show ?thesis by simp
qed

lemma snapshot_sealed_witness:
  "\<exists>t. StackSnapshot_post_init (\<lambda>v. content_hash (\<lambda>_. Some ''{}'') v []) sample_snapshot = Inr t
     \<and> map sn_node_id (ss_nodes t) = [''a'', ''b'']
     \<and> StackSnapshot_post_init (\<lambda>v. content_hash (\<lambda>_. Some ''{}'') v []) t = Inr t"
proof -
  let ?H = "\<lambda>v. content_hash (\<lambda>_. Some ''{}'') v []"
  let ?t = "sort_snapshot sample_snapshot"
  have "is_ok (normalize_value [] (StackSnapshot_to_hash_payload ?t))" by code_simp
  then obtain w where "normalize_value [] (StackSnapshot_to_hash_payload ?t) = Inr w"
    by (auto simp: is_ok_iff)
  then have "?H (StackSnapshot_to_hash_payload ?t) = Inr (''sha256:'' @ sha256_hexdigest ''{}'')"
    by (simp add: content_hash_def canonical_json_def)
  moreover have "ss_schema_version sample_snapshot \<noteq> [] \<and> is_id (ss_organization_id sample_snapshot)
      \<and> 1 \<le> ss_version sample_snapshot \<and> validate_graph (ss_nodes ?t) (ss_edges ?t) = Inr ()
      \<and> ss_content_hash ?t = []" by code_simp
  ultimately have ok: "StackSnapshot_post_init ?H sample_snapshot
      = Inr (?t\<lparr>ss_content_hash := ''sha256:'' @ sha256_hexdigest ''{}''\<rparr>)"
    by (simp add: StackSnapshot_post_init_def require_id_def seal_snapshot_def Let_def)
  have ids: "map sn_node_id (ss_nodes ?t) = [''a'', ''b'']" by code_simp
  from snapshot_sealed [OF ok] ids ok show ?thesis by simp
qed

end
