(* ===== verification/StackPatch.thy ===== *)
theory StackPatch
  imports Stackfile Transitions
begin

text \<open>
  \<^verbatim>\<open>stackfile/patches.py\<close>: version-bound patches of a Stackfile snapshot, their simulation and
  their status machine.
\<close>

section \<open>Operations and patches\<close>

datatype PatchOperation =
    AddNode string StackNode
  | AddEdge string StackEdge
  | TransitionProductInstance string string ProductInstanceState ProductInstanceState bool
  | RemoveEdge string string
  | RemoveNode string string

fun operation_id :: "PatchOperation \<Rightarrow> string" where
  "operation_id (AddNode i _) = i"
| "operation_id (AddEdge i _) = i"
| "operation_id (TransitionProductInstance i _ _ _ _) = i"
| "operation_id (RemoveEdge i _) = i"
| "operation_id (RemoveNode i _) = i"

text \<open>The checks of the operation constructors.\<close>

fun PatchOperation_post_init :: "PatchOperation \<Rightarrow> unit result" where
  "PatchOperation_post_init (AddNode i node) =
     bindR (require_id i ''operation_id'') (\<lambda>_.
     ensure (\<not> (sn_node_type node = NodeType.PRODUCT_INSTANCE
                \<and> sn_state node = Some ProductInstanceState.ACTIVE))
       (DomainValidationError ''a purchased product must be staged before deployment activation''))"
| "PatchOperation_post_init (AddEdge i edge) = require_id i ''operation_id''"
| "PatchOperation_post_init (TransitionProductInstance i node_id _ _ _) =
     bindR (require_id i ''operation_id'') (\<lambda>_. require_id node_id ''node_id'')"
| "PatchOperation_post_init (RemoveEdge i edge_id) =
     bindR (require_id i ''operation_id'') (\<lambda>_. require_id edge_id ''edge_id'')"
| "PatchOperation_post_init (RemoveNode i node_id) =
     bindR (require_id i ''operation_id'') (\<lambda>_. require_id node_id ''node_id'')"

fun PatchOperation_to_hash_payload :: "PatchOperation \<Rightarrow> pyval" where
  "PatchOperation_to_hash_payload (AddNode i node) = payload_object
     [(''kind'', PStr ''ADD_NODE''), (''operation_id'', PStr i), (''node'', StackNode_to_hash_payload node)]"
| "PatchOperation_to_hash_payload (AddEdge i edge) = payload_object
     [(''kind'', PStr ''ADD_EDGE''), (''operation_id'', PStr i), (''edge'', StackEdge_to_hash_payload edge)]"
| "PatchOperation_to_hash_payload (TransitionProductInstance i node_id from_state to_state validated) =
     payload_object
     [(''kind'', PStr ''TRANSITION_PRODUCT_INSTANCE''), (''operation_id'', PStr i),
      (''node_id'', PStr node_id), (''from_state'', PStr (ProductInstanceState_value from_state)),
      (''to_state'', PStr (ProductInstanceState_value to_state)), (''deployment_validated'', PBool validated)]"
| "PatchOperation_to_hash_payload (RemoveEdge i edge_id) = payload_object
     [(''kind'', PStr ''REMOVE_EDGE''), (''operation_id'', PStr i), (''edge_id'', PStr edge_id)]"
| "PatchOperation_to_hash_payload (RemoveNode i node_id) = payload_object
     [(''kind'', PStr ''REMOVE_NODE''), (''operation_id'', PStr i), (''node_id'', PStr node_id)]"

record StackPatch =
  sp_schema_version :: string
  sp_patch_id :: string
  sp_organization_id :: string
  sp_base_snapshot_version :: int
  sp_base_snapshot_hash :: string
  sp_operations :: "PatchOperation list"
  sp_status :: StackPatchStatus
  sp_patch_hash :: string

definition StackPatch_to_hash_payload :: "StackPatch \<Rightarrow> pyval" where
  "StackPatch_to_hash_payload p = PDict
     [(PStr ''schema_version'', PStr (sp_schema_version p)), (PStr ''patch_id'', PStr (sp_patch_id p)),
      (PStr ''organization_id'', PStr (sp_organization_id p)),
      (PStr ''base_snapshot_version'', PInt (sp_base_snapshot_version p)),
      (PStr ''base_snapshot_hash'', PStr (sp_base_snapshot_hash p)),
      (PStr ''operations'', PTuple (map PatchOperation_to_hash_payload (sp_operations p)))]"

definition seal_patch :: "StackPatch \<Rightarrow> string \<Rightarrow> StackPatch result" where
  "seal_patch p computed =
     (if sp_patch_hash p \<noteq> [] then
        bindR (require_hash (sp_patch_hash p) ''patch_hash'') (\<lambda>_.
        if sp_patch_hash p \<noteq> computed
        then Inl (DomainValidationError ''patch_hash does not match patch payload'')
        else Inr p)
      else Inr (p\<lparr>sp_patch_hash := computed\<rparr>))"

definition StackPatch_post_init :: "(pyval \<Rightarrow> string result) \<Rightarrow> StackPatch \<Rightarrow> StackPatch result" where
  "StackPatch_post_init H p =
     bindR (require_id (sp_patch_id p) ''patch_id'') (\<lambda>_.
     bindR (require_id (sp_organization_id p) ''organization_id'') (\<lambda>_.
     bindR (require_hash (sp_base_snapshot_hash p) ''base_snapshot_hash'') (\<lambda>_.
     bindR (ensure (1 \<le> sp_base_snapshot_version p \<and> sp_schema_version p \<noteq> [])
              (DomainValidationError ''patch schema and positive base version are required'')) (\<lambda>_.
     bindR (ensure (sp_operations p \<noteq> [])
              (DomainValidationError ''a Stackfile patch requires at least one operation'')) (\<lambda>_.
     bindR (ensure (length (remdups (map operation_id (sp_operations p))) = length (sp_operations p))
              (DomainValidationError ''patch operation IDs must be unique'')) (\<lambda>_.
     bindR (H (StackPatch_to_hash_payload p)) (seal_patch p)))))))"

section \<open>Simulation\<close>

record PatchIssue =
  is_code :: string
  is_message :: string
  is_operation_id :: "string option"

record PatchValidation =
  pv_valid :: bool
  pv_issues :: "PatchIssue list"
  pv_simulated :: "StackSnapshot option"

fun instance_transitions :: "ProductInstanceState \<Rightarrow> ProductInstanceState list" where
  "instance_transitions ProductInstanceState.PROPOSED = [ProductInstanceState.CONTRACTED]"
| "instance_transitions ProductInstanceState.CONTRACTED =
     [ProductInstanceState.PROVISIONED, ProductInstanceState.RETIRING]"
| "instance_transitions ProductInstanceState.PROVISIONED =
     [ProductInstanceState.DEPLOYING, ProductInstanceState.RETIRING]"
| "instance_transitions ProductInstanceState.DEPLOYING =
     [ProductInstanceState.ACTIVE, ProductInstanceState.DEGRADED, ProductInstanceState.RETIRING]"
| "instance_transitions ProductInstanceState.ACTIVE =
     [ProductInstanceState.DEGRADED, ProductInstanceState.RETIRING]"
| "instance_transitions ProductInstanceState.DEGRADED =
     [ProductInstanceState.ACTIVE, ProductInstanceState.RETIRING]"
| "instance_transitions ProductInstanceState.RETIRING = [ProductInstanceState.CANCELLED]"
| "instance_transitions ProductInstanceState.CANCELLED = []"

record patch_state =
  ps_nodes :: node_map
  ps_edges :: "(string \<times> StackEdge) list"
  ps_issues :: "PatchIssue list"

definition add_issue :: "string \<Rightarrow> string \<Rightarrow> string \<Rightarrow> patch_state \<Rightarrow> patch_state" where
  "add_issue code msg op_id st =
     st\<lparr>ps_issues := ps_issues st @
         [\<lparr>is_code = code, is_message = msg, is_operation_id = Some op_id\<rparr>]\<rparr>"

text \<open>
  One turn of the loop. \<^verbatim>\<open>replace(node, ...)\<close> runs the constructor of the node again; a
  \<^verbatim>\<open>continue\<close> is the end of the branch.
\<close>

fun apply_operation :: "(pyval \<Rightarrow> string) \<Rightarrow> PatchOperation \<Rightarrow> patch_state \<Rightarrow> patch_state result" where
  "apply_operation text_of (AddNode op node) st =
     Inr (if map_of (ps_nodes st) (sn_node_id node) \<noteq> None
            then add_issue ''DUPLICATE_NODE'' ''Node ID already exists'' op st
          else if list_ex (\<lambda>n. sn_alias n = sn_alias node) (dict_values (ps_nodes st))
            then add_issue ''DUPLICATE_ALIAS'' ''Node alias already exists'' op st
          else st\<lparr>ps_nodes := AList.update (sn_node_id node) node (ps_nodes st)\<rparr>)"
| "apply_operation text_of (AddEdge op edge) st =
     Inr (if map_of (ps_edges st) (se_edge_id edge) \<noteq> None
            then add_issue ''DUPLICATE_EDGE'' ''Edge ID already exists'' op st
          else if map_of (ps_nodes st) (se_from edge) = None \<or> map_of (ps_nodes st) (se_to edge) = None
            then add_issue ''MISSING_ENDPOINT'' ''Edge endpoint is absent'' op st
          else st\<lparr>ps_edges := AList.update (se_edge_id edge) edge (ps_edges st)\<rparr>)"
| "apply_operation text_of (TransitionProductInstance op node_id from_state to_state validated) st =
     (case map_of (ps_nodes st) node_id of
        None \<Rightarrow> Inr (add_issue ''NOT_PRODUCT_INSTANCE''
                       ''Lifecycle target is absent or not a product instance'' op st)
      | Some node \<Rightarrow>
          if sn_node_type node \<noteq> NodeType.PRODUCT_INSTANCE
            then Inr (add_issue ''NOT_PRODUCT_INSTANCE''
                        ''Lifecycle target is absent or not a product instance'' op st)
          else if sn_state node \<noteq> Some from_state
            then Inr (add_issue ''STALE_INSTANCE_STATE'' ''Lifecycle from_state does not match'' op st)
          else if to_state \<notin> set (instance_transitions from_state)
            then Inr (add_issue ''INVALID_INSTANCE_TRANSITION''
                        ''Product lifecycle transition is not allowed'' op st)
          else if to_state = ProductInstanceState.ACTIVE \<and> \<not> validated
            then Inr (add_issue ''DEPLOYMENT_NOT_VALIDATED''
                        ''Activation requires deployment validation'' op st)
          else mapR_res (\<lambda>node'. st\<lparr>ps_nodes := AList.update (sn_node_id node) node' (ps_nodes st)\<rparr>)
                 (StackNode_post_init text_of (node\<lparr>sn_state := Some to_state\<rparr>)))"
| "apply_operation text_of (RemoveEdge op edge_id) st =
     Inr (if map_of (ps_edges st) edge_id = None
            then add_issue ''MISSING_EDGE'' ''Cannot remove absent edge'' op st
          else st\<lparr>ps_edges := AList.delete edge_id (ps_edges st)\<rparr>)"
| "apply_operation text_of (RemoveNode op node_id) st =
     Inr (case map_of (ps_nodes st) node_id of
            None \<Rightarrow> add_issue ''MISSING_NODE'' ''Cannot remove absent node'' op st
          | Some node \<Rightarrow>
              if sn_node_type node = NodeType.PRODUCT_INSTANCE
                then add_issue ''INSTANCE_HISTORY_REQUIRED''
                       ''Product instances are retired/cancelled, not deleted'' op st
              else if list_ex (\<lambda>e. node_id = se_from e \<or> node_id = se_to e) (dict_values (ps_edges st))
                then add_issue ''DEPENDENCIES_REMAIN'' ''Remove related edges before removing a node'' op st
              else st\<lparr>ps_nodes := AList.delete node_id (ps_nodes st)\<rparr>)"

definition header_issues :: "StackSnapshot \<Rightarrow> StackPatch \<Rightarrow> PatchIssue list" where
  "header_issues base patch =
     (if sp_organization_id patch \<noteq> ss_organization_id base
      then [\<lparr>is_code = ''TENANT_MISMATCH'', is_message = ''Patch organization does not match snapshot'',
             is_operation_id = None\<rparr>] else [])
     @ (if sp_base_snapshot_version patch \<noteq> ss_version base
           \<or> sp_base_snapshot_hash patch \<noteq> ss_content_hash base
        then [\<lparr>is_code = ''STALE_BASE'', is_message = ''Patch base version or hash is stale'',
               is_operation_id = None\<rparr>] else [])"

definition invalid_patch :: "PatchIssue list \<Rightarrow> PatchValidation" where
  "invalid_patch issues = \<lparr>pv_valid = False, pv_issues = issues, pv_simulated = None\<rparr>"

definition initial_patch_state :: "StackSnapshot \<Rightarrow> patch_state" where
  "initial_patch_state base =
     \<lparr>ps_nodes = dict_of (map (\<lambda>n. (sn_node_id n, n)) (ss_nodes base)),
      ps_edges = dict_of (map (\<lambda>e. (se_edge_id e, e)) (ss_edges base)), ps_issues = []\<rparr>"

definition next_snapshot :: "StackSnapshot \<Rightarrow> patch_state \<Rightarrow> StackSnapshot" where
  "next_snapshot base st =
     \<lparr>ss_schema_version = ss_schema_version base, ss_organization_id = ss_organization_id base,
      ss_version = ss_version base + 1, ss_nodes = dict_values (ps_nodes st),
      ss_edges = dict_values (ps_edges st), ss_content_hash = []\<rparr>"

text \<open>The text of an exception the handler of the simulation catches.\<close>

fun domain_error_text :: "py_error \<Rightarrow> string option" where
  "domain_error_text (DomainValidationError m) = Some m"
| "domain_error_text (InvalidTransitionError m) = Some m"
| "domain_error_text _ = None"

definition build_simulated :: "(pyval \<Rightarrow> string result) \<Rightarrow> StackSnapshot \<Rightarrow> patch_state \<Rightarrow> PatchValidation result" where
  "build_simulated H base st =
     (case StackSnapshot_post_init H (next_snapshot base st) of
        Inr simulated \<Rightarrow> Inr \<lparr>pv_valid = True, pv_issues = [], pv_simulated = Some simulated\<rparr>
      | Inl e \<Rightarrow>
          (case domain_error_text e of
             Some m \<Rightarrow> Inr (invalid_patch [\<lparr>is_code = ''GRAPH_INVALID'', is_message = m, is_operation_id = None\<rparr>])
           | None \<Rightarrow> Inl e))"

definition validate_patch ::
    "(pyval \<Rightarrow> string result) \<Rightarrow> (pyval \<Rightarrow> string) \<Rightarrow> StackSnapshot \<Rightarrow> StackPatch \<Rightarrow> PatchValidation result" where
  "validate_patch H text_of base patch =
     (if header_issues base patch \<noteq> [] then Inr (invalid_patch (header_issues base patch))
      else bindR (foldR (apply_operation text_of) (sp_operations patch) (initial_patch_state base)) (\<lambda>st.
           if ps_issues st \<noteq> [] then Inr (invalid_patch (ps_issues st))
           else build_simulated H base st))"

definition simulate_patch ::
    "(pyval \<Rightarrow> string result) \<Rightarrow> (pyval \<Rightarrow> string) \<Rightarrow> StackSnapshot \<Rightarrow> StackPatch \<Rightarrow> StackSnapshot result" where
  "simulate_patch H text_of base patch =
     bindR (validate_patch H text_of base patch) (\<lambda>r.
       case (pv_valid r, pv_simulated r) of
         (True, Some snapshot) \<Rightarrow> Inr snapshot
       | _ \<Rightarrow> Inl (DomainValidationError (''invalid Stackfile patch: ''
                @ str_join ''; '' (map (\<lambda>i. is_code i @ '': '' @ is_message i) (pv_issues r)))))"

section \<open>The status of a patch\<close>

fun patch_transitions :: "StackPatchStatus \<Rightarrow> StackPatchStatus list option" where
  "patch_transitions StackPatchStatus.DRAFT =
     Some [StackPatchStatus.VALIDATED, StackPatchStatus.FAILED, StackPatchStatus.CONFLICT]"
| "patch_transitions StackPatchStatus.VALIDATED = Some [StackPatchStatus.AWAITING_APPROVAL]"
| "patch_transitions StackPatchStatus.AWAITING_APPROVAL =
     Some [StackPatchStatus.APPROVED, StackPatchStatus.CONFLICT]"
| "patch_transitions StackPatchStatus.APPROVED =
     Some [StackPatchStatus.APPLYING, StackPatchStatus.CONFLICT]"
| "patch_transitions StackPatchStatus.APPLYING =
     Some [StackPatchStatus.APPLIED, StackPatchStatus.FAILED]"
| "patch_transitions StackPatchStatus.APPLIED = Some [StackPatchStatus.COMPENSATING_PATCH]"
| "patch_transitions StackPatchStatus.CONFLICT = Some []"
| "patch_transitions StackPatchStatus.FAILED = Some [StackPatchStatus.COMPENSATING_PATCH]"
| "patch_transitions StackPatchStatus.COMPENSATING_PATCH = Some []"

definition transition_patch_status ::
    "(pyval \<Rightarrow> string result) \<Rightarrow> StackPatch \<Rightarrow> StackPatchStatus \<Rightarrow> StackPatch result" where
  "transition_patch_status H patch target =
     bindR (check_allowed patch_transitions ''Stack patch'' (sp_status patch) target) (\<lambda>_.
     StackPatch_post_init H (patch\<lparr>sp_status := target, sp_patch_hash := []\<rparr>))"

definition apply_approved_patch ::
    "(pyval \<Rightarrow> string result) \<Rightarrow> (pyval \<Rightarrow> string) \<Rightarrow> StackSnapshot \<Rightarrow> StackPatch \<Rightarrow> StackSnapshot result" where
  "apply_approved_patch H text_of base patch =
     bindR (ensure (sp_status patch = StackPatchStatus.APPROVED)
              (InvalidTransitionError ''only an approved Stackfile patch may be applied'')) (\<lambda>_.
     simulate_patch H text_of base patch)"

section \<open>What a simulation preserves\<close>

definition constructed_node :: "(pyval \<Rightarrow> string) \<Rightarrow> StackNode \<Rightarrow> bool" where
  "constructed_node t n = (StackNode_post_init t n = Inr n)"

definition constructed_operation :: "(pyval \<Rightarrow> string) \<Rightarrow> PatchOperation \<Rightarrow> bool" where
  "constructed_operation t op =
     (PatchOperation_post_init op = Inr ()
      \<and> (case op of AddNode _ n \<Rightarrow> constructed_node t n | _ \<Rightarrow> True))"

definition constructed_base :: "(pyval \<Rightarrow> string) \<Rightarrow> StackSnapshot \<Rightarrow> bool" where
  "constructed_base t base =
     (distinct (map sn_node_id (ss_nodes base)) \<and> list_all (constructed_node t) (ss_nodes base))"

definition lifecycle_reaches :: "ProductInstanceState \<Rightarrow> ProductInstanceState \<Rightarrow> bool" where
  "lifecycle_reaches = (\<lambda>a b. b \<in> set (instance_transitions a))\<^sup>*\<^sup>*"

definition activates :: "string \<Rightarrow> PatchOperation \<Rightarrow> bool" where
  "activates node_id op =
     (case op of
        TransitionProductInstance _ i _ to_state validated \<Rightarrow>
          i = node_id \<and> to_state = ProductInstanceState.ACTIVE \<and> validated
      | _ \<Rightarrow> False)"

text \<open>The invariant of the loop over the operations, relative to the nodes of the base.\<close>

definition patch_inv ::
    "(pyval \<Rightarrow> string) \<Rightarrow> (string \<rightharpoonup> StackNode) \<Rightarrow> PatchOperation list \<Rightarrow> patch_state \<Rightarrow> bool" where
  "patch_inv t base ops st =
     (distinct (map fst (ps_nodes st))
      \<and> (\<forall>k n. map_of (ps_nodes st) k = Some n \<longrightarrow> sn_node_id n = k \<and> constructed_node t n)
      \<and> (\<forall>k n s. base k = Some n \<longrightarrow> sn_node_type n = NodeType.PRODUCT_INSTANCE \<longrightarrow> sn_state n = Some s \<longrightarrow>
           (\<exists>s'. map_of (ps_nodes st) k = Some (n\<lparr>sn_state := Some s'\<rparr>) \<and> lifecycle_reaches s s'))
      \<and> (\<forall>k n. map_of (ps_nodes st) k = Some n \<longrightarrow> sn_state n = Some ProductInstanceState.ACTIVE \<longrightarrow>
           (\<exists>m. base k = Some m \<and> sn_state m = Some ProductInstanceState.ACTIVE)
           \<or> (\<exists>op\<in>set ops. activates k op)))"

lemma constructed_state:
  "constructed_node t n \<Longrightarrow> sn_state n \<noteq> None \<Longrightarrow> StackNode_post_init t (n\<lparr>sn_state := Some s\<rparr>) = Inr (n\<lparr>sn_state := Some s\<rparr>)"
  by (cases n) (auto simp: constructed_node_def StackNode_post_init_def result_simps split: if_splits)

lemma constructed_instance_state:
  "constructed_node t n \<Longrightarrow> sn_state n \<noteq> None \<longleftrightarrow> sn_node_type n = NodeType.PRODUCT_INSTANCE"
  by (auto simp: constructed_node_def StackNode_post_init_def result_simps split: if_splits)

lemma patch_inv_history:
  "patch_inv t base ops st \<Longrightarrow> base k = Some m \<Longrightarrow> sn_node_type m = NodeType.PRODUCT_INSTANCE \<Longrightarrow> sn_state m = Some s \<Longrightarrow>
     \<exists>s'. map_of (ps_nodes st) k = Some (m\<lparr>sn_state := Some s'\<rparr>) \<and> lifecycle_reaches s s'"
  unfolding patch_inv_def by blast

lemma patch_inv_node:
  "patch_inv t base ops st \<Longrightarrow> map_of (ps_nodes st) k = Some n \<Longrightarrow> sn_node_id n = k \<and> constructed_node t n"
  unfolding patch_inv_def by blast

lemma patch_inv_active:
  "patch_inv t base ops st \<Longrightarrow> map_of (ps_nodes st) k = Some n \<Longrightarrow> sn_state n = Some ProductInstanceState.ACTIVE \<Longrightarrow>
     (\<exists>m. base k = Some m \<and> sn_state m = Some ProductInstanceState.ACTIVE) \<or> (\<exists>op\<in>set ops. activates k op)"
  unfolding patch_inv_def by blast

lemma patch_inv_issue [simp]: "patch_inv t base ops (add_issue c m i st) = patch_inv t base ops st"
  by (simp add: patch_inv_def add_issue_def)

lemma patch_inv_edges [simp]: "patch_inv t base ops (st\<lparr>ps_edges := es\<rparr>) = patch_inv t base ops st"
  by (simp add: patch_inv_def)

lemma patch_inv_nodes:
  assumes inv: "patch_inv t base ops st" and k: "map_of (ps_nodes st) k = old"
    and new: "sn_node_id n = k" "constructed_node t n"
    and hist: "\<And>m s. base k = Some m \<Longrightarrow> sn_node_type m = NodeType.PRODUCT_INSTANCE \<Longrightarrow> sn_state m = Some s \<Longrightarrow>
        \<exists>s'. n = m\<lparr>sn_state := Some s'\<rparr> \<and> lifecycle_reaches s s'"
    and act: "sn_state n = Some ProductInstanceState.ACTIVE \<Longrightarrow>
        (\<exists>m. base k = Some m \<and> sn_state m = Some ProductInstanceState.ACTIVE) \<or> (\<exists>op\<in>set ops. activates k op)"
  shows "patch_inv t base ops (st\<lparr>ps_nodes := AList.update k n (ps_nodes st)\<rparr>)"
  unfolding patch_inv_def
proof (intro conjI allI impI)
  show "distinct (map fst (ps_nodes (st\<lparr>ps_nodes := AList.update k n (ps_nodes st)\<rparr>)))"
    using inv by (simp add: patch_inv_def distinct_update)
next
  fix j m
  assume "map_of (ps_nodes (st\<lparr>ps_nodes := AList.update k n (ps_nodes st)\<rparr>)) j = Some m"
  with new patch_inv_node [OF inv] show "sn_node_id m = j" "constructed_node t m"
    by (auto simp: dict_simps split: if_splits)
next
  fix j m s
  assume m: "base j = Some m" "sn_node_type m = NodeType.PRODUCT_INSTANCE" "sn_state m = Some s"
  show "\<exists>s'. map_of (ps_nodes (st\<lparr>ps_nodes := AList.update k n (ps_nodes st)\<rparr>)) j = Some (m\<lparr>sn_state := Some s'\<rparr>)
      \<and> lifecycle_reaches s s'"
  proof (cases "j = k")
    case True
    with hist m show ?thesis by (simp add: dict_simps)
  next
    case False
    with patch_inv_history [OF inv m] show ?thesis by (simp add: dict_simps)
  qed
next
  fix j m
  assume m: "map_of (ps_nodes (st\<lparr>ps_nodes := AList.update k n (ps_nodes st)\<rparr>)) j = Some m"
    "sn_state m = Some ProductInstanceState.ACTIVE"
  show "(\<exists>m. base j = Some m \<and> sn_state m = Some ProductInstanceState.ACTIVE) \<or> (\<exists>op\<in>set ops. activates j op)"
  proof (cases "j = k")
    case True
    with act m show ?thesis by (simp add: dict_simps)
  next
    case False
    with m(1) have "map_of (ps_nodes st) j = Some m" by (simp add: dict_simps)
    from patch_inv_active [OF inv this m(2)] show ?thesis .
  qed
qed

lemma patch_inv_step:
  assumes inv: "patch_inv t base ops st" and op: "op \<in> set ops" "constructed_operation t op"
  shows "\<exists>st'. apply_operation t op st = Inr st' \<and> patch_inv t base ops st'"
proof (cases op)
  case (AddNode i n)
  show ?thesis
  proof (cases "map_of (ps_nodes st) (sn_node_id n) \<noteq> None \<or> list_ex (\<lambda>m. sn_alias m = sn_alias n) (dict_values (ps_nodes st))")
    case True
    with AddNode inv show ?thesis by auto
  next
    case False
    have "patch_inv t base ops (st\<lparr>ps_nodes := AList.update (sn_node_id n) n (ps_nodes st)\<rparr>)"
    proof (rule patch_inv_nodes [OF inv refl refl])
      show "constructed_node t n" using op AddNode by (simp add: constructed_operation_def)
      show "\<exists>s'. n = m\<lparr>sn_state := Some s'\<rparr> \<and> lifecycle_reaches s s'"
        if "base (sn_node_id n) = Some m" "sn_node_type m = NodeType.PRODUCT_INSTANCE" "sn_state m = Some s" for m s
        using patch_inv_history [OF inv that] False by auto
      show "(\<exists>m. base (sn_node_id n) = Some m \<and> sn_state m = Some ProductInstanceState.ACTIVE)
          \<or> (\<exists>op\<in>set ops. activates (sn_node_id n) op)"
        if "sn_state n = Some ProductInstanceState.ACTIVE"
        using that op AddNode constructed_instance_state [of t n]
        by (auto simp: constructed_operation_def result_simps)
    qed
    with AddNode False show ?thesis by simp
  qed
next
  case (AddEdge i e)
  with inv show ?thesis by simp
next
  case (TransitionProductInstance i node_id from_state to_state validated)
  show ?thesis
  proof (cases "\<exists>n. map_of (ps_nodes st) node_id = Some n \<and> sn_node_type n = NodeType.PRODUCT_INSTANCE
      \<and> sn_state n = Some from_state \<and> to_state \<in> set (instance_transitions from_state)
      \<and> \<not> (to_state = ProductInstanceState.ACTIVE \<and> \<not> validated)")
    case False
    with TransitionProductInstance inv show ?thesis by (cases "map_of (ps_nodes st) node_id") auto
  next
    case True
    then obtain n where n: "map_of (ps_nodes st) node_id = Some n" "sn_node_type n = NodeType.PRODUCT_INSTANCE"
      "sn_state n = Some from_state" "to_state \<in> set (instance_transitions from_state)"
      "\<not> (to_state = ProductInstanceState.ACTIVE \<and> \<not> validated)" by blast
    let ?n = "n\<lparr>sn_state := Some to_state\<rparr>"
    from patch_inv_node [OF inv n(1)] have id: "sn_node_id n = node_id" "constructed_node t n" by auto
    have post: "StackNode_post_init t ?n = Inr ?n" using constructed_state [OF id(2)] n(3) by simp
    have "patch_inv t base ops (st\<lparr>ps_nodes := AList.update node_id ?n (ps_nodes st)\<rparr>)"
    proof (rule patch_inv_nodes [OF inv refl])
      show "sn_node_id ?n = node_id" "constructed_node t ?n"
        using id post by (simp_all add: constructed_node_def)
      show "\<exists>s'. ?n = m\<lparr>sn_state := Some s'\<rparr> \<and> lifecycle_reaches s s'"
        if m: "base node_id = Some m" "sn_node_type m = NodeType.PRODUCT_INSTANCE" "sn_state m = Some s" for m s
      proof -
        from patch_inv_history [OF inv m] n(1)
        obtain s1 where "n = m\<lparr>sn_state := Some s1\<rparr>" "lifecycle_reaches s s1" by auto
        moreover from this n(3,4) have "lifecycle_reaches s to_state"
          unfolding lifecycle_reaches_def by (auto intro: rtranclp.rtrancl_into_rtrancl)
        ultimately show ?thesis by auto
      qed
      show "(\<exists>m. base node_id = Some m \<and> sn_state m = Some ProductInstanceState.ACTIVE) \<or> (\<exists>op\<in>set ops. activates node_id op)"
        if "sn_state ?n = Some ProductInstanceState.ACTIVE"
        using that n(5) op(1) TransitionProductInstance by (auto simp: activates_def intro!: bexI [of _ op])
    qed
    with TransitionProductInstance n id post show ?thesis by auto
  qed
next
  case (RemoveEdge i e)
  with inv show ?thesis by simp
next
  case (RemoveNode i k)
  show ?thesis
  proof (cases "\<exists>n. map_of (ps_nodes st) k = Some n \<and> sn_node_type n \<noteq> NodeType.PRODUCT_INSTANCE")
    case False
    with RemoveNode inv show ?thesis by (cases "map_of (ps_nodes st) k") auto
  next
    case True
    then obtain n where n: "map_of (ps_nodes st) k = Some n" "sn_node_type n \<noteq> NodeType.PRODUCT_INSTANCE" by blast
    have "patch_inv t base ops (st\<lparr>ps_nodes := AList.delete k (ps_nodes st)\<rparr>)"
      unfolding patch_inv_def
    proof (intro conjI allI impI)
      show "distinct (map fst (ps_nodes (st\<lparr>ps_nodes := AList.delete k (ps_nodes st)\<rparr>)))"
        using inv by (simp add: patch_inv_def distinct_delete)
    next
      fix j m
      assume m: "map_of (ps_nodes (st\<lparr>ps_nodes := AList.delete k (ps_nodes st)\<rparr>)) j = Some m"
      then have old: "map_of (ps_nodes st) j = Some m" by (simp add: dict_simps split: if_splits)
      from patch_inv_node [OF inv old] show "sn_node_id m = j" "constructed_node t m" by auto
      show "(\<exists>m. base j = Some m \<and> sn_state m = Some ProductInstanceState.ACTIVE) \<or> (\<exists>op\<in>set ops. activates j op)"
        if "sn_state m = Some ProductInstanceState.ACTIVE"
        by (rule patch_inv_active [OF inv old that])
    next
      fix j m s
      assume m: "base j = Some m" "sn_node_type m = NodeType.PRODUCT_INSTANCE" "sn_state m = Some s"
      from patch_inv_history [OF inv m] obtain s'
        where s': "map_of (ps_nodes st) j = Some (m\<lparr>sn_state := Some s'\<rparr>)" "lifecycle_reaches s s'" by blast
      with n m have "j \<noteq> k" by auto
      with s'(1) have "map_of (ps_nodes (st\<lparr>ps_nodes := AList.delete k (ps_nodes st)\<rparr>)) j
          = Some (m\<lparr>sn_state := Some s'\<rparr>)" by (simp add: dict_simps)
      with s'(2) show "\<exists>s'. map_of (ps_nodes (st\<lparr>ps_nodes := AList.delete k (ps_nodes st)\<rparr>)) j
          = Some (m\<lparr>sn_state := Some s'\<rparr>) \<and> lifecycle_reaches s s'" by blast
    qed
    with RemoveNode inv n show ?thesis by simp
  qed
qed

lemma patch_inv_initial:
  assumes "constructed_base t base"
  shows "patch_inv t (map_of (ps_nodes (initial_patch_state base))) ops (initial_patch_state base)"
proof -
  let ?m = "map (\<lambda>n. (sn_node_id n, n)) (ss_nodes base)"
  have d: "distinct (map fst ?m)" using assms by (simp add: constructed_base_def comp_def)
  have nodes: "ps_nodes (initial_patch_state base) = ?m"
    by (simp only: initial_patch_state_def patch_state.select_convs dict_of_distinct [OF d])
  have mem: "map_of ?m k = Some n \<longleftrightarrow> n \<in> set (ss_nodes base) \<and> sn_node_id n = k" for k n
    unfolding map_of_eq_Some_iff [OF d] by auto
  have con: "constructed_node t n" if "n \<in> set (ss_nodes base)" for n
    using assms that by (simp add: constructed_base_def list_all_iff)
  have hist: "\<exists>s'. Some n = Some (n\<lparr>sn_state := Some s'\<rparr>) \<and> lifecycle_reaches s s'" if "sn_state n = Some s" for n s
  proof -
    have "n = n\<lparr>sn_state := Some s\<rparr>" using that by (cases n) simp
    moreover have "lifecycle_reaches s s" by (simp add: lifecycle_reaches_def)
    ultimately show ?thesis by metis
  qed
  show ?thesis unfolding patch_inv_def nodes
  proof (intro conjI allI impI)
    show "distinct (map fst ?m)" by (rule d)
  next
    fix k n
    assume n: "map_of ?m k = Some n"
    with mem show "sn_node_id n = k" by blast
    from n mem con show "constructed_node t n" by blast
    show "(\<exists>m. map_of ?m k = Some m \<and> sn_state m = Some ProductInstanceState.ACTIVE) \<or> (\<exists>op\<in>set ops. activates k op)"
      if "sn_state n = Some ProductInstanceState.ACTIVE" using n that by blast
  next
    fix k n s
    assume "map_of ?m k = Some n" "sn_state n = Some s"
    with hist [of n s] show "\<exists>s'. map_of ?m k = Some (n\<lparr>sn_state := Some s'\<rparr>) \<and> lifecycle_reaches s s'" by metis
  qed
qed

lemma patch_fold:
  assumes "constructed_base t base" "list_all (constructed_operation t) ops"
  shows "\<exists>st. foldR (apply_operation t) ops (initial_patch_state base) = Inr st
    \<and> patch_inv t (map_of (ps_nodes (initial_patch_state base))) ops st"
proof (rule foldR_ok [where P = "patch_inv t (map_of (ps_nodes (initial_patch_state base))) ops"])
  show "patch_inv t (map_of (ps_nodes (initial_patch_state base))) ops (initial_patch_state base)"
    by (rule patch_inv_initial [OF assms(1)])
  show "\<exists>st'. apply_operation t op st = Inr st' \<and> patch_inv t (map_of (ps_nodes (initial_patch_state base))) ops st'"
    if "op \<in> set ops" "patch_inv t (map_of (ps_nodes (initial_patch_state base))) ops st" for op st
    using patch_inv_step [OF that(2,1)] assms(2) that(1) by (simp add: list_all_iff)
qed

lemma validate_patch_cases:
  assumes "validate_patch H t base patch = Inr r"
  shows "pv_valid r = (pv_issues r = []) \<and> pv_valid r = (pv_simulated r \<noteq> None)
    \<and> (\<forall>s. pv_simulated r = Some s \<longrightarrow> header_issues base patch = []
         \<and> (\<exists>st. foldR (apply_operation t) (sp_operations patch) (initial_patch_state base) = Inr st
              \<and> ps_issues st = [] \<and> StackSnapshot_post_init H (next_snapshot base st) = Inr s))"
proof (cases "header_issues base patch = []")
  case False
  with assms show ?thesis by (auto simp: validate_patch_def invalid_patch_def)
next
  case True
  with assms obtain st where st: "foldR (apply_operation t) (sp_operations patch) (initial_patch_state base) = Inr st"
    and r: "(if ps_issues st \<noteq> [] then Inr (invalid_patch (ps_issues st)) else build_simulated H base st) = Inr r"
    by (auto simp: validate_patch_def bindR_Inr_iff)
  show ?thesis
  proof (cases "ps_issues st = []")
    case False
    with r show ?thesis by (auto simp: invalid_patch_def)
  next
    case none: True
    with r True st show ?thesis
      by (cases "StackSnapshot_post_init H (next_snapshot base st)")
         (auto simp: build_simulated_def invalid_patch_def split: option.splits)
  qed
qed


definition sample_instance :: "ProductInstanceState \<Rightarrow> StackNode" where
  "sample_instance st = \<lparr>sn_node_id = ''crm'', sn_alias = ''crm'', sn_node_type = NodeType.PRODUCT_INSTANCE,
     sn_attributes = PDict [], sn_state = Some st\<rparr>"

definition sample_base :: StackSnapshot where
  "sample_base = \<lparr>ss_schema_version = ''1'', ss_organization_id = ''org'', ss_version = 3,
     ss_nodes = [sample_instance ProductInstanceState.DEPLOYING], ss_edges = [],
     ss_content_hash = ''sha256:'' @ replicate 64 CHR ''0''\<rparr>"

definition sample_patch :: "bool \<Rightarrow> StackPatch" where
  "sample_patch validated = \<lparr>sp_schema_version = ''1'', sp_patch_id = ''p-1'', sp_organization_id = ''org'',
     sp_base_snapshot_version = 3, sp_base_snapshot_hash = ''sha256:'' @ replicate 64 CHR ''0'',
     sp_operations = [TransitionProductInstance ''op-1'' ''crm'' ProductInstanceState.DEPLOYING
       ProductInstanceState.ACTIVE validated],
     sp_status = StackPatchStatus.DRAFT, sp_patch_hash = []\<rparr>"


section \<open>Patch status\<close>

lemma StackPatch_payload_status [simp]:
  "StackPatch_to_hash_payload (p\<lparr>sp_status := s\<rparr>) = StackPatch_to_hash_payload p"
  "StackPatch_to_hash_payload (p\<lparr>sp_patch_hash := h\<rparr>) = StackPatch_to_hash_payload p"
  by (simp_all add: StackPatch_to_hash_payload_def)

context content_hasher
begin

lemma patch_hash_of:
  assumes "StackPatch_post_init H p = Inr q"
  shows "H (StackPatch_to_hash_payload q) = Inr (sp_patch_hash q) \<and> q = p\<lparr>sp_patch_hash := sp_patch_hash q\<rparr>"
proof -
  from assms obtain h where h: "H (StackPatch_to_hash_payload p) = Inr h" "seal_patch p h = Inr q"
    by (auto simp: StackPatch_post_init_def bindR_Inr_iff)
  show ?thesis
  proof (cases "sp_patch_hash p = []")
    case True
    with h show ?thesis by (auto simp: seal_patch_def)
  next
    case False
    with h(2) have "q = p" "sp_patch_hash p = h" by (auto simp: seal_patch_def bindR_Inr_iff split: if_splits)
    with h(1) show ?thesis by simp
  qed
qed

lemma patch_restatus:
  assumes "StackPatch_post_init H p = Inr q"
  shows "StackPatch_post_init H (q\<lparr>sp_status := s, sp_patch_hash := []\<rparr>) = Inr (q\<lparr>sp_status := s\<rparr>)"
proof -
  from patch_hash_of [OF assms] have h: "H (StackPatch_to_hash_payload q) = Inr (sp_patch_hash q)"
    and q: "q = p\<lparr>sp_patch_hash := sp_patch_hash q\<rparr>" by auto
  have same: "sp_patch_id q = sp_patch_id p" "sp_organization_id q = sp_organization_id p"
    "sp_base_snapshot_hash q = sp_base_snapshot_hash p" "sp_base_snapshot_version q = sp_base_snapshot_version p"
    "sp_schema_version q = sp_schema_version p" "sp_operations q = sp_operations p"
    by (subst q; simp)+
  have "seal_patch (q\<lparr>sp_status := s, sp_patch_hash := []\<rparr>) (sp_patch_hash q) = Inr (q\<lparr>sp_status := s\<rparr>)"
    by (cases q) (simp add: seal_patch_def)
  moreover from assms have "is_id (sp_patch_id p)" "is_id (sp_organization_id p)" "is_content_hash (sp_base_snapshot_hash p)"
    "1 \<le> sp_base_snapshot_version p \<and> sp_schema_version p \<noteq> []" "sp_operations p \<noteq> []"
    "length (remdups (map operation_id (sp_operations p))) = length (sp_operations p)"
    by (auto simp: StackPatch_post_init_def bindR_Inr_iff ensure_Inr_iff require_Inr)
  ultimately show ?thesis using h
    by (simp add: StackPatch_post_init_def require_id_def require_hash_def same)
qed

end

text \<open>The status machine alone, as a transition service.\<close>

definition patch_status_step :: "StackPatchStatus \<Rightarrow> StackPatchStatus \<Rightarrow> StackPatchStatus result" where
  "patch_status_step s t = bindR (check_allowed patch_transitions ''Stack patch'' s t) (\<lambda>_. Inr t)"

interpretation patch_status: transition_service patch_transitions patch_status_step
  by unfold_locales (auto simp: patch_status_step_def result_simps)

text \<open>
  Moving a patch through its statuses changes nothing else: a successful transition of a
  constructed patch returns the same patch, with the same operations, base and patch hash, under the
  new status; it fails exactly when the table does not allow the move; and once a patch was applied,
  failed, in conflict or compensated it is never a draft, validated, awaiting approval or approved
  again.
\<close>

theorem patch_status_transition:
  assumes "StackPatch_post_init (\<lambda>v. content_hash dumps v []) p = Inr q"
  shows "(transition_patch_status (\<lambda>v. content_hash dumps v []) q target =
      (case patch_transitions (sp_status q) of
         None \<Rightarrow> Inl KeyError
       | Some ts \<Rightarrow> if target \<in> set ts then Inr (q\<lparr>sp_status := target\<rparr>)
                    else Inl (InvalidTransitionError ''Stack patch cannot transition'')))
    \<and> (sp_status q \<in> {StackPatchStatus.APPLIED, StackPatchStatus.FAILED, StackPatchStatus.CONFLICT,
                       StackPatchStatus.COMPENSATING_PATCH} \<longrightarrow>
       run_transitions patch_status_step ts (sp_status q) = Inr u \<longrightarrow>
       u \<in> {StackPatchStatus.APPLIED, StackPatchStatus.FAILED, StackPatchStatus.CONFLICT,
            StackPatchStatus.COMPENSATING_PATCH})"
proof -
  have "u \<in> {StackPatchStatus.APPLIED, StackPatchStatus.FAILED, StackPatchStatus.CONFLICT, StackPatchStatus.COMPENSATING_PATCH}"
    if "sp_status q \<in> {StackPatchStatus.APPLIED, StackPatchStatus.FAILED, StackPatchStatus.CONFLICT, StackPatchStatus.COMPENSATING_PATCH}"
      "run_transitions patch_status_step ts (sp_status q) = Inr u"
    by (rule patch_status.run_closed [OF that(2,1)]) auto
  moreover have "transition_patch_status (\<lambda>v. content_hash dumps v []) q target =
      (case patch_transitions (sp_status q) of
         None \<Rightarrow> Inl KeyError
       | Some ts \<Rightarrow> if target \<in> set ts then Inr (q\<lparr>sp_status := target\<rparr>)
                    else Inl (InvalidTransitionError ''Stack patch cannot transition''))"
    using domain_hash.patch_restatus [OF assms, of target]
    by (simp add: transition_patch_status_def check_allowed_def split: option.split)
  ultimately show ?thesis by blast
qed

lemma patch_status_transition_witness:
  "\<exists>q. StackPatch_post_init (\<lambda>v. content_hash (\<lambda>_. Some ''{}'') v []) (sample_patch True) = Inr q
     \<and> transition_patch_status (\<lambda>v. content_hash (\<lambda>_. Some ''{}'') v []) q StackPatchStatus.VALIDATED
         = Inr (q\<lparr>sp_status := StackPatchStatus.VALIDATED\<rparr>)"
proof -
  let ?H = "\<lambda>v. content_hash (\<lambda>_. Some ''{}'') v []" and ?p = "sample_patch True"
  have "is_ok (normalize_value [] (StackPatch_to_hash_payload ?p))" by code_simp
  then obtain w where "normalize_value [] (StackPatch_to_hash_payload ?p) = Inr w" by (auto simp: is_ok_iff)
  then have "?H (StackPatch_to_hash_payload ?p) = Inr (''sha256:'' @ sha256_hexdigest ''{}'')"
    by (simp add: content_hash_def canonical_json_def)
  moreover have "is_id (sp_patch_id ?p) \<and> is_id (sp_organization_id ?p) \<and> is_content_hash (sp_base_snapshot_hash ?p)
      \<and> 1 \<le> sp_base_snapshot_version ?p \<and> sp_schema_version ?p \<noteq> [] \<and> sp_operations ?p \<noteq> []
      \<and> length (remdups (map operation_id (sp_operations ?p))) = length (sp_operations ?p) \<and> sp_patch_hash ?p = []"
    by code_simp
  ultimately have q: "StackPatch_post_init ?H ?p = Inr (?p\<lparr>sp_patch_hash := ''sha256:'' @ sha256_hexdigest ''{}''\<rparr>)"
    by (simp add: StackPatch_post_init_def require_id_def require_hash_def seal_patch_def)
  have "sp_status ?p = StackPatchStatus.DRAFT" by code_simp
  with q patch_status_transition [OF q, of StackPatchStatus.VALIDATED] show ?thesis by auto
qed

end
