(* ===== verification/Candidates.thy ===== *)
theory Candidates
  imports Rules Money DomainModels
begin

text \<open>
  \<^verbatim>\<open>decision_engine/models.py\<close>, \<^verbatim>\<open>evaluation.py\<close>, \<^verbatim>\<open>ranking.py\<close> and
  \<^verbatim>\<open>counterfactual.py\<close>: candidates, their gates, the ranking of solution plans and the comparison
  of the generic with the company-aware winner. A \<^verbatim>\<open>Fraction\<close> is a \<open>rat\<close>.
\<close>

section \<open>Value objects\<close>

definition satisfaction_values :: "decimal list" where
  "satisfaction_values = [Dec 0 0, Dec 25 (- 2), Dec 5 (- 1), Dec 75 (- 2), Dec 1 0]"

definition exact_decimal :: "pyval \<Rightarrow> string \<Rightarrow> decimal result" where
  "exact_decimal v name =
     (case v of
        PBool _ \<Rightarrow> Inl (DomainValidationError (name @ '' must use exact decimal input''))
      | PFloat _ \<Rightarrow> Inl (DomainValidationError (name @ '' must use exact decimal input''))
      | _ \<Rightarrow>
          bindR (decimal_from (DomainValidationError (''invalid '' @ name)) v) (\<lambda>result.
          bindR (ensure (dec_finite result) (DomainValidationError (name @ '' must be finite''))) (\<lambda>_.
          Inr result)))"

record BuyerConstraint =
  bc_rule_id :: string
  bc_expression :: RuleExpression
  bc_reason_code :: string
  bc_display_reason :: string
  bc_exception_allowed :: bool

definition mk_BuyerConstraint :: "BuyerConstraint \<Rightarrow> BuyerConstraint result" where
  "mk_BuyerConstraint c =
     bindR (require_id (bc_rule_id c) ''rule_id'') (\<lambda>_.
     bindR (ensure (bc_reason_code c \<noteq> [] \<and> bc_display_reason c \<noteq> [])
              (DomainValidationError ''buyer constraint reason is required'')) (\<lambda>_. Inr c))"

record SellerAntiFitRule =
  sa_rule_id :: string
  sa_expression :: RuleExpression
  sa_reason_code :: string
  sa_display_reason :: string
  sa_evidence_claim_ids :: "string list"

definition mk_SellerAntiFitRule :: "SellerAntiFitRule \<Rightarrow> SellerAntiFitRule result" where
  "mk_SellerAntiFitRule r =
     bindR (require_id (sa_rule_id r) ''rule_id'') (\<lambda>_.
     bindR (ensure (sa_reason_code r \<noteq> [] \<and> sa_display_reason r \<noteq> [])
              (DomainValidationError ''seller anti-fit reason is required'')) (\<lambda>_.
     bindR (ensure (sa_evidence_claim_ids r \<noteq> [])
              (DomainValidationError ''published hard anti-fit needs evidence claims'')) (\<lambda>_.
     bindR (foldR (\<lambda>i _. require_id i ''evidence_claim_id'') (sa_evidence_claim_ids r) ()) (\<lambda>_. Inr r))))"

record PreferenceResult =
  pr_criterion_id :: string
  pr_weight :: int
  pr_satisfaction :: decimal
  pr_evidence_ids :: "string list"
  pr_unknown :: bool

definition mk_PreferenceResult ::
    "string \<Rightarrow> pyval \<Rightarrow> pyval \<Rightarrow> string list \<Rightarrow> bool \<Rightarrow> PreferenceResult result" where
  "mk_PreferenceResult criterion_id weight satisfaction evidence_ids unknown =
     (let bad_weight = DomainValidationError ''preference weight must be an integer from 1 to 5''
      in bindR (require_id criterion_id ''criterion_id'') (\<lambda>_.
         bindR (case weight of PInt w \<Rightarrow> if 1 \<le> w \<and> w \<le> 5 then Inr w else Inl bad_weight
                | _ \<Rightarrow> Inl bad_weight) (\<lambda>w.
         bindR (exact_decimal satisfaction ''satisfaction'') (\<lambda>exact.
         bindR (ensure (list_ex (dec_eq exact) satisfaction_values)
                  (DomainValidationError ''satisfaction must be one of 0, .25, .5, .75, 1'')) (\<lambda>_.
         bindR (ensure (unknown \<longrightarrow> dec_eq exact (Dec 0 0))
                  (DomainValidationError ''unknown evidence must contribute zero'')) (\<lambda>_.
         Inr \<lparr>pr_criterion_id = criterion_id, pr_weight = w, pr_satisfaction = exact,
              pr_evidence_ids = evidence_ids, pr_unknown = unknown\<rparr>))))))"

definition PreferenceResult_contribution :: "PreferenceResult \<Rightarrow> decimal" where
  "PreferenceResult_contribution r =
     (case pr_satisfaction r of Dec c e \<Rightarrow> dec_round (pr_weight r * c) e | d \<Rightarrow> d)"

definition exact_preference_score :: "PreferenceResult list \<Rightarrow> rat result" where
  "exact_preference_score results =
     (if results = []
      then Inl (DomainValidationError ''an eligible plan needs at least one preference criterion'')
      else let numerator = (\<Sum>r \<leftarrow> results. of_int (pr_weight r) * decimal_value (pr_satisfaction r));
               denominator = (\<Sum>r \<leftarrow> results. pr_weight r)
           in if denominator = 0 then Inl ZeroDivisionError
              else Inr (100 * numerator / of_int denominator))"

record CandidateDefinition =
  cd_candidate_id :: string
  cd_name :: string
  cd_pack_id :: string
  cd_pack_version :: int
  cd_available :: bool
  cd_evidence_block :: "CandidateStatus option"
  cd_buyer_constraints :: "BuyerConstraint list"
  cd_seller_anti_fit_rules :: "SellerAntiFitRule list"
  cd_approved_exceptions :: "string list"
  cd_dependency_state :: TruthValue
  cd_preference_results :: "PreferenceResult list"
  cd_seller_positioning :: "string option"

definition mk_CandidateDefinition :: "CandidateDefinition \<Rightarrow> CandidateDefinition result" where
  "mk_CandidateDefinition c =
     bindR (require_id (cd_candidate_id c) ''candidate_id'') (\<lambda>_.
     bindR (require_id (cd_pack_id c) ''pack_id'') (\<lambda>_.
     bindR (ensure (cd_name c \<noteq> [] \<and> 1 \<le> cd_pack_version c)
              (DomainValidationError ''candidate name and positive Pack version are required'')) (\<lambda>_.
     bindR (ensure (cd_evidence_block c \<in> {None, Some CandidateStatus.STALE_EVIDENCE,
                       Some CandidateStatus.INSUFFICIENT_EVIDENCE, Some CandidateStatus.CONFLICTING_EVIDENCE})
              (DomainValidationError ''evidence_block must be an evidence blocking status'')) (\<lambda>_.
     bindR (ensure (set (cd_approved_exceptions c) \<subseteq> set (map bc_rule_id (cd_buyer_constraints c)))
              (DomainValidationError ''an exception references an unknown buyer constraint'')) (\<lambda>_.
     Inr c)))))"

record CandidateResult =
  cr_candidate_id :: string
  cr_name :: string
  cr_pack_id :: string
  cr_pack_version :: int
  cr_status :: CandidateStatus
  cr_reason_code :: "string option"
  cr_reason :: string
  cr_preference_results :: "PreferenceResult list"
  cr_buyer_rule_id :: "string option"
  cr_seller_rule_id :: "string option"
  cr_evidence_claim_ids :: "string list"
  cr_unresolved_fields :: "string list"
  cr_seller_positioning :: "string option"

text \<open>Truth of an optional string: present and not empty.\<close>

definition given :: "string option \<Rightarrow> bool" where
  "given s = (case s of None \<Rightarrow> False | Some t \<Rightarrow> t \<noteq> [])"

definition mk_CandidateResult :: "CandidateResult \<Rightarrow> CandidateResult result" where
  "mk_CandidateResult r =
     bindR (ensure (cr_status r = CandidateStatus.SIRA_INELIGIBLE \<longrightarrow> given (cr_buyer_rule_id r))
              (DomainValidationError ''SIRA_INELIGIBLE must identify the buyer rule'')) (\<lambda>_.
     bindR (ensure (cr_status r = CandidateStatus.SEIL_PASS \<longrightarrow> given (cr_seller_rule_id r))
              (DomainValidationError ''SEIL_PASS must identify the published seller rule'')) (\<lambda>_.
     bindR (ensure (\<not> (given (cr_buyer_rule_id r) \<and> given (cr_seller_rule_id r)))
              (DomainValidationError ''buyer and seller rejection provenance cannot be conflated'')) (\<lambda>_.
     Inr (r\<lparr>cr_unresolved_fields := sorted_set (cr_unresolved_fields r)\<rparr>))))"

record SolutionPlan =
  pl_plan_id :: string
  pl_action :: SolutionAction
  pl_component_ids :: "string list"
  pl_status :: CandidateStatus
  pl_preference_results :: "PreferenceResult list"
  pl_stack_risk :: StackRisk
  pl_total_cost :: Money
  pl_horizon_days :: int
  pl_coverage :: decimal
  pl_age_ratio :: decimal
  pl_seller_positioning :: "string option"
  pl_stable_action_ids :: "string list"

text \<open>\<open>p\<close> carries the arguments; the two ratios come as given and are stored exactly.\<close>

definition mk_SolutionPlan :: "SolutionPlan \<Rightarrow> pyval \<Rightarrow> pyval \<Rightarrow> SolutionPlan result" where
  "mk_SolutionPlan p required_evidence_coverage maximum_evidence_age_ratio =
     bindR (require_id (pl_plan_id p) ''plan_id'') (\<lambda>_.
     bindR (ensure (1 \<le> pl_horizon_days p) (DomainValidationError ''comparison horizon must be positive'')) (\<lambda>_.
     bindR (exact_decimal required_evidence_coverage ''required_evidence_coverage'') (\<lambda>coverage.
     bindR (exact_decimal maximum_evidence_age_ratio ''maximum_evidence_age_ratio'') (\<lambda>age.
     bindR (ensure (0 \<le> decimal_value coverage \<and> decimal_value coverage \<le> 1)
              (DomainValidationError ''evidence coverage must be between zero and one'')) (\<lambda>_.
     bindR (ensure (0 \<le> decimal_value age)
              (DomainValidationError ''evidence age ratio cannot be negative'')) (\<lambda>_.
     bindR (foldR (\<lambda>i _. require_id i ''component_id'') (pl_component_ids p) ()) (\<lambda>_.
     bindR (ensure (pl_action p = SolutionAction.BUY \<longrightarrow> pl_component_ids p \<noteq> [])
              (DomainValidationError ''a BUY plan requires at least one component'')) (\<lambda>_.
     Inr (p\<lparr>pl_coverage := coverage, pl_age_ratio := age,
            pl_stable_action_ids :=
              (if pl_stable_action_ids p \<noteq> [] then pl_stable_action_ids p
               else SolutionAction_value (pl_action p) # pl_component_ids p)\<rparr>)))))))))"

definition SolutionPlan_preference_score :: "SolutionPlan \<Rightarrow> decimal result" where
  "SolutionPlan_preference_score p =
     mapR_res (\<lambda>score. case quotient_of score of (n, d) \<Rightarrow> case dec_div_int 28 n d of (c, e) \<Rightarrow> Dec c e)
       (exact_preference_score (pl_preference_results p))"

record Counterfactual =
  cf_generic_winner :: "string option"
  cf_company_aware_winner :: "string option"
  cf_changed :: bool
  cf_decisive_private_fact_ids :: "string list"
  cf_buyer_eliminations :: "(string \<times> string \<times> string) list"
  cf_seller_passes :: "(string \<times> string \<times> string) list"
  cf_coverage_statement :: string
  cf_uncertainties :: "string list"

definition mk_Counterfactual :: "Counterfactual \<Rightarrow> Counterfactual result" where
  "mk_Counterfactual c =
     bindR (ensure (cf_changed c \<longrightarrow> cf_decisive_private_fact_ids c \<noteq> [])
              (DomainValidationError ''a changed counterfactual must identify decisive private facts''))
       (\<lambda>_. Inr c)"

section \<open>Evaluation\<close>

definition base_result :: "CandidateDefinition \<Rightarrow> CandidateStatus \<Rightarrow> string option \<Rightarrow> string \<Rightarrow> CandidateResult" where
  "base_result c status reason_code reason =
     \<lparr>cr_candidate_id = cd_candidate_id c, cr_name = cd_name c, cr_pack_id = cd_pack_id c,
      cr_pack_version = cd_pack_version c, cr_status = status, cr_reason_code = reason_code,
      cr_reason = reason, cr_preference_results = cd_preference_results c, cr_buyer_rule_id = None,
      cr_seller_rule_id = None, cr_evidence_claim_ids = [], cr_unresolved_fields = [],
      cr_seller_positioning = cd_seller_positioning c\<rparr>"

text \<open>A gate either returns a result (\<open>Inl\<close>) or lets the candidate through (\<open>Inr\<close>).\<close>

fun buyer_gate ::
    "CandidateDefinition \<Rightarrow> pyval \<Rightarrow> BuyerConstraint list \<Rightarrow> bool \<Rightarrow> (CandidateResult + bool) result" where
  "buyer_gate c ctx [] exception_used = Inr (Inr exception_used)"
| "buyer_gate c ctx (k # ks) exception_used =
     bindR (RuleExpression_evaluate (bc_expression k) ctx) (\<lambda>e.
       if re_value e = TruthValue.UNRESOLVED then
         mapR_res Inl (mk_CandidateResult
           ((base_result c CandidateStatus.INSUFFICIENT_EVIDENCE (Some ''BUYER_RULE_UNRESOLVED'')
               ''A required buyer-policy fact is unresolved'')
            \<lparr>cr_buyer_rule_id := Some (bc_rule_id k), cr_unresolved_fields := re_unresolved_fields e\<rparr>))
       else if re_value e = TruthValue.FALSE then
         if \<not> (bc_exception_allowed k \<and> bc_rule_id k \<in> set (cd_approved_exceptions c)) then
           mapR_res Inl (mk_CandidateResult
             ((base_result c CandidateStatus.SIRA_INELIGIBLE (Some (bc_reason_code k)) (bc_display_reason k))
              \<lparr>cr_buyer_rule_id := Some (bc_rule_id k)\<rparr>))
         else buyer_gate c ctx ks True
       else buyer_gate c ctx ks exception_used)"

fun seller_gate ::
    "CandidateDefinition \<Rightarrow> pyval \<Rightarrow> SellerAntiFitRule list \<Rightarrow> (CandidateResult + unit) result" where
  "seller_gate c ctx [] = Inr (Inr ())"
| "seller_gate c ctx (r # rs) =
     bindR (RuleExpression_evaluate (sa_expression r) ctx) (\<lambda>e.
       if re_value e = TruthValue.TRUE then
         mapR_res Inl (mk_CandidateResult
           ((base_result c CandidateStatus.SEIL_PASS (Some (sa_reason_code r)) (sa_display_reason r))
            \<lparr>cr_seller_rule_id := Some (sa_rule_id r), cr_evidence_claim_ids := sa_evidence_claim_ids r\<rparr>))
       else if re_value e = TruthValue.UNRESOLVED then
         mapR_res Inl (mk_CandidateResult
           ((base_result c CandidateStatus.CONDITIONAL (Some ''SELLER_CONDITION_UNRESOLVED'')
               ''A published seller condition needs an allowed field or seller revision'')
            \<lparr>cr_seller_rule_id := Some (sa_rule_id r), cr_evidence_claim_ids := sa_evidence_claim_ids r,
             cr_unresolved_fields := re_unresolved_fields e\<rparr>))
       else seller_gate c ctx rs)"

definition dependency_gate :: "CandidateDefinition \<Rightarrow> bool \<Rightarrow> CandidateResult result" where
  "dependency_gate c exception_used =
     (if cd_dependency_state c = TruthValue.FALSE then
        mk_CandidateResult
          ((base_result c CandidateStatus.SIRA_INELIGIBLE (Some ''DEPENDENCY_UNSATISFIED'')
              ''A required dependency cannot be satisfied'')\<lparr>cr_buyer_rule_id := Some ''dependency_plan''\<rparr>)
      else if cd_dependency_state c = TruthValue.UNRESOLVED then
        mk_CandidateResult
          ((base_result c CandidateStatus.CONDITIONAL (Some ''DEPENDENCY_PLAN_REQUIRED'')
              ''A required dependency plan is unresolved'')\<lparr>cr_unresolved_fields := [''dependency_plan'']\<rparr>)
      else if exception_used then
        mk_CandidateResult
          (base_result c CandidateStatus.ELIGIBLE_WITH_EXCEPTION (Some ''APPROVED_EXCEPTION'')
             ''Eligible with an approved buyer-policy exception'')
      else mk_CandidateResult
          (base_result c CandidateStatus.ELIGIBLE None ''Meets evaluated buyer and published seller gates''))"

definition evaluate_candidate :: "CandidateDefinition \<Rightarrow> pyval \<Rightarrow> pyval \<Rightarrow> CandidateResult result" where
  "evaluate_candidate c buyer_ctx seller_ctx =
     (if \<not> cd_available c then
        mk_CandidateResult (base_result c CandidateStatus.UNAVAILABLE (Some ''UNAVAILABLE'') ''Not available'')
      else case cd_evidence_block c of
        Some block \<Rightarrow>
          mk_CandidateResult (base_result c block (Some (CandidateStatus_value block))
            ''Required evidence is not currently actionable'')
      | None \<Rightarrow>
          bindR (buyer_gate c buyer_ctx (cd_buyer_constraints c) False) (\<lambda>b.
            case b of
              Inl r \<Rightarrow> Inr r
            | Inr exception_used \<Rightarrow>
                bindR (seller_gate c seller_ctx (cd_seller_anti_fit_rules c)) (\<lambda>s.
                  case s of Inl r \<Rightarrow> Inr r | Inr _ \<Rightarrow> dependency_gate c exception_used)))"

definition evaluate_candidate_set ::
    "CandidateDefinition list \<Rightarrow> (string \<times> pyval) list \<Rightarrow> (string \<times> pyval) list \<Rightarrow> CandidateResult list result" where
  "evaluate_candidate_set candidates buyer_contexts seller_contexts =
     (let context = (\<lambda>contexts i. case map_of contexts i of Some m \<Rightarrow> m | None \<Rightarrow> PDict [])
      in traverse (\<lambda>c. evaluate_candidate c (context buyer_contexts (cd_candidate_id c))
                         (context seller_contexts (cd_candidate_id c)))
           (sort_key cd_candidate_id candidates))"

section \<open>Ranking\<close>

definition eligibility_order :: "CandidateStatus \<Rightarrow> int option" where
  "eligibility_order s =
     (case s of CandidateStatus.ELIGIBLE \<Rightarrow> Some 0
      | CandidateStatus.ELIGIBLE_WITH_EXCEPTION \<Rightarrow> Some 1 | _ \<Rightarrow> None)"

type_synonym rank_key = "int \<times> rat \<times> int \<times> rat \<times> rat \<times> rat \<times> string list \<times> string"

definition ranking_key :: "SolutionPlan \<Rightarrow> rank_key result" where
  "ranking_key p =
     (case eligibility_order (pl_status p) of
        None \<Rightarrow> Inl (DomainValidationError ''only eligible SolutionPlans receive a final rank'')
      | Some rank \<Rightarrow>
          bindR (exact_preference_score (pl_preference_results p)) (\<lambda>score.
          Inr (rank, - score, StackRisk_rank (pl_stack_risk p), decimal_value (m_amount (pl_total_cost p)),
               decimal_value (decimal_neg (pl_coverage p)), decimal_value (pl_age_ratio p),
               pl_stable_action_ids p, pl_plan_id p)))"

text \<open>\<^verbatim>\<open>sorted(xs, key=f)\<close> with a key that may raise: all keys are computed first.\<close>

definition sorted_by :: "('a \<Rightarrow> 'k::linorder result) \<Rightarrow> 'a list \<Rightarrow> 'a list result" where
  "sorted_by key xs =
     bindR (traverse key xs) (\<lambda>keys. Inr (map snd (sort_key fst (zip keys xs))))"

definition rank_eligible :: "SolutionPlan \<Rightarrow> bool" where
  "rank_eligible p = (eligibility_order (pl_status p) \<noteq> None)"

definition rank_solution_plans :: "SolutionPlan list \<Rightarrow> SolutionPlan list result" where
  "rank_solution_plans plans =
     (let eligible = filter rank_eligible plans
      in if eligible = [] then Inr []
         else
           bindR (ensure (length (remdups (map (\<lambda>p. m_currency (pl_total_cost p)) eligible)) = 1)
                    (DomainValidationError ''plans require one quote currency or an approved FX snapshot'')) (\<lambda>_.
           bindR (ensure (length (remdups (map pl_horizon_days eligible)) = 1)
                    (DomainValidationError ''plans require one declared comparison horizon'')) (\<lambda>_.
           sorted_by ranking_key eligible)))"

definition select_winner :: "SolutionPlan list \<Rightarrow> SolutionPlan option result" where
  "select_winner plans =
     mapR_res (\<lambda>ranked. case ranked of [] \<Rightarrow> None | p # _ \<Rightarrow> Some p) (rank_solution_plans plans)"

section \<open>The counterfactual\<close>

definition results_with :: "CandidateStatus \<Rightarrow> CandidateResult list \<Rightarrow> (string \<times> string \<times> string) list" where
  "results_with status results =
     map (\<lambda>r. (cr_candidate_id r, (case cr_reason_code r of Some t \<Rightarrow> t | None \<Rightarrow> []), cr_reason r))
       (filter (\<lambda>r. cr_status r = status) results)"

definition build_counterfactual ::
    "SolutionPlan list \<Rightarrow> SolutionPlan list \<Rightarrow> CandidateResult list \<Rightarrow> string list \<Rightarrow> string \<Rightarrow> string list
      \<Rightarrow> Counterfactual result" where
  "build_counterfactual generic_plans company_aware_plans results decisive_private_fact_ids
       coverage_statement uncertainties =
     bindR (rank_solution_plans generic_plans) (\<lambda>generic_ranked.
     bindR (rank_solution_plans company_aware_plans) (\<lambda>aware_ranked.
     let winner = (\<lambda>ranked. case ranked of [] \<Rightarrow> None | p # _ \<Rightarrow> Some (pl_plan_id p));
         g = winner generic_ranked; a = winner aware_ranked
     in mk_Counterfactual
          \<lparr>cf_generic_winner = g, cf_company_aware_winner = a, cf_changed = (g \<noteq> a),
           cf_decisive_private_fact_ids = decisive_private_fact_ids,
           cf_buyer_eliminations = results_with CandidateStatus.SIRA_INELIGIBLE results,
           cf_seller_passes = results_with CandidateStatus.SEIL_PASS results,
           cf_coverage_statement = coverage_statement, cf_uncertainties = uncertainties\<rparr>))"

section \<open>The gates\<close>

definition rule_truth :: "RuleExpression \<Rightarrow> pyval \<Rightarrow> TruthValue" where
  "rule_truth x ctx =
     (case RuleExpression_evaluate x ctx of Inr e \<Rightarrow> re_value e | Inl _ \<Rightarrow> TruthValue.UNRESOLVED)"

definition excepted :: "CandidateDefinition \<Rightarrow> BuyerConstraint \<Rightarrow> bool" where
  "excepted c k = (bc_exception_allowed k \<and> bc_rule_id k \<in> set (cd_approved_exceptions c))"

definition constructed_candidate :: "CandidateDefinition \<Rightarrow> bool" where
  "constructed_candidate c =
     (cd_evidence_block c \<in> {None, Some CandidateStatus.STALE_EVIDENCE,
        Some CandidateStatus.INSUFFICIENT_EVIDENCE, Some CandidateStatus.CONFLICTING_EVIDENCE}
      \<and> list_all (\<lambda>k. wf_expression (bc_expression k) \<and> bc_rule_id k \<noteq> []) (cd_buyer_constraints c)
      \<and> list_all (\<lambda>r. wf_expression (sa_expression r) \<and> sa_rule_id r \<noteq> []) (cd_seller_anti_fit_rules c))"

lemma combine_value:
  "re_value (combine_evaluations m es) \<in> {TruthValue.TRUE, TruthValue.FALSE, TruthValue.UNRESOLVED}"
  by (simp add: combine_evaluations_def Let_def)

lemma rule_truth_total:
  assumes "wf_expression x"
  obtains e where "RuleExpression_evaluate x ctx = Inr e" "rule_truth x ctx = re_value e"
    "re_value e \<in> {TruthValue.TRUE, TruthValue.FALSE, TruthValue.UNRESOLVED}"
proof -
  from RuleExpression_evaluate_total [OF assms] obtain e where e: "RuleExpression_evaluate x ctx = Inr e" by blast
  then have "re_value e \<in> {TruthValue.TRUE, TruthValue.FALSE, TruthValue.UNRESOLVED}"
    using combine_value by (auto simp: RuleExpression_evaluate_def bindR_Inr_iff)
  with e that show thesis by (simp add: rule_truth_def)
qed

lemma mk_CandidateResult_base:
  "mk_CandidateResult (r :: CandidateResult) =
     (if cr_status r = CandidateStatus.SIRA_INELIGIBLE \<and> \<not> given (cr_buyer_rule_id r)
      then Inl (DomainValidationError ''SIRA_INELIGIBLE must identify the buyer rule'')
      else if cr_status r = CandidateStatus.SEIL_PASS \<and> \<not> given (cr_seller_rule_id r)
      then Inl (DomainValidationError ''SEIL_PASS must identify the published seller rule'')
      else if given (cr_buyer_rule_id r) \<and> given (cr_seller_rule_id r)
      then Inl (DomainValidationError ''buyer and seller rejection provenance cannot be conflated'')
      else Inr (r\<lparr>cr_unresolved_fields := sorted_set (cr_unresolved_fields r)\<rparr>))"
  by (simp add: mk_CandidateResult_def ensure_def)

lemma given_simps [simp]: "\<not> given None" "given (Some t) \<longleftrightarrow> t \<noteq> []"
  by (simp_all add: given_def)

text \<open>The buyer gate: through exactly when every constraint is true or excepted.\<close>

lemma buyer_gate_spec:
  assumes "list_all (\<lambda>k. wf_expression (bc_expression k) \<and> bc_rule_id k \<noteq> []) ks"
  shows "(if \<forall>k\<in>set ks. rule_truth (bc_expression k) ctx = TruthValue.TRUE
              \<or> rule_truth (bc_expression k) ctx = TruthValue.FALSE \<and> excepted c k
          then buyer_gate c ctx ks x
                 = Inr (Inr (x \<or> (\<exists>k\<in>set ks. rule_truth (bc_expression k) ctx = TruthValue.FALSE)))
          else \<exists>r k. k \<in> set ks \<and> buyer_gate c ctx ks x = Inr (Inl r) \<and> cr_seller_rule_id r = None
                   \<and> cr_buyer_rule_id r = Some (bc_rule_id k)
                   \<and> (cr_status r = CandidateStatus.INSUFFICIENT_EVIDENCE
                        \<and> rule_truth (bc_expression k) ctx = TruthValue.UNRESOLVED
                      \<or> cr_status r = CandidateStatus.SIRA_INELIGIBLE
                        \<and> rule_truth (bc_expression k) ctx = TruthValue.FALSE \<and> \<not> excepted c k))"
  using assms
proof (induction ks arbitrary: x)
  case Nil
  then show ?case by simp
next
  case (Cons k ks)
  from Cons.prems have k: "wf_expression (bc_expression k)" "bc_rule_id k \<noteq> []" by auto
  from rule_truth_total [OF k(1)] obtain e where e: "RuleExpression_evaluate (bc_expression k) ctx = Inr e"
    "rule_truth (bc_expression k) ctx = re_value e"
    "re_value e \<in> {TruthValue.TRUE, TruthValue.FALSE, TruthValue.UNRESOLVED}" .
  have IH: "list_all (\<lambda>k. wf_expression (bc_expression k) \<and> bc_rule_id k \<noteq> []) ks" using Cons.prems by simp
  consider (unresolved) "re_value e = TruthValue.UNRESOLVED"
    | (refused) "re_value e = TruthValue.FALSE" "\<not> excepted c k"
    | (excepted) "re_value e = TruthValue.FALSE" "excepted c k" | (true) "re_value e = TruthValue.TRUE"
    using e(3) by blast
  then show ?case
  proof cases
    case unresolved
    then show ?thesis
      using e k by (auto simp: mk_CandidateResult_base base_result_def intro!: exI [of _ k])
  next
    case refused
    then show ?thesis
      using e k by (auto simp: mk_CandidateResult_base base_result_def excepted_def intro!: exI [of _ k])
  next
    case excepted
    then have "buyer_gate c ctx (k # ks) x = buyer_gate c ctx ks True" using e by (simp add: excepted_def)
    with Cons.IH [OF IH, of True] e excepted show ?thesis by (auto split: if_splits)
  next
    case true
    then have "buyer_gate c ctx (k # ks) x = buyer_gate c ctx ks x" using e by simp
    with Cons.IH [OF IH, of x] e true show ?thesis by (auto split: if_splits)
  qed
qed

lemma seller_gate_spec:
  assumes "list_all (\<lambda>r. wf_expression (sa_expression r) \<and> sa_rule_id r \<noteq> []) rs"
  shows "(if \<forall>r\<in>set rs. rule_truth (sa_expression r) ctx = TruthValue.FALSE
          then seller_gate c ctx rs = Inr (Inr ())
          else \<exists>res r. r \<in> set rs \<and> seller_gate c ctx rs = Inr (Inl res) \<and> cr_buyer_rule_id res = None
                   \<and> cr_seller_rule_id res = Some (sa_rule_id r)
                   \<and> cr_evidence_claim_ids res = sa_evidence_claim_ids r
                   \<and> (cr_status res = CandidateStatus.SEIL_PASS
                        \<and> rule_truth (sa_expression r) ctx = TruthValue.TRUE
                      \<or> cr_status res = CandidateStatus.CONDITIONAL
                        \<and> rule_truth (sa_expression r) ctx = TruthValue.UNRESOLVED))"
  using assms
proof (induction rs)
  case Nil
  then show ?case by simp
next
  case (Cons r rs)
  from Cons.prems have r: "wf_expression (sa_expression r)" "sa_rule_id r \<noteq> []" by auto
  from rule_truth_total [OF r(1)] obtain e where e: "RuleExpression_evaluate (sa_expression r) ctx = Inr e"
    "rule_truth (sa_expression r) ctx = re_value e"
    "re_value e \<in> {TruthValue.TRUE, TruthValue.FALSE, TruthValue.UNRESOLVED}" .
  show ?case
  proof (cases "re_value e = TruthValue.FALSE")
    case True
    then have "seller_gate c ctx (r # rs) = seller_gate c ctx rs" using e by simp
    with Cons e True show ?thesis by (auto split: if_splits)
  next
    case False
    then show ?thesis
      using e r by (auto simp: mk_CandidateResult_base base_result_def intro!: exI [of _ r])
  qed
qed

definition buyer_clear :: "CandidateDefinition \<Rightarrow> pyval \<Rightarrow> bool" where
  "buyer_clear c ctx =
     (\<forall>k\<in>set (cd_buyer_constraints c). rule_truth (bc_expression k) ctx = TruthValue.TRUE
        \<or> rule_truth (bc_expression k) ctx = TruthValue.FALSE \<and> excepted c k)"

definition seller_clear :: "CandidateDefinition \<Rightarrow> pyval \<Rightarrow> bool" where
  "seller_clear c ctx =
     (\<forall>r\<in>set (cd_seller_anti_fit_rules c). rule_truth (sa_expression r) ctx = TruthValue.FALSE)"

text \<open>
  The candidate gates are total and exact: a constructed candidate always gets a result; it is
  eligible (plainly, or by exception) exactly when it is available, has no evidence block, every
  buyer constraint is true or has an approved exception, every published seller rule is decided
  false, and its dependency state is neither FALSE nor UNRESOLVED; a buyer rejection always names a
  buyer rule and no seller rule, a seller pass always names a published rule that is true, and no
  result carries both.
\<close>

theorem candidate_gates_exact:
  assumes "constructed_candidate c"
  shows "\<exists>r. evaluate_candidate c bctx sctx = Inr r
    \<and> (cr_status r \<in> {CandidateStatus.ELIGIBLE, CandidateStatus.ELIGIBLE_WITH_EXCEPTION} \<longleftrightarrow>
         cd_available c \<and> cd_evidence_block c = None \<and> buyer_clear c bctx \<and> seller_clear c sctx
         \<and> cd_dependency_state c \<notin> {TruthValue.FALSE, TruthValue.UNRESOLVED})
    \<and> (cr_status r = CandidateStatus.ELIGIBLE \<longrightarrow>
         (\<forall>k\<in>set (cd_buyer_constraints c). rule_truth (bc_expression k) bctx = TruthValue.TRUE))
    \<and> (cr_status r = CandidateStatus.SIRA_INELIGIBLE \<longrightarrow> given (cr_buyer_rule_id r) \<and> cr_seller_rule_id r = None)
    \<and> (cr_status r = CandidateStatus.SEIL_PASS \<longrightarrow> cr_buyer_rule_id r = None
         \<and> (\<exists>s\<in>set (cd_seller_anti_fit_rules c). cr_seller_rule_id r = Some (sa_rule_id s)
              \<and> rule_truth (sa_expression s) sctx = TruthValue.TRUE))
    \<and> (cr_buyer_rule_id r = None \<or> cr_seller_rule_id r = None)"
proof -
  from assms have bl: "cd_evidence_block c \<in> {None, Some CandidateStatus.STALE_EVIDENCE,
        Some CandidateStatus.INSUFFICIENT_EVIDENCE, Some CandidateStatus.CONFLICTING_EVIDENCE}"
    and b: "list_all (\<lambda>k. wf_expression (bc_expression k) \<and> bc_rule_id k \<noteq> []) (cd_buyer_constraints c)"
    and s: "list_all (\<lambda>r. wf_expression (sa_expression r) \<and> sa_rule_id r \<noteq> []) (cd_seller_anti_fit_rules c)"
    by (simp_all add: constructed_candidate_def)
  note bspec = buyer_gate_spec [OF b, of bctx c False, folded buyer_clear_def]
  note sspec = seller_gate_spec [OF s, of sctx c, folded seller_clear_def]
  consider (gone) "\<not> cd_available c" | (block) t where "cd_available c" "cd_evidence_block c = Some t"
    | (buyer) "cd_available c" "cd_evidence_block c = None" "\<not> buyer_clear c bctx"
    | (seller) "cd_available c" "cd_evidence_block c = None" "buyer_clear c bctx" "\<not> seller_clear c sctx"
    | (deps) "cd_available c" "cd_evidence_block c = None" "buyer_clear c bctx" "seller_clear c sctx"
    by (cases "cd_evidence_block c") auto
  then show ?thesis
  proof cases
    case gone
    then show ?thesis by (simp add: evaluate_candidate_def mk_CandidateResult_base base_result_def)
  next
    case block
    with bl show ?thesis by (auto simp: evaluate_candidate_def mk_CandidateResult_base base_result_def)
  next
    case buyer
    with bspec obtain r where r: "buyer_gate c bctx (cd_buyer_constraints c) False = Inr (Inl r)"
      "cr_seller_rule_id r = None" "given (cr_buyer_rule_id r)"
      "cr_status r = CandidateStatus.INSUFFICIENT_EVIDENCE \<or> cr_status r = CandidateStatus.SIRA_INELIGIBLE"
      using b by (fastforce simp: list_all_iff)
    with buyer show ?thesis by (auto simp: evaluate_candidate_def)
  next
    case seller
    with bspec obtain x where
      x: "buyer_gate c bctx (cd_buyer_constraints c) False = Inr (Inr x)" by auto
    from seller sspec obtain res r where r: "r \<in> set (cd_seller_anti_fit_rules c)"
      "seller_gate c sctx (cd_seller_anti_fit_rules c) = Inr (Inl res)" "cr_buyer_rule_id res = None"
      "cr_seller_rule_id res = Some (sa_rule_id r)"
      "cr_status res = CandidateStatus.SEIL_PASS \<and> rule_truth (sa_expression r) sctx = TruthValue.TRUE
       \<or> cr_status res = CandidateStatus.CONDITIONAL" by auto
    from x r(2) seller have "evaluate_candidate c bctx sctx = Inr res" by (simp add: evaluate_candidate_def)
    with r seller show ?thesis by auto
  next
    case deps
    let ?x = "\<exists>k\<in>set (cd_buyer_constraints c). rule_truth (bc_expression k) bctx = TruthValue.FALSE"
    from deps bspec sspec have "evaluate_candidate c bctx sctx = dependency_gate c ?x"
      by (simp add: evaluate_candidate_def)
    moreover have "rule_truth (bc_expression k) bctx = TruthValue.TRUE"
      if "\<not> ?x" "k \<in> set (cd_buyer_constraints c)" for k
      using deps(3) that by (auto simp: buyer_clear_def)
    ultimately show ?thesis using deps
      by (auto simp: dependency_gate_def mk_CandidateResult_base base_result_def)
  qed
qed

definition sample_candidate :: CandidateDefinition where
  "sample_candidate =
     \<lparr>cd_candidate_id = ''c-1'', cd_name = ''C'', cd_pack_id = ''p-1'', cd_pack_version = 1,
      cd_available = True, cd_evidence_block = None,
      cd_buyer_constraints = [\<lparr>bc_rule_id = ''b-1'', bc_expression = sample_rule, bc_reason_code = ''R'',
         bc_display_reason = ''r'', bc_exception_allowed = True\<rparr>],
      cd_seller_anti_fit_rules = [], cd_approved_exceptions = [''b-1''],
      cd_dependency_state = TruthValue.UNKNOWN, cd_preference_results = [], cd_seller_positioning = None\<rparr>"

text \<open>The sample also shows that a dependency state UNKNOWN or CONFLICT lets a candidate through.\<close>

lemma candidate_gates_exact_witness:
  "\<exists>r. evaluate_candidate sample_candidate
         (PDict [(PStr ''seat'', PDict [(PStr ''count'', PInt 3)]), (PStr ''region'', PStr ''EU'')]) (PDict []) = Inr r
     \<and> cr_status r \<in> {CandidateStatus.ELIGIBLE, CandidateStatus.ELIGIBLE_WITH_EXCEPTION}"
proof -
  let ?b = "PDict [(PStr ''seat'', PDict [(PStr ''count'', PInt 3)]), (PStr ''region'', PStr ''EU'')]"
  have c: "constructed_candidate sample_candidate" by code_simp
  have "cd_available sample_candidate \<and> cd_evidence_block sample_candidate = None \<and> buyer_clear sample_candidate ?b
      \<and> seller_clear sample_candidate (PDict [])
      \<and> cd_dependency_state sample_candidate \<notin> {TruthValue.FALSE, TruthValue.UNRESOLVED}" by code_simp
  with candidate_gates_exact [OF c, of ?b "PDict []"] show ?thesis by blast
qed

section \<open>Ranking is a permutation with a least element first\<close>

lemma insort_zip:
  "\<forall>(k, y)\<in>set ps. k = g y \<Longrightarrow> map snd (insort_key fst (g x, x) ps) = insort_key g x (map snd ps)"
  by (induction ps) auto

lemma sort_zip: "map snd (sort_key fst (zip (map g xs) xs)) = sort_key g xs"
proof (induction xs)
  case Nil
  then show ?case by simp
next
  case (Cons x xs)
  have "\<forall>(k, y)\<in>set (sort_key fst (zip (map g xs) xs)). k = g y"
    by (auto simp: set_zip)
  from insort_zip [OF this] Cons show ?case by simp
qed

lemma sorted_by_Inr:
  assumes "sorted_by key xs = Inr ys"
  obtains g where "\<And>x. x \<in> set xs \<Longrightarrow> key x = Inr (g x)" "ys = sort_key g xs"
proof -
  from assms obtain ks where ks: "traverse key xs = Inr ks" and ys: "ys = map snd (sort_key fst (zip ks xs))"
    by (auto simp: sorted_by_def bindR_Inr_iff)
  define g where "g x = (case key x of Inr k \<Rightarrow> k | Inl e \<Rightarrow> undefined)" for x
  have key: "key x = Inr (g x)" if "x \<in> set xs" for x
    using traverse_Inr_set' [OF ks that] by (auto simp: g_def)
  then have "ks = map g xs" using traverse_ok [of xs key g] ks by simp
  with ys sort_zip key that show thesis by metis
qed

lemma sorted_by_ok: "(\<And>x. x \<in> set xs \<Longrightarrow> key x = Inr (g x)) \<Longrightarrow> sorted_by key xs = Inr (sort_key g xs)"
  using traverse_ok [of xs key g] by (simp add: sorted_by_def sort_zip)

lemma ranking_key_id: "ranking_key p = Inr (a, b, c, d, e, f, g, i) \<Longrightarrow> i = pl_plan_id p"
  by (auto simp: ranking_key_def bindR_Inr_iff split: option.splits)

lemma ranking_key_inj:
  assumes "\<And>p. p \<in> A \<Longrightarrow> ranking_key p = Inr (g p)" "inj_on pl_plan_id A"
  shows "inj_on g A"
proof (rule inj_onI)
  fix p q
  assume "p \<in> A" "q \<in> A" "g p = g q"
  with assms(1) [of p] assms(1) [of q] have "pl_plan_id p = pl_plan_id q"
    by (cases "g q") (auto dest!: ranking_key_id)
  with \<open>p \<in> A\<close> \<open>q \<in> A\<close> assms(2) show "p = q" by (auto dest: inj_onD)
qed

text \<open>
  The ranking is the lexicographic order and nothing else: a successful ranking is a permutation
  of the eligible plans in nondecreasing order of their keys, the winner is an eligible plan whose key
  no eligible plan undercuts, and when plan identifiers are distinct the ranking does not depend on
  the order the plans were given in.
\<close>

theorem ranking_correct:
  assumes "rank_solution_plans plans = Inr r"
  shows "mset r = mset (filter rank_eligible plans)
    \<and> (\<exists>g. (\<forall>p\<in>set r. ranking_key p = Inr (g p)) \<and> sorted (map g r)
          \<and> (\<forall>w. select_winner plans = Inr (Some w) \<longrightarrow>
               w \<in> set plans \<and> rank_eligible w \<and> (\<forall>p\<in>set plans. rank_eligible p \<longrightarrow> g w \<le> g p)))
    \<and> (\<forall>plans'. mset plans' = mset plans \<and> distinct (map pl_plan_id plans) \<longrightarrow>
         rank_solution_plans plans' = Inr r)"
proof (cases "filter rank_eligible plans = []")
  case True
  have "filter rank_eligible plans' = []" if "mset plans' = mset plans" for plans'
    using True that by (metis mset_filter mset_zero_iff)
  with assms True show ?thesis
    by (auto simp: rank_solution_plans_def select_winner_def Let_def mapR_res_def)
next
  case False
  let ?E = "filter rank_eligible plans"
  from assms False have cur: "length (remdups (map (\<lambda>p. m_currency (pl_total_cost p)) ?E)) = 1"
    and hor: "length (remdups (map pl_horizon_days ?E)) = 1" and "sorted_by ranking_key ?E = Inr r"
    by (auto simp: rank_solution_plans_def Let_def bindR_Inr_iff ensure_Inr_iff)
  from sorted_by_Inr [OF this(3)] obtain g where g: "\<And>p. p \<in> set ?E \<Longrightarrow> ranking_key p = Inr (g p)"
    and r: "r = sort_key g ?E" by blast
  have win: "w \<in> set plans \<and> rank_eligible w \<and> (\<forall>p\<in>set plans. rank_eligible p \<longrightarrow> g w \<le> g p)"
    if "select_winner plans = Inr (Some w)" for w
  proof -
    from that assms have "w = hd (sort_key g ?E)" "sort_key g ?E \<noteq> []"
      by (auto simp: select_winner_def mapR_res_def r split: list.splits)
    with hd_in_set [of "sort_key g ?E"] have "w \<in> set ?E" by simp
    moreover have "g w \<le> g p" if "p \<in> set ?E" for p
      using hd_sort_key_le [OF False that] \<open>w = hd (sort_key g ?E)\<close> by simp
    ultimately show ?thesis by auto
  qed
  have perm: "rank_solution_plans plans' = Inr r" if p: "mset plans' = mset plans" "distinct (map pl_plan_id plans)" for plans'
  proof -
    let ?E' = "filter rank_eligible plans'"
    have m: "mset ?E' = mset ?E" using p(1) by (simp add: mset_filter)
    then have s: "set ?E' = set ?E" by (rule mset_eq_setD)
    have inj: "inj_on g (set ?E)"
      by (rule ranking_key_inj [OF g]) (use p(2) in \<open>auto simp: distinct_map intro: inj_on_subset\<close>)
    have "sort_key g ?E' = r" unfolding r by (rule sort_key_perm [OF m]) (use inj s in simp)
    moreover have "sorted_by ranking_key ?E' = Inr (sort_key g ?E')"
      by (rule sorted_by_ok) (use g s in blast)
    moreover have "length (remdups (map (\<lambda>p. m_currency (pl_total_cost p)) ?E')) = 1"
        "length (remdups (map pl_horizon_days ?E')) = 1"
      using s cur hor unfolding length_remdups_card_conv set_map by simp_all
    moreover have "?E' \<noteq> []" using s False by (metis set_empty)
    ultimately show ?thesis by (simp add: rank_solution_plans_def Let_def)
  qed
  have "\<forall>p\<in>set r. ranking_key p = Inr (g p)" using g by (simp add: r)
  moreover have "sorted (map g r)" "mset r = mset ?E" by (simp_all add: r)
  ultimately show ?thesis using win perm by blast
qed

definition sample_plan :: "string \<Rightarrow> decimal \<Rightarrow> SolutionPlan" where
  "sample_plan i sat =
     \<lparr>pl_plan_id = i, pl_action = SolutionAction.BUY, pl_component_ids = [''x''],
      pl_status = CandidateStatus.ELIGIBLE,
      pl_preference_results = [\<lparr>pr_criterion_id = ''k'', pr_weight = 2, pr_satisfaction = sat,
         pr_evidence_ids = [], pr_unknown = False\<rparr>],
      pl_stack_risk = StackRisk.LOW, pl_total_cost = \<lparr>m_amount = Dec 5 0, m_currency = ''EUR''\<rparr>,
      pl_horizon_days = 30, pl_coverage = Dec 1 0, pl_age_ratio = Dec 0 0, pl_seller_positioning = None,
      pl_stable_action_ids = [''BUY'', ''x'']\<rparr>"

lemma ranking_correct_witness:
  "rank_solution_plans [sample_plan ''p1'' (Dec 5 (- 1)), sample_plan ''p2'' (Dec 1 0)]
     = Inr [sample_plan ''p2'' (Dec 1 0), sample_plan ''p1'' (Dec 5 (- 1))]
   \<and> rank_solution_plans [sample_plan ''p2'' (Dec 1 0), sample_plan ''p1'' (Dec 5 (- 1))]
     = Inr [sample_plan ''p2'' (Dec 1 0), sample_plan ''p1'' (Dec 5 (- 1))]"
proof -
  let ?a = "sample_plan ''p1'' (Dec 5 (- 1))" and ?b = "sample_plan ''p2'' (Dec 1 0)"
  have r: "rank_solution_plans [?a, ?b] = Inr [?b, ?a]" by code_simp
  have "mset [?b, ?a] = mset [?a, ?b]" "distinct (map pl_plan_id [?a, ?b])"
    by (simp_all add: add_mset_commute sample_plan_def)
  with r ranking_correct [OF r] show ?thesis by blast
qed

section \<open>Preference scores\<close>

definition wf_preference :: "PreferenceResult \<Rightarrow> bool" where
  "wf_preference r =
     (1 \<le> pr_weight r \<and> pr_weight r \<le> 5
      \<and> list_ex (dec_eq (pr_satisfaction r)) satisfaction_values)"

lemma satisfaction_range:
  assumes "wf_preference r"
  shows "0 \<le> decimal_value (pr_satisfaction r)" "decimal_value (pr_satisfaction r) \<le> 1"
proof -
  have eq: "decimal_value d = decimal_value v" if "dec_eq d v" for d v
    using that by (cases "(d, v)" rule: dec_eq.cases) (auto simp: decimal_value_def)
  have "list_all (\<lambda>v. 0 \<le> decimal_value v \<and> decimal_value v \<le> 1) satisfaction_values" by code_simp
  with assms eq show "0 \<le> decimal_value (pr_satisfaction r)" "decimal_value (pr_satisfaction r) \<le> 1"
    unfolding wf_preference_def list_ex_iff list_all_iff by metis+
qed

lemma weighted_sum_bounds:
  assumes "\<forall>x\<in>set xs. 0 \<le> s x \<and> s x \<le> (1 :: rat) \<and> 1 \<le> (w x :: int)"
  shows "0 \<le> (\<Sum>x \<leftarrow> xs. of_int (w x) * s x) \<and> (\<Sum>x \<leftarrow> xs. of_int (w x) * s x) \<le> of_int (\<Sum>x \<leftarrow> xs. w x)
    \<and> int (length xs) \<le> (\<Sum>x \<leftarrow> xs. w x)"
  using assms
proof (induction xs)
  case (Cons x xs)
  have x: "0 \<le> of_int (w x) * s x" "of_int (w x) * s x \<le> of_int (w x)" "1 \<le> w x"
    using Cons.prems by (simp_all add: mult_left_le)
  have IH: "0 \<le> (\<Sum>x \<leftarrow> xs. of_int (w x) * s x)" "(\<Sum>x \<leftarrow> xs. of_int (w x) * s x) \<le> of_int (\<Sum>x \<leftarrow> xs. w x)"
    "int (length xs) \<le> (\<Sum>x \<leftarrow> xs. w x)"
    using Cons by simp_all
  show ?case using add_nonneg_nonneg [OF x(1) IH(1)] add_mono [OF x(2) IH(2)] x(3) IH(3) by simp
qed simp

lemma weighted_sum_range:
  assumes "\<And>x. x \<in> set xs \<Longrightarrow> 0 \<le> s x \<and> s x \<le> (1 :: rat)" "\<And>x. x \<in> set xs \<Longrightarrow> 1 \<le> (w x :: int)"
  shows "0 \<le> (\<Sum>x \<leftarrow> xs. of_int (w x) * s x)" "(\<Sum>x \<leftarrow> xs. of_int (w x) * s x) \<le> of_int (\<Sum>x \<leftarrow> xs. w x)"
    and "int (length xs) \<le> (\<Sum>x \<leftarrow> xs. w x)"
  using weighted_sum_bounds [of xs s w] assms by simp_all

text \<open>
  Scores are bounded: over constructed preference results the exact score exists exactly when
  there is at least one criterion (it never divides by zero), lies between 0 and 100, and is 100 only
  when every criterion is fully satisfied.
\<close>

theorem preference_score_bounds:
  assumes "\<forall>r\<in>set rs. wf_preference r"
  shows "(\<exists>q. exact_preference_score rs = Inr q) = (rs \<noteq> [])
    \<and> (\<forall>q. exact_preference_score rs = Inr q \<longrightarrow> 0 \<le> q \<and> q \<le> 100
         \<and> (q = 100 \<longleftrightarrow> (\<forall>r\<in>set rs. decimal_value (pr_satisfaction r) = 1)))"
proof (cases "rs = []")
  case True
  then show ?thesis by (simp add: exact_preference_score_def)
next
  case False
  let ?n = "\<Sum>r \<leftarrow> rs. of_int (pr_weight r) * decimal_value (pr_satisfaction r)" and ?d = "\<Sum>r \<leftarrow> rs. pr_weight r"
  have s: "0 \<le> decimal_value (pr_satisfaction r) \<and> decimal_value (pr_satisfaction r) \<le> 1"
    and w: "1 \<le> pr_weight r" if "r \<in> set rs" for r
    using assms that satisfaction_range by (auto simp: wf_preference_def)
  note range = weighted_sum_range [of rs "\<lambda>r. decimal_value (pr_satisfaction r)" pr_weight, OF s w]
  have d: "0 < ?d" using range(3) False by (metis length_greater_0_conv linorder_not_le of_nat_0_less_iff order_trans)
  have eq: "exact_preference_score rs = Inr (100 * ?n / of_int ?d)"
    using False d by (simp add: exact_preference_score_def Let_def)
  have le: "0 \<le> 100 * ?n / of_int ?d" "100 * ?n / of_int ?d \<le> 100"
    using range(1,2) d by (simp_all add: divide_le_eq)
  have "?n = of_int ?d \<longleftrightarrow> (\<forall>r\<in>set rs. decimal_value (pr_satisfaction r) = 1)"
    using s w
  proof (induction rs)
    case (Cons r rs)
    have r: "of_int (pr_weight r) * decimal_value (pr_satisfaction r) \<le> of_int (pr_weight r)"
      using Cons.prems(1) [of r] Cons.prems(2) [of r] by (simp add: mult_left_le)
    have rest: "(\<Sum>r \<leftarrow> rs. of_int (pr_weight r) * decimal_value (pr_satisfaction r)) \<le> of_int (\<Sum>r \<leftarrow> rs. pr_weight r)"
      using Cons.prems by (intro weighted_sum_range(2)) auto
    have "of_int (pr_weight r) * decimal_value (pr_satisfaction r) = of_int (pr_weight r)
        \<longleftrightarrow> decimal_value (pr_satisfaction r) = 1"
      using Cons.prems(2) [of r] by simp
    with r rest Cons show ?case by (auto simp: order_antisym_conv)
  qed simp
  then have "100 * ?n / of_int ?d = 100 \<longleftrightarrow> (\<forall>r\<in>set rs. decimal_value (pr_satisfaction r) = 1)"
    using d by (simp add: field_simps)
  with eq le False show ?thesis by auto
qed

lemma preference_score_bounds_witness:
  "exact_preference_score (pl_preference_results (sample_plan ''p1'' (Dec 5 (- 1)))) = Inr 50
   \<and> (0 :: rat) \<le> 50"
proof -
  have w: "\<forall>r\<in>set (pl_preference_results (sample_plan ''p1'' (Dec 5 (- 1)))). wf_preference r" by code_simp
  have q: "exact_preference_score (pl_preference_results (sample_plan ''p1'' (Dec 5 (- 1)))) = Inr 50" by code_simp
  with preference_score_bounds [OF w] show ?thesis by blast
qed

end
