(* ===== verification/Bounds.thy ===== *)
theory Bounds
  imports Candidates
begin

text \<open>
  \<^verbatim>\<open>decision_engine/bounds.py\<close>: exact ratios, the interval of every ordering component
  of a plan, the three ordering keys and the rank-stability verdict. A \<^verbatim>\<open>Fraction\<close> is
  a \<open>rat\<close>; a parameter annotated \<^verbatim>\<open>int\<close> is an \<open>int\<close>, so the guards against a
  boolean in its place have nothing to refuse.
\<close>

section \<open>Exact ratios\<close>

datatype exact_input = ExactFraction rat | ExactValue pyval

definition exact_fraction :: "exact_input \<Rightarrow> string \<Rightarrow> rat result" where
  "exact_fraction value field_name =
     (case value of
        ExactFraction q \<Rightarrow> Inr q
      | ExactValue (PBool _) \<Rightarrow> Inl (DomainValidationError (field_name @ '' requires exact input''))
      | ExactValue (PFloat _) \<Rightarrow> Inl (DomainValidationError (field_name @ '' requires exact input''))
      | ExactValue v \<Rightarrow>
          bindR (decimal_from (DomainValidationError (''invalid '' @ field_name)) v) (\<lambda>d.
          bindR (ensure (dec_finite d) (DomainValidationError (field_name @ '' must be finite''))) (\<lambda>_.
          Inr (decimal_value d))))"

record ExactRatio =
  er_numerator :: int
  er_denominator :: int

definition mk_ExactRatio :: "pyval \<Rightarrow> pyval \<Rightarrow> ExactRatio result" where
  "mk_ExactRatio numerator denominator =
     (case (numerator, denominator) of
        (PInt n, PInt d) \<Rightarrow>
          if d = 0 then Inl (DomainValidationError ''an exact ratio requires integer numerator/denominator'')
          else let sign = (if d < 0 then - 1 else 1); divisor = gcd n d
               in Inr \<lparr>er_numerator = sign * n div divisor, er_denominator = \<bar>d\<bar> div divisor\<rparr>
      | _ \<Rightarrow> Inl (DomainValidationError ''an exact ratio requires integer numerator/denominator''))"

definition ratio_of_fraction :: "rat \<Rightarrow> ExactRatio result" where
  "ratio_of_fraction q = (case quotient_of q of (n, d) \<Rightarrow> mk_ExactRatio (PInt n) (PInt d))"

definition ExactRatio_from_value :: "exact_input \<Rightarrow> string \<Rightarrow> ExactRatio result" where
  "ExactRatio_from_value value field_name = bindR (exact_fraction value field_name) ratio_of_fraction"

definition er_fraction :: "ExactRatio \<Rightarrow> rat" where
  "er_fraction r = of_int (er_numerator r) / of_int (er_denominator r)"

text \<open>A negative ratio that rounds to nothing keeps its sign: \<^verbatim>\<open>-0.00\<close>.\<close>

definition ExactRatio_display :: "ExactRatio \<Rightarrow> string result" where
  "ExactRatio_display r =
     (case dec_div_int 50 (er_numerator r) (er_denominator r) of (c, e) \<Rightarrow>
        let n = cents_of c e
        in if 50 < digit_count n then Inl InvalidOperation
           else Inr ((if n = 0 \<and> er_numerator r < 0 then ''-'' else []) @ decimal_text (Dec n (- 2))))"

definition ExactRatio_to_dict :: "ExactRatio \<Rightarrow> bool \<Rightarrow> (pyval \<times> pyval) list result" where
  "ExactRatio_to_dict r include_display =
     (let base = [(PStr ''numerator'', PInt (er_numerator r)), (PStr ''denominator'', PInt (er_denominator r))]
      in if include_display
         then mapR_res (\<lambda>t. base @ [(PStr ''display'', PStr t)]) (ExactRatio_display r)
         else Inr base)"

section \<open>Preference and coverage\<close>

record PreferenceCriterionBound =
  pb_criterion_id :: string
  pb_weight :: int
  pb_conservative :: ExactRatio
  pb_optimistic :: ExactRatio

definition mk_PreferenceCriterionBound :: "PreferenceCriterionBound \<Rightarrow> PreferenceCriterionBound result" where
  "mk_PreferenceCriterionBound b =
     bindR (require_id (pb_criterion_id b) ''criterion_id'') (\<lambda>_.
     bindR (ensure (1 \<le> pb_weight b \<and> pb_weight b \<le> 5)
              (DomainValidationError ''preference weight must be an integer from 1 to 5'')) (\<lambda>_.
     bindR (ensure (0 \<le> er_fraction (pb_conservative b)
                    \<and> er_fraction (pb_conservative b) \<le> er_fraction (pb_optimistic b)
                    \<and> er_fraction (pb_optimistic b) \<le> 1)
              (DomainValidationError ''preference satisfaction bounds must satisfy 0 <= low <= high <= 1'')) (\<lambda>_.
     Inr b)))"

record PreferenceScoreBounds =
  ps_conservative :: ExactRatio
  ps_optimistic :: ExactRatio

definition mk_PreferenceScoreBounds :: "ExactRatio \<Rightarrow> ExactRatio \<Rightarrow> PreferenceScoreBounds result" where
  "mk_PreferenceScoreBounds conservative optimistic =
     bindR (ensure (0 \<le> er_fraction conservative \<and> er_fraction conservative \<le> er_fraction optimistic
                    \<and> er_fraction optimistic \<le> 100)
              (DomainValidationError ''preference score bounds must be between zero and 100'')) (\<lambda>_.
     Inr \<lparr>ps_conservative = conservative, ps_optimistic = optimistic\<rparr>)"

definition PreferenceScoreBounds_to_dict :: "PreferenceScoreBounds \<Rightarrow> (pyval \<times> pyval) list result" where
  "PreferenceScoreBounds_to_dict b =
     bindR (ExactRatio_to_dict (ps_conservative b) True) (\<lambda>conservative.
     bindR (ExactRatio_to_dict (ps_optimistic b) True) (\<lambda>optimistic.
     Inr [(PStr ''conservative'', PDict conservative), (PStr ''optimistic'', PDict optimistic)]))"

definition weighted_percent :: "('c \<Rightarrow> int) \<Rightarrow> ('c \<Rightarrow> rat) \<Rightarrow> 'c list \<Rightarrow> rat" where
  "weighted_percent weight satisfaction criteria =
     100 * (\<Sum>c \<leftarrow> criteria. of_int (weight c) * satisfaction c) / of_int (\<Sum>c \<leftarrow> criteria. weight c)"

definition aggregate_preference_bounds :: "PreferenceCriterionBound list \<Rightarrow> PreferenceScoreBounds result" where
  "aggregate_preference_bounds criteria =
     bindR (ensure (criteria \<noteq> [])
              (DomainValidationError ''a preference-capable plan requires at least one criterion'')) (\<lambda>_.
     bindR (ensure (length (remdups (map pb_criterion_id criteria)) = length criteria)
              (DomainValidationError ''preference criteria must be unique'')) (\<lambda>_.
     bindR (ensure ((\<Sum>c \<leftarrow> criteria. pb_weight c) \<noteq> 0) ZeroDivisionError) (\<lambda>_.
     bindR (ratio_of_fraction
              (weighted_percent pb_weight (\<lambda>c. er_fraction (pb_conservative c)) criteria)) (\<lambda>conservative.
     bindR (ratio_of_fraction
              (weighted_percent pb_weight (\<lambda>c. er_fraction (pb_optimistic c)) criteria)) (\<lambda>optimistic.
     mk_PreferenceScoreBounds conservative optimistic)))))"

record CoverageCriterion =
  cc_criterion_id :: string
  cc_weight :: int
  cc_conservative_covered :: bool
  cc_optimistic_covered :: bool

definition mk_CoverageCriterion :: "CoverageCriterion \<Rightarrow> CoverageCriterion result" where
  "mk_CoverageCriterion c =
     bindR (require_id (cc_criterion_id c) ''criterion_id'') (\<lambda>_.
     bindR (ensure (1 \<le> cc_weight c \<and> cc_weight c \<le> 5)
              (DomainValidationError ''coverage weight must be an integer from 1 to 5'')) (\<lambda>_.
     bindR (ensure (\<not> (cc_conservative_covered c \<and> \<not> cc_optimistic_covered c))
              (DomainValidationError ''optimistic coverage cannot be lower than conservative coverage'')) (\<lambda>_.
     Inr c)))"

record CoverageBounds =
  cb_conservative :: ExactRatio
  cb_optimistic :: ExactRatio

definition covered_fraction :: "(CoverageCriterion \<Rightarrow> bool) \<Rightarrow> CoverageCriterion list \<Rightarrow> rat" where
  "covered_fraction covered criteria =
     of_int (\<Sum>c \<leftarrow> filter covered criteria. cc_weight c) / of_int (\<Sum>c \<leftarrow> criteria. cc_weight c)"

definition aggregate_coverage_bounds :: "CoverageCriterion list \<Rightarrow> CoverageBounds result" where
  "aggregate_coverage_bounds criteria =
     (if criteria = []
      then mapR_res (\<lambda>one. \<lparr>cb_conservative = one, cb_optimistic = one\<rparr>) (mk_ExactRatio (PInt 1) (PInt 1))
      else
        bindR (ensure (length (remdups (map cc_criterion_id criteria)) = length criteria)
                 (DomainValidationError ''coverage criteria must be unique'')) (\<lambda>_.
        bindR (ensure ((\<Sum>c \<leftarrow> criteria. cc_weight c) \<noteq> 0) ZeroDivisionError) (\<lambda>_.
        bindR (ratio_of_fraction (covered_fraction cc_conservative_covered criteria)) (\<lambda>conservative.
        bindR (ratio_of_fraction (covered_fraction cc_optimistic_covered criteria)) (\<lambda>optimistic.
        Inr \<lparr>cb_conservative = conservative, cb_optimistic = optimistic\<rparr>)))))"

section \<open>Risk, cost and evidence age\<close>

record RiskBounds =
  rb_lower :: StackRisk
  rb_base :: StackRisk
  rb_upper :: StackRisk

definition mk_RiskBounds :: "RiskBounds \<Rightarrow> RiskBounds result" where
  "mk_RiskBounds b =
     bindR (ensure (StackRisk_rank (rb_lower b) \<le> StackRisk_rank (rb_base b)
                    \<and> StackRisk_rank (rb_base b) \<le> StackRisk_rank (rb_upper b))
              (DomainValidationError ''risk bounds must satisfy lower <= base <= upper'')) (\<lambda>_. Inr b)"

text \<open>The dictionary \<^verbatim>\<open>by_rank\<close> looked up at the greatest rank of the components.\<close>

definition risk_of_rank :: "int \<Rightarrow> StackRisk result" where
  "risk_of_rank k =
     (case map_of (map (\<lambda>risk. (StackRisk_rank risk, risk)) all_StackRisk) k of
        Some risk \<Rightarrow> Inr risk | None \<Rightarrow> Inl KeyError)"

definition max_rank :: "(RiskBounds \<Rightarrow> StackRisk) \<Rightarrow> RiskBounds list \<Rightarrow> StackRisk result" where
  "max_rank part components = risk_of_rank (Max (set (map (\<lambda>c. StackRisk_rank (part c)) components)))"

definition aggregate_risk_bounds :: "RiskBounds list \<Rightarrow> RiskBounds result" where
  "aggregate_risk_bounds components =
     bindR (ensure (components \<noteq> [])
              (DomainValidationError ''risk aggregation requires a component or current-stack action'')) (\<lambda>_.
     bindR (max_rank rb_lower components) (\<lambda>lower.
     bindR (max_rank rb_base components) (\<lambda>base.
     bindR (max_rank rb_upper components) (\<lambda>upper.
     mk_RiskBounds \<lparr>rb_lower = lower, rb_base = base, rb_upper = upper\<rparr>))))"

record CostBounds =
  co_low :: Money
  co_base :: Money
  co_high :: Money

definition mk_CostBounds :: "CostBounds \<Rightarrow> CostBounds result" where
  "mk_CostBounds b =
     (let refused = DomainValidationError ''TCO bounds require one currency and low <= base <= high''
      in bindR (ensure (length (remdups [m_currency (co_low b), m_currency (co_base b), m_currency (co_high b)]) = 1)
                  refused) (\<lambda>_.
         bindR (dec_le (m_amount (co_low b)) (m_amount (co_base b))) (\<lambda>first.
         bindR (ensure first refused) (\<lambda>_.
         bindR (dec_le (m_amount (co_base b)) (m_amount (co_high b))) (\<lambda>second.
         bindR (ensure second refused) (\<lambda>_. Inr b))))))"

record EvidenceAgeBounds =
  ea_lower :: ExactRatio
  ea_upper :: ExactRatio

definition mk_EvidenceAgeBounds :: "ExactRatio \<Rightarrow> ExactRatio \<Rightarrow> EvidenceAgeBounds result" where
  "mk_EvidenceAgeBounds lower upper =
     bindR (ensure (0 \<le> er_fraction lower \<and> er_fraction lower \<le> er_fraction upper)
              (DomainValidationError ''evidence-age bounds must satisfy 0 <= lower <= upper'')) (\<lambda>_.
     Inr \<lparr>ea_lower = lower, ea_upper = upper\<rparr>)"

definition age_ratio :: "py_datetime \<Rightarrow> int \<Rightarrow> py_datetime \<Rightarrow> ExactRatio result" where
  "age_ratio evaluated_at sla_seconds observed_at =
     ratio_of_fraction (of_int (dt_instant evaluated_at - dt_instant observed_at) / of_int (sla_seconds * 1000000))"

definition evidence_age_bounds ::
    "py_datetime \<Rightarrow> py_datetime \<Rightarrow> py_datetime \<Rightarrow> int \<Rightarrow> EvidenceAgeBounds result" where
  "evidence_age_bounds evaluated_at observed_at_lower observed_at_upper sla_seconds =
     bindR (ensure (dt_aware evaluated_at \<and> dt_aware observed_at_lower \<and> dt_aware observed_at_upper)
              (DomainValidationError ''evidence times must be timezone-aware'')) (\<lambda>_.
     bindR (ensure (1 \<le> sla_seconds)
              (DomainValidationError ''evidence SLA must be a positive integer number of seconds'')) (\<lambda>_.
     bindR (ensure (dt_instant observed_at_lower \<le> dt_instant observed_at_upper
                    \<and> dt_instant observed_at_upper \<le> dt_instant evaluated_at)
              (DomainValidationError ''evidence time bounds must precede evaluation'')) (\<lambda>_.
     bindR (age_ratio evaluated_at sla_seconds observed_at_upper) (\<lambda>lower.
     bindR (age_ratio evaluated_at sla_seconds observed_at_lower) (\<lambda>upper.
     mk_EvidenceAgeBounds lower upper)))))"

definition aggregate_evidence_age_bounds :: "EvidenceAgeBounds list \<Rightarrow> EvidenceAgeBounds result" where
  "aggregate_evidence_age_bounds items =
     (if items = []
      then bindR (mk_ExactRatio (PInt 0) (PInt 1)) (\<lambda>zero. mk_EvidenceAgeBounds zero zero)
      else
        bindR (ratio_of_fraction (Max (set (map (\<lambda>i. er_fraction (ea_lower i)) items)))) (\<lambda>lower.
        bindR (ratio_of_fraction (Max (set (map (\<lambda>i. er_fraction (ea_upper i)) items)))) (\<lambda>upper.
        mk_EvidenceAgeBounds lower upper)))"

section \<open>Plans and ordering keys\<close>

record OrderingBounds =
  ob_preference :: PreferenceScoreBounds
  ob_stack_risk :: RiskBounds
  ob_total_cost :: CostBounds
  ob_coverage :: CoverageBounds
  ob_age_ratio :: EvidenceAgeBounds

record BoundedPlan =
  bp_plan_id :: string
  bp_status :: CandidateStatus
  bp_stable_action_ids :: "string list"
  bp_bounds :: "OrderingBounds option"
  bp_unavailable_reasons :: "string list"

definition mk_BoundedPlan :: "BoundedPlan \<Rightarrow> BoundedPlan result" where
  "mk_BoundedPlan p =
     bindR (require_id (bp_plan_id p) ''plan_id'') (\<lambda>_.
     bindR (ensure (bp_status p \<in> {CandidateStatus.ELIGIBLE, CandidateStatus.ELIGIBLE_WITH_EXCEPTION})
              (DomainValidationError ''only eligible plans receive authoritative ordering bounds'')) (\<lambda>_.
     bindR (ensure (bp_stable_action_ids p \<noteq> [])
              (DomainValidationError ''a bounded plan requires stable action IDs'')) (\<lambda>_.
     bindR (foldR (\<lambda>i _. require_id i ''stable_action_id'') (bp_stable_action_ids p) ()) (\<lambda>_.
     bindR (ensure ((bp_bounds p = None) = (bp_unavailable_reasons p \<noteq> []))
              (DomainValidationError ''missing bounds require exact BOUND_UNAVAILABLE reasons'')) (\<lambda>_.
     Inr p)))))"

definition bp_status_rank :: "BoundedPlan \<Rightarrow> int" where
  "bp_status_rank p = (if bp_status p = CandidateStatus.ELIGIBLE then 0 else 1)"

definition require_bounds :: "BoundedPlan \<Rightarrow> OrderingBounds result" where
  "require_bounds p =
     (case bp_bounds p of
        None \<Rightarrow> Inl (DomainValidationError ''BOUND_UNAVAILABLE plans cannot receive an ordering key'')
      | Some b \<Rightarrow> Inr b)"

definition authoritative_ordering_key :: "BoundedPlan \<Rightarrow> rank_key result" where
  "authoritative_ordering_key p =
     bindR (require_bounds p) (\<lambda>b.
     Inr (bp_status_rank p, - er_fraction (ps_conservative (ob_preference b)),
          StackRisk_rank (rb_base (ob_stack_risk b)), decimal_value (m_amount (co_base (ob_total_cost b))),
          - er_fraction (cb_conservative (ob_coverage b)), er_fraction (ea_upper (ob_age_ratio b)),
          bp_stable_action_ids p, bp_plan_id p))"

definition conservative_envelope_key :: "BoundedPlan \<Rightarrow> rank_key result" where
  "conservative_envelope_key p =
     bindR (require_bounds p) (\<lambda>b.
     Inr (bp_status_rank p, - er_fraction (ps_conservative (ob_preference b)),
          StackRisk_rank (rb_upper (ob_stack_risk b)), decimal_value (m_amount (co_high (ob_total_cost b))),
          - er_fraction (cb_conservative (ob_coverage b)), er_fraction (ea_upper (ob_age_ratio b)),
          bp_stable_action_ids p, bp_plan_id p))"

definition optimistic_envelope_key :: "BoundedPlan \<Rightarrow> rank_key result" where
  "optimistic_envelope_key p =
     bindR (require_bounds p) (\<lambda>b.
     Inr (bp_status_rank p, - er_fraction (ps_optimistic (ob_preference b)),
          StackRisk_rank (rb_lower (ob_stack_risk b)), decimal_value (m_amount (co_low (ob_total_cost b))),
          - er_fraction (cb_optimistic (ob_coverage b)), er_fraction (ea_lower (ob_age_ratio b)),
          bp_stable_action_ids p, bp_plan_id p))"

record RankStabilityResult =
  rs_status :: RankStability
  rs_frontier :: "string list"
  rs_unavailable :: "string list"

definition assess_rank_stability :: "BoundedPlan \<Rightarrow> BoundedPlan list \<Rightarrow> RankStabilityResult result" where
  "assess_rank_stability selected competitors =
     (let unavailable = sort (map bp_plan_id (filter (\<lambda>p. bp_bounds p = None) (selected # competitors)))
      in if unavailable \<noteq> []
         then Inr \<lparr>rs_status = RankStability.UNDETERMINED, rs_frontier = [], rs_unavailable = unavailable\<rparr>
         else
           bindR (conservative_envelope_key selected) (\<lambda>selected_worst.
           bindR (traverse (\<lambda>p. mapR_res (\<lambda>key. (key, p)) (optimistic_envelope_key p)) competitors) (\<lambda>keyed.
           let frontier = sort (map (\<lambda>(key, p). bp_plan_id p) (filter (\<lambda>(key, p). key < selected_worst) keyed))
           in Inr \<lparr>rs_status = (if frontier \<noteq> [] then RankStability.UNSTABLE else RankStability.STABLE),
                   rs_frontier = frontier, rs_unavailable = []\<rparr>)))"

section \<open>Ratios are kept in lowest terms\<close>

lemma mk_ExactRatio_quotient:
  assumes "d \<noteq> 0"
  shows "mk_ExactRatio (PInt n) (PInt d)
    = Inr \<lparr>er_numerator = fst (quotient_of (Fract n d)), er_denominator = snd (quotient_of (Fract n d))\<rparr>"
  using assms
  by (auto simp: mk_ExactRatio_def Let_def quotient_of_Fract Rat.normalize_def div_minus_right)

lemma er_fraction_quotient:
  "er_fraction \<lparr>er_numerator = fst (quotient_of q), er_denominator = snd (quotient_of q)\<rparr> = q"
  using quotient_of_div [of q] by (cases "quotient_of q") (simp add: er_fraction_def)

lemma ratio_of_fraction_eq:
  "ratio_of_fraction q = Inr \<lparr>er_numerator = fst (quotient_of q), er_denominator = snd (quotient_of q)\<rparr>"
proof (cases "quotient_of q")
  case (Pair n d)
  then have "d \<noteq> 0" "Fract n d = q"
    using quotient_of_denom_pos [OF Pair] quotient_of_div [OF Pair] by (auto simp: Fract_of_int_quotient)
  with Pair mk_ExactRatio_quotient [of d n] show ?thesis by (simp add: ratio_of_fraction_def)
qed

lemma ratio_of_fraction_ok: "\<exists>r. ratio_of_fraction q = Inr r \<and> er_fraction r = q"
  by (simp add: ratio_of_fraction_eq er_fraction_quotient)



section \<open>The preference interval is exactly the range of the score\<close>

lemma weighted_percent_mono:
  assumes "\<And>c. c \<in> set cs \<Longrightarrow> 0 \<le> w c" "\<And>c. c \<in> set cs \<Longrightarrow> s c \<le> t c"
  shows "weighted_percent w s cs \<le> weighted_percent w t cs"
proof -
  have "0 \<le> (\<Sum>c \<leftarrow> cs. w c)" using assms(1) by (intro sum_list_nonneg) auto
  moreover have "(\<Sum>c \<leftarrow> cs. of_int (w c) * s c) \<le> (\<Sum>c \<leftarrow> cs. of_int (w c) * t c)"
    using assms by (intro sum_list_mono) (simp add: mult_left_mono)
  ultimately show ?thesis by (simp add: weighted_percent_def divide_right_mono)
qed

lemma weighted_percent_mix:
  "weighted_percent w (\<lambda>c. s c + k * (t c - s c)) cs
    = weighted_percent w s cs + k * (weighted_percent w t cs - weighted_percent w s cs)"
proof -
  let ?s = "\<Sum>c \<leftarrow> cs. of_int (w c) * s c" and ?t = "\<Sum>c \<leftarrow> cs. of_int (w c) * t c"
  have sum: "(\<Sum>c \<leftarrow> cs. of_int (w c) * (s c + k * (t c - s c))) = ?s + k * (?t - ?s)"
    by (induction cs) (simp_all add: algebra_simps)
  have "100 * (a + k * (b - a)) / d = 100 * a / d + k * (100 * b / d - 100 * a / d)" for a b d :: rat
    by (simp add: add_divide_distrib diff_divide_distrib algebra_simps)
  then show ?thesis unfolding weighted_percent_def sum .
qed

lemma weighted_percent_const:
  assumes "(\<Sum>c \<leftarrow> cs. w c) \<noteq> 0"
  shows "weighted_percent w (\<lambda>_. k) cs = 100 * k"
proof -
  have "(\<Sum>c \<leftarrow> cs. of_int (w c) * k) = of_int (\<Sum>c \<leftarrow> cs. w c) * k"
    by (induction cs) (simp_all add: algebra_simps)
  with assms show ?thesis by (simp add: weighted_percent_def)
qed

definition satisfaction_within :: "PreferenceCriterionBound list \<Rightarrow> (PreferenceCriterionBound \<Rightarrow> rat) \<Rightarrow> bool" where
  "satisfaction_within criteria s =
     list_all (\<lambda>c. er_fraction (pb_conservative c) \<le> s c \<and> s c \<le> er_fraction (pb_optimistic c)) criteria"

lemma criterion_constructed:
  assumes "mk_PreferenceCriterionBound c = Inr b"
  shows "1 \<le> pb_weight c" "0 \<le> er_fraction (pb_conservative c)"
    "er_fraction (pb_conservative c) \<le> er_fraction (pb_optimistic c)" "er_fraction (pb_optimistic c) \<le> 1"
  using assms by (auto simp: mk_PreferenceCriterionBound_def result_simps)

lemma positive_total: "(\<And>c. c \<in> set cs \<Longrightarrow> 1 \<le> w c) \<Longrightarrow> cs \<noteq> [] \<Longrightarrow> 0 < (\<Sum>c \<leftarrow> cs. w c :: int)"
proof (induction cs)
  case (Cons c cs)
  have "0 \<le> (\<Sum>c \<leftarrow> cs. w c)" using Cons.prems(1) by (intro sum_list_nonneg) force
  moreover have "1 \<le> w c" using Cons.prems(1) by simp
  ultimately show ?case by simp
qed simp

lemma unique_ids: "distinct xs \<Longrightarrow> length (remdups xs) = length xs"
  by (simp add: distinct_remdups_id)

lemma aggregate_preference_ok:
  assumes cs: "criteria \<noteq> []" "distinct (map pb_criterion_id criteria)"
    and con: "\<forall>c\<in>set criteria. mk_PreferenceCriterionBound c = Inr c"
  shows "\<exists>b. aggregate_preference_bounds criteria = Inr b
    \<and> er_fraction (ps_conservative b) = weighted_percent pb_weight (\<lambda>c. er_fraction (pb_conservative c)) criteria
    \<and> er_fraction (ps_optimistic b) = weighted_percent pb_weight (\<lambda>c. er_fraction (pb_optimistic c)) criteria
    \<and> 0 \<le> er_fraction (ps_conservative b) \<and> er_fraction (ps_conservative b) \<le> er_fraction (ps_optimistic b)
    \<and> er_fraction (ps_optimistic b) \<le> 100"
proof -
  let ?lo = "weighted_percent pb_weight (\<lambda>c. er_fraction (pb_conservative c)) criteria"
  let ?hi = "weighted_percent pb_weight (\<lambda>c. er_fraction (pb_optimistic c)) criteria"
  have bounds: "1 \<le> pb_weight c" "0 \<le> er_fraction (pb_conservative c)"
      "er_fraction (pb_conservative c) \<le> er_fraction (pb_optimistic c)" "er_fraction (pb_optimistic c) \<le> 1"
    if "c \<in> set criteria" for c
    using con that criterion_constructed by blast+
  have total: "0 < (\<Sum>c \<leftarrow> criteria. pb_weight c)" using bounds(1) cs(1) by (rule positive_total)
  have w: "0 \<le> pb_weight c" if "c \<in> set criteria" for c using bounds(1) [OF that] by simp
  have "weighted_percent pb_weight (\<lambda>_. 0) criteria \<le> ?lo" "?lo \<le> ?hi" "?hi \<le> weighted_percent pb_weight (\<lambda>_. 1) criteria"
    using w bounds by (auto intro!: weighted_percent_mono)
  then have range: "0 \<le> ?lo" "?lo \<le> ?hi" "?hi \<le> 100" using total by (simp_all add: weighted_percent_const)
  obtain lo hi where r: "ratio_of_fraction ?lo = Inr lo" "er_fraction lo = ?lo"
      "ratio_of_fraction ?hi = Inr hi" "er_fraction hi = ?hi"
    using ratio_of_fraction_ok by metis
  with range cs total show ?thesis
    by (simp add: aggregate_preference_bounds_def mk_PreferenceScoreBounds_def unique_ids)
qed

text \<open>
  C38. The preference interval is sound and tight: over constructed criteria with distinct identifiers the
  aggregation succeeds, stays between 0 and 100, contains the weighted score of every satisfaction
  assignment within the criteria's own bounds, and every value of the interval is such a score.
\<close>

theorem preference_bounds_tight:
  assumes "criteria \<noteq> []" "distinct (map pb_criterion_id criteria)"
    and "\<forall>c\<in>set criteria. mk_PreferenceCriterionBound c = Inr c"
  shows "\<exists>b. aggregate_preference_bounds criteria = Inr b
    \<and> 0 \<le> er_fraction (ps_conservative b) \<and> er_fraction (ps_optimistic b) \<le> 100
    \<and> {q. er_fraction (ps_conservative b) \<le> q \<and> q \<le> er_fraction (ps_optimistic b)}
      = {weighted_percent pb_weight s criteria | s. satisfaction_within criteria s}"
proof -
  let ?l = "\<lambda>c. er_fraction (pb_conservative c)" and ?h = "\<lambda>c. er_fraction (pb_optimistic c)"
  obtain b where b: "aggregate_preference_bounds criteria = Inr b"
    "er_fraction (ps_conservative b) = weighted_percent pb_weight ?l criteria"
    "er_fraction (ps_optimistic b) = weighted_percent pb_weight ?h criteria"
    "0 \<le> er_fraction (ps_conservative b)" "er_fraction (ps_conservative b) \<le> er_fraction (ps_optimistic b)"
    "er_fraction (ps_optimistic b) \<le> 100"
    using aggregate_preference_ok [OF assms] by blast
  have con: "0 \<le> pb_weight c" "?l c \<le> ?h c" if "c \<in> set criteria" for c
    using assms(3) that criterion_constructed by fastforce+
  have "weighted_percent pb_weight ?l criteria \<le> weighted_percent pb_weight s criteria"
    "weighted_percent pb_weight s criteria \<le> weighted_percent pb_weight ?h criteria"
    if "satisfaction_within criteria s" for s
    using con that by (auto intro!: weighted_percent_mono simp: satisfaction_within_def list_all_iff)
  moreover have "\<exists>s. q = weighted_percent pb_weight s criteria \<and> satisfaction_within criteria s"
    if q: "weighted_percent pb_weight ?l criteria \<le> q" "q \<le> weighted_percent pb_weight ?h criteria" for q
  proof -
    let ?k = "(q - weighted_percent pb_weight ?l criteria)
      / (weighted_percent pb_weight ?h criteria - weighted_percent pb_weight ?l criteria)"
    have k: "0 \<le> ?k" "?k \<le> 1" using q by (simp_all add: divide_le_eq)
    have mix: "l \<le> l + k * (h - l) \<and> l + k * (h - l) \<le> h" if "0 \<le> k" "k \<le> 1" "l \<le> h" for k l h :: rat
      using that mult_right_mono [of k 1 "h - l"] by simp
    have "satisfaction_within criteria (\<lambda>c. ?l c + ?k * (?h c - ?l c))"
      unfolding satisfaction_within_def list_all_iff using mix [OF k] con(2) by blast
    moreover have "weighted_percent pb_weight (\<lambda>c. ?l c + ?k * (?h c - ?l c)) criteria = q"
      unfolding weighted_percent_mix using q by (cases "weighted_percent pb_weight ?h criteria = weighted_percent pb_weight ?l criteria") simp_all
    ultimately show ?thesis by metis
  qed
  ultimately show ?thesis using b by (intro exI [of _ b]) (auto simp: set_eq_iff)
qed

definition sample_criterion :: PreferenceCriterionBound where
  "sample_criterion = \<lparr>pb_criterion_id = ''speed'', pb_weight = 2,
     pb_conservative = \<lparr>er_numerator = 1, er_denominator = 4\<rparr>,
     pb_optimistic = \<lparr>er_numerator = 3, er_denominator = 4\<rparr>\<rparr>"

lemma preference_bounds_tight_witness:
  "aggregate_preference_bounds [sample_criterion]
     = Inr \<lparr>ps_conservative = \<lparr>er_numerator = 25, er_denominator = 1\<rparr>,
            ps_optimistic = \<lparr>er_numerator = 75, er_denominator = 1\<rparr>\<rparr>
   \<and> (\<exists>s. satisfaction_within [sample_criterion] s \<and> weighted_percent pb_weight s [sample_criterion] = 60)"
proof -
  have c: "mk_PreferenceCriterionBound sample_criterion = Inr sample_criterion" by code_simp
  have a: "aggregate_preference_bounds [sample_criterion]
     = Inr \<lparr>ps_conservative = \<lparr>er_numerator = 25, er_denominator = 1\<rparr>,
            ps_optimistic = \<lparr>er_numerator = 75, er_denominator = 1\<rparr>\<rparr>" by code_simp
  have "{q. 25 \<le> q \<and> q \<le> 75} = {weighted_percent pb_weight s [sample_criterion] | s. satisfaction_within [sample_criterion] s}"
    (is "?I = ?S")
    using preference_bounds_tight [of "[sample_criterion]"] c a by (simp add: er_fraction_def)
  moreover have "(60 :: rat) \<in> ?I" by simp
  ultimately have "60 \<in> ?S" by blast
  with a show ?thesis by auto
qed

section \<open>Coverage and risk intervals\<close>

lemma covered_fraction_mono:
  assumes "\<And>c. c \<in> set cs \<Longrightarrow> 1 \<le> cc_weight c" "\<And>c. c \<in> set cs \<Longrightarrow> f c \<Longrightarrow> g c"
  shows "covered_fraction f cs \<le> covered_fraction g cs"
proof -
  have "0 \<le> (\<Sum>c \<leftarrow> cs. cc_weight c)" using assms(1) by (intro sum_list_nonneg) force
  moreover have "(\<Sum>c \<leftarrow> filter f cs. cc_weight c) \<le> (\<Sum>c \<leftarrow> filter g cs. cc_weight c)"
    using assms by (induction cs) fastforce+
  ultimately show ?thesis
    unfolding covered_fraction_def by (intro divide_right_mono) simp_all
qed

lemma covered_fraction_range:
  assumes "\<And>c. c \<in> set cs \<Longrightarrow> 1 \<le> cc_weight c" "cs \<noteq> []"
  shows "0 \<le> covered_fraction f cs" "covered_fraction f cs \<le> 1"
proof -
  have pos: "0 < (\<Sum>c \<leftarrow> cs. cc_weight c)" using assms by (rule positive_total)
  have "covered_fraction (\<lambda>_. False) cs \<le> covered_fraction f cs" "covered_fraction f cs \<le> covered_fraction (\<lambda>_. True) cs"
    using assms(1) by (auto intro!: covered_fraction_mono)
  with pos show "0 \<le> covered_fraction f cs" "covered_fraction f cs \<le> 1" by (simp_all add: covered_fraction_def)
qed

lemma coverage_constructed:
  assumes "mk_CoverageCriterion c = Inr d"
  shows "1 \<le> cc_weight c" "cc_conservative_covered c \<Longrightarrow> cc_optimistic_covered c"
  using assms by (auto simp: mk_CoverageCriterion_def result_simps)

text \<open>
  Coverage bounds are an interval around every coverage the criteria allow: aggregation over
  constructed criteria with distinct identifiers succeeds with bounds between 0 and 1, and whichever
  undecided criteria turn out covered, the covered share of the weight lies between them.
\<close>

theorem coverage_bounds_sound:
  assumes "\<forall>c\<in>set criteria. mk_CoverageCriterion c = Inr c" "distinct (map cc_criterion_id criteria)"
  shows "\<exists>b. aggregate_coverage_bounds criteria = Inr b
    \<and> 0 \<le> er_fraction (cb_conservative b) \<and> er_fraction (cb_conservative b) \<le> er_fraction (cb_optimistic b)
    \<and> er_fraction (cb_optimistic b) \<le> 1
    \<and> (\<forall>covered. criteria \<noteq> []
         \<and> list_all (\<lambda>c. (cc_conservative_covered c \<longrightarrow> covered c) \<and> (covered c \<longrightarrow> cc_optimistic_covered c)) criteria
         \<longrightarrow> er_fraction (cb_conservative b) \<le> covered_fraction covered criteria
           \<and> covered_fraction covered criteria \<le> er_fraction (cb_optimistic b))"
proof (cases "criteria = []")
  case True
  then show ?thesis
    by (simp add: aggregate_coverage_bounds_def mk_ExactRatio_def er_fraction_def)
next
  case False
  let ?lo = "covered_fraction cc_conservative_covered criteria" and ?hi = "covered_fraction cc_optimistic_covered criteria"
  have w: "1 \<le> cc_weight c" and sub: "cc_conservative_covered c \<Longrightarrow> cc_optimistic_covered c"
    if "c \<in> set criteria" for c
    using assms(1) that coverage_constructed by blast+
  obtain lo hi where r: "ratio_of_fraction ?lo = Inr lo" "er_fraction lo = ?lo"
      "ratio_of_fraction ?hi = Inr hi" "er_fraction hi = ?hi"
    using ratio_of_fraction_ok by metis
  have agg: "aggregate_coverage_bounds criteria = Inr \<lparr>cb_conservative = lo, cb_optimistic = hi\<rparr>"
    using False assms(2) positive_total [of criteria cc_weight, OF w False] r
    by (simp add: aggregate_coverage_bounds_def unique_ids)
  have "?lo \<le> ?hi" using w sub by (rule covered_fraction_mono)
  moreover have "?lo \<le> covered_fraction f criteria" "covered_fraction f criteria \<le> ?hi"
    if "list_all (\<lambda>c. (cc_conservative_covered c \<longrightarrow> f c) \<and> (f c \<longrightarrow> cc_optimistic_covered c)) criteria" for f
    using that w by (auto intro!: covered_fraction_mono simp: list_all_iff)
  ultimately show ?thesis
    using agg r covered_fraction_range [of criteria, OF w False] by auto
qed

definition sample_coverage :: CoverageCriterion where
  "sample_coverage = \<lparr>cc_criterion_id = ''sso'', cc_weight = 3, cc_conservative_covered = False,
     cc_optimistic_covered = True\<rparr>"

lemma coverage_bounds_sound_witness:
  "aggregate_coverage_bounds [sample_coverage]
     = Inr \<lparr>cb_conservative = \<lparr>er_numerator = 0, er_denominator = 1\<rparr>,
            cb_optimistic = \<lparr>er_numerator = 1, er_denominator = 1\<rparr>\<rparr>
   \<and> covered_fraction (\<lambda>_. True) [sample_coverage] \<le> 1"
proof -
  have c: "mk_CoverageCriterion sample_coverage = Inr sample_coverage" by code_simp
  have a: "aggregate_coverage_bounds [sample_coverage]
     = Inr \<lparr>cb_conservative = \<lparr>er_numerator = 0, er_denominator = 1\<rparr>,
            cb_optimistic = \<lparr>er_numerator = 1, er_denominator = 1\<rparr>\<rparr>" by code_simp
  have "list_all (\<lambda>c. (cc_conservative_covered c \<longrightarrow> True) \<and> (True \<longrightarrow> cc_optimistic_covered c)) [sample_coverage]"
    by (simp add: sample_coverage_def)
  then have "covered_fraction (\<lambda>_. True) [sample_coverage] \<le> 1"
    using coverage_bounds_sound [of "[sample_coverage]"] c a by (force simp: er_fraction_def)
  with a show ?thesis by blast
qed

section \<open>Envelopes of an ordering\<close>

text \<open>
  What the stability verdict asks of a pair of envelope keys: for an admissible plan they bound the key
  of each outcome within the plan's bounds, and both are keys of such an outcome.
\<close>

locale ordering_envelope =
  fixes admissible :: "'p \<Rightarrow> bool" and possible :: "'p \<Rightarrow> 'o \<Rightarrow> bool"
    and key :: "'p \<Rightarrow> 'o \<Rightarrow> 'k::linorder" and best worst :: "'p \<Rightarrow> 'k"
  assumes best_le: "admissible p \<Longrightarrow> possible p x \<Longrightarrow> best p \<le> key p x"
    and le_worst: "admissible p \<Longrightarrow> possible p x \<Longrightarrow> key p x \<le> worst p"
    and best_attained: "admissible p \<Longrightarrow> \<exists>x. possible p x \<and> key p x = best p"
    and worst_attained: "admissible p \<Longrightarrow> \<exists>x. possible p x \<and> key p x = worst p"
begin

lemma undercut_iff:
  assumes "admissible p" "admissible q"
  shows "best q < worst p \<longleftrightarrow> (\<exists>x y. possible p x \<and> possible q y \<and> key q y < key p x)"
  using best_le [OF assms(2)] le_worst [OF assms(1)] best_attained [OF assms(2)] worst_attained [OF assms(1)]
  by (metis le_less_trans less_le_trans)

lemma best_le_worst: "admissible p \<Longrightarrow> best p \<le> worst p"
  using best_le best_attained le_worst by (metis order_trans)

lemma stable_iff:
  assumes "admissible p" "\<And>q. q \<in> Q \<Longrightarrow> admissible q"
  shows "(\<forall>q\<in>Q. \<not> best q < worst p)
    \<longleftrightarrow> (\<forall>q\<in>Q. \<forall>x y. possible p x \<longrightarrow> possible q y \<longrightarrow> key p x \<le> key q y)"
  using undercut_iff [OF assms(1)] assms(2) by (meson linorder_not_le)

end

text \<open>One way the uncertain components of a plan may turn out, and the key it then has.\<close>

record outcome =
  oc_preference :: rat
  oc_risk :: StackRisk
  oc_cost :: rat
  oc_coverage :: rat
  oc_age :: rat

definition outcome_key :: "BoundedPlan \<Rightarrow> outcome \<Rightarrow> rank_key" where
  "outcome_key p x =
     (bp_status_rank p, - oc_preference x, StackRisk_rank (oc_risk x), oc_cost x, - oc_coverage x, oc_age x,
      bp_stable_action_ids p, bp_plan_id p)"

definition low_outcome :: "OrderingBounds \<Rightarrow> outcome" where
  "low_outcome b =
     \<lparr>oc_preference = er_fraction (ps_conservative (ob_preference b)), oc_risk = rb_lower (ob_stack_risk b),
      oc_cost = decimal_value (m_amount (co_low (ob_total_cost b))),
      oc_coverage = er_fraction (cb_conservative (ob_coverage b)), oc_age = er_fraction (ea_lower (ob_age_ratio b))\<rparr>"

definition high_outcome :: "OrderingBounds \<Rightarrow> outcome" where
  "high_outcome b =
     \<lparr>oc_preference = er_fraction (ps_optimistic (ob_preference b)), oc_risk = rb_upper (ob_stack_risk b),
      oc_cost = decimal_value (m_amount (co_high (ob_total_cost b))),
      oc_coverage = er_fraction (cb_optimistic (ob_coverage b)), oc_age = er_fraction (ea_upper (ob_age_ratio b))\<rparr>"

definition between :: "outcome \<Rightarrow> outcome \<Rightarrow> outcome \<Rightarrow> bool" where
  "between l x h =
     (oc_preference l \<le> oc_preference x \<and> oc_preference x \<le> oc_preference h
      \<and> oc_risk l \<le> oc_risk x \<and> oc_risk x \<le> oc_risk h \<and> oc_cost l \<le> oc_cost x \<and> oc_cost x \<le> oc_cost h
      \<and> oc_coverage l \<le> oc_coverage x \<and> oc_coverage x \<le> oc_coverage h
      \<and> oc_age l \<le> oc_age x \<and> oc_age x \<le> oc_age h)"

definition plan_bounds :: "BoundedPlan \<Rightarrow> OrderingBounds" where
  "plan_bounds p = (case bp_bounds p of Some b \<Rightarrow> b | None \<Rightarrow> undefined)"

definition outcome_within :: "BoundedPlan \<Rightarrow> outcome \<Rightarrow> bool" where
  "outcome_within p x = between (low_outcome (plan_bounds p)) x (high_outcome (plan_bounds p))"

definition best_key :: "BoundedPlan \<Rightarrow> rank_key" where
  "best_key p = (case optimistic_envelope_key p of Inr k \<Rightarrow> k | Inl _ \<Rightarrow> undefined)"

definition worst_key :: "BoundedPlan \<Rightarrow> rank_key" where
  "worst_key p = (case conservative_envelope_key p of Inr k \<Rightarrow> k | Inl _ \<Rightarrow> undefined)"

text \<open>
  Bounds whose parts went through their constructors. Coverage bounds have no check of their own; the
  aggregation orders them.
\<close>

definition constructed_bounds :: "OrderingBounds \<Rightarrow> bool" where
  "constructed_bounds b =
     (mk_PreferenceScoreBounds (ps_conservative (ob_preference b)) (ps_optimistic (ob_preference b)) = Inr (ob_preference b)
      \<and> mk_RiskBounds (ob_stack_risk b) = Inr (ob_stack_risk b)
      \<and> mk_CostBounds (ob_total_cost b) = Inr (ob_total_cost b)
      \<and> dec_finite (m_amount (co_low (ob_total_cost b))) \<and> dec_finite (m_amount (co_base (ob_total_cost b)))
      \<and> dec_finite (m_amount (co_high (ob_total_cost b)))
      \<and> er_fraction (cb_conservative (ob_coverage b)) \<le> er_fraction (cb_optimistic (ob_coverage b))
      \<and> mk_EvidenceAgeBounds (ea_lower (ob_age_ratio b)) (ea_upper (ob_age_ratio b)) = Inr (ob_age_ratio b))"

definition constructed_plan :: "BoundedPlan \<Rightarrow> bool" where
  "constructed_plan p = (case bp_bounds p of None \<Rightarrow> True | Some b \<Rightarrow> constructed_bounds b)"

definition bounded_plan :: "BoundedPlan \<Rightarrow> bool" where
  "bounded_plan p = (case bp_bounds p of None \<Rightarrow> False | Some b \<Rightarrow> constructed_bounds b)"

lemma dec_le_value: "dec_finite a \<Longrightarrow> dec_finite b \<Longrightarrow> dec_le a b = Inr (decimal_value a \<le> decimal_value b)"
  by (cases a; cases b) (auto simp: dec_le_def decimal_value_def)

lemma constructed_cost:
  assumes "mk_CostBounds b = Inr c"
    "dec_finite (m_amount (co_low b))" "dec_finite (m_amount (co_base b))" "dec_finite (m_amount (co_high b))"
  shows "decimal_value (m_amount (co_low b)) \<le> decimal_value (m_amount (co_base b))"
    "decimal_value (m_amount (co_base b)) \<le> decimal_value (m_amount (co_high b))"
  using assms by (auto simp: mk_CostBounds_def dec_le_value Let_def result_simps)

lemma constructed_between:
  assumes "constructed_bounds b"
  shows "between (low_outcome b) (low_outcome b) (high_outcome b)" "between (low_outcome b) (high_outcome b) (high_outcome b)"
proof -
  have "decimal_value (m_amount (co_low (ob_total_cost b))) \<le> decimal_value (m_amount (co_high (ob_total_cost b)))"
    using assms constructed_cost [of "ob_total_cost b"] unfolding constructed_bounds_def by (meson order_trans)
  with assms show "between (low_outcome b) (low_outcome b) (high_outcome b)"
    "between (low_outcome b) (high_outcome b) (high_outcome b)"
    by (auto simp: constructed_bounds_def between_def low_outcome_def high_outcome_def less_eq_StackRisk_def
        mk_PreferenceScoreBounds_def mk_RiskBounds_def mk_EvidenceAgeBounds_def result_simps)
qed

lemma lex_mono: "a \<le> b \<Longrightarrow> c \<le> d \<Longrightarrow> (a :: 'a::linorder, c :: 'b::linorder) \<le> (b, d)"
  by (auto simp: less_eq_prod_def)

text \<open>The best corner of the box takes the good end of every component, the worst corner the bad end.\<close>

definition best_outcome :: "OrderingBounds \<Rightarrow> outcome" where
  "best_outcome b =
     (low_outcome b)\<lparr>oc_preference := oc_preference (high_outcome b), oc_coverage := oc_coverage (high_outcome b)\<rparr>"

definition worst_outcome :: "OrderingBounds \<Rightarrow> outcome" where
  "worst_outcome b =
     (high_outcome b)\<lparr>oc_preference := oc_preference (low_outcome b), oc_coverage := oc_coverage (low_outcome b)\<rparr>"

lemma envelope_keys:
  assumes "bp_bounds p = Some b"
  shows "optimistic_envelope_key p = Inr (outcome_key p (best_outcome b))"
    "conservative_envelope_key p = Inr (outcome_key p (worst_outcome b))"
  using assms
  by (simp_all add: optimistic_envelope_key_def conservative_envelope_key_def require_bounds_def outcome_key_def
      best_outcome_def worst_outcome_def low_outcome_def high_outcome_def)

lemma bounded_plan_cases:
  assumes "bounded_plan p"
  obtains b where "bp_bounds p = Some b" "plan_bounds p = b" "constructed_bounds b"
    "best_key p = outcome_key p (best_outcome b)" "worst_key p = outcome_key p (worst_outcome b)"
  using assms envelope_keys
  by (auto simp: bounded_plan_def plan_bounds_def best_key_def worst_key_def split: option.splits)

lemma outcome_key_mono:
  assumes "between l x h"
  shows "outcome_key p (l\<lparr>oc_preference := oc_preference h, oc_coverage := oc_coverage h\<rparr>) \<le> outcome_key p x"
    "outcome_key p x \<le> outcome_key p (h\<lparr>oc_preference := oc_preference l, oc_coverage := oc_coverage l\<rparr>)"
  using assms by (auto simp: outcome_key_def between_def less_eq_StackRisk_def intro!: lex_mono)

lemma corners_between:
  assumes "constructed_bounds b"
  shows "between (low_outcome b) (best_outcome b) (high_outcome b)" "between (low_outcome b) (worst_outcome b) (high_outcome b)"
  using constructed_between [OF assms] by (simp_all add: between_def best_outcome_def worst_outcome_def)

interpretation plan_envelope: ordering_envelope bounded_plan outcome_within outcome_key best_key worst_key
proof
  fix p x
  assume p: "bounded_plan p"
  then obtain b where b: "plan_bounds p = b" "constructed_bounds b"
    "best_key p = outcome_key p (best_outcome b)" "worst_key p = outcome_key p (worst_outcome b)"
    by (elim bounded_plan_cases)
  show "\<exists>x. outcome_within p x \<and> outcome_key p x = best_key p" "\<exists>x. outcome_within p x \<and> outcome_key p x = worst_key p"
    using b corners_between [OF b(2)] by (auto simp: outcome_within_def)
  assume "outcome_within p x"
  with b outcome_key_mono [of _ x _ p] show "best_key p \<le> outcome_key p x" "outcome_key p x \<le> worst_key p"
    by (simp_all add: outcome_within_def best_outcome_def worst_outcome_def)
qed

section \<open>The rank-stability verdict\<close>

lemma sort_nil: "sort xs = [] \<longleftrightarrow> xs = []"
  by (metis length_0_conv length_sort)

lemma bounded_plan_iff: "constructed_plan p \<Longrightarrow> bounded_plan p \<longleftrightarrow> bp_bounds p \<noteq> None"
  by (auto simp: constructed_plan_def bounded_plan_def split: option.splits)

lemma bounded_keys:
  assumes "bounded_plan p"
  shows "optimistic_envelope_key p = Inr (best_key p)" "conservative_envelope_key p = Inr (worst_key p)"
  using assms envelope_keys by (auto elim!: bounded_plan_cases)

lemma assess_bounded:
  assumes "bounded_plan s" "\<And>c. c \<in> set cs \<Longrightarrow> bounded_plan c"
  shows "assess_rank_stability s cs
    = (let frontier = sort (map bp_plan_id (filter (\<lambda>c. best_key c < worst_key s) cs))
       in Inr \<lparr>rs_status = (if frontier \<noteq> [] then RankStability.UNSTABLE else RankStability.STABLE),
               rs_frontier = frontier, rs_unavailable = []\<rparr>)"
proof -
  have "bp_bounds p \<noteq> None" if "p \<in> set (s # cs)" for p
    using that assms by (auto elim!: bounded_plan_cases)
  then have none: "filter (\<lambda>p. bp_bounds p = None) (s # cs) = []" by (simp add: filter_empty_conv)
  have keyed: "traverse (\<lambda>p. mapR_res (\<lambda>key. (key, p)) (optimistic_envelope_key p)) cs
      = Inr (map (\<lambda>p. (best_key p, p)) cs)"
    using assms(2) bounded_keys(1) by (intro traverse_ok) simp
  show ?thesis
    unfolding assess_rank_stability_def Let_def none keyed bounded_keys(2) [OF assms(1)]
    by (simp add: filter_map comp_def)
qed

lemma assess_unavailable:
  assumes "\<exists>p\<in>set (s # cs). bp_bounds p = None"
  shows "assess_rank_stability s cs
    = Inr \<lparr>rs_status = RankStability.UNDETERMINED, rs_frontier = [],
           rs_unavailable = sort (map bp_plan_id (filter (\<lambda>p. bp_bounds p = None) (s # cs)))\<rparr>"
proof -
  have "sort (map bp_plan_id (filter (\<lambda>p. bp_bounds p = None) (s # cs))) \<noteq> []"
    using assms by (metis (mono_tags) filter_empty_conv map_is_Nil_conv set_empty set_sort)
  then show ?thesis unfolding assess_rank_stability_def Let_def by (rule if_P)
qed

text \<open>
  C31. The verdict is exact: over constructed plans the assessment always returns; it is UNDETERMINED exactly
  when some plan lacks bounds; otherwise it is STABLE exactly when the selected plan keeps a key no greater
  than every competitor's in every outcome within the bounds of the two, and the frontier names exactly the
  competitors that some pair of outcomes lets undercut the selected plan.
\<close>

theorem rank_stability_exact:
  assumes "\<forall>p\<in>set (selected # competitors). constructed_plan p"
  shows "\<exists>r. assess_rank_stability selected competitors = Inr r
    \<and> (rs_status r = RankStability.UNDETERMINED) = (\<exists>p\<in>set (selected # competitors). bp_bounds p = None)
    \<and> (rs_status r = RankStability.UNDETERMINED
        \<or> (rs_status r = RankStability.STABLE)
            = (\<forall>c\<in>set competitors. \<forall>x y. outcome_within selected x \<longrightarrow> outcome_within c y
                 \<longrightarrow> outcome_key selected x \<le> outcome_key c y)
          \<and> set (rs_frontier r) = {bp_plan_id c | c. c \<in> set competitors
              \<and> (\<exists>x y. outcome_within selected x \<and> outcome_within c y \<and> outcome_key c y < outcome_key selected x)})"
proof (cases "\<exists>p\<in>set (selected # competitors). bp_bounds p = None")
  case True
  then show ?thesis by (simp add: assess_unavailable)
next
  case False
  let ?f = "filter (\<lambda>c. best_key c < worst_key selected) competitors"
  have sel: "bounded_plan selected" and com: "bounded_plan c" if "c \<in> set competitors" for c
    using assms False bounded_plan_iff that by (metis list.set_intros)+
  have s: "bounded_plan selected" using assms False bounded_plan_iff by (metis list.set_intros(1))
  have frontier: "set ?f = {c \<in> set competitors. \<exists>x y. outcome_within selected x \<and> outcome_within c y
      \<and> outcome_key c y < outcome_key selected x}"
    using plan_envelope.undercut_iff [OF s com] by auto
  have "?f = [] \<longleftrightarrow> (\<forall>c\<in>set competitors. \<not> best_key c < worst_key selected)"
    by (simp add: filter_empty_conv)
  also have "\<dots> \<longleftrightarrow> (\<forall>c\<in>set competitors. \<forall>x y. outcome_within selected x \<longrightarrow> outcome_within c y
      \<longrightarrow> outcome_key selected x \<le> outcome_key c y)"
    by (rule plan_envelope.stable_iff [OF s com])
  finally have stable: "?f = [] \<longleftrightarrow> (\<forall>c\<in>set competitors. \<forall>x y. outcome_within selected x \<longrightarrow> outcome_within c y
      \<longrightarrow> outcome_key selected x \<le> outcome_key c y)" .
  have empty: "sort (map bp_plan_id ?f) = [] \<longleftrightarrow> ?f = []" by (simp only: sort_nil map_is_Nil_conv)
  have ids: "set (sort (map bp_plan_id ?f)) = {bp_plan_id c | c. c \<in> set ?f}" by auto
  let ?r = "\<lparr>rs_status = (if sort (map bp_plan_id ?f) \<noteq> [] then RankStability.UNSTABLE else RankStability.STABLE),
             rs_frontier = sort (map bp_plan_id ?f), rs_unavailable = []\<rparr>"
  have r: "assess_rank_stability selected competitors = Inr ?r"
    using assess_bounded [OF s com] by (simp only: Let_def)
  show ?thesis
  proof (intro exI [of _ ?r] conjI r disjI2)
    show "(rs_status ?r = RankStability.UNDETERMINED) = (\<exists>p\<in>set (selected # competitors). bp_bounds p = None)"
      using False by simp
    show "(rs_status ?r = RankStability.STABLE)
        = (\<forall>c\<in>set competitors. \<forall>x y. outcome_within selected x \<longrightarrow> outcome_within c y
             \<longrightarrow> outcome_key selected x \<le> outcome_key c y)"
      unfolding stable [symmetric] empty [symmetric] RankStabilityResult.select_convs by simp
    show "set (rs_frontier ?r) = {bp_plan_id c | c. c \<in> set competitors
        \<and> (\<exists>x y. outcome_within selected x \<and> outcome_within c y \<and> outcome_key c y < outcome_key selected x)}"
      unfolding RankStabilityResult.select_convs ids frontier by blast
  qed
qed

definition sample_bounds :: "int \<Rightarrow> int \<Rightarrow> OrderingBounds" where
  "sample_bounds low high =
     \<lparr>ob_preference = \<lparr>ps_conservative = \<lparr>er_numerator = low, er_denominator = 1\<rparr>,
                       ps_optimistic = \<lparr>er_numerator = high, er_denominator = 1\<rparr>\<rparr>,
      ob_stack_risk = \<lparr>rb_lower = StackRisk.LOW, rb_base = StackRisk.LOW, rb_upper = StackRisk.HIGH\<rparr>,
      ob_total_cost = \<lparr>co_low = \<lparr>m_amount = Dec 1 2, m_currency = ''USD''\<rparr>,
                       co_base = \<lparr>m_amount = Dec 1 2, m_currency = ''USD''\<rparr>,
                       co_high = \<lparr>m_amount = Dec 2 2, m_currency = ''USD''\<rparr>\<rparr>,
      ob_coverage = \<lparr>cb_conservative = \<lparr>er_numerator = 1, er_denominator = 2\<rparr>,
                     cb_optimistic = \<lparr>er_numerator = 1, er_denominator = 1\<rparr>\<rparr>,
      ob_age_ratio = \<lparr>ea_lower = \<lparr>er_numerator = 0, er_denominator = 1\<rparr>,
                      ea_upper = \<lparr>er_numerator = 1, er_denominator = 1\<rparr>\<rparr>\<rparr>"

definition sample_bounded :: "string \<Rightarrow> int \<Rightarrow> int \<Rightarrow> BoundedPlan" where
  "sample_bounded i low high =
     \<lparr>bp_plan_id = i, bp_status = CandidateStatus.ELIGIBLE, bp_stable_action_ids = [''BUY''],
      bp_bounds = Some (sample_bounds low high), bp_unavailable_reasons = []\<rparr>"

lemma rank_stability_exact_witness:
  "assess_rank_stability (sample_bounded ''p1'' 60 70) [sample_bounded ''p2'' 10 50]
     = Inr \<lparr>rs_status = RankStability.STABLE, rs_frontier = [], rs_unavailable = []\<rparr>
   \<and> outcome_key (sample_bounded ''p1'' 60 70) (worst_outcome (sample_bounds 60 70))
      \<le> outcome_key (sample_bounded ''p2'' 10 50) (best_outcome (sample_bounds 10 50))"
proof -
  let ?s = "sample_bounded ''p1'' 60 70" and ?c = "sample_bounded ''p2'' 10 50"
  have con: "list_all constructed_plan [?s, ?c]" by code_simp
  have a: "assess_rank_stability ?s [?c]
     = Inr \<lparr>rs_status = RankStability.STABLE, rs_frontier = [], rs_unavailable = []\<rparr>" by code_simp
  have "outcome_within ?s (worst_outcome (sample_bounds 60 70))" "outcome_within ?c (best_outcome (sample_bounds 10 50))"
    by code_simp+
  with rank_stability_exact [of ?s "[?c]"] con a show ?thesis by (simp add: list_all_iff)
qed

end
