(* ===== verification/GraphModels.thy ===== *)
theory GraphModels
  imports Bounds
begin

text \<open>
  \<^verbatim>\<open>decision_engine/graph_v1_models.py\<close>: the frozen facts, candidates, evidence, policies and rules
  a decision graph is evaluated on. Each record is stored as its \<open>mk_\<close> function returns it.
\<close>

section \<open>Enumerations and values\<close>

datatype EvidenceState = ACCEPTABLE | UNKNOWN | STALE | CONFLICT

datatype GateMode = REQUIRE_MATCH | BLOCK_ON_MATCH

datatype NormalizationKind = BOOLEAN_EQUALS | SET_CONTAINS_ALL | LOWER_IS_BETTER | OUTCOME_RATE

text \<open>\<^verbatim>\<open>FactValue\<close>: a scalar or a tuple of strings, and the value \<^verbatim>\<open>content_hash\<close> sees.\<close>

datatype fact_value = FStr string | FInt int | FBool bool | FNone | FTuple "string list"

fun fact_pyval :: "fact_value \<Rightarrow> pyval" where
  "fact_pyval (FStr s) = PStr s"
| "fact_pyval (FInt i) = PInt i"
| "fact_pyval (FBool b) = PBool b"
| "fact_pyval FNone = PNone"
| "fact_pyval (FTuple xs) = PTuple (map PStr xs)"

fun fact_is_bool :: "fact_value \<Rightarrow> bool" where
  "fact_is_bool (FBool _) = True"
| "fact_is_bool _ = False"

fun fact_is_tuple :: "fact_value \<Rightarrow> bool" where
  "fact_is_tuple (FTuple _) = True"
| "fact_is_tuple _ = False"

text \<open>
  \<^verbatim>\<open>a < b\<close> of two datetimes: by instant when both are aware, by the clock when both are naive,
  TypeError otherwise.
\<close>

definition dt_less :: "py_datetime \<Rightarrow> py_datetime \<Rightarrow> bool result" where
  "dt_less a b =
     (if dt_aware a \<noteq> dt_aware b then Inl TypeError
      else if dt_aware a then Inr (dt_instant a < dt_instant b) else Inr (dt_local a < dt_local b))"

definition require_ids :: "string list \<Rightarrow> string \<Rightarrow> unit result" where
  "require_ids ids name = foldR (\<lambda>i _. require_id i name) ids ()"

section \<open>Frozen facts\<close>

record FrozenVersions =
  fv_request :: string
  fv_company_profile :: string
  fv_stackfile :: string
  fv_registry :: string
  fv_pack_set :: string
  fv_offer_set :: string
  fv_taxonomy :: string
  fv_normalization :: string
  fv_policy :: string
  fv_fx :: string
  fv_pipeline :: string
  fv_engine :: string

definition mk_FrozenVersions :: "FrozenVersions \<Rightarrow> FrozenVersions result" where
  "mk_FrozenVersions v =
     bindR (ensure ([] \<notin> set [fv_request v, fv_company_profile v, fv_stackfile v, fv_registry v, fv_pack_set v,
                             fv_offer_set v, fv_taxonomy v, fv_normalization v, fv_policy v, fv_fx v,
                             fv_pipeline v, fv_engine v])
              (DomainValidationError ''every Decision Graph input version must be frozen'')) (\<lambda>_. Inr v)"

record FactProvenance =
  fp_provider :: string
  fp_content_id :: string
  fp_source_version_id :: string
  fp_chunk_index :: int
  fp_retrieved_at :: py_datetime
  fp_source_mode :: string
  fp_evidence_hash :: "string option"

definition mk_FactProvenance :: "FactProvenance \<Rightarrow> FactProvenance result" where
  "mk_FactProvenance p =
     bindR (ensure (fp_provider p \<noteq> [] \<and> fp_content_id p \<noteq> [] \<and> fp_source_version_id p \<noteq> [])
              (DomainValidationError ''fact provenance requires provider content and version'')) (\<lambda>_.
     bindR (ensure (0 \<le> fp_chunk_index p \<and> dt_aware (fp_retrieved_at p))
              (DomainValidationError ''fact provenance requires chunk index and timestamp'')) (\<lambda>_.
     bindR (ensure (fp_source_mode p \<in> {''PRODUCTION_PROVIDER'', ''DEVELOPMENT_FIXTURE'', ''MANUAL_INPUT'',
                       ''CANONICAL_STACKFILE'', ''SYSTEM_OBSERVATION''})
              (DomainValidationError ''unsupported fact provenance mode'')) (\<lambda>_.
     bindR (ensure (case fp_evidence_hash p of None \<Rightarrow> True | Some h \<Rightarrow> prefix ''sha256:'' h)
              (DomainValidationError ''fact provenance evidence hash must be SHA-256'')) (\<lambda>_. Inr p))))"

record FrozenFact =
  ff_fact_id :: string
  ff_field :: string
  ff_value :: fact_value
  ff_private :: bool
  ff_version :: string
  ff_role :: string
  ff_authority_level :: string
  ff_authority_rank :: int
  ff_provenance :: "FactProvenance option"

definition mk_FrozenFact :: "FrozenFact \<Rightarrow> FrozenFact result" where
  "mk_FrozenFact f =
     bindR (require_id (ff_fact_id f) ''fact_id'') (\<lambda>_.
     bindR (ensure (ff_field f \<noteq> [] \<and> ff_version f \<noteq> [] \<and> ff_role f \<noteq> [])
              (DomainValidationError ''a frozen fact requires field and version'')) (\<lambda>_.
     bindR (ensure (0 \<le> ff_authority_rank f \<and> ff_authority_level f \<noteq> [])
              (DomainValidationError ''a frozen fact requires non-negative actor authority'')) (\<lambda>_. Inr f)))"

definition provenance_pyval :: "FactProvenance \<Rightarrow> pyval" where
  "provenance_pyval p = PData
     [(''provider'', PStr (fp_provider p)), (''content_id'', PStr (fp_content_id p)),
      (''source_version_id'', PStr (fp_source_version_id p)), (''chunk_index'', PInt (fp_chunk_index p)),
      (''retrieved_at'', datetime_pyval (fp_retrieved_at p)), (''source_mode'', PStr (fp_source_mode p)),
      (''evidence_hash'', (case fp_evidence_hash p of None \<Rightarrow> PNone | Some h \<Rightarrow> PStr h))] None"

definition FrozenFact_to_hash_payload :: "FrozenFact \<Rightarrow> pyval" where
  "FrozenFact_to_hash_payload f = PDict
     ([(PStr ''fact_id'', PStr (ff_fact_id f)), (PStr ''field'', PStr (ff_field f)),
       (PStr ''value'', fact_pyval (ff_value f)), (PStr ''private'', PBool (ff_private f)),
       (PStr ''version'', PStr (ff_version f))]
      @ (if ff_role f \<noteq> ''unknown'' \<or> ff_authority_level f \<noteq> ''UNKNOWN'' \<or> ff_authority_rank f \<noteq> 0
            \<or> ff_provenance f \<noteq> None
         then [(PStr ''asserted_by_role'', PStr (ff_role f)),
               (PStr ''authority_level'', PStr (ff_authority_level f)),
               (PStr ''authority_rank'', PInt (ff_authority_rank f)),
               (PStr ''provenance'', (case ff_provenance f of None \<Rightarrow> PNone | Some p \<Rightarrow> provenance_pyval p))]
         else []))"

record ActorConflictResolution =
  ac_field :: string
  ac_fact_ids :: "string list"
  ac_selected_fact_id :: string
  ac_selected_role :: string
  ac_decided_by_role :: string
  ac_strategy :: string
  ac_reason :: string

definition mk_ActorConflictResolution :: "ActorConflictResolution \<Rightarrow> ActorConflictResolution result" where
  "mk_ActorConflictResolution r =
     bindR (ensure (ac_field r \<noteq> [] \<and> ac_selected_role r \<noteq> [] \<and> ac_decided_by_role r \<noteq> [] \<and> ac_reason r \<noteq> [])
              (DomainValidationError ''actor conflict resolution fields are required'')) (\<lambda>_.
     bindR (ensure (ac_strategy r \<in> {''AUTHORITY_PRECEDENCE'', ''EXPLICIT_OWNER_DECISION''})
              (DomainValidationError ''unsupported actor conflict resolution strategy'')) (\<lambda>_.
     let normalized = sorted_set (ac_fact_ids r)
     in bindR (ensure (2 \<le> length normalized \<and> ac_selected_fact_id r \<in> set normalized)
                 (DomainValidationError ''actor conflict resolution must select a conflicting fact'')) (\<lambda>_.
        bindR (require_ids normalized ''conflicting_fact_id'') (\<lambda>_.
        Inr (r\<lparr>ac_fact_ids := normalized\<rparr>)))))"

record ProductFact =
  pf_field :: string
  pf_value :: fact_value
  pf_evidence_ids :: "string list"
  pf_component_id :: "string option"

definition mk_ProductFact :: "ProductFact \<Rightarrow> ProductFact result" where
  "mk_ProductFact f =
     bindR (ensure (pf_field f \<noteq> []) (DomainValidationError ''a product fact requires a field'')) (\<lambda>_.
     let ids = sorted_set (pf_evidence_ids f)
     in bindR (require_ids ids ''evidence_id'') (\<lambda>_.
        bindR (case pf_component_id f of None \<Rightarrow> Inr () | Some c \<Rightarrow> require_id c ''fact_component_id'') (\<lambda>_.
        Inr (f\<lparr>pf_evidence_ids := ids\<rparr>))))"

section \<open>Evidence\<close>

record EvidenceRecord =
  ev_evidence_id :: string
  ev_record_id :: string
  ev_source_class :: string
  ev_method :: string
  ev_scope :: string
  ev_reconstructable :: bool
  ev_lower :: "py_datetime option"
  ev_upper :: "py_datetime option"
  ev_disputed :: bool
  ev_revoked :: bool

definition check_observed :: "py_datetime option \<Rightarrow> py_datetime option \<Rightarrow> unit result" where
  "check_observed lower upper =
     (case (lower, upper) of
        (Some l, Some u) \<Rightarrow>
          bindR (dt_less u l) (\<lambda>reversed.
          ensure (\<not> reversed) (DomainValidationError ''evidence time bounds are reversed''))
      | (None, None) \<Rightarrow> Inr ()
      | _ \<Rightarrow> Inl (DomainValidationError ''both evidence observed-time bounds are required together''))"

definition mk_EvidenceRecord :: "EvidenceRecord \<Rightarrow> EvidenceRecord result" where
  "mk_EvidenceRecord r =
     bindR (require_id (ev_evidence_id r) ''evidence_id'') (\<lambda>_.
     bindR (require_id (ev_record_id r) ''record_id'') (\<lambda>_.
     bindR (ensure (ev_source_class r \<noteq> [] \<and> ev_method r \<noteq> [] \<and> ev_scope r \<noteq> [])
              (DomainValidationError ''evidence provenance is required'')) (\<lambda>_.
     bindR (check_observed (ev_lower r) (ev_upper r)) (\<lambda>_. Inr r))))"

record EvidencePolicy =
  ep_field :: string
  ep_source_classes :: "string list"
  ep_methods :: "string list"
  ep_required_scope :: string
  ep_sla_seconds :: int

definition mk_EvidencePolicy :: "EvidencePolicy \<Rightarrow> EvidencePolicy result" where
  "mk_EvidencePolicy p =
     bindR (ensure (ep_field p \<noteq> [] \<and> ep_required_scope p \<noteq> [] \<and> 1 \<le> ep_sla_seconds p)
              (DomainValidationError ''an evidence policy requires scope and a positive SLA'')) (\<lambda>_. Inr p)"

record EvidenceAssessment =
  as_evidence_id :: string
  as_record_id :: string
  as_field :: string
  as_source_allowed :: bool
  as_method_allowed :: bool
  as_scope_match :: bool
  as_reconstructable :: bool
  as_freshness_current :: "bool option"
  as_disputed :: bool
  as_revoked :: bool
  as_state :: EvidenceState
  as_reasons :: "string list"
  as_age_bounds :: "EvidenceAgeBounds option"

section \<open>Candidates and offers\<close>

record RawCandidateRecord =
  rc_record_id :: string
  rc_pack_id :: string
  rc_pack_version :: int
  rc_seller_id :: string
  rc_product_id :: string
  rc_edition :: string
  rc_region :: string
  rc_offer_id :: string
  rc_authority :: PackAuthority
  rc_available :: bool
  rc_facts :: "ProductFact list"
  rc_seller_gate_ids :: "string list"
  rc_aliases :: "string list"
  rc_category_ids :: "string list"
  rc_jtbd_ids :: "string list"
  rc_pack_status :: string
  rc_required_product_ids :: "string list"

definition normalized_candidate :: "RawCandidateRecord \<Rightarrow> RawCandidateRecord" where
  "normalized_candidate r =
     r\<lparr>rc_seller_gate_ids := sorted_set (rc_seller_gate_ids r), rc_aliases := sorted_set (rc_aliases r),
       rc_category_ids := sorted_set (rc_category_ids r), rc_jtbd_ids := sorted_set (rc_jtbd_ids r),
       rc_required_product_ids := sorted_set (rc_required_product_ids r)\<rparr>"

definition mk_RawCandidateRecord :: "RawCandidateRecord \<Rightarrow> RawCandidateRecord result" where
  "mk_RawCandidateRecord r =
     bindR (require_id (rc_record_id r) ''record_id'') (\<lambda>_.
     bindR (require_id (rc_pack_id r) ''pack_id'') (\<lambda>_.
     bindR (require_id (rc_seller_id r) ''seller_id'') (\<lambda>_.
     bindR (require_id (rc_product_id r) ''product_id'') (\<lambda>_.
     bindR (require_id (rc_offer_id r) ''offer_id'') (\<lambda>_.
     bindR (ensure (1 \<le> rc_pack_version r \<and> rc_edition r \<noteq> [] \<and> rc_region r \<noteq> [])
              (DomainValidationError ''candidate identity and positive Pack version are required'')) (\<lambda>_.
     bindR (ensure (rc_pack_status r \<in> {''PUBLISHED'', ''REVOKED'', ''SUPERSEDED''})
              (DomainValidationError ''unsupported candidate Pack status'')) (\<lambda>_.
     let n = normalized_candidate r
     in bindR (require_ids (rc_category_ids n @ rc_jtbd_ids n @ rc_required_product_ids n)
                 ''candidate classification or dependency'') (\<lambda>_. Inr n))))))))"

record CostLineItem =
  li_type :: string
  li_low :: Money
  li_base :: Money
  li_high :: Money
  li_schedule_version :: "string option"

definition cost_line_types :: "string list" where
  "cost_line_types = [''MERCHANT_SUBTOTAL'', ''SIRA_TRANSACTION_FEE'', ''TAX'', ''CONTRACT_COST'',
     ''MIGRATION_COST'', ''IMPLEMENTATION_COST'']"

definition mk_CostLineItem :: "CostLineItem \<Rightarrow> CostLineItem result" where
  "mk_CostLineItem i =
     bindR (ensure (li_type i \<in> set cost_line_types)
              (DomainValidationError ''unsupported Decision Ledger cost line-item type'')) (\<lambda>_. Inr i)"

record OfferCost =
  off_offer_id :: string
  off_low :: "Money option"
  off_base :: "Money option"
  off_high :: "Money option"
  off_horizon_days :: int
  off_line_items :: "CostLineItem list"
  off_payment_required :: bool

definition mk_OfferCost :: "OfferCost \<Rightarrow> OfferCost result" where
  "mk_OfferCost c =
     bindR (require_id (off_offer_id c) ''offer_id'') (\<lambda>_.
     bindR (ensure (1 \<le> off_horizon_days c)
              (DomainValidationError ''an offer cost requires a positive comparison horizon'')) (\<lambda>_.
     bindR (ensure (off_payment_required c
                    \<or> \<not> list_ex (\<lambda>i. li_type i = ''SIRA_TRANSACTION_FEE'') (off_line_items c))
              (DomainValidationError ''a non-payment action cannot contain a transaction fee'')) (\<lambda>_. Inr c)))"

section \<open>Identity and recall\<close>

record IdentityNormalization =
  in_version :: string
  in_aliases :: "(string \<times> string) list"

definition mk_IdentityNormalization :: "IdentityNormalization \<Rightarrow> IdentityNormalization result" where
  "mk_IdentityNormalization n =
     bindR (ensure (in_version n \<noteq> [])
              (DomainValidationError ''identity normalization requires a version'')) (\<lambda>_.
     let normalized = sort (map (\<lambda>(source, target). (fold_strip source, fold_strip target)) (in_aliases n))
     in bindR (ensure (length (remdups (map fst normalized)) = length normalized)
                 (DomainValidationError ''identity aliases must be unique'')) (\<lambda>_.
        Inr (n\<lparr>in_aliases := normalized\<rparr>)))"

record IdentityRecord =
  ir_canonical_id :: string
  ir_seller_id :: string
  ir_product_id :: string
  ir_edition :: string
  ir_region :: string
  ir_record_ids :: "string list"
  ir_pack_ids :: "string list"
  ir_offer_ids :: "string list"

record IdentityMerge =
  im_canonical_id :: string
  im_merged_record_id :: string
  im_reasons :: "string list"

record RecallExclusion =
  rx_record_id :: string
  rx_reason_code :: string
  rx_detail :: string

definition mk_RecallExclusion :: "string \<Rightarrow> string \<Rightarrow> string \<Rightarrow> RecallExclusion result" where
  "mk_RecallExclusion record_id reason_code detail =
     bindR (require_id record_id ''excluded_record_id'') (\<lambda>_.
     bindR (ensure (reason_code \<in> {''CATEGORY_MISMATCH'', ''JTBD_MISMATCH'', ''REGION_UNSUPPORTED'',
                       ''PACK_REVOKED'', ''PACK_SUPERSEDED''})
              (DomainValidationError ''unsupported recall exclusion reason'')) (\<lambda>_.
     bindR (ensure (detail \<noteq> []) (DomainValidationError ''recall exclusion requires detail'')) (\<lambda>_.
     Inr \<lparr>rx_record_id = record_id, rx_reason_code = reason_code, rx_detail = detail\<rparr>)))"

record RecallPolicy =
  rp_category_id :: string
  rp_jtbd_id :: string
  rp_allowed_regions :: "string list"

definition mk_RecallPolicy :: "RecallPolicy \<Rightarrow> RecallPolicy result" where
  "mk_RecallPolicy p =
     bindR (require_id (rp_category_id p) ''recall_category_id'') (\<lambda>_.
     bindR (require_id (rp_jtbd_id p) ''recall_jtbd_id'') (\<lambda>_.
     let normalized = sorted_set (rp_allowed_regions p)
     in bindR (ensure (normalized \<noteq> []) (DomainValidationError ''recall policy requires an allowed region'')) (\<lambda>_.
        Inr (p\<lparr>rp_allowed_regions := normalized\<rparr>))))"

record RecallResult =
  rr_identities :: "IdentityRecord list"
  rr_merges :: "IdentityMerge list"
  rr_representatives :: "RawCandidateRecord list"
  rr_exclusions :: "RecallExclusion list"
  rr_raw_record_count :: nat

section \<open>Gates, preferences and risk rules\<close>

record FactPredicate =
  pd_field :: string
  pd_operator :: string
  pd_value :: fact_value

definition mk_Predicate :: "FactPredicate \<Rightarrow> FactPredicate result" where
  "mk_Predicate p =
     bindR (ensure (pd_field p \<noteq> [] \<and> pd_operator p \<noteq> [])
              (DomainValidationError ''a gate predicate requires field and operator'')) (\<lambda>_. Inr p)"

record GateRule =
  gr_gate_id :: string
  gr_predicates :: "FactPredicate list"
  gr_mode :: GateMode
  gr_blocked_status :: CandidateStatus
  gr_reason_code :: string
  gr_source_fact_ids :: "string list"
  gr_applies_to :: "SolutionAction list"
  gr_evidence_claim_ids :: "string list"
  gr_permitted_resolution :: "string option"
  gr_overridable :: bool

definition mk_GateRule :: "GateRule \<Rightarrow> GateRule result" where
  "mk_GateRule g =
     bindR (require_id (gr_gate_id g) ''gate_id'') (\<lambda>_.
     bindR (ensure (gr_predicates g \<noteq> [] \<and> gr_reason_code g \<noteq> [])
              (DomainValidationError ''a gate requires predicates and a reason'')) (\<lambda>_.
     Inr (g\<lparr>gr_source_fact_ids := sorted_set (gr_source_fact_ids g),
            gr_evidence_claim_ids := sorted_set (gr_evidence_claim_ids g)\<rparr>)))"

record GateReason =
  gn_reason_code :: string
  gn_status :: CandidateStatus
  gn_detail :: string

record GateResult =
  gt_gate_id :: string
  gt_truth :: TruthValue
  gt_reasons :: "GateReason list"
  gt_evaluated :: "string list"
  gt_permitted_resolution :: "string option"

record PreferenceCriterion =
  pc_criterion_id :: string
  pc_field :: string
  pc_weight :: int
  pc_coverage_weight :: int
  pc_normalization :: NormalizationKind
  pc_expected :: fact_value
  pc_source_fact_ids :: "string list"
  pc_applies_to :: "SolutionAction list"
  pc_allowed :: "ExactRatio list"
  pc_points :: "(int \<times> ExactRatio) list"
  pc_unknown_upper :: "ExactRatio option"
  pc_permitted_resolution :: "string option"
  pc_neutral_prior :: "ExactRatio option"
  pc_aggregation :: string

definition optional_in :: "'a option \<Rightarrow> 'a list \<Rightarrow> bool" where
  "optional_in v allowed = (case v of None \<Rightarrow> True | Some x \<Rightarrow> x \<in> set allowed)"

text \<open>
  \<^verbatim>\<open>sorted(points)\<close> compares two ratios, which have no order, when two points share a bound and
  differ in value.
\<close>

definition sorted_points :: "(int \<times> ExactRatio) list \<Rightarrow> (int \<times> ExactRatio) list result" where
  "sorted_points points =
     (if distinct (map fst (remdups points)) then Inr (sort_key fst points) else Inl TypeError)"

definition check_normalization :: "PreferenceCriterion \<Rightarrow> ExactRatio list \<Rightarrow> unit result" where
  "check_normalization c allowed =
     bindR (ensure (optional_in (pc_unknown_upper c) allowed)
              (DomainValidationError ''unknown preference bound must be in the declared domain'')) (\<lambda>_.
     bindR (ensure (optional_in (pc_neutral_prior c) allowed)
              (DomainValidationError ''neutral outcome prior must be in the declared domain'')) (\<lambda>_.
     bindR (ensure (pc_normalization c = LOWER_IS_BETTER \<longrightarrow> pc_points c \<noteq> [])
              (DomainValidationError ''numeric normalization requires piecewise points'')) (\<lambda>_.
     bindR (ensure (pc_normalization c = LOWER_IS_BETTER \<longrightarrow> snd ` set (pc_points c) \<subseteq> set allowed)
              (DomainValidationError ''piecewise values must be in the declared domain'')) (\<lambda>_.
     bindR (ensure (pc_normalization c = SET_CONTAINS_ALL \<longrightarrow> fact_is_tuple (pc_expected c))
              (DomainValidationError ''set normalization requires a finite expected set'')) (\<lambda>_.
     ensure (pc_normalization c = OUTCOME_RATE \<longrightarrow> pc_neutral_prior c \<noteq> None)
       (DomainValidationError ''an outcome preference requires an explicit neutral prior''))))))"

definition mk_PreferenceCriterion :: "PreferenceCriterion \<Rightarrow> PreferenceCriterion result" where
  "mk_PreferenceCriterion c =
     bindR (require_id (pc_criterion_id c) ''criterion_id'') (\<lambda>_.
     bindR (ensure (pc_field c \<noteq> [] \<and> 1 \<le> pc_weight c \<and> pc_weight c \<le> 5
                    \<and> 1 \<le> pc_coverage_weight c \<and> pc_coverage_weight c \<le> 5)
              (DomainValidationError ''preference and coverage weights must be integers from 1 to 5'')) (\<lambda>_.
     let allowed = sort_key er_fraction (remdups (pc_allowed c))
     in bindR (ensure (allowed \<noteq> [] \<and> 0 \<le> er_fraction (hd allowed) \<and> er_fraction (last allowed) \<le> 1)
                 (DomainValidationError ''normalization must declare a finite satisfaction domain'')) (\<lambda>_.
        bindR (ensure (\<lparr>er_numerator = 0, er_denominator = 1\<rparr> \<in> set allowed)
                 (DomainValidationError ''normalization must define the zero satisfaction bound'')) (\<lambda>_.
        bindR (ensure (pc_aggregation c \<in> {''PRIMARY_COMPONENT'', ''ALL'', ''ANY'', ''MIN'', ''MAX'', ''SUM'', ''UNION''})
                 (DomainValidationError ''unsupported plan field aggregation'')) (\<lambda>_.
        bindR (check_normalization c allowed) (\<lambda>_.
        bindR (sorted_points (pc_points c)) (\<lambda>points.
        Inr (c\<lparr>pc_allowed := allowed, pc_source_fact_ids := sorted_set (pc_source_fact_ids c),
               pc_points := points\<rparr>))))))))"

record RiskRule =
  rk_rule_id :: string
  rk_actions :: "SolutionAction list"
  rk_predicate :: "FactPredicate option"
  rk_bounds :: RiskBounds
  rk_missing_lower :: "StackRisk option"
  rk_missing_base :: "StackRisk option"
  rk_missing_upper :: "StackRisk option"

definition check_missing_risk :: "RiskRule \<Rightarrow> unit result" where
  "check_missing_risk r =
     (case (rk_missing_lower r, rk_missing_base r, rk_missing_upper r) of
        (None, None, None) \<Rightarrow> Inr ()
      | (Some l, Some b, Some u) \<Rightarrow>
          mapR_res (\<lambda>_. ()) (mk_RiskBounds \<lparr>rb_lower = l, rb_base = b, rb_upper = u\<rparr>)
      | _ \<Rightarrow> Inl (DomainValidationError ''a risk missing-input bound requires lower/base/upper''))"

definition mk_RiskRule :: "RiskRule \<Rightarrow> RiskRule result" where
  "mk_RiskRule r =
     bindR (require_id (rk_rule_id r) ''rule_id'') (\<lambda>_.
     bindR (ensure (rk_actions r \<noteq> []) (DomainValidationError ''a risk rule requires an action scope'')) (\<lambda>_.
     bindR (mk_RiskBounds (rk_bounds r)) (\<lambda>_.
     bindR (check_missing_risk r) (\<lambda>_. Inr r))))"

section \<open>Actions, outcomes and the input\<close>

record CurrentActionRecord =
  ca_action_id :: string
  ca_action :: SolutionAction
  ca_instance_id :: string
  ca_facts :: "ProductFact list"
  ca_cost :: OfferCost
  ca_available :: bool
  ca_permitted_resolution :: "string option"

definition mk_CurrentActionRecord :: "CurrentActionRecord \<Rightarrow> CurrentActionRecord result" where
  "mk_CurrentActionRecord a =
     bindR (require_id (ca_action_id a) ''action_id'') (\<lambda>_.
     bindR (require_id (ca_instance_id a) ''instance_id'') (\<lambda>_. Inr a))"

record OutcomeObservation =
  oo_subject_id :: string
  oo_criterion_id :: string
  oo_value :: ExactRatio
  oo_evidence_ids :: "string list"
  oo_source_fact_ids :: "string list"

definition mk_OutcomeObservation :: "OutcomeObservation \<Rightarrow> OutcomeObservation result" where
  "mk_OutcomeObservation o' =
     bindR (require_id (oo_subject_id o') ''outcome_subject_id'') (\<lambda>_.
     bindR (require_id (oo_criterion_id o') ''outcome_criterion_id'') (\<lambda>_.
     Inr (o'\<lparr>oo_evidence_ids := sorted_set (oo_evidence_ids o'),
             oo_source_fact_ids := sorted_set (oo_source_fact_ids o')\<rparr>)))"

record DecisionGraphInput =
  di_versions :: FrozenVersions
  di_evaluated_at :: py_datetime
  di_buyer_facts :: "FrozenFact list"
  di_candidates :: "RawCandidateRecord list"
  di_offers :: "OfferCost list"
  di_evidence :: "EvidenceRecord list"
  di_policies :: "EvidencePolicy list"
  di_gates :: "GateRule list"
  di_preferences :: "PreferenceCriterion list"
  di_risk_rules :: "RiskRule list"
  di_risk_rules_complete :: bool
  di_current_actions :: "CurrentActionRecord list"
  di_identity :: IdentityNormalization
  di_outcomes :: "OutcomeObservation list"
  di_removed :: "string list"
  di_resolutions :: "ActorConflictResolution list"
  di_recall_policy :: "RecallPolicy option"

definition unique_groups :: "DecisionGraphInput \<Rightarrow> (string \<times> string list) list" where
  "unique_groups d =
     [(''buyer fact'', map ff_fact_id (di_buyer_facts d)), (''candidate record'', map rc_record_id (di_candidates d)),
      (''offer'', map off_offer_id (di_offers d)), (''evidence'', map ev_evidence_id (di_evidence d)),
      (''evidence policy'', map ep_field (di_policies d)), (''gate'', map gr_gate_id (di_gates d)),
      (''preference'', map pc_criterion_id (di_preferences d)), (''risk rule'', map rk_rule_id (di_risk_rules d)),
      (''current action'', map ca_action_id (di_current_actions d))]"

definition mk_DecisionGraphInput :: "DecisionGraphInput \<Rightarrow> DecisionGraphInput result" where
  "mk_DecisionGraphInput d =
     bindR (ensure (dt_aware (di_evaluated_at d))
              (DomainValidationError ''evaluated_at must be timezone-aware'')) (\<lambda>_.
     bindR (foldR (\<lambda>(label, ids) _. ensure (length (remdups ids) = length ids)
                     (DomainValidationError (label @ '' identifiers must be unique''))) (unique_groups d) ()) (\<lambda>_.
     Inr d))"

lemma mk_DecisionGraphInput_distinct:
  assumes "mk_DecisionGraphInput d = Inr e"
  shows "e = d \<and> dt_aware (di_evaluated_at d) \<and> (\<forall>(label, ids)\<in>set (unique_groups d). distinct ids)"
proof -
  have eq: "(\<lambda>(label, ids) _. ensure (length (remdups ids) = length ids)
        (DomainValidationError (label @ '' identifiers must be unique'')))
      = (\<lambda>g (_ :: unit). ensure (length (remdups (snd g)) = length (snd g))
        (DomainValidationError (fst g @ '' identifiers must be unique'')))"
    by (simp add: fun_eq_iff split: prod.splits)
  have "length (remdups ids) = length ids \<longleftrightarrow> distinct ids" for ids :: "string list"
    by (metis card_distinct distinct_remdups_id length_remdups_card_conv)
  then show ?thesis
    using assms unfolding mk_DecisionGraphInput_def eq
    by (auto simp: result_simps foldR_unit_iff)
qed

end
