(* ===== verification/GraphRecall.thy ===== *)
theory GraphRecall
  imports GraphModels
begin

text \<open>
  \<^verbatim>\<open>decision_engine/graph_v1_recall.py\<close>: identity normalisation, recall with exclusion reasons,
  collapsing of duplicate candidates into one representative per identity, and the assessment of every
  decision-material evidence record. \<^verbatim>\<open>content_hash\<close> is the argument \<open>H\<close>.
\<close>

section \<open>Identity\<close>

type_synonym alias_map = "(string \<times> string) list"

definition alias_map_of :: "DecisionGraphInput \<Rightarrow> alias_map" where
  "alias_map_of d = dict_of (in_aliases (di_identity d))"

text \<open>The loop of \<^verbatim>\<open>_canonical\<close>: each turn marks one more alias as visited.\<close>

function follow_aliases :: "alias_map \<Rightarrow> string list \<Rightarrow> string \<Rightarrow> string result" where
  "follow_aliases aliases visited current =
     (case map_of aliases current of
        None \<Rightarrow> Inr current
      | Some target \<Rightarrow>
          if current \<in> set visited then Inl (ValueError ''identity normalization aliases contain a cycle'')
          else follow_aliases aliases (current # visited) target)"
  by pat_completeness auto
termination
proof (relation "measure (\<lambda>(aliases, visited, current). card (fst ` set aliases - set visited))")
  fix aliases :: alias_map and visited current target
  assume "map_of aliases current = Some target" "current \<notin> set visited"
  then have "fst ` set aliases - set (current # visited) \<subset> fst ` set aliases - set visited"
    by (force dest: map_of_SomeD)
  then show "((aliases, current # visited, target), aliases, visited, current)
      \<in> measure (\<lambda>(aliases, visited, current). card (fst ` set aliases - set visited))"
    by (simp add: psubset_card_mono)
qed simp

declare follow_aliases.simps [simp del]

definition canonical :: "string \<Rightarrow> alias_map \<Rightarrow> string result" where
  "canonical value aliases = follow_aliases aliases [] (fold_strip value)"

type_synonym identity_key = "string \<times> string \<times> string \<times> string"

definition identity_key :: "RawCandidateRecord \<Rightarrow> alias_map \<Rightarrow> identity_key result" where
  "identity_key r aliases =
     bindR (canonical (rc_seller_id r) aliases) (\<lambda>seller.
     bindR (canonical (rc_product_id r) aliases) (\<lambda>product.
     bindR (canonical (rc_edition r) aliases) (\<lambda>edition.
     bindR (canonical (rc_region r) aliases) (\<lambda>region.
     Inr (seller, product, edition, region)))))"

definition canonical_id :: "(pyval \<Rightarrow> string result) \<Rightarrow> identity_key \<Rightarrow> string result" where
  "canonical_id H key =
     (case key of (seller, product, edition, region) \<Rightarrow>
        bindR (H (PTuple [PStr seller, PStr product, PStr edition, PStr region])) (\<lambda>h.
        case after_first CHR '':'' h of
          None \<Rightarrow> Inl IndexError
        | Some digest \<Rightarrow> Inr (''canonical_'' @ take 20 digest)))"

section \<open>Merging a group\<close>

fun authority_rank :: "PackAuthority \<Rightarrow> int" where
  "authority_rank PackAuthority.SELLER_SEALED = 0"
| "authority_rank PackAuthority.PLATFORM_COMPILED = 1"
| "authority_rank PackAuthority.EXTERNAL_UNSEALED = 2"

definition authority_floor :: "RawCandidateRecord list \<Rightarrow> PackAuthority result" where
  "authority_floor records =
     (case map rc_authority records of
        [] \<Rightarrow> Inl (ValueError ''max() iterable argument is empty'')
      | a # rest \<Rightarrow> Inr (fold (\<lambda>x best. if authority_rank best < authority_rank x then x else best) rest a))"

text \<open>
  The two dictionaries of \<^verbatim>\<open>_merge_facts\<close> have the same keys; here they are one, from field and
  value hash to the last value and all evidence identifiers.
\<close>

type_synonym fact_dict = "((string \<times> string) \<times> (fact_value \<times> string list)) list"

definition evidence_at :: "fact_dict \<Rightarrow> string \<times> string \<Rightarrow> string list" where
  "evidence_at d key = (case map_of d key of None \<Rightarrow> [] | Some (v, ids) \<Rightarrow> ids)"

definition add_fact :: "(pyval \<Rightarrow> string result) \<Rightarrow> ProductFact \<Rightarrow> fact_dict \<Rightarrow> fact_dict result" where
  "add_fact H f d =
     bindR (H (fact_pyval (pf_value f))) (\<lambda>value_hash.
     let key = (pf_field f, value_hash)
     in Inr (AList.update key (pf_value f, evidence_at d key @ pf_evidence_ids f) d))"

definition merged_fact :: "string \<Rightarrow> (string \<times> string) \<times> (fact_value \<times> string list) \<Rightarrow> ProductFact result" where
  "merged_fact component_id entry =
     (case entry of ((field, value_hash), (v, ids)) \<Rightarrow>
        mk_ProductFact \<lparr>pf_field = field, pf_value = v, pf_evidence_ids = sorted_set ids,
                        pf_component_id = Some component_id\<rparr>)"

definition merge_facts ::
    "(pyval \<Rightarrow> string result) \<Rightarrow> RawCandidateRecord list \<Rightarrow> string \<Rightarrow> ProductFact list result" where
  "merge_facts H records component_id =
     bindR (foldR (add_fact H) (concat (map rc_facts records)) []) (\<lambda>d.
     traverse (merged_fact component_id) (sort_key fst d))"

section \<open>Recall\<close>

definition policy_exclusion ::
    "RawCandidateRecord \<Rightarrow> RecallPolicy \<Rightarrow> alias_map \<Rightarrow> RecallExclusion option result" where
  "policy_exclusion r policy aliases =
     (if rp_category_id policy \<notin> set (rc_category_ids r)
      then mapR_res Some (mk_RecallExclusion (rc_record_id r) ''CATEGORY_MISMATCH''
             (''Pack does not support category '' @ rp_category_id policy))
      else if rp_jtbd_id policy \<notin> set (rc_jtbd_ids r)
      then mapR_res Some (mk_RecallExclusion (rc_record_id r) ''JTBD_MISMATCH''
             (''Pack does not support JTBD '' @ rp_jtbd_id policy))
      else
        bindR (canonical (rc_region r) aliases) (\<lambda>normalized_region.
        bindR (traverse (\<lambda>v. canonical v aliases) (rp_allowed_regions policy)) (\<lambda>allowed_regions.
        if normalized_region \<notin> set allowed_regions
        then mapR_res Some (mk_RecallExclusion (rc_record_id r) ''REGION_UNSUPPORTED''
               (''Pack region '' @ rc_region r @ '' is outside the allowed region set''))
        else Inr None)))"

definition recall_exclusion ::
    "RawCandidateRecord \<Rightarrow> RecallPolicy option \<Rightarrow> alias_map \<Rightarrow> RecallExclusion option result" where
  "recall_exclusion r policy aliases =
     (if rc_pack_status r = ''REVOKED''
      then mapR_res Some (mk_RecallExclusion (rc_record_id r) ''PACK_REVOKED'' ''Pack version is revoked'')
      else if rc_pack_status r = ''SUPERSEDED''
      then mapR_res Some (mk_RecallExclusion (rc_record_id r) ''PACK_SUPERSEDED'' ''Pack version is superseded'')
      else case policy of None \<Rightarrow> Inr None | Some p \<Rightarrow> policy_exclusion r p aliases)"

type_synonym grouped = "(identity_key \<times> RawCandidateRecord list) list"

definition group_at :: "grouped \<Rightarrow> identity_key \<Rightarrow> RawCandidateRecord list" where
  "group_at g key = (case map_of g key of None \<Rightarrow> [] | Some items \<Rightarrow> items)"

definition recall_step ::
    "RecallPolicy option \<Rightarrow> alias_map \<Rightarrow> RawCandidateRecord \<Rightarrow> grouped \<times> RecallExclusion list
      \<Rightarrow> (grouped \<times> RecallExclusion list) result" where
  "recall_step policy aliases r st =
     (case st of (g, exclusions) \<Rightarrow>
        bindR (recall_exclusion r policy aliases) (\<lambda>exclusion.
        case exclusion of
          Some x \<Rightarrow> Inr (g, exclusions @ [x])
        | None \<Rightarrow>
            bindR (identity_key r aliases) (\<lambda>key.
            Inr (AList.update key (group_at g key @ [r]) g, exclusions))))"

definition anchor_of :: "RawCandidateRecord list \<Rightarrow> RawCandidateRecord" where
  "anchor_of items = hd (sort_key (\<lambda>r. (- rc_pack_version r, rc_record_id r)) items)"

definition union_of :: "(RawCandidateRecord \<Rightarrow> string list) \<Rightarrow> RawCandidateRecord list \<Rightarrow> string list" where
  "union_of part items = sorted_set (concat (map part items))"

definition representative ::
    "(pyval \<Rightarrow> string result) \<Rightarrow> alias_map \<Rightarrow> string \<Rightarrow> identity_key \<Rightarrow> RawCandidateRecord list
      \<Rightarrow> RawCandidateRecord result" where
  "representative H aliases cid key items =
     (case key of (seller, product, edition, region) \<Rightarrow>
        bindR (canonical (rc_offer_id (anchor_of items)) aliases) (\<lambda>offer_id.
        bindR (authority_floor items) (\<lambda>authority.
        bindR (merge_facts H items product) (\<lambda>facts.
        mk_RawCandidateRecord
          \<lparr>rc_record_id = cid, rc_pack_id = rc_pack_id (anchor_of items),
           rc_pack_version = rc_pack_version (anchor_of items), rc_seller_id = seller,
           rc_product_id = product, rc_edition = edition, rc_region = region, rc_offer_id = offer_id,
           rc_authority = authority, rc_available = list_all rc_available items, rc_facts = facts,
           rc_seller_gate_ids = union_of rc_seller_gate_ids items, rc_aliases = union_of rc_aliases items,
           rc_category_ids = union_of rc_category_ids items, rc_jtbd_ids = union_of rc_jtbd_ids items,
           rc_pack_status = ''PUBLISHED'',
           rc_required_product_ids = union_of rc_required_product_ids items\<rparr>))))"

definition merge_of :: "string \<Rightarrow> RawCandidateRecord \<Rightarrow> RawCandidateRecord \<Rightarrow> IdentityMerge" where
  "merge_of cid first duplicate =
     \<lparr>im_canonical_id = cid, im_merged_record_id = rc_record_id duplicate,
      im_reasons = sort ([''CANONICAL_IDENTITY_MATCH'']
        @ (if rc_offer_id duplicate \<noteq> rc_offer_id first then [''OFFER_ALIAS''] else [])
        @ (if rc_edition duplicate \<noteq> rc_edition first then [''EDITION_ALIAS''] else []))\<rparr>"

definition collapse_group ::
    "(pyval \<Rightarrow> string result) \<Rightarrow> alias_map \<Rightarrow> identity_key \<times> RawCandidateRecord list
      \<Rightarrow> (IdentityRecord \<times> RawCandidateRecord \<times> IdentityMerge list) result" where
  "collapse_group H aliases entry =
     (case entry of (key, group_items) \<Rightarrow>
        let items = sort_key rc_record_id group_items
        in bindR (canonical_id H key) (\<lambda>cid.
           bindR (traverse (\<lambda>r. canonical (rc_offer_id r) aliases) items) (\<lambda>offer_ids.
           bindR (representative H aliases cid key items) (\<lambda>rep.
           Inr (\<lparr>ir_canonical_id = cid, ir_seller_id = fst key, ir_product_id = fst (snd key),
                 ir_edition = fst (snd (snd key)), ir_region = snd (snd (snd key)),
                 ir_record_ids = map rc_record_id items, ir_pack_ids = sorted_set (map rc_pack_id items),
                 ir_offer_ids = sorted_set offer_ids\<rparr>,
                rep, map (merge_of cid (hd items)) (tl items))))))"

definition recall_and_deduplicate :: "(pyval \<Rightarrow> string result) \<Rightarrow> DecisionGraphInput \<Rightarrow> RecallResult result" where
  "recall_and_deduplicate H d =
     (let aliases = alias_map_of d
      in bindR (foldR (recall_step (di_recall_policy d) aliases) (sort_key rc_record_id (di_candidates d)) ([], []))
           (\<lambda>(g, exclusions).
         bindR (traverse (collapse_group H aliases) (sort_key fst g)) (\<lambda>collapsed.
         Inr \<lparr>rr_identities = map fst collapsed,
              rr_merges = sort_key (\<lambda>m. (im_canonical_id m, im_merged_record_id m))
                (concat (map (\<lambda>(i, rep, merges). merges) collapsed)),
              rr_representatives = sort_key rc_record_id (map (\<lambda>(i, rep, merges). rep) collapsed),
              rr_exclusions = sort_key rx_record_id exclusions,
              rr_raw_record_count = length (di_candidates d)\<rparr>)))"

section \<open>Evidence assessment\<close>

definition scope_matches :: "string \<Rightarrow> string \<Rightarrow> bool" where
  "scope_matches required_scope actual_scope =
     (let required = fold_strip required_scope in required = ''*'' \<or> required = fold_strip actual_scope)"

definition static_reasons :: "bool \<Rightarrow> bool \<Rightarrow> bool \<Rightarrow> EvidenceRecord \<Rightarrow> string list" where
  "static_reasons source_allowed method_allowed scope_match r =
     (if \<not> source_allowed then [''SOURCE_CLASS_NOT_ALLOWED''] else [])
     @ (if \<not> method_allowed then [''VERIFICATION_METHOD_NOT_ALLOWED''] else [])
     @ (if \<not> scope_match then [''VERIFICATION_SCOPE_MISMATCH''] else [])
     @ (if \<not> ev_reconstructable r then [''NOT_RECONSTRUCTABLE''] else [])
     @ (if ev_disputed r then [''DISPUTED''] else [])
     @ (if ev_revoked r then [''REVOKED''] else [])"

definition record_age :: "EvidenceRecord \<Rightarrow> EvidencePolicy \<Rightarrow> py_datetime \<Rightarrow> EvidenceAgeBounds option result" where
  "record_age r policy evaluated_at =
     (case (ev_lower r, ev_upper r) of
        (Some lower, Some upper) \<Rightarrow> mapR_res Some (evidence_age_bounds evaluated_at lower upper (ep_sla_seconds policy))
      | _ \<Rightarrow> Inr None)"

definition is_fresh :: "EvidenceAgeBounds \<Rightarrow> bool" where
  "is_fresh age = (er_fraction (ea_upper age) \<le> 1)"

definition time_reasons :: "EvidenceAgeBounds option \<Rightarrow> string list" where
  "time_reasons age =
     (case age of None \<Rightarrow> [''BOUND_UNAVAILABLE:EVIDENCE_TIME''] | Some a \<Rightarrow> if is_fresh a then [] else [''STALE''])"

definition evidence_state ::
    "bool \<Rightarrow> bool \<Rightarrow> bool \<Rightarrow> EvidenceRecord \<Rightarrow> bool option \<Rightarrow> EvidenceState" where
  "evidence_state source_allowed method_allowed scope_match r freshness =
     (if ev_disputed r \<or> ev_revoked r then EvidenceState.CONFLICT
      else if freshness = Some False then EvidenceState.STALE
      else if \<not> source_allowed \<or> \<not> method_allowed \<or> \<not> scope_match \<or> \<not> ev_reconstructable r \<or> freshness = None
      then EvidenceState.UNKNOWN
      else EvidenceState.ACCEPTABLE)"

definition assessment ::
    "EvidenceRecord \<Rightarrow> EvidencePolicy \<Rightarrow> string \<Rightarrow> py_datetime \<Rightarrow> EvidenceAssessment result" where
  "assessment r policy field evaluated_at =
     (let source_allowed = (ev_source_class r \<in> set (ep_source_classes policy));
          method_allowed = (ev_method r \<in> set (ep_methods policy));
          scope_match = scope_matches (ep_required_scope policy) (ev_scope r)
      in bindR (record_age r policy evaluated_at) (\<lambda>age.
         let freshness = map_option is_fresh age
         in Inr \<lparr>as_evidence_id = ev_evidence_id r, as_record_id = ev_record_id r, as_field = field,
                 as_source_allowed = source_allowed, as_method_allowed = method_allowed,
                 as_scope_match = scope_match, as_reconstructable = ev_reconstructable r,
                 as_freshness_current = freshness, as_disputed = ev_disputed r, as_revoked = ev_revoked r,
                 as_state = evidence_state source_allowed method_allowed scope_match r freshness,
                 as_reasons = sort (static_reasons source_allowed method_allowed scope_match r @ time_reasons age),
                 as_age_bounds = age\<rparr>))"

definition missing_assessment :: "string \<Rightarrow> string \<Rightarrow> EvidenceAssessment" where
  "missing_assessment evidence_id field =
     \<lparr>as_evidence_id = evidence_id, as_record_id = ''missing_record_'' @ evidence_id, as_field = field,
      as_source_allowed = False, as_method_allowed = False, as_scope_match = False,
      as_reconstructable = False, as_freshness_current = None, as_disputed = False, as_revoked = False,
      as_state = EvidenceState.UNKNOWN,
      as_reasons = [''BOUND_UNAVAILABLE:EVIDENCE_TIME'', ''MISSING_EVIDENCE_RECORD''], as_age_bounds = None\<rparr>"

definition fact_pairs :: "ProductFact list \<Rightarrow> (string \<times> string) list" where
  "fact_pairs facts = concat (map (\<lambda>f. map (\<lambda>i. (i, pf_field f)) (pf_evidence_ids f)) facts)"

definition outcome_pairs :: "DecisionGraphInput \<Rightarrow> (string \<times> string) list" where
  "outcome_pairs d =
     (let criterion_fields = dict_of (map (\<lambda>c. (pc_criterion_id c, pc_field c)) (di_preferences d))
      in concat (map (\<lambda>x. case map_of criterion_fields (oo_criterion_id x) of
                            None \<Rightarrow> [] | Some field \<Rightarrow> map (\<lambda>i. (i, field)) (oo_evidence_ids x)) (di_outcomes d)))"

definition material_pairs :: "DecisionGraphInput \<Rightarrow> RecallResult \<Rightarrow> (string \<times> string) list" where
  "material_pairs d recall =
     sorted_set (concat (map (\<lambda>c. fact_pairs (rc_facts c)) (rr_representatives recall))
       @ concat (map (\<lambda>a. fact_pairs (ca_facts a)) (di_current_actions d))
       @ outcome_pairs d)"

definition assess_pair :: "DecisionGraphInput \<Rightarrow> string \<times> string \<Rightarrow> EvidenceAssessment result" where
  "assess_pair d pair =
     (case pair of (evidence_id, field) \<Rightarrow>
        let evidence_by_id = dict_of (map (\<lambda>e. (ev_evidence_id e, e)) (di_evidence d));
            policies = dict_of (map (\<lambda>p. (ep_field p, p)) (di_policies d))
        in case map_of policies field of
             None \<Rightarrow> Inl (DomainValidationError (''missing evidence policy for decision-material field '' @ field))
           | Some policy \<Rightarrow>
               (case map_of evidence_by_id evidence_id of
                  None \<Rightarrow> Inr (missing_assessment evidence_id field)
                | Some r \<Rightarrow> assessment r policy field (di_evaluated_at d)))"

definition assess_evidence :: "DecisionGraphInput \<Rightarrow> RecallResult \<Rightarrow> EvidenceAssessment list result" where
  "assess_evidence d recall = traverse (assess_pair d) (material_pairs d recall)"

section \<open>Alias resolution\<close>

lemma strip_ends:
  assumes "str_strip s \<noteq> []"
  shows "\<not> is_space (hd (str_strip s))" "\<not> is_space (last (str_strip s))"
proof -
  let ?t = "dropWhile is_space s"
  let ?u = "dropWhile is_space (rev ?t)"
  have u: "str_strip s = rev ?u" "?u \<noteq> []" using assms by (auto simp: str_strip_def)
  then show "\<not> is_space (last (str_strip s))" using hd_dropWhile [of is_space "rev ?t"] by (simp add: last_rev)
  have "?t \<noteq> []" using u(2) by (metis dropWhile.simps(1) rev.simps(1))
  then have hd: "\<not> is_space (hd ?t)" by (rule hd_dropWhile)
  have "rev ?t = takeWhile is_space (rev ?t) @ ?u" by simp
  then have "?t = rev ?u @ rev (takeWhile is_space (rev ?t))" by (metis rev_append rev_rev_ident)
  then have "hd ?t = hd (rev ?u)" using u(2) by (metis hd_append2 rev_is_Nil_conv)
  with hd u(1) show "\<not> is_space (hd (str_strip s))" by simp
qed

lemma dropWhile_hd: "xs \<noteq> [] \<Longrightarrow> \<not> p (hd xs) \<Longrightarrow> dropWhile p xs = xs"
  by (cases xs) simp_all

lemma str_strip_idem: "str_strip (str_strip s) = str_strip s"
proof (cases "str_strip s = []")
  case True
  show ?thesis unfolding True by (simp add: str_strip_def)
next
  case False
  from strip_ends [OF False] False show ?thesis
    unfolding str_strip_def [of "str_strip s"] by (simp add: dropWhile_hd hd_rev)
qed

lemma lower_upper_char: "\<not> is_upper (lower_char c)"
proof (cases "is_upper c")
  case True
  then have n: "65 \<le> (of_char c :: nat)" "(of_char c :: nat) \<le> 90" by (auto simp: is_upper_def less_eq_char_def)
  then have "of_char (char_of (of_char c + 32 :: nat)) = (of_char c + 32 :: nat)" by simp
  with n True show ?thesis by (simp add: lower_char_def is_upper_def less_eq_char_def)
next
  case False
  then show ?thesis by (simp add: lower_char_def)
qed

lemma fold_strip_idem [simp]: "fold_strip (fold_strip s) = fold_strip s"
proof -
  have "c \<in> set (str_lower s)" if "c \<in> set (fold_strip s)" for c
    using that unfolding fold_strip_def str_strip_def by (metis set_dropWhileD set_rev)
  then have "\<not> is_upper c" if "c \<in> set (fold_strip s)" for c
    using that lower_upper_char unfolding str_lower_def by auto
  then have "lower_char c = c" if "c \<in> set (fold_strip s)" for c
    using that unfolding lower_char_def by simp
  then have "str_lower (fold_strip s) = fold_strip s" by (simp add: str_lower_def map_idI)
  then show ?thesis by (metis fold_strip_def str_strip_idem)
qed

definition alias_step :: "alias_map \<Rightarrow> (string \<times> string) set" where
  "alias_step aliases = {(x, y). map_of aliases x = Some y}"

lemma cycle_never_ends:
  assumes "(c, c) \<in> (alias_step a)\<^sup>+" "(c, r) \<in> (alias_step a)\<^sup>*"
  shows "map_of a r \<noteq> None"
proof -
  from assms(2) have "(r, r) \<in> (alias_step a)\<^sup>+"
  proof induction
    case base
    then show ?case by (rule assms(1))
  next
    case (step y z)
    from step.IH obtain z' where z': "(y, z') \<in> alias_step a" "(z', y) \<in> (alias_step a)\<^sup>*"
      by (meson tranclD)
    then have "z' = z" using step.hyps(2) by (auto simp: alias_step_def)
    with z' step.hyps(2) show ?case by (meson rtrancl_into_trancl1)
  qed
  then show ?thesis by (auto dest: tranclD simp: alias_step_def)
qed

lemma follow_aliases_sound:
  "follow_aliases a visited c = Inr r \<Longrightarrow> (c, r) \<in> (alias_step a)\<^sup>* \<and> map_of a r = None"
proof (induction a visited c rule: follow_aliases.induct)
  case (1 a visited c)
  show ?case
  proof (cases "map_of a c")
    case None
    with "1.prems" show ?thesis by (simp add: follow_aliases.simps)
  next
    case (Some t)
    with "1.prems" have "c \<notin> set visited" "follow_aliases a (c # visited) t = Inr r"
      by (auto simp: follow_aliases.simps [of a visited c] split: if_splits)
    with "1.IH" [OF Some] Some show ?thesis
      by (auto simp: alias_step_def intro: converse_rtrancl_into_rtrancl)
  qed
qed

lemma follow_aliases_error:
  "follow_aliases a visited c = Inl e \<Longrightarrow> \<forall>x\<in>set visited. (x, c) \<in> (alias_step a)\<^sup>+
    \<Longrightarrow> \<exists>x. (c, x) \<in> (alias_step a)\<^sup>* \<and> (x, x) \<in> (alias_step a)\<^sup>+"
proof (induction a visited c rule: follow_aliases.induct)
  case (1 a visited c)
  from "1.prems"(1) obtain t where t: "map_of a c = Some t"
    by (auto simp: follow_aliases.simps [of a visited c] split: option.splits)
  show ?case
  proof (cases "c \<in> set visited")
    case True
    with "1.prems"(2) show ?thesis by blast
  next
    case False
    with "1.prems"(1) t have "follow_aliases a (c # visited) t = Inl e"
      by (simp add: follow_aliases.simps [of a visited c])
    moreover have ct: "(c, t) \<in> alias_step a" using t by (simp add: alias_step_def)
    then have "\<forall>x\<in>set (c # visited). (x, t) \<in> (alias_step a)\<^sup>+" using "1.prems"(2) by auto
    ultimately obtain x where "(t, x) \<in> (alias_step a)\<^sup>*" "(x, x) \<in> (alias_step a)\<^sup>+"
      using "1.IH" [OF t False] by blast
    with ct show ?thesis by (meson converse_rtrancl_into_rtrancl)
  qed
qed

lemma alias_step_onward:
  assumes "(s, c) \<in> (alias_step a)\<^sup>*" "(s, t) \<in> alias_step a" "map_of a c = None"
  shows "(t, c) \<in> (alias_step a)\<^sup>*"
  using assms(1)
proof (cases rule: converse_rtranclE)
  case base
  with assms(2,3) show ?thesis by (simp add: alias_step_def)
next
  case (step y)
  with assms(2) have "y = t" by (simp add: alias_step_def)
  with step show ?thesis by simp
qed

lemma canonical_iff:
  "canonical v a = Inr c \<longleftrightarrow> (fold_strip v, c) \<in> (alias_step a)\<^sup>* \<and> map_of a c = None"
proof
  show "canonical v a = Inr c \<Longrightarrow> (fold_strip v, c) \<in> (alias_step a)\<^sup>* \<and> map_of a c = None"
    unfolding canonical_def by (rule follow_aliases_sound)
next
  assume c: "(fold_strip v, c) \<in> (alias_step a)\<^sup>* \<and> map_of a c = None"
  have ends: "(x, c) \<in> (alias_step a)\<^sup>*" if "(fold_strip v, x) \<in> (alias_step a)\<^sup>*" for x
    using that
  proof (induction rule: rtrancl_induct)
    case base
    show ?case using c by blast
  next
    case (step y z)
    with c show ?case by (blast intro: alias_step_onward)
  qed
  show "canonical v a = Inr c"
  proof (cases "canonical v a")
    case (Inl e)
    then obtain x where x: "(fold_strip v, x) \<in> (alias_step a)\<^sup>*" "(x, x) \<in> (alias_step a)\<^sup>+"
      unfolding canonical_def by (auto dest: follow_aliases_error)
    with ends c show ?thesis using cycle_never_ends by blast
  next
    case (Inr r)
    then have r: "(fold_strip v, r) \<in> (alias_step a)\<^sup>*" "map_of a r = None"
      unfolding canonical_def by (auto dest: follow_aliases_sound)
    from ends [OF r(1)] have "r = c"
      by (cases rule: converse_rtranclE) (use r(2) in \<open>auto simp: alias_step_def\<close>)
    with Inr show ?thesis by simp
  qed
qed

lemma normalized_aliases_folded:
  assumes "mk_IdentityNormalization n = Inr m" "map_of (dict_of (in_aliases m)) x = Some y"
  shows "fold_strip y = y"
proof -
  from assms(1) have "set (in_aliases m) = (\<lambda>(s, t). (fold_strip s, fold_strip t)) ` set (in_aliases n)"
    by (auto simp: mk_IdentityNormalization_def Let_def result_simps)
  moreover have "(x, y) \<in> set (in_aliases m)"
    using assms(2) by (auto simp: map_of_dict_of dest!: map_of_SomeD)
  ultimately show ?thesis by auto
qed

text \<open>
  Identity normalisation is a function on identities: over a constructed alias table an identifier
  resolves exactly to the end of its alias chain, resolving again changes nothing, the text's case and
  surrounding space do not matter, and the only failure is an alias chain that runs into a cycle.
\<close>

theorem canonical_resolves:
  assumes "mk_IdentityNormalization n = Inr m" "a = dict_of (in_aliases m)"
  shows "(canonical v a = Inr c \<longleftrightarrow> (fold_strip v, c) \<in> (alias_step a)\<^sup>* \<and> map_of a c = None)
    \<and> (canonical v a = Inr c \<longrightarrow> canonical c a = Inr c)
    \<and> canonical (fold_strip v) a = canonical v a
    \<and> (canonical v a = Inl e \<longrightarrow> (\<exists>x. (fold_strip v, x) \<in> (alias_step a)\<^sup>* \<and> (x, x) \<in> (alias_step a)\<^sup>+))"
proof (intro conjI impI)
  show "canonical v a = Inr c \<longleftrightarrow> (fold_strip v, c) \<in> (alias_step a)\<^sup>* \<and> map_of a c = None"
    by (rule canonical_iff)
  show "canonical (fold_strip v) a = canonical v a" by (simp add: canonical_def)
  show "\<exists>x. (fold_strip v, x) \<in> (alias_step a)\<^sup>* \<and> (x, x) \<in> (alias_step a)\<^sup>+" if "canonical v a = Inl e"
    using that unfolding canonical_def by (auto dest: follow_aliases_error)
  assume "canonical v a = Inr c"
  then have c: "(fold_strip v, c) \<in> (alias_step a)\<^sup>*" "map_of a c = None"
    by (simp_all add: canonical_iff)
  from c(1) have "fold_strip c = c"
  proof (cases rule: rtranclE)
    case base
    then show ?thesis by (metis fold_strip_idem)
  next
    case (step y)
    from step(2) have "map_of (dict_of (in_aliases m)) y = Some c"
      unfolding alias_step_def assms(2) by blast
    with normalized_aliases_folded [OF assms(1)] show ?thesis by blast
  qed
  with c(2) show "canonical c a = Inr c" by (simp add: canonical_iff)
qed

definition sample_identity :: IdentityNormalization where
  "sample_identity = \<lparr>in_version = ''v1'', in_aliases = [(''acme inc'', ''acme''), (''pro-plan'', ''pro'')]\<rparr>"

lemma canonical_resolves_witness:
  "canonical '' ACME Inc'' (in_aliases sample_identity) = Inr ''acme''
   \<and> canonical ''acme'' (in_aliases sample_identity) = Inr ''acme''"
proof -
  have m: "mk_IdentityNormalization sample_identity = Inr sample_identity" by code_simp
  have a: "in_aliases sample_identity = dict_of (in_aliases sample_identity)" by code_simp
  have "canonical '' ACME Inc'' (in_aliases sample_identity) = Inr ''acme''" by code_simp
  with canonical_resolves [OF m a] show ?thesis by blast
qed

section \<open>Where the candidates go\<close>

text \<open>The records of all groups, and what one turn of the recall loop does to them.\<close>

definition grouped_records :: "grouped \<Rightarrow> RawCandidateRecord multiset" where
  "grouped_records g = mset (concat (map snd g))"

lemma grouped_update:
  "distinct (map fst g) \<Longrightarrow>
    grouped_records (AList.update key (group_at g key @ [r]) g) = add_mset r (grouped_records g)"
proof (induction g)
  case (Cons p g)
  then show ?case
    by (cases p) (auto simp: grouped_records_def group_at_def)
qed (simp add: grouped_records_def group_at_def)

definition recall_inv ::
    "RecallPolicy option \<Rightarrow> alias_map \<Rightarrow> RawCandidateRecord list \<Rightarrow> grouped \<times> RecallExclusion list \<Rightarrow> bool" where
  "recall_inv policy aliases seen st =
     (case st of (g, exclusions) \<Rightarrow>
        distinct (map fst g)
        \<and> (\<forall>(key, items)\<in>set g. items \<noteq> [] \<and> (\<forall>r\<in>set items. identity_key r aliases = Inr key
              \<and> recall_exclusion r policy aliases = Inr None))
        \<and> (\<exists>out. mset seen = grouped_records g + out
              \<and> mset (map rx_record_id exclusions) = image_mset rc_record_id out
              \<and> (\<forall>x\<in>set exclusions. \<exists>r\<in>#out. recall_exclusion r policy aliases = Inr (Some x)
                    \<and> rx_record_id x = rc_record_id r)))"

lemma exclusion_id: "recall_exclusion r policy aliases = Inr (Some x) \<Longrightarrow> rx_record_id x = rc_record_id r"
  by (auto simp: recall_exclusion_def policy_exclusion_def mk_RecallExclusion_def result_simps
      split: if_splits option.splits)

lemma group_at_member:
  "r \<in> set (group_at g key) \<Longrightarrow> \<exists>items. (key, items) \<in> set g \<and> r \<in> set items"
  by (cases "map_of g key") (auto simp: group_at_def dest: map_of_SomeD)

lemma recall_step_inv:
  assumes inv: "recall_inv policy aliases seen st" and step: "recall_step policy aliases r st = Inr st'"
  shows "recall_inv policy aliases (seen @ [r]) st'"
proof -
  obtain g exclusions where st: "st = (g, exclusions)" by fastforce
  from step st obtain x where x: "recall_exclusion r policy aliases = Inr x"
    by (auto simp: recall_step_def bindR_Inr_iff)
  note inv' = inv [unfolded st recall_inv_def, simplified]
  from inv' obtain out where out: "mset seen = grouped_records g + out"
      "mset (map rx_record_id exclusions) = image_mset rc_record_id out"
      "\<forall>x\<in>set exclusions. \<exists>r\<in>#out. recall_exclusion r policy aliases = Inr (Some x) \<and> rx_record_id x = rc_record_id r"
    by auto
  show ?thesis
  proof (cases x)
    case (Some y)
    then have st': "st' = (g, exclusions @ [y])" using step st x by (simp add: recall_step_def)
    have "rx_record_id y = rc_record_id r" using x Some exclusion_id by blast
    with out x Some inv' show ?thesis
      unfolding st' recall_inv_def by (auto intro!: exI [of _ "add_mset r out"])
  next
    case None
    then obtain key where key: "identity_key r aliases = Inr key"
        and st': "st' = (AList.update key (group_at g key @ [r]) g, exclusions)"
      using step st x by (auto simp: recall_step_def bindR_Inr_iff)
    have "items \<noteq> [] \<and> (\<forall>r\<in>set items. identity_key r aliases = Inr k \<and> recall_exclusion r policy aliases = Inr None)"
      if "(k, items) \<in> set (AList.update key (group_at g key @ [r]) g)" for k items
    proof (cases "(k, items) \<in> set g")
      case True
      with inv' show ?thesis by fastforce
    next
      case False
      with that have "k = key" "items = group_at g key @ [r]"
        by (auto dest: set_update_cases)
      with key x None inv' group_at_member [of _ g key] show ?thesis by fastforce
    qed
    then have all: "\<forall>(k, items)\<in>set (AList.update key (group_at g key @ [r]) g).
        items \<noteq> [] \<and> (\<forall>r\<in>set items. identity_key r aliases = Inr k \<and> recall_exclusion r policy aliases = Inr None)"
      by blast
    have dist: "distinct (map fst g)" using inv' by blast
    then have "mset (seen @ [r]) = grouped_records (AList.update key (group_at g key @ [r]) g) + out"
      using out(1) by (simp add: grouped_update)
    with all dist out(2,3) show ?thesis
      unfolding st' recall_inv_def prod.case by (blast intro: distinct_update)
  qed
qed

lemma recall_loop_inv:
  "foldR (recall_step policy aliases) rs st = Inr st' \<Longrightarrow> recall_inv policy aliases seen st
    \<Longrightarrow> recall_inv policy aliases (seen @ rs) st'"
proof (induction rs arbitrary: st seen)
  case (Cons r rs)
  from Cons.prems(1) obtain st1 where s: "recall_step policy aliases r st = Inr st1"
      "foldR (recall_step policy aliases) rs st1 = Inr st'"
    by (auto simp: bindR_Inr_iff)
  from Cons.IH [OF s(2) recall_step_inv [OF Cons.prems(2) s(1)]] show ?case by simp
qed simp

lemma recall_inv_start: "recall_inv policy aliases [] ([], [])"
  by (simp add: recall_inv_def grouped_records_def)

text \<open>A successful recall: the loop's final state and the collapsed groups.\<close>

lemma recall_cases:
  assumes "recall_and_deduplicate H d = Inr r"
  obtains g exclusions collapsed where
    "recall_inv (di_recall_policy d) (alias_map_of d) (sort_key rc_record_id (di_candidates d)) (g, exclusions)"
    "list_all2 (\<lambda>e c. collapse_group H (alias_map_of d) e = Inr c) (sort_key fst g) collapsed"
    "rr_identities r = map fst collapsed"
    "mset (rr_merges r) = mset (concat (map (\<lambda>(i, rep, merges). merges) collapsed))"
    "mset (rr_representatives r) = mset (map (\<lambda>(i, rep, merges). rep) collapsed)"
    "mset (rr_exclusions r) = mset exclusions"
    "rr_raw_record_count r = length (di_candidates d)"
proof -
  from assms obtain g exclusions collapsed where
      loop: "foldR (recall_step (di_recall_policy d) (alias_map_of d)) (sort_key rc_record_id (di_candidates d)) ([], [])
        = Inr (g, exclusions)"
    and col: "traverse (collapse_group H (alias_map_of d)) (sort_key fst g) = Inr collapsed"
    and r: "r = \<lparr>rr_identities = map fst collapsed,
              rr_merges = sort_key (\<lambda>m. (im_canonical_id m, im_merged_record_id m))
                (concat (map (\<lambda>(i, rep, merges). merges) collapsed)),
              rr_representatives = sort_key rc_record_id (map (\<lambda>(i, rep, merges). rep) collapsed),
              rr_exclusions = sort_key rx_record_id exclusions,
              rr_raw_record_count = length (di_candidates d)\<rparr>"
    unfolding recall_and_deduplicate_def Let_def by (auto simp only: bindR_Inr_iff split_paired_all prod.case sum.inject)
  from recall_loop_inv [OF loop recall_inv_start]
  have "recall_inv (di_recall_policy d) (alias_map_of d) (sort_key rc_record_id (di_candidates d)) (g, exclusions)"
    by simp
  then show thesis
    by (rule that) (use col r in \<open>simp_all add: traverse_Inr_iff\<close>)
qed

lemma collapse_group_Inr:
  assumes "collapse_group H aliases (key, items) = Inr (i, rep, merges)"
  shows "ir_record_ids i = map rc_record_id (sort_key rc_record_id items)"
    "representative H aliases (ir_canonical_id i) key (sort_key rc_record_id items) = Inr rep"
    "length merges = length items - 1"
    "(ir_seller_id i, ir_product_id i, ir_edition i, ir_region i) = key"
  using assms by (auto simp: collapse_group_def Let_def bindR_Inr_iff)

lemma grouped_records_sort: "grouped_records (sort_key f g) = grouped_records g"
proof -
  have eq: "grouped_records h = \<Sum>\<^sub># (image_mset (\<lambda>p. mset (snd p)) (mset h))" for h
    by (induction h) (simp_all add: grouped_records_def)
  show ?thesis by (simp only: eq mset_sort)
qed

lemma collapsed_ids:
  "list_all2 (\<lambda>e c. collapse_group H aliases e = Inr c) g collapsed
    \<Longrightarrow> mset (concat (map ir_record_ids (map fst collapsed))) = image_mset rc_record_id (grouped_records g)"
proof (induction rule: list_all2_induct)
  case (Cons e es c cs)
  obtain key items i rep merges where "e = (key, items)" "c = (i, rep, merges)" by (cases e, cases c)
  with Cons collapse_group_Inr(1) [of H aliases key items i rep merges]
  show ?case by (simp add: grouped_records_def)
qed (simp add: grouped_records_def)

lemma collapsed_counts:
  "list_all2 (\<lambda>e c. collapse_group H aliases e = Inr c) g collapsed \<Longrightarrow> \<forall>(key, items)\<in>set g. items \<noteq> []
    \<Longrightarrow> size (grouped_records g) = length collapsed + length (concat (map (\<lambda>(i, rep, merges). merges) collapsed))"
proof (induction rule: list_all2_induct)
  case (Cons e es c cs)
  obtain key items i rep merges where ec: "e = (key, items)" "c = (i, rep, merges)" by (cases e, cases c)
  then have "length items = Suc (length merges)"
    using Cons collapse_group_Inr(3) [of H aliases key items i rep merges] by (cases items) auto
  with Cons ec show ?case by (simp add: grouped_records_def)
qed (simp add: grouped_records_def)

text \<open>
  C29. Recall loses and invents nothing: every candidate record ends either in exactly one identity or in
  exactly one exclusion, the raw count is the identities plus the merged duplicates plus the exclusions,
  there is one representative per identity, and the result does not depend on the order in which the
  candidates came.
\<close>

theorem recall_conserves:
  assumes "recall_and_deduplicate H d = Inr r"
  shows "mset (concat (map ir_record_ids (rr_identities r))) + mset (map rx_record_id (rr_exclusions r))
      = mset (map rc_record_id (di_candidates d))
    \<and> rr_raw_record_count r = length (rr_identities r) + length (rr_merges r) + length (rr_exclusions r)
    \<and> length (rr_representatives r) = length (rr_identities r)
    \<and> (\<forall>cs. mset cs = mset (di_candidates d) \<and> distinct (map rc_record_id cs) \<longrightarrow>
         recall_and_deduplicate H (d\<lparr>di_candidates := cs\<rparr>) = Inr r)"
proof -
  from recall_cases [OF assms] obtain g exclusions collapsed where
      inv: "recall_inv (di_recall_policy d) (alias_map_of d) (sort_key rc_record_id (di_candidates d)) (g, exclusions)"
    and col: "list_all2 (\<lambda>e c. collapse_group H (alias_map_of d) e = Inr c) (sort_key fst g) collapsed"
    and ids: "rr_identities r = map fst collapsed"
    and mer: "mset (rr_merges r) = mset (concat (map (\<lambda>(i, rep, merges). merges) collapsed))"
    and rep: "mset (rr_representatives r) = mset (map (\<lambda>(i, rep, merges). rep) collapsed)"
    and exc: "mset (rr_exclusions r) = mset exclusions"
    and raw: "rr_raw_record_count r = length (di_candidates d)" .
  obtain out where out: "mset (di_candidates d) = grouped_records g + out"
      "mset (map rx_record_id exclusions) = image_mset rc_record_id out"
    using inv unfolding recall_inv_def prod.case mset_sort by blast
  have split: "image_mset rc_record_id (mset (di_candidates d))
      = image_mset rc_record_id (grouped_records g) + image_mset rc_record_id out"
    by (simp only: out(1) image_mset_union)
  have ids': "mset (concat (map ir_record_ids (rr_identities r))) = image_mset rc_record_id (grouped_records g)"
    unfolding ids collapsed_ids [OF col] grouped_records_sort ..
  have exc': "mset (map rx_record_id (rr_exclusions r)) = image_mset rc_record_id out"
    using out(2) by (simp only: mset_map exc)
  have conserve: "mset (concat (map ir_record_ids (rr_identities r))) + mset (map rx_record_id (rr_exclusions r))
      = mset (map rc_record_id (di_candidates d))"
    unfolding ids' exc' mset_map [of rc_record_id "di_candidates d"] split ..
  have "\<forall>(key, items)\<in>set (sort_key fst g). items \<noteq> []"
    using inv unfolding recall_inv_def prod.case set_sort by blast
  from collapsed_counts [OF col this] have "size (grouped_records g) = length (rr_identities r) + length (rr_merges r)"
    using mset_eq_length [OF mer] by (simp only: grouped_records_sort ids length_map)
  moreover have "size out = length (rr_exclusions r)"
    using arg_cong [OF out(2), of size] mset_eq_length [OF exc] by simp
  moreover have "length (di_candidates d) = size (grouped_records g) + size out"
    using arg_cong [OF out(1), of size] by simp
  moreover have "length (rr_representatives r) = length (rr_identities r)"
    using mset_eq_length [OF rep] by (simp only: ids length_map)
  moreover have "recall_and_deduplicate H (d\<lparr>di_candidates := cs\<rparr>) = Inr r"
    if cs: "mset cs = mset (di_candidates d)" "distinct (map rc_record_id cs)" for cs
  proof -
    have "sort_key rc_record_id cs = sort_key rc_record_id (di_candidates d)"
      using sort_key_perm [OF cs(1) distinct_map_inj_on [OF cs(2)]] .
    moreover have "length cs = length (di_candidates d)" using mset_eq_length [OF cs(1)] .
    ultimately show ?thesis
      using assms by (simp add: recall_and_deduplicate_def alias_map_of_def)
  qed
  ultimately show ?thesis using conserve raw by auto
qed

section \<open>What a representative stands for\<close>

definition same_claim :: "(pyval \<Rightarrow> string result) \<Rightarrow> ProductFact \<Rightarrow> string \<times> string \<Rightarrow> bool" where
  "same_claim H f key = (pf_field f = fst key \<and> H (fact_pyval (pf_value f)) = Inr (snd key))"

definition fact_dict_inv :: "(pyval \<Rightarrow> string result) \<Rightarrow> ProductFact list \<Rightarrow> fact_dict \<Rightarrow> bool" where
  "fact_dict_inv H fs d =
     ((\<forall>f\<in>set fs. \<exists>h v ids. same_claim H f (pf_field f, h) \<and> map_of d (pf_field f, h) = Some (v, ids))
      \<and> (\<forall>key v ids. map_of d key = Some (v, ids) \<longrightarrow>
           (\<exists>f\<in>set fs. same_claim H f key \<and> pf_value f = v)
           \<and> set ids = (\<Union>f\<in>{f\<in>set fs. same_claim H f key}. set (pf_evidence_ids f))))"

lemma fact_dict_invD:
  assumes "fact_dict_inv H fs d" "map_of d key = Some (v, ids)"
  shows "\<exists>f\<in>set fs. same_claim H f key \<and> pf_value f = v"
    "set ids = (\<Union>f\<in>{f\<in>set fs. same_claim H f key}. set (pf_evidence_ids f))"
  using assms unfolding fact_dict_inv_def by blast+

lemma add_fact_inv:
  assumes inv: "fact_dict_inv H fs d" and add: "add_fact H f d = Inr d'"
  shows "fact_dict_inv H (fs @ [f]) d'"
proof -
  obtain h where h: "H (fact_pyval (pf_value f)) = Inr h"
    and d': "d' = AList.update (pf_field f, h) (pf_value f, evidence_at d (pf_field f, h) @ pf_evidence_ids f) d"
    using add by (auto simp: add_fact_def Let_def bindR_Inr_iff)
  have look: "map_of d' key = (if key = (pf_field f, h)
      then Some (pf_value f, evidence_at d (pf_field f, h) @ pf_evidence_ids f) else map_of d key)" for key
    by (simp add: d' map_of_update)
  have same: "same_claim H f key \<longleftrightarrow> key = (pf_field f, h)" for key
    using h by (cases key) (auto simp: same_claim_def)
  have none: "\<not> same_claim H f' (pf_field f, h)" if "map_of d (pf_field f, h) = None" "f' \<in> set fs" for f'
  proof
    assume s: "same_claim H f' (pf_field f, h)"
    from inv that(2) obtain h' v ids where "same_claim H f' (pf_field f', h')" "map_of d (pf_field f', h') = Some (v, ids)"
      unfolding fact_dict_inv_def by blast
    with s that(1) show False by (auto simp: same_claim_def)
  qed
  have old: "set (evidence_at d (pf_field f, h)) = (\<Union>f'\<in>{f'\<in>set fs. same_claim H f' (pf_field f, h)}. set (pf_evidence_ids f'))"
  proof (cases "map_of d (pf_field f, h)")
    case None
    with none have empty: "{f'\<in>set fs. same_claim H f' (pf_field f, h)} = {}" by blast
    show ?thesis unfolding empty by (simp add: evidence_at_def None)
  next
    case (Some e)
    obtain v ids where "e = (v, ids)" by fastforce
    with Some inv show ?thesis unfolding fact_dict_inv_def evidence_at_def by simp
  qed
  have claims: "{f'\<in>set (fs @ [f]). same_claim H f' key}
      = {f'\<in>set fs. same_claim H f' key} \<union> (if key = (pf_field f, h) then {f} else {})" for key
  proof (cases "key = (pf_field f, h)")
    case True
    then have "same_claim H f key" using same by blast
    with True show ?thesis by auto
  next
    case False
    then have "\<not> same_claim H f key" using same by blast
    with False show ?thesis by auto
  qed
  show ?thesis
    unfolding fact_dict_inv_def claims look
  proof (intro conjI ballI allI impI)
    fix f' assume "f' \<in> set (fs @ [f])"
    then show "\<exists>h' v ids. same_claim H f' (pf_field f', h')
        \<and> (if (pf_field f', h') = (pf_field f, h)
            then Some (pf_value f, evidence_at d (pf_field f, h) @ pf_evidence_ids f)
            else map_of d (pf_field f', h')) = Some (v, ids)"
      using inv same unfolding fact_dict_inv_def by (cases "f' = f") fastforce+
  next
    fix key v ids
    assume e: "(if key = (pf_field f, h) then Some (pf_value f, evidence_at d (pf_field f, h) @ pf_evidence_ids f)
        else map_of d key) = Some (v, ids)"
    show "\<exists>f'\<in>set (fs @ [f]). same_claim H f' key \<and> pf_value f' = v"
    proof (cases "key = (pf_field f, h)")
      case True
      with e same show ?thesis by auto
    next
      case False
      with e inv have "\<exists>f'\<in>set fs. same_claim H f' key \<and> pf_value f' = v"
        unfolding fact_dict_inv_def by presburger
      then show ?thesis by auto
    qed
    show "set ids = (\<Union>f'\<in>{f'\<in>set fs. same_claim H f' key} \<union> (if key = (pf_field f, h) then {f} else {}).
        set (pf_evidence_ids f'))"
    proof (cases "key = (pf_field f, h)")
      case True
      with e have "ids = evidence_at d (pf_field f, h) @ pf_evidence_ids f" by simp
      with True old show ?thesis by auto
    next
      case False
      with e have "map_of d key = Some (v, ids)" by presburger
      from fact_dict_invD(2) [OF inv this] False show ?thesis by simp
    qed
  qed
qed

lemma add_facts_inv:
  "foldR (add_fact H) gs d = Inr d' \<Longrightarrow> fact_dict_inv H fs d \<Longrightarrow> fact_dict_inv H (fs @ gs) d'"
proof (induction gs arbitrary: fs d)
  case (Cons f gs)
  from Cons.prems(1) obtain d1 where d1: "add_fact H f d = Inr d1" "foldR (add_fact H) gs d1 = Inr d'"
    by (auto simp: bindR_Inr_iff)
  from Cons.IH [OF d1(2) add_fact_inv [OF Cons.prems(2) d1(1)]] show ?case by simp
qed simp

lemma merge_facts_Inr:
  assumes "merge_facts H items c = Inr facts"
  shows "(\<forall>f\<in>set (concat (map rc_facts items)). \<exists>f'\<in>set facts. pf_field f' = pf_field f
      \<and> H (fact_pyval (pf_value f')) = H (fact_pyval (pf_value f)) \<and> set (pf_evidence_ids f) \<subseteq> set (pf_evidence_ids f'))
    \<and> (\<forall>f'\<in>set facts. \<exists>key. (\<exists>f\<in>set (concat (map rc_facts items)). same_claim H f key \<and> pf_value f = pf_value f')
         \<and> pf_field f' = fst key \<and> set (pf_evidence_ids f') =
            (\<Union>f\<in>{f\<in>set (concat (map rc_facts items)). same_claim H f key}. set (pf_evidence_ids f)))"
proof -
  let ?fs = "concat (map rc_facts items)"
  obtain d where d: "foldR (add_fact H) ?fs [] = Inr d" and tr: "traverse (merged_fact c) (sort_key fst d) = Inr facts"
    using assms by (auto simp: merge_facts_def bindR_Inr_iff)
  have inv: "fact_dict_inv H ?fs d" using add_facts_inv [OF d, of "[]"] by (simp add: fact_dict_inv_def)
  have dist: "distinct (map fst d)"
    by (rule foldR_invariant [OF d]) (auto simp: add_fact_def Let_def bindR_Inr_iff distinct_update)
  have made: "pf_field f' = fst key \<and> pf_value f' = v \<and> set (pf_evidence_ids f') = set ids"
    if "merged_fact c (key, (v, ids)) = Inr f'" for key v ids f'
    using that by (cases key) (auto simp: merged_fact_def mk_ProductFact_def Let_def result_simps)
  have entry: "map_of d key = Some (v, ids) \<longleftrightarrow> (key, (v, ids)) \<in> set (sort_key fst d)" for key v ids
    using dist by simp
  show ?thesis
  proof (intro conjI ballI)
    fix f assume "f \<in> set ?fs"
    with inv obtain h v ids where e: "same_claim H f (pf_field f, h)" "map_of d (pf_field f, h) = Some (v, ids)"
      unfolding fact_dict_inv_def by blast
    from traverse_Inr_set' [OF tr e(2) [unfolded entry]] obtain f' where
        f': "f' \<in> set facts" "merged_fact c ((pf_field f, h), (v, ids)) = Inr f'" by blast
    from inv e(2) obtain f0 where f0: "same_claim H f0 (pf_field f, h)" "pf_value f0 = v"
      and ids: "set ids = (\<Union>f\<in>{f0\<in>set ?fs. same_claim H f0 (pf_field f, h)}. set (pf_evidence_ids f))"
      unfolding fact_dict_inv_def by blast
    from made [OF f'(2)] f0 e(1) have "H (fact_pyval (pf_value f')) = H (fact_pyval (pf_value f))"
      by (simp add: same_claim_def)
    moreover have "set (pf_evidence_ids f) \<subseteq> set (pf_evidence_ids f')"
      using made [OF f'(2)] ids e(1) \<open>f \<in> set ?fs\<close> by blast
    ultimately show "\<exists>f'\<in>set facts. pf_field f' = pf_field f
      \<and> H (fact_pyval (pf_value f')) = H (fact_pyval (pf_value f)) \<and> set (pf_evidence_ids f) \<subseteq> set (pf_evidence_ids f')"
      using f'(1) made [OF f'(2)] by auto
  next
    fix f' assume "f' \<in> set facts"
    from traverse_Inr_set [OF tr this] obtain key v ids where
        k: "(key, (v, ids)) \<in> set (sort_key fst d)" "merged_fact c (key, (v, ids)) = Inr f'"
      by (metis surj_pair)
    from k(1) inv have "(\<exists>f\<in>set ?fs. same_claim H f key \<and> pf_value f = v)
        \<and> set ids = (\<Union>f\<in>{f\<in>set ?fs. same_claim H f key}. set (pf_evidence_ids f))"
      unfolding fact_dict_inv_def entry [symmetric] by blast
    then show "\<exists>key. (\<exists>f\<in>set ?fs. same_claim H f key \<and> pf_value f = pf_value f')
         \<and> pf_field f' = fst key \<and> set (pf_evidence_ids f') =
            (\<Union>f\<in>{f\<in>set ?fs. same_claim H f key}. set (pf_evidence_ids f))"
      using made [OF k(2)] by (intro exI [of _ key]) simp
  qed
qed

lemma authority_fold:
  "fold (\<lambda>x best. if authority_rank best < authority_rank x then x else best) xs a \<in> insert a (set xs)
   \<and> (\<forall>b\<in>insert a (set xs). authority_rank b
        \<le> authority_rank (fold (\<lambda>x best. if authority_rank best < authority_rank x then x else best) xs a))"
  by (induction xs arbitrary: a) (fastforce split: if_splits)+

lemma authority_floor_Inr:
  assumes "authority_floor items = Inr a"
  shows "a \<in> rc_authority ` set items" "\<forall>r\<in>set items. authority_rank (rc_authority r) \<le> authority_rank a"
  using assms authority_fold [of "map rc_authority (tl items)" "rc_authority (hd items)"]
  by (cases items; auto simp: authority_floor_def)+

lemma representative_Inr:
  assumes "representative H aliases cid key items = Inr rep"
  shows "authority_floor items = Inr (rc_authority rep)"
    "merge_facts H items (fst (snd key)) = Inr (rc_facts rep)"
    "rc_available rep = list_all rc_available items"
    "rc_pack_version rep = rc_pack_version (anchor_of items)"
    "(rc_seller_id rep, rc_product_id rep, rc_edition rep, rc_region rep) = key"
    "set (rc_seller_gate_ids rep) = (\<Union>r\<in>set items. set (rc_seller_gate_ids r))"
  using assms
  by (auto simp: representative_def mk_RawCandidateRecord_def normalized_candidate_def Let_def union_of_def
      result_simps split: prod.splits)

lemma list_all2_right_mem: "list_all2 P xs ys \<Longrightarrow> y \<in> set ys \<Longrightarrow> \<exists>x\<in>set xs. P x y"
  by (induction rule: list_all2_induct) auto

text \<open>The claims of a group: who makes the same claim under which field and value hash.\<close>

definition merges_claims :: "(pyval \<Rightarrow> string result) \<Rightarrow> ProductFact list \<Rightarrow> ProductFact list \<Rightarrow> bool" where
  "merges_claims H originals merged =
     ((\<forall>f\<in>set originals. \<exists>f'\<in>set merged. pf_field f' = pf_field f
         \<and> H (fact_pyval (pf_value f')) = H (fact_pyval (pf_value f))
         \<and> set (pf_evidence_ids f) \<subseteq> set (pf_evidence_ids f'))
      \<and> (\<forall>f'\<in>set merged. \<exists>key. (\<exists>f\<in>set originals. same_claim H f key \<and> pf_value f = pf_value f')
           \<and> pf_field f' = fst key \<and> set (pf_evidence_ids f') =
              (\<Union>f\<in>{f\<in>set originals. same_claim H f key}. set (pf_evidence_ids f))))"


definition constant_hash :: "pyval \<Rightarrow> string result" where
  "constant_hash v = Inr (''sha256:'' @ replicate 64 CHR ''0'')"

definition sample_candidate_record :: "string \<Rightarrow> string \<Rightarrow> PackAuthority \<Rightarrow> RawCandidateRecord" where
  "sample_candidate_record i seller authority =
     \<lparr>rc_record_id = i, rc_pack_id = ''pack-'' @ i, rc_pack_version = 1, rc_seller_id = seller,
      rc_product_id = ''desk'', rc_edition = ''team'', rc_region = ''eu'', rc_offer_id = ''offer-'' @ i,
      rc_authority = authority, rc_available = True,
      rc_facts = [\<lparr>pf_field = ''sso'', pf_value = FBool True, pf_evidence_ids = [''e-'' @ i], pf_component_id = None\<rparr>],
      rc_seller_gate_ids = [], rc_aliases = [], rc_category_ids = [], rc_jtbd_ids = [],
      rc_pack_status = ''PUBLISHED'', rc_required_product_ids = []\<rparr>"

definition sample_graph_input :: "RawCandidateRecord list \<Rightarrow> DecisionGraphInput" where
  "sample_graph_input candidates =
     \<lparr>di_versions = \<lparr>fv_request = ''1'', fv_company_profile = ''1'', fv_stackfile = ''1'', fv_registry = ''1'',
        fv_pack_set = ''1'', fv_offer_set = ''1'', fv_taxonomy = ''1'', fv_normalization = ''1'', fv_policy = ''1'',
        fv_fx = ''1'', fv_pipeline = ''1'', fv_engine = ''1''\<rparr>,
      di_evaluated_at = \<lparr>dt_local = 63000000000000000, dt_offset = Some 0\<rparr>, di_buyer_facts = [],
      di_candidates = candidates, di_offers = [],
      di_evidence = [], di_policies = [], di_gates = [], di_preferences = [], di_risk_rules = [],
      di_risk_rules_complete = True, di_current_actions = [], di_identity = sample_identity, di_outcomes = [],
      di_removed = [], di_resolutions = [], di_recall_policy = None\<rparr>"

definition sample_duplicates :: "RawCandidateRecord list" where
  "sample_duplicates =
     [sample_candidate_record ''r1'' ''acme'' PackAuthority.SELLER_SEALED,
      sample_candidate_record ''r2'' ''Acme-Inc'' PackAuthority.EXTERNAL_UNSEALED,
      (sample_candidate_record ''r3'' ''other'' PackAuthority.SELLER_SEALED)\<lparr>rc_pack_status := ''REVOKED''\<rparr>]"

definition sample_recall_input :: DecisionGraphInput where
  "sample_recall_input = (sample_graph_input sample_duplicates)
     \<lparr>di_identity := \<lparr>in_version = ''v1'', in_aliases = [(''acme-inc'', ''acme'')]\<rparr>\<rparr>"

definition recall_or_empty :: "RecallResult result \<Rightarrow> RecallResult" where
  "recall_or_empty r = (case r of Inr x \<Rightarrow> x
     | Inl _ \<Rightarrow> \<lparr>rr_identities = [], rr_merges = [], rr_representatives = [], rr_exclusions = [], rr_raw_record_count = 0\<rparr>)"

lemma sample_recall_ok:
  "recall_and_deduplicate constant_hash sample_recall_input
    = Inr (recall_or_empty (recall_and_deduplicate constant_hash sample_recall_input))"
proof -
  have "is_ok (recall_and_deduplicate constant_hash sample_recall_input)" by code_simp
  then show ?thesis by (auto simp: is_ok_iff recall_or_empty_def)
qed

lemma recall_conserves_witness:
  "rr_raw_record_count (recall_or_empty (recall_and_deduplicate constant_hash sample_recall_input)) = 1 + 1 + 1"
proof -
  let ?r = "recall_or_empty (recall_and_deduplicate constant_hash sample_recall_input)"
  have "length (rr_identities ?r) = 1" "length (rr_merges ?r) = 1" "length (rr_exclusions ?r) = 1" by code_simp+
  with recall_conserves [OF sample_recall_ok] show ?thesis by presburger
qed


section \<open>Evidence states\<close>

lemma evidence_age_Inr:
  assumes "evidence_age_bounds t lower upper sla = Inr age"
  shows "er_fraction (ea_upper age) \<le> 1 \<longleftrightarrow> dt_instant t - dt_instant lower \<le> sla * 1000000"
proof -
  obtain lo hi where sla: "1 \<le> sla" and hi: "age_ratio t sla lower = Inr hi" and "mk_EvidenceAgeBounds lo hi = Inr age"
    using assms by (auto simp: evidence_age_bounds_def result_simps)
  then have age: "ea_upper age = hi" by (auto simp: mk_EvidenceAgeBounds_def result_simps)
  let ?delta = "dt_instant t - dt_instant lower"
  have "er_fraction hi = of_int ?delta / of_int (sla * 1000000)"
    using hi unfolding age_ratio_def by (metis ratio_of_fraction_ok sum.inject(2))
  moreover have "0 < sla * 1000000" using sla by simp
  then have "(of_int ?delta / of_int (sla * 1000000) :: rat) \<le> 1 \<longleftrightarrow> ?delta \<le> sla * 1000000"
    by (simp only: divide_le_eq_1_pos of_int_0_less_iff of_int_le_iff)
  ultimately show ?thesis by (simp add: age)
qed

definition observed_within :: "EvidenceRecord \<Rightarrow> EvidencePolicy \<Rightarrow> py_datetime \<Rightarrow> bool" where
  "observed_within r policy t =
     (case (ev_lower r, ev_upper r) of
        (Some lower, Some upper) \<Rightarrow> dt_instant t - dt_instant lower \<le> ep_sla_seconds policy * 1000000
      | _ \<Rightarrow> False)"

lemma record_age_fresh:
  assumes "record_age r policy t = Inr age"
  shows "observed_within r policy t \<longleftrightarrow> map_option is_fresh age = Some True"
    "age = None \<longleftrightarrow> ev_lower r = None \<or> ev_upper r = None"
  using assms
  by (auto simp: record_age_def observed_within_def mapR_res_Inr_iff is_fresh_def evidence_age_Inr split: option.splits)

text \<open>
  Evidence is acceptable exactly when nothing can be held against it: an assessment's state is
  ACCEPTABLE iff it gives no reason, iff source class, method and scope are those the policy allows, the record
  is reconstructable, neither disputed nor revoked, and both observation bounds are known with the earlier one
  no older than the policy's SLA to the microsecond. CONFLICT means disputed or revoked, STALE known but too old.
\<close>

theorem evidence_acceptable_iff:
  assumes "assessment r policy field t = Inr a"
  shows "(as_state a = EvidenceState.ACCEPTABLE) = (as_reasons a = [])
    \<and> (as_state a = EvidenceState.ACCEPTABLE) =
        (ev_source_class r \<in> set (ep_source_classes policy) \<and> ev_method r \<in> set (ep_methods policy)
         \<and> scope_matches (ep_required_scope policy) (ev_scope r) \<and> ev_reconstructable r
         \<and> \<not> ev_disputed r \<and> \<not> ev_revoked r \<and> observed_within r policy t)
    \<and> (as_state a = EvidenceState.CONFLICT) = (ev_disputed r \<or> ev_revoked r)
    \<and> (as_state a = EvidenceState.STALE) =
        (\<not> ev_disputed r \<and> \<not> ev_revoked r \<and> ev_lower r \<noteq> None \<and> ev_upper r \<noteq> None \<and> \<not> observed_within r policy t)"
proof -
  from assms obtain age where age: "record_age r policy t = Inr age"
    by (auto simp: assessment_def Let_def bindR_Inr_iff)
  let ?s = "ev_source_class r \<in> set (ep_source_classes policy)" and ?m = "ev_method r \<in> set (ep_methods policy)"
    and ?c = "scope_matches (ep_required_scope policy) (ev_scope r)"
  have a: "as_state a = evidence_state ?s ?m ?c r (map_option is_fresh age)"
      "as_reasons a = sort (static_reasons ?s ?m ?c r @ time_reasons age)"
    using assms age by (auto simp: assessment_def Let_def)
  have "as_reasons a = [] \<longleftrightarrow> static_reasons ?s ?m ?c r = [] \<and> time_reasons age = []"
    unfolding a(2) sort_nil append_is_Nil_conv ..
  moreover have "static_reasons ?s ?m ?c r = [] \<longleftrightarrow> ?s \<and> ?m \<and> ?c \<and> ev_reconstructable r \<and> \<not> ev_disputed r \<and> \<not> ev_revoked r"
    unfolding static_reasons_def by simp
  moreover have "time_reasons age = [] \<longleftrightarrow> map_option is_fresh age = Some True"
    by (auto simp: time_reasons_def split: option.splits)
  ultimately show ?thesis
    unfolding a(1) record_age_fresh(1) [OF age] evidence_state_def using record_age_fresh(2) [OF age]
    by (cases "age"; cases "ev_disputed r \<or> ev_revoked r") auto
qed

definition sample_evidence :: EvidenceRecord where
  "sample_evidence = \<lparr>ev_evidence_id = ''e1'', ev_record_id = ''r1'', ev_source_class = ''VENDOR'', ev_method = ''API'',
     ev_scope = ''EU'', ev_reconstructable = True,
     ev_lower = Some \<lparr>dt_local = 62999999000000000, dt_offset = Some 0\<rparr>,
     ev_upper = Some \<lparr>dt_local = 62999999500000000, dt_offset = Some 0\<rparr>, ev_disputed = False, ev_revoked = False\<rparr>"

definition sample_policy :: "int \<Rightarrow> EvidencePolicy" where
  "sample_policy sla = \<lparr>ep_field = ''sso'', ep_source_classes = [''VENDOR''], ep_methods = [''API''],
     ep_required_scope = '' eu'', ep_sla_seconds = sla\<rparr>"

definition evaluated :: py_datetime where
  "evaluated = \<lparr>dt_local = 63000000000000000, dt_offset = Some 0\<rparr>"

lemma evidence_acceptable_iff_witness:
  "\<exists>a b. assessment sample_evidence (sample_policy 1000) ''sso'' evaluated = Inr a \<and> as_reasons a = []
    \<and> assessment sample_evidence (sample_policy 999) ''sso'' evaluated = Inr b \<and> as_state b = EvidenceState.STALE"
proof -
  have "is_ok (assessment sample_evidence (sample_policy 1000) ''sso'' evaluated)"
    "is_ok (assessment sample_evidence (sample_policy 999) ''sso'' evaluated)" by code_simp+
  then obtain a b where a: "assessment sample_evidence (sample_policy 1000) ''sso'' evaluated = Inr a"
      and b: "assessment sample_evidence (sample_policy 999) ''sso'' evaluated = Inr b"
    by (auto simp: is_ok_iff)
  have in1: "observed_within sample_evidence (sample_policy 1000) evaluated"
    and in2: "\<not> observed_within sample_evidence (sample_policy 999) evaluated"
    and rest: "scope_matches (ep_required_scope (sample_policy 1000)) (ev_scope sample_evidence)" by code_simp+
  have "as_reasons a = []"
    using evidence_acceptable_iff [OF a] in1 rest by (auto simp: sample_evidence_def sample_policy_def)
  moreover have "as_state b = EvidenceState.STALE"
    using evidence_acceptable_iff [OF b] in2 by (simp add: sample_evidence_def)
  ultimately show ?thesis using a b by blast
qed

lemma dict_of_key: "map_of (dict_of (map (\<lambda>x. (f x, x)) xs)) k = Some x \<Longrightarrow> x \<in> set xs \<and> f x = k"
  unfolding map_of_dict_of by (auto dest!: map_of_SomeD)

lemma assess_pair_Inr:
  assumes "assess_pair d pair = Inr a"
  shows "(as_evidence_id a, as_field a) = pair"
proof -
  obtain i f where pair: "pair = (i, f)" by fastforce
  let ?e = "dict_of (map (\<lambda>e. (ev_evidence_id e, e)) (di_evidence d))"
  obtain p where p: "map_of (dict_of (map (\<lambda>p. (ep_field p, p)) (di_policies d))) f = Some p"
    using assms unfolding assess_pair_def pair by (cases "map_of (dict_of (map (\<lambda>p. (ep_field p, p)) (di_policies d))) f") simp_all
  show ?thesis
  proof (cases "map_of ?e i")
    case None
    with assms p show ?thesis by (auto simp: assess_pair_def pair missing_assessment_def)
  next
    case (Some e)
    with assms p have "assessment e p f (di_evaluated_at d) = Inr a" by (simp add: assess_pair_def pair)
    then have "as_evidence_id a = ev_evidence_id e" "as_field a = f"
      by (auto simp: assessment_def Let_def bindR_Inr_iff)
    with dict_of_key [OF Some] pair show ?thesis by simp
  qed
qed

text \<open>
  Every decision-material pair of evidence and field is assessed exactly once and nothing else is: the
  assessments of a successful run are, in order, those of the sorted distinct pairs, and a material field
  without a policy stops the run.
\<close>

theorem assess_evidence_complete:
  shows "(assess_evidence d recall = Inr assessments \<longrightarrow>
      map (\<lambda>a. (as_evidence_id a, as_field a)) assessments = material_pairs d recall)
    \<and> distinct (material_pairs d recall) \<and> sorted (material_pairs d recall)
    \<and> ((\<exists>(i, f)\<in>set (material_pairs d recall). f \<notin> ep_field ` set (di_policies d)) \<longrightarrow>
         \<not> is_ok (assess_evidence d recall))"
proof (intro conjI impI)
  assume "assess_evidence d recall = Inr assessments"
  then have "list_all2 (\<lambda>p a. assess_pair d p = Inr a) (material_pairs d recall) assessments"
    by (simp add: assess_evidence_def traverse_Inr_iff)
  then show "map (\<lambda>a. (as_evidence_id a, as_field a)) assessments = material_pairs d recall"
    by (induction rule: list_all2_induct) (simp_all add: assess_pair_Inr)
next
  assume "\<exists>(i, f)\<in>set (material_pairs d recall). f \<notin> ep_field ` set (di_policies d)"
  then obtain i f where p: "(i, f) \<in> set (material_pairs d recall)" "f \<notin> ep_field ` set (di_policies d)" by blast
  have none: "map_of (dict_of (map (\<lambda>p. (ep_field p, p)) (di_policies d))) f = None"
  proof (rule ccontr)
    assume "map_of (dict_of (map (\<lambda>p. (ep_field p, p)) (di_policies d))) f \<noteq> None"
    then obtain x where "map_of (dict_of (map (\<lambda>p. (ep_field p, p)) (di_policies d))) f = Some x" by blast
    from dict_of_key [OF this] p(2) show False by blast
  qed
  have "\<not> is_ok (assess_pair d (i, f))" unfolding assess_pair_def Let_def prod.case none by simp
  with p(1) show "\<not> is_ok (assess_evidence d recall)"
    by (auto simp: assess_evidence_def is_ok_iff dest: traverse_Inr_set')
qed (simp_all add: material_pairs_def)

definition sample_material_input :: DecisionGraphInput where
  "sample_material_input = (sample_graph_input sample_duplicates)\<lparr>di_policies := [sample_policy 60]\<rparr>"

lemma assess_evidence_complete_witness:
  "\<exists>as. assess_evidence sample_material_input (recall_or_empty (recall_and_deduplicate constant_hash sample_material_input)) = Inr as
    \<and> map (\<lambda>a. (as_evidence_id a, as_field a)) as = [(''e-r1'', ''sso''), (''e-r2'', ''sso'')]"
proof -
  let ?rc = "recall_or_empty (recall_and_deduplicate constant_hash sample_material_input)"
  have "is_ok (assess_evidence sample_material_input ?rc)"
    "material_pairs sample_material_input ?rc = [(''e-r1'', ''sso''), (''e-r2'', ''sso'')]" by code_simp+
  then obtain as where as: "assess_evidence sample_material_input ?rc = Inr as"
      "material_pairs sample_material_input ?rc = [(''e-r1'', ''sso''), (''e-r2'', ''sso'')]"
    by (auto simp: is_ok_iff)
  from mp [OF conjunct1 [OF assess_evidence_complete] as(1)] as show ?thesis
    by (intro exI [of _ as]) simp
qed

end
