(* ===== verification/GraphGates.thy ===== *)
theory GraphGates
  imports GraphRecall
begin

text \<open>
  \<^verbatim>\<open>decision_engine/graph_v1.py\<close>, gates: the material a plan is evaluated on, the state of a
  field over the evidence behind it, predicates on fact values, and the gates with the status they give
  a plan. \<^verbatim>\<open>content_hash\<close> is the argument \<open>H\<close>.
\<close>

section \<open>Statuses\<close>

definition status_precedence :: "CandidateStatus list" where
  "status_precedence =
     [CandidateStatus.UNAVAILABLE, CandidateStatus.CONFLICTING_EVIDENCE, CandidateStatus.STALE_EVIDENCE,
      CandidateStatus.INSUFFICIENT_EVIDENCE, CandidateStatus.SIRA_INELIGIBLE, CandidateStatus.SEIL_PASS,
      CandidateStatus.AUTHORITY_REQUIRED, CandidateStatus.ADVISORY_ONLY, CandidateStatus.CONDITIONAL,
      CandidateStatus.ELIGIBLE_WITH_EXCEPTION, CandidateStatus.ELIGIBLE]"

definition status_rank :: "CandidateStatus \<Rightarrow> nat" where
  "status_rank s = length (takeWhile (\<lambda>x. x \<noteq> s) status_precedence)"

section \<open>Fractions in text\<close>

text \<open>
  \<^verbatim>\<open>Fraction(str)\<close>: white space around it, a sign, then either a quotient of digit groups or a
  decimal with an optional exponent; digits may be grouped with single underscores.
\<close>

definition digit_group :: "string \<Rightarrow> bool" where
  "digit_group s = list_all (\<lambda>g. g \<noteq> [] \<and> list_all is_digit g) (split_on CHR ''_'' s)"

definition group_value :: "string \<Rightarrow> int" where
  "group_value s = digits_value 0 (filter (\<lambda>c. c \<noteq> CHR ''_'') s)"

definition optional_group :: "string \<Rightarrow> bool" where
  "optional_group s = (s = [] \<or> digit_group s)"

definition bad_fraction :: py_error where
  "bad_fraction = ValueError ''Invalid literal for Fraction''"

definition parse_quotient :: "string \<Rightarrow> rat result" where
  "parse_quotient u =
     (let num = rev (dropWhile is_space (rev (takeWhile (\<lambda>c. c \<noteq> CHR ''/'') u)));
          den = dropWhile is_space (tl (dropWhile (\<lambda>c. c \<noteq> CHR ''/'') u))
      in if digit_group num \<and> digit_group den
         then if group_value den = 0 then Inl ZeroDivisionError
              else Inr (of_int (group_value num) / of_int (group_value den))
         else Inl bad_fraction)"

definition parse_group_exponent :: "string \<Rightarrow> int option" where
  "parse_group_exponent s =
     (case s of
        [] \<Rightarrow> Some 0
      | _ # t \<Rightarrow> (case take_sign t of (neg, ds) \<Rightarrow>
          if digit_group ds then Some ((if neg then - 1 else 1) * group_value ds) else None))"

definition parse_point :: "string \<Rightarrow> rat result" where
  "parse_point u =
     (let is_e = (\<lambda>c. c = CHR ''e'' \<or> c = CHR ''E'');
          mantissa = takeWhile (\<lambda>c. \<not> is_e c) u;
          whole = takeWhile (\<lambda>c. c \<noteq> CHR ''.'') mantissa;
          frac = drop (Suc (length whole)) mantissa;
          k = length (filter (\<lambda>c. c \<noteq> CHR ''_'') frac)
      in case parse_group_exponent (dropWhile (\<lambda>c. \<not> is_e c) u) of
           None \<Rightarrow> Inl bad_fraction
         | Some e \<Rightarrow>
             if optional_group whole \<and> optional_group frac \<and> (whole \<noteq> [] \<or> frac \<noteq> [])
             then Inr (dec_value (group_value (whole @ frac)) (e - int k)) else Inl bad_fraction)"

definition fraction_of_str :: "string \<Rightarrow> rat result" where
  "fraction_of_str s =
     (case take_sign (str_strip s) of (neg, u) \<Rightarrow>
        mapR_res (\<lambda>q. if neg then - q else q)
          (if CHR ''/'' \<in> set u then parse_quotient u else parse_point u))"

text \<open>\<^verbatim>\<open>Fraction(str(value))\<close> of an integer or a string; the callers exclude the rest.\<close>

definition fact_fraction :: "fact_value \<Rightarrow> rat result" where
  "fact_fraction v =
     (case v of FInt i \<Rightarrow> Inr (of_int i) | FStr s \<Rightarrow> fraction_of_str s | _ \<Rightarrow> Inl bad_fraction)"

definition fact_is_number :: "fact_value \<Rightarrow> bool" where
  "fact_is_number v = (case v of FInt _ \<Rightarrow> True | FStr _ \<Rightarrow> True | _ \<Rightarrow> False)"

section \<open>Predicates\<close>

definition fact_strict_equal :: "fact_value \<Rightarrow> fact_value \<Rightarrow> bool" where
  "fact_strict_equal left right =
     (if fact_is_bool left \<or> fact_is_bool right
      then fact_is_bool left \<and> fact_is_bool right \<and> left = right
      else left = right)"

definition compare_fractions :: "string \<Rightarrow> rat \<Rightarrow> rat \<Rightarrow> bool" where
  "compare_fractions op left right =
     (if op = ''lte'' then left \<le> right else if op = ''lt'' then left < right
      else if op = ''gte'' then right \<le> left else right < left)"

definition predicate_matches :: "fact_value \<Rightarrow> FactPredicate \<Rightarrow> bool result" where
  "predicate_matches v p =
     (let expected = pd_value p; op = pd_operator p
      in if op = ''eq'' then Inr (fact_strict_equal v expected)
         else if op = ''neq'' then Inr (\<not> fact_strict_equal v expected)
         else if op = ''in''
         then Inr (case expected of FTuple items \<Rightarrow> list_ex (\<lambda>i. fact_strict_equal v (FStr i)) items | _ \<Rightarrow> False)
         else if op = ''contains_all''
         then Inr (case (v, expected) of
                     (FTuple actual, FTuple items) \<Rightarrow>
                       list_all (\<lambda>i. list_ex (\<lambda>a. fact_strict_equal (FStr i) (FStr a)) actual) items
                   | _ \<Rightarrow> False)
         else if op \<in> {''lte'', ''lt'', ''gte'', ''gt''}
         then if fact_is_bool v \<or> fact_is_bool expected then Inr False
              else if \<not> fact_is_number v \<or> \<not> fact_is_number expected then Inr False
              else bindR (fact_fraction v) (\<lambda>left.
                   bindR (fact_fraction expected) (\<lambda>right. Inr (compare_fractions op left right)))
         else if op = ''exists'' then Inr (v \<noteq> FNone)
         else Inl (ValueError (''unsupported deterministic predicate operator: '' @ op)))"

text \<open>\<^verbatim>\<open>all(_predicate_matches(v, predicate) for v in values)\<close> stops at the first mismatch.\<close>

fun all_match :: "FactPredicate \<Rightarrow> fact_value list \<Rightarrow> bool result" where
  "all_match p [] = Inr True"
| "all_match p (v # vs) = bindR (predicate_matches v p) (\<lambda>b. if b then all_match p vs else Inr False)"

section \<open>Plan material and field states\<close>

record PlanMaterial =
  ml_source_id :: string
  ml_action :: SolutionAction
  ml_component_id :: string
  ml_component_ids :: "string list"
  ml_facts :: "ProductFact list"
  ml_gate_facts :: "ProductFact list"
  ml_cost :: OfferCost
  ml_payment_components :: nat
  ml_available :: bool
  ml_authority :: "PackAuthority option"
  ml_seller_gate_ids :: "string list"
  ml_permitted_resolution :: "string option"
  ml_outcome_subject_id :: string
  ml_dependency_issues :: "string list"

record FieldState =
  fs_values :: "fact_value list"
  fs_state :: EvidenceState
  fs_evidence_ids :: "string list"
  fs_age_bounds :: "EvidenceAgeBounds list"
  fs_bound_reasons :: "string list"

definition active_buyer_facts :: "DecisionGraphInput \<Rightarrow> FrozenFact list" where
  "active_buyer_facts d = filter (\<lambda>f. ff_fact_id f \<notin> set (di_removed d)) (di_buyer_facts d)"

definition buyer_value_map :: "DecisionGraphInput \<Rightarrow> (string \<times> fact_value) list" where
  "buyer_value_map d = dict_of (map (\<lambda>f. (ff_field f, ff_value f)) (active_buyer_facts d))"

definition active_source_ids :: "DecisionGraphInput \<Rightarrow> string list" where
  "active_source_ids d = map ff_fact_id (active_buyer_facts d)"

type_synonym assessment_index = "((string \<times> string) \<times> EvidenceAssessment) list"

definition assessment_index :: "EvidenceAssessment list \<Rightarrow> assessment_index" where
  "assessment_index assessments = dict_of (map (\<lambda>a. ((as_evidence_id a, as_field a), a)) assessments)"

definition is_bound_reason :: "string \<Rightarrow> bool" where
  "is_bound_reason r = prefix ''BOUND_UNAVAILABLE:'' r"

definition values_by_hash ::
    "(pyval \<Rightarrow> string result) \<Rightarrow> ProductFact list \<Rightarrow> (string \<times> fact_value) list result" where
  "values_by_hash H facts =
     mapR_res dict_of (traverse (\<lambda>f. mapR_res (\<lambda>h. (h, pf_value f)) (H (fact_pyval (pf_value f)))) facts)"

definition combined_state :: "EvidenceState set \<Rightarrow> bool \<Rightarrow> EvidenceState" where
  "combined_state states several_values =
     (if EvidenceState.CONFLICT \<in> states \<or> several_values then EvidenceState.CONFLICT
      else if EvidenceState.ACCEPTABLE \<in> states then EvidenceState.ACCEPTABLE
      else if EvidenceState.STALE \<in> states then EvidenceState.STALE
      else EvidenceState.UNKNOWN)"

definition bound_reasons_of :: "EvidenceAssessment list \<Rightarrow> string list" where
  "bound_reasons_of assessments = sorted_set (filter is_bound_reason (concat (map as_reasons assessments)))"

definition field_state ::
    "(pyval \<Rightarrow> string result) \<Rightarrow> ProductFact list \<Rightarrow> string \<Rightarrow> assessment_index \<Rightarrow> FieldState result" where
  "field_state H facts field index =
     (let matching = filter (\<lambda>f. pf_field f = field) facts
      in if matching = []
         then Inr \<lparr>fs_values = [], fs_state = EvidenceState.UNKNOWN, fs_evidence_ids = [], fs_age_bounds = [],
                   fs_bound_reasons = []\<rparr>
         else
           let evidence_ids = sorted_set (concat (map pf_evidence_ids matching));
               assessments = List.map_filter (\<lambda>i. map_of index (i, field)) evidence_ids
           in bindR (values_by_hash H matching) (\<lambda>by_hash.
              let vals = map snd (sort_key fst by_hash)
              in Inr \<lparr>fs_values = vals,
                      fs_state = combined_state (set (map as_state assessments)) (1 < length vals),
                      fs_evidence_ids = evidence_ids,
                      fs_age_bounds = List.map_filter as_age_bounds assessments,
                      fs_bound_reasons = bound_reasons_of assessments\<rparr>))"

definition component_field_states ::
    "(pyval \<Rightarrow> string result) \<Rightarrow> PlanMaterial \<Rightarrow> string \<Rightarrow> assessment_index \<Rightarrow> FieldState list result" where
  "component_field_states H m field index =
     (if length (ml_component_ids m) = 1
      then mapR_res (\<lambda>s. [s]) (field_state H (ml_gate_facts m) field index)
      else traverse (\<lambda>c. field_state H (filter (\<lambda>f. pf_component_id f = Some c) (ml_gate_facts m)) field index)
             (ml_component_ids m))"

section \<open>Gates\<close>

definition gate_applies :: "GateRule \<Rightarrow> PlanMaterial \<Rightarrow> string list \<Rightarrow> bool" where
  "gate_applies g m active =
     (if gr_source_fact_ids g \<noteq> [] \<and> \<not> set (gr_source_fact_ids g) \<subseteq> set active then False
      else if gr_applies_to g \<noteq> [] \<and> ml_action m \<notin> set (gr_applies_to g) then False
      else if gr_blocked_status g = CandidateStatus.SEIL_PASS then gr_gate_id g \<in> set (ml_seller_gate_ids m)
      else True)"

definition availability_gate :: "PlanMaterial \<Rightarrow> GateResult" where
  "availability_gate m =
     \<lparr>gt_gate_id = ''availability_'' @ ml_source_id m,
      gt_truth = (if ml_available m then TruthValue.TRUE else TruthValue.FALSE),
      gt_reasons = (if ml_available m then []
        else [\<lparr>gn_reason_code = ''UNAVAILABLE'', gn_status = CandidateStatus.UNAVAILABLE,
               gn_detail = ''Action is unavailable''\<rparr>]),
      gt_evaluated = [''availability''], gt_permitted_resolution = ml_permitted_resolution m\<rparr>"

definition authority_gate :: "PlanMaterial \<Rightarrow> GateResult option" where
  "authority_gate m =
     (if ml_authority m = None \<or> ml_authority m = Some PackAuthority.SELLER_SEALED then None
      else Some \<lparr>gt_gate_id = ''authority_'' @ ml_source_id m, gt_truth = TruthValue.FALSE,
        gt_reasons = [\<lparr>gn_reason_code = ''SELLER_AUTHORITY_REQUIRED'', gn_status = CandidateStatus.ADVISORY_ONLY,
          gn_detail = ''The package is research-only until a seller seals it''\<rparr>],
        gt_evaluated = [''publisher_authority''], gt_permitted_resolution = Some ''NEW_PACK_VERSION''\<rparr>)"

definition dependency_gates :: "PlanMaterial \<Rightarrow> GateResult list" where
  "dependency_gates m =
     map (\<lambda>(index, issue).
       \<lparr>gt_gate_id = ''dependency_'' @ ml_source_id m @ ''_'' @ show_int (int index), gt_truth = TruthValue.FALSE,
        gt_reasons = [\<lparr>gn_reason_code = issue, gn_status = CandidateStatus.SIRA_INELIGIBLE,
          gn_detail = ''Required component dependency closure is not feasible''\<rparr>],
        gt_evaluated = [''component_dependency_closure''], gt_permitted_resolution = None\<rparr>)
       (List.enumerate 1 (ml_dependency_issues m))"

text \<open>What one step of the evaluation found: truth values of the predicate and reasons.\<close>

type_synonym findings = "TruthValue list \<times> GateReason list"

definition finding :: "TruthValue \<Rightarrow> string \<Rightarrow> CandidateStatus \<Rightarrow> string \<Rightarrow> findings" where
  "finding truth code status detail =
     ([truth], [\<lparr>gn_reason_code = code, gn_status = status, gn_detail = detail\<rparr>])"

definition join_findings :: "findings list \<Rightarrow> findings" where
  "join_findings fs = (concat (map fst fs), concat (map snd fs))"

definition seller_evidence_findings :: "GateRule \<Rightarrow> assessment_index \<Rightarrow> findings" where
  "seller_evidence_findings g index =
     (if gr_blocked_status g = CandidateStatus.SEIL_PASS \<and> gr_evidence_claim_ids g \<noteq> []
      then
        let referenced = map snd (filter (\<lambda>((i, f), a). i \<in> set (gr_evidence_claim_ids g)) index);
            states = set (map as_state referenced)
        in join_findings
          ((if referenced = [] \<or> EvidenceState.UNKNOWN \<in> states
            then [finding TruthValue.UNKNOWN ''INSUFFICIENT_SELLER_RULE_EVIDENCE'' CandidateStatus.INSUFFICIENT_EVIDENCE
                    ''The published seller rule lacks reconstructable current evidence''] else [])
           @ (if EvidenceState.STALE \<in> states
              then [finding TruthValue.UNKNOWN ''STALE_SELLER_RULE_EVIDENCE'' CandidateStatus.STALE_EVIDENCE
                      ''The published seller rule evidence is stale''] else [])
           @ (if EvidenceState.CONFLICT \<in> states
              then [finding TruthValue.CONFLICT ''CONFLICTING_SELLER_RULE_EVIDENCE'' CandidateStatus.CONFLICTING_EVIDENCE
                      ''The published seller rule evidence is disputed or revoked''] else []))
      else ([], []))"

definition truth_of :: "bool \<Rightarrow> TruthValue" where
  "truth_of b = (if b then TruthValue.TRUE else TruthValue.FALSE)"

definition seller_predicate_findings :: "(string \<times> fact_value) list \<Rightarrow> FactPredicate \<Rightarrow> findings result" where
  "seller_predicate_findings buyer_values p =
     (case map_of buyer_values (pd_field p) of
        None \<Rightarrow> Inr (finding TruthValue.UNKNOWN ''SELLER_CONDITION_UNRESOLVED'' CandidateStatus.CONDITIONAL
                  (''Missing sanitized condition field '' @ pd_field p))
      | Some v \<Rightarrow> mapR_res (\<lambda>b. ([truth_of b], [])) (predicate_matches v p))"

definition field_findings :: "FactPredicate \<Rightarrow> FieldState list \<Rightarrow> findings result" where
  "field_findings p states =
     (let found = set (map fs_state states)
      in if EvidenceState.CONFLICT \<in> found
         then Inr (finding TruthValue.CONFLICT ''CONFLICTING_EVIDENCE'' CandidateStatus.CONFLICTING_EVIDENCE
                (''Conflicting values support '' @ pd_field p))
         else if EvidenceState.STALE \<in> found
         then Inr (finding TruthValue.UNKNOWN ''STALE_EVIDENCE'' CandidateStatus.STALE_EVIDENCE
                (''Evidence for '' @ pd_field p @ '' is stale''))
         else if EvidenceState.UNKNOWN \<in> found \<or> list_ex (\<lambda>s. fs_values s = []) states
         then Inr (finding TruthValue.UNKNOWN ''INSUFFICIENT_EVIDENCE'' CandidateStatus.INSUFFICIENT_EVIDENCE
                (''Current acceptable evidence for '' @ pd_field p @ '' is missing''))
         else mapR_res (\<lambda>bs. (map truth_of bs, [])) (traverse (\<lambda>s. all_match p (fs_values s)) states))"

definition predicate_findings ::
    "(pyval \<Rightarrow> string result) \<Rightarrow> GateRule \<Rightarrow> PlanMaterial \<Rightarrow> (string \<times> fact_value) list \<Rightarrow> assessment_index
      \<Rightarrow> FactPredicate \<Rightarrow> findings result" where
  "predicate_findings H g m buyer_values index p =
     (if gr_blocked_status g = CandidateStatus.SEIL_PASS then seller_predicate_findings buyer_values p
      else bindR (component_field_states H m (pd_field p) index) (field_findings p))"

definition gate_verdict :: "GateMode \<Rightarrow> TruthValue list \<Rightarrow> TruthValue" where
  "gate_verdict mode states =
     (if TruthValue.CONFLICT \<in> set states then TruthValue.CONFLICT
      else case mode of
        GateMode.REQUIRE_MATCH \<Rightarrow>
          if TruthValue.FALSE \<in> set states then TruthValue.FALSE
          else if TruthValue.UNKNOWN \<in> set states then TruthValue.UNKNOWN else TruthValue.TRUE
      | GateMode.BLOCK_ON_MATCH \<Rightarrow>
          if TruthValue.FALSE \<in> set states then TruthValue.TRUE
          else if TruthValue.UNKNOWN \<in> set states then TruthValue.UNKNOWN else TruthValue.FALSE)"

definition verdict_reasons :: "GateRule \<Rightarrow> TruthValue \<Rightarrow> GateReason list" where
  "verdict_reasons g truth =
     (if truth = TruthValue.FALSE
      then [\<lparr>gn_reason_code = gr_reason_code g, gn_status = gr_blocked_status g,
             gn_detail = (case gr_mode g of
               GateMode.REQUIRE_MATCH \<Rightarrow> ''Required predicate failed''
             | GateMode.BLOCK_ON_MATCH \<Rightarrow> ''Blocking predicate matched'')\<rparr>]
      else [])"

definition evaluate_gate ::
    "(pyval \<Rightarrow> string result) \<Rightarrow> GateRule \<Rightarrow> PlanMaterial \<Rightarrow> (string \<times> fact_value) list \<Rightarrow> assessment_index
      \<Rightarrow> GateResult result" where
  "evaluate_gate H g m buyer_values index =
     bindR (traverse (predicate_findings H g m buyer_values index) (gr_predicates g)) (\<lambda>found.
     case join_findings (seller_evidence_findings g index # found) of (states, reasons) \<Rightarrow>
       let truth = gate_verdict (gr_mode g) states
       in Inr \<lparr>gt_gate_id = gr_gate_id g, gt_truth = truth,
               gt_reasons = sort_key (\<lambda>r. (status_rank (gn_status r), gn_reason_code r, gn_detail r))
                 (remdups (reasons @ verdict_reasons g truth)),
               gt_evaluated = map pd_field (gr_predicates g),
               gt_permitted_resolution = gr_permitted_resolution g\<rparr>)"

definition evaluate_gates ::
    "(pyval \<Rightarrow> string result) \<Rightarrow> DecisionGraphInput \<Rightarrow> PlanMaterial \<Rightarrow> EvidenceAssessment list
      \<Rightarrow> GateResult list result" where
  "evaluate_gates H d m assessments =
     bindR (traverse (\<lambda>g. evaluate_gate H g m (buyer_value_map d) (assessment_index assessments))
              (filter (\<lambda>g. gate_applies g m (active_source_ids d)) (sort_key gr_gate_id (di_gates d)))) (\<lambda>results.
     Inr (availability_gate m # dependency_gates m
          @ (case authority_gate m of None \<Rightarrow> [] | Some a \<Rightarrow> [a]) @ results))"

definition primary_status :: "GateResult list \<Rightarrow> CandidateStatus \<times> GateReason option" where
  "primary_status gates =
     (let reasons = concat (map gt_reasons gates)
      in if reasons = [] then (CandidateStatus.ELIGIBLE, None)
         else let primary = hd (sort_key (\<lambda>r. (status_rank (gn_status r), gn_reason_code r)) reasons)
              in (gn_status primary, Some primary))"

section \<open>What a gate's verdict means\<close>

lemma status_rank_inject [simp]: "status_rank a = status_rank b \<longleftrightarrow> a = b"
  by (cases a; cases b) (simp_all add: status_rank_def status_precedence_def)

lemma join_findings_sets:
  "set (fst (join_findings fs)) = (\<Union>f\<in>set fs. set (fst f))" "set (snd (join_findings fs)) = (\<Union>f\<in>set fs. set (snd f))"
  by (auto simp: join_findings_def)

text \<open>Undecided truth values come with reasons, and only they do.\<close>

definition balanced :: "findings \<Rightarrow> bool" where
  "balanced f =
     ((snd f = []) = (TruthValue.UNKNOWN \<notin> set (fst f) \<and> TruthValue.CONFLICT \<notin> set (fst f))
      \<and> TruthValue.UNRESOLVED \<notin> set (fst f))"

lemma balanced_finding: "truth = TruthValue.UNKNOWN \<or> truth = TruthValue.CONFLICT \<Longrightarrow> balanced (finding truth c s d)"
  by (auto simp: balanced_def finding_def)

lemma balanced_truths: "balanced (map truth_of bs, [])"
  by (auto simp: balanced_def truth_of_def)

lemma balanced_join: "(\<And>f. f \<in> set fs \<Longrightarrow> balanced f) \<Longrightarrow> balanced (join_findings fs)"
  unfolding balanced_def join_findings_sets by (force simp: join_findings_def)

lemma balanced_seller_evidence: "balanced (seller_evidence_findings g index)"
proof -
  have "balanced ([], [])" by (simp add: balanced_def)
  then show ?thesis
    unfolding seller_evidence_findings_def Let_def
    by (auto intro!: balanced_join balanced_finding split: if_splits)
qed

lemma balanced_predicate:
  assumes "predicate_findings H g m bv index p = Inr f"
  shows "balanced f"
  using assms balanced_truths [of "[b]" for b]
  by (auto simp: predicate_findings_def seller_predicate_findings_def field_findings_def Let_def
      mapR_res_Inr_iff bindR_Inr_iff balanced_truths intro: balanced_finding split: if_splits option.splits)

lemma gate_verdict_decided:
  assumes "TruthValue.UNRESOLVED \<notin> set states"
  shows "gate_verdict GateMode.REQUIRE_MATCH states = TruthValue.TRUE \<longleftrightarrow> set states \<subseteq> {TruthValue.TRUE}"
    "gate_verdict mode states = TruthValue.FALSE \<Longrightarrow> TruthValue.CONFLICT \<notin> set states"
    "set states \<subseteq> {TruthValue.TRUE} \<Longrightarrow> gate_verdict GateMode.BLOCK_ON_MATCH states = TruthValue.FALSE"
    "TruthValue.UNKNOWN \<notin> set states \<Longrightarrow> TruthValue.CONFLICT \<notin> set states \<Longrightarrow>
      gate_verdict mode states = TruthValue.TRUE \<or> gate_verdict mode states = TruthValue.FALSE"
proof -
  have only: "set states \<subseteq> {TruthValue.TRUE} \<longleftrightarrow>
      TruthValue.CONFLICT \<notin> set states \<and> TruthValue.FALSE \<notin> set states \<and> TruthValue.UNKNOWN \<notin> set states"
  proof
    assume "TruthValue.CONFLICT \<notin> set states \<and> TruthValue.FALSE \<notin> set states \<and> TruthValue.UNKNOWN \<notin> set states"
    then have "x = TruthValue.TRUE" if "x \<in> set states" for x
      using that assms by (cases x) auto
    then show "set states \<subseteq> {TruthValue.TRUE}" by blast
  qed auto
  show "gate_verdict GateMode.REQUIRE_MATCH states = TruthValue.TRUE \<longleftrightarrow> set states \<subseteq> {TruthValue.TRUE}"
    "gate_verdict mode states = TruthValue.FALSE \<Longrightarrow> TruthValue.CONFLICT \<notin> set states"
    "set states \<subseteq> {TruthValue.TRUE} \<Longrightarrow> gate_verdict GateMode.BLOCK_ON_MATCH states = TruthValue.FALSE"
    "TruthValue.UNKNOWN \<notin> set states \<Longrightarrow> TruthValue.CONFLICT \<notin> set states \<Longrightarrow>
      gate_verdict mode states = TruthValue.TRUE \<or> gate_verdict mode states = TruthValue.FALSE"
    unfolding only gate_verdict_def by (cases mode; simp split: if_splits)+
qed

lemma evaluate_gate_cases:
  assumes "evaluate_gate H g m bv index = Inr r"
  obtains found states reasons where
    "list_all2 (\<lambda>p f. predicate_findings H g m bv index p = Inr f) (gr_predicates g) found"
    "join_findings (seller_evidence_findings g index # found) = (states, reasons)" "balanced (states, reasons)"
    "gt_truth r = gate_verdict (gr_mode g) states"
    "set (gt_reasons r) = set reasons \<union> set (verdict_reasons g (gt_truth r))"
proof -
  from assms obtain found where f: "traverse (predicate_findings H g m bv index) (gr_predicates g) = Inr found"
    by (auto simp: evaluate_gate_def bindR_Inr_iff)
  obtain states reasons where j: "join_findings (seller_evidence_findings g index # found) = (states, reasons)" by fastforce
  have "balanced x" if "x \<in> set found" for x
    using traverse_Inr_set [OF f that] balanced_predicate by blast
  then have "balanced (join_findings (seller_evidence_findings g index # found))"
    using balanced_seller_evidence by (intro balanced_join) (metis set_ConsD)
  then have "balanced (states, reasons)" unfolding j .
  then show thesis
    by (rule that [OF f [unfolded traverse_Inr_iff] j]) (use assms f j in \<open>auto simp: evaluate_gate_def Let_def\<close>)
qed

text \<open>
  A gate never passes silently: a gate without reasons has truth TRUE; for a REQUIRE_MATCH gate the
  converse holds as well, so reasons and truth agree; a gate whose truth is FALSE gives its own reason code
  with its blocked status.
\<close>

theorem gate_reasons_sound:
  assumes "evaluate_gate H g m buyer_values index = Inr r"
  shows "(gt_reasons r = [] \<longrightarrow> gt_truth r = TruthValue.TRUE)
    \<and> (gr_mode g = GateMode.REQUIRE_MATCH \<longrightarrow> gt_truth r = TruthValue.TRUE \<longrightarrow> gt_reasons r = [])
    \<and> (gt_truth r = TruthValue.FALSE \<longrightarrow>
        (\<exists>w\<in>set (gt_reasons r). gn_reason_code w = gr_reason_code g \<and> gn_status w = gr_blocked_status g))"
proof -
  from evaluate_gate_cases [OF assms] obtain states reasons where
      b: "balanced (states, reasons)" and t: "gt_truth r = gate_verdict (gr_mode g) states"
    and r: "set (gt_reasons r) = set reasons \<union> set (verdict_reasons g (gt_truth r))" .
  from b have un: "TruthValue.UNRESOLVED \<notin> set states"
    and iff: "reasons = [] \<longleftrightarrow> TruthValue.UNKNOWN \<notin> set states \<and> TruthValue.CONFLICT \<notin> set states"
    by (simp_all add: balanced_def)
  have empty: "gt_reasons r = [] \<longleftrightarrow> reasons = [] \<and> gt_truth r \<noteq> TruthValue.FALSE"
    using r by (metis (no_types) Un_empty list.distinct(1) set_empty verdict_reasons_def)
  have "gt_reasons r = [] \<longrightarrow> gt_truth r = TruthValue.TRUE"
    using gate_verdict_decided(4) [OF un, of "gr_mode g"] iff empty t by auto
  moreover have "gt_truth r = TruthValue.TRUE \<longrightarrow> gt_reasons r = []" if "gr_mode g = GateMode.REQUIRE_MATCH"
    using gate_verdict_decided(1) [OF un] iff empty t that by auto
  moreover have "\<exists>w\<in>set (gt_reasons r). gn_reason_code w = gr_reason_code g \<and> gn_status w = gr_blocked_status g"
    if "gt_truth r = TruthValue.FALSE"
    using r that by (simp add: verdict_reasons_def)
  ultimately show ?thesis by blast
qed

definition sample_cost :: OfferCost where
  "sample_cost = \<lparr>off_offer_id = ''offer'', off_low = None, off_base = None, off_high = None,
     off_horizon_days = 365, off_line_items = [], off_payment_required = False\<rparr>"

definition sample_material :: "ProductFact list \<Rightarrow> PlanMaterial" where
  "sample_material facts =
     \<lparr>ml_source_id = ''m1'', ml_action = SolutionAction.BUY, ml_component_id = ''desk'', ml_component_ids = [''desk''],
      ml_facts = facts, ml_gate_facts = facts, ml_cost = sample_cost, ml_payment_components = 0, ml_available = True,
      ml_authority = Some PackAuthority.SELLER_SEALED, ml_seller_gate_ids = [], ml_permitted_resolution = None,
      ml_outcome_subject_id = ''desk'', ml_dependency_issues = []\<rparr>"

definition sample_fact :: "string \<Rightarrow> fact_value \<Rightarrow> ProductFact" where
  "sample_fact field v = \<lparr>pf_field = field, pf_value = v, pf_evidence_ids = [''e1''], pf_component_id = Some ''desk''\<rparr>"

definition accepted :: "string \<Rightarrow> EvidenceAssessment" where
  "accepted field = (missing_assessment ''e1'' field)\<lparr>as_state := EvidenceState.ACCEPTABLE, as_reasons := []\<rparr>"

definition sample_gate :: "GateMode \<Rightarrow> FactPredicate list \<Rightarrow> GateRule" where
  "sample_gate mode ps =
     \<lparr>gr_gate_id = ''g1'', gr_predicates = ps, gr_mode = mode, gr_blocked_status = CandidateStatus.SIRA_INELIGIBLE,
      gr_reason_code = ''POLICY'', gr_source_fact_ids = [], gr_applies_to = [], gr_evidence_claim_ids = [],
      gr_permitted_resolution = None, gr_overridable = False\<rparr>"

definition eq_true :: "string \<Rightarrow> FactPredicate" where
  "eq_true field = \<lparr>pd_field = field, pd_operator = ''eq'', pd_value = FBool True\<rparr>"

definition sample_verdict :: "GateMode \<Rightarrow> FactPredicate list \<Rightarrow> bool \<Rightarrow> GateResult result" where
  "sample_verdict mode ps v =
     evaluate_gate constant_hash (sample_gate mode ps) (sample_material [sample_fact ''sso'' (FBool v)]) []
       (assessment_index [accepted ''sso''])"

lemma gate_reasons_sound_witness:
  "\<exists>r. sample_verdict GateMode.REQUIRE_MATCH [eq_true ''sso''] True = Inr r \<and> gt_truth r = TruthValue.TRUE
    \<and> gt_reasons r = []"
proof -
  have t: "mapR_res gt_truth (sample_verdict GateMode.REQUIRE_MATCH [eq_true ''sso''] True) = Inr TruthValue.TRUE"
    by code_simp
  then obtain r where r: "sample_verdict GateMode.REQUIRE_MATCH [eq_true ''sso''] True = Inr r" "gt_truth r = TruthValue.TRUE"
    by (auto simp: mapR_res_Inr_iff)
  with gate_reasons_sound [OF r(1) [unfolded sample_verdict_def]] show ?thesis by (auto simp: sample_gate_def)
qed

lemma all_match_True: "all_match p vs = Inr True \<longleftrightarrow> (\<forall>v\<in>set vs. predicate_matches v p = Inr True)"
  by (induction vs) (auto simp: bindR_Inr_iff split: if_splits)

definition field_satisfies :: "FactPredicate \<Rightarrow> FieldState \<Rightarrow> bool" where
  "field_satisfies p s =
     (fs_state s = EvidenceState.ACCEPTABLE \<and> fs_values s \<noteq> []
      \<and> (\<forall>v\<in>set (fs_values s). predicate_matches v p = Inr True))"

lemma field_findings_true:
  assumes "field_findings p states = Inr f"
  shows "set (fst f) \<subseteq> {TruthValue.TRUE} \<longleftrightarrow> (\<forall>s\<in>set states. field_satisfies p s)"
proof (cases "(\<forall>s\<in>set states. fs_state s = EvidenceState.ACCEPTABLE) \<and> (\<forall>s\<in>set states. fs_values s \<noteq> [])")
  case True
  then have "EvidenceState.CONFLICT \<notin> fs_state ` set states" "EvidenceState.STALE \<notin> fs_state ` set states"
      "EvidenceState.UNKNOWN \<notin> fs_state ` set states" "\<not> list_ex (\<lambda>s. fs_values s = []) states"
    by (auto simp: list_ex_iff)
  with assms obtain bs where bs: "traverse (\<lambda>s. all_match p (fs_values s)) states = Inr bs" "f = (map truth_of bs, [])"
    by (auto simp: field_findings_def Let_def mapR_res_Inr_iff)
  have "set (fst f) \<subseteq> {TruthValue.TRUE} \<longleftrightarrow> (\<forall>b\<in>set bs. b)" using bs(2) by (auto simp: truth_of_def split: if_splits)
  also have "\<dots> \<longleftrightarrow> (\<forall>s\<in>set states. all_match p (fs_values s) = Inr True)"
  proof (intro iffI ballI)
    fix s assume "\<forall>b\<in>set bs. b" "s \<in> set states"
    then show "all_match p (fs_values s) = Inr True" using traverse_Inr_set' [OF bs(1)] by fastforce
  next
    fix b assume "\<forall>s\<in>set states. all_match p (fs_values s) = Inr True" "b \<in> set bs"
    then show b using traverse_Inr_set [OF bs(1)] by fastforce
  qed
  finally show ?thesis using True by (simp add: field_satisfies_def all_match_True)
next
  case False
  then have "EvidenceState.CONFLICT \<in> fs_state ` set states \<or> EvidenceState.STALE \<in> fs_state ` set states
      \<or> EvidenceState.UNKNOWN \<in> fs_state ` set states \<or> list_ex (\<lambda>s. fs_values s = []) states"
  proof -
    from False consider s where "s \<in> set states" "fs_state s \<noteq> EvidenceState.ACCEPTABLE" | "list_ex (\<lambda>s. fs_values s = []) states"
      by (auto simp: list_ex_iff)
    then show ?thesis
    proof cases
      case (1 s)
      then show ?thesis by (cases "fs_state s") force+
    qed simp
  qed
  with assms have "\<not> set (fst f) \<subseteq> {TruthValue.TRUE}"
    by (auto simp: field_findings_def Let_def finding_def split: if_splits)
  with False show ?thesis by (auto simp: field_satisfies_def)
qed



text \<open>
  A blocking gate that cannot fire still blocks: with one predicate refuted and another without evidence,
  a BLOCK_ON_MATCH gate has truth TRUE, yet keeps the INSUFFICIENT_EVIDENCE reason of the undecided predicate,
  and that reason alone gives the plan its status.
\<close>

theorem block_gate_undecided_reason:
  "mapR_res (\<lambda>r. (gt_truth r, map gn_status (gt_reasons r), fst (primary_status [r])))
     (sample_verdict GateMode.BLOCK_ON_MATCH [eq_true ''sso'', eq_true ''audit''] False)
   = Inr (TruthValue.TRUE, [CandidateStatus.INSUFFICIENT_EVIDENCE], CandidateStatus.INSUFFICIENT_EVIDENCE)"
  by code_simp

lemma evaluate_gates_Inr:
  assumes "evaluate_gates H d m assessments = Inr gates"
  obtains results where "gates = availability_gate m # dependency_gates m
      @ (case authority_gate m of None \<Rightarrow> [] | Some a \<Rightarrow> [a]) @ results"
    "list_all2 (\<lambda>g r. evaluate_gate H g m (buyer_value_map d) (assessment_index assessments) = Inr r)
       (filter (\<lambda>g. gate_applies g m (active_source_ids d)) (sort_key gr_gate_id (di_gates d))) results"
  using assms by (auto simp: evaluate_gates_def bindR_Inr_iff traverse_Inr_iff)

lemma primary_status_None: "snd (primary_status gates) = None \<longleftrightarrow> (\<forall>r\<in>set gates. gt_reasons r = [])"
  by (auto simp: primary_status_def Let_def)

lemma primary_status_least:
  assumes "primary_status gates = (s, Some w)"
  shows "s = gn_status w" "\<exists>r\<in>set gates. w \<in> set (gt_reasons r)"
    "\<forall>r\<in>set gates. \<forall>x\<in>set (gt_reasons r). status_rank s \<le> status_rank (gn_status x)"
proof -
  let ?rs = "concat (map gt_reasons gates)" and ?k = "\<lambda>r. (status_rank (gn_status r), gn_reason_code r)"
  from assms have ne: "?rs \<noteq> []" and w: "w = hd (sort_key ?k ?rs)" and s: "s = gn_status w"
    by (auto simp: primary_status_def Let_def split: if_splits)
  show "s = gn_status w" by (rule s)
  have "sort_key ?k ?rs \<noteq> []" using ne by (metis length_0_conv length_sort)
  then have "w \<in> set ?rs" unfolding w by (metis hd_in_set set_sort)
  then show "\<exists>r\<in>set gates. w \<in> set (gt_reasons r)" by auto
  show "\<forall>r\<in>set gates. \<forall>x\<in>set (gt_reasons r). status_rank s \<le> status_rank (gn_status x)"
  proof (intro ballI)
    fix r x assume "r \<in> set gates" "x \<in> set (gt_reasons r)"
    then have "x \<in> set ?rs" by auto
    from hd_sort_key_le [OF ne this, of ?k] show "status_rank s \<le> status_rank (gn_status x)"
      unfolding s w by (auto simp: less_eq_prod_def)
  qed
qed

lemma authority_gate_iff:
  "(\<forall>r\<in>set (case authority_gate m of None \<Rightarrow> [] | Some a \<Rightarrow> [a]). gt_reasons r = [])
    \<longleftrightarrow> ml_authority m = None \<or> ml_authority m = Some PackAuthority.SELLER_SEALED"
  by (auto simp: authority_gate_def)

lemma dependency_gates_iff: "(\<forall>r\<in>set (dependency_gates m). gt_reasons r = []) \<longleftrightarrow> ml_dependency_issues m = []"
  by (cases "ml_dependency_issues m") (auto simp: dependency_gates_def)



end
