(* ===== verification/GraphMaterials.thy ===== *)
theory GraphMaterials
  imports GraphGates
begin

text \<open>
  \<^verbatim>\<open>decision_engine/graph_v1.py\<close>, plan material: the dependency closure of a candidate, the
  aggregation of its components' facts and costs, and the material of packs and current actions. Where the
  code takes the first element of a Python set of several, the choice is the interpreter's: \<open>set_order\<close>
  holds it as two functions of the sorted elements.
\<close>

record set_order =
  first_currency :: "string list \<Rightarrow> string"
  first_horizon :: "int list \<Rightarrow> int"

section \<open>Dependency closure\<close>

type_synonym product_index = "(string \<times> RawCandidateRecord list) list"

definition matches_of :: "product_index \<Rightarrow> string \<Rightarrow> RawCandidateRecord list" where
  "matches_of index product = (case map_of index product of None \<Rightarrow> [] | Some rs \<Rightarrow> rs)"

definition product_index :: "RawCandidateRecord list \<Rightarrow> product_index" where
  "product_index reps =
     fold (\<lambda>r index. AList.update (rc_product_id r) (matches_of index (rc_product_id r) @ [r]) index) reps []"

record closure_state =
  cl_ordered :: "RawCandidateRecord list"
  cl_issues :: "string list"
  cl_visiting :: "string list"
  cl_visited :: "string list"

definition add_dependency_issue :: "string \<Rightarrow> closure_state \<Rightarrow> closure_state" where
  "add_dependency_issue issue st = st\<lparr>cl_issues := List.insert issue (cl_issues st)\<rparr>"

definition enter_component :: "RawCandidateRecord \<Rightarrow> closure_state \<Rightarrow> closure_state" where
  "enter_component r st = st\<lparr>cl_visiting := rc_product_id r # cl_visiting st\<rparr>"

definition leave_component :: "RawCandidateRecord \<Rightarrow> closure_state \<Rightarrow> closure_state" where
  "leave_component r st =
     st\<lparr>cl_visiting := removeAll (rc_product_id r) (cl_visiting st),
        cl_visited := List.insert (rc_product_id r) (cl_visited st), cl_ordered := cl_ordered st @ [r]\<rparr>"

definition visit_dependency ::
    "(RawCandidateRecord \<Rightarrow> closure_state \<Rightarrow> closure_state result) \<Rightarrow> product_index \<Rightarrow> string \<Rightarrow> closure_state
      \<Rightarrow> closure_state result" where
  "visit_dependency visit_record index dependency st =
     (case matches_of index dependency of
        [] \<Rightarrow> Inr (add_dependency_issue ''MISSING_REQUIRED_COMPONENT'' st)
      | [r] \<Rightarrow> visit_record r st
      | _ \<Rightarrow> Inr (add_dependency_issue ''AMBIGUOUS_REQUIRED_COMPONENT'' st))"

text \<open>The first argument bounds the recursion depth; the number of representatives plus one is enough.\<close>

primrec visit_component ::
    "nat \<Rightarrow> product_index \<Rightarrow> RawCandidateRecord \<Rightarrow> closure_state \<Rightarrow> closure_state result" where
  "visit_component 0 index r st = Inl RecursionError"
| "visit_component (Suc depth) index r st =
     (if rc_product_id r \<in> set (cl_visiting st)
      then Inr (add_dependency_issue ''CYCLIC_COMPONENT_DEPENDENCY'' st)
      else if rc_product_id r \<in> set (cl_visited st) then Inr st
      else mapR_res (leave_component r)
             (foldR (visit_dependency (visit_component depth index) index) (rc_required_product_ids r)
                (enter_component r st)))"

definition component_closure ::
    "RawCandidateRecord list \<Rightarrow> RawCandidateRecord \<Rightarrow> (RawCandidateRecord list \<times> string list) result" where
  "component_closure reps primary =
     mapR_res (\<lambda>st. (cl_ordered st, sorted_set (cl_issues st)))
       (visit_component (Suc (length reps)) (product_index reps) primary
          \<lparr>cl_ordered = [], cl_issues = [], cl_visiting = [], cl_visited = []\<rparr>)"

section \<open>Aggregated facts\<close>

definition fraction_value :: "rat \<Rightarrow> fact_value" where
  "fraction_value q =
     (case quotient_of q of (n, d) \<Rightarrow> if d = 1 then FInt n else FStr (show_int n @ ''/'' @ show_int d))"

definition numeric_aggregate :: "string \<Rightarrow> rat list \<Rightarrow> rat" where
  "numeric_aggregate aggregation ns =
     (if aggregation = ''SUM'' then sum_list ns
      else if aggregation = ''MIN'' then Min (set ns) else Max (set ns))"

text \<open>The aggregate of one value per component, or nothing when the values do not admit it.\<close>

definition aggregate_values :: "string \<Rightarrow> fact_value list \<Rightarrow> fact_value option result" where
  "aggregate_values aggregation vals =
     (if aggregation \<in> {''SUM'', ''MIN'', ''MAX''}
      then if list_ex (\<lambda>v. \<not> fact_is_number v) vals then Inr None
           else mapR_res (\<lambda>ns. Some (fraction_value (numeric_aggregate aggregation ns))) (traverse fact_fraction vals)
      else if aggregation = ''UNION''
      then if list_ex (\<lambda>v. \<not> fact_is_tuple v) vals then Inr None
           else Inr (Some (FTuple (sorted_set (concat (map (\<lambda>v. case v of FTuple xs \<Rightarrow> xs | _ \<Rightarrow> []) vals)))))
      else if aggregation \<in> {''ALL'', ''ANY''}
      then if list_ex (\<lambda>v. \<not> fact_is_bool v) vals then Inr None
           else Inr (Some (FBool (if aggregation = ''ALL'' then list_all (\<lambda>v. v = FBool True) vals
                                  else list_ex (\<lambda>v. v = FBool True) vals)))
      else Inr None)"

definition aggregate_field ::
    "string \<Rightarrow> RawCandidateRecord list \<Rightarrow> string \<times> PreferenceCriterion \<Rightarrow> ProductFact list result" where
  "aggregate_field bundle_id records entry =
     (case entry of (field, criterion) \<Rightarrow>
        let per_component = map (\<lambda>r. filter (\<lambda>f. pf_field f = field) (rc_facts r)) records
        in if pc_aggregation criterion = ''PRIMARY_COMPONENT'' then Inr (last per_component)
           else if list_ex (\<lambda>fs. length fs \<noteq> 1) per_component then Inr (concat per_component)
           else
             let facts = map hd per_component
             in bindR (aggregate_values (pc_aggregation criterion) (map pf_value facts)) (\<lambda>aggregated.
                case aggregated of
                  None \<Rightarrow> Inr facts
                | Some v \<Rightarrow>
                    mapR_res (\<lambda>f. [f]) (mk_ProductFact
                      \<lparr>pf_field = field, pf_value = v, pf_evidence_ids = sorted_set (concat (map pf_evidence_ids facts)),
                       pf_component_id = Some bundle_id\<rparr>)))"

definition aggregate_preference_facts ::
    "DecisionGraphInput \<Rightarrow> RawCandidateRecord list \<Rightarrow> ProductFact list result" where
  "aggregate_preference_facts d records =
     (let raw_facts = concat (map rc_facts records)
      in if length records = 1 then Inr raw_facts
         else
           let preference_by_field = dict_of (map (\<lambda>c. (pc_field c, c)) (di_preferences d));
               retained = filter (\<lambda>f. pf_field f \<notin> fst ` set preference_by_field) raw_facts
           in mapR_res (\<lambda>fss. retained @ concat fss)
                (traverse (aggregate_field (rc_product_id (last records)) records) (sort_key fst preference_by_field)))"

section \<open>Combined cost\<close>

definition short_digest :: "(pyval \<Rightarrow> string result) \<Rightarrow> pyval \<Rightarrow> string result" where
  "short_digest H v =
     bindR (H v) (\<lambda>h. case after_first CHR '':'' h of None \<Rightarrow> Inl IndexError | Some digest \<Rightarrow> Inr (take 20 digest))"

text \<open>\<^verbatim>\<open>sum\<close> of decimals starts from the integer 0 and rounds every step to the context.\<close>

definition decimal_sum :: "decimal list \<Rightarrow> decimal" where
  "decimal_sum ds = foldl decimal_plus (Dec 0 0) ds"

definition bundle_total ::
    "(OfferCost \<Rightarrow> Money option) \<Rightarrow> string \<Rightarrow> nat \<Rightarrow> OfferCost list \<Rightarrow> Money option result" where
  "bundle_total part currency n costs =
     (let vals = map part costs
      in if length vals \<noteq> n \<or> None \<in> set vals then Inr None
         else mapR_res Some (mk_Money (PDecimal (decimal_sum (map m_amount (List.map_filter id vals)))) (PStr currency)))"

definition cost_currencies :: "OfferCost list \<Rightarrow> string list" where
  "cost_currencies costs =
     sorted_set (map m_currency (List.map_filter id (concat (map (\<lambda>c. [off_low c, off_base c, off_high c]) costs))))"

definition combined_cost ::
    "(pyval \<Rightarrow> string result) \<Rightarrow> set_order \<Rightarrow> RawCandidateRecord list \<Rightarrow> (string \<times> OfferCost) list
      \<Rightarrow> (OfferCost \<times> nat \<times> string list) result" where
  "combined_cost H order records offers =
     (let costs = List.map_filter (\<lambda>r. map_of offers (rc_offer_id r)) records;
          missing = (if length costs \<noteq> length records then [''MISSING_REQUIRED_DEPENDENCY_OFFER''] else [])
      in if length records = 1 \<and> length costs = 1
         then Inr (hd costs, if off_payment_required (hd costs) then 1 else 0, [])
         else
           let horizons = sorted_set (map off_horizon_days costs);
               currencies = cost_currencies costs;
               incomparable = (if 1 < length horizons \<or> 1 < length currencies then [''INCOMPARABLE_DEPENDENCY_COST''] else [])
           in bindR (short_digest H (PTuple (map (\<lambda>c. PStr (off_offer_id c)) costs))) (\<lambda>digest.
              let horizon = (if horizons = [] then 1 else first_horizon order horizons);
                  currency = (if currencies = [] then ''USD'' else first_currency order currencies);
                  payment_count = length (filter off_payment_required costs)
              in bindR (bundle_total off_low currency (length records) costs) (\<lambda>low.
                 bindR (bundle_total off_base currency (length records) costs) (\<lambda>base.
                 bindR (bundle_total off_high currency (length records) costs) (\<lambda>high.
                 bindR (mk_OfferCost
                   \<lparr>off_offer_id = ''bundle_'' @ digest, off_low = low, off_base = base, off_high = high,
                    off_horizon_days = horizon, off_line_items = concat (map off_line_items costs),
                    off_payment_required = (0 < payment_count)\<rparr>) (\<lambda>cost.
                 Inr (cost, payment_count, sorted_set (missing @ incomparable))))))))"

section \<open>Material of packs and current actions\<close>

text \<open>Like \<open>follow_aliases\<close>, but a cycle ends the walk instead of raising.\<close>

function offer_alias :: "alias_map \<Rightarrow> string list \<Rightarrow> string \<Rightarrow> string" where
  "offer_alias aliases visited current =
     (case map_of aliases current of
        None \<Rightarrow> current
      | Some target \<Rightarrow>
          if current \<in> set visited then current else offer_alias aliases (current # visited) target)"
  by pat_completeness auto
termination
proof (relation "measure (\<lambda>(aliases, visited, current). card (fst ` set aliases - set visited))")
  fix aliases :: alias_map and visited current target
  assume "map_of aliases current = Some target" "current \<notin> set visited"
  then have "fst ` set aliases - set (current # visited) \<subset> fst ` set aliases - set visited"
    by (force dest: map_of_SomeD)
  then show "((aliases, current # visited, target), aliases, visited, current)
      \<in> measure (\<lambda>(aliases, visited, current). card (fst ` set aliases - set visited))"
    by (simp add: psubset_card_mono)
qed simp

declare offer_alias.simps [simp del]

definition canonical_offer :: "alias_map \<Rightarrow> string \<Rightarrow> string" where
  "canonical_offer aliases value = offer_alias aliases [] (fold_strip value)"

definition offers_by_id :: "DecisionGraphInput \<Rightarrow> (string \<times> OfferCost) list" where
  "offers_by_id d = dict_of (map (\<lambda>c. (canonical_offer (alias_map_of d) (off_offer_id c), c)) (di_offers d))"

definition plan_representatives :: "DecisionGraphInput \<Rightarrow> RecallResult \<Rightarrow> RawCandidateRecord list result" where
  "plan_representatives d recall =
     traverse (\<lambda>r. mk_RawCandidateRecord (r\<lparr>rc_offer_id := canonical_offer (alias_map_of d) (rc_offer_id r)\<rparr>))
       (rr_representatives recall)"

definition landed_total :: string where
  "landed_total = ''offer.landed_total''"

definition cost_fact :: "Money \<Rightarrow> string list \<Rightarrow> string \<Rightarrow> ProductFact result" where
  "cost_fact base cost_evidence product =
     mk_ProductFact
       \<lparr>pf_field = landed_total,
        pf_value = FStr (case m_amount base of Dec c e \<Rightarrow> dec_str c e | d \<Rightarrow> decimal_text d),
        pf_evidence_ids = cost_evidence, pf_component_id = Some product\<rparr>"

definition cost_facts :: "OfferCost \<Rightarrow> string list \<Rightarrow> string list \<Rightarrow> ProductFact list result" where
  "cost_facts cost cost_evidence products =
     (case off_base cost of None \<Rightarrow> Inr [] | Some base \<Rightarrow> traverse (cost_fact base cost_evidence) products)"

definition pack_material ::
    "(pyval \<Rightarrow> string result) \<Rightarrow> set_order \<Rightarrow> DecisionGraphInput \<Rightarrow> RawCandidateRecord list \<Rightarrow> RawCandidateRecord
      \<Rightarrow> PlanMaterial result" where
  "pack_material H order d reps primary =
     bindR (component_closure reps primary) (\<lambda>(records, dependency_issues).
     bindR (combined_cost H order records (offers_by_id d)) (\<lambda>(cost, payment_count, cost_issues).
     let raw_facts = concat (map rc_facts records);
         is_cost = (\<lambda>f. pf_field f = landed_total);
         cost_evidence = sorted_set (concat (map pf_evidence_ids (filter is_cost raw_facts)))
     in bindR (cost_facts cost cost_evidence (map rc_product_id records)) (\<lambda>aggregate_cost_facts.
        bindR (aggregate_preference_facts d records) (\<lambda>preference_facts.
        bindR (cost_facts cost cost_evidence [rc_product_id primary]) (\<lambda>root_cost_fact.
        bindR (authority_floor records) (\<lambda>authority.
        Inr \<lparr>ml_source_id = rc_record_id primary, ml_action = SolutionAction.REPLACE,
             ml_component_id = rc_product_id primary, ml_component_ids = map rc_product_id records,
             ml_facts = filter (\<lambda>f. \<not> is_cost f) preference_facts @ root_cost_fact,
             ml_gate_facts = filter (\<lambda>f. \<not> is_cost f) raw_facts @ aggregate_cost_facts,
             ml_cost = cost, ml_payment_components = payment_count,
             ml_available = list_all rc_available records, ml_authority = Some authority,
             ml_seller_gate_ids = union_of rc_seller_gate_ids records, ml_permitted_resolution = None,
             ml_outcome_subject_id = rc_product_id primary,
             ml_dependency_issues = sorted_set (dependency_issues @ cost_issues)\<rparr>))))))"

definition pack_materials ::
    "(pyval \<Rightarrow> string result) \<Rightarrow> set_order \<Rightarrow> DecisionGraphInput \<Rightarrow> RecallResult \<Rightarrow> PlanMaterial list result" where
  "pack_materials H order d recall =
     bindR (plan_representatives d recall) (\<lambda>reps. traverse (pack_material H order d reps) reps)"

definition current_material :: "CurrentActionRecord \<Rightarrow> PlanMaterial" where
  "current_material a =
     \<lparr>ml_source_id = ca_action_id a, ml_action = ca_action a, ml_component_id = ca_instance_id a,
      ml_component_ids = [ca_instance_id a], ml_facts = ca_facts a, ml_gate_facts = ca_facts a,
      ml_cost = ca_cost a, ml_payment_components = 0, ml_available = ca_available a, ml_authority = None,
      ml_seller_gate_ids = [], ml_permitted_resolution = ca_permitted_resolution a,
      ml_outcome_subject_id =
        (if ca_action a = SolutionAction.CANCEL then ''cancelled_'' @ ca_instance_id a else ca_instance_id a),
      ml_dependency_issues = []\<rparr>"

section \<open>The closure is a topological order or names a defect\<close>

lemma matches_update:
  "matches_of (AList.update k v index) p = (if p = k then v else matches_of index p)"
  by (simp add: matches_of_def map_of_update)

lemma matches_product_index: "matches_of (product_index reps) p = filter (\<lambda>r. rc_product_id r = p) reps"
proof -
  have "matches_of (fold (\<lambda>r index. AList.update (rc_product_id r) (matches_of index (rc_product_id r) @ [r]) index) rs index) p
      = matches_of index p @ filter (\<lambda>r. rc_product_id r = p) rs" for rs index
    by (induction rs arbitrary: index) (simp_all add: matches_update)
  then show ?thesis by (simp add: product_index_def matches_of_def)
qed

text \<open>The dependency edges the traversal follows: requirements that exactly one representative meets.\<close>

definition dep_edges :: "RawCandidateRecord list \<Rightarrow> (RawCandidateRecord \<times> RawCandidateRecord) set" where
  "dep_edges reps = {(r, q). \<exists>dep\<in>set (rc_required_product_ids r). matches_of (product_index reps) dep = [q]}"

definition defective :: "RawCandidateRecord list \<Rightarrow> RawCandidateRecord \<Rightarrow> bool" where
  "defective reps r =
     (\<exists>q. (r, q) \<in> (dep_edges reps)\<^sup>* \<and> ((q, q) \<in> (dep_edges reps)\<^sup>+
        \<or> (\<exists>dep\<in>set (rc_required_product_ids q). length (matches_of (product_index reps) dep) \<noteq> 1)))"

lemma unique_match:
  assumes "matches_of (product_index reps) p = [q]"
  shows "q \<in> set reps" "rc_product_id q = p" "x \<in> set reps \<Longrightarrow> rc_product_id x = p \<Longrightarrow> x = q"
proof -
  from assms have f: "set (filter (\<lambda>r. rc_product_id r = p) reps) = {q}" by (simp add: matches_product_index)
  then show "q \<in> set reps" "rc_product_id q = p" "x \<in> set reps \<Longrightarrow> rc_product_id x = p \<Longrightarrow> x = q" by auto
qed

lemma defective_edge: "(r, q) \<in> dep_edges reps \<Longrightarrow> defective reps q \<Longrightarrow> defective reps r"
  unfolding defective_def by (meson converse_rtrancl_into_rtrancl)

definition ordered_before :: "RawCandidateRecord list \<Rightarrow> RawCandidateRecord list \<Rightarrow> bool" where
  "ordered_before reps rs =
     (\<forall>xs r ys. rs = xs @ r # ys \<longrightarrow>
        (\<forall>dep\<in>set (rc_required_product_ids r). \<exists>q\<in>set xs. matches_of (product_index reps) dep = [q]))"

definition closure_inv :: "RawCandidateRecord list \<Rightarrow> closure_state \<Rightarrow> bool" where
  "closure_inv reps st =
     (distinct (map rc_product_id (cl_ordered st)) \<and> set (cl_visited st) = rc_product_id ` set (cl_ordered st)
      \<and> set (cl_ordered st) \<subseteq> set reps \<and> set (cl_visiting st) \<inter> set (cl_visited st) = {}
      \<and> ordered_before reps (cl_ordered st))"

text \<open>What a traversal step started at \<open>r\<close> does to the state.\<close>

definition visit_post ::
    "RawCandidateRecord list \<Rightarrow> RawCandidateRecord \<Rightarrow> closure_state \<Rightarrow> closure_state \<Rightarrow> bool" where
  "visit_post reps r st st' =
     (cl_visiting st' = cl_visiting st \<and> set (cl_issues st) \<subseteq> set (cl_issues st')
      \<and> (cl_issues st' \<noteq> [] \<longrightarrow> cl_issues st \<noteq> [] \<or> defective reps r)
      \<and> (cl_issues st' = [] \<longrightarrow> closure_inv reps st \<longrightarrow> closure_inv reps st'
           \<and> (\<exists>new. cl_ordered st' = cl_ordered st @ new \<and> (\<forall>q\<in>set new. (r, q) \<in> (dep_edges reps)\<^sup>*))))"

lemma visit_post_refl: "visit_post reps r st st"
  by (simp add: visit_post_def)

lemma visit_post_issue:
  "defective reps r \<Longrightarrow> visit_post reps r st (add_dependency_issue i st)"
  by (auto simp: visit_post_def add_dependency_issue_def List.insert_def)

lemma visit_post_trans:
  assumes "visit_post reps r st st1" "visit_post reps r st1 st2"
  shows "visit_post reps r st st2"
proof -
  have "cl_issues st1 = []" if "cl_issues st2 = []" using assms(2) that by (auto simp: visit_post_def)
  then show ?thesis using assms unfolding visit_post_def by (fastforce simp: ball_Un)
qed

lemma visit_post_edge:
  assumes "visit_post reps q st st'" "(r, q) \<in> dep_edges reps"
  shows "visit_post reps r st st'"
  using assms defective_edge [OF assms(2)] unfolding visit_post_def
  by (meson converse_rtrancl_into_rtrancl)

lemma ordered_before_snoc:
  assumes "ordered_before reps xs"
    and "\<And>dep. dep \<in> set (rc_required_product_ids r) \<Longrightarrow> \<exists>q\<in>set xs. matches_of (product_index reps) dep = [q]"
  shows "ordered_before reps (xs @ [r])"
  unfolding ordered_before_def
proof (intro allI impI)
  fix as x bs assume e: "xs @ [r] = as @ x # bs"
  show "\<forall>dep\<in>set (rc_required_product_ids x). \<exists>q\<in>set as. matches_of (product_index reps) dep = [q]"
  proof (cases bs rule: rev_cases)
    case Nil
    with e assms(2) show ?thesis by simp
  next
    case (snoc cs y)
    with e have "xs = as @ x # cs" by simp
    with assms(1) show ?thesis unfolding ordered_before_def by blast
  qed
qed

text \<open>The loop over the requirements of one record.\<close>

lemma visit_dependencies:
  assumes step: "\<And>q st. cl_visiting st = vg \<Longrightarrow> (r, q) \<in> dep_edges reps \<Longrightarrow>
      \<exists>st'. visit q st = Inr st' \<and> visit_post reps q st st' \<and> (cl_issues st' = [] \<longrightarrow> rc_product_id q \<in> set (cl_visited st'))"
    and mono: "\<And>st st'. visit_post reps r st st' \<Longrightarrow> closure_inv reps st \<Longrightarrow> cl_issues st' = [] \<Longrightarrow>
      set (cl_visited st) \<subseteq> set (cl_visited st')"
    and "set deps \<subseteq> set (rc_required_product_ids r)" "cl_visiting st = vg"
  shows "\<exists>st'. foldR (visit_dependency visit (product_index reps)) deps st = Inr st' \<and> visit_post reps r st st'
    \<and> (cl_issues st' = [] \<longrightarrow> closure_inv reps st \<longrightarrow>
        (\<forall>dep\<in>set deps. \<exists>q. matches_of (product_index reps) dep = [q] \<and> dep \<in> set (cl_visited st')))"
  using assms(3,4)
proof (induction deps arbitrary: st)
  case Nil
  then show ?case by (simp add: visit_post_refl)
next
  case (Cons dep deps)
  let ?m = "matches_of (product_index reps) dep"
  have "\<exists>st1. visit_dependency visit (product_index reps) dep st = Inr st1 \<and> visit_post reps r st st1
      \<and> (cl_issues st1 = [] \<longrightarrow> (\<exists>q. ?m = [q]) \<and> dep \<in> set (cl_visited st1))"
  proof (cases "\<exists>q. ?m = [q]")
    case True
    then obtain q where q: "?m = [q]" by blast
    then have edge: "(r, q) \<in> dep_edges reps" using Cons.prems(1) by (auto simp: dep_edges_def)
    from step [OF Cons.prems(2) edge] obtain st1 where "visit q st = Inr st1" "visit_post reps q st st1"
        "cl_issues st1 = [] \<longrightarrow> rc_product_id q \<in> set (cl_visited st1)" by blast
    with q unique_match(2) [OF q] visit_post_edge [OF _ edge] show ?thesis
      by (auto simp: visit_dependency_def)
  next
    case False
    then have "length ?m \<noteq> 1" by (auto simp: length_Suc_conv)
    then have "defective reps r" using Cons.prems(1) unfolding defective_def by auto
    moreover have "visit_dependency visit (product_index reps) dep st = Inr (add_dependency_issue ''MISSING_REQUIRED_COMPONENT'' st)
        \<or> visit_dependency visit (product_index reps) dep st = Inr (add_dependency_issue ''AMBIGUOUS_REQUIRED_COMPONENT'' st)"
      using False by (auto simp: visit_dependency_def split: list.splits)
    moreover have "cl_issues (add_dependency_issue i st) \<noteq> []" for i
      by (auto simp: add_dependency_issue_def List.insert_def split: if_splits)
    ultimately show ?thesis using visit_post_issue by blast
  qed
  then obtain st1 where st1: "visit_dependency visit (product_index reps) dep st = Inr st1" "visit_post reps r st st1"
      "cl_issues st1 = [] \<longrightarrow> (\<exists>q. ?m = [q]) \<and> dep \<in> set (cl_visited st1)" by blast
  have "cl_visiting st1 = vg" using st1(2) Cons.prems(2) by (simp add: visit_post_def)
  from Cons.IH [OF _ this] Cons.prems(1) obtain st2 where
      st2: "foldR (visit_dependency visit (product_index reps)) deps st1 = Inr st2" "visit_post reps r st1 st2"
      "cl_issues st2 = [] \<longrightarrow> closure_inv reps st1 \<longrightarrow>
        (\<forall>dep\<in>set deps. \<exists>q. matches_of (product_index reps) dep = [q] \<and> dep \<in> set (cl_visited st2))" by auto
  have clean: "cl_issues st1 = [] \<and> (closure_inv reps st \<longrightarrow> closure_inv reps st1)" if "cl_issues st2 = []"
    using st2(2) st1(2) that by (auto simp: visit_post_def)
  have "(\<exists>q. ?m = [q]) \<and> dep \<in> set (cl_visited st2)" if "cl_issues st2 = []" "closure_inv reps st"
    using clean [OF that(1)] that st1(3) mono [OF st2(2) _ that(1)] by blast
  then show ?case
    using st1 st2 clean visit_post_trans [OF st1(2) st2(2)] by auto
qed

lemma visited_mono:
  assumes "visit_post reps r st st'" "closure_inv reps st" "cl_issues st' = []"
  shows "set (cl_visited st) \<subseteq> set (cl_visited st')"
proof -
  obtain new where "cl_ordered st' = cl_ordered st @ new" "closure_inv reps st'"
    using assms by (auto simp: visit_post_def)
  with assms(2) show ?thesis by (auto simp: closure_inv_def)
qed

lemma leave_post:
  assumes fresh: "rc_product_id r \<notin> set (cl_visiting st)" "rc_product_id r \<notin> set (cl_visited st)" "r \<in> set reps"
    and post: "visit_post reps r (enter_component r st) st2"
    and deps: "cl_issues st2 = [] \<longrightarrow> closure_inv reps (enter_component r st) \<longrightarrow>
      (\<forall>dep\<in>set (rc_required_product_ids r). \<exists>q. matches_of (product_index reps) dep = [q] \<and> dep \<in> set (cl_visited st2))"
  shows "visit_post reps r st (leave_component r st2)"
proof -
  let ?st' = "leave_component r st2"
  have vg: "cl_visiting st2 = rc_product_id r # cl_visiting st" using post by (simp add: visit_post_def enter_component_def)
  have "closure_inv reps ?st' \<and> (\<exists>new. cl_ordered ?st' = cl_ordered st @ new \<and> (\<forall>q\<in>set new. (r, q) \<in> (dep_edges reps)\<^sup>*))"
    if clean: "cl_issues st2 = []" and inv: "closure_inv reps st"
  proof -
    have inv1: "closure_inv reps (enter_component r st)"
      using inv fresh unfolding closure_inv_def enter_component_def by auto
    with post clean obtain new where inv2: "closure_inv reps st2" and new: "cl_ordered st2 = cl_ordered st @ new"
        "\<forall>q\<in>set new. (r, q) \<in> (dep_edges reps)\<^sup>*"
      unfolding visit_post_def by (auto simp: enter_component_def)
    have "rc_product_id r \<notin> set (cl_visited st2)" using inv2 vg unfolding closure_inv_def by auto
    moreover have "ordered_before reps (cl_ordered st2 @ [r])"
    proof (rule ordered_before_snoc)
      show "ordered_before reps (cl_ordered st2)" using inv2 by (simp add: closure_inv_def)
      fix dep assume "dep \<in> set (rc_required_product_ids r)"
      with deps clean inv1 obtain q where q: "matches_of (product_index reps) dep = [q]" "dep \<in> set (cl_visited st2)" by blast
      with inv2 obtain x where "x \<in> set (cl_ordered st2)" "rc_product_id x = dep" "x \<in> set reps"
        unfolding closure_inv_def by auto
      with unique_match(3) [OF q(1)] q(1) show "\<exists>q\<in>set (cl_ordered st2). matches_of (product_index reps) dep = [q]" by blast
    qed
    ultimately have "closure_inv reps ?st'"
      using inv2 vg fresh unfolding closure_inv_def leave_component_def by (auto simp: List.insert_def)
    moreover have "cl_ordered ?st' = cl_ordered st @ (new @ [r])" using new(1) by (simp add: leave_component_def)
    ultimately show ?thesis using new(2) by (intro conjI exI [of _ "new @ [r]"]) auto
  qed
  moreover have "removeAll (rc_product_id r) (cl_visiting st) = cl_visiting st"
    using fresh(1) by (simp add: removeAll_id)
  ultimately show ?thesis
    using post vg unfolding visit_post_def by (auto simp: leave_component_def enter_component_def)
qed

lemma visit_component_ok:
  assumes "r \<in> set reps" "set (cl_visiting st) \<subseteq> rc_product_id ` set reps"
    and "card (rc_product_id ` set reps - set (cl_visiting st)) < depth"
    and "cl_visiting st = [] \<or> matches_of (product_index reps) (rc_product_id r) = [r]"
    and "\<forall>v\<in>set (cl_visiting st). \<exists>u\<in>set reps. rc_product_id u = v \<and> (u, r) \<in> (dep_edges reps)\<^sup>+"
  shows "\<exists>st'. visit_component depth (product_index reps) r st = Inr st' \<and> visit_post reps r st st'
    \<and> (cl_issues st' = [] \<longrightarrow> rc_product_id r \<in> set (cl_visited st'))"
  using assms
proof (induction depth arbitrary: r st)
  case (Suc depth)
  let ?p = "rc_product_id r"
  consider "?p \<in> set (cl_visiting st)" | "?p \<notin> set (cl_visiting st)" "?p \<in> set (cl_visited st)"
    | "?p \<notin> set (cl_visiting st)" "?p \<notin> set (cl_visited st)" by blast
  then show ?case
  proof cases
    case 1
    with Suc.prems(5) obtain u where u: "u \<in> set reps" "rc_product_id u = ?p" "(u, r) \<in> (dep_edges reps)\<^sup>+" by blast
    from 1 Suc.prems(4) have m: "matches_of (product_index reps) ?p = [r]" by auto
    have "u = r" using unique_match(3) [OF m u(1,2)] .
    with u(3) have "defective reps r" unfolding defective_def by blast
    with 1 show ?thesis
      using visit_post_issue [of reps r st "''CYCLIC_COMPONENT_DEPENDENCY''"]
      by (simp add: add_dependency_issue_def List.insert_def) (metis empty_iff list.set(1))
  next
    case 2
    then show ?thesis by (simp add: visit_post_refl)
  next
    case fresh: 3
    let ?st1 = "enter_component r st"
    have vg: "cl_visiting ?st1 = ?p # cl_visiting st" by (simp add: enter_component_def)
    have "card (rc_product_id ` set reps - set (?p # cl_visiting st)) < card (rc_product_id ` set reps - set (cl_visiting st))"
      using fresh(1) Suc.prems(1) by (intro psubset_card_mono) auto
    then have card: "card (rc_product_id ` set reps - set (?p # cl_visiting st)) < depth" using Suc.prems(3) by linarith
    have step: "\<exists>st'. visit_component depth (product_index reps) q s = Inr st' \<and> visit_post reps q s st'
        \<and> (cl_issues st' = [] \<longrightarrow> rc_product_id q \<in> set (cl_visited st'))"
      if s: "cl_visiting s = ?p # cl_visiting st" and edge: "(r, q) \<in> dep_edges reps" for q s
    proof (rule Suc.IH)
      from edge obtain dep where m: "matches_of (product_index reps) dep = [q]" by (auto simp: dep_edges_def)
      show "q \<in> set reps" using unique_match(1) [OF m] .
      show "set (cl_visiting s) \<subseteq> rc_product_id ` set reps" using s Suc.prems(1,2) by simp
      show "card (rc_product_id ` set reps - set (cl_visiting s)) < depth" using card s by simp
      show "cl_visiting s = [] \<or> matches_of (product_index reps) (rc_product_id q) = [q]"
        using m unique_match(2) [OF m] by simp
      show "\<forall>v\<in>set (cl_visiting s). \<exists>u\<in>set reps. rc_product_id u = v \<and> (u, q) \<in> (dep_edges reps)\<^sup>+"
        using s edge Suc.prems(1,5) by (auto intro: trancl_into_trancl)
    qed
    have "\<exists>st2. foldR (visit_dependency (visit_component depth (product_index reps)) (product_index reps))
          (rc_required_product_ids r) ?st1 = Inr st2 \<and> visit_post reps r ?st1 st2
        \<and> (cl_issues st2 = [] \<longrightarrow> closure_inv reps ?st1 \<longrightarrow>
            (\<forall>dep\<in>set (rc_required_product_ids r). \<exists>q. matches_of (product_index reps) dep = [q] \<and> dep \<in> set (cl_visited st2)))"
      by (rule visit_dependencies [OF step visited_mono _ vg]) simp_all
    then obtain st2 where st2: "foldR (visit_dependency (visit_component depth (product_index reps)) (product_index reps))
          (rc_required_product_ids r) ?st1 = Inr st2" "visit_post reps r ?st1 st2"
        "cl_issues st2 = [] \<longrightarrow> closure_inv reps ?st1 \<longrightarrow>
            (\<forall>dep\<in>set (rc_required_product_ids r). \<exists>q. matches_of (product_index reps) dep = [q] \<and> dep \<in> set (cl_visited st2))"
      by blast
    have "visit_post reps r st (leave_component r st2)" by (rule leave_post [OF fresh Suc.prems(1) st2(2,3)])
    with fresh st2(1) show ?thesis by (simp add: leave_component_def)
  qed
qed simp

lemma ordered_before_reaches:
  assumes ord: "ordered_before reps rs" and rs: "rs = xs @ x # ys" and "(x, y) \<in> (dep_edges reps)\<^sup>+"
  shows "y \<in> set xs"
proof -
  have edge: "q \<in> set as" if "rs = as @ p # bs" "(p, q) \<in> dep_edges reps" for as p bs q
  proof -
    from that(2) obtain dep where dep: "dep \<in> set (rc_required_product_ids p)" "matches_of (product_index reps) dep = [q]"
      by (auto simp: dep_edges_def)
    with ord that(1) obtain q' where "q' \<in> set as" "matches_of (product_index reps) dep = [q']"
      unfolding ordered_before_def by blast
    with dep(2) show ?thesis by simp
  qed
  from assms(3) show ?thesis
  proof (induction rule: trancl_induct)
    case (base y)
    with edge rs show ?case by blast
  next
    case (step y z)
    then obtain as bs where "xs = as @ y # bs" by (meson split_list)
    with edge [of as y "bs @ x # ys" z] rs step.hyps(2) show ?case by auto
  qed
qed

lemma closure_reachable:
  assumes "ordered_before reps rs" "x \<in> set rs" "(x, y) \<in> (dep_edges reps)\<^sup>*"
  shows "y \<in> set rs"
proof -
  from assms(2) obtain xs ys where rs: "rs = xs @ x # ys" by (meson split_list)
  from assms(3) show ?thesis
    using ordered_before_reaches [OF assms(1) rs] rs assms(2) by (auto simp: rtrancl_eq_or_trancl)
qed

lemma closure_clean:
  assumes "ordered_before reps rs" "r \<in> set rs"
  shows "\<not> defective reps r"
proof
  assume "defective reps r"
  then obtain q where q: "(r, q) \<in> (dep_edges reps)\<^sup>*" "(q, q) \<in> (dep_edges reps)\<^sup>+
      \<or> (\<exists>dep\<in>set (rc_required_product_ids q). length (matches_of (product_index reps) dep) \<noteq> 1)"
    unfolding defective_def by blast
  have "q \<in> set rs" using closure_reachable [OF assms q(1)] .
  then obtain xs ys where rs: "rs = xs @ q # ys" "q \<notin> set xs" by (meson split_list_first)
  have "length (matches_of (product_index reps) dep) = 1" if "dep \<in> set (rc_required_product_ids q)" for dep
    using assms(1) rs(1) that unfolding ordered_before_def by fastforce
  with q(2) have "(q, q) \<in> (dep_edges reps)\<^sup>+" by blast
  from ordered_before_reaches [OF assms(1) rs(1) this] rs(2) show False by blast
qed

text \<open>
  C28. The dependency closure always ends and is exact: it reports no issue exactly when nothing reachable from
  the candidate is missing, ambiguous or on a cycle; then it lists exactly the reachable components, once each,
  every component after all its requirements and the candidate last.
\<close>

theorem closure_exact:
  assumes "r \<in> set reps"
  shows "\<exists>records issues. component_closure reps r = Inr (records, issues)
    \<and> (issues = []) = (\<not> defective reps r)
    \<and> (issues = [] \<longrightarrow> set records = {q. (r, q) \<in> (dep_edges reps)\<^sup>*} \<and> distinct (map rc_product_id records)
         \<and> last records = r \<and> ordered_before reps records)"
proof -
  let ?s0 = "\<lparr>cl_ordered = [], cl_issues = [], cl_visiting = [], cl_visited = []\<rparr>"
  have "card (rc_product_id ` set reps) < Suc (length reps)"
    using card_image_le [of "set reps" rc_product_id] card_length [of reps] by simp
  then obtain st where st: "visit_component (Suc (length reps)) (product_index reps) r ?s0 = Inr st" "visit_post reps r ?s0 st"
      "cl_issues st = [] \<longrightarrow> rc_product_id r \<in> set (cl_visited st)"
    using visit_component_ok [OF assms, of ?s0 "Suc (length reps)"] by auto
  have inv0: "closure_inv reps ?s0" by (simp add: closure_inv_def ordered_before_def)
  have result: "component_closure reps r = Inr (cl_ordered st, sorted_set (cl_issues st))"
    using st(1) by (simp add: component_closure_def del: visit_component.simps)
  have clean: "set (cl_ordered st) = {q. (r, q) \<in> (dep_edges reps)\<^sup>*} \<and> distinct (map rc_product_id (cl_ordered st))
      \<and> last (cl_ordered st) = r \<and> ordered_before reps (cl_ordered st) \<and> \<not> defective reps r"
    if none: "cl_issues st = []"
  proof -
    from st(2) none inv0 have inv: "closure_inv reps st" and new: "\<forall>q\<in>set (cl_ordered st). (r, q) \<in> (dep_edges reps)\<^sup>*"
      unfolding visit_post_def by auto
    then have ord: "ordered_before reps (cl_ordered st)" and dist: "distinct (map rc_product_id (cl_ordered st))"
      unfolding closure_inv_def by blast+
    have "foldR (visit_dependency (visit_component (length reps) (product_index reps)) (product_index reps))
        (rc_required_product_ids r) (enter_component r ?s0) \<noteq> Inl e" for e
      using st(1) by (auto simp: mapR_res_def)
    then obtain st2 where "st = leave_component r st2"
      using st(1) by (auto simp: mapR_res_Inr_iff)
    then have last: "last (cl_ordered st) = r" "r \<in> set (cl_ordered st)" by (simp_all add: leave_component_def)
    have "set (cl_ordered st) = {q. (r, q) \<in> (dep_edges reps)\<^sup>*}"
      using new closure_reachable [OF ord last(2)] by blast
    with ord dist last closure_clean [OF ord last(2)] show ?thesis by blast
  qed
  moreover have "defective reps r" if "cl_issues st \<noteq> []" using st(2) that by (simp add: visit_post_def)
  ultimately show ?thesis using result by (intro exI [of _ "cl_ordered st"] exI [of _ "sorted_set (cl_issues st)"]) auto
qed

definition sample_component :: "string \<Rightarrow> string list \<Rightarrow> RawCandidateRecord" where
  "sample_component product requires =
     (sample_candidate_record product ''acme'' PackAuthority.SELLER_SEALED)
       \<lparr>rc_product_id := product, rc_required_product_ids := requires\<rparr>"

lemma closure_exact_witness:
  "let a = sample_component ''a'' [''b'', ''c'']; b = sample_component ''b'' [''c'']; c = sample_component ''c'' []
   in component_closure [a, b, c] a = Inr ([c, b, a], []) \<and> \<not> defective [a, b, c] a"
proof -
  let ?a = "sample_component ''a'' [''b'', ''c'']" and ?b = "sample_component ''b'' [''c'']" and ?c = "sample_component ''c'' []"
  have "component_closure [?a, ?b, ?c] ?a = Inr ([?c, ?b, ?a], [])" by code_simp
  with closure_exact [of ?a "[?a, ?b, ?c]"] show ?thesis by (simp add: Let_def)
qed

end
