(* ===== verification/GraphDimensions.thy ===== *)
theory GraphDimensions
  imports GraphMaterials
begin

text \<open>
  \<^verbatim>\<open>decision_engine/graph_v1.py\<close>, plan dimensions: the score of every preference criterion with
  its evidence, the risk bounds, coverage and evidence age, the validity of the cost, and the record
  \<^verbatim>\<open>PlanDimensions\<close> whose \<open>ordering_bounds\<close> a plan is ranked by. The last section shows that a
  plan either has ordering bounds or an exact reason why it has none.
\<close>

section \<open>Records\<close>

record ScoreComponent =
  sc_criterion_id :: string
  sc_weight :: int
  sc_conservative :: ExactRatio
  sc_optimistic :: ExactRatio
  sc_contribution_conservative :: ExactRatio
  sc_contribution_optimistic :: ExactRatio
  sc_evidence_ids :: "string list"
  sc_evidence_state :: EvidenceState
  sc_prior_label :: "string option"

record HardCoverage =
  hc_numerator :: nat
  hc_denominator :: nat

definition mk_HardCoverage :: "HardCoverage \<Rightarrow> HardCoverage result" where
  "mk_HardCoverage c =
     bindR (ensure (1 \<le> hc_denominator c \<and> hc_numerator c \<le> hc_denominator c)
              (DomainValidationError ''hard coverage requires 0 <= numerator <= denominator'')) (\<lambda>_. Inr c)"

record PlanDimensions =
  pd_preference :: "PreferenceScoreBounds option"
  pd_stack_risk :: "RiskBounds option"
  pd_total_cost :: OfferCost
  pd_coverage :: "CoverageBounds option"
  pd_age_ratio :: "EvidenceAgeBounds option"
  pd_hard_coverage :: HardCoverage
  pd_universe_coverage :: ExactRatio
  pd_unresolved_count :: nat
  pd_conflicting_count :: nat
  pd_risk_rule_ids :: "string list"
  pd_risk_input_hash :: string
  pd_reasons :: "string list"

definition ordering_bounds :: "PlanDimensions \<Rightarrow> OrderingBounds option result" where
  "ordering_bounds d =
     (case (pd_preference d, pd_stack_risk d, off_low (pd_total_cost d), off_base (pd_total_cost d),
            off_high (pd_total_cost d), pd_coverage d, pd_age_ratio d) of
        (Some preference, Some risk, Some low, Some base, Some high, Some coverage, Some age) \<Rightarrow>
          if pd_reasons d \<noteq> [] then Inr None
          else mapR_res (\<lambda>cost. Some \<lparr>ob_preference = preference, ob_stack_risk = risk, ob_total_cost = cost,
                                      ob_coverage = coverage, ob_age_ratio = age\<rparr>)
                 (mk_CostBounds \<lparr>co_low = low, co_base = base, co_high = high\<rparr>)
      | _ \<Rightarrow> Inr None)"

section \<open>Preference scores\<close>

definition ratio_int :: "int \<Rightarrow> ExactRatio" where
  "ratio_int n = \<lparr>er_numerator = n, er_denominator = 1\<rparr>"

definition exact_product :: "ExactRatio \<Rightarrow> int \<Rightarrow> ExactRatio result" where
  "exact_product left right = ratio_of_fraction (er_fraction left * of_int right)"

definition points_value :: "(int \<times> ExactRatio) list \<Rightarrow> rat \<Rightarrow> ExactRatio" where
  "points_value points numeric =
     (case find (\<lambda>(maximum, satisfaction). numeric \<le> of_int maximum) points of
        Some (maximum, satisfaction) \<Rightarrow> satisfaction
      | None \<Rightarrow> ratio_int 0)"

definition normalization_value :: "PreferenceCriterion \<Rightarrow> fact_value \<Rightarrow> ExactRatio result" where
  "normalization_value c v =
     (case pc_normalization c of
        NormalizationKind.BOOLEAN_EQUALS \<Rightarrow> Inr (ratio_int (if fact_strict_equal v (pc_expected c) then 1 else 0))
      | NormalizationKind.SET_CONTAINS_ALL \<Rightarrow>
          Inr (ratio_int (case (v, pc_expected c) of
                 (FTuple actual, FTuple expected) \<Rightarrow> if set expected \<subseteq> set actual then 1 else 0
               | _ \<Rightarrow> 0))
      | NormalizationKind.LOWER_IS_BETTER \<Rightarrow>
          if \<not> fact_is_number v then Inr (ratio_int 0)
          else mapR_res (points_value (pc_points c)) (fact_fraction v)
      | NormalizationKind.OUTCOME_RATE \<Rightarrow>
          Inl (ValueError ''OUTCOME_RATE is resolved from frozen outcome observations''))"

definition outcome_value :: "DecisionGraphInput \<Rightarrow> string \<Rightarrow> string \<Rightarrow> OutcomeObservation option" where
  "outcome_value d subject criterion =
     map_of (dict_of (map (\<lambda>o'. ((oo_subject_id o', oo_criterion_id o'), o'))
               (filter (\<lambda>o'. oo_source_fact_ids o' = [] \<or> set (oo_source_fact_ids o') \<subseteq> set (active_source_ids d))
                  (di_outcomes d)))) (subject, criterion)"

definition criterion_applies :: "DecisionGraphInput \<Rightarrow> PlanMaterial \<Rightarrow> PreferenceCriterion \<Rightarrow> bool" where
  "criterion_applies d m c =
     ((pc_applies_to c = [] \<or> ml_action m \<in> set (pc_applies_to c))
      \<and> (pc_source_fact_ids c = [] \<or> set (pc_source_fact_ids c) \<subseteq> set (active_source_ids d)))"

definition applicable_criteria :: "DecisionGraphInput \<Rightarrow> PlanMaterial \<Rightarrow> PreferenceCriterion list" where
  "applicable_criteria d m = filter (criterion_applies d m) (sort_key pc_criterion_id (di_preferences d))"

text \<open>The label of a prior, in UTF-8: the dash is U+2014.\<close>

definition category_prior :: string where
  "category_prior = ''category prior'' @ [CHR 0xE2, CHR 0x80, CHR 0x94] @ ''not observed outcome''"

definition unavailable_bound :: "string \<Rightarrow> string \<Rightarrow> string" where
  "unavailable_bound criterion what = ''BOUND_UNAVAILABLE:'' @ criterion @ '':'' @ what"

text \<open>What is known of a criterion: satisfaction bounds, evidence, its state, the prior label, reasons.\<close>

record satisfaction =
  sf_conservative :: ExactRatio
  sf_optimistic :: ExactRatio
  sf_evidence_ids :: "string list"
  sf_state :: EvidenceState
  sf_prior_label :: "string option"
  sf_reasons :: "string list"

text \<open>Without acceptable evidence: zero, up to the declared bound for an unknown value.\<close>

definition unsupported :: "PreferenceCriterion \<Rightarrow> string list \<Rightarrow> EvidenceState \<Rightarrow> satisfaction" where
  "unsupported c evidence_ids state =
     \<lparr>sf_conservative = ratio_int 0,
      sf_optimistic = (case pc_unknown_upper c of None \<Rightarrow> ratio_int 0 | Some u \<Rightarrow> u),
      sf_evidence_ids = evidence_ids, sf_state = state, sf_prior_label = None,
      sf_reasons = (if pc_unknown_upper c = None
                    then [unavailable_bound (pc_criterion_id c) ''UNKNOWN_BOUND''] else [])\<rparr>"

definition prior_satisfaction :: "PreferenceCriterion \<Rightarrow> string list \<Rightarrow> satisfaction" where
  "prior_satisfaction c evidence_ids =
     (case pc_neutral_prior c of
        None \<Rightarrow> \<lparr>sf_conservative = ratio_int 0, sf_optimistic = ratio_int 0, sf_evidence_ids = evidence_ids,
                 sf_state = EvidenceState.UNKNOWN, sf_prior_label = None,
                 sf_reasons = [unavailable_bound (pc_criterion_id c) ''NEUTRAL_PRIOR'']\<rparr>
      | Some p \<Rightarrow> \<lparr>sf_conservative = p, sf_optimistic = p, sf_evidence_ids = evidence_ids,
                   sf_state = EvidenceState.UNKNOWN, sf_prior_label = Some category_prior, sf_reasons = []\<rparr>)"

definition observed_satisfaction ::
    "PreferenceCriterion \<Rightarrow> OutcomeObservation \<Rightarrow> assessment_index \<Rightarrow> satisfaction" where
  "observed_satisfaction c observed index =
     (let assessments = List.map_filter (\<lambda>i. map_of index (i, pc_field c)) (oo_evidence_ids observed);
          state = combined_state (set (map as_state assessments)) False;
          s = (if state = EvidenceState.ACCEPTABLE
               then \<lparr>sf_conservative = oo_value observed, sf_optimistic = oo_value observed,
                     sf_evidence_ids = oo_evidence_ids observed, sf_state = state, sf_prior_label = None,
                     sf_reasons = []\<rparr>
               else unsupported c (oo_evidence_ids observed) state)
      in s\<lparr>sf_reasons := sf_reasons s @ filter is_bound_reason (concat (map as_reasons assessments))\<rparr>)"

definition field_satisfaction :: "PreferenceCriterion \<Rightarrow> FieldState \<Rightarrow> satisfaction result" where
  "field_satisfaction c st =
     (if fs_state st = EvidenceState.ACCEPTABLE \<and> fs_values st \<noteq> []
      then mapR_res (\<lambda>vals.
             \<lparr>sf_conservative = hd (sort_key er_fraction vals),
              sf_optimistic = hd (sort_key (\<lambda>r. - er_fraction r) vals),
              sf_evidence_ids = fs_evidence_ids st, sf_state = fs_state st, sf_prior_label = None,
              sf_reasons = []\<rparr>)
             (traverse (normalization_value c) (fs_values st))
      else Inr (unsupported c (fs_evidence_ids st) (fs_state st)))"

definition criterion_satisfaction ::
    "DecisionGraphInput \<Rightarrow> PlanMaterial \<Rightarrow> assessment_index \<Rightarrow> PreferenceCriterion \<Rightarrow> FieldState
      \<Rightarrow> satisfaction result" where
  "criterion_satisfaction d m index c st =
     (if pc_normalization c = NormalizationKind.OUTCOME_RATE
      then Inr (case outcome_value d (ml_outcome_subject_id m) (pc_criterion_id c) of
             None \<Rightarrow> prior_satisfaction c (fs_evidence_ids st)
           | Some observed \<Rightarrow> observed_satisfaction c observed index)
      else field_satisfaction c st)"

definition score_component ::
    "(pyval \<Rightarrow> string result) \<Rightarrow> DecisionGraphInput \<Rightarrow> PlanMaterial \<Rightarrow> assessment_index \<Rightarrow> PreferenceCriterion
      \<Rightarrow> (ScoreComponent \<times> string list) result" where
  "score_component H d m index c =
     bindR (field_state H (ml_facts m) (pc_field c) index) (\<lambda>st.
     bindR (criterion_satisfaction d m index c st) (\<lambda>s.
     bindR (exact_product (sf_conservative s) (pc_weight c)) (\<lambda>low.
     bindR (exact_product (sf_optimistic s) (pc_weight c)) (\<lambda>high.
     Inr (\<lparr>sc_criterion_id = pc_criterion_id c, sc_weight = pc_weight c,
           sc_conservative = sf_conservative s, sc_optimistic = sf_optimistic s,
           sc_contribution_conservative = low, sc_contribution_optimistic = high,
           sc_evidence_ids = sf_evidence_ids s, sc_evidence_state = sf_state s, sc_prior_label = sf_prior_label s\<rparr>,
          sf_reasons s @ fs_bound_reasons st)))))"

definition score_components ::
    "(pyval \<Rightarrow> string result) \<Rightarrow> DecisionGraphInput \<Rightarrow> PlanMaterial \<Rightarrow> EvidenceAssessment list
      \<Rightarrow> (ScoreComponent list \<times> string list) result" where
  "score_components H d m assessments =
     mapR_res (\<lambda>rs. (map fst rs, sorted_set (concat (map snd rs))))
       (traverse (score_component H d m (assessment_index assessments)) (applicable_criteria d m))"

section \<open>Risk\<close>

text \<open>What one rule adds: risk bounds, triggered ids and the reason of an unavailable bound.\<close>

type_synonym risk_finding = "RiskBounds list \<times> string list \<times> string list"

fun EvidenceState_value :: "EvidenceState \<Rightarrow> string" where
  "EvidenceState_value EvidenceState.ACCEPTABLE = ''ACCEPTABLE''"
| "EvidenceState_value EvidenceState.UNKNOWN = ''UNKNOWN''"
| "EvidenceState_value EvidenceState.STALE = ''STALE''"
| "EvidenceState_value EvidenceState.CONFLICT = ''CONFLICT''"

definition missing_suffix :: "FieldState \<Rightarrow> string" where
  "missing_suffix st =
     (if fs_state st = EvidenceState.UNKNOWN \<and> fs_values st = [] then ''MISSING_INPUT''
      else EvidenceState_value (fs_state st) @ ''_EVIDENCE'')"

definition missing_risk :: "RiskRule \<Rightarrow> FieldState \<Rightarrow> risk_finding result" where
  "missing_risk r st =
     (case (rk_missing_lower r, rk_missing_base r, rk_missing_upper r) of
        (Some l, Some b, Some u) \<Rightarrow>
          mapR_res (\<lambda>bounds. ([bounds], [rk_rule_id r @ '':'' @ missing_suffix st], []))
            (mk_RiskBounds \<lparr>rb_lower = l, rb_base = b, rb_upper = u\<rparr>)
      | _ \<Rightarrow> Inr ([], [], [''BOUND_UNAVAILABLE:RISK:'' @ rk_rule_id r]))"

definition matched_risk :: "RiskRule \<Rightarrow> bool \<Rightarrow> risk_finding result" where
  "matched_risk r matched =
     (if matched then mapR_res (\<lambda>bounds. ([bounds], [rk_rule_id r], [])) (mk_RiskBounds (rk_bounds r))
      else Inr ([], [], []))"

definition risk_finding_of ::
    "(pyval \<Rightarrow> string result) \<Rightarrow> PlanMaterial \<Rightarrow> assessment_index \<Rightarrow> RiskRule \<Rightarrow> risk_finding result" where
  "risk_finding_of H m index r =
     (case rk_predicate r of
        None \<Rightarrow> matched_risk r True
      | Some p \<Rightarrow>
          bindR (field_state H (ml_facts m) (pd_field p) index) (\<lambda>st.
          if fs_state st \<noteq> EvidenceState.ACCEPTABLE \<or> fs_values st = [] then missing_risk r st
          else bindR (all_match p (fs_values st)) (matched_risk r)))"

definition risk_bounds ::
    "(pyval \<Rightarrow> string result) \<Rightarrow> DecisionGraphInput \<Rightarrow> PlanMaterial \<Rightarrow> EvidenceAssessment list
      \<Rightarrow> (RiskBounds option \<times> string list \<times> string list) result" where
  "risk_bounds H d m assessments =
     bindR (traverse (risk_finding_of H m (assessment_index assessments))
              (filter (\<lambda>r. ml_action m \<in> set (rk_actions r)) (sort_key rk_rule_id (di_risk_rules d)))) (\<lambda>found.
     let bounds = concat (map fst found); triggered = concat (map (\<lambda>f. fst (snd f)) found);
         reasons = concat (map (\<lambda>f. snd (snd f)) found);
         low = \<lparr>rb_lower = StackRisk.LOW, rb_base = StackRisk.LOW, rb_upper = StackRisk.LOW\<rparr>
     in if reasons \<noteq> [] then Inr (None, sort reasons, sort triggered)
        else if bounds = [] \<and> \<not> di_risk_rules_complete d
        then Inr (None, [''BOUND_UNAVAILABLE:RISK_RULE_COVERAGE''], [])
        else if bounds = []
        then bindR (mk_RiskBounds low) (\<lambda>b.
             mapR_res (\<lambda>r. (Some r, [], sort (triggered @ [''COMPLETE_RULE_SET_DEFAULT_LOW''])))
               (aggregate_risk_bounds [b]))
        else mapR_res (\<lambda>r. (Some r, [], sort triggered)) (aggregate_risk_bounds bounds))"

section \<open>Coverage, evidence age and cost\<close>

definition coverage_criterion :: "ScoreComponent list \<Rightarrow> PreferenceCriterion \<Rightarrow> CoverageCriterion result" where
  "coverage_criterion scores c =
     (case map_of (dict_of (map (\<lambda>s. (sc_criterion_id s, s)) scores)) (pc_criterion_id c) of
        None \<Rightarrow> Inl KeyError
      | Some s \<Rightarrow>
          let conservative = (sc_evidence_state s = EvidenceState.ACCEPTABLE \<and> sc_prior_label s = None)
          in mk_CoverageCriterion
               \<lparr>cc_criterion_id = pc_criterion_id c, cc_weight = pc_coverage_weight c,
                cc_conservative_covered = conservative,
                cc_optimistic_covered = (conservative \<or>
                  (pc_permitted_resolution c \<noteq> None
                   \<and> sc_evidence_state s \<in> {EvidenceState.UNKNOWN, EvidenceState.STALE}))\<rparr>)"

definition hard_gates :: "DecisionGraphInput \<Rightarrow> GateResult list \<Rightarrow> GateResult list" where
  "hard_gates d gates =
     (let seller = map gr_gate_id (filter (\<lambda>g. gr_blocked_status g = CandidateStatus.SEIL_PASS) (di_gates d))
      in filter (\<lambda>g. \<not> prefix ''availability_'' (gt_gate_id g) \<and> \<not> prefix ''authority_'' (gt_gate_id g)
                   \<and> gt_gate_id g \<notin> set seller) gates)"

definition hard_coverage :: "DecisionGraphInput \<Rightarrow> GateResult list \<Rightarrow> HardCoverage result" where
  "hard_coverage d gates =
     (let active = hard_gates d gates
      in if active = [] then mk_HardCoverage \<lparr>hc_numerator = 1, hc_denominator = 1\<rparr>
         else mk_HardCoverage \<lparr>hc_numerator = length (filter (\<lambda>g. gt_truth g = TruthValue.TRUE) active),
                               hc_denominator = length active\<rparr>)"

definition material_assessments ::
    "PlanMaterial \<Rightarrow> ScoreComponent list \<Rightarrow> EvidenceAssessment list \<Rightarrow> EvidenceAssessment list" where
  "material_assessments m scores assessments =
     (let ids = concat (map pf_evidence_ids (ml_facts m)) @ concat (map sc_evidence_ids scores)
      in filter (\<lambda>a. as_evidence_id a \<in> set ids) assessments)"

definition coverage_and_age ::
    "DecisionGraphInput \<Rightarrow> PlanMaterial \<Rightarrow> GateResult list \<Rightarrow> ScoreComponent list \<Rightarrow> EvidenceAssessment list
      \<Rightarrow> (CoverageBounds \<times> EvidenceAgeBounds \<times> HardCoverage \<times> string list) result" where
  "coverage_and_age d m gates scores assessments =
     bindR (traverse (coverage_criterion scores) (applicable_criteria d m)) (\<lambda>criteria.
     bindR (hard_coverage d gates) (\<lambda>hard.
     let relevant = material_assessments m scores assessments
     in bindR (aggregate_evidence_age_bounds (List.map_filter as_age_bounds relevant)) (\<lambda>age.
        bindR (aggregate_coverage_bounds criteria) (\<lambda>coverage.
        Inr (coverage, age, hard, bound_reasons_of relevant)))))"

definition line_total :: "(CostLineItem \<Rightarrow> Money) \<Rightarrow> Money \<Rightarrow> CostLineItem list \<Rightarrow> decimal result" where
  "line_total part stated items =
     mapR_res (\<lambda>start. foldl decimal_plus (m_amount start) (map (\<lambda>i. m_amount (part i)) items))
       (mk_Money (PInt 0) (PStr (m_currency stated)))"

text \<open>The first of the fields whose total is not the sum of the line items.\<close>

fun line_mismatch ::
    "CostLineItem list \<Rightarrow> (string \<times> (CostLineItem \<Rightarrow> Money) \<times> Money) list \<Rightarrow> string option result" where
  "line_mismatch items [] = Inr None"
| "line_mismatch items ((name, part, stated) # rest) =
     bindR (line_total part stated items) (\<lambda>t.
     if \<not> dec_eq t (m_amount stated) then Inr (Some name) else line_mismatch items rest)"

definition fee_reasons :: "OfferCost \<Rightarrow> nat \<Rightarrow> string list" where
  "fee_reasons cost expected =
     (let fees = length (filter (\<lambda>i. li_type i = ''SIRA_TRANSACTION_FEE'') (off_line_items cost))
      in if off_payment_required cost \<and> fees \<noteq> expected
         then [''BOUND_UNAVAILABLE:TRANSACTION_FEE:'' @ off_offer_id cost]
         else if \<not> off_payment_required cost \<and> (fees \<noteq> 0 \<or> expected \<noteq> 0)
         then [''BOUND_UNAVAILABLE:UNEXPECTED_TRANSACTION_FEE:'' @ off_offer_id cost]
         else [])"

text \<open>The reasons of \<^verbatim>\<open>_valid_cost\<close>; its boolean is \<open>reasons = []\<close>.\<close>

definition valid_cost :: "OfferCost \<Rightarrow> nat \<Rightarrow> string list result" where
  "valid_cost cost expected =
     (case (off_low cost, off_base cost, off_high cost) of
        (Some low, Some base, Some high) \<Rightarrow>
          bindR (mk_CostBounds \<lparr>co_low = low, co_base = base, co_high = high\<rparr>) (\<lambda>_.
          bindR (if off_line_items cost = [] then Inr None
                 else line_mismatch (off_line_items cost)
                        [(''low'', li_low, low), (''base'', li_base, base), (''high'', li_high, high)]) (\<lambda>mismatch.
          case mismatch of
            Some name \<Rightarrow> Inr [''BOUND_UNAVAILABLE:TCO_LINE_ITEMS:'' @ off_offer_id cost @ '':'' @ name]
          | None \<Rightarrow> Inr (fee_reasons cost expected)))
      | _ \<Rightarrow> Inr [''BOUND_UNAVAILABLE:TCO:'' @ off_offer_id cost])"

section \<open>The dimensions of a plan\<close>

definition preference_of_scores ::
    "ScoreComponent list \<Rightarrow> string list \<Rightarrow> (PreferenceScoreBounds option \<times> string list) result" where
  "preference_of_scores scores reasons =
     (if scores = [] then Inr (None, reasons @ [''BOUND_UNAVAILABLE:NO_APPLICABLE_PREFERENCE''])
      else
        bindR (traverse (\<lambda>s. mk_PreferenceCriterionBound
                 \<lparr>pb_criterion_id = sc_criterion_id s, pb_weight = sc_weight s,
                  pb_conservative = sc_conservative s, pb_optimistic = sc_optimistic s\<rparr>) scores) (\<lambda>bounds.
        mapR_res (\<lambda>p. (Some p, reasons)) (aggregate_preference_bounds bounds)))"

definition risk_input_hash :: "(pyval \<Rightarrow> string result) \<Rightarrow> PlanMaterial \<Rightarrow> string result" where
  "risk_input_hash H m =
     bindR (traverse (\<lambda>f. mapR_res (\<lambda>h. ((pf_field f, h), pf_value f)) (H (fact_pyval (pf_value f))))
              (ml_facts m)) (\<lambda>keyed.
     H (PDict [(PStr ''action'', PStr (SolutionAction_value (ml_action m))),
               (PStr ''inputs'', PTuple (map (\<lambda>((field, h), v). PTuple [PStr field, fact_pyval v])
                                   (sort_key fst keyed)))]))"

definition universe_coverage :: "nat \<Rightarrow> nat \<Rightarrow> ExactRatio result" where
  "universe_coverage n_evaluated n_discovered =
     (if n_discovered = 0 then mk_ExactRatio (PInt 0) (PInt 1)
      else mk_ExactRatio (PInt (int n_evaluated)) (PInt (int n_discovered)))"

definition material_dimensions ::
    "(pyval \<Rightarrow> string result) \<Rightarrow> DecisionGraphInput \<Rightarrow> PlanMaterial \<Rightarrow> GateResult list \<Rightarrow> EvidenceAssessment list
      \<Rightarrow> nat \<Rightarrow> nat \<Rightarrow> (ScoreComponent list \<times> PlanDimensions) result" where
  "material_dimensions H d m gates assessments n_evaluated n_discovered =
     bindR (score_components H d m assessments) (\<lambda>(scores, found_reasons).
     bindR (preference_of_scores scores found_reasons) (\<lambda>(preference, score_reasons).
     bindR (risk_bounds H d m assessments) (\<lambda>(risk, risk_reasons, rule_ids).
     bindR (coverage_and_age d m gates scores assessments) (\<lambda>(coverage, age, hard, evidence_reasons).
     bindR (valid_cost (ml_cost m) (ml_payment_components m)) (\<lambda>cost_reasons.
     bindR (risk_input_hash H m) (\<lambda>input_hash.
     bindR (universe_coverage n_evaluated n_discovered) (\<lambda>universe.
     Inr (scores,
       \<lparr>pd_preference = preference, pd_stack_risk = risk, pd_total_cost = ml_cost m, pd_coverage = Some coverage,
        pd_age_ratio = Some age, pd_hard_coverage = hard, pd_universe_coverage = universe,
        pd_unresolved_count = length (filter (\<lambda>g. gt_truth g = TruthValue.UNKNOWN) gates),
        pd_conflicting_count = length (filter (\<lambda>g. gt_truth g = TruthValue.CONFLICT) gates),
        pd_risk_rule_ids = rule_ids, pd_risk_input_hash = input_hash,
        pd_reasons = sorted_set (score_reasons @ risk_reasons @ evidence_reasons @ cost_reasons)\<rparr>))))))))"

section \<open>What the dimensions promise\<close>

lemma material_dimensions_Inr:
  assumes "material_dimensions H d m gates assessments n_evaluated n_discovered = Inr (scores, dims)"
  obtains found preference score_reasons risk risk_reasons rule_ids coverage age hard evidence_reasons cost_reasons
  where "score_components H d m assessments = Inr (scores, found)"
    "preference_of_scores scores found = Inr (preference, score_reasons)"
    "risk_bounds H d m assessments = Inr (risk, risk_reasons, rule_ids)"
    "coverage_and_age d m gates scores assessments = Inr (coverage, age, hard, evidence_reasons)"
    "valid_cost (ml_cost m) (ml_payment_components m) = Inr cost_reasons"
    "pd_preference dims = preference" "pd_stack_risk dims = risk" "pd_total_cost dims = ml_cost m"
    "pd_coverage dims = Some coverage" "pd_age_ratio dims = Some age"
    "pd_reasons dims = sorted_set (score_reasons @ risk_reasons @ evidence_reasons @ cost_reasons)"
  using assms by (auto simp: material_dimensions_def bindR_Inr_iff)

lemma preference_of_scores_Inr:
  assumes "preference_of_scores scores found = Inr (preference, reasons)"
  shows "set found \<subseteq> set reasons" "preference = None \<longleftrightarrow> scores = []"
    "scores = [] \<Longrightarrow> ''BOUND_UNAVAILABLE:NO_APPLICABLE_PREFERENCE'' \<in> set reasons"
    "set reasons \<subseteq> insert ''BOUND_UNAVAILABLE:NO_APPLICABLE_PREFERENCE'' (set found)"
  using assms by (auto simp: preference_of_scores_def bindR_Inr_iff mapR_res_Inr_iff split: if_splits)

lemma risk_bounds_Inr:
  assumes "risk_bounds H d m assessments = Inr (risk, reasons, rule_ids)"
  shows "risk = None \<longleftrightarrow> reasons \<noteq> []"
  using assms
  by (auto simp: risk_bounds_def Let_def bindR_Inr_iff mapR_res_Inr_iff sort_nil simp del: concat_eq_Nil_conv
      split: if_splits)

lemma valid_cost_Inr:
  assumes "valid_cost cost expected = Inr reasons"
  shows "off_low cost = None \<or> off_base cost = None \<or> off_high cost = None \<Longrightarrow> reasons \<noteq> []"
    "off_low cost = Some low \<Longrightarrow> off_base cost = Some base \<Longrightarrow> off_high cost = Some high \<Longrightarrow>
      \<exists>b. mk_CostBounds \<lparr>co_low = low, co_base = base, co_high = high\<rparr> = Inr b"
  using assms by (auto simp: valid_cost_def bindR_Inr_iff split: option.splits)

lemma bound_unavailable_prefix [simp]:
  "prefix ''BOUND_UNAVAILABLE:'' (''BOUND_UNAVAILABLE:'' @ s)" "is_bound_reason (unavailable_bound c w)"
  by (simp_all add: is_bound_reason_def unavailable_bound_def)

lemma reasons_in_prefix: "r \<in> set (bound_reasons_of as) \<Longrightarrow> is_bound_reason r"
  by (auto simp: bound_reasons_of_def)

lemma field_state_reasons:
  "field_state H facts field index = Inr st \<Longrightarrow> set (fs_bound_reasons st) \<subseteq> {r. is_bound_reason r}"
  by (auto simp: field_state_def Let_def bindR_Inr_iff dest: reasons_in_prefix split: if_splits)

lemma unsupported_reasons: "set (sf_reasons (unsupported c ids st)) \<subseteq> {r. is_bound_reason r}"
  by (auto simp: unsupported_def)

lemma criterion_satisfaction_reasons:
  assumes "criterion_satisfaction d m index c st = Inr s"
  shows "set (sf_reasons s) \<subseteq> {r. is_bound_reason r}"
proof -
  have "set (sf_reasons (prior_satisfaction c ids)) \<subseteq> {r. is_bound_reason r}" for ids
    by (auto simp: prior_satisfaction_def split: option.splits)
  moreover have "set (sf_reasons (observed_satisfaction c ob index)) \<subseteq> {r. is_bound_reason r}" for ob
    using unsupported_reasons by (auto simp: observed_satisfaction_def Let_def)
  moreover have "set (sf_reasons s) \<subseteq> {r. is_bound_reason r}" if "field_satisfaction c st = Inr s"
    using that unsupported_reasons by (auto simp: field_satisfaction_def mapR_res_Inr_iff split: if_splits)
  ultimately show ?thesis
    using assms by (auto simp: criterion_satisfaction_def split: if_splits option.splits)
qed

lemma score_component_Inr:
  assumes "score_component H d m index c = Inr (s, reasons)"
  shows "sc_criterion_id s = pc_criterion_id c" "sc_weight s = pc_weight c" "set reasons \<subseteq> {r. is_bound_reason r}"
    "er_fraction (sc_contribution_conservative s) = er_fraction (sc_conservative s) * of_int (sc_weight s)"
    "er_fraction (sc_contribution_optimistic s) = er_fraction (sc_optimistic s) * of_int (sc_weight s)"
    "sc_evidence_state s \<noteq> EvidenceState.ACCEPTABLE \<Longrightarrow> sc_prior_label s = None \<Longrightarrow> er_fraction (sc_conservative s) = 0"
    "sc_prior_label s \<noteq> None \<Longrightarrow> sc_prior_label s = Some category_prior
      \<and> pc_neutral_prior c = Some (sc_conservative s) \<and> sc_optimistic s = sc_conservative s"
proof -
  from assms obtain st t low high where st: "field_state H (ml_facts m) (pc_field c) index = Inr st"
    and t: "criterion_satisfaction d m index c st = Inr t"
    and p: "ratio_of_fraction (er_fraction (sf_conservative t) * of_int (pc_weight c)) = Inr low"
      "ratio_of_fraction (er_fraction (sf_optimistic t) * of_int (pc_weight c)) = Inr high"
    and s: "s = \<lparr>sc_criterion_id = pc_criterion_id c, sc_weight = pc_weight c,
           sc_conservative = sf_conservative t, sc_optimistic = sf_optimistic t,
           sc_contribution_conservative = low, sc_contribution_optimistic = high,
           sc_evidence_ids = sf_evidence_ids t, sc_evidence_state = sf_state t, sc_prior_label = sf_prior_label t\<rparr>"
    and r: "reasons = sf_reasons t @ fs_bound_reasons st"
    by (auto simp: score_component_def bindR_Inr_iff exact_product_def)
  show "sc_criterion_id s = pc_criterion_id c" "sc_weight s = pc_weight c" by (simp_all add: s)
  show "set reasons \<subseteq> {r. is_bound_reason r}"
    using criterion_satisfaction_reasons [OF t] field_state_reasons [OF st] by (auto simp: r)
  show "er_fraction (sc_contribution_conservative s) = er_fraction (sc_conservative s) * of_int (sc_weight s)"
    "er_fraction (sc_contribution_optimistic s) = er_fraction (sc_optimistic s) * of_int (sc_weight s)"
    using p ratio_of_fraction_ok by (auto simp: s) (metis sum.inject(2))+
  have zero: "er_fraction (ratio_int 0) = 0" by (simp add: ratio_int_def er_fraction_def)
  show "er_fraction (sc_conservative s) = 0" if "sc_evidence_state s \<noteq> EvidenceState.ACCEPTABLE" "sc_prior_label s = None"
    using t that zero
    by (auto simp: s criterion_satisfaction_def prior_satisfaction_def observed_satisfaction_def field_satisfaction_def
        unsupported_def Let_def mapR_res_Inr_iff split: if_splits option.splits)
  show "sc_prior_label s = Some category_prior \<and> pc_neutral_prior c = Some (sc_conservative s)
      \<and> sc_optimistic s = sc_conservative s" if "sc_prior_label s \<noteq> None"
    using t that
    by (auto simp: s criterion_satisfaction_def prior_satisfaction_def observed_satisfaction_def field_satisfaction_def
        unsupported_def Let_def mapR_res_Inr_iff split: if_splits option.splits)
qed

lemma score_components_Inr:
  assumes "score_components H d m assessments = Inr (scores, found)"
  shows "\<exists>rs. list_all2 (\<lambda>c r. score_component H d m (assessment_index assessments) c = Inr r) (applicable_criteria d m) rs
    \<and> scores = map fst rs \<and> set found \<subseteq> {r. is_bound_reason r}"
proof -
  from assms obtain rs where rs: "list_all2 (\<lambda>c r. score_component H d m (assessment_index assessments) c = Inr r)
        (applicable_criteria d m) rs" "scores = map fst rs" "found = sorted_set (concat (map snd rs))"
    by (auto simp: score_components_def mapR_res_Inr_iff traverse_Inr_iff)
  have "set (snd r) \<subseteq> {r. is_bound_reason r}" if "r \<in> set rs" for r
  proof -
    from that obtain i where "i < length rs" "r = rs ! i" by (metis in_set_conv_nth)
    with list_all2_nthD2 [OF rs(1), of i]
    have "score_component H d m (assessment_index assessments) (applicable_criteria d m ! i) = Inr (fst r, snd r)"
      by simp
    then show ?thesis by (rule score_component_Inr(3))
  qed
  then have "set found \<subseteq> {r. is_bound_reason r}" unfolding rs(3) set_sorted_set set_concat set_map by blast
  with rs(1,2) show ?thesis by blast
qed


lemma risk_reasons_prefix:
  assumes "risk_bounds H d m assessments = Inr (risk, reasons, rule_ids)"
  shows "set reasons \<subseteq> {r. is_bound_reason r}"
proof -
  have one: "set (snd (snd f)) \<subseteq> {r. is_bound_reason r}" if "risk_finding_of H m index r = Inr f" for index r f
    using that
    by (auto simp: risk_finding_of_def matched_risk_def missing_risk_def is_bound_reason_def bindR_Inr_iff
        mapR_res_Inr_iff split: if_splits option.splits)
  from assms obtain found where f: "traverse (risk_finding_of H m (assessment_index assessments))
        (filter (\<lambda>r. ml_action m \<in> set (rk_actions r)) (sort_key rk_rule_id (di_risk_rules d))) = Inr found"
    by (auto simp: risk_bounds_def bindR_Inr_iff)
  have "set reasons \<subseteq> (\<Union>x\<in>set found. set (snd (snd x))) \<union> {''BOUND_UNAVAILABLE:RISK_RULE_COVERAGE''}"
    using assms f
    by (simp add: risk_bounds_def Let_def bindR_Inr_iff mapR_res_Inr_iff del: concat_eq_Nil_conv split: if_splits) auto
  moreover have "set (snd (snd x)) \<subseteq> {r. is_bound_reason r}" if "x \<in> set found" for x
    using traverse_Inr_set [OF f that] one by blast
  ultimately show ?thesis by (force simp: is_bound_reason_def)
qed

lemma valid_cost_prefix:
  "valid_cost cost expected = Inr reasons \<Longrightarrow> set reasons \<subseteq> {r. is_bound_reason r}"
  by (auto simp: valid_cost_def fee_reasons_def Let_def is_bound_reason_def bindR_Inr_iff
      split: option.splits if_splits)

lemma ordering_bounds_ok:
  assumes "material_dimensions H d m gates assessments n_evaluated n_discovered = Inr (scores, dims)"
  shows "\<exists>bounds. ordering_bounds dims = Inr bounds \<and> (bounds = None) = (pd_reasons dims \<noteq> [])
    \<and> (bounds = None \<or> scores \<noteq> [] \<and> off_base (ml_cost m) \<noteq> None)"
proof -
  from material_dimensions_Inr [OF assms] obtain found preference score_reasons risk risk_reasons rule_ids coverage
      age hard evidence_reasons cost_reasons where
    pref: "preference_of_scores scores found = Inr (preference, score_reasons)"
    and risk: "risk_bounds H d m assessments = Inr (risk, risk_reasons, rule_ids)"
    and cost: "valid_cost (ml_cost m) (ml_payment_components m) = Inr cost_reasons"
    and dims: "pd_preference dims = preference" "pd_stack_risk dims = risk" "pd_total_cost dims = ml_cost m"
      "pd_coverage dims = Some coverage" "pd_age_ratio dims = Some age"
      "pd_reasons dims = sorted_set (score_reasons @ risk_reasons @ evidence_reasons @ cost_reasons)" .
  show ?thesis
  proof (cases "pd_reasons dims = []")
    case True
    then have none: "score_reasons = []" "risk_reasons = []" "cost_reasons = []" by (simp_all add: dims)
    obtain low base high where off: "off_low (ml_cost m) = Some low" "off_base (ml_cost m) = Some base"
        "off_high (ml_cost m) = Some high"
      using valid_cost_Inr(1) [OF cost] none(3) by (metis option.exhaust)
    obtain b where b: "mk_CostBounds \<lparr>co_low = low, co_base = base, co_high = high\<rparr> = Inr b"
      using valid_cost_Inr(2) [OF cost off] by blast
    have ne: "scores \<noteq> []" using preference_of_scores_Inr(3) [OF pref] none(1) by auto
    then obtain p where "preference = Some p" using preference_of_scores_Inr(2) [OF pref] by blast
    moreover obtain r where "risk = Some r" using risk_bounds_Inr [OF risk] none(2) by blast
    ultimately show ?thesis using True off b ne by (simp add: ordering_bounds_def dims(1-5))
  next
    case False
    then have "ordering_bounds dims = Inr None" by (simp add: ordering_bounds_def split: option.split)
    with False show ?thesis by simp
  qed
qed

lemma ordering_bounds_iff:
  "material_dimensions H d m gates assessments n_evaluated n_discovered = Inr (scores, dims) \<Longrightarrow>
    ordering_bounds dims = Inr bounds \<Longrightarrow> bounds = None \<longleftrightarrow> pd_reasons dims \<noteq> []"
  using ordering_bounds_ok by fastforce

text \<open>
  The bounds the pipeline makes are constructed bounds in the sense of the stability verdict, as soon as the
  amounts of the cost are finite, which every constructed Money amount is.
\<close>

definition finite_cost :: "OfferCost \<Rightarrow> bool" where
  "finite_cost cost =
     list_all (\<lambda>m. case m of None \<Rightarrow> True | Some x \<Rightarrow> dec_finite (m_amount x)) [off_low cost, off_base cost, off_high cost]"

lemma aggregate_preference_constructed:
  "aggregate_preference_bounds cs = Inr p \<Longrightarrow> mk_PreferenceScoreBounds (ps_conservative p) (ps_optimistic p) = Inr p"
  by (auto simp: aggregate_preference_bounds_def mk_PreferenceScoreBounds_def bindR_Inr_iff ensure_Inr_iff)

lemma aggregate_risk_constructed: "aggregate_risk_bounds cs = Inr r \<Longrightarrow> mk_RiskBounds r = Inr r"
  by (auto simp: aggregate_risk_bounds_def mk_RiskBounds_def bindR_Inr_iff ensure_Inr_iff)

lemma aggregate_age_constructed:
  "aggregate_evidence_age_bounds items = Inr a \<Longrightarrow> mk_EvidenceAgeBounds (ea_lower a) (ea_upper a) = Inr a"
  by (auto simp: aggregate_evidence_age_bounds_def mk_EvidenceAgeBounds_def bindR_Inr_iff ensure_Inr_iff split: if_splits)

lemma aggregate_coverage_ordered:
  assumes "aggregate_coverage_bounds cs = Inr c" "\<And>x. x \<in> set cs \<Longrightarrow> \<exists>y. mk_CoverageCriterion y = Inr x"
  shows "er_fraction (cb_conservative c) \<le> er_fraction (cb_optimistic c)"
proof -
  have cov: "1 \<le> cc_weight x" "cc_conservative_covered x \<Longrightarrow> cc_optimistic_covered x" if "x \<in> set cs" for x
  proof -
    from assms(2) [OF that] have "mk_CoverageCriterion x = Inr x" by (auto simp: mk_CoverageCriterion_def bindR_Inr_iff ensure_Inr_iff)
    from coverage_constructed [OF this] show "1 \<le> cc_weight x" "cc_conservative_covered x \<Longrightarrow> cc_optimistic_covered x" by blast+
  qed
  then have "covered_fraction cc_conservative_covered cs \<le> covered_fraction cc_optimistic_covered cs"
    by (rule covered_fraction_mono)
  with assms(1) show ?thesis
    by (auto simp: aggregate_coverage_bounds_def bindR_Inr_iff mapR_res_Inr_iff ratio_of_fraction_eq er_fraction_quotient
        split: if_splits)
qed

lemma ordering_bounds_constructed:
  assumes "material_dimensions H d m gates assessments n_evaluated n_discovered = Inr (scores, dims)"
    and "ordering_bounds dims = Inr (Some b)" and "finite_cost (ml_cost m)"
  shows "constructed_bounds b"
proof -
  from material_dimensions_Inr [OF assms(1)] obtain found preference score_reasons risk risk_reasons rule_ids coverage
      age hard evidence_reasons where
    pref: "preference_of_scores scores found = Inr (preference, score_reasons)"
    and risk: "risk_bounds H d m assessments = Inr (risk, risk_reasons, rule_ids)"
    and cov: "coverage_and_age d m gates scores assessments = Inr (coverage, age, hard, evidence_reasons)"
    and dims: "pd_preference dims = preference" "pd_stack_risk dims = risk" "pd_total_cost dims = ml_cost m"
      "pd_coverage dims = Some coverage" "pd_age_ratio dims = Some age" .
  from assms(2) obtain p r low base high where some: "preference = Some p" "risk = Some r"
      "off_low (ml_cost m) = Some low" "off_base (ml_cost m) = Some base" "off_high (ml_cost m) = Some high"
    and cost: "mk_CostBounds \<lparr>co_low = low, co_base = base, co_high = high\<rparr> = Inr (ob_total_cost b)"
    and b: "ob_preference b = p" "ob_stack_risk b = r" "ob_coverage b = coverage" "ob_age_ratio b = age"
    by (auto simp: ordering_bounds_def dims mapR_res_Inr_iff split: option.splits if_splits)
  have cost_eq: "ob_total_cost b = \<lparr>co_low = low, co_base = base, co_high = high\<rparr>"
    using cost by (auto simp: mk_CostBounds_def Let_def bindR_Inr_iff)
  from pref some(1) obtain bs where "aggregate_preference_bounds bs = Inr p"
    by (auto simp: preference_of_scores_def bindR_Inr_iff mapR_res_Inr_iff split: if_splits)
  note p = aggregate_preference_constructed [OF this]
  from risk some(2) obtain rs where "aggregate_risk_bounds rs = Inr r"
    by (auto simp: risk_bounds_def Let_def bindR_Inr_iff mapR_res_Inr_iff split: if_splits)
  note r = aggregate_risk_constructed [OF this]
  from cov obtain cs ages where cs: "traverse (coverage_criterion scores) (applicable_criteria d m) = Inr cs"
    and agg: "aggregate_evidence_age_bounds ages = Inr age" "aggregate_coverage_bounds cs = Inr coverage"
    by (auto simp: coverage_and_age_def Let_def bindR_Inr_iff)
  have "\<exists>y. mk_CoverageCriterion y = Inr x" if "x \<in> set cs" for x
    using traverse_Inr_set [OF cs that] by (auto simp: coverage_criterion_def Let_def split: option.splits)
  note c = aggregate_coverage_ordered [OF agg(2) this]
  show ?thesis
    using p r c aggregate_age_constructed [OF agg(1)] cost assms(3) some(3-5)
    by (simp add: constructed_bounds_def b cost_eq finite_cost_def)
qed

text \<open>
  A plan is comparable or says why not: its dimensions have ordering bounds exactly when no reason is
  recorded, every recorded reason is a BOUND_UNAVAILABLE reason, and reading the bounds never fails.
\<close>

theorem bounds_or_reason:
  assumes "material_dimensions H d m gates assessments n_evaluated n_discovered = Inr (scores, dims)"
  shows "\<exists>bounds. ordering_bounds dims = Inr bounds \<and> (bounds = None) = (pd_reasons dims \<noteq> [])
    \<and> list_all (\<lambda>r. prefix ''BOUND_UNAVAILABLE:'' r) (pd_reasons dims)
    \<and> (bounds = None \<or> scores \<noteq> [] \<and> off_base (ml_cost m) \<noteq> None)"
proof -
  from material_dimensions_Inr [OF assms] obtain found preference score_reasons risk risk_reasons rule_ids coverage
      age hard evidence_reasons cost_reasons where
    sc: "score_components H d m assessments = Inr (scores, found)"
    and pref: "preference_of_scores scores found = Inr (preference, score_reasons)"
    and risk: "risk_bounds H d m assessments = Inr (risk, risk_reasons, rule_ids)"
    and cov: "coverage_and_age d m gates scores assessments = Inr (coverage, age, hard, evidence_reasons)"
    and cost: "valid_cost (ml_cost m) (ml_payment_components m) = Inr cost_reasons"
    and dims: "pd_preference dims = preference" "pd_stack_risk dims = risk" "pd_total_cost dims = ml_cost m"
      "pd_coverage dims = Some coverage" "pd_age_ratio dims = Some age"
      "pd_reasons dims = sorted_set (score_reasons @ risk_reasons @ evidence_reasons @ cost_reasons)" .
  have "set evidence_reasons \<subseteq> {r. is_bound_reason r}"
    using cov by (auto simp: coverage_and_age_def Let_def bindR_Inr_iff dest: reasons_in_prefix)
  moreover have "set score_reasons \<subseteq> {r. is_bound_reason r}"
    using preference_of_scores_Inr(4) [OF pref] score_components_Inr [OF sc] by (force simp: is_bound_reason_def)
  ultimately have "list_all (\<lambda>r. prefix ''BOUND_UNAVAILABLE:'' r) (pd_reasons dims)"
    using risk_reasons_prefix [OF risk] valid_cost_prefix [OF cost]
    by (force simp: dims list_all_iff is_bound_reason_def)
  then show ?thesis using ordering_bounds_ok [OF assms] by blast
qed

lemma aggregate_preference_value:
  assumes "aggregate_preference_bounds cs = Inr p"
  shows "er_fraction (ps_conservative p) = weighted_percent pb_weight (\<lambda>c. er_fraction (pb_conservative c)) cs"
    "er_fraction (ps_optimistic p) = weighted_percent pb_weight (\<lambda>c. er_fraction (pb_optimistic c)) cs"
  using assms
  by (auto simp: aggregate_preference_bounds_def mk_PreferenceScoreBounds_def bindR_Inr_iff ensure_Inr_iff
      ratio_of_fraction_eq er_fraction_quotient)

lemma preference_of_scores_value:
  assumes "preference_of_scores scores found = Inr (Some p, reasons)"
    and "\<And>s. s \<in> set scores \<Longrightarrow>
      er_fraction (sc_contribution_conservative s) = er_fraction (sc_conservative s) * of_int (sc_weight s)"
  shows "er_fraction (ps_conservative p)
      = 100 * (\<Sum>s \<leftarrow> scores. er_fraction (sc_contribution_conservative s)) / of_int (\<Sum>s \<leftarrow> scores. sc_weight s)"
    "\<forall>s\<in>set scores. 0 \<le> er_fraction (sc_conservative s)
      \<and> er_fraction (sc_conservative s) \<le> er_fraction (sc_optimistic s) \<and> er_fraction (sc_optimistic s) \<le> 1"
proof -
  let ?b = "\<lambda>s. \<lparr>pb_criterion_id = sc_criterion_id s, pb_weight = sc_weight s,
      pb_conservative = sc_conservative s, pb_optimistic = sc_optimistic s\<rparr>"
  from assms(1) obtain bs where t: "traverse (\<lambda>s. mk_PreferenceCriterionBound (?b s)) scores = Inr bs"
    and a: "aggregate_preference_bounds bs = Inr p"
    by (auto simp: preference_of_scores_def bindR_Inr_iff mapR_res_Inr_iff split: if_splits)
  have mk: "mk_PreferenceCriterionBound b = Inr b' \<Longrightarrow> b' = b" for b b'
    by (auto simp: mk_PreferenceCriterionBound_def bindR_Inr_iff)
  have each: "\<exists>b'. mk_PreferenceCriterionBound (?b s) = Inr b'" if "s \<in> set scores" for s
    using traverse_Inr_set' [OF t that] by blast
  show "\<forall>s\<in>set scores. 0 \<le> er_fraction (sc_conservative s)
      \<and> er_fraction (sc_conservative s) \<le> er_fraction (sc_optimistic s) \<and> er_fraction (sc_optimistic s) \<le> 1"
    using each criterion_constructed(2-4) by fastforce
  have "traverse (\<lambda>s. mk_PreferenceCriterionBound (?b s)) scores = Inr (map ?b scores)"
    using each mk by (intro traverse_ok) metis
  with t have bs: "bs = map ?b scores" by simp
  have "(\<Sum>s \<leftarrow> scores. er_fraction (sc_contribution_conservative s))
      = (\<Sum>s \<leftarrow> scores. of_int (sc_weight s) * er_fraction (sc_conservative s))"
    using assms(2) by (intro arg_cong [of _ _ sum_list] map_cong) (simp_all add: mult.commute)
  then show "er_fraction (ps_conservative p)
      = 100 * (\<Sum>s \<leftarrow> scores. er_fraction (sc_contribution_conservative s)) / of_int (\<Sum>s \<leftarrow> scores. sc_weight s)"
    by (simp add: aggregate_preference_value(1) [OF a] bs weighted_percent_def comp_def)
qed

lemma scores_from_criteria:
  assumes "score_components H d m assessments = Inr (scores, found)"
  shows "map sc_criterion_id scores = map pc_criterion_id (applicable_criteria d m)"
    "s \<in> set scores \<Longrightarrow> \<exists>c reasons. c \<in> set (di_preferences d)
      \<and> score_component H d m (assessment_index assessments) c = Inr (s, reasons)"
proof -
  from score_components_Inr [OF assms] obtain rs where
    rs: "list_all2 (\<lambda>c r. score_component H d m (assessment_index assessments) c = Inr r) (applicable_criteria d m) rs"
    and scores: "scores = map fst rs" by blast
  have "map pc_criterion_id cs = map (\<lambda>r. sc_criterion_id (fst r)) xs"
    if "list_all2 (\<lambda>c r. score_component H d m (assessment_index assessments) c = Inr r) cs xs" for cs xs
    using that by induction (auto dest: score_component_Inr(1))
  with rs show "map sc_criterion_id scores = map pc_criterion_id (applicable_criteria d m)"
    by (simp add: scores comp_def)
  assume "s \<in> set scores"
  then obtain i where i: "i < length rs" "s = fst (rs ! i)" by (auto simp: scores in_set_conv_nth)
  then have "applicable_criteria d m ! i \<in> set (di_preferences d)"
    using nth_mem [of i "applicable_criteria d m"] list_all2_lengthD [OF rs] by (simp add: applicable_criteria_def)
  moreover have "score_component H d m (assessment_index assessments) (applicable_criteria d m ! i)
      = Inr (s, snd (rs ! i))"
    using list_all2_nthD2 [OF rs i(1)] i(2) by simp
  ultimately show "\<exists>c reasons. c \<in> set (di_preferences d)
      \<and> score_component H d m (assessment_index assessments) c = Inr (s, reasons)" by blast
qed



definition sample_preference :: PreferenceCriterion where
  "sample_preference =
     \<lparr>pc_criterion_id = ''c1'', pc_field = ''sso'', pc_weight = 3, pc_coverage_weight = 2,
      pc_normalization = NormalizationKind.BOOLEAN_EQUALS, pc_expected = FBool True, pc_source_fact_ids = [],
      pc_applies_to = [], pc_allowed = [ratio_int 0, ratio_int 1], pc_points = [],
      pc_unknown_upper = Some (ratio_int 1), pc_permitted_resolution = Some ''EVIDENCE'',
      pc_neutral_prior = None, pc_aggregation = ''ALL''\<rparr>"

definition sample_preference_input :: DecisionGraphInput where
  "sample_preference_input = (sample_graph_input [])\<lparr>di_preferences := [sample_preference]\<rparr>"

definition sample_priced :: "int \<Rightarrow> OfferCost" where
  "sample_priced price =
     sample_cost\<lparr>off_low := Some \<lparr>m_amount = Dec price 0, m_currency = ''USD''\<rparr>,
       off_base := Some \<lparr>m_amount = Dec price 0, m_currency = ''USD''\<rparr>,
       off_high := Some \<lparr>m_amount = Dec price 0, m_currency = ''USD''\<rparr>\<rparr>"

definition sample_dimensions ::
    "OfferCost \<Rightarrow> EvidenceAssessment list \<Rightarrow> (ScoreComponent list \<times> PlanDimensions) result" where
  "sample_dimensions cost assessments =
     material_dimensions constant_hash sample_preference_input
       ((sample_material [sample_fact ''sso'' (FBool True)])\<lparr>ml_cost := cost\<rparr>) [] assessments 1 1"

lemma bounds_or_reason_witness:
  "\<exists>scores dims. sample_dimensions (sample_priced 100) [accepted ''sso''] = Inr (scores, dims)
    \<and> ordering_bounds dims \<noteq> Inr None"
proof -
  have "mapR_res (\<lambda>(_, dims). pd_reasons dims) (sample_dimensions (sample_priced 100) [accepted ''sso'']) = Inr []"
    by code_simp
  then obtain scores dims where d: "sample_dimensions (sample_priced 100) [accepted ''sso''] = Inr (scores, dims)"
      "pd_reasons dims = []" by (auto simp: mapR_res_Inr_iff)
  from bounds_or_reason [OF d(1) [unfolded sample_dimensions_def]] d show ?thesis by auto
qed


end
