(* ===== verification/GraphPlans.thy ===== *)
theory GraphPlans
  imports GraphDimensions
begin

text \<open>
  \<^verbatim>\<open>decision_engine/graph_v1.py\<close>, plans: the construction of the evaluated plans with their
  lifecycle, and \<^verbatim>\<open>_rank_and_frontiers\<close> with the ranking, the stability verdict, the two frontiers,
  the quote policy and the permission to execute autonomously.
\<close>

section \<open>Evaluated plans\<close>

datatype PlanLifecycle = CANDIDATE | RESOLUTION_PENDING | EXECUTABLE | BLOCKED

record PlanComponent =
  pn_component_id :: string
  pn_source_type :: string
  pn_action :: SolutionAction

record EvaluatedPlan =
  ep_plan_id :: string
  ep_action :: SolutionAction
  ep_components :: "PlanComponent list"
  ep_component_hash :: string
  ep_construction :: PlanLifecycle
  ep_lifecycle :: PlanLifecycle
  ep_status :: CandidateStatus
  ep_primary_reason :: "GateReason option"
  ep_gates :: "GateResult list"
  ep_scores :: "ScoreComponent list"
  ep_dimensions :: PlanDimensions
  ep_stable_action_ids :: "string list"
  ep_ordering_member :: bool
  ep_resolution_member :: bool
  ep_quote_required :: bool
  ep_quote_reason :: string
  ep_permitted_resolution :: "string option"
  ep_autonomous :: bool

definition plan_id :: "(pyval \<Rightarrow> string result) \<Rightarrow> SolutionAction \<Rightarrow> string list \<Rightarrow> string result" where
  "plan_id H action component_ids =
     mapR_res (\<lambda>digest. ''plan_'' @ digest)
       (short_digest H (PDict
          [(PStr ''action'', PStr (SolutionAction_value action)),
           (case component_ids of
              [c] \<Rightarrow> (PStr ''component_id'', PStr c)
            | _ \<Rightarrow> (PStr ''ordered_component_ids'', PTuple (map PStr component_ids)))]))"

definition component_hash :: "(pyval \<Rightarrow> string result) \<Rightarrow> SolutionAction \<Rightarrow> string list \<Rightarrow> string result" where
  "component_hash H action component_ids =
     H (PDict [(PStr ''action'', PStr (SolutionAction_value action)),
               (PStr ''ordered_component_ids'', PTuple (map PStr component_ids))])"

definition gate_resolutions :: "GateResult list \<Rightarrow> string list" where
  "gate_resolutions gates =
     sorted_set (List.map_filter gt_permitted_resolution (filter (\<lambda>g. gt_reasons g \<noteq> []) gates))"

definition plan_resolution :: "PlanMaterial \<Rightarrow> GateResult list \<Rightarrow> string option" where
  "plan_resolution m gates =
     (case gate_resolutions gates of
        [r] \<Rightarrow> Some r
      | rs \<Rightarrow> if str_join ''+'' rs \<noteq> [] then Some (str_join ''+'' rs) else ml_permitted_resolution m)"

definition eligible_status :: "CandidateStatus \<Rightarrow> bool" where
  "eligible_status s = (s \<in> {CandidateStatus.ELIGIBLE, CandidateStatus.ELIGIBLE_WITH_EXCEPTION})"

definition plan_lifecycle ::
    "CandidateStatus \<Rightarrow> OrderingBounds option \<Rightarrow> string option \<Rightarrow> PlanLifecycle" where
  "plan_lifecycle status bounds resolution =
     (if eligible_status status then if bounds \<noteq> None then PlanLifecycle.EXECUTABLE else PlanLifecycle.BLOCKED
      else if status \<in> {CandidateStatus.CONDITIONAL, CandidateStatus.STALE_EVIDENCE,
                        CandidateStatus.INSUFFICIENT_EVIDENCE, CandidateStatus.ADVISORY_ONLY}
              \<and> resolution \<noteq> None \<and> resolution \<noteq> Some []
      then PlanLifecycle.RESOLUTION_PENDING else PlanLifecycle.BLOCKED)"

definition build_plan ::
    "(pyval \<Rightarrow> string result) \<Rightarrow> DecisionGraphInput \<Rightarrow> EvidenceAssessment list \<Rightarrow> nat \<Rightarrow> nat \<Rightarrow> PlanMaterial
      \<Rightarrow> EvaluatedPlan result" where
  "build_plan H d assessments n_evaluated n_discovered m =
     bindR (evaluate_gates H d m assessments) (\<lambda>gates.
     case primary_status gates of (status, why) \<Rightarrow>
     bindR (material_dimensions H d m gates assessments n_evaluated n_discovered) (\<lambda>(scores, dims).
     bindR (component_hash H (ml_action m) (ml_component_ids m)) (\<lambda>hash.
     bindR (ordering_bounds dims) (\<lambda>bounds.
     bindR (plan_id H (ml_action m) (ml_component_ids m)) (\<lambda>i.
     Inr \<lparr>ep_plan_id = i, ep_action = ml_action m,
          ep_components = map (\<lambda>c. \<lparr>pn_component_id = c,
            pn_source_type = (if ml_authority m \<noteq> None then ''PACK'' else ''CURRENT_INSTANCE''),
            pn_action = ml_action m\<rparr>) (ml_component_ids m),
          ep_component_hash = hash, ep_construction = PlanLifecycle.CANDIDATE,
          ep_lifecycle = plan_lifecycle status bounds (plan_resolution m gates), ep_status = status,
          ep_primary_reason = why, ep_gates = gates, ep_scores = scores, ep_dimensions = dims,
          ep_stable_action_ids = str_lower (SolutionAction_value (ml_action m)) # ml_component_ids m,
          ep_ordering_member = False, ep_resolution_member = False, ep_quote_required = False,
          ep_quote_reason = ''NONE'', ep_permitted_resolution = plan_resolution m gates,
          ep_autonomous = False\<rparr>)))))"

definition plan_materials ::
    "(pyval \<Rightarrow> string result) \<Rightarrow> set_order \<Rightarrow> DecisionGraphInput \<Rightarrow> RecallResult \<Rightarrow> PlanMaterial list result" where
  "plan_materials H order d recall =
     mapR_res (\<lambda>packs. packs @ map current_material (di_current_actions d)) (pack_materials H order d recall)"

definition build_solution_plans ::
    "(pyval \<Rightarrow> string result) \<Rightarrow> set_order \<Rightarrow> DecisionGraphInput \<Rightarrow> RecallResult \<Rightarrow> EvidenceAssessment list
      \<Rightarrow> EvaluatedPlan list result" where
  "build_solution_plans H order d recall assessments =
     bindR (plan_materials H order d recall) (\<lambda>materials.
     traverse (build_plan H d assessments (length materials) (length materials + length (rr_exclusions recall)))
       (sort_key (\<lambda>m. (SolutionAction_value (ml_action m), ml_component_id m, ml_source_id m)) materials))"

section \<open>Ranking and frontiers\<close>

definition bounded_of :: "bool \<Rightarrow> EvaluatedPlan \<Rightarrow> BoundedPlan result" where
  "bounded_of resolved p =
     bindR (ordering_bounds (ep_dimensions p)) (\<lambda>bounds.
     mk_BoundedPlan
       \<lparr>bp_plan_id = ep_plan_id p, bp_status = (if resolved then CandidateStatus.ELIGIBLE else ep_status p),
        bp_stable_action_ids = ep_stable_action_ids p, bp_bounds = bounds,
        bp_unavailable_reasons = pd_reasons (ep_dimensions p)\<rparr>)"

definition quote_actions :: "SolutionAction list" where
  "quote_actions = [SolutionAction.BUY, SolutionAction.RENEW, SolutionAction.RESIZE, SolutionAction.REPLACE,
     SolutionAction.CONSOLIDATE]"

definition autonomous_actions :: "SolutionAction list" where
  "autonomous_actions = [SolutionAction.REUSE_EXISTING, SolutionAction.NO_ACTION]"

definition cost_signatures :: "EvaluatedPlan list \<Rightarrow> BoundedPlan list \<Rightarrow> (string \<times> int option) list" where
  "cost_signatures eligible rankable =
     (let horizons = dict_of (map (\<lambda>p. (ep_plan_id p, off_horizon_days (pd_total_cost (ep_dimensions p)))) eligible)
      in remdups (List.map_filter (\<lambda>b. map_option (\<lambda>o'. (m_currency (co_base (ob_total_cost o')),
                                                       map_of horizons (bp_plan_id b))) (bp_bounds b)) rankable))"

definition rank_bounded :: "BoundedPlan list \<Rightarrow> BoundedPlan list result" where
  "rank_bounded rankable =
     mapR_res (\<lambda>keyed. map snd (sort_key fst keyed))
       (traverse (\<lambda>b. mapR_res (\<lambda>k. (k, b)) (authoritative_ordering_key b)) rankable)"

text \<open>Stability, ordering frontier and the plans without bounds.\<close>

definition stability_of ::
    "BoundedPlan option \<Rightarrow> BoundedPlan list \<Rightarrow> (RankStability \<times> string list \<times> string list) result" where
  "stability_of selected bounded =
     (case selected of
        None \<Rightarrow> Inr (RankStability.UNDETERMINED, [], sort (map bp_plan_id (filter (\<lambda>b. bp_bounds b = None) bounded)))
      | Some s \<Rightarrow>
          mapR_res (\<lambda>r. (rs_status r, sorted_set (bp_plan_id s # rs_frontier r), rs_unavailable r))
            (assess_rank_stability s (filter (\<lambda>b. bp_plan_id b \<noteq> bp_plan_id s) bounded)))"

definition may_displace :: "rank_key \<Rightarrow> EvaluatedPlan \<Rightarrow> bool result" where
  "may_displace worst p =
     bindR (ordering_bounds (ep_dimensions p)) (\<lambda>bounds.
     if ep_lifecycle p = PlanLifecycle.RESOLUTION_PENDING \<and> ep_permitted_resolution p \<noteq> None \<and> bounds \<noteq> None
     then bindR (bounded_of True p) (\<lambda>b. mapR_res (\<lambda>k. k < worst) (optimistic_envelope_key b))
     else Inr False)"

definition resolution_frontier :: "BoundedPlan option \<Rightarrow> EvaluatedPlan list \<Rightarrow> string list result" where
  "resolution_frontier selected plans =
     (case selected of
        None \<Rightarrow> Inr []
      | Some s \<Rightarrow>
          bindR (conservative_envelope_key s) (\<lambda>worst.
          mapR_res (\<lambda>flags. map (\<lambda>(p, b). ep_plan_id p) (filter snd (zip plans flags)))
            (traverse (may_displace worst) plans)))"

definition quote_reason :: "string option \<Rightarrow> string list \<Rightarrow> string list \<Rightarrow> string list \<Rightarrow> string \<Rightarrow> string" where
  "quote_reason selected frontier resolution ranked i =
     (if selected = Some i then ''SELECTED_PLAN''
      else if i \<in> set frontier then ''ORDERING_FRONTIER''
      else if i \<in> set resolution then ''RESOLUTION_FRONTIER''
      else if i \<in> set (take 3 ranked) then ''PRELIMINARY_TOP_THREE''
      else ''NONE'')"

definition mark_plan ::
    "string option \<Rightarrow> RankStability \<Rightarrow> string list \<Rightarrow> string list \<Rightarrow> string list \<Rightarrow> EvaluatedPlan \<Rightarrow> EvaluatedPlan" where
  "mark_plan selected stability frontier resolution ranked p =
     (let reason = quote_reason selected frontier resolution ranked (ep_plan_id p)
      in p\<lparr>ep_ordering_member := ep_plan_id p \<in> set frontier,
           ep_resolution_member := ep_plan_id p \<in> set resolution,
           ep_quote_required := reason \<noteq> ''NONE'' \<and> ep_action p \<in> set quote_actions,
           ep_quote_reason := reason,
           ep_autonomous := ep_lifecycle p = PlanLifecycle.EXECUTABLE \<and> stability = RankStability.STABLE
             \<and> \<not> off_payment_required (pd_total_cost (ep_dimensions p)) \<and> ep_action p \<in> set autonomous_actions\<rparr>)"

record Ranking =
  rk_plans :: "EvaluatedPlan list"
  rk_ranked_ids :: "string list"
  rk_stability :: RankStability
  rk_ordering_frontier :: "string list"
  rk_unavailable :: "string list"

definition rank_and_frontiers :: "EvaluatedPlan list \<Rightarrow> Ranking result" where
  "rank_and_frontiers plans =
     (let eligible = filter (\<lambda>p. eligible_status (ep_status p)) plans
      in bindR (traverse (bounded_of False) eligible) (\<lambda>bounded.
         let rankable = filter (\<lambda>b. bp_bounds b \<noteq> None) bounded
         in bindR (ensure (length (cost_signatures eligible rankable) \<le> 1)
                     (DomainValidationError ''authoritative ranking requires one currency and comparison horizon'')) (\<lambda>_.
            bindR (rank_bounded rankable) (\<lambda>ranked.
            let selected = (case ranked of [] \<Rightarrow> None | s # _ \<Rightarrow> Some s);
                selected_id = map_option bp_plan_id selected;
                ranked_ids = map bp_plan_id ranked
            in bindR (stability_of selected bounded) (\<lambda>(stability, frontier, unavailable).
               bindR (resolution_frontier selected plans) (\<lambda>resolution.
               Inr \<lparr>rk_plans = map (mark_plan selected_id stability frontier resolution ranked_ids) plans,
                    rk_ranked_ids = ranked_ids, rk_stability = stability, rk_ordering_frontier = frontier,
                    rk_unavailable = unavailable\<rparr>))))))"

section \<open>The lifecycle of a built plan\<close>

lemma build_plan_Inr:
  assumes "build_plan H d assessments n_evaluated n_discovered m = Inr p"
  obtains gates status why scores dims bounds where
    "evaluate_gates H d m assessments = Inr gates" "primary_status gates = (status, why)"
    "material_dimensions H d m gates assessments n_evaluated n_discovered = Inr (scores, dims)"
    "ordering_bounds dims = Inr bounds"
    "ep_gates p = gates" "ep_status p = status" "ep_primary_reason p = why" "ep_dimensions p = dims" "ep_scores p = scores"
    "ep_permitted_resolution p = plan_resolution m gates" "ep_action p = ml_action m"
    "ep_lifecycle p = plan_lifecycle status bounds (ep_permitted_resolution p)"
    "ep_stable_action_ids p = str_lower (SolutionAction_value (ml_action m)) # ml_component_ids m"
proof -
  from assms obtain gates where g: "evaluate_gates H d m assessments = Inr gates"
    by (auto simp: build_plan_def bindR_Inr_iff)
  moreover obtain status why where s: "primary_status gates = (status, why)" by fastforce
  ultimately show thesis using assms that by (auto simp: build_plan_def bindR_Inr_iff)
qed

lemma eligible_primary:
  assumes "primary_status gates = (status, why)"
  shows "eligible_status status \<longleftrightarrow> (\<forall>g\<in>set gates. \<forall>w\<in>set (gt_reasons g). eligible_status (gn_status w))"
proof (cases why)
  case None
  then have "\<forall>g\<in>set gates. gt_reasons g = []" using primary_status_None [of gates] assms by simp
  moreover have "status = CandidateStatus.ELIGIBLE"
    using assms None by (auto simp: primary_status_def Let_def split: if_splits)
  ultimately show ?thesis by (simp add: eligible_status_def)
next
  case (Some w)
  note least = primary_status_least [OF assms [unfolded Some]]
  have rank: "eligible_status s \<longleftrightarrow> 9 \<le> status_rank s" for s
    by (cases s) (simp_all add: eligible_status_def status_rank_def status_precedence_def)
  show ?thesis unfolding rank using least by (metis order_trans)
qed

lemma gates_contain:
  assumes "evaluate_gates H d m assessments = Inr gates"
  shows "availability_gate m \<in> set gates" "set (dependency_gates m) \<subseteq> set gates"
    "authority_gate m = Some a \<Longrightarrow> a \<in> set gates"
proof -
  from evaluate_gates_Inr [OF assms] obtain results where "gates = availability_gate m # dependency_gates m
      @ (case authority_gate m of None \<Rightarrow> [] | Some a \<Rightarrow> [a]) @ results" .
  then show "availability_gate m \<in> set gates" "set (dependency_gates m) \<subseteq> set gates"
    "authority_gate m = Some a \<Longrightarrow> a \<in> set gates" by auto
qed

text \<open>
  Only clean plans are executable: a built plan is EXECUTABLE exactly when every gate reason has an eligible
  status and no ordering bound is missing, and then its material is available, its dependencies are closed and
  its seller has sealed it; a RESOLUTION_PENDING plan is not eligible and names a resolution.
\<close>

theorem plan_lifecycle_exact:
  assumes "build_plan H d assessments n_evaluated n_discovered m = Inr p"
  shows "(ep_lifecycle p = PlanLifecycle.EXECUTABLE) =
        ((\<forall>g\<in>set (ep_gates p). \<forall>w\<in>set (gt_reasons g). eligible_status (gn_status w))
         \<and> pd_reasons (ep_dimensions p) = [])
    \<and> (ep_lifecycle p = PlanLifecycle.EXECUTABLE \<longrightarrow> ml_available m \<and> ml_dependency_issues m = []
         \<and> (ml_authority m = None \<or> ml_authority m = Some PackAuthority.SELLER_SEALED))
    \<and> (ep_lifecycle p = PlanLifecycle.RESOLUTION_PENDING \<longrightarrow> \<not> eligible_status (ep_status p)
         \<and> (\<exists>r. ep_permitted_resolution p = Some r \<and> r \<noteq> []))
    \<and> ep_lifecycle p \<noteq> PlanLifecycle.CANDIDATE"
proof -
  from build_plan_Inr [OF assms] obtain gates status why scores dims bounds where
    g: "evaluate_gates H d m assessments = Inr gates" and s: "primary_status gates = (status, why)"
    and dims: "material_dimensions H d m gates assessments n_evaluated n_discovered = Inr (scores, dims)"
      "ordering_bounds dims = Inr bounds"
    and p: "ep_gates p = gates" "ep_status p = status" "ep_dimensions p = dims"
      "ep_lifecycle p = plan_lifecycle status bounds (ep_permitted_resolution p)" .
  have bounds: "bounds = None \<longleftrightarrow> pd_reasons (ep_dimensions p) \<noteq> []"
    using ordering_bounds_iff [OF dims] p(3) by simp
  have exec: "ep_lifecycle p = PlanLifecycle.EXECUTABLE \<longleftrightarrow> eligible_status status \<and> bounds \<noteq> None"
    unfolding p(4) by (auto simp: plan_lifecycle_def eligible_status_def)
  have clean: "ml_available m \<and> ml_dependency_issues m = []
      \<and> (ml_authority m = None \<or> ml_authority m = Some PackAuthority.SELLER_SEALED)" if "eligible_status status"
  proof -
    have ok: "eligible_status (gn_status w)" if "x \<in> set gates" "w \<in> set (gt_reasons x)" for x w
      using eligible_primary [OF s] \<open>eligible_status status\<close> that by blast
    have "ml_available m"
      using ok [OF gates_contain(1) [OF g]] by (cases "ml_available m") (auto simp: availability_gate_def eligible_status_def)
    moreover have "ml_dependency_issues m = []"
    proof (rule ccontr)
      assume "ml_dependency_issues m \<noteq> []"
      then obtain x where "x \<in> set (dependency_gates m)" "gt_reasons x \<noteq> []"
        using dependency_gates_iff by blast
      moreover from this obtain w where "w \<in> set (gt_reasons x)" by (cases "gt_reasons x") auto
      ultimately show False
        using ok [of x w] gates_contain(2) [OF g] by (auto simp: dependency_gates_def eligible_status_def)
    qed
    moreover have "ml_authority m = None \<or> ml_authority m = Some PackAuthority.SELLER_SEALED"
      using ok gates_contain(3) [OF g] by (fastforce simp: authority_gate_def eligible_status_def split: if_splits)
    ultimately show ?thesis by blast
  qed
  have pending: "\<not> eligible_status (ep_status p) \<and> (\<exists>r. ep_permitted_resolution p = Some r \<and> r \<noteq> [])"
    if "ep_lifecycle p = PlanLifecycle.RESOLUTION_PENDING"
    using that unfolding p(2,4) by (cases "ep_permitted_resolution p") (auto simp: plan_lifecycle_def split: if_splits)
  have "ep_lifecycle p \<noteq> PlanLifecycle.CANDIDATE" unfolding p(4) by (simp add: plan_lifecycle_def)
  then show ?thesis using exec bounds eligible_primary [OF s] clean pending p(1) by blast
qed


section \<open>The ranking\<close>

lemma sort_key_map: "sort_key f (map h xs) = map h (sort_key (\<lambda>x. f (h x)) xs)"
proof (induction xs)
  case (Cons x xs)
  have "insort_key f (h x) (map h ys) = map h (insort_key (\<lambda>x. f (h x)) x ys)" for ys
    by (induction ys) auto
  with Cons show ?case by simp
qed simp

text \<open>The bounded form of a plan and its authoritative key, where they exist.\<close>

definition bounded_form :: "EvaluatedPlan \<Rightarrow> BoundedPlan" where
  "bounded_form p = projr (bounded_of False p)"

definition plan_key :: "EvaluatedPlan \<Rightarrow> rank_key" where
  "plan_key p = projr (authoritative_ordering_key (bounded_form p))"

definition comparable :: "EvaluatedPlan \<Rightarrow> bool" where
  "comparable p = (eligible_status (ep_status p) \<and> ordering_bounds (ep_dimensions p) \<noteq> Inr None)"

lemma bounded_of_Inr:
  assumes "bounded_of resolved p = Inr b"
  shows "bp_plan_id b = ep_plan_id p" "ordering_bounds (ep_dimensions p) = Inr (bp_bounds b)"
    "bp_status b = (if resolved then CandidateStatus.ELIGIBLE else ep_status p)"
    "bp_stable_action_ids b = ep_stable_action_ids p"
    "bp_bounds b = None \<longleftrightarrow> pd_reasons (ep_dimensions p) \<noteq> []"
  using assms by (auto simp: bounded_of_def mk_BoundedPlan_def bindR_Inr_iff ensure_Inr_iff)

lemma traverse_projr: "traverse f xs = Inr ys \<Longrightarrow> ys = map (\<lambda>x. projr (f x)) xs \<and> (\<forall>x\<in>set xs. f x = Inr (projr (f x)))"
proof (induction xs arbitrary: ys)
  case (Cons x xs)
  then show ?case by (auto simp: bindR_Inr_iff mapR_res_Inr_iff)
qed simp

lemma ordering_key_exists: "bp_bounds b \<noteq> None \<Longrightarrow> \<exists>k. authoritative_ordering_key b = Inr k"
  by (auto simp: authoritative_ordering_key_def require_bounds_def)

lemma rank_bounded_map:
  assumes "rank_bounded (map bounded_form ps) = Inr ranked"
  shows "ranked = map bounded_form (sort_key plan_key ps)"
proof -
  let ?f = "\<lambda>b. mapR_res (\<lambda>k. (k, b)) (authoritative_ordering_key b)"
  from assms obtain keyed where t: "traverse ?f (map bounded_form ps) = Inr keyed"
    and r: "ranked = map snd (sort_key fst keyed)" by (auto simp: rank_bounded_def mapR_res_Inr_iff)
  note k = traverse_projr [OF t]
  have "projr (?f (bounded_form p)) = (plan_key p, bounded_form p)" if "p \<in> set ps" for p
  proof -
    from k that have "?f (bounded_form p) = Inr (projr (?f (bounded_form p)))" by simp
    then show ?thesis by (cases "authoritative_ordering_key (bounded_form p)") (simp_all add: plan_key_def)
  qed
  then have keyed: "keyed = map (\<lambda>p. (plan_key p, bounded_form p)) ps"
    using k by (simp add: comp_def)
  show ?thesis unfolding r keyed by (simp add: sort_key_map comp_def)
qed

lemma rank_and_frontiers_Inr:
  assumes "rank_and_frontiers plans = Inr r"
  obtains ranked frontier resolution selected where
    "ranked = sort_key plan_key (filter comparable plans)"
    "\<And>p. p \<in> set plans \<Longrightarrow> eligible_status (ep_status p) \<Longrightarrow> bounded_of False p = Inr (bounded_form p)"
    "length (cost_signatures (filter (\<lambda>p. eligible_status (ep_status p)) plans)
       (map bounded_form (filter comparable plans))) \<le> 1"
    "selected = (case ranked of [] \<Rightarrow> None | s # _ \<Rightarrow> Some s)"
    "stability_of (map_option bounded_form selected) (map bounded_form (filter (\<lambda>p. eligible_status (ep_status p)) plans))
       = Inr (rk_stability r, frontier, rk_unavailable r)"
    "rk_ordering_frontier r = frontier" "rk_ranked_ids r = map ep_plan_id ranked"
    "resolution_frontier (map_option bounded_form selected) plans = Inr resolution"
    "rk_plans r = map (mark_plan (map_option ep_plan_id selected) (rk_stability r) frontier resolution
       (map ep_plan_id ranked)) plans"
proof -
  let ?e = "filter (\<lambda>p. eligible_status (ep_status p)) plans"
  from assms obtain bounded where b: "traverse (bounded_of False) ?e = Inr bounded"
    by (auto simp: rank_and_frontiers_def Let_def bindR_Inr_iff)
  from traverse_projr [OF b] have bounded: "bounded = map bounded_form ?e"
    and form: "\<And>p. p \<in> set ?e \<Longrightarrow> bounded_of False p = Inr (bounded_form p)"
    by (auto simp: bounded_form_def)
  have "filter (\<lambda>p. bp_bounds (bounded_form p) \<noteq> None) ?e = filter comparable plans"
    unfolding filter_filter
  proof (rule filter_cong [OF refl])
    fix p assume "p \<in> set plans"
    then show "(eligible_status (ep_status p) \<and> bp_bounds (bounded_form p) \<noteq> None) = comparable p"
      using form bounded_of_Inr(2) by (fastforce simp: comparable_def)
  qed
  then have rankable: "filter (\<lambda>b. bp_bounds b \<noteq> None) bounded = map bounded_form (filter comparable plans)"
    unfolding bounded by (simp only: filter_map comp_def)
  have id: "bp_plan_id (bounded_form p) = ep_plan_id p" if "p \<in> set plans" "eligible_status (ep_status p)" for p
    using form [of p] bounded_of_Inr(1) that by simp
  note step = assms [unfolded rank_and_frontiers_def Let_def b bindR_simps rankable, unfolded bounded]
  from step obtain ranked frontier resolution where
    sig: "length (cost_signatures ?e (map bounded_form (filter comparable plans))) \<le> 1"
    and ranked: "rank_bounded (map bounded_form (filter comparable plans)) = Inr ranked"
    and stab: "stability_of (case ranked of [] \<Rightarrow> None | s # _ \<Rightarrow> Some s) (map bounded_form ?e)
        = Inr (rk_stability r, frontier, rk_unavailable r)"
    and res: "resolution_frontier (case ranked of [] \<Rightarrow> None | s # _ \<Rightarrow> Some s) plans = Inr resolution"
    and r: "rk_ordering_frontier r = frontier" "rk_ranked_ids r = map bp_plan_id ranked"
      "rk_plans r = map (mark_plan (map_option bp_plan_id (case ranked of [] \<Rightarrow> None | s # _ \<Rightarrow> Some s))
         (rk_stability r) frontier resolution (map bp_plan_id ranked)) plans"
    by (auto simp: bindR_Inr_iff ensure_Inr_iff)
  let ?s = "sort_key plan_key (filter comparable plans)"
  let ?sel = "case ?s of [] \<Rightarrow> None | s # _ \<Rightarrow> Some s"
  have eq: "ranked = map bounded_form ?s" using rank_bounded_map [OF ranked] .
  have sel: "(case ranked of [] \<Rightarrow> None | s # _ \<Rightarrow> Some s) = map_option bounded_form ?sel"
    unfolding eq by (cases ?s) simp_all
  have sub: "p \<in> set plans \<and> eligible_status (ep_status p)" if "p \<in> set ?s" for p
    using that by (auto simp: comparable_def)
  have ids: "map bp_plan_id ranked = map ep_plan_id ?s" unfolding eq using sub id by simp
  have selid: "map_option bp_plan_id (map_option bounded_form ?sel) = map_option ep_plan_id ?sel"
    using sub id by (cases ?s) auto
  show thesis
  proof (rule that [of ?s ?sel frontier resolution])
    show "?s = ?s" "?sel = ?sel" "rk_ordering_frontier r = frontier" by (simp_all add: r)
    show "length (cost_signatures ?e (map bounded_form (filter comparable plans))) \<le> 1" by (rule sig)
    show "bounded_of False p = Inr (bounded_form p)" if "p \<in> set plans" "eligible_status (ep_status p)" for p
      using form that by simp
    show "stability_of (map_option bounded_form ?sel) (map bounded_form ?e) = Inr (rk_stability r, frontier, rk_unavailable r)"
      using stab unfolding sel .
    show "resolution_frontier (map_option bounded_form ?sel) plans = Inr resolution" using res unfolding sel .
    show "rk_ranked_ids r = map ep_plan_id ?s" using r(2) ids by simp
    show "rk_plans r = map (mark_plan (map_option ep_plan_id ?sel) (rk_stability r) frontier resolution (map ep_plan_id ?s)) plans"
      using r(3) unfolding sel selid ids .
  qed
qed


text \<open>
  C30. The ranking is exact: the ranked ids are those of the eligible plans with ordering bounds, each exactly
  once, in the order of their authoritative keys, so the selected plan has a least key; all of them are priced
  in one currency, and a ranking is refused otherwise.
\<close>

theorem plan_ranking_exact:
  assumes "rank_and_frontiers plans = Inr r"
  shows "\<exists>ranked. mset ranked = mset (filter comparable plans) \<and> rk_ranked_ids r = map ep_plan_id ranked
    \<and> sorted (map plan_key ranked)
    \<and> (\<forall>p\<in>set ranked. bindR (bounded_of False p) authoritative_ordering_key = Inr (plan_key p))
    \<and> (\<exists>currency. \<forall>p\<in>set ranked. \<exists>b. ordering_bounds (ep_dimensions p) = Inr (Some b)
         \<and> m_currency (co_base (ob_total_cost b)) = currency)"
proof -
  from rank_and_frontiers_Inr [OF assms] obtain ranked where
    r: "ranked = sort_key plan_key (filter comparable plans)" "rk_ranked_ids r = map ep_plan_id ranked"
    and form: "\<And>p. p \<in> set plans \<Longrightarrow> eligible_status (ep_status p) \<Longrightarrow> bounded_of False p = Inr (bounded_form p)"
    and sig: "length (cost_signatures (filter (\<lambda>p. eligible_status (ep_status p)) plans)
       (map bounded_form (filter comparable plans))) \<le> 1" by metis
  have in_ranked: "bounded_of False p = Inr (bounded_form p)
      \<and> (\<exists>b. bp_bounds (bounded_form p) = Some b \<and> ordering_bounds (ep_dimensions p) = Inr (Some b))"
    if "p \<in> set ranked" for p
  proof -
    from that have p: "p \<in> set plans" "comparable p" by (simp_all add: r)
    then have f: "bounded_of False p = Inr (bounded_form p)" using form by (simp add: comparable_def)
    with bounded_of_Inr(2) [OF f] p(2) show ?thesis
      by (cases "bp_bounds (bounded_form p)") (simp_all add: comparable_def)
  qed
  have keys: "bindR (bounded_of False p) authoritative_ordering_key = Inr (plan_key p)" if "p \<in> set ranked" for p
    using in_ranked [OF that] by (auto simp: plan_key_def authoritative_ordering_key_def require_bounds_def)
  let ?c = "\<lambda>p. m_currency (co_base (ob_total_cost (plan_bounds (bounded_form p))))"
  have "?c p = ?c q" if "p \<in> set ranked" "q \<in> set ranked" for p q
  proof -
    let ?f = "\<lambda>b. map_option (\<lambda>o'. (m_currency (co_base (ob_total_cost o')),
        map_of (dict_of (map (\<lambda>p. (ep_plan_id p, off_horizon_days (pd_total_cost (ep_dimensions p))))
          (filter (\<lambda>p. eligible_status (ep_status p)) plans))) (bp_plan_id b))) (bp_bounds b)"
    let ?s = "remdups (List.map_filter ?f (map bounded_form (filter comparable plans)))"
    have mem: "\<exists>h. (?c x, h) \<in> set ?s" if x: "x \<in> set ranked" for x
    proof -
      from in_ranked [OF x] obtain b where b: "bp_bounds (bounded_form x) = Some b" by blast
      have "x \<in> set (filter comparable plans)" using x by (simp add: r)
      then show ?thesis using b
        unfolding set_remdups List.map_filter_def by (force simp: plan_bounds_def)
    qed
    have "length ?s \<le> 1" using sig by (simp add: cost_signatures_def Let_def)
    then have "\<forall>a\<in>set ?s. \<forall>b\<in>set ?s. a = b"
      by (metis (no_types, lifting) One_nat_def le_Suc_eq le_zero_eq length_0_conv length_Suc_conv list.set(1)
          list.set(2) empty_iff insert_iff)
    with mem [OF that(1)] mem [OF that(2)] show ?thesis by blast
  qed
  then have "\<exists>currency. \<forall>p\<in>set ranked. ?c p = currency" by meson
  then have currency: "\<exists>currency. \<forall>p\<in>set ranked. \<exists>b. ordering_bounds (ep_dimensions p) = Inr (Some b)
      \<and> m_currency (co_base (ob_total_cost b)) = currency"
    using in_ranked by (fastforce simp: plan_bounds_def)
  have "mset ranked = mset (filter comparable plans)" "sorted (map plan_key ranked)" by (simp_all add: r)
  with r(2) keys currency show ?thesis by blast
qed

lemma stable_selection:
  assumes "rank_and_frontiers plans = Inr r" "rk_stability r = RankStability.STABLE"
    and "\<forall>p\<in>set plans. \<forall>b. ordering_bounds (ep_dimensions p) = Inr (Some b) \<longrightarrow> constructed_bounds b"
  shows "\<exists>s\<in>set plans. comparable s \<and> rk_ranked_ids r \<noteq> [] \<and> hd (rk_ranked_ids r) = ep_plan_id s
    \<and> (\<forall>p\<in>set plans. eligible_status (ep_status p) \<and> ep_plan_id p \<noteq> ep_plan_id s \<longrightarrow>
        comparable p \<and> (\<forall>x y. outcome_within (bounded_form s) x \<longrightarrow> outcome_within (bounded_form p) y
          \<longrightarrow> outcome_key (bounded_form s) x \<le> outcome_key (bounded_form p) y))"
proof -
  let ?e = "filter (\<lambda>p. eligible_status (ep_status p)) plans"
  from rank_and_frontiers_Inr [OF assms(1)] obtain ranked frontier selected where
    ranked: "ranked = sort_key plan_key (filter comparable plans)" "rk_ranked_ids r = map ep_plan_id ranked"
    and form: "\<And>p. p \<in> set plans \<Longrightarrow> eligible_status (ep_status p) \<Longrightarrow> bounded_of False p = Inr (bounded_form p)"
    and sel: "selected = (case ranked of [] \<Rightarrow> None | s # _ \<Rightarrow> Some s)"
    and stab: "stability_of (map_option bounded_form selected) (map bounded_form ?e)
       = Inr (rk_stability r, frontier, rk_unavailable r)" by metis
  have "selected \<noteq> None" using stab assms(2) by (auto simp: stability_of_def split: option.splits)
  then obtain s rest where s: "ranked = s # rest" "selected = Some s" using sel by (cases ranked) auto
  then have "s \<in> set (filter comparable plans)" using ranked(1) by (metis list.set_intros(1) set_sort)
  then have s_in: "s \<in> set plans" "comparable s" by simp_all
  define cs where "cs = filter (\<lambda>b. bp_plan_id b \<noteq> bp_plan_id (bounded_form s)) (map bounded_form ?e)"
  from stab s(2) assms(2) obtain v where v: "assess_rank_stability (bounded_form s) cs = Inr v" "rs_status v = RankStability.STABLE"
    by (auto simp: stability_of_def cs_def mapR_res_Inr_iff)
  have all: "bp_bounds b \<noteq> None" if "b \<in> set (bounded_form s # cs)" for b
    using assess_unavailable [of "bounded_form s" cs] v that by fastforce
  have mem: "bounded_plan (bounded_form p)" if p: "p \<in> set plans" "eligible_status (ep_status p)"
      "bp_bounds (bounded_form p) \<noteq> None" for p
    using bounded_of_Inr(2) [OF form [OF p(1,2)]] assms(3) p(1,3) by (auto simp: bounded_plan_def)
  have s_ok: "bounded_plan (bounded_form s)" using s_in all [of "bounded_form s"] mem by (simp add: comparable_def)
  have cs_ok: "bounded_plan c" if "c \<in> set cs" for c
    using that all [of c] mem unfolding cs_def by auto
  have frontier: "filter (\<lambda>c. best_key c < worst_key (bounded_form s)) cs = []"
    using assess_bounded [OF s_ok cs_ok, of cs] v by (auto simp: Let_def sort_nil split: if_splits)
  have beat: "\<forall>q\<in>set cs. \<forall>x y. outcome_within (bounded_form s) x \<longrightarrow> outcome_within q y
      \<longrightarrow> outcome_key (bounded_form s) x \<le> outcome_key q y"
    using plan_envelope.stable_iff [OF s_ok cs_ok] frontier by (simp add: filter_empty_conv)
  have "comparable p \<and> (\<forall>x y. outcome_within (bounded_form s) x \<longrightarrow> outcome_within (bounded_form p) y
        \<longrightarrow> outcome_key (bounded_form s) x \<le> outcome_key (bounded_form p) y)"
    if p: "p \<in> set plans" "eligible_status (ep_status p)" "ep_plan_id p \<noteq> ep_plan_id s" for p
  proof -
    have ids: "bp_plan_id (bounded_form p) = ep_plan_id p" "bp_plan_id (bounded_form s) = ep_plan_id s"
      using bounded_of_Inr(1) form p s_in by (auto simp: comparable_def)
    then have c: "bounded_form p \<in> set cs" using p by (simp add: cs_def)
    with all have "bp_bounds (bounded_form p) \<noteq> None" by simp
    then have "comparable p" using bounded_of_Inr(2) [OF form [OF p(1,2)]] p(2) by (auto simp: comparable_def)
    then show ?thesis using beat c by blast
  qed
  moreover have "rk_ranked_ids r \<noteq> []" "hd (rk_ranked_ids r) = ep_plan_id s" by (simp_all add: ranked(2) s(1))
  ultimately show ?thesis using s_in by blast
qed


definition sample_built :: "EvaluatedPlan result" where
  "sample_built =
     build_plan constant_hash sample_preference_input [accepted ''sso''] 1 1
       ((sample_material [sample_fact ''sso'' (FBool True)])\<lparr>ml_cost := sample_priced 100\<rparr>)"

lemma sample_built_value:
  "mapR_res (\<lambda>p. (ep_plan_id p, ep_lifecycle p, mapR_res rk_ranked_ids (rank_and_frontiers [p]))) sample_built
    = Inr (''plan_'' @ replicate 20 CHR ''0'', PlanLifecycle.EXECUTABLE, Inr [''plan_'' @ replicate 20 CHR ''0''])"
  by code_simp

lemma plan_lifecycle_exact_witness:
  "\<exists>p. sample_built = Inr p \<and> ep_lifecycle p = PlanLifecycle.EXECUTABLE \<and> pd_reasons (ep_dimensions p) = []"
proof -
  from sample_built_value obtain p where p: "sample_built = Inr p" "ep_lifecycle p = PlanLifecycle.EXECUTABLE"
    by (auto simp: mapR_res_Inr_iff)
  with plan_lifecycle_exact [OF p(1) [unfolded sample_built_def]] show ?thesis by blast
qed

lemma plan_ranking_exact_witness:
  "\<exists>p r. sample_built = Inr p \<and> rank_and_frontiers [p] = Inr r \<and> comparable p"
proof -
  from sample_built_value obtain p r where p: "sample_built = Inr p" "rank_and_frontiers [p] = Inr r"
      "rk_ranked_ids r = [''plan_'' @ replicate 20 CHR ''0'']"
    by (auto simp: mapR_res_Inr_iff dest!: sym [of "Inr _"])
  from plan_ranking_exact [OF p(2)] p(3) have "filter comparable [p] \<noteq> []" by fastforce
  with p show ?thesis by (auto split: if_splits)
qed

end
