(* ===== verification/PyData.thy ===== *)
theory PyData
  imports PyValue
begin

text \<open>
  Dataclasses and JSON objects as dynamic values: \<open>data\<close> is a dataclass instance by its fields,
  \<open>obj\<close> a dictionary with string keys, \<open>optional\<close> a value that may be \<^verbatim>\<open>None\<close>, \<open>many\<close> a
  tuple.
\<close>

definition data :: "(string \<times> pyval) list \<Rightarrow> pyval" where
  "data fs = PData fs None"

definition obj :: "(string \<times> pyval) list \<Rightarrow> pyval" where
  "obj kvs = PDict (map (\<lambda>(k, v). (PStr k, v)) kvs)"

definition optional :: "('a \<Rightarrow> pyval) \<Rightarrow> 'a option \<Rightarrow> pyval" where
  "optional f v = (case v of None \<Rightarrow> PNone | Some x \<Rightarrow> f x)"

definition many :: "('a \<Rightarrow> pyval) \<Rightarrow> 'a list \<Rightarrow> pyval" where
  "many f xs = PTuple (map f xs)"

end
