(* ===== verification/GraphPayload.thy ===== *)
theory GraphPayload
  imports GraphPlans PyData
begin

text \<open>
  \<^verbatim>\<open>decision_engine/graph_v1.py\<close>, canonical payloads: the value \<^verbatim>\<open>content_hash\<close> is
  given for every frozen input collection and for the finished evaluation. A dataclass without a
  \<^verbatim>\<open>to_hash_payload\<close> method is hashed by its fields, so its payload lists all of them.
\<close>

section \<open>Dataclasses as hashed values\<close>

fun GateMode_value :: "GateMode \<Rightarrow> string" where
  "GateMode_value GateMode.REQUIRE_MATCH = ''REQUIRE_MATCH''"
| "GateMode_value GateMode.BLOCK_ON_MATCH = ''BLOCK_ON_MATCH''"

fun NormalizationKind_value :: "NormalizationKind \<Rightarrow> string" where
  "NormalizationKind_value NormalizationKind.BOOLEAN_EQUALS = ''BOOLEAN_EQUALS''"
| "NormalizationKind_value NormalizationKind.SET_CONTAINS_ALL = ''SET_CONTAINS_ALL''"
| "NormalizationKind_value NormalizationKind.LOWER_IS_BETTER = ''LOWER_IS_BETTER''"
| "NormalizationKind_value NormalizationKind.OUTCOME_RATE = ''OUTCOME_RATE''"

fun PlanLifecycle_value :: "PlanLifecycle \<Rightarrow> string" where
  "PlanLifecycle_value PlanLifecycle.CANDIDATE = ''CANDIDATE''"
| "PlanLifecycle_value PlanLifecycle.RESOLUTION_PENDING = ''RESOLUTION_PENDING''"
| "PlanLifecycle_value PlanLifecycle.EXECUTABLE = ''EXECUTABLE''"
| "PlanLifecycle_value PlanLifecycle.BLOCKED = ''BLOCKED''"

definition action_pyval :: "SolutionAction \<Rightarrow> pyval" where
  "action_pyval a = PStr (SolutionAction_value a)"

definition ratio_pyval :: "ExactRatio \<Rightarrow> pyval" where
  "ratio_pyval r = data [(''numerator'', PInt (er_numerator r)), (''denominator'', PInt (er_denominator r))]"

definition versions_pyval :: "FrozenVersions \<Rightarrow> pyval" where
  "versions_pyval v = data
     [(''request_version'', PStr (fv_request v)), (''company_profile_version'', PStr (fv_company_profile v)),
      (''stackfile_version'', PStr (fv_stackfile v)), (''registry_version'', PStr (fv_registry v)),
      (''pack_set_version'', PStr (fv_pack_set v)), (''offer_set_version'', PStr (fv_offer_set v)),
      (''taxonomy_version'', PStr (fv_taxonomy v)), (''normalization_version'', PStr (fv_normalization v)),
      (''policy_version'', PStr (fv_policy v)), (''fx_version'', PStr (fv_fx v)),
      (''pipeline_version'', PStr (fv_pipeline v)), (''engine_version'', PStr (fv_engine v))]"

definition frozen_fact_pyval :: "FrozenFact \<Rightarrow> pyval" where
  "frozen_fact_pyval f = PData
     [(''fact_id'', PStr (ff_fact_id f)), (''field'', PStr (ff_field f)), (''value'', fact_pyval (ff_value f)),
      (''private'', PBool (ff_private f)), (''version'', PStr (ff_version f)),
      (''asserted_by_role'', PStr (ff_role f)), (''authority_level'', PStr (ff_authority_level f)),
      (''authority_rank'', PInt (ff_authority_rank f)), (''provenance'', optional provenance_pyval (ff_provenance f))]
     (Some (FrozenFact_to_hash_payload f))"

definition resolution_pyval :: "ActorConflictResolution \<Rightarrow> pyval" where
  "resolution_pyval r = data
     [(''field'', PStr (ac_field r)), (''fact_ids'', many PStr (ac_fact_ids r)),
      (''selected_fact_id'', PStr (ac_selected_fact_id r)), (''selected_role'', PStr (ac_selected_role r)),
      (''decided_by_role'', PStr (ac_decided_by_role r)), (''strategy'', PStr (ac_strategy r)),
      (''reason'', PStr (ac_reason r))]"

definition product_fact_pyval :: "ProductFact \<Rightarrow> pyval" where
  "product_fact_pyval f = data
     [(''field'', PStr (pf_field f)), (''value'', fact_pyval (pf_value f)),
      (''evidence_ids'', many PStr (pf_evidence_ids f)), (''component_id'', optional PStr (pf_component_id f))]"

definition evidence_pyval :: "EvidenceRecord \<Rightarrow> pyval" where
  "evidence_pyval r = data
     [(''evidence_id'', PStr (ev_evidence_id r)), (''record_id'', PStr (ev_record_id r)),
      (''source_class'', PStr (ev_source_class r)), (''verification_method'', PStr (ev_method r)),
      (''verification_scope'', PStr (ev_scope r)), (''reconstructable'', PBool (ev_reconstructable r)),
      (''observed_at_lower'', optional datetime_pyval (ev_lower r)),
      (''observed_at_upper'', optional datetime_pyval (ev_upper r)),
      (''disputed'', PBool (ev_disputed r)), (''revoked'', PBool (ev_revoked r))]"

definition candidate_pyval :: "RawCandidateRecord \<Rightarrow> pyval" where
  "candidate_pyval r = data
     [(''record_id'', PStr (rc_record_id r)), (''pack_id'', PStr (rc_pack_id r)),
      (''pack_version'', PInt (rc_pack_version r)), (''seller_id'', PStr (rc_seller_id r)),
      (''product_id'', PStr (rc_product_id r)), (''edition'', PStr (rc_edition r)), (''region'', PStr (rc_region r)),
      (''offer_id'', PStr (rc_offer_id r)), (''authority'', PStr (PackAuthority_value (rc_authority r))),
      (''available'', PBool (rc_available r)), (''facts'', many product_fact_pyval (rc_facts r)),
      (''seller_gate_ids'', many PStr (rc_seller_gate_ids r)), (''aliases'', many PStr (rc_aliases r)),
      (''category_ids'', many PStr (rc_category_ids r)), (''jtbd_ids'', many PStr (rc_jtbd_ids r)),
      (''pack_status'', PStr (rc_pack_status r)),
      (''required_product_ids'', many PStr (rc_required_product_ids r))]"

definition line_item_pyval :: "CostLineItem \<Rightarrow> pyval" where
  "line_item_pyval i = data
     [(''line_item_type'', PStr (li_type i)), (''low'', Money_pyval (li_low i)), (''base'', Money_pyval (li_base i)),
      (''high'', Money_pyval (li_high i)), (''schedule_version'', optional PStr (li_schedule_version i))]"

definition offer_pyval :: "OfferCost \<Rightarrow> pyval" where
  "offer_pyval c = data
     [(''offer_id'', PStr (off_offer_id c)), (''low'', optional Money_pyval (off_low c)),
      (''base'', optional Money_pyval (off_base c)), (''high'', optional Money_pyval (off_high c)),
      (''horizon_days'', PInt (off_horizon_days c)), (''line_items'', many line_item_pyval (off_line_items c)),
      (''payment_required'', PBool (off_payment_required c))]"

definition identity_pyval :: "IdentityNormalization \<Rightarrow> pyval" where
  "identity_pyval n = data
     [(''version'', PStr (in_version n)),
      (''aliases'', many (\<lambda>(source, target). PTuple [PStr source, PStr target]) (in_aliases n))]"

definition policy_pyval :: "EvidencePolicy \<Rightarrow> pyval" where
  "policy_pyval p = data
     [(''field'', PStr (ep_field p)), (''allowed_source_classes'', many PStr (ep_source_classes p)),
      (''allowed_verification_methods'', many PStr (ep_methods p)),
      (''required_scope'', PStr (ep_required_scope p)), (''freshness_sla_seconds'', PInt (ep_sla_seconds p))]"

definition recall_policy_pyval :: "RecallPolicy \<Rightarrow> pyval" where
  "recall_policy_pyval p = data
     [(''category_id'', PStr (rp_category_id p)), (''jtbd_id'', PStr (rp_jtbd_id p)),
      (''allowed_regions'', many PStr (rp_allowed_regions p))]"

definition predicate_pyval :: "FactPredicate \<Rightarrow> pyval" where
  "predicate_pyval p = data
     [(''field'', PStr (pd_field p)), (''operator'', PStr (pd_operator p)), (''value'', fact_pyval (pd_value p))]"

definition gate_pyval :: "GateRule \<Rightarrow> pyval" where
  "gate_pyval g = data
     [(''gate_id'', PStr (gr_gate_id g)), (''predicates'', many predicate_pyval (gr_predicates g)),
      (''mode'', PStr (GateMode_value (gr_mode g))),
      (''blocked_status'', PStr (CandidateStatus_value (gr_blocked_status g))),
      (''reason_code'', PStr (gr_reason_code g)), (''source_fact_ids'', many PStr (gr_source_fact_ids g)),
      (''applies_to_actions'', many action_pyval (gr_applies_to g)),
      (''evidence_claim_ids'', many PStr (gr_evidence_claim_ids g)),
      (''permitted_resolution'', optional PStr (gr_permitted_resolution g)),
      (''overridable'', PBool (gr_overridable g))]"

definition preference_pyval :: "PreferenceCriterion \<Rightarrow> pyval" where
  "preference_pyval c = data
     [(''criterion_id'', PStr (pc_criterion_id c)), (''field'', PStr (pc_field c)), (''weight'', PInt (pc_weight c)),
      (''coverage_weight'', PInt (pc_coverage_weight c)),
      (''normalization'', PStr (NormalizationKind_value (pc_normalization c))),
      (''expected'', fact_pyval (pc_expected c)), (''source_fact_ids'', many PStr (pc_source_fact_ids c)),
      (''applies_to_actions'', many action_pyval (pc_applies_to c)),
      (''allowed_satisfactions'', many ratio_pyval (pc_allowed c)),
      (''lower_is_better_points'', many (\<lambda>(b, r). PTuple [PInt b, ratio_pyval r]) (pc_points c)),
      (''unknown_upper'', optional ratio_pyval (pc_unknown_upper c)),
      (''permitted_evidence_resolution'', optional PStr (pc_permitted_resolution c)),
      (''neutral_prior'', optional ratio_pyval (pc_neutral_prior c)), (''aggregation'', PStr (pc_aggregation c))]"

definition risk_pyval :: "StackRisk \<Rightarrow> pyval" where
  "risk_pyval r = PStr (StackRisk_value r)"

definition risk_rule_pyval :: "RiskRule \<Rightarrow> pyval" where
  "risk_rule_pyval r = data
     [(''rule_id'', PStr (rk_rule_id r)), (''actions'', many action_pyval (rk_actions r)),
      (''predicate'', optional predicate_pyval (rk_predicate r)), (''lower'', risk_pyval (rb_lower (rk_bounds r))),
      (''base'', risk_pyval (rb_base (rk_bounds r))), (''upper'', risk_pyval (rb_upper (rk_bounds r))),
      (''missing_lower'', optional risk_pyval (rk_missing_lower r)),
      (''missing_base'', optional risk_pyval (rk_missing_base r)),
      (''missing_upper'', optional risk_pyval (rk_missing_upper r))]"

definition current_action_pyval :: "CurrentActionRecord \<Rightarrow> pyval" where
  "current_action_pyval a = data
     [(''action_id'', PStr (ca_action_id a)), (''action'', action_pyval (ca_action a)),
      (''instance_id'', PStr (ca_instance_id a)), (''facts'', many product_fact_pyval (ca_facts a)),
      (''cost'', offer_pyval (ca_cost a)), (''available'', PBool (ca_available a)),
      (''permitted_resolution'', optional PStr (ca_permitted_resolution a))]"

definition outcome_pyval :: "OutcomeObservation \<Rightarrow> pyval" where
  "outcome_pyval o' = data
     [(''subject_id'', PStr (oo_subject_id o')), (''criterion_id'', PStr (oo_criterion_id o')),
      (''value'', ratio_pyval (oo_value o')), (''evidence_ids'', many PStr (oo_evidence_ids o')),
      (''source_fact_ids'', many PStr (oo_source_fact_ids o'))]"

section \<open>The frozen inputs\<close>

definition frozen_artifacts :: "DecisionGraphInput \<Rightarrow> (string \<times> pyval) list" where
  "frozen_artifacts d =
     [(''buyer_facts'', many frozen_fact_pyval (sort_key ff_fact_id (active_buyer_facts d))),
      (''candidate_records'', many candidate_pyval (sort_key rc_record_id (di_candidates d))),
      (''offers'', many offer_pyval (sort_key off_offer_id (di_offers d))),
      (''evidence'', many evidence_pyval (sort_key ev_evidence_id (di_evidence d))),
      (''evidence_policies'', many policy_pyval (sort_key ep_field (di_policies d))),
      (''gates'', many gate_pyval (sort_key gr_gate_id (di_gates d))),
      (''preferences'', many preference_pyval (sort_key pc_criterion_id (di_preferences d))),
      (''risk_rules'', obj [(''complete_input_coverage'', PBool (di_risk_rules_complete d)),
                            (''rules'', many risk_rule_pyval (sort_key rk_rule_id (di_risk_rules d)))]),
      (''current_actions'', many current_action_pyval (sort_key ca_action_id (di_current_actions d))),
      (''identity_normalization'', identity_pyval (di_identity d)),
      (''outcome_observations'',
         many outcome_pyval (sort_key (\<lambda>o'. (oo_subject_id o', oo_criterion_id o')) (di_outcomes d)))]
     @ (if di_resolutions d = [] then []
        else [(''actor_conflict_resolutions'', many resolution_pyval (sort_key ac_field (di_resolutions d)))])
     @ (case di_recall_policy d of None \<Rightarrow> [] | Some p \<Rightarrow> [(''recall_policy'', recall_policy_pyval p)])"

definition frozen_input_hashes ::
    "(pyval \<Rightarrow> string result) \<Rightarrow> DecisionGraphInput \<Rightarrow> (string \<times> string) list result" where
  "frozen_input_hashes H d =
     traverse (\<lambda>(name, v). mapR_res (\<lambda>h. (name, h)) (H v)) (sort_key fst (frozen_artifacts d))"

section \<open>The evaluation\<close>

record EvaluationCoverage =
  vc_raw_record_count :: nat
  vc_pack_candidate_count :: nat
  vc_canonical_product_count :: nat
  vc_duplicate_count :: nat
  vc_generated_plan_count :: nat
  vc_evaluated_plan_count :: nat
  vc_excluded_count :: nat
  vc_statement :: string

record DecisionGraphEvaluation =
  ge_evaluation_id :: string
  ge_generated_at :: py_datetime
  ge_versions :: FrozenVersions
  ge_evaluated_at :: py_datetime
  ge_frozen_input_hashes :: "(string \<times> string) list"
  ge_removed_private_fact_ids :: "string list"
  ge_identity_records :: "IdentityRecord list"
  ge_identity_merges :: "IdentityMerge list"
  ge_recall_exclusions :: "RecallExclusion list"
  ge_assessments :: "EvidenceAssessment list"
  ge_plans :: "EvaluatedPlan list"
  ge_ranked_plan_ids :: "string list"
  ge_selected_plan_id :: "string option"
  ge_rank_stability :: RankStability
  ge_ordering_frontier :: "string list"
  ge_unavailable :: "string list"
  ge_coverage :: EvaluationCoverage
  ge_payload_hash :: string

definition ratio_payload :: "ExactRatio \<Rightarrow> pyval" where
  "ratio_payload r = obj [(''numerator'', PInt (er_numerator r)), (''denominator'', PInt (er_denominator r))]"

definition money_payload :: "Money option \<Rightarrow> pyval" where
  "money_payload m = optional (\<lambda>v. PDict (Money_to_dict v)) m"

definition reason_payload :: "GateReason \<Rightarrow> pyval" where
  "reason_payload r =
     obj [(''code'', PStr (gn_reason_code r)), (''status'', PStr (CandidateStatus_value (gn_status r))),
          (''detail'', PStr (gn_detail r))]"

definition gate_payload :: "GateResult \<Rightarrow> pyval" where
  "gate_payload g =
     obj [(''gate_id'', PStr (gt_gate_id g)), (''truth'', PStr (TruthValue_value (gt_truth g))),
          (''reasons'', many reason_payload (gt_reasons g)), (''predicates'', many PStr (gt_evaluated g)),
          (''permitted_resolution'', optional PStr (gt_permitted_resolution g))]"

definition score_payload :: "ScoreComponent \<Rightarrow> pyval" where
  "score_payload s =
     obj [(''criterion_id'', PStr (sc_criterion_id s)), (''weight'', PInt (sc_weight s)),
          (''conservative'', ratio_payload (sc_conservative s)), (''optimistic'', ratio_payload (sc_optimistic s)),
          (''evidence_ids'', many PStr (sc_evidence_ids s)),
          (''evidence_state'', PStr (EvidenceState_value (sc_evidence_state s))),
          (''prior_label'', optional PStr (sc_prior_label s))]"

definition line_payload :: "CostLineItem \<Rightarrow> pyval" where
  "line_payload i =
     obj [(''type'', PStr (li_type i)), (''low'', PDict (Money_to_dict (li_low i))),
          (''base'', PDict (Money_to_dict (li_base i))), (''high'', PDict (Money_to_dict (li_high i))),
          (''schedule_version'', optional PStr (li_schedule_version i))]"

definition bounds_payload :: "PlanDimensions \<Rightarrow> pyval" where
  "bounds_payload d =
     (let cost = pd_total_cost d
      in obj
       [(''preference'', optional (\<lambda>p. obj [(''conservative'', ratio_payload (ps_conservative p)),
                                            (''optimistic'', ratio_payload (ps_optimistic p))]) (pd_preference d)),
        (''risk'', obj [(''lower'', optional (\<lambda>r. risk_pyval (rb_lower r)) (pd_stack_risk d)),
                        (''base'', optional (\<lambda>r. risk_pyval (rb_base r)) (pd_stack_risk d)),
                        (''upper'', optional (\<lambda>r. risk_pyval (rb_upper r)) (pd_stack_risk d)),
                        (''triggered_rule_ids'', many PStr (pd_risk_rule_ids d)),
                        (''input_hash'', PStr (pd_risk_input_hash d))]),
        (''tco'', obj [(''low'', money_payload (off_low cost)), (''base'', money_payload (off_base cost)),
                       (''high'', money_payload (off_high cost)), (''horizon_days'', PInt (off_horizon_days cost)),
                       (''payment_required'', PBool (off_payment_required cost)),
                       (''line_items'', many line_payload (off_line_items cost))]),
        (''coverage'', optional (\<lambda>c. obj [(''conservative'', ratio_payload (cb_conservative c)),
                                          (''optimistic'', ratio_payload (cb_optimistic c))]) (pd_coverage d)),
        (''age'', optional (\<lambda>a. obj [(''lower'', ratio_payload (ea_lower a)),
                                     (''upper'', ratio_payload (ea_upper a))]) (pd_age_ratio d)),
        (''hard_coverage'', obj [(''numerator'', PInt (int (hc_numerator (pd_hard_coverage d)))),
                                 (''denominator'', PInt (int (hc_denominator (pd_hard_coverage d))))]),
        (''bound_unavailable_reasons'', many PStr (pd_reasons d))])"

definition canonical_plan :: "EvaluatedPlan \<Rightarrow> pyval" where
  "canonical_plan p =
     obj [(''action'', action_pyval (ep_action p)), (''stable_action_ids'', many PStr (ep_stable_action_ids p)),
          (''component_hash'', PStr (ep_component_hash p)),
          (''lifecycle'', PStr (PlanLifecycle_value (ep_lifecycle p))),
          (''status'', PStr (CandidateStatus_value (ep_status p))),
          (''primary_reason'', optional reason_payload (ep_primary_reason p)),
          (''gates'', many gate_payload (ep_gates p)), (''scores'', many score_payload (ep_scores p)),
          (''bounds'', bounds_payload (ep_dimensions p)),
          (''ordering_frontier_member'', PBool (ep_ordering_member p)),
          (''resolution_frontier_member'', PBool (ep_resolution_member p)),
          (''quote_required'', PBool (ep_quote_required p)), (''quote_policy_reason'', PStr (ep_quote_reason p)),
          (''permitted_resolution'', optional PStr (ep_permitted_resolution p)),
          (''autonomous_execution_allowed'', PBool (ep_autonomous p))]"

definition age_pyval :: "EvidenceAgeBounds \<Rightarrow> pyval" where
  "age_pyval a = data [(''lower'', ratio_pyval (ea_lower a)), (''upper'', ratio_pyval (ea_upper a))]"

definition assessment_pyval :: "EvidenceAssessment \<Rightarrow> pyval" where
  "assessment_pyval a = data
     [(''evidence_id'', PStr (as_evidence_id a)), (''record_id'', PStr (as_record_id a)), (''field'', PStr (as_field a)),
      (''source_allowed'', PBool (as_source_allowed a)), (''method_allowed'', PBool (as_method_allowed a)),
      (''scope_match'', PBool (as_scope_match a)), (''reconstructable'', PBool (as_reconstructable a)),
      (''freshness_current'', optional PBool (as_freshness_current a)), (''disputed'', PBool (as_disputed a)),
      (''revoked'', PBool (as_revoked a)), (''state'', PStr (EvidenceState_value (as_state a))),
      (''reasons'', many PStr (as_reasons a)), (''age_bounds'', optional age_pyval (as_age_bounds a))]"

definition identity_payload :: "IdentityRecord \<Rightarrow> pyval" where
  "identity_payload i =
     obj [(''seller_id'', PStr (ir_seller_id i)), (''product_id'', PStr (ir_product_id i)),
          (''edition'', PStr (ir_edition i)), (''region'', PStr (ir_region i)),
          (''record_ids'', many PStr (ir_record_ids i)), (''pack_ids'', many PStr (ir_pack_ids i)),
          (''offer_ids'', many PStr (ir_offer_ids i))]"

definition merge_pyval :: "IdentityMerge \<Rightarrow> pyval" where
  "merge_pyval m = data
     [(''canonical_id'', PStr (im_canonical_id m)), (''merged_record_id'', PStr (im_merged_record_id m)),
      (''reasons'', many PStr (im_reasons m))]"

definition exclusion_pyval :: "RecallExclusion \<Rightarrow> pyval" where
  "exclusion_pyval x = data
     [(''record_id'', PStr (rx_record_id x)), (''reason_code'', PStr (rx_reason_code x)),
      (''detail'', PStr (rx_detail x))]"

definition coverage_pyval :: "EvaluationCoverage \<Rightarrow> pyval" where
  "coverage_pyval c = data
     [(''raw_record_count'', PInt (int (vc_raw_record_count c))),
      (''pack_candidate_count'', PInt (int (vc_pack_candidate_count c))),
      (''canonical_product_count'', PInt (int (vc_canonical_product_count c))),
      (''duplicate_count'', PInt (int (vc_duplicate_count c))),
      (''generated_solution_plan_count'', PInt (int (vc_generated_plan_count c))),
      (''evaluated_solution_plan_count'', PInt (int (vc_evaluated_plan_count c))),
      (''excluded_count'', PInt (int (vc_excluded_count c))), (''statement'', PStr (vc_statement c))]"

text \<open>
  \<^verbatim>\<open>next(...)\<close> without a default inside a generator: a missing plan is a RuntimeError there.
\<close>

definition plan_action_ids :: "EvaluatedPlan list \<Rightarrow> string \<Rightarrow> pyval result" where
  "plan_action_ids plans i =
     (case find (\<lambda>p. ep_plan_id p = i) plans of
        None \<Rightarrow> Inl RuntimeError
      | Some p \<Rightarrow> Inr (many PStr (ep_stable_action_ids p)))"

definition evaluation_canonical_payload :: "DecisionGraphEvaluation \<Rightarrow> pyval result" where
  "evaluation_canonical_payload e =
     bindR (traverse (plan_action_ids (ge_plans e)) (ge_ranked_plan_ids e)) (\<lambda>ranked.
     bindR (traverse (plan_action_ids (ge_plans e)) (ge_ordering_frontier e)) (\<lambda>frontier.
     bindR (traverse (plan_action_ids (ge_plans e)) (ge_unavailable e)) (\<lambda>unavailable.
     Inr (obj
       [(''versions'', versions_pyval (ge_versions e)), (''evaluated_at'', datetime_pyval (ge_evaluated_at e)),
        (''frozen_input_hashes'', many (\<lambda>(n, h). PTuple [PStr n, PStr h]) (ge_frozen_input_hashes e)),
        (''removed_private_fact_ids'', many PStr (ge_removed_private_fact_ids e)),
        (''identities'', many identity_payload (ge_identity_records e)),
        (''identity_merges'', many merge_pyval (ge_identity_merges e)),
        (''recall_exclusions'', many exclusion_pyval (ge_recall_exclusions e)),
        (''evidence_assessments'', many assessment_pyval (ge_assessments e)),
        (''plans'', many canonical_plan (ge_plans e)), (''ranked_stable_action_ids'', PTuple ranked),
        (''selected_stable_action_ids'',
           optional (\<lambda>p. many PStr (ep_stable_action_ids p))
             (find (\<lambda>p. Some (ep_plan_id p) = ge_selected_plan_id e) (ge_plans e))),
        (''rank_stability'', PStr (RankStability_value (ge_rank_stability e))),
        (''ordering_frontier_stable_action_ids'', PTuple frontier),
        (''bound_unavailable_stable_action_ids'', PTuple unavailable),
        (''coverage'', coverage_pyval (ge_coverage e))]))))"

end
