(* ===== verification/GraphDecision.thy ===== *)
theory GraphDecision
  imports GraphPayload
begin

text \<open>
  \<^verbatim>\<open>decision_engine/graph_v1.py\<close>, the pipeline: one evaluation from the frozen input to the
  sealed payload, the search for the smallest set of private facts whose removal changes the selected plan,
  and the decision that combines both. \<^verbatim>\<open>content_hash\<close> is \<open>H\<close>, the choices from Python
  sets are \<open>order\<close>, and the clock reading that stands in for a missing \<^verbatim>\<open>generated_at\<close>
  is the argument \<open>generated_at\<close>.
\<close>

section \<open>One evaluation\<close>

definition coverage_statement :: "DecisionGraphInput \<Rightarrow> RecallResult \<Rightarrow> string" where
  "coverage_statement d recall =
     ''Best supported action among '' @ show_int (int (length (rr_identities recall)))
     @ '' canonical products and '' @ show_int (int (length (di_current_actions d)))
     @ '' current-stack/contract actions''
     @ (if rr_exclusions recall = [] then []
        else ''; '' @ show_int (int (length (rr_exclusions recall)))
          @ '' catalog records excluded by frozen recall policy'')"

definition evaluation_coverage :: "DecisionGraphInput \<Rightarrow> RecallResult \<Rightarrow> EvaluatedPlan list \<Rightarrow> EvaluationCoverage" where
  "evaluation_coverage d recall plans =
     \<lparr>vc_raw_record_count = rr_raw_record_count recall, vc_pack_candidate_count = length (di_candidates d),
      vc_canonical_product_count = length (rr_identities recall), vc_duplicate_count = length (rr_merges recall),
      vc_generated_plan_count = length plans, vc_evaluated_plan_count = length plans,
      vc_excluded_count = length (rr_exclusions recall), vc_statement = coverage_statement d recall\<rparr>"

definition seal_evaluation ::
    "(pyval \<Rightarrow> string result) \<Rightarrow> DecisionGraphEvaluation \<Rightarrow> DecisionGraphEvaluation result" where
  "seal_evaluation H e =
     bindR (evaluation_canonical_payload e) (\<lambda>payload. mapR_res (\<lambda>h. e\<lparr>ge_payload_hash := h\<rparr>) (H payload))"

definition evaluate_decision_graph_once ::
    "(pyval \<Rightarrow> string result) \<Rightarrow> set_order \<Rightarrow> DecisionGraphInput \<Rightarrow> string \<Rightarrow> py_datetime
      \<Rightarrow> DecisionGraphEvaluation result" where
  "evaluate_decision_graph_once H order d evaluation_id generated_at =
     bindR (recall_and_deduplicate H d) (\<lambda>recall.
     bindR (assess_evidence d recall) (\<lambda>assessments.
     bindR (build_solution_plans H order d recall assessments) (\<lambda>plans.
     bindR (rank_and_frontiers plans) (\<lambda>ranking.
     bindR (frozen_input_hashes H d) (\<lambda>hashes.
     seal_evaluation H
       \<lparr>ge_evaluation_id = evaluation_id, ge_generated_at = generated_at, ge_versions = di_versions d,
        ge_evaluated_at = di_evaluated_at d, ge_frozen_input_hashes = hashes,
        ge_removed_private_fact_ids = sorted_set (di_removed d), ge_identity_records = rr_identities recall,
        ge_identity_merges = rr_merges recall, ge_recall_exclusions = rr_exclusions recall,
        ge_assessments = assessments, ge_plans = rk_plans ranking, ge_ranked_plan_ids = rk_ranked_ids ranking,
        ge_selected_plan_id = (case rk_ranked_ids ranking of [] \<Rightarrow> None | i # _ \<Rightarrow> Some i),
        ge_rank_stability = rk_stability ranking, ge_ordering_frontier = rk_ordering_frontier ranking,
        ge_unavailable = rk_unavailable ranking,
        ge_coverage = evaluation_coverage d recall (rk_plans ranking), ge_payload_hash = []\<rparr>)))))"

section \<open>Counterfactual search\<close>

text \<open>\<^verbatim>\<open>itertools.combinations\<close>.\<close>

fun combinations :: "'a list \<Rightarrow> nat \<Rightarrow> 'a list list" where
  "combinations xs 0 = [[]]"
| "combinations [] (Suc k) = []"
| "combinations (x # xs) (Suc k) = map (\<lambda>ys. x # ys) (combinations xs k) @ combinations xs (Suc k)"

definition gate_truth_map :: "DecisionGraphEvaluation \<Rightarrow> ((string list \<times> string) \<times> TruthValue) list" where
  "gate_truth_map e =
     dict_of (concat (map (\<lambda>p. map (\<lambda>g. ((ep_stable_action_ids p, gt_gate_id g), gt_truth g)) (ep_gates p)) (ge_plans e)))"

definition changed_gate_ids :: "DecisionGraphEvaluation \<Rightarrow> DecisionGraphEvaluation \<Rightarrow> string list" where
  "changed_gate_ids before after =
     (let b = gate_truth_map before; a = gate_truth_map after
      in sorted_set (map snd (filter (\<lambda>k. map_of b k \<noteq> map_of a k) (map fst b @ map fst a))))"

datatype CounterfactualOutcome = WINNER_CHANGED | NO_SMALL_COUNTERFACTUAL_FOUND

fun CounterfactualOutcome_value :: "CounterfactualOutcome \<Rightarrow> string" where
  "CounterfactualOutcome_value WINNER_CHANGED = ''WINNER_CHANGED''"
| "CounterfactualOutcome_value NO_SMALL_COUNTERFACTUAL_FOUND = ''NO_SMALL_COUNTERFACTUAL_FOUND''"

record CounterfactualRecord =
  cr_outcome :: CounterfactualOutcome
  cr_removed_fact_ids :: "string list"
  cr_alternatives :: "string list list"
  cr_tested_limit :: int
  cr_before_hash :: string
  cr_after_hash :: "string option"
  cr_generic_hash :: string
  cr_before_selected :: "string option"
  cr_after_selected :: "string option"
  cr_generic_selected :: "string option"
  cr_changed_gate_ids :: "string list"
  cr_record_hash :: string

definition counterfactual_payload :: "CounterfactualRecord \<Rightarrow> pyval" where
  "counterfactual_payload r =
     obj [(''outcome'', PStr (CounterfactualOutcome_value (cr_outcome r))),
          (''removed_fact_ids'', many PStr (cr_removed_fact_ids r)),
          (''alternative_fact_id_sets'', many (many PStr) (cr_alternatives r)),
          (''tested_limit'', PInt (cr_tested_limit r)),
          (''before_evaluation_payload_hash'', PStr (cr_before_hash r)),
          (''after_evaluation_payload_hash'', optional PStr (cr_after_hash r)),
          (''generic_evaluation_payload_hash'', PStr (cr_generic_hash r)),
          (''before_selected_plan_id'', optional PStr (cr_before_selected r)),
          (''after_selected_plan_id'', optional PStr (cr_after_selected r)),
          (''generic_selected_plan_id'', optional PStr (cr_generic_selected r)),
          (''changed_gate_ids'', many PStr (cr_changed_gate_ids r))]"

definition active_private_ids :: "DecisionGraphInput \<Rightarrow> string list" where
  "active_private_ids d =
     sort (map ff_fact_id (filter (\<lambda>f. ff_private f \<and> ff_fact_id f \<notin> set (di_removed d)) (di_buyer_facts d)))"

definition ablate :: "DecisionGraphInput \<Rightarrow> string list \<Rightarrow> DecisionGraphInput" where
  "ablate d removed = d\<lparr>di_removed := di_removed d @ removed\<rparr>"

type_synonym winners = "(string list \<times> DecisionGraphEvaluation) list"

text \<open>The reruns of one cardinality whose selected plan differs from the base.\<close>

definition winners_of ::
    "(string list \<Rightarrow> DecisionGraphEvaluation result) \<Rightarrow> DecisionGraphEvaluation \<Rightarrow> string list \<Rightarrow> nat \<Rightarrow> winners result" where
  "winners_of rerun base ids k =
     mapR_res (filter (\<lambda>(removed, e). ge_selected_plan_id e \<noteq> ge_selected_plan_id base))
       (traverse (\<lambda>removed. mapR_res (\<lambda>e. (removed, e)) (rerun removed)) (combinations ids k))"

fun first_winners :: "(nat \<Rightarrow> winners result) \<Rightarrow> nat list \<Rightarrow> winners result" where
  "first_winners search [] = Inr []"
| "first_winners search (k # ks) = bindR (search k) (\<lambda>ws. if ws \<noteq> [] then Inr ws else first_winners search ks)"

definition counterfactual_of ::
    "int \<Rightarrow> DecisionGraphEvaluation \<Rightarrow> DecisionGraphEvaluation \<Rightarrow> winners \<Rightarrow> CounterfactualRecord" where
  "counterfactual_of limit base generic ws =
     (let common = \<lparr>cr_outcome = NO_SMALL_COUNTERFACTUAL_FOUND, cr_removed_fact_ids = [], cr_alternatives = [],
        cr_tested_limit = limit, cr_before_hash = ge_payload_hash base, cr_after_hash = None,
        cr_generic_hash = ge_payload_hash generic, cr_before_selected = ge_selected_plan_id base,
        cr_after_selected = None, cr_generic_selected = ge_selected_plan_id generic,
        cr_changed_gate_ids = [], cr_record_hash = []\<rparr>
      in case sort_key fst ws of
           [] \<Rightarrow> common
         | (removed, chosen) # others \<Rightarrow>
             common\<lparr>cr_outcome := WINNER_CHANGED, cr_removed_fact_ids := removed, cr_alternatives := map fst others,
               cr_after_hash := Some (ge_payload_hash chosen), cr_after_selected := ge_selected_plan_id chosen,
               cr_changed_gate_ids := changed_gate_ids base chosen\<rparr>)"

definition rerun_without ::
    "(pyval \<Rightarrow> string result) \<Rightarrow> set_order \<Rightarrow> DecisionGraphInput \<Rightarrow> DecisionGraphEvaluation \<Rightarrow> string list
      \<Rightarrow> DecisionGraphEvaluation result" where
  "rerun_without H order d base removed =
     evaluate_decision_graph_once H order (ablate d removed) ''counterfactual_evaluation_id'' (ge_generated_at base)"

definition search_private_fact_counterfactuals ::
    "(pyval \<Rightarrow> string result) \<Rightarrow> set_order \<Rightarrow> DecisionGraphInput \<Rightarrow> DecisionGraphEvaluation
      \<Rightarrow> DecisionGraphEvaluation \<Rightarrow> int \<Rightarrow> CounterfactualRecord result" where
  "search_private_fact_counterfactuals H order d base generic limit =
     bindR (ensure (1 \<le> limit \<and> limit \<le> 3)
              (DomainValidationError ''Decision Graph v1 counterfactual limit must be from 1 to 3'')) (\<lambda>_.
     let ids = active_private_ids d
     in bindR (first_winners (winners_of (rerun_without H order d base) base ids)
                 [1..<Suc (min (nat limit) (length ids))]) (\<lambda>ws.
        let record = counterfactual_of limit base generic ws
        in mapR_res (\<lambda>h. record\<lparr>cr_record_hash := h\<rparr>) (H (counterfactual_payload record))))"

section \<open>The decision\<close>

record DecisionGraphDecision =
  dd_base :: DecisionGraphEvaluation
  dd_generic :: DecisionGraphEvaluation
  dd_counterfactual :: CounterfactualRecord
  dd_decision_hash :: string

definition private_fact_ids :: "DecisionGraphInput \<Rightarrow> string list" where
  "private_fact_ids d = map ff_fact_id (filter ff_private (di_buyer_facts d))"

definition decision_payload :: "DecisionGraphEvaluation \<Rightarrow> CounterfactualRecord \<Rightarrow> pyval" where
  "decision_payload base counterfactual =
     obj [(''base_evaluation_payload_hash'', PStr (ge_payload_hash base)),
          (''counterfactual_record_hashes'', PTuple [PStr (cr_record_hash counterfactual)]),
          (''selected_outcome'',
             optional (\<lambda>p. many PStr (ep_stable_action_ids p))
               (find (\<lambda>p. Some (ep_plan_id p) = ge_selected_plan_id base) (ge_plans base)))]"

definition evaluate_decision_graph ::
    "(pyval \<Rightarrow> string result) \<Rightarrow> set_order \<Rightarrow> DecisionGraphInput \<Rightarrow> string \<Rightarrow> py_datetime \<Rightarrow> int
      \<Rightarrow> DecisionGraphDecision result" where
  "evaluate_decision_graph H order d evaluation_id generated_at limit =
     bindR (evaluate_decision_graph_once H order d evaluation_id generated_at) (\<lambda>base.
     bindR (evaluate_decision_graph_once H order (ablate d (private_fact_ids d)) ''generic_evaluation_id''
              generated_at) (\<lambda>generic.
     bindR (search_private_fact_counterfactuals H order d base generic limit) (\<lambda>counterfactual.
     mapR_res (\<lambda>h. \<lparr>dd_base = base, dd_generic = generic, dd_counterfactual = counterfactual, dd_decision_hash = h\<rparr>)
       (H (decision_payload base counterfactual)))))"

section \<open>Sealed and independent of order\<close>

lemma seal_evaluation_Inr:
  assumes "seal_evaluation H e = Inr e'"
  shows "bindR (evaluation_canonical_payload e') H = Inr (ge_payload_hash e')"
    "seal_evaluation H (e\<lparr>ge_evaluation_id := i, ge_generated_at := t\<rparr>)
      = Inr (e'\<lparr>ge_evaluation_id := i, ge_generated_at := t\<rparr>)"
proof -
  have indep: "evaluation_canonical_payload (e\<lparr>ge_payload_hash := h\<rparr>) = evaluation_canonical_payload e"
    "evaluation_canonical_payload (e\<lparr>ge_evaluation_id := i, ge_generated_at := t\<rparr>) = evaluation_canonical_payload e" for h
    by (simp_all add: evaluation_canonical_payload_def)
  from assms obtain payload h where p: "evaluation_canonical_payload e = Inr payload" "H payload = Inr h"
      "e' = e\<lparr>ge_payload_hash := h\<rparr>"
    by (auto simp: seal_evaluation_def bindR_Inr_iff mapR_res_Inr_iff)
  then show "bindR (evaluation_canonical_payload e') H = Inr (ge_payload_hash e')" by (simp add: indep(1))
  show "seal_evaluation H (e\<lparr>ge_evaluation_id := i, ge_generated_at := t\<rparr>)
      = Inr (e'\<lparr>ge_evaluation_id := i, ge_generated_at := t\<rparr>)"
    using p by (simp add: seal_evaluation_def indep(2))
qed

lemma sort_key_reordered:
  "mset ys = mset xs \<Longrightarrow> distinct (map f xs) \<Longrightarrow> sort_key f ys = sort_key f xs"
  using sort_key_perm [of ys xs f] distinct_map_inj_on [of f xs] mset_eq_setD [of ys xs] by simp

text \<open>
  Another order of the same candidates, gates and risk rules, and another list of the same removed facts, which
  the code keeps as a frozenset.
\<close>

definition reordered :: "DecisionGraphInput \<Rightarrow> DecisionGraphInput \<Rightarrow> bool" where
  "reordered d d' =
     (d' = d\<lparr>di_candidates := di_candidates d', di_gates := di_gates d', di_risk_rules := di_risk_rules d',
             di_removed := di_removed d'\<rparr>
      \<and> set (di_removed d') = set (di_removed d) \<and> mset (di_candidates d') = mset (di_candidates d) \<and> mset (di_gates d') = mset (di_gates d)
      \<and> mset (di_risk_rules d') = mset (di_risk_rules d))"

lemma reordered_parts:
  assumes "reordered d d'" "mk_DecisionGraphInput d = Inr e"
  shows "sort_key rc_record_id (di_candidates d') = sort_key rc_record_id (di_candidates d)"
    "sort_key gr_gate_id (di_gates d') = sort_key gr_gate_id (di_gates d)"
    "sort_key rk_rule_id (di_risk_rules d') = sort_key rk_rule_id (di_risk_rules d)"
    "length (di_candidates d') = length (di_candidates d)" "set (di_gates d') = set (di_gates d)"
proof -
  have msets: "mset (di_candidates d') = mset (di_candidates d)" "mset (di_gates d') = mset (di_gates d)"
    "mset (di_risk_rules d') = mset (di_risk_rules d)"
    using assms(1) unfolding reordered_def by blast+
  have "distinct (map rc_record_id (di_candidates d))" "distinct (map gr_gate_id (di_gates d))"
    "distinct (map rk_rule_id (di_risk_rules d))"
    using mk_DecisionGraphInput_distinct [OF assms(2)] by (simp_all add: unique_groups_def)
  then show "sort_key rc_record_id (di_candidates d') = sort_key rc_record_id (di_candidates d)"
    "sort_key gr_gate_id (di_gates d') = sort_key gr_gate_id (di_gates d)"
    "sort_key rk_rule_id (di_risk_rules d') = sort_key rk_rule_id (di_risk_rules d)"
    by (simp_all only: sort_key_reordered [OF msets(1)] sort_key_reordered [OF msets(2)] sort_key_reordered [OF msets(3)])
  show "length (di_candidates d') = length (di_candidates d)" "set (di_gates d') = set (di_gates d)"
    using mset_eq_length [OF msets(1)] mset_eq_setD [OF msets(2)] by simp_all
qed

lemma reordered_fields:
  assumes "reordered d d'"
  shows "di_versions d' = di_versions d" "di_evaluated_at d' = di_evaluated_at d" "di_buyer_facts d' = di_buyer_facts d"
    "di_offers d' = di_offers d" "di_evidence d' = di_evidence d" "di_policies d' = di_policies d"
    "di_preferences d' = di_preferences d" "di_risk_rules_complete d' = di_risk_rules_complete d"
    "di_current_actions d' = di_current_actions d" "di_identity d' = di_identity d" "di_outcomes d' = di_outcomes d"
    "set (di_removed d') = set (di_removed d)" "di_resolutions d' = di_resolutions d" "di_recall_policy d' = di_recall_policy d"
proof -
  have d': "d' = d\<lparr>di_candidates := di_candidates d', di_gates := di_gates d', di_risk_rules := di_risk_rules d',
      di_removed := di_removed d'\<rparr>"
    and removed: "set (di_removed d') = set (di_removed d)"
    using assms unfolding reordered_def by blast+
  show "di_versions d' = di_versions d" by (subst d') simp
  show "di_evaluated_at d' = di_evaluated_at d" by (subst d') simp
  show "di_buyer_facts d' = di_buyer_facts d" by (subst d') simp
  show "di_offers d' = di_offers d" by (subst d') simp
  show "di_evidence d' = di_evidence d" by (subst d') simp
  show "di_policies d' = di_policies d" by (subst d') simp
  show "di_preferences d' = di_preferences d" by (subst d') simp
  show "di_risk_rules_complete d' = di_risk_rules_complete d" by (subst d') simp
  show "di_current_actions d' = di_current_actions d" by (subst d') simp
  show "di_identity d' = di_identity d" by (subst d') simp
  show "di_outcomes d' = di_outcomes d" by (subst d') simp
  show "set (di_removed d') = set (di_removed d)" by (rule removed)
  show "di_resolutions d' = di_resolutions d" by (subst d') simp
  show "di_recall_policy d' = di_recall_policy d" by (subst d') simp
qed

lemma reordered_evaluation:
  assumes "reordered d d'" "mk_DecisionGraphInput d = Inr e0"
  shows "evaluate_decision_graph_once H order d' i t = evaluate_decision_graph_once H order d i t"
proof -
  note parts = reordered_parts [OF assms] and same = reordered_fields [OF assms(1)]
  have same_alias: "alias_map_of d' = alias_map_of d" by (simp add: alias_map_of_def same)
  have recall: "recall_and_deduplicate H d' = recall_and_deduplicate H d"
    by (simp add: recall_and_deduplicate_def same_alias parts same)
  have facts: "active_buyer_facts d' = active_buyer_facts d" by (simp add: active_buyer_facts_def same)
  then have active: "active_source_ids d' = active_source_ids d" "buyer_value_map d' = buyer_value_map d"
    by (simp_all add: active_source_ids_def buyer_value_map_def)
  have gates: "evaluate_gates H d' m az = evaluate_gates H d m az" for m az
    by (simp add: evaluate_gates_def active parts)
  have "criterion_applies d' m = criterion_applies d m" for m by (simp add: fun_eq_iff criterion_applies_def active)
  then have criteria: "applicable_criteria d' m = applicable_criteria d m" for m by (simp add: applicable_criteria_def same)
  have outcomes: "outcome_value d' = outcome_value d" by (simp add: fun_eq_iff outcome_value_def active same)
  have scores: "score_components H d' m az = score_components H d m az" for m az
    unfolding score_components_def criteria score_component_def [abs_def] criterion_satisfaction_def [abs_def] outcomes ..
  have risk: "risk_bounds H d' m az = risk_bounds H d m az" for m az
    unfolding risk_bounds_def parts same ..
  have "hard_gates d' gs = hard_gates d gs" for gs
    by (simp add: hard_gates_def Let_def parts)
  then have coverage: "coverage_and_age d' m gs scs az = coverage_and_age d m gs scs az" for m gs scs az
    unfolding coverage_and_age_def criteria hard_coverage_def by simp
  have dims: "material_dimensions H d' m gs az n k = material_dimensions H d m gs az n k" for m gs az n k
    unfolding material_dimensions_def scores risk coverage ..
  have build: "build_plan H d' az n k = build_plan H d az n k" for az n k
    unfolding build_plan_def [abs_def] gates dims ..
  have "aggregate_preference_facts d' rs = aggregate_preference_facts d rs" for rs
    unfolding aggregate_preference_facts_def same ..
  moreover have "offers_by_id d' = offers_by_id d" by (simp add: offers_by_id_def same_alias same)
  ultimately have pack: "pack_material H order d' reps = pack_material H order d reps" for reps
    unfolding pack_material_def [abs_def] by simp
  have "plan_representatives d' rc = plan_representatives d rc" for rc by (simp add: plan_representatives_def same_alias)
  then have materials: "plan_materials H order d' rc = plan_materials H order d rc" for rc
    unfolding plan_materials_def pack_materials_def pack same by simp
  have plans: "build_solution_plans H order d' rc az = build_solution_plans H order d rc az" for rc az
    unfolding build_solution_plans_def materials build ..
  have assess: "assess_evidence d' rc = assess_evidence d rc" for rc
  proof -
    have "assess_pair d' = assess_pair d" unfolding assess_pair_def [abs_def] same ..
    moreover have "material_pairs d' rc = material_pairs d rc" by (simp add: material_pairs_def outcome_pairs_def same)
    ultimately show ?thesis by (simp add: assess_evidence_def)
  qed
  have "frozen_input_hashes H d' = frozen_input_hashes H d"
    by (simp add: frozen_input_hashes_def frozen_artifacts_def facts parts same)
  moreover have "evaluation_coverage d' rc ps = evaluation_coverage d rc ps" for rc ps
    by (simp add: evaluation_coverage_def coverage_statement_def parts same)
  moreover have "sorted_set (di_removed d') = sorted_set (di_removed d)" by (rule sorted_set_cong [OF same(12)])
  ultimately show ?thesis
    unfolding evaluate_decision_graph_once_def recall assess plans same by simp
qed

lemma evaluation_once_again:
  assumes "evaluate_decision_graph_once H order d i t = Inr e"
  shows "evaluate_decision_graph_once H order d i' t' = Inr (e\<lparr>ge_evaluation_id := i', ge_generated_at := t'\<rparr>)"
proof -
  from assms obtain e0 where e0: "seal_evaluation H e0 = Inr e"
    and again: "evaluate_decision_graph_once H order d i' t'
        = seal_evaluation H (e0\<lparr>ge_evaluation_id := i', ge_generated_at := t'\<rparr>)"
    by (auto simp: evaluate_decision_graph_once_def bindR_Inr_iff)
  show ?thesis unfolding again by (rule seal_evaluation_Inr(2) [OF e0])
qed

text \<open>
  C6. An evaluation is sealed and reproducible: its payload hash is the content hash of its own canonical payload,
  the evaluation id and the generation time change nothing else, and neither does the order of the candidate
  records, of the gates, of the risk rules or of the removed facts.
\<close>

theorem evaluation_sealed:
  assumes "evaluate_decision_graph_once H order d i t = Inr e"
  shows "bindR (evaluation_canonical_payload e) H = Inr (ge_payload_hash e)
    \<and> evaluate_decision_graph_once H order d i' t' = Inr (e\<lparr>ge_evaluation_id := i', ge_generated_at := t'\<rparr>)
    \<and> (\<forall>d'. reordered d d' \<and> is_ok (mk_DecisionGraphInput d) \<longrightarrow> evaluate_decision_graph_once H order d' i t = Inr e)"
proof -
  from assms obtain e0 where e0: "seal_evaluation H e0 = Inr e"
    by (auto simp: evaluate_decision_graph_once_def bindR_Inr_iff)
  note again = evaluation_once_again [OF assms, of i' t']
  have "evaluate_decision_graph_once H order d' i t = Inr e"
    if "reordered d d'" "is_ok (mk_DecisionGraphInput d)" for d'
    using that reordered_evaluation assms by (auto simp: is_ok_iff)
  then show ?thesis using again seal_evaluation_Inr(1) [OF e0] by blast
qed


section \<open>The selected plan\<close>

lemma mk_Money_finite: "mk_Money a c = Inr m \<Longrightarrow> dec_finite (m_amount m)"
proof -
  assume "mk_Money a c = Inr m"
  then have "wf_money m" by (rule mk_Money_wf)
  then show ?thesis by (auto simp: wf_money_def amount_of_cents_def split: prod.splits)
qed

lemma bundle_total_finite:
  "bundle_total part currency n costs = Inr t \<Longrightarrow> case t of None \<Rightarrow> True | Some x \<Rightarrow> dec_finite (m_amount x)"
  by (auto simp: bundle_total_def Let_def mapR_res_Inr_iff mk_Money_finite split: if_splits)

lemma combined_cost_finite:
  assumes "combined_cost H order records offers = Inr (cost, n, issues)"
    and "\<And>k c. map_of offers k = Some c \<Longrightarrow> finite_cost c"
  shows "finite_cost cost"
proof (cases "length records = 1 \<and> length (List.map_filter (\<lambda>r. map_of offers (rc_offer_id r)) records) = 1")
  case True
  then obtain c where c: "List.map_filter (\<lambda>r. map_of offers (rc_offer_id r)) records = [c]"
    by (auto simp: length_Suc_conv)
  then have "c \<in> set (List.map_filter (\<lambda>r. map_of offers (rc_offer_id r)) records)" by simp
  then obtain k where "map_of offers k = Some c" by (auto simp: List.map_filter_def)
  then show ?thesis using assms True c by (simp add: combined_cost_def Let_def)
next
  case False
  let ?costs = "List.map_filter (\<lambda>r. map_of offers (rc_offer_id r)) records"
  from assms(1) False obtain currency low base high x where
      "bundle_total off_low currency (length records) ?costs = Inr low"
      "bundle_total off_base currency (length records) ?costs = Inr base"
      "bundle_total off_high currency (length records) ?costs = Inr high"
      "mk_OfferCost x = Inr cost" "off_low x = low" "off_base x = base" "off_high x = high"
    unfolding combined_cost_def Let_def by (simp add: bindR_Inr_iff del: One_nat_def) fastforce
  moreover from this have "cost = x" by (auto simp: mk_OfferCost_def bindR_Inr_iff)
  ultimately show ?thesis using bundle_total_finite by (auto simp: finite_cost_def)
qed

lemma offers_finite:
  assumes "\<forall>c\<in>set (di_offers d). finite_cost c" "map_of (offers_by_id d) k = Some c"
  shows "finite_cost c"
  using assms(2) assms(1) by (auto simp: offers_by_id_def map_of_dict_of dest!: map_of_SomeD)

lemma plan_materials_finite:
  assumes "plan_materials H order d recall = Inr ms" "m \<in> set ms"
    and "\<forall>c\<in>set (di_offers d). finite_cost c" "\<forall>a\<in>set (di_current_actions d). finite_cost (ca_cost a)"
  shows "finite_cost (ml_cost m)"
proof -
  from assms(1) obtain packs reps where p: "traverse (pack_material H order d reps) reps = Inr packs"
      "ms = packs @ map current_material (di_current_actions d)"
    by (auto simp: plan_materials_def pack_materials_def bindR_Inr_iff mapR_res_Inr_iff)
  show ?thesis
  proof (cases "m \<in> set packs")
    case True
    from traverse_Inr_set [OF p(1) True] obtain r where "pack_material H order d reps r = Inr m" by blast
    then obtain records n issues where "combined_cost H order records (offers_by_id d) = Inr (ml_cost m, n, issues)"
      by (auto simp: pack_material_def Let_def bindR_Inr_iff)
    then show ?thesis by (rule combined_cost_finite) (rule offers_finite [OF assms(3)])
  next
    case False
    then show ?thesis using assms(2,4) p(2) by (auto simp: current_material_def)
  qed
qed

lemma plans_constructed:
  assumes "build_solution_plans H order d recall assessments = Inr plans" "p \<in> set plans"
    and "\<forall>c\<in>set (di_offers d). finite_cost c" "\<forall>a\<in>set (di_current_actions d). finite_cost (ca_cost a)"
  shows "ordering_bounds (ep_dimensions p) = Inr (Some b) \<Longrightarrow> constructed_bounds b"
    "comparable p \<Longrightarrow> ep_lifecycle p = PlanLifecycle.EXECUTABLE"
proof -
  from assms(1) obtain ms where ms: "plan_materials H order d recall = Inr ms"
    and t: "traverse (build_plan H d assessments (length ms) (length ms + length (rr_exclusions recall)))
      (sort_key (\<lambda>m. (SolutionAction_value (ml_action m), ml_component_id m, ml_source_id m)) ms) = Inr plans"
    by (auto simp: build_solution_plans_def bindR_Inr_iff)
  from traverse_Inr_set [OF t assms(2)] obtain m where m: "m \<in> set ms"
      "build_plan H d assessments (length ms) (length ms + length (rr_exclusions recall)) m = Inr p" by auto
  from build_plan_Inr [OF m(2)] obtain gates status scores dims bounds where
    dims: "material_dimensions H d m gates assessments (length ms) (length ms + length (rr_exclusions recall)) = Inr (scores, dims)"
      "ordering_bounds dims = Inr bounds" "ep_dimensions p = dims" "ep_status p = status"
      "ep_lifecycle p = plan_lifecycle status bounds (ep_permitted_resolution p)" by metis
  show "constructed_bounds b" if "ordering_bounds (ep_dimensions p) = Inr (Some b)"
    using ordering_bounds_constructed [OF dims(1) _ plan_materials_finite [OF ms m(1) assms(3,4)]] that dims(3) by simp
  show "ep_lifecycle p = PlanLifecycle.EXECUTABLE" if "comparable p"
    using that dims by (auto simp: comparable_def plan_lifecycle_def)
qed

lemma mark_plan_same:
  "bounded_form (mark_plan sel stability frontier resolution ranked p) = bounded_form p"
  "comparable (mark_plan sel stability frontier resolution ranked p) = comparable p"
  "ep_plan_id (mark_plan sel stability frontier resolution ranked p) = ep_plan_id p"
  "ep_status (mark_plan sel stability frontier resolution ranked p) = ep_status p"
  "ep_lifecycle (mark_plan sel stability frontier resolution ranked p) = ep_lifecycle p"
  by (simp_all add: mark_plan_def Let_def bounded_form_def bounded_of_def comparable_def)

lemma rank_plans_marked:
  "rank_and_frontiers plans = Inr r \<Longrightarrow>
    \<exists>sel frontier resolution ids. rk_plans r = map (mark_plan sel (rk_stability r) frontier resolution ids) plans"
  by (auto simp: rank_and_frontiers_def Let_def bindR_Inr_iff simp del: map_eq_conv) (intro exI, rule refl)

text \<open>
  C4. A stable selection cannot be undercut: when an evaluation over finite prices is STABLE it selects an
  executable plan, every other eligible plan has bounds, and however the uncertain preference, risk, cost,
  coverage and evidence age of the two turn out within their bounds, the selected plan keeps the smaller key;
  plans cleared for autonomous execution are executable and free of payment, and exist only then.
\<close>

theorem stable_selection_safe:
  assumes "evaluate_decision_graph_once H order d i t = Inr e"
    and "\<forall>c\<in>set (di_offers d). finite_cost c" "\<forall>a\<in>set (di_current_actions d). finite_cost (ca_cost a)"
  shows "(ge_rank_stability e = RankStability.STABLE \<longrightarrow>
      (\<exists>s\<in>set (ge_plans e). ge_selected_plan_id e = Some (ep_plan_id s) \<and> ep_lifecycle s = PlanLifecycle.EXECUTABLE
        \<and> (\<forall>p\<in>set (ge_plans e). eligible_status (ep_status p) \<and> ep_plan_id p \<noteq> ep_plan_id s \<longrightarrow> comparable p
             \<and> (\<forall>x y. outcome_within (bounded_form s) x \<longrightarrow> outcome_within (bounded_form p) y
                  \<longrightarrow> outcome_key (bounded_form s) x \<le> outcome_key (bounded_form p) y))))
    \<and> (\<forall>p\<in>set (ge_plans e). ep_autonomous p \<longrightarrow> ge_rank_stability e = RankStability.STABLE
        \<and> ep_lifecycle p = PlanLifecycle.EXECUTABLE \<and> \<not> off_payment_required (pd_total_cost (ep_dimensions p))
        \<and> ep_action p \<in> {SolutionAction.REUSE_EXISTING, SolutionAction.NO_ACTION})"
proof -
  from assms(1) obtain recall assessments plans ranking where
    plans: "build_solution_plans H order d recall assessments = Inr plans"
    and rank: "rank_and_frontiers plans = Inr ranking"
    and e: "ge_plans e = rk_plans ranking" "ge_rank_stability e = rk_stability ranking"
      "ge_selected_plan_id e = (case rk_ranked_ids ranking of [] \<Rightarrow> None | i # _ \<Rightarrow> Some i)"
    by (auto simp: evaluate_decision_graph_once_def seal_evaluation_def bindR_Inr_iff mapR_res_Inr_iff)
  from rank_plans_marked [OF rank] obtain sel frontier resolution ids where
    marked: "rk_plans ranking = map (mark_plan sel (rk_stability ranking) frontier resolution ids) plans" by blast
  note made = plans_constructed [OF plans _ assms(2,3)]
  let ?m = "mark_plan sel (rk_stability ranking) frontier resolution ids"
  have stable: "\<exists>s\<in>set (ge_plans e). ge_selected_plan_id e = Some (ep_plan_id s) \<and> ep_lifecycle s = PlanLifecycle.EXECUTABLE
        \<and> (\<forall>p\<in>set (ge_plans e). eligible_status (ep_status p) \<and> ep_plan_id p \<noteq> ep_plan_id s \<longrightarrow> comparable p
             \<and> (\<forall>x y. outcome_within (bounded_form s) x \<longrightarrow> outcome_within (bounded_form p) y
                  \<longrightarrow> outcome_key (bounded_form s) x \<le> outcome_key (bounded_form p) y))"
    if "ge_rank_stability e = RankStability.STABLE"
  proof -
    from that have st: "rk_stability ranking = RankStability.STABLE" by (simp add: e)
    have "\<forall>p\<in>set plans. \<forall>b. ordering_bounds (ep_dimensions p) = Inr (Some b) \<longrightarrow> constructed_bounds b"
      using made(1) by blast
    from stable_selection [OF rank st this] obtain s where s: "s \<in> set plans" "comparable s"
        "rk_ranked_ids ranking \<noteq> []" "hd (rk_ranked_ids ranking) = ep_plan_id s"
      and beat: "\<forall>p\<in>set plans. eligible_status (ep_status p) \<and> ep_plan_id p \<noteq> ep_plan_id s \<longrightarrow>
        comparable p \<and> (\<forall>x y. outcome_within (bounded_form s) x \<longrightarrow> outcome_within (bounded_form p) y
          \<longrightarrow> outcome_key (bounded_form s) x \<le> outcome_key (bounded_form p) y)" by (elim bexE conjE) (rule that)
    have selected: "ge_selected_plan_id e = Some (ep_plan_id (?m s))"
      using s(3,4) unfolding e mark_plan_same by (cases "rk_ranked_ids ranking") auto
    show ?thesis
    proof (intro bexI [of _ "?m s"] conjI selected ballI impI)
      show "?m s \<in> set (ge_plans e)" using s(1) by (simp add: e marked)
      show "ep_lifecycle (?m s) = PlanLifecycle.EXECUTABLE" using made(2) s(1,2) by (simp add: mark_plan_same)
      fix p assume "p \<in> set (ge_plans e)" and p: "eligible_status (ep_status p) \<and> ep_plan_id p \<noteq> ep_plan_id (?m s)"
      then obtain q where q: "q \<in> set plans" "p = ?m q" by (auto simp: e marked)
      with p beat show "comparable p" "\<forall>x y. outcome_within (bounded_form (?m s)) x \<longrightarrow>
          outcome_within (bounded_form p) y \<longrightarrow> outcome_key (bounded_form (?m s)) x \<le> outcome_key (bounded_form p) y"
        unfolding q(2) mark_plan_same by blast+
    qed
  qed
  have "ge_rank_stability e = RankStability.STABLE \<and> ep_lifecycle p = PlanLifecycle.EXECUTABLE
      \<and> \<not> off_payment_required (pd_total_cost (ep_dimensions p))
      \<and> ep_action p \<in> {SolutionAction.REUSE_EXISTING, SolutionAction.NO_ACTION}"
    if "p \<in> set (ge_plans e)" "ep_autonomous p" for p
    using that unfolding e marked by (auto simp: mark_plan_def Let_def autonomous_actions_def)
  with stable show ?thesis by blast
qed


section \<open>The smallest counterfactual\<close>

lemma set_combinations: "set (combinations xs k) = {ys. subseq ys xs \<and> length ys = k}"
proof (induction xs k rule: combinations.induct)
  case (1 xs)
  then show ?case by auto
next
  case (2 k)
  then show ?case by (auto dest: list_emb_length)
next
  case (3 x xs k)
  show ?case
  proof (intro equalityI subsetI)
    fix ys assume "ys \<in> set (combinations (x # xs) (Suc k))"
    with 3 show "ys \<in> {ys. subseq ys (x # xs) \<and> length ys = Suc k}" by auto
  next
    fix ys assume "ys \<in> {ys. subseq ys (x # xs) \<and> length ys = Suc k}"
    then have ys: "subseq ys (x # xs)" "length ys = Suc k" by auto
    then show "ys \<in> set (combinations (x # xs) (Suc k))"
    proof (cases ys)
      case (Cons y zs)
      show ?thesis
      proof (cases "y = x")
        case True
        with ys Cons have "subseq zs xs" "length zs = k" by (auto dest: subseq_Cons2')
        with True Cons 3(1) show ?thesis by simp
      next
        case False
        with ys Cons have "subseq ys xs" by auto
        with ys(2) 3(2) show ?thesis by simp
      qed
    qed simp
  qed
qed

text \<open>The removal of these facts changes the selected plan.\<close>

definition changes_winner ::
    "(pyval \<Rightarrow> string result) \<Rightarrow> set_order \<Rightarrow> DecisionGraphInput \<Rightarrow> DecisionGraphEvaluation \<Rightarrow> string list \<Rightarrow> bool" where
  "changes_winner H order d base removed =
     (case rerun_without H order d base removed of
        Inl _ \<Rightarrow> False | Inr e \<Rightarrow> ge_selected_plan_id e \<noteq> ge_selected_plan_id base)"

lemma winners_of_Inr:
  assumes "winners_of (rerun_without H order d base) base ids k = Inr ws"
  shows "map fst ws = filter (changes_winner H order d base) (combinations ids k)"
    "\<forall>(removed, e)\<in>set ws. rerun_without H order d base removed = Inr e"
proof -
  let ?f = "\<lambda>removed. mapR_res (\<lambda>e. (removed, e)) (rerun_without H order d base removed)"
  from assms obtain all where t: "traverse ?f (combinations ids k) = Inr all"
    and ws: "ws = filter (\<lambda>(removed, e). ge_selected_plan_id e \<noteq> ge_selected_plan_id base) all"
    by (auto simp: winners_of_def mapR_res_Inr_iff)
  have main: "map fst (filter (\<lambda>(removed, e). ge_selected_plan_id e \<noteq> ge_selected_plan_id base) es)
        = filter (changes_winner H order d base) cs
      \<and> (\<forall>(removed, e)\<in>set es. rerun_without H order d base removed = Inr e)"
    if "traverse ?f cs = Inr es" for cs es
    using that
    by (induction cs arbitrary: es) (auto simp: bindR_Inr_iff mapR_res_Inr_iff changes_winner_def)
  from main [OF t] show "map fst ws = filter (changes_winner H order d base) (combinations ids k)"
    "\<forall>(removed, e)\<in>set ws. rerun_without H order d base removed = Inr e"
    by (auto simp: ws)
qed

lemma first_winners_Inr:
  assumes "first_winners search ks = Inr ws"
  shows "ws = [] \<and> (\<forall>k\<in>set ks. search k = Inr [])
    \<or> ws \<noteq> [] \<and> (\<exists>before k after. ks = before @ k # after \<and> search k = Inr ws \<and> (\<forall>j\<in>set before. search j = Inr []))"
  using assms
proof (induction ks)
  case (Cons k ks)
  then obtain us where us: "search k = Inr us" "(if us \<noteq> [] then Inr us else first_winners search ks) = Inr ws"
    by (auto simp: bindR_Inr_iff)
  show ?case
  proof (cases "us = []")
    case True
    with us(2) Cons.IH consider "ws = []" "\<forall>k\<in>set ks. search k = Inr []"
      | before j after where "ws \<noteq> []" "ks = before @ j # after" "search j = Inr ws" "\<forall>i\<in>set before. search i = Inr []"
      by auto
    then show ?thesis
    proof cases
      case 1
      with us(1) True show ?thesis by auto
    next
      case 2
      with us(1) True have "k # ks = (k # before) @ j # after" "\<forall>i\<in>set (k # before). search i = Inr []" by auto
      with 2(1,3) show ?thesis by blast
    qed
  next
    case False
    with us have "k # ks = [] @ k # ks" "search k = Inr ws" "ws \<noteq> []" by auto
    then show ?thesis by (metis empty_iff list.set(1))
  qed
qed simp

lemma upt_before:
  assumes "[1..<n] = before @ k # after"
  shows "1 \<le> k" "k < n" "set before = {1..<k}"
proof -
  let ?m = "length before"
  have len: "n - 1 = ?m + Suc (length after)" using arg_cong [OF assms, of length] by simp
  have "k = [1..<n] ! ?m" unfolding assms by simp
  with len have k: "k = Suc ?m" by simp
  with len show "1 \<le> k" "k < n" by simp_all
  have "before = take ?m [1..<n]" unfolding assms by simp
  with len have "before = [1..<Suc ?m]" by (simp add: take_upt)
  then show "set before = {1..<k}" unfolding k by (metis set_upt)
qed

lemma no_winner:
  assumes "winners_of (rerun_without H order d base) base (active_private_ids d) k = Inr []"
    and "subseq T (active_private_ids d)" "length T = k"
  shows "\<not> changes_winner H order d base T"
proof -
  have "filter (changes_winner H order d base) (combinations (active_private_ids d) k) = []"
    using winners_of_Inr(1) [OF assms(1)] by simp
  then show ?thesis using assms(2,3) set_combinations [of "active_private_ids d" k] by (auto simp: filter_empty_conv)
qed

lemma counterfactual_none:
  assumes "search_private_fact_counterfactuals H order d base generic limit = Inr r"
    and "cr_outcome r = NO_SMALL_COUNTERFACTUAL_FOUND"
    and T: "subseq T (active_private_ids d)" "T \<noteq> []" "int (length T) \<le> limit"
  shows "\<not> changes_winner H order d base T"
proof -
  let ?ids = "active_private_ids d"
  from assms(1) obtain ws h where
    ws: "first_winners (winners_of (rerun_without H order d base) base ?ids) [1..<Suc (min (nat limit) (length ?ids))] = Inr ws"
    and r: "r = (counterfactual_of limit base generic ws)\<lparr>cr_record_hash := h\<rparr>"
    by (auto simp: search_private_fact_counterfactuals_def Let_def bindR_Inr_iff mapR_res_Inr_iff)
  have "ws = []"
  proof (rule ccontr)
    assume "ws \<noteq> []"
    then obtain S chosen others where "sort_key fst ws = (S, chosen) # others"
      by (metis length_0_conv length_sort list.exhaust prod.exhaust)
    then have "cr_outcome r = WINNER_CHANGED" by (simp add: r counterfactual_of_def Let_def)
    with assms(2) show False by simp
  qed
  have "length T \<le> length ?ids" using T(1) by (rule list_emb_length)
  then have "length T \<in> set [1..<Suc (min (nat limit) (length ?ids))]" using T(2,3) by (cases T) auto
  then have "winners_of (rerun_without H order d base) base ?ids (length T) = Inr []"
    using first_winners_Inr [OF ws] \<open>ws = []\<close> by blast
  from no_winner [OF this T(1) refl] show ?thesis .
qed

text \<open>
  C5. The counterfactual is the smallest one: a record that reports WINNER_CHANGED removes at least one and at most
  \<open>limit\<close> active private facts, their removal changes the selected plan, no smaller set does, it is the
  least of its size in the order of the sorted ids and the alternatives are exactly the others; a record that
  reports none was made after every set up to the limit had been tried without a change.
\<close>

theorem counterfactual_minimal:
  assumes "search_private_fact_counterfactuals H order d base generic limit = Inr r"
  shows "(cr_outcome r = WINNER_CHANGED \<longrightarrow>
       (let S = cr_removed_fact_ids r
        in subseq S (active_private_ids d) \<and> S \<noteq> [] \<and> int (length S) \<le> limit
          \<and> changes_winner H order d base S
          \<and> (\<forall>T. subseq T (active_private_ids d) \<and> T \<noteq> [] \<and> length T < length S \<longrightarrow> \<not> changes_winner H order d base T)
          \<and> (\<forall>T. subseq T (active_private_ids d) \<and> length T = length S \<and> changes_winner H order d base T \<longrightarrow> S \<le> T)
          \<and> insert S (set (cr_alternatives r))
              = {T. subseq T (active_private_ids d) \<and> length T = length S \<and> changes_winner H order d base T}))
    \<and> (cr_outcome r = NO_SMALL_COUNTERFACTUAL_FOUND \<longrightarrow> cr_removed_fact_ids r = [] \<and>
       (\<forall>T. subseq T (active_private_ids d) \<and> T \<noteq> [] \<and> int (length T) \<le> limit \<longrightarrow> \<not> changes_winner H order d base T))"
proof -
  let ?ids = "active_private_ids d" and ?P = "changes_winner H order d base"
  let ?n = "Suc (min (nat limit) (length ?ids))"
  from assms obtain ws h where lim: "1 \<le> limit" "limit \<le> 3"
    and ws: "first_winners (winners_of (rerun_without H order d base) base ?ids) [1..<?n] = Inr ws"
    and r: "r = (counterfactual_of limit base generic ws)\<lparr>cr_record_hash := h\<rparr>"
    by (auto simp: search_private_fact_counterfactuals_def Let_def bindR_Inr_iff mapR_res_Inr_iff ensure_Inr_iff)

  show ?thesis
  proof (cases "ws = []")
    case True
    then have out: "cr_outcome r = NO_SMALL_COUNTERFACTUAL_FOUND" "cr_removed_fact_ids r = []"
      by (simp_all add: r counterfactual_of_def Let_def)
    with counterfactual_none [OF assms out(1)] show ?thesis by simp
  next
    case False
    with first_winners_Inr [OF ws] obtain before k after where k: "[1..<?n] = before @ k # after"
        "winners_of (rerun_without H order d base) base ?ids k = Inr ws"
      and smaller: "\<forall>j\<in>set before. winners_of (rerun_without H order d base) base ?ids j = Inr []" by blast
    note kb = upt_before [OF k(1)]
    obtain S chosen others where sorted_ws: "sort_key fst ws = (S, chosen) # others"
      using False by (metis length_0_conv length_sort list.exhaust prod.exhaust)
    have r_parts: "cr_outcome r = WINNER_CHANGED" "cr_removed_fact_ids r = S" "cr_alternatives r = map fst others"
      by (simp_all add: r counterfactual_of_def Let_def sorted_ws)
    have "set (map fst ws) = {T. subseq T ?ids \<and> length T = k \<and> ?P T}"
      unfolding winners_of_Inr(1) [OF k(2)] using set_combinations [of ?ids k] by auto
    moreover have "set (map fst ws) = insert S (set (map fst others))"
      using arg_cong [OF sorted_ws, of "\<lambda>l. set (map fst l)"] by simp
    ultimately have all: "insert S (set (map fst others)) = {T. subseq T ?ids \<and> length T = k \<and> ?P T}" by simp
    then have S: "subseq S ?ids" "length S = k" "?P S" by auto
    have "sorted (map fst ((S, chosen) # others))" using sorted_sort_key [of fst ws] unfolding sorted_ws .
    then have least: "\<forall>T\<in>insert S (set (map fst others)). S \<le> T" by auto
    have "\<not> ?P T" if "subseq T ?ids" "T \<noteq> []" "length T < k" for T
    proof (rule no_winner [OF _ that(1) refl])
      have "length T \<in> set before" using that(2,3) kb(3) by (cases T) auto
      with smaller show "winners_of (rerun_without H order d base) base ?ids (length T) = Inr []" by blast
    qed
    moreover have "int k \<le> limit" "S \<noteq> []" using kb lim S(2) by auto
    ultimately show ?thesis using r_parts S all least by (auto simp: Let_def)
  qed
qed


lemma ablate_same:
  assumes "set (di_removed d @ xs) = set (di_removed d @ ys)" "mk_DecisionGraphInput d = Inr e0"
  shows "evaluate_decision_graph_once H order (ablate d xs) i t = evaluate_decision_graph_once H order (ablate d ys) i t"
proof (rule reordered_evaluation)
  show "reordered (ablate d ys) (ablate d xs)" using assms(1) by (simp add: reordered_def ablate_def)
  have "mk_DecisionGraphInput (ablate d ys) = Inr (ablate d ys)"
    using assms(2) by (auto simp: mk_DecisionGraphInput_def ablate_def unique_groups_def bindR_Inr_iff ensure_Inr_iff)
  then show "mk_DecisionGraphInput (ablate d ys) = Inr (ablate d ys)" .
qed

lemma active_private_set:
  "set (di_removed d @ active_private_ids d) = set (di_removed d @ private_fact_ids d)"
  by (auto simp: active_private_ids_def private_fact_ids_def)

text \<open>
  The two explanations of a decision agree: when the counterfactual search reports that no small set of private
  facts matters and at most \<open>limit\<close> private facts are active, the generic evaluation, which forgets them
  all, selects the same plan as the base evaluation.
\<close>

theorem generic_agrees:
  assumes "evaluate_decision_graph H order d i t limit = Inr dd" "is_ok (mk_DecisionGraphInput d)"
    and "cr_outcome (dd_counterfactual dd) = NO_SMALL_COUNTERFACTUAL_FOUND"
    and "int (length (active_private_ids d)) \<le> limit"
  shows "ge_selected_plan_id (dd_generic dd) = ge_selected_plan_id (dd_base dd)"
proof -
  let ?ids = "active_private_ids d"
  from assms(2) obtain e0 where e0: "mk_DecisionGraphInput d = Inr e0" by (auto simp: is_ok_iff)
  from assms(1) have base: "evaluate_decision_graph_once H order d i t = Inr (dd_base dd)"
    and generic: "evaluate_decision_graph_once H order (ablate d (private_fact_ids d)) ''generic_evaluation_id'' t
      = Inr (dd_generic dd)"
    and search: "search_private_fact_counterfactuals H order d (dd_base dd) (dd_generic dd) limit
      = Inr (dd_counterfactual dd)"
    by (auto simp: evaluate_decision_graph_def bindR_Inr_iff mapR_res_Inr_iff)
  have all: "evaluate_decision_graph_once H order (ablate d ?ids) i' t'
      = Inr ((dd_generic dd)\<lparr>ge_evaluation_id := i', ge_generated_at := t'\<rparr>)" for i' t'
    unfolding ablate_same [OF active_private_set e0] by (rule evaluation_once_again [OF generic])
  show ?thesis
  proof (cases "?ids = []")
    case True
    have "ablate d [] = d" by (simp add: ablate_def)
    with all [of i t] True base show ?thesis by simp
  next
    case False
    from counterfactual_none [OF search assms(3) _ this assms(4)]
    have "\<not> changes_winner H order d (dd_base dd) ?ids" by simp
    then show ?thesis using all by (simp add: changes_winner_def rerun_without_def)
  qed
qed


section \<open>A sample decision\<close>

text \<open>A stand-in for the content hash that tells the plans of the sample apart.\<close>

definition sample_hash :: "pyval \<Rightarrow> string result" where
  "sample_hash v =
     (case v of
        PDict [(_, PStr action), (_, PStr component)] \<Rightarrow> Inr (''sha256:'' @ action @ component)
      | _ \<Rightarrow> constant_hash v)"

definition sample_order :: set_order where
  "sample_order = \<lparr>first_currency = hd, first_horizon = hd\<rparr>"

definition sample_action :: "SolutionAction \<Rightarrow> string \<Rightarrow> int \<Rightarrow> string list \<Rightarrow> CurrentActionRecord" where
  "sample_action action instance_id price fields' =
     \<lparr>ca_action_id = instance_id, ca_action = action, ca_instance_id = instance_id,
      ca_facts = map (\<lambda>f. \<lparr>pf_field = f, pf_value = FBool True, pf_evidence_ids = [''e1''], pf_component_id = None\<rparr>) fields',
      ca_cost = sample_priced price, ca_available = True, ca_permitted_resolution = None\<rparr>"

text \<open>Keeping the desk costs more than doing nothing; a gate that rests on the private fact f1 asks for sso.\<close>

definition sample_decision_input :: DecisionGraphInput where
  "sample_decision_input =
     (sample_graph_input [])
       \<lparr>di_buyer_facts := [\<lparr>ff_fact_id = ''f1'', ff_field = ''need'', ff_value = FBool True, ff_private = True,
          ff_version = ''1'', ff_role = ''unknown'', ff_authority_level = ''UNKNOWN'', ff_authority_rank = 0,
          ff_provenance = None\<rparr>],
        di_evidence := [sample_evidence],
        di_policies := [sample_policy 10000, (sample_policy 10000)\<lparr>ep_field := ''audit''\<rparr>],
        di_gates := [(sample_gate GateMode.REQUIRE_MATCH [eq_true ''sso''])\<lparr>gr_source_fact_ids := [''f1'']\<rparr>],
        di_preferences := [sample_preference\<lparr>pc_field := ''audit''\<rparr>],
        di_current_actions := [sample_action SolutionAction.REUSE_EXISTING ''desk'' 100 [''audit'', ''sso''],
          sample_action SolutionAction.NO_ACTION ''none'' 50 [''audit'']]\<rparr>"

definition sample_decision :: "DecisionGraphDecision result" where
  "sample_decision = evaluate_decision_graph sample_hash sample_order sample_decision_input ''d1'' evaluated 3"

definition sample_once :: "DecisionGraphEvaluation result" where
  "sample_once = evaluate_decision_graph_once sample_hash sample_order sample_decision_input ''d1'' evaluated"

lemma sample_once_value:
  "mapR_res (\<lambda>e. (ge_selected_plan_id e, ge_rank_stability e)) sample_once
    = Inr (Some ''plan_REUSE_EXISTINGdesk'', RankStability.STABLE)"
  by code_simp

lemma evaluation_sealed_witness:
  "\<exists>e. sample_once = Inr e \<and> ge_selected_plan_id e = Some ''plan_REUSE_EXISTINGdesk''
    \<and> evaluate_decision_graph_once sample_hash sample_order
         (sample_decision_input\<lparr>di_removed := []\<rparr>) ''d2'' evaluated = Inr (e\<lparr>ge_evaluation_id := ''d2''\<rparr>)"
proof -
  from sample_once_value obtain e where e: "sample_once = Inr e" "ge_selected_plan_id e = Some ''plan_REUSE_EXISTINGdesk''"
    by (auto simp: mapR_res_Inr_iff)
  have same: "sample_decision_input\<lparr>di_removed := []\<rparr> = sample_decision_input"
    by (simp add: sample_decision_input_def sample_graph_input_def)
  have again: "evaluate_decision_graph_once sample_hash sample_order sample_decision_input ''d2'' evaluated
      = Inr (e\<lparr>ge_evaluation_id := ''d2'', ge_generated_at := evaluated\<rparr>)"
    using evaluation_sealed [OF e(1) [unfolded sample_once_def], of "''d2''" evaluated] by blast
  have "ge_generated_at e = evaluated"
    using e(1) by (auto simp: sample_once_def evaluate_decision_graph_once_def seal_evaluation_def bindR_Inr_iff
        mapR_res_Inr_iff)
  then have "e\<lparr>ge_evaluation_id := ''d2'', ge_generated_at := evaluated\<rparr> = e\<lparr>ge_evaluation_id := ''d2''\<rparr>" by simp
  with again e show ?thesis unfolding same by (intro exI [of _ e]) simp
qed

lemma stable_selection_safe_witness:
  "\<exists>e s. sample_once = Inr e \<and> s \<in> set (ge_plans e) \<and> ge_selected_plan_id e = Some (ep_plan_id s)
    \<and> ep_lifecycle s = PlanLifecycle.EXECUTABLE"
proof -
  from sample_once_value obtain e where e: "sample_once = Inr e" "ge_rank_stability e = RankStability.STABLE"
    by (auto simp: mapR_res_Inr_iff)
  have "\<forall>a\<in>set (di_current_actions sample_decision_input). finite_cost (ca_cost a)"
      "\<forall>c\<in>set (di_offers sample_decision_input). finite_cost c"
    by (simp_all add: sample_decision_input_def sample_action_def sample_priced_def sample_cost_def finite_cost_def
        sample_graph_input_def)
  from stable_selection_safe [OF e(1) [unfolded sample_once_def] this(2,1)] e show ?thesis by blast
qed

lemma counterfactual_minimal_witness:
  "\<exists>base generic r. search_private_fact_counterfactuals sample_hash sample_order sample_decision_input base generic 3 = Inr r
    \<and> cr_removed_fact_ids r = [''f1''] \<and> changes_winner sample_hash sample_order sample_decision_input base [''f1'']"
proof -
  have "mapR_res (\<lambda>dd. (cr_outcome (dd_counterfactual dd), cr_removed_fact_ids (dd_counterfactual dd))) sample_decision
      = Inr (WINNER_CHANGED, [''f1''])" by code_simp
  then obtain dd where dd: "sample_decision = Inr dd" "cr_outcome (dd_counterfactual dd) = WINNER_CHANGED"
      "cr_removed_fact_ids (dd_counterfactual dd) = [''f1'']"
    by (auto simp: mapR_res_Inr_iff)
  then have s: "search_private_fact_counterfactuals sample_hash sample_order sample_decision_input (dd_base dd) (dd_generic dd) 3
      = Inr (dd_counterfactual dd)"
    by (auto simp: sample_decision_def evaluate_decision_graph_def bindR_Inr_iff mapR_res_Inr_iff)
  from counterfactual_minimal [OF s] dd s show ?thesis by (auto simp: Let_def)
qed

lemma generic_agrees_witness:
  "\<exists>dd. evaluate_decision_graph sample_hash sample_order (sample_decision_input\<lparr>di_gates := []\<rparr>) ''d1'' evaluated 3 = Inr dd
    \<and> ge_selected_plan_id (dd_generic dd) = ge_selected_plan_id (dd_base dd)"
proof -
  let ?d = "sample_decision_input\<lparr>di_gates := []\<rparr>"
  have "mapR_res (\<lambda>dd. cr_outcome (dd_counterfactual dd))
      (evaluate_decision_graph sample_hash sample_order ?d ''d1'' evaluated 3) = Inr NO_SMALL_COUNTERFACTUAL_FOUND" by code_simp
  then obtain dd where dd: "evaluate_decision_graph sample_hash sample_order ?d ''d1'' evaluated 3 = Inr dd"
      "cr_outcome (dd_counterfactual dd) = NO_SMALL_COUNTERFACTUAL_FOUND"
    by (auto simp: mapR_res_Inr_iff)
  have "is_ok (mk_DecisionGraphInput ?d)" "int (length (active_private_ids ?d)) \<le> 3" by code_simp+
  from generic_agrees [OF dd(1) this(1) dd(2) this(2)] dd(1) show ?thesis by blast
qed

end
