(* ===== verification/Contracts.thy ===== *)
theory Contracts
  imports PyData
begin

text \<open>
  \<^verbatim>\<open>services/worker/sira_worker/contracts.py\<close>: the dataclasses that cross the workflow
  boundary, the values they are in the workflow history, and the check that no field or key of
  such a value, at any depth, is named like a payment credential. A status enumeration of the
  module is a \<^verbatim>\<open>StrEnum\<close>, so a member is its string in the value.
\<close>

section \<open>The credential check\<close>

definition FORBIDDEN_CREDENTIAL_FIELD_PARTS :: "string list" where
  "FORBIDDEN_CREDENTIAL_FIELD_PARTS =
     [''card'', ''credential'', ''cvv'', ''expiry_month'', ''expiry_year'', ''pan'', ''payment_token'',
      ''secret'']"

definition prohibited :: "string \<Rightarrow> bool" where
  "prohibited name =
     list_ex (\<lambda>part. str_contains part (str_lower name)) FORBIDDEN_CREDENTIAL_FIELD_PARTS"

text \<open>
  The keys of a JSON object are strings; any other key counts by the text of a number, which has no
  prohibited part.
\<close>

definition prohibited_key :: "pyval \<Rightarrow> bool" where
  "prohibited_key k = (case k of PStr name \<Rightarrow> prohibited name | _ \<Rightarrow> False)"

text \<open>
  The walk visits a value once by identity. A value that is met again has been walked already, so on
  finite values the answer is the one without that memory.
\<close>

fun credential_free :: "pyval \<Rightarrow> bool" where
  "credential_free (PData fs _) = list_all (\<lambda>(n, v). \<not> prohibited n \<and> credential_free v) fs"
| "credential_free (PDict kvs) = list_all (\<lambda>(k, v). \<not> prohibited_key k \<and> credential_free v) kvs"
| "credential_free (PTuple xs) = list_all credential_free xs"
| "credential_free (PList xs) = list_all credential_free xs"
| "credential_free (PSet xs) = list_all credential_free xs"
| "credential_free _ = True"

definition assert_credential_free_contract :: "pyval \<Rightarrow> unit result" where
  "assert_credential_free_contract v =
     ensure (credential_free v) (ValueError ''Temporal contract contains a prohibited field'')"

section \<open>The contracts\<close>

datatype SafeMerchantOutcome = APPROVED | DECLINED | UNKNOWN

datatype SafeFulfillmentStatus = VERIFIED | PARTIAL | FAILED_RETRYABLE | FAILED_FINAL

datatype SafeReversalStatus =
    PROVIDER_PENDING | PARTIALLY_REFUNDED | REFUNDED | REJECTED | COMPENSATION_REQUIRED

fun SafeMerchantOutcome_value :: "SafeMerchantOutcome \<Rightarrow> string" where
  "SafeMerchantOutcome_value SafeMerchantOutcome.APPROVED = ''APPROVED''"
| "SafeMerchantOutcome_value SafeMerchantOutcome.DECLINED = ''DECLINED''"
| "SafeMerchantOutcome_value SafeMerchantOutcome.UNKNOWN = ''UNKNOWN''"

fun SafeFulfillmentStatus_value :: "SafeFulfillmentStatus \<Rightarrow> string" where
  "SafeFulfillmentStatus_value SafeFulfillmentStatus.VERIFIED = ''VERIFIED''"
| "SafeFulfillmentStatus_value SafeFulfillmentStatus.PARTIAL = ''PARTIAL''"
| "SafeFulfillmentStatus_value SafeFulfillmentStatus.FAILED_RETRYABLE = ''FAILED_RETRYABLE''"
| "SafeFulfillmentStatus_value SafeFulfillmentStatus.FAILED_FINAL = ''FAILED_FINAL''"

fun SafeReversalStatus_value :: "SafeReversalStatus \<Rightarrow> string" where
  "SafeReversalStatus_value SafeReversalStatus.PROVIDER_PENDING = ''PROVIDER_PENDING''"
| "SafeReversalStatus_value SafeReversalStatus.PARTIALLY_REFUNDED = ''PARTIALLY_REFUNDED''"
| "SafeReversalStatus_value SafeReversalStatus.REFUNDED = ''REFUNDED''"
| "SafeReversalStatus_value SafeReversalStatus.REJECTED = ''REJECTED''"
| "SafeReversalStatus_value SafeReversalStatus.COMPENSATION_REQUIRED = ''COMPENSATION_REQUIRED''"

record IsolatedCheckoutActivityInput =
  ici_organization_id :: string
  ici_purchase_intent_id :: string
  ici_intent_hash :: string
  ici_prava_session_id :: string
  ici_merchant_adapter_id :: string
  ici_idempotency_key :: string

record CheckoutActivityResult =
  car_purchase_intent_id :: string
  car_prava_session_id :: string
  car_prava_order_id :: string
  car_transaction_reference :: string
  car_merchant_outcome :: SafeMerchantOutcome
  car_merchant_order_id :: "string option"
  car_provider_reported :: bool
  car_reconciliation_required :: bool

record ReconcileActivityInput =
  rai_organization_id :: string
  rai_purchase_intent_id :: string
  rai_intent_hash :: string
  rai_prava_session_id :: string
  rai_merchant_adapter_id :: string
  rai_idempotency_key :: string
  rai_transaction_reference :: string

record VerifyFulfillmentActivityInput =
  vfi_organization_id :: string
  vfi_purchase_intent_id :: string
  vfi_merchant_order_id :: string

record FulfillmentActivityResult =
  far_purchase_intent_id :: string
  far_status :: SafeFulfillmentStatus

record WorkflowFailureActivityInput =
  wfi_organization_id :: string
  wfi_purchase_intent_id :: string
  wfi_safe_code :: string

record RefundActivityInput =
  rfi_organization_id :: string
  rfi_reversal_id :: string
  rfi_purchase_intent_id :: string
  rfi_intent_hash :: string
  rfi_idempotency_key :: string

record RefundActivityResult =
  rfr_reversal_id :: string
  rfr_status :: SafeReversalStatus
  rfr_refunded_amount :: string
  rfr_currency :: string
  rfr_provider_reference :: "string option"
  rfr_entitlements_revoked :: bool
  rfr_reconciliation_required :: bool

record PurchaseReversalWorkflowInput =
  rwi_organization_id :: string
  rwi_reversal_id :: string
  rwi_purchase_intent_id :: string
  rwi_intent_hash :: string
  rwi_idempotency_key :: string

record PurchaseReversalWorkflowResult =
  rwr_reversal_id :: string
  rwr_status :: SafeReversalStatus
  rwr_refunded_amount :: string
  rwr_currency :: string
  rwr_provider_reference :: "string option"
  rwr_entitlements_revoked :: bool
  rwr_reconciliation_required :: bool

record PurchaseCheckoutWorkflowInput =
  cwi_organization_id :: string
  cwi_purchase_intent_id :: string
  cwi_intent_hash :: string
  cwi_prava_session_id :: string
  cwi_merchant_adapter_id :: string
  cwi_idempotency_key :: string

record PurchaseCheckoutWorkflowResult =
  cwr_purchase_intent_id :: string
  cwr_merchant_outcome :: SafeMerchantOutcome
  cwr_merchant_order_id :: "string option"
  cwr_provider_reported :: bool
  cwr_reconciliation_required :: bool

record PravaShoppingWorkflowInput =
  swi_organization_id :: string
  swi_shopping_run_id :: string
  swi_checkout_session_id :: string
  swi_payment_session_id :: string

record PravaPaymentStatusResult =
  psr_shopping_run_id :: string
  psr_status :: string

record PravaShoppingWorkflowResult =
  swr_shopping_run_id :: string
  swr_status :: string
  swr_order_id :: "string option"

definition IsolatedCheckoutActivityInput_pyval :: "IsolatedCheckoutActivityInput \<Rightarrow> pyval" where
  "IsolatedCheckoutActivityInput_pyval x = data
     [(''organization_id'', PStr (ici_organization_id x)),
      (''purchase_intent_id'', PStr (ici_purchase_intent_id x)),
      (''intent_hash'', PStr (ici_intent_hash x)),
      (''prava_session_id'', PStr (ici_prava_session_id x)),
      (''merchant_adapter_id'', PStr (ici_merchant_adapter_id x)),
      (''idempotency_key'', PStr (ici_idempotency_key x))]"

definition CheckoutActivityResult_pyval :: "CheckoutActivityResult \<Rightarrow> pyval" where
  "CheckoutActivityResult_pyval x = data
     [(''purchase_intent_id'', PStr (car_purchase_intent_id x)),
      (''prava_session_id'', PStr (car_prava_session_id x)),
      (''prava_order_id'', PStr (car_prava_order_id x)),
      (''transaction_reference'', PStr (car_transaction_reference x)),
      (''merchant_outcome'', PStr (SafeMerchantOutcome_value (car_merchant_outcome x))),
      (''merchant_order_id'', optional PStr (car_merchant_order_id x)),
      (''provider_reported'', PBool (car_provider_reported x)),
      (''reconciliation_required'', PBool (car_reconciliation_required x))]"

definition ReconcileActivityInput_pyval :: "ReconcileActivityInput \<Rightarrow> pyval" where
  "ReconcileActivityInput_pyval x = data
     [(''organization_id'', PStr (rai_organization_id x)),
      (''purchase_intent_id'', PStr (rai_purchase_intent_id x)),
      (''intent_hash'', PStr (rai_intent_hash x)),
      (''prava_session_id'', PStr (rai_prava_session_id x)),
      (''merchant_adapter_id'', PStr (rai_merchant_adapter_id x)),
      (''idempotency_key'', PStr (rai_idempotency_key x)),
      (''transaction_reference'', PStr (rai_transaction_reference x))]"

definition VerifyFulfillmentActivityInput_pyval :: "VerifyFulfillmentActivityInput \<Rightarrow> pyval" where
  "VerifyFulfillmentActivityInput_pyval x = data
     [(''organization_id'', PStr (vfi_organization_id x)),
      (''purchase_intent_id'', PStr (vfi_purchase_intent_id x)),
      (''merchant_order_id'', PStr (vfi_merchant_order_id x))]"

definition FulfillmentActivityResult_pyval :: "FulfillmentActivityResult \<Rightarrow> pyval" where
  "FulfillmentActivityResult_pyval x = data
     [(''purchase_intent_id'', PStr (far_purchase_intent_id x)),
      (''status'', PStr (SafeFulfillmentStatus_value (far_status x)))]"

definition WorkflowFailureActivityInput_pyval :: "WorkflowFailureActivityInput \<Rightarrow> pyval" where
  "WorkflowFailureActivityInput_pyval x = data
     [(''organization_id'', PStr (wfi_organization_id x)),
      (''purchase_intent_id'', PStr (wfi_purchase_intent_id x)),
      (''safe_code'', PStr (wfi_safe_code x))]"

definition RefundActivityInput_pyval :: "RefundActivityInput \<Rightarrow> pyval" where
  "RefundActivityInput_pyval x = data
     [(''organization_id'', PStr (rfi_organization_id x)),
      (''reversal_id'', PStr (rfi_reversal_id x)),
      (''purchase_intent_id'', PStr (rfi_purchase_intent_id x)),
      (''intent_hash'', PStr (rfi_intent_hash x)),
      (''idempotency_key'', PStr (rfi_idempotency_key x))]"

definition RefundActivityResult_pyval :: "RefundActivityResult \<Rightarrow> pyval" where
  "RefundActivityResult_pyval x = data
     [(''reversal_id'', PStr (rfr_reversal_id x)),
      (''status'', PStr (SafeReversalStatus_value (rfr_status x))),
      (''refunded_amount'', PStr (rfr_refunded_amount x)), (''currency'', PStr (rfr_currency x)),
      (''provider_reference'', optional PStr (rfr_provider_reference x)),
      (''entitlements_revoked'', PBool (rfr_entitlements_revoked x)),
      (''reconciliation_required'', PBool (rfr_reconciliation_required x))]"

definition PurchaseReversalWorkflowInput_pyval :: "PurchaseReversalWorkflowInput \<Rightarrow> pyval" where
  "PurchaseReversalWorkflowInput_pyval x = data
     [(''organization_id'', PStr (rwi_organization_id x)),
      (''reversal_id'', PStr (rwi_reversal_id x)),
      (''purchase_intent_id'', PStr (rwi_purchase_intent_id x)),
      (''intent_hash'', PStr (rwi_intent_hash x)),
      (''idempotency_key'', PStr (rwi_idempotency_key x))]"

definition PurchaseReversalWorkflowResult_pyval :: "PurchaseReversalWorkflowResult \<Rightarrow> pyval" where
  "PurchaseReversalWorkflowResult_pyval x = data
     [(''reversal_id'', PStr (rwr_reversal_id x)),
      (''status'', PStr (SafeReversalStatus_value (rwr_status x))),
      (''refunded_amount'', PStr (rwr_refunded_amount x)), (''currency'', PStr (rwr_currency x)),
      (''provider_reference'', optional PStr (rwr_provider_reference x)),
      (''entitlements_revoked'', PBool (rwr_entitlements_revoked x)),
      (''reconciliation_required'', PBool (rwr_reconciliation_required x))]"

definition PurchaseCheckoutWorkflowInput_pyval :: "PurchaseCheckoutWorkflowInput \<Rightarrow> pyval" where
  "PurchaseCheckoutWorkflowInput_pyval x = data
     [(''organization_id'', PStr (cwi_organization_id x)),
      (''purchase_intent_id'', PStr (cwi_purchase_intent_id x)),
      (''intent_hash'', PStr (cwi_intent_hash x)),
      (''prava_session_id'', PStr (cwi_prava_session_id x)),
      (''merchant_adapter_id'', PStr (cwi_merchant_adapter_id x)),
      (''idempotency_key'', PStr (cwi_idempotency_key x))]"

definition PurchaseCheckoutWorkflowResult_pyval :: "PurchaseCheckoutWorkflowResult \<Rightarrow> pyval" where
  "PurchaseCheckoutWorkflowResult_pyval x = data
     [(''purchase_intent_id'', PStr (cwr_purchase_intent_id x)),
      (''merchant_outcome'', PStr (SafeMerchantOutcome_value (cwr_merchant_outcome x))),
      (''merchant_order_id'', optional PStr (cwr_merchant_order_id x)),
      (''provider_reported'', PBool (cwr_provider_reported x)),
      (''reconciliation_required'', PBool (cwr_reconciliation_required x))]"

definition PravaShoppingWorkflowInput_pyval :: "PravaShoppingWorkflowInput \<Rightarrow> pyval" where
  "PravaShoppingWorkflowInput_pyval x = data
     [(''organization_id'', PStr (swi_organization_id x)),
      (''shopping_run_id'', PStr (swi_shopping_run_id x)),
      (''checkout_session_id'', PStr (swi_checkout_session_id x)),
      (''payment_session_id'', PStr (swi_payment_session_id x))]"

definition PravaPaymentStatusResult_pyval :: "PravaPaymentStatusResult \<Rightarrow> pyval" where
  "PravaPaymentStatusResult_pyval x = data
     [(''shopping_run_id'', PStr (psr_shopping_run_id x)), (''status'', PStr (psr_status x))]"

definition PravaShoppingWorkflowResult_pyval :: "PravaShoppingWorkflowResult \<Rightarrow> pyval" where
  "PravaShoppingWorkflowResult_pyval x = data
     [(''shopping_run_id'', PStr (swr_shopping_run_id x)), (''status'', PStr (swr_status x)),
      (''order_id'', optional PStr (swr_order_id x))]"

text \<open>The schemas inspected at startup: the field names, without a value.\<close>

definition contract_schemas :: "string list list" where
  "contract_schemas =
     [[''organization_id'', ''purchase_intent_id'', ''intent_hash'', ''prava_session_id'',
       ''merchant_adapter_id'', ''idempotency_key''],
      [''purchase_intent_id'', ''prava_session_id'', ''prava_order_id'', ''transaction_reference'',
       ''merchant_outcome'', ''merchant_order_id'', ''provider_reported'',
       ''reconciliation_required''],
      [''organization_id'', ''purchase_intent_id'', ''intent_hash'', ''prava_session_id'',
       ''merchant_adapter_id'', ''idempotency_key'', ''transaction_reference''],
      [''organization_id'', ''purchase_intent_id'', ''merchant_order_id''],
      [''purchase_intent_id'', ''status''],
      [''organization_id'', ''purchase_intent_id'', ''safe_code''],
      [''organization_id'', ''reversal_id'', ''purchase_intent_id'', ''intent_hash'',
       ''idempotency_key''],
      [''reversal_id'', ''status'', ''refunded_amount'', ''currency'', ''provider_reference'',
       ''entitlements_revoked'', ''reconciliation_required''],
      [''organization_id'', ''reversal_id'', ''purchase_intent_id'', ''intent_hash'',
       ''idempotency_key''],
      [''reversal_id'', ''status'', ''refunded_amount'', ''currency'', ''provider_reference'',
       ''entitlements_revoked'', ''reconciliation_required''],
      [''organization_id'', ''purchase_intent_id'', ''intent_hash'', ''prava_session_id'',
       ''merchant_adapter_id'', ''idempotency_key''],
      [''purchase_intent_id'', ''merchant_outcome'', ''merchant_order_id'', ''provider_reported'',
       ''reconciliation_required''],
      [''organization_id'', ''shopping_run_id'', ''checkout_session_id'', ''payment_session_id''],
      [''shopping_run_id'', ''status''],
      [''shopping_run_id'', ''status'', ''order_id'']]"

definition assert_all_contract_schemas_are_credential_free :: "unit result" where
  "assert_all_contract_schemas_are_credential_free =
     foldR (\<lambda>names _. foldR (\<lambda>name _. ensure (\<not> prohibited name)
         (RuntimeError)) names ()) contract_schemas ()"

definition PurchaseReversalWorkflowInput_activity_input ::
    "PurchaseReversalWorkflowInput \<Rightarrow> RefundActivityInput" where
  "PurchaseReversalWorkflowInput_activity_input w =
     \<lparr>rfi_organization_id = rwi_organization_id w, rfi_reversal_id = rwi_reversal_id w,
      rfi_purchase_intent_id = rwi_purchase_intent_id w, rfi_intent_hash = rwi_intent_hash w,
      rfi_idempotency_key = rwi_idempotency_key w\<rparr>"

definition PurchaseCheckoutWorkflowInput_activity_input ::
    "PurchaseCheckoutWorkflowInput \<Rightarrow> IsolatedCheckoutActivityInput" where
  "PurchaseCheckoutWorkflowInput_activity_input w =
     \<lparr>ici_organization_id = cwi_organization_id w, ici_purchase_intent_id = cwi_purchase_intent_id w,
      ici_intent_hash = cwi_intent_hash w, ici_prava_session_id = cwi_prava_session_id w,
      ici_merchant_adapter_id = cwi_merchant_adapter_id w, ici_idempotency_key = cwi_idempotency_key w\<rparr>"

section \<open>What the check decides\<close>

text \<open>Every name in a value: the fields and keys of its parts at any depth.\<close>

fun names_of :: "pyval \<Rightarrow> string set" where
  "names_of (PData fs _) = fst ` set fs \<union> (\<Union>(n, v)\<in>set fs. names_of v)"
| "names_of (PDict kvs) = {n. PStr n \<in> fst ` set kvs} \<union> (\<Union>(k, v)\<in>set kvs. names_of v)"
| "names_of (PTuple xs) = (\<Union>v\<in>set xs. names_of v)"
| "names_of (PList xs) = (\<Union>v\<in>set xs. names_of v)"
| "names_of (PSet xs) = (\<Union>v\<in>set xs. names_of v)"
| "names_of _ = {}"

lemma prohibited_key_simps [simp]: "prohibited_key (PStr n) = prohibited n"
  by (simp add: prohibited_key_def)

lemma credential_free_iff: "credential_free v \<longleftrightarrow> (\<forall>n\<in>names_of v. \<not> prohibited n)"
proof (induction v rule: credential_free.induct)
  case (1 fs u)
  have "list_all (\<lambda>(n, v). \<not> prohibited n \<and> credential_free v) fs
      \<longleftrightarrow> list_all (\<lambda>(n, v). \<not> prohibited n \<and> (\<forall>m\<in>names_of v. \<not> prohibited m)) fs"
    by (rule list.pred_cong [OF refl]) (auto simp: 1(1) [OF _ refl])
  then show ?case by (simp add: list_all_iff ball_Un case_prod_unfold ball_conj_distrib)
next
  case (2 kvs)
  have key: "prohibited_key k \<longleftrightarrow> (\<exists>n. k = PStr n \<and> prohibited n)" for k
    by (auto simp: prohibited_key_def split: pyval.splits)
  have "list_all (\<lambda>(k, v). \<not> prohibited_key k \<and> credential_free v) kvs
      \<longleftrightarrow> list_all (\<lambda>(k, v). \<not> prohibited_key k \<and> (\<forall>m\<in>names_of v. \<not> prohibited m)) kvs"
    by (rule list.pred_cong [OF refl]) (auto simp: 2(1) [OF _ refl])
  moreover have "(\<forall>n\<in>{n. PStr n \<in> fst ` set kvs}. \<not> prohibited n)
      \<longleftrightarrow> (\<forall>kv\<in>set kvs. \<not> prohibited_key (fst kv))"
    unfolding key by (auto simp: image_iff) (metis fst_conv)
  ultimately show ?case by (simp add: list_all_iff ball_Un case_prod_unfold ball_conj_distrib)
qed (auto simp: list_all_iff)

lemma not_upper: "CHR ''a'' \<le> c \<Longrightarrow> \<not> c \<le> CHR ''Z''"
  using order.trans [of "CHR ''a''" c "CHR ''Z''"] by auto

lemma lower_word: "list_all (\<lambda>c. is_lower c \<or> c = CHR ''_'') n \<Longrightarrow> str_lower n = n"
  by (induction n) (auto simp: str_lower_def lower_char_def is_lower_def is_upper_def not_upper)

lemma contract_names_clean [simp]:
  "\<not> prohibited ''organization_id''"
  "\<not> prohibited ''purchase_intent_id''"
  "\<not> prohibited ''intent_hash''"
  "\<not> prohibited ''prava_session_id''"
  "\<not> prohibited ''merchant_adapter_id''"
  "\<not> prohibited ''idempotency_key''"
  "\<not> prohibited ''prava_order_id''"
  "\<not> prohibited ''transaction_reference''"
  "\<not> prohibited ''merchant_outcome''"
  "\<not> prohibited ''merchant_order_id''"
  "\<not> prohibited ''provider_reported''"
  "\<not> prohibited ''reconciliation_required''"
  "\<not> prohibited ''status''"
  "\<not> prohibited ''safe_code''"
  "\<not> prohibited ''reversal_id''"
  "\<not> prohibited ''refunded_amount''"
  "\<not> prohibited ''currency''"
  "\<not> prohibited ''provider_reference''"
  "\<not> prohibited ''entitlements_revoked''"
  "\<not> prohibited ''shopping_run_id''"
  "\<not> prohibited ''checkout_session_id''"
  "\<not> prohibited ''payment_session_id''"
  "\<not> prohibited ''order_id''"
  by (simp_all add: prohibited_def lower_word is_lower_def FORBIDDEN_CREDENTIAL_FIELD_PARTS_def
      str_contains_def sublist_code)

lemma contract_schemas_clean: "list_all (list_all (\<lambda>n. \<not> prohibited n)) contract_schemas"
  by (simp add: contract_schemas_def)

lemma credential_free_optional [simp]: "credential_free (optional PStr v)"
  by (cases v) (simp_all add: optional_def)

lemmas contract_pyval_defs =
  IsolatedCheckoutActivityInput_pyval_def CheckoutActivityResult_pyval_def ReconcileActivityInput_pyval_def
  VerifyFulfillmentActivityInput_pyval_def FulfillmentActivityResult_pyval_def
  WorkflowFailureActivityInput_pyval_def RefundActivityInput_pyval_def RefundActivityResult_pyval_def
  PurchaseReversalWorkflowInput_pyval_def PurchaseReversalWorkflowResult_pyval_def
  PurchaseCheckoutWorkflowInput_pyval_def PurchaseCheckoutWorkflowResult_pyval_def
  PravaShoppingWorkflowInput_pyval_def PravaPaymentStatusResult_pyval_def
  PravaShoppingWorkflowResult_pyval_def

lemma contracts_pass [simp]:
  "assert_credential_free_contract (IsolatedCheckoutActivityInput_pyval a) = Inr ()"
  "assert_credential_free_contract (CheckoutActivityResult_pyval b) = Inr ()"
  "assert_credential_free_contract (ReconcileActivityInput_pyval c) = Inr ()"
  "assert_credential_free_contract (VerifyFulfillmentActivityInput_pyval d) = Inr ()"
  "assert_credential_free_contract (FulfillmentActivityResult_pyval e) = Inr ()"
  "assert_credential_free_contract (WorkflowFailureActivityInput_pyval f) = Inr ()"
  "assert_credential_free_contract (RefundActivityInput_pyval g) = Inr ()"
  "assert_credential_free_contract (RefundActivityResult_pyval h) = Inr ()"
  "assert_credential_free_contract (PurchaseReversalWorkflowInput_pyval i) = Inr ()"
  "assert_credential_free_contract (PurchaseReversalWorkflowResult_pyval j) = Inr ()"
  "assert_credential_free_contract (PurchaseCheckoutWorkflowInput_pyval k) = Inr ()"
  "assert_credential_free_contract (PurchaseCheckoutWorkflowResult_pyval l) = Inr ()"
  "assert_credential_free_contract (PravaShoppingWorkflowInput_pyval m) = Inr ()"
  "assert_credential_free_contract (PravaPaymentStatusResult_pyval n) = Inr ()"
  "assert_credential_free_contract (PravaShoppingWorkflowResult_pyval p) = Inr ()"
  by (simp_all add: assert_credential_free_contract_def contract_pyval_defs data_def)

lemma schemas_pass [simp]: "assert_all_contract_schemas_are_credential_free = Inr ()"
proof -
  have "foldR (\<lambda>name _. ensure (\<not> prohibited name) RuntimeError) names () = Inr ()"
    if "names \<in> set contract_schemas" for names
    using contract_schemas_clean that by (auto simp: foldR_unit_iff list_all_iff)
  then show ?thesis
    unfolding assert_all_contract_schemas_are_credential_free_def foldR_unit_iff by blast
qed


end
