(* ===== verification/WorkflowStore.thy ===== *)
theory WorkflowStore
  imports PyData Money
begin

text \<open>
  The part of \<^verbatim>\<open>persistence/models.py\<close>, \<^verbatim>\<open>persistence/database.py\<close> and
  \<^verbatim>\<open>persistence/repositories.py\<close> that holds a purchase in flight: its rows, the unique
  indexes and checks the database enforces at commit, the tenant transaction, and the repository
  operations every writer goes through. The columns are those the modelled code reads or writes.

  Sessions are created with \<^verbatim>\<open>autoflush=False\<close>: a query of a transaction sees the rows
  committed before it and the changes made to objects loaded by it, never its own pending inserts.
  The inserts of a transaction therefore wait in \<open>added\<close> and join the tables at commit, where a
  violated index is an \<open>IntegrityError\<close> and nothing of the transaction remains.
\<close>

section \<open>Rows\<close>

record OutboxEvent =
  oe_id :: string
  oe_organization_id :: string
  oe_aggregate_type :: string
  oe_aggregate_id :: string
  oe_event_type :: string
  oe_event_key :: string
  oe_payload :: "(string \<times> pyval) list"
  oe_occurred_at :: int
  oe_published_at :: "int option"

record log_entry =
  le_id :: string
  le_status :: string
  le_message :: string

record WorkflowRun =
  wr_id :: string
  wr_organization_id :: string
  wr_aggregate_type :: string
  wr_aggregate_id :: string
  wr_operation :: string
  wr_status :: string
  wr_result_reference :: "string option"
  wr_safe_error_code :: "string option"
  wr_event_log :: "log_entry list"

record IntentRow =
  ir_id :: string
  ir_organization_id :: string
  ir_decision_id :: string
  ir_solution_plan_id :: string
  ir_stack_patch_id :: string
  ir_intent_hash :: string
  ir_merchant_id :: string
  ir_merchant_name :: string
  ir_merchant_url :: string
  ir_pack_id :: string
  ir_pack_version :: int
  ir_offer_id :: string
  ir_offer_version :: int
  ir_quote_id :: string
  ir_quote_version :: int
  ir_quote_expires_at :: py_datetime
  ir_amount :: decimal
  ir_currency :: string
  ir_expected_fulfillments :: "(string \<times> pyval) list list"
  ir_payload :: "(string \<times> pyval) list"
  ir_approval_status :: string
  ir_payment_status :: string
  ir_fulfillment_status :: string

record ApprovalRequest =
  ar_id :: string
  ar_organization_id :: string
  ar_purchase_intent_id :: string
  ar_intent_hash :: string
  ar_policy_version :: int
  ar_status :: string
  ar_required_roles :: "string list"
  ar_approved_roles :: "string list"
  ar_expires_at :: py_datetime
  ar_created_at :: int

record ApprovalEvent =
  ae_id :: string
  ae_organization_id :: string
  ae_approval_request_id :: string
  ae_intent_hash :: string
  ae_actor_id :: string
  ae_actor_role :: string
  ae_action :: string
  ae_event_key :: string
  ae_reason :: "string option"

record PaymentSession =
  ps_id :: string
  ps_organization_id :: string
  ps_purchase_intent_id :: string
  ps_provider :: string
  ps_provider_session_id :: string
  ps_provider_order_id :: string
  ps_hosted_url :: string
  ps_expires_at :: py_datetime
  ps_status :: string
  ps_created_at :: int

record PaymentAttempt =
  pa_id :: string
  pa_organization_id :: string
  pa_purchase_intent_id :: string
  pa_payment_session_id :: string
  pa_merchant_outcome :: "string option"
  pa_external_order_id :: "string option"
  pa_closed_at :: "int option"
  pa_created_at :: int

record MerchantOrder =
  mo_id :: string
  mo_organization_id :: string
  mo_purchase_intent_id :: string
  mo_merchant_adapter_id :: string
  mo_idempotency_key :: string
  mo_external_order_id :: string
  mo_status :: string
  mo_amount :: decimal
  mo_currency :: string
  mo_safe_payload :: "(string \<times> pyval) list"

record EntitlementRow =
  en_id :: string
  en_organization_id :: string
  en_purchase_intent_id :: string
  en_merchant_order_id :: string
  en_fulfillment_adapter_id :: string
  en_external_entitlement_id :: string
  en_fulfillment_item_id :: string
  en_entitlement_type :: string
  en_subject_type :: string
  en_subject_id :: string
  en_quantity :: int
  en_verification_status :: string
  en_safe_payload :: "(string \<times> pyval) list"

record ReceiptRow =
  rc_id :: string
  rc_organization_id :: string
  rc_purchase_intent_id :: string
  rc_receipt_hash :: string
  rc_payload :: "(string \<times> pyval) list"

record PurchaseReversal =
  rv_id :: string
  rv_organization_id :: string
  rv_purchase_intent_id :: string
  rv_intent_hash :: string
  rv_status :: string
  rv_requested_amount :: decimal
  rv_refunded_amount :: decimal
  rv_currency :: string
  rv_merchant_order_id :: string
  rv_provider_reference :: "string option"
  rv_provider_confirmed :: bool
  rv_reason_code :: string
  rv_safe_error_code :: "string option"
  rv_completed_at :: "int option"

record StackPatchRow =
  sp_row_id :: string
  sp_row_organization_id :: string
  sp_row_state :: string
  sp_row_payload :: "(string \<times> pyval) list"
  sp_row_patch_hash :: string

record DecisionRow =
  dr_id :: string
  dr_organization_id :: string
  dr_purchase_request_id :: string
  dr_purchase_brief_id :: string
  dr_version :: int
  dr_decision_hash :: string

record TransactionTransition =
  tt_id :: string
  tt_organization_id :: string
  tt_purchase_intent_id :: string
  tt_from_state :: "string option"
  tt_to_state :: string
  tt_attempt_id :: "string option"
  tt_actor_type :: string
  tt_actor_id :: string
  tt_reason_code :: string
  tt_event_key :: string
  tt_provider_event_ref :: "string option"
  tt_payload_hash :: string

record IdempotencyRecord =
  im_id :: string
  im_organization_id :: string
  im_actor_id :: string
  im_operation :: string
  im_idempotency_key :: string
  im_request_hash :: string
  im_state :: string
  im_response_status :: "int option"
  im_response_payload :: "((string \<times> pyval) list) option"
  im_response_reference :: "string option"

record BrowserReturnBinding =
  bb_id :: string
  bb_organization_id :: string
  bb_purchase_intent_id :: string
  bb_payment_session_id :: string
  bb_actor_id :: string
  bb_state_hash :: string
  bb_provider_session_hash :: string
  bb_return_url_hash :: string
  bb_expires_at :: py_datetime
  bb_consumed_at :: "int option"

record PurchaseBriefVersion =
  pb_id :: string
  pb_organization_id :: string
  pb_payload :: "(string \<times> pyval) list"

record PravaShoppingRun =
  sr_id :: string
  sr_organization_id :: string
  sr_status :: string
  sr_order_id :: "string option"

record tables =
  tb_outbox :: "OutboxEvent list"
  tb_workflows :: "WorkflowRun list"
  tb_intents :: "IntentRow list"
  tb_approvals :: "ApprovalRequest list"
  tb_approval_events :: "ApprovalEvent list"
  tb_sessions :: "PaymentSession list"
  tb_attempts :: "PaymentAttempt list"
  tb_orders :: "MerchantOrder list"
  tb_entitlements :: "EntitlementRow list"
  tb_receipts :: "ReceiptRow list"
  tb_reversals :: "PurchaseReversal list"
  tb_patches :: "StackPatchRow list"
  tb_decisions :: "DecisionRow list"
  tb_transitions :: "TransactionTransition list"
  tb_idempotency :: "IdempotencyRecord list"
  tb_shopping :: "PravaShoppingRun list"
  tb_bindings :: "BrowserReturnBinding list"
  tb_briefs :: "PurchaseBriefVersion list"

definition empty_tables :: tables where
  "empty_tables =
     \<lparr>tb_outbox = [], tb_workflows = [], tb_intents = [], tb_approvals = [], tb_approval_events = [],
      tb_sessions = [], tb_attempts = [], tb_orders = [], tb_entitlements = [], tb_receipts = [],
      tb_reversals = [], tb_patches = [], tb_decisions = [], tb_transitions = [], tb_idempotency = [],
      tb_shopping = [], tb_bindings = [], tb_briefs = []\<rparr>"

definition append_tables :: "tables \<Rightarrow> tables \<Rightarrow> tables" where
  "append_tables s t =
     \<lparr>tb_outbox = tb_outbox s @ tb_outbox t, tb_workflows = tb_workflows s @ tb_workflows t,
      tb_intents = tb_intents s @ tb_intents t, tb_approvals = tb_approvals s @ tb_approvals t,
      tb_approval_events = tb_approval_events s @ tb_approval_events t,
      tb_sessions = tb_sessions s @ tb_sessions t, tb_attempts = tb_attempts s @ tb_attempts t,
      tb_orders = tb_orders s @ tb_orders t, tb_entitlements = tb_entitlements s @ tb_entitlements t,
      tb_receipts = tb_receipts s @ tb_receipts t, tb_reversals = tb_reversals s @ tb_reversals t,
      tb_patches = tb_patches s @ tb_patches t, tb_decisions = tb_decisions s @ tb_decisions t,
      tb_transitions = tb_transitions s @ tb_transitions t,
      tb_idempotency = tb_idempotency s @ tb_idempotency t, tb_shopping = tb_shopping s @ tb_shopping t,
      tb_bindings = tb_bindings s @ tb_bindings t, tb_briefs = tb_briefs s @ tb_briefs t\<rparr>"

section \<open>What the database enforces at commit\<close>

text \<open>A unique index over the rows that have a key (the \<^verbatim>\<open>WHERE\<close> clause of a partial index).\<close>

definition unique_by :: "('r \<Rightarrow> 'k option) \<Rightarrow> 'r list \<Rightarrow> bool" where
  "unique_by key xs = distinct (List.map_filter key xs)"

definition open_attempt_key :: "PaymentAttempt \<Rightarrow> string option" where
  "open_attempt_key a = (if pa_closed_at a = None then Some (pa_purchase_intent_id a) else None)"

definition charged_attempt_key :: "PaymentAttempt \<Rightarrow> string option" where
  "charged_attempt_key a =
     (if pa_merchant_outcome a \<in> {Some ''APPROVED'', Some ''UNKNOWN''}
      then Some (pa_purchase_intent_id a) else None)"

definition provider_event_key :: "TransactionTransition \<Rightarrow> (string \<times> string) option" where
  "provider_event_key t = map_option (\<lambda>ref. (tt_organization_id t, ref)) (tt_provider_event_ref t)"

definition intent_checks :: "IntentRow \<Rightarrow> bool" where
  "intent_checks r =
     (ir_approval_status r \<in> {''NOT_REQUESTED'', ''PENDING'', ''APPROVED'', ''REJECTED'', ''REVOKED'',
         ''EXPIRED'', ''SUPERSEDED''}
      \<and> ir_payment_status r \<in> {''NOT_STARTED'', ''SESSION_CREATED'', ''CARDHOLDER_PENDING'',
         ''CHECKOUT_PENDING'', ''MERCHANT_APPROVED'', ''REPORTING'', ''PRAVA_COMPLETED'', ''DECLINED'',
         ''EXPIRED'', ''UNCERTAIN'', ''FAILED''}
      \<and> ir_fulfillment_status r \<in> {''NOT_STARTED'', ''PENDING'', ''PARTIAL'', ''VERIFIED'',
         ''FAILED_RETRYABLE'', ''FAILED_FINAL'', ''REVOKED''})"

definition approval_checks :: "ApprovalRequest \<Rightarrow> bool" where
  "approval_checks r =
     (ar_status r \<in> {''PENDING'', ''APPROVED'', ''REJECTED'', ''REVOKED'', ''EXPIRED'', ''SUPERSEDED''})"

definition approval_event_checks :: "ApprovalEvent \<Rightarrow> bool" where
  "approval_event_checks e = (ae_action e \<in> {''APPROVE'', ''REJECT'', ''REVOKE'', ''DELEGATE''})"

definition workflow_checks :: "WorkflowRun \<Rightarrow> bool" where
  "workflow_checks r = (wr_status r \<in> {''PENDING'', ''RUNNING'', ''COMPLETED'', ''FAILED''})"

definition reversal_checks :: "PurchaseReversal \<Rightarrow> bool" where
  "reversal_checks r =
     (rv_status r \<in> {''REQUESTED'', ''PROVIDER_PENDING'', ''PARTIALLY_REFUNDED'', ''REFUNDED'',
         ''REJECTED'', ''FAILED_RETRYABLE'', ''COMPENSATION_REQUIRED'', ''COMPENSATED'', ''CANCELLED''}
      \<and> dec_less (Dec 0 0) (rv_requested_amount r) = Inr True
      \<and> dec_le (Dec 0 0) (rv_refunded_amount r) = Inr True
      \<and> dec_le (rv_refunded_amount r) (rv_requested_amount r) = Inr True)"

definition shopping_checks :: "PravaShoppingRun \<Rightarrow> bool" where
  "shopping_checks r =
     (sr_status r \<in> {''QUOTED'', ''AWAITING_APPROVAL'', ''QUEUED'', ''RUNNING'', ''PAID'', ''FAILED''})"

definition entitlement_checks :: "EntitlementRow \<Rightarrow> bool" where
  "entitlement_checks r = (0 \<le> en_quantity r)"

definition primary_keys :: "tables \<Rightarrow> bool" where
  "primary_keys t =
     (distinct (map oe_id (tb_outbox t)) \<and> distinct (map wr_id (tb_workflows t))
      \<and> distinct (map ir_id (tb_intents t)) \<and> distinct (map ar_id (tb_approvals t))
      \<and> distinct (map ae_id (tb_approval_events t)) \<and> distinct (map ps_id (tb_sessions t))
      \<and> distinct (map pa_id (tb_attempts t)) \<and> distinct (map mo_id (tb_orders t))
      \<and> distinct (map en_id (tb_entitlements t)) \<and> distinct (map rc_id (tb_receipts t))
      \<and> distinct (map rv_id (tb_reversals t)) \<and> distinct (map sp_row_id (tb_patches t))
      \<and> distinct (map dr_id (tb_decisions t)) \<and> distinct (map tt_id (tb_transitions t))
      \<and> distinct (map im_id (tb_idempotency t)) \<and> distinct (map sr_id (tb_shopping t))
      \<and> distinct (map bb_id (tb_bindings t)) \<and> distinct (map pb_id (tb_briefs t)))"

definition unique_indexes :: "tables \<Rightarrow> bool" where
  "unique_indexes t =
     (distinct (map (\<lambda>e. (oe_organization_id e, oe_event_key e)) (tb_outbox t))
      \<and> distinct (map (\<lambda>r. (wr_organization_id r, wr_aggregate_type r, wr_aggregate_id r, wr_operation r))
           (tb_workflows t))
      \<and> distinct (map (\<lambda>i. (ir_organization_id i, ir_intent_hash i)) (tb_intents t))
      \<and> distinct (map (\<lambda>s. (ps_provider s, ps_provider_session_id s)) (tb_sessions t))
      \<and> distinct (map (\<lambda>a. (ar_organization_id a, ar_purchase_intent_id a, ar_intent_hash a)) (tb_approvals t))
      \<and> distinct (map (\<lambda>e. (ae_organization_id e, ae_event_key e)) (tb_approval_events t))
      \<and> distinct (map (\<lambda>b. (bb_organization_id b, bb_state_hash b)) (tb_bindings t))
      \<and> distinct (map (\<lambda>b. (bb_organization_id b, bb_payment_session_id b)) (tb_bindings t))
      \<and> unique_by open_attempt_key (tb_attempts t)
      \<and> unique_by charged_attempt_key (tb_attempts t)
      \<and> distinct (map (\<lambda>m. (mo_merchant_adapter_id m, mo_idempotency_key m)) (tb_orders t))
      \<and> distinct (map (\<lambda>m. (mo_merchant_adapter_id m, mo_external_order_id m)) (tb_orders t))
      \<and> distinct (map (\<lambda>e. (en_fulfillment_adapter_id e, en_external_entitlement_id e)) (tb_entitlements t))
      \<and> distinct (map rc_purchase_intent_id (tb_receipts t))
      \<and> distinct (map (\<lambda>x. (tt_organization_id x, tt_purchase_intent_id x, tt_event_key x)) (tb_transitions t))
      \<and> unique_by provider_event_key (tb_transitions t)
      \<and> distinct (map (\<lambda>i. (im_organization_id i, im_actor_id i, im_operation i, im_idempotency_key i))
           (tb_idempotency t)))"

definition row_checks :: "tables \<Rightarrow> bool" where
  "row_checks t =
     (list_all intent_checks (tb_intents t) \<and> list_all approval_checks (tb_approvals t)
      \<and> list_all approval_event_checks (tb_approval_events t)
      \<and> list_all workflow_checks (tb_workflows t) \<and> list_all reversal_checks (tb_reversals t)
      \<and> list_all shopping_checks (tb_shopping t) \<and> list_all entitlement_checks (tb_entitlements t))"

definition constraints :: "tables \<Rightarrow> bool" where
  "constraints t = (primary_keys t \<and> unique_indexes t \<and> row_checks t)"

section \<open>Transactions\<close>

text \<open>
  The world of a worker process: the tables, the pending inserts of the open transaction and its
  start time, the host's clock and random identifiers (two streams and how much of each was read),
  and the calls made to services outside the database, oldest first.
\<close>

record 'c world =
  rows :: tables
  added :: tables
  tx_now :: int
  reads :: nat
  drawn :: nat
  now_of :: "nat \<Rightarrow> int"
  hex_of :: "nat \<Rightarrow> string"
  calls :: "'c list"

type_synonym ('c, 'a) tx = "'c world \<Rightarrow> 'a result \<times> 'c world"

definition returnT :: "'a \<Rightarrow> ('c, 'a) tx" where
  "returnT x w = (Inr x, w)"

definition raiseT :: "py_error \<Rightarrow> ('c, 'a) tx" where
  "raiseT e w = (Inl e, w)"

definition bindT :: "('c, 'a) tx \<Rightarrow> ('a \<Rightarrow> ('c, 'b) tx) \<Rightarrow> ('c, 'b) tx" where
  "bindT m f w = (case m w of (Inl e, w') \<Rightarrow> (Inl e, w') | (Inr x, w') \<Rightarrow> f x w')"

definition thenT :: "('c, 'a) tx \<Rightarrow> ('c, 'b) tx \<Rightarrow> ('c, 'b) tx" where
  "thenT m n = bindT m (\<lambda>_. n)"

definition liftT :: "'a result \<Rightarrow> ('c, 'a) tx" where
  "liftT r w = (r, w)"

definition ensureT :: "bool \<Rightarrow> py_error \<Rightarrow> ('c, unit) tx" where
  "ensureT b e w = (ensure b e, w)"

definition getT :: "(tables \<Rightarrow> 'a) \<Rightarrow> ('c, 'a) tx" where
  "getT f w = (Inr (f (rows w)), w)"

definition changeT :: "(tables \<Rightarrow> tables) \<Rightarrow> ('c, unit) tx" where
  "changeT f w = (Inr (), w\<lparr>rows := f (rows w)\<rparr>)"

definition addT :: "(tables \<Rightarrow> tables) \<Rightarrow> ('c, unit) tx" where
  "addT f w = (Inr (), w\<lparr>added := f (added w)\<rparr>)"

text \<open>\<^verbatim>\<open>datetime.now(UTC)\<close> and \<^verbatim>\<open>new_id\<close>.\<close>

definition utcnow :: "('c, int) tx" where
  "utcnow w = (Inr (now_of w (reads w)), w\<lparr>reads := Suc (reads w)\<rparr>)"

definition new_id :: "string \<Rightarrow> ('c, string) tx" where
  "new_id prefix' w = (Inr (prefix' @ ''_'' @ hex_of w (drawn w)), w\<lparr>drawn := Suc (drawn w)\<rparr>)"

text \<open>\<^verbatim>\<open>Database.transaction\<close>: all of the body or, after an exception, nothing of it.\<close>

definition begin_tx :: "'c world \<Rightarrow> 'c world" where
  "begin_tx w = w\<lparr>tx_now := now_of w (reads w), added := empty_tables\<rparr>"

definition commit_tx :: "'c world \<Rightarrow> 'a \<Rightarrow> 'c world \<Rightarrow> 'a result \<times> 'c world" where
  "commit_tx before x w =
     (if constraints (append_tables (rows w) (added w))
      then (Inr x, w\<lparr>rows := append_tables (rows w) (added w), added := empty_tables\<rparr>)
      else (Inl (IntegrityError ''constraint''), w\<lparr>rows := rows before, added := empty_tables\<rparr>))"

definition transaction :: "string \<Rightarrow> ('c, 'a) tx \<Rightarrow> ('c, 'a) tx" where
  "transaction organization_id body w =
     (if organization_id = [] \<or> str_strip organization_id \<noteq> organization_id
      then (Inl (ValueError ''A verified organization_id is required''), w)
      else case body (begin_tx w) of
        (Inl e, w') \<Rightarrow> (Inl e, w'\<lparr>rows := rows w, added := empty_tables\<rparr>)
      | (Inr x, w') \<Rightarrow> commit_tx w x w')"

text \<open>The ways a statement's rows become one object.\<close>

definition scalar_one_or_none :: "'r list \<Rightarrow> 'r option result" where
  "scalar_one_or_none xs = (case xs of [] \<Rightarrow> Inr None | [x] \<Rightarrow> Inr (Some x) | _ \<Rightarrow> Inl MultipleResultsFound)"

definition scalar_one :: "'r list \<Rightarrow> 'r result" where
  "scalar_one xs = (case xs of [] \<Rightarrow> Inl NoResultFound | [x] \<Rightarrow> Inr x | _ \<Rightarrow> Inl MultipleResultsFound)"

definition one_or_missing :: "'r list \<Rightarrow> 'r result" where
  "one_or_missing xs = (case xs of [] \<Rightarrow> Inl RecordNotFound | [x] \<Rightarrow> Inr x | _ \<Rightarrow> Inl MultipleResultsFound)"

definition select :: "(tables \<Rightarrow> 'r list) \<Rightarrow> ('r \<Rightarrow> bool) \<Rightarrow> ('r list \<Rightarrow> 'a result) \<Rightarrow> ('c, 'a) tx" where
  "select table where' one w = (one (filter where' (table (rows w))), w)"

text \<open>\<^verbatim>\<open>.order_by(created_at.desc()).limit(1)\<close>; rows of one instant come in table order.\<close>

fun latest :: "('r \<Rightarrow> int) \<Rightarrow> 'r list \<Rightarrow> 'r option" where
  "latest created [] = None"
| "latest created (x # xs) =
     (case latest created xs of
        None \<Rightarrow> Some x
      | Some y \<Rightarrow> if created x < created y then Some y else Some x)"

text \<open>Attribute assignment on a loaded object, found by its primary key.\<close>

definition assign :: "('r \<Rightarrow> string) \<Rightarrow> string \<Rightarrow> ('r \<Rightarrow> 'r) \<Rightarrow> 'r list \<Rightarrow> 'r list" where
  "assign key i f xs = map (\<lambda>r. if key r = i then f r else r) xs"

definition set_intent :: "string \<Rightarrow> (IntentRow \<Rightarrow> IntentRow) \<Rightarrow> ('c, unit) tx" where
  "set_intent i f = changeT (\<lambda>t. t\<lparr>tb_intents := assign ir_id i f (tb_intents t)\<rparr>)"

definition set_session :: "string \<Rightarrow> (PaymentSession \<Rightarrow> PaymentSession) \<Rightarrow> ('c, unit) tx" where
  "set_session i f = changeT (\<lambda>t. t\<lparr>tb_sessions := assign ps_id i f (tb_sessions t)\<rparr>)"

definition set_attempt :: "string \<Rightarrow> (PaymentAttempt \<Rightarrow> PaymentAttempt) \<Rightarrow> ('c, unit) tx" where
  "set_attempt i f = changeT (\<lambda>t. t\<lparr>tb_attempts := assign pa_id i f (tb_attempts t)\<rparr>)"

definition set_approval :: "string \<Rightarrow> (ApprovalRequest \<Rightarrow> ApprovalRequest) \<Rightarrow> ('c, unit) tx" where
  "set_approval i f = changeT (\<lambda>t. t\<lparr>tb_approvals := assign ar_id i f (tb_approvals t)\<rparr>)"

definition set_workflow :: "string \<Rightarrow> (WorkflowRun \<Rightarrow> WorkflowRun) \<Rightarrow> ('c, unit) tx" where
  "set_workflow i f = changeT (\<lambda>t. t\<lparr>tb_workflows := assign wr_id i f (tb_workflows t)\<rparr>)"

definition set_event :: "string \<Rightarrow> (OutboxEvent \<Rightarrow> OutboxEvent) \<Rightarrow> ('c, unit) tx" where
  "set_event i f = changeT (\<lambda>t. t\<lparr>tb_outbox := assign oe_id i f (tb_outbox t)\<rparr>)"

definition set_reversal :: "string \<Rightarrow> (PurchaseReversal \<Rightarrow> PurchaseReversal) \<Rightarrow> ('c, unit) tx" where
  "set_reversal i f = changeT (\<lambda>t. t\<lparr>tb_reversals := assign rv_id i f (tb_reversals t)\<rparr>)"

definition set_patch :: "string \<Rightarrow> (StackPatchRow \<Rightarrow> StackPatchRow) \<Rightarrow> ('c, unit) tx" where
  "set_patch i f = changeT (\<lambda>t. t\<lparr>tb_patches := assign sp_row_id i f (tb_patches t)\<rparr>)"

definition set_binding :: "string \<Rightarrow> (BrowserReturnBinding \<Rightarrow> BrowserReturnBinding) \<Rightarrow> ('c, unit) tx" where
  "set_binding i f = changeT (\<lambda>t. t\<lparr>tb_bindings := assign bb_id i f (tb_bindings t)\<rparr>)"

definition set_shopping :: "string \<Rightarrow> (PravaShoppingRun \<Rightarrow> PravaShoppingRun) \<Rightarrow> ('c, unit) tx" where
  "set_shopping i f = changeT (\<lambda>t. t\<lparr>tb_shopping := assign sr_id i f (tb_shopping t)\<rparr>)"


section \<open>The repository\<close>

text \<open>Every operation takes the tenant of its repository, \<open>org\<close>, first.\<close>

definition get_purchase_intent :: "string \<Rightarrow> string \<Rightarrow> ('c, IntentRow) tx" where
  "get_purchase_intent org intent_id =
     select tb_intents (\<lambda>r. ir_id r = intent_id \<and> ir_organization_id r = org) one_or_missing"

definition add_outbox ::
    "string \<Rightarrow> string \<Rightarrow> string \<Rightarrow> string \<Rightarrow> string \<Rightarrow> (string \<times> pyval) list \<Rightarrow> ('c, OutboxEvent) tx" where
  "add_outbox org aggregate_type aggregate_id event_type event_key payload =
     bindT (select tb_outbox (\<lambda>e. oe_organization_id e = org \<and> oe_event_key e = event_key) scalar_one_or_none)
       (\<lambda>existing. case existing of
          Some e \<Rightarrow> returnT e
        | None \<Rightarrow>
            bindT (new_id ''out'') (\<lambda>i.
            bindT utcnow (\<lambda>now.
            let e = \<lparr>oe_id = i, oe_organization_id = org, oe_aggregate_type = aggregate_type,
                     oe_aggregate_id = aggregate_id, oe_event_type = event_type, oe_event_key = event_key,
                     oe_payload = payload, oe_occurred_at = now, oe_published_at = None\<rparr>
            in thenT (addT (\<lambda>t. t\<lparr>tb_outbox := tb_outbox t @ [e]\<rparr>)) (returnT e))))"

definition state_of :: "string \<Rightarrow> IntentRow \<Rightarrow> string" where
  "state_of state_field r =
     (if state_field = ''approval_status'' then ir_approval_status r
      else if state_field = ''payment_status'' then ir_payment_status r else ir_fulfillment_status r)"

definition set_state :: "string \<Rightarrow> string \<Rightarrow> IntentRow \<Rightarrow> IntentRow" where
  "set_state state_field s r =
     (if state_field = ''approval_status'' then r\<lparr>ir_approval_status := s\<rparr>
      else if state_field = ''payment_status'' then r\<lparr>ir_payment_status := s\<rparr>
      else r\<lparr>ir_fulfillment_status := s\<rparr>)"

text \<open>The keyword arguments of \<^verbatim>\<open>transition_purchase_intent\<close>.\<close>

record transition_args =
  ta_intent_id :: string
  ta_state_field :: string
  ta_allowed_from :: "string list"
  ta_to_state :: string
  ta_event_key :: string
  ta_actor_type :: string
  ta_actor_id :: string
  ta_reason_code :: string
  ta_payload_hash :: string
  ta_attempt_id :: "string option"
  ta_provider_event_ref :: "string option"

definition replay_conflict :: py_error where
  "replay_conflict = PersistenceConflict ''A transition event key was replayed with different semantics''"

definition transition_conflict :: py_error where
  "transition_conflict = PersistenceConflict ''Transition is not allowed''"

definition transition_row :: "string \<Rightarrow> transition_args \<Rightarrow> string \<Rightarrow> string \<Rightarrow> TransactionTransition" where
  "transition_row org a current i =
     \<lparr>tt_id = i, tt_organization_id = org, tt_purchase_intent_id = ta_intent_id a,
      tt_from_state = Some current, tt_to_state = ta_to_state a, tt_attempt_id = ta_attempt_id a,
      tt_actor_type = ta_actor_type a, tt_actor_id = ta_actor_id a, tt_reason_code = ta_reason_code a,
      tt_event_key = ta_event_key a, tt_provider_event_ref = ta_provider_event_ref a,
      tt_payload_hash = ta_payload_hash a\<rparr>"

definition apply_transition :: "string \<Rightarrow> transition_args \<Rightarrow> string \<Rightarrow> ('c, unit) tx" where
  "apply_transition org a current =
     thenT (set_intent (ta_intent_id a) (set_state (ta_state_field a) (ta_to_state a)))
     (bindT (new_id ''tr'') (\<lambda>i.
      thenT (addT (\<lambda>t. t\<lparr>tb_transitions := tb_transitions t @ [transition_row org a current i]\<rparr>))
      (bindT (add_outbox org ''purchase_intent'' (ta_intent_id a)
        (''purchase_intent.'' @ ta_state_field a @ ''.changed'') (''outbox:'' @ ta_event_key a)
        [(''purchase_intent_id'', PStr (ta_intent_id a)), (''state_field'', PStr (ta_state_field a)),
         (''from'', PStr current), (''to'', PStr (ta_to_state a)), (''transition_id'', PStr i)])
       (\<lambda>_. returnT ()))))"

definition transition_purchase_intent :: "string \<Rightarrow> transition_args \<Rightarrow> ('c, unit) tx" where
  "transition_purchase_intent org a =
     thenT (ensureT (ta_state_field a \<in> {''approval_status'', ''payment_status'', ''fulfillment_status''})
        (ValueError ''Unsupported state field''))
     (bindT (get_purchase_intent org (ta_intent_id a)) (\<lambda>intent.
      let current = state_of (ta_state_field a) intent
      in bindT (select tb_transitions
             (\<lambda>t. tt_organization_id t = org \<and> tt_purchase_intent_id t = ta_intent_id a
                \<and> tt_event_key t = ta_event_key a) scalar_one_or_none) (\<lambda>duplicate.
         case duplicate of
           Some d \<Rightarrow> ensureT (tt_to_state d = ta_to_state a \<and> tt_payload_hash d = ta_payload_hash a)
                       replay_conflict
         | None \<Rightarrow>
             thenT (ensureT (current \<in> set (ta_allowed_from a)) transition_conflict)
               (apply_transition org a current))))"

definition supersede_open_approvals :: "string \<Rightarrow> string \<Rightarrow> ('c, unit) tx" where
  "supersede_open_approvals org intent_id =
     changeT (\<lambda>t. t\<lparr>tb_approvals := map (\<lambda>r.
       if ar_organization_id r = org \<and> ar_purchase_intent_id r = intent_id
          \<and> ar_status r \<in> {''PENDING'', ''APPROVED''}
       then r\<lparr>ar_status := ''SUPERSEDED''\<rparr> else r) (tb_approvals t)\<rparr>)"

definition supersede_approval_for_mutation :: "string \<Rightarrow> string \<Rightarrow> string \<Rightarrow> string \<Rightarrow> ('c, unit) tx" where
  "supersede_approval_for_mutation org intent_id current_intent_hash mutation_event_key =
     bindT (get_purchase_intent org intent_id) (\<lambda>intent.
     if ir_intent_hash intent = current_intent_hash then returnT ()
     else if ir_approval_status intent \<in> {''PENDING'', ''APPROVED''} then
       thenT (set_intent intent_id (\<lambda>r. r\<lparr>ir_approval_status := ''SUPERSEDED''\<rparr>))
       (thenT (supersede_open_approvals org intent_id)
       (bindT (add_outbox org ''purchase_intent'' intent_id ''approval.superseded'' mutation_event_key
          [(''purchase_intent_id'', PStr intent_id), (''reason'', PStr ''BOUND_INPUT_CHANGED'')])
        (\<lambda>_. returnT ())))
     else returnT ())"

definition safe_pre_checkout_states :: "string list" where
  "safe_pre_checkout_states =
     [''NOT_STARTED'', ''SESSION_CREATED'', ''CARDHOLDER_PENDING'', ''DECLINED'', ''EXPIRED'', ''FAILED'']"

definition expire_open_sessions :: "string \<Rightarrow> string \<Rightarrow> ('c, unit) tx" where
  "expire_open_sessions org intent_id =
     changeT (\<lambda>t. t\<lparr>tb_sessions := map (\<lambda>r.
       if ps_organization_id r = org \<and> ps_purchase_intent_id r = intent_id
          \<and> ps_status r \<in> {''SESSION_CREATED'', ''CARDHOLDER_PENDING''}
       then r\<lparr>ps_status := ''EXPIRED''\<rparr> else r) (tb_sessions t)\<rparr>)"

definition supersede_intent :: "string \<Rightarrow> string \<Rightarrow> string \<Rightarrow> IntentRow \<Rightarrow> ('c, nat) tx" where
  "supersede_intent org current_decision_id proposal_id intent =
     thenT (ensureT (ir_payment_status intent \<in> set safe_pre_checkout_states)
        (PersistenceConflict ''A Decision cannot change while an older intent has an in-flight checkout''))
     (let approval_open = ir_approval_status intent \<in> {''NOT_REQUESTED'', ''PENDING'', ''APPROVED''};
          session_open = ir_payment_status intent \<in> {''SESSION_CREATED'', ''CARDHOLDER_PENDING''}
      in thenT (if approval_open
                then thenT (set_intent (ir_id intent) (\<lambda>r. r\<lparr>ir_approval_status := ''SUPERSEDED''\<rparr>))
                       (supersede_open_approvals org (ir_id intent))
                else returnT ())
        (thenT (if session_open
                then thenT (set_intent (ir_id intent) (\<lambda>r. r\<lparr>ir_payment_status := ''EXPIRED''\<rparr>))
                       (expire_open_sessions org (ir_id intent))
                else returnT ())
         (if approval_open \<or> session_open
          then bindT (add_outbox org ''purchase_intent'' (ir_id intent) ''approval.superseded''
                 (''decision-change:'' @ proposal_id @ '':'' @ ir_id intent)
                 [(''purchase_intent_id'', PStr (ir_id intent)),
                  (''superseded_decision_id'', PStr (ir_decision_id intent)),
                  (''current_decision_id'', PStr current_decision_id),
                  (''reason'', PStr ''DECISION_VERSION_CHANGED'')]) (\<lambda>_. returnT 1)
          else returnT 0)))"

fun supersede_all :: "string \<Rightarrow> string \<Rightarrow> string \<Rightarrow> IntentRow list \<Rightarrow> ('c, nat) tx" where
  "supersede_all org current_decision_id proposal_id [] = returnT 0"
| "supersede_all org current_decision_id proposal_id (i # is) =
     bindT (supersede_intent org current_decision_id proposal_id i) (\<lambda>n.
     bindT (supersede_all org current_decision_id proposal_id is) (\<lambda>m. returnT (n + m)))"

definition supersede_intents_for_decision_change :: "string \<Rightarrow> string \<Rightarrow> string \<Rightarrow> string \<Rightarrow> ('c, nat) tx" where
  "supersede_intents_for_decision_change org purchase_request_id current_decision_id proposal_id =
     bindT (getT (\<lambda>t. filter (\<lambda>i. ir_organization_id i = org \<and>
         list_ex (\<lambda>d. dr_id d = ir_decision_id i \<and> dr_organization_id d = org
           \<and> dr_purchase_request_id d = purchase_request_id \<and> dr_id d \<noteq> current_decision_id)
           (tb_decisions t)) (tb_intents t)))
       (supersede_all org current_decision_id proposal_id)"

definition record_approval_event ::
    "string \<Rightarrow> string \<Rightarrow> string \<Rightarrow> string \<Rightarrow> string \<Rightarrow> string \<Rightarrow> string \<Rightarrow> string option \<Rightarrow> ('c, ApprovalEvent) tx" where
  "record_approval_event org approval_request_id intent_hash actor_id actor_role action event_key reason =
     thenT (ensureT (action \<in> {''APPROVE'', ''REJECT'', ''REVOKE'', ''DELEGATE''})
        (PersistenceConflict ''Approval event action is unsupported''))
     (bindT (select tb_approvals (\<lambda>r. ar_id r = approval_request_id \<and> ar_organization_id r = org)
        one_or_missing) (\<lambda>approval.
      bindT (get_purchase_intent org (ar_purchase_intent_id approval)) (\<lambda>intent.
      thenT (ensureT (intent_hash = ar_intent_hash approval \<and> intent_hash = ir_intent_hash intent)
        (PersistenceConflict ''Approval does not bind the current exact intent hash''))
      (thenT (ensureT (ar_status approval \<in> {''PENDING'', ''APPROVED''})
        (PersistenceConflict ''Approval request is not open''))
      (bindT (select tb_approval_events (\<lambda>e. ae_organization_id e = org \<and> ae_event_key e = event_key)
        scalar_one_or_none) (\<lambda>existing.
       case existing of
         Some e \<Rightarrow> returnT e
       | None \<Rightarrow>
           bindT (new_id ''ape'') (\<lambda>i.
           let e = \<lparr>ae_id = i, ae_organization_id = org, ae_approval_request_id = approval_request_id,
                    ae_intent_hash = intent_hash, ae_actor_id = actor_id, ae_actor_role = actor_role,
                    ae_action = action, ae_event_key = event_key, ae_reason = reason\<rparr>
           in thenT (addT (\<lambda>t. t\<lparr>tb_approval_events := tb_approval_events t @ [e]\<rparr>)) (returnT e))))))))"


text \<open>
  \<open>claim_idempotency\<close> inserts its record in a savepoint and flushes it, so the row is visible at
  once. The insert fails when another transaction took the same scope after the first look: \<open>raced\<close>
  is \<open>None\<close> when that did not happen and otherwise the row a second look finds, if any.
\<close>

record IdempotencyClaim =
  ic_record :: IdempotencyRecord
  ic_replay :: bool

definition claim_of :: "string \<Rightarrow> IdempotencyRecord \<Rightarrow> IdempotencyClaim result" where
  "claim_of request_hash existing =
     (if im_request_hash existing \<noteq> request_hash
      then Inl (IdempotencyConflict ''Idempotency key was already used with a different request body'')
      else Inr \<lparr>ic_record = existing, ic_replay = (im_state existing = ''COMPLETED'')\<rparr>)"

definition claim_idempotency ::
    "string \<Rightarrow> IdempotencyRecord option option \<Rightarrow> string \<Rightarrow> string \<Rightarrow> string \<Rightarrow> string \<Rightarrow>
     ('c, IdempotencyClaim) tx" where
  "claim_idempotency org raced actor_id operation idempotency_key request_hash =
     bindT (select tb_idempotency (\<lambda>r. im_organization_id r = org \<and> im_actor_id r = actor_id
         \<and> im_operation r = operation \<and> im_idempotency_key r = idempotency_key) scalar_one_or_none) (\<lambda>existing.
     case existing of
       Some r \<Rightarrow> liftT (claim_of request_hash r)
     | None \<Rightarrow>
         bindT (new_id ''idem'') (\<lambda>i.
         let r = \<lparr>im_id = i, im_organization_id = org, im_actor_id = actor_id, im_operation = operation,
                  im_idempotency_key = idempotency_key, im_request_hash = request_hash,
                  im_state = ''STARTED'', im_response_status = None, im_response_payload = None,
                  im_response_reference = None\<rparr>
         in case raced of
              None \<Rightarrow> thenT (changeT (\<lambda>t. t\<lparr>tb_idempotency := tb_idempotency t @ [r]\<rparr>))
                        (returnT \<lparr>ic_record = r, ic_replay = False\<rparr>)
            | Some None \<Rightarrow> raiseT (PersistenceConflict ''An idempotency claim raced and must be retried'')
            | Some (Some other) \<Rightarrow> liftT (claim_of request_hash other)))"

definition complete_idempotency ::
    "string \<Rightarrow> IdempotencyRecord \<Rightarrow> int \<Rightarrow> (string \<times> pyval) list \<Rightarrow> string option \<Rightarrow> ('c, unit) tx" where
  "complete_idempotency org record' response_status response_payload response_reference =
     thenT (ensureT (im_organization_id record' = org) (PersistenceConflict ''Cross-tenant write rejected''))
     (changeT (\<lambda>t. t\<lparr>tb_idempotency := assign im_id (im_id record')
        (\<lambda>r. r\<lparr>im_state := ''COMPLETED'', im_response_status := Some response_status,
              im_response_payload := Some response_payload,
              im_response_reference := response_reference\<rparr>) (tb_idempotency t)\<rparr>))"

section \<open>Reasoning about transactions\<close>

named_theorems tx_simps \<open>what the steps of a transaction do to the world\<close>

lemma bindT_Inr [result_simps]:
  "bindT m f w = (Inr y, w') \<longleftrightarrow> (\<exists>x u. m w = (Inr x, u) \<and> f x u = (Inr y, w'))"
  by (auto simp: bindT_def split: prod.splits sum.splits)

lemma bindT_Inl [result_simps]:
  "bindT m f w = (Inl e, w') \<longleftrightarrow> m w = (Inl e, w') \<or> (\<exists>x u. m w = (Inr x, u) \<and> f x u = (Inl e, w'))"
  by (auto simp: bindT_def split: prod.splits sum.splits)

lemma bindT_run [tx_simps]:
  "m w = (Inr x, u) \<Longrightarrow> bindT m f w = f x u"
  "m w = (Inl e, u) \<Longrightarrow> bindT m f w = (Inl e, u)"
  by (simp_all add: bindT_def)

lemma thenT_Inr [result_simps]:
  "thenT m n w = (Inr y, w') \<longleftrightarrow> (\<exists>x u. m w = (Inr x, u) \<and> n u = (Inr y, w'))"
  by (simp add: thenT_def bindT_Inr)

lemma step_simps [simp]:
  "returnT x w = (q1, w') \<longleftrightarrow> q1 = Inr x \<and> w' = w"
  "raiseT e w = (q2, w') \<longleftrightarrow> q2 = Inl e \<and> w' = w"
  "liftT q w = (q3, w') \<longleftrightarrow> q = q3 \<and> w' = w"
  "ensureT b e w = (q4, w') \<longleftrightarrow> ensure b e = q4 \<and> w' = w"
  "getT f w = (q5, w') \<longleftrightarrow> q5 = Inr (f (rows w)) \<and> w' = w"
  "select table wh one w = (q6, w') \<longleftrightarrow> one (filter wh (table (rows w))) = q6 \<and> w' = w"
  "changeT g w = (q7, w') \<longleftrightarrow> q7 = Inr () \<and> w' = w\<lparr>rows := g (rows w)\<rparr>"
  "addT g w = (q8, w') \<longleftrightarrow> q8 = Inr () \<and> w' = w\<lparr>added := g (added w)\<rparr>"
  "utcnow w = (q9, w') \<longleftrightarrow> q9 = Inr (now_of w (reads w)) \<and> w' = w\<lparr>reads := Suc (reads w)\<rparr>"
  "new_id p w = (q10, w') \<longleftrightarrow> q10 = Inr (p @ ''_'' @ hex_of w (drawn w)) \<and> w' = w\<lparr>drawn := Suc (drawn w)\<rparr>"
  by (auto simp: returnT_def raiseT_def liftT_def ensureT_def getT_def select_def changeT_def addT_def
      utcnow_def new_id_def)

text \<open>Running a transaction forwards.\<close>

lemmas tx_run = bindT_def thenT_def returnT_def raiseT_def liftT_def ensureT_def getT_def select_def
  changeT_def addT_def utcnow_def new_id_def

lemma one_row [result_simps]:
  "scalar_one_or_none xs = Inr (Some x) \<longleftrightarrow> xs = [x]"
  "scalar_one_or_none xs = Inr None \<longleftrightarrow> xs = []"
  "scalar_one xs = Inr x \<longleftrightarrow> xs = [x]"
  "one_or_missing xs = Inr x \<longleftrightarrow> xs = [x]"
  by (auto simp: scalar_one_or_none_def scalar_one_def one_or_missing_def split: list.splits)

lemma transaction_Inr:
  "transaction org body w = (Inr x, w') \<longleftrightarrow>
     org \<noteq> [] \<and> str_strip org = org
     \<and> (\<exists>u. body (begin_tx w) = (Inr x, u) \<and> constraints (append_tables (rows u) (added u))
          \<and> w' = u\<lparr>rows := append_tables (rows u) (added u), added := empty_tables\<rparr>)"
  by (auto simp: transaction_def commit_tx_def split: prod.splits sum.splits if_splits)

text \<open>A transaction that does not return leaves every table as it was.\<close>

lemma transaction_Inl_rows: "transaction org body w = (Inl e, w') \<Longrightarrow> rows w' = rows w"
  by (auto simp: transaction_def commit_tx_def split: prod.splits sum.splits if_splits)

lemma begin_tx_simps [simp]:
  "rows (begin_tx w) = rows w" "added (begin_tx w) = empty_tables" "calls (begin_tx w) = calls w"
  "hex_of (begin_tx w) = hex_of w" "now_of (begin_tx w) = now_of w"
  "reads (begin_tx w) = reads w" "drawn (begin_tx w) = drawn w" "tx_now (begin_tx w) = now_of w (reads w)"
  by (simp_all add: begin_tx_def)

lemma map_assign: "(\<And>r. g (f r) = g r) \<Longrightarrow> map g (assign key i f xs) = map g xs"
  by (auto simp: assign_def)

lemma list_all_assign:
  "list_all P xs \<Longrightarrow> (\<And>r. r \<in> set xs \<Longrightarrow> key r = i \<Longrightarrow> P r \<Longrightarrow> P (f r)) \<Longrightarrow> list_all P (assign key i f xs)"
  by (auto simp: assign_def list_all_iff)

lemma unique_by_assign:
  "(\<And>r. g (f r) = g r) \<Longrightarrow> unique_by g (assign key i f xs) = unique_by g xs"
proof -
  assume same: "\<And>r. g (f r) = g r"
  have "List.map_filter g (assign key i f xs) = List.map_filter g xs"
    using same by (induction xs) (auto simp: assign_def List.map_filter_simps split: option.splits)
  then show ?thesis by (simp add: unique_by_def)
qed

lemma length_assign [simp]: "length (assign key i f xs) = length xs"
  by (simp add: assign_def)

lemma set_assign: "set (assign key i f xs) = {f r |r. r \<in> set xs \<and> key r = i} \<union> {r. r \<in> set xs \<and> key r \<noteq> i}"
  by (auto simp: assign_def image_iff)

lemma filter_assign:
  assumes "\<And>r. key (f r) = key r" "\<And>r. P (f r) = P r"
  shows "filter P (assign key i f xs) = assign key i f (filter P xs)"
  using assms by (induction xs) (auto simp: assign_def)

lemma append_empty [simp]: "append_tables t empty_tables = t"
  by (simp add: append_tables_def empty_tables_def)

lemma filter_key_one:
  assumes "distinct (map key xs)" "filter (\<lambda>r. key r = i \<and> P r) xs = y # ys"
  shows "ys = [] \<and> y \<in> set xs \<and> key y = i \<and> P y"
proof -
  have "distinct (map key (filter (\<lambda>r. key r = i \<and> P r) xs))" using assms(1) by (simp add: distinct_map_filter)
  moreover have "key r = i" if "r \<in> set (y # ys)" for r
    using that unfolding assms(2) [symmetric] by simp
  ultimately have "ys = []" using assms(2) by (cases ys) auto
  moreover have "y \<in> set (filter (\<lambda>r. key r = i \<and> P r) xs)" using assms(2) by simp
  ultimately show ?thesis by simp
qed

lemma filter_key_some:
  assumes "distinct (map key xs)" "y \<in> set xs" "key y = i" "P y"
  shows "filter (\<lambda>r. key r = i \<and> P r) xs = [y]"
proof -
  obtain z zs where z: "filter (\<lambda>r. key r = i \<and> P r) xs = z # zs"
    using assms(2-4) by (metis (mono_tags, lifting) filter_empty_conv list.exhaust)
  with filter_key_one [OF assms(1) z] assms(2-4) show ?thesis
    by (metis (no_types, lifting) assms(1) distinct_map inj_onD)
qed

end
