(* ===== verification/Outbox.thy ===== *)
theory Outbox
  imports WorkflowStore Contracts
begin

text \<open>
  \<^verbatim>\<open>services/worker/sira_worker/outbox.py\<close>: delivery of outbox events into Temporal workflows.
  One delivery is a read transaction that picks the oldest unpublished event, a start call with a
  workflow id the payload determines, and a write transaction that records the publication; an event
  whose payload does not match its contract is quarantined instead. Temporal is not part of the
  program: \<open>start\<close> takes its state, an id and a request and gives its reply and next state.
\<close>

section \<open>Requests\<close>

definition CHECKOUT_EVENT_TYPE :: string where
  "CHECKOUT_EVENT_TYPE = ''purchase_checkout.requested''"

definition REVERSAL_EVENT_TYPE :: string where
  "REVERSAL_EVENT_TYPE = ''purchase_reversal.requested''"

definition PRAVA_MCP_CHECKOUT_EVENT_TYPE :: string where
  "PRAVA_MCP_CHECKOUT_EVENT_TYPE = ''prava_mcp_checkout.requested''"

datatype workflow_request =
    CheckoutRequest PurchaseCheckoutWorkflowInput
  | ReversalRequest PurchaseReversalWorkflowInput
  | PravaRequest PravaShoppingWorkflowInput

record dispatcher =
  dp_merchant_adapter_id :: string
  dp_task_queue :: string
  dp_organization_ids :: "string list"
  dp_event_types :: "string list"

definition mk_dispatcher ::
    "string \<Rightarrow> string \<Rightarrow> string list \<Rightarrow> string list option \<Rightarrow> rat \<Rightarrow> dispatcher result" where
  "mk_dispatcher task_queue merchant_adapter_id organization_ids event_types poll_interval =
     bindR (ensure (str_strip task_queue \<noteq> [] \<and> str_strip merchant_adapter_id \<noteq> [] \<and> organization_ids \<noteq> [])
              (ValueError ''dispatcher configuration is incomplete'')) (\<lambda>_.
     bindR (ensure (list_all (\<lambda>v. str_strip v \<noteq> [] \<and> str_strip v = v) organization_ids)
              (ValueError ''dispatcher organization IDs must be explicit normalized values'')) (\<lambda>_.
     bindR (ensure (0 < poll_interval) (ValueError ''dispatcher poll interval must be positive'')) (\<lambda>_.
     Inr \<lparr>dp_merchant_adapter_id = merchant_adapter_id, dp_task_queue = task_queue,
          dp_organization_ids = organization_ids,
          dp_event_types =
            (case event_types of
               Some (t # ts) \<Rightarrow> t # ts
             | _ \<Rightarrow> [CHECKOUT_EVENT_TYPE, REVERSAL_EVENT_TYPE, PRAVA_MCP_CHECKOUT_EVENT_TYPE])\<rparr>)))"

text \<open>A payload with exactly the required keys, each a non-empty string.\<close>

definition safe_payload :: "string list \<Rightarrow> (string \<times> pyval) list \<Rightarrow> bool" where
  "safe_payload required payload =
     (set (map fst payload) = set required
      \<and> list_all (\<lambda>n. case map_of payload n of Some (PStr s) \<Rightarrow> s \<noteq> [] | _ \<Rightarrow> False) required)"

definition text_of :: "(string \<times> pyval) list \<Rightarrow> string \<Rightarrow> string" where
  "text_of payload n = (case map_of payload n of Some (PStr s) \<Rightarrow> s | _ \<Rightarrow> [])"

definition checkout_fields :: "string list" where
  "checkout_fields =
     [''workflow_id'', ''purchase_intent_id'', ''intent_hash'', ''payment_session_id'', ''prava_session_id'']"

definition reversal_fields :: "string list" where
  "reversal_fields =
     [''workflow_id'', ''reversal_id'', ''purchase_intent_id'', ''intent_hash'', ''merchant_order_id'',
      ''amount'', ''currency'', ''kind'', ''reason_code'']"

definition prava_fields :: "string list" where
  "prava_fields = [''workflow_id'', ''shopping_run_id'', ''checkout_session_id'', ''payment_session_id'']"

definition checkout_workflow_request ::
    "dispatcher \<Rightarrow> string \<Rightarrow> (string \<times> pyval) list \<Rightarrow> (string \<times> workflow_request) result" where
  "checkout_workflow_request d organization_id payload =
     bindR (ensure (safe_payload checkout_fields payload)
              (ValueError ''checkout outbox payload does not match the safe contract'')) (\<lambda>_.
     let purchase_intent_id = text_of payload ''purchase_intent_id'';
         workflow_id = text_of payload ''workflow_id'';
         request = \<lparr>cwi_organization_id = organization_id, cwi_purchase_intent_id = purchase_intent_id,
                    cwi_intent_hash = text_of payload ''intent_hash'',
                    cwi_prava_session_id = text_of payload ''prava_session_id'',
                    cwi_merchant_adapter_id = dp_merchant_adapter_id d, cwi_idempotency_key = workflow_id\<rparr>
     in bindR (ensure (workflow_id = ''wf_checkout_'' @ purchase_intent_id)
                 (ValueError ''checkout workflow identity is not deterministic'')) (\<lambda>_.
        bindR (assert_credential_free_contract (obj payload)) (\<lambda>_.
        bindR (assert_credential_free_contract (PurchaseCheckoutWorkflowInput_pyval request)) (\<lambda>_.
        Inr (workflow_id, CheckoutRequest request)))))"

definition reversal_workflow_request ::
    "string \<Rightarrow> (string \<times> pyval) list \<Rightarrow> (string \<times> workflow_request) result" where
  "reversal_workflow_request organization_id payload =
     bindR (ensure (safe_payload reversal_fields payload)
              (ValueError ''reversal outbox payload does not match the safe contract'')) (\<lambda>_.
     let reversal_id = text_of payload ''reversal_id'';
         workflow_id = text_of payload ''workflow_id'';
         request = \<lparr>rwi_organization_id = organization_id, rwi_reversal_id = reversal_id,
                    rwi_purchase_intent_id = text_of payload ''purchase_intent_id'',
                    rwi_intent_hash = text_of payload ''intent_hash'', rwi_idempotency_key = workflow_id\<rparr>
     in bindR (ensure (workflow_id = ''wf_reversal_'' @ reversal_id)
                 (ValueError ''reversal workflow identity is not deterministic'')) (\<lambda>_.
        bindR (assert_credential_free_contract (obj payload)) (\<lambda>_.
        bindR (assert_credential_free_contract (PurchaseReversalWorkflowInput_pyval request)) (\<lambda>_.
        Inr (workflow_id, ReversalRequest request)))))"

definition prava_workflow_request ::
    "string \<Rightarrow> (string \<times> pyval) list \<Rightarrow> (string \<times> workflow_request) result" where
  "prava_workflow_request organization_id payload =
     bindR (ensure (safe_payload prava_fields payload)
              (ValueError ''Prava outbox payload does not match the safe contract'')) (\<lambda>_.
     let shopping_run_id = text_of payload ''shopping_run_id'';
         workflow_id = text_of payload ''workflow_id'';
         request = \<lparr>swi_organization_id = organization_id, swi_shopping_run_id = shopping_run_id,
                    swi_checkout_session_id = text_of payload ''checkout_session_id'',
                    swi_payment_session_id = text_of payload ''payment_session_id''\<rparr>
     in bindR (ensure (workflow_id = ''wf_prava_shop_'' @ shopping_run_id)
                 (ValueError ''Prava workflow identity is not deterministic'')) (\<lambda>_.
        bindR (assert_credential_free_contract (obj payload)) (\<lambda>_.
        bindR (assert_credential_free_contract (PravaShoppingWorkflowInput_pyval request)) (\<lambda>_.
        Inr (workflow_id, PravaRequest request)))))"

definition event_request :: "dispatcher \<Rightarrow> string \<Rightarrow> OutboxEvent \<Rightarrow> (string \<times> workflow_request) result" where
  "event_request d organization_id e =
     (if oe_event_type e = CHECKOUT_EVENT_TYPE then checkout_workflow_request d organization_id (oe_payload e)
      else if oe_event_type e = REVERSAL_EVENT_TYPE then reversal_workflow_request organization_id (oe_payload e)
      else prava_workflow_request organization_id (oe_payload e))"

section \<open>The two transactions of a delivery\<close>

definition event_key :: "OutboxEvent \<Rightarrow> int \<times> string" where
  "event_key e = (oe_occurred_at e, oe_id e)"

definition pending_events :: "dispatcher \<Rightarrow> string \<Rightarrow> tables \<Rightarrow> OutboxEvent list" where
  "pending_events d organization_id t =
     sort_key event_key (filter (\<lambda>e. oe_organization_id e = organization_id
       \<and> oe_event_type e \<in> set (dp_event_types d) \<and> oe_published_at e = None) (tb_outbox t))"

definition next_event :: "dispatcher \<Rightarrow> string \<Rightarrow> ('c, OutboxEvent option) tx" where
  "next_event d organization_id =
     transaction organization_id
       (getT (\<lambda>t. case pending_events d organization_id t of [] \<Rightarrow> None | e # _ \<Rightarrow> Some e))"

definition log_event :: "string \<Rightarrow> string \<Rightarrow> WorkflowRun \<Rightarrow> WorkflowRun" where
  "log_event status message r =
     r\<lparr>wr_event_log := wr_event_log r @
        [\<lparr>le_id = show_int (int (length (wr_event_log r)) + 1), le_status = status, le_message = message\<rparr>]\<rparr>"

definition accepted_message :: "string \<Rightarrow> string" where
  "accepted_message event_type =
     (if event_type = CHECKOUT_EVENT_TYPE then ''Checkout workflow accepted''
      else if event_type = REVERSAL_EVENT_TYPE then ''Refund workflow accepted''
      else ''Prava checkout workflow accepted'')"

definition publish :: "string \<Rightarrow> ('c, unit) tx" where
  "publish event_id = bindT utcnow (\<lambda>now. set_event event_id (\<lambda>e. e\<lparr>oe_published_at := Some now\<rparr>))"

definition acknowledge :: "string \<Rightarrow> string \<Rightarrow> string \<Rightarrow> string \<Rightarrow> ('c, unit) tx" where
  "acknowledge organization_id event_id event_type workflow_id =
     transaction organization_id
       (bindT (select tb_outbox (\<lambda>e. oe_id e = event_id \<and> oe_organization_id e = organization_id) scalar_one)
         (\<lambda>event.
          if oe_published_at event \<noteq> None then returnT ()
          else bindT (select tb_workflows (\<lambda>r. wr_id r = workflow_id \<and> wr_organization_id r = organization_id)
                  scalar_one) (\<lambda>workflow.
            thenT (publish event_id)
              (if wr_status workflow = ''PENDING''
               then set_workflow workflow_id
                 (\<lambda>r. log_event ''RUNNING'' (accepted_message event_type) (r\<lparr>wr_status := ''RUNNING''\<rparr>))
               else returnT ()))))"

definition quarantine_invalid_event :: "string \<Rightarrow> string \<Rightarrow> ('c, unit) tx" where
  "quarantine_invalid_event organization_id event_id =
     transaction organization_id
       (bindT (select tb_outbox (\<lambda>e. oe_id e = event_id \<and> oe_organization_id e = organization_id) scalar_one)
         (\<lambda>event.
          if oe_published_at event \<noteq> None then returnT ()
          else thenT (publish event_id)
            (bindT (select tb_workflows (\<lambda>r. wr_organization_id r = organization_id
                  \<and> wr_aggregate_type r = oe_aggregate_type event
                  \<and> wr_aggregate_id r = oe_aggregate_id event) scalar_one_or_none) (\<lambda>workflow.
               case workflow of
                 Some r \<Rightarrow>
                   if wr_status r \<notin> {''COMPLETED'', ''FAILED''}
                   then set_workflow (wr_id r)
                     (\<lambda>r. log_event ''FAILED'' ''Checkout dispatch contract was rejected''
                        (r\<lparr>wr_status := ''FAILED'', wr_safe_error_code := Some ''OUTBOX_CONTRACT_INVALID''\<rparr>))
                   else returnT ()
               | None \<Rightarrow> returnT ()))))"

section \<open>One delivery and the polling loop\<close>

datatype start_reply = Accepted | AlreadyStarted | StartFailed

type_synonym 's temporal = "'s \<Rightarrow> string \<Rightarrow> workflow_request \<Rightarrow> start_reply \<times> 's"

text \<open>
  \<open>dispatch_once\<close> returns whether there was an event. A failed start call raises and leaves the event
  unpublished; an id that is already taken is an acknowledgement. Only a ValueError of the request
  quarantines.
\<close>

definition dispatch_once ::
    "dispatcher \<Rightarrow> 's temporal \<Rightarrow> string \<Rightarrow> 'c world \<Rightarrow> 's \<Rightarrow> bool result \<times> 'c world \<times> 's" where
  "dispatch_once d start organization_id w srv =
     (case next_event d organization_id w of
        (Inl e, w1) \<Rightarrow> (Inl e, w1, srv)
      | (Inr None, w1) \<Rightarrow> (Inr False, w1, srv)
      | (Inr (Some event), w1) \<Rightarrow>
          (case event_request d organization_id event of
             Inl e \<Rightarrow>
               if is_value_error e
               then (case quarantine_invalid_event organization_id (oe_id event) w1 of
                       (r, w2) \<Rightarrow> (mapR_res (\<lambda>_. True) r, w2, srv))
               else (Inl e, w1, srv)
           | Inr (workflow_id, request) \<Rightarrow>
               (case start srv workflow_id request of
                  (StartFailed, srv1) \<Rightarrow> (Inl RuntimeError, w1, srv1)
                | (_, srv1) \<Rightarrow>
                    (case acknowledge organization_id (oe_id event) (oe_event_type event) workflow_id w1 of
                       (r, w2) \<Rightarrow> (mapR_res (\<lambda>_. True) r, w2, srv1)))))"

text \<open>
  \<^verbatim>\<open>while await dispatch_once(...)\<close> with fuel, \<open>None\<close> when it runs out; the flags are
  \<^verbatim>\<open>delivered\<close> and \<^verbatim>\<open>failed\<close>.
\<close>

fun drain ::
    "nat \<Rightarrow> dispatcher \<Rightarrow> 's temporal \<Rightarrow> string \<Rightarrow> bool \<Rightarrow> 'c world \<Rightarrow> 's \<Rightarrow> (bool \<times> bool \<times> 'c world \<times> 's) option" where
  "drain 0 d start org delivered w srv = None"
| "drain (Suc n) d start org delivered w srv =
     (case dispatch_once d start org w srv of
        (Inl _, w', srv') \<Rightarrow> Some (delivered, True, w', srv')
      | (Inr False, w', srv') \<Rightarrow> Some (delivered, False, w', srv')
      | (Inr True, w', srv') \<Rightarrow> drain n d start org True w' srv')"

text \<open>One pass of \<^verbatim>\<open>run\<close> over the tenants; the process sleeps after it when the result is True.\<close>

fun poll_round ::
    "nat \<Rightarrow> dispatcher \<Rightarrow> 's temporal \<Rightarrow> string list \<Rightarrow> bool \<Rightarrow> bool \<Rightarrow> 'c world \<Rightarrow> 's \<Rightarrow> (bool \<times> 'c world \<times> 's) option" where
  "poll_round n d start [] delivered failed w srv = Some (failed \<or> \<not> delivered, w, srv)"
| "poll_round n d start (org # orgs) delivered failed w srv =
     (case drain n d start org delivered w srv of
        None \<Rightarrow> None
      | Some (delivered', failed', w', srv') \<Rightarrow>
          poll_round n d start orgs delivered' (failed \<or> failed') w' srv')"

section \<open>What the two transactions do\<close>

lemma constraints_outbox:
  assumes "constraints t"
    and "\<And>e. oe_id (f e) = oe_id e" "\<And>e. oe_organization_id (f e) = oe_organization_id e"
    and "\<And>e. oe_event_key (f e) = oe_event_key e"
  shows "constraints (t\<lparr>tb_outbox := assign oe_id i f (tb_outbox t)\<rparr>)"
  using assms(1)
  by (simp add: constraints_def primary_keys_def unique_indexes_def row_checks_def
      map_assign [of oe_id f] map_assign [of "\<lambda>e. (oe_organization_id e, oe_event_key e)" f]
      assms)

lemma constraints_workflows:
  assumes "constraints t"
    and "\<And>r. wr_id (f r) = wr_id r" "\<And>r. wr_organization_id (f r) = wr_organization_id r"
    and "\<And>r. wr_aggregate_type (f r) = wr_aggregate_type r" "\<And>r. wr_aggregate_id (f r) = wr_aggregate_id r"
    and "\<And>r. wr_operation (f r) = wr_operation r" "\<And>r. workflow_checks (f r)"
  shows "constraints (t\<lparr>tb_workflows := assign wr_id i f (tb_workflows t)\<rparr>)"
  using assms(1)
  by (simp add: constraints_def primary_keys_def unique_indexes_def row_checks_def
      map_assign [of wr_id f]
      map_assign [of "\<lambda>r. (wr_organization_id r, wr_aggregate_type r, wr_aggregate_id r, wr_operation r)" f]
      list_all_assign assms)

lemma log_event_simps [simp]:
  "wr_id (log_event s m r) = wr_id r" "wr_organization_id (log_event s m r) = wr_organization_id r"
  "wr_aggregate_type (log_event s m r) = wr_aggregate_type r"
  "wr_aggregate_id (log_event s m r) = wr_aggregate_id r" "wr_operation (log_event s m r) = wr_operation r"
  "wr_status (log_event s m r) = wr_status r"
  by (simp_all add: log_event_def)

definition tenant :: "string \<Rightarrow> bool" where
  "tenant org = (org \<noteq> [] \<and> str_strip org = org)"

lemma next_event_eq:
  assumes "constraints (rows w)" "tenant org"
  shows "next_event d org w =
    (Inr (case pending_events d org (rows w) of [] \<Rightarrow> None | e # _ \<Rightarrow> Some e), begin_tx w)"
proof -
  have "(begin_tx w)\<lparr>rows := rows w, added := empty_tables\<rparr> = begin_tx w" by (cases w) (simp add: begin_tx_def)
  with assms show ?thesis by (simp add: next_event_def transaction_Inr tenant_def)
qed

text \<open>The rows after publication: the event has a time, and the run may have been moved on.\<close>

definition published_in :: "string \<Rightarrow> int \<Rightarrow> tables \<Rightarrow> tables" where
  "published_in event_id now t =
     t\<lparr>tb_outbox := assign oe_id event_id (\<lambda>e. e\<lparr>oe_published_at := Some now\<rparr>) (tb_outbox t)\<rparr>"

lemma published_in_sel [simp]:
  "tb_workflows (published_in i now t) = tb_workflows t"
  "tb_outbox (published_in i now t) = assign oe_id i (\<lambda>e. e\<lparr>oe_published_at := Some now\<rparr>) (tb_outbox t)"
  by (simp_all add: published_in_def)

lemma constraints_published: "constraints t \<Longrightarrow> constraints (published_in i now t)"
  unfolding published_in_def by (rule constraints_outbox) auto

lemma publish_step [simp]:
  "publish i w = (r, w') \<longleftrightarrow> r = Inr () \<and>
     w' = w\<lparr>reads := Suc (reads w), rows := published_in i (now_of w (reads w)) (rows w)\<rparr>"
  by (auto simp: publish_def bindT_def utcnow_def set_event_def changeT_def published_in_def)

text \<open>
  Both write transactions settle their event: they fail without effect, find it published, or
  publish it and touch only the workflow runs beside it.
\<close>

definition settles :: "string \<Rightarrow> string \<Rightarrow> 'c world \<Rightarrow> unit result \<Rightarrow> 'c world \<Rightarrow> bool" where
  "settles org event_id w r w' =
     ((\<exists>e. r = Inl e \<and> rows w' = rows w)
      \<or> r = Inr () \<and> rows w' = rows w \<and> (\<exists>event\<in>set (tb_outbox (rows w)).
           oe_id event = event_id \<and> oe_organization_id event = org \<and> oe_published_at event \<noteq> None)
      \<or> r = Inr () \<and> (\<exists>now ws. rows w' = (published_in event_id now (rows w))\<lparr>tb_workflows := ws\<rparr>))"

lemma settling_transaction:
  assumes run: "transaction org (bindT (select tb_outbox (\<lambda>e. oe_id e = event_id \<and> oe_organization_id e = org)
        scalar_one) (\<lambda>event. if oe_published_at event \<noteq> None then returnT () else body event)) w = (r, w')"
    and body: "\<And>event u v. body event u = (Inr (), v) \<Longrightarrow> \<exists>now. rows v =
        (published_in event_id now (rows u))\<lparr>tb_workflows := tb_workflows (rows v)\<rparr> \<and> added v = added u"
  shows "settles org event_id w r w'"
proof (cases r)
  case (Inl e)
  have "rows w' = rows w" by (rule transaction_Inl_rows [OF run [unfolded Inl]])
  with Inl show ?thesis by (simp add: settles_def)
next
  case (Inr x)
  from run [unfolded Inr transaction_Inr] obtain u event where
    one: "filter (\<lambda>e. oe_id e = event_id \<and> oe_organization_id e = org) (tb_outbox (rows w)) = [event]"
    and rest: "(if oe_published_at event \<noteq> None then returnT () else body event) (begin_tx w) = (Inr (), u)"
    and w': "w' = u\<lparr>rows := append_tables (rows u) (added u), added := empty_tables\<rparr>"
    by (auto simp: bindT_Inr one_row)
  from one have event: "event \<in> set (tb_outbox (rows w))" "oe_id event = event_id" "oe_organization_id event = org"
    by (auto simp: filter_eq_Cons_iff)
  show ?thesis
  proof (cases "oe_published_at event = None")
    case True
    with rest body [of event "begin_tx w" u] obtain now where
      "rows u = (published_in event_id now (rows w))\<lparr>tb_workflows := tb_workflows (rows u)\<rparr>"
      "added u = empty_tables" by auto
    then have "rows w' = (published_in event_id now (rows w))\<lparr>tb_workflows := tb_workflows (rows u)\<rparr>"
      using w' by simp
    moreover have "r = Inr ()" using Inr by simp
    ultimately show ?thesis unfolding settles_def by blast
  next
    case False
    with rest have "u = begin_tx w" by auto
    with w' Inr event False show ?thesis unfolding settles_def by auto
  qed
qed

lemma acknowledge_settles:
  "acknowledge org event_id event_type workflow_id w = (r, w') \<Longrightarrow> settles org event_id w r w'"
  unfolding acknowledge_def
proof (erule settling_transaction)
  fix event u v
  assume "bindT (select tb_workflows (\<lambda>r. wr_id r = workflow_id \<and> wr_organization_id r = org) scalar_one)
      (\<lambda>workflow. thenT (publish event_id)
        (if wr_status workflow = ''PENDING''
         then set_workflow workflow_id
           (\<lambda>r. log_event ''RUNNING'' (accepted_message event_type) (r\<lparr>wr_status := ''RUNNING''\<rparr>))
         else returnT ())) (u :: 'a world) = (Inr (), v)"
  then obtain wf :: WorkflowRun where "thenT (publish event_id)
        (if wr_status wf = ''PENDING''
         then set_workflow workflow_id
           (\<lambda>r. log_event ''RUNNING'' (accepted_message event_type) (r\<lparr>wr_status := ''RUNNING''\<rparr>))
         else returnT ()) u = (Inr (), v)"
    by (auto simp: bindT_Inr)
  then show "\<exists>now. rows v = (published_in event_id now (rows u))\<lparr>tb_workflows := tb_workflows (rows v)\<rparr>
      \<and> added v = added u"
    by (intro exI [of _ "now_of u (reads u)"], cases "wr_status wf = ''PENDING''")
      (simp_all add: thenT_Inr set_workflow_def published_in_def)
qed

lemma quarantine_settles:
  "quarantine_invalid_event org event_id w = (r, w') \<Longrightarrow> settles org event_id w r w'"
  unfolding quarantine_invalid_event_def
proof (erule settling_transaction)
  fix event u v
  assume "thenT (publish event_id)
      (bindT (select tb_workflows (\<lambda>r. wr_organization_id r = org
          \<and> wr_aggregate_type r = oe_aggregate_type event \<and> wr_aggregate_id r = oe_aggregate_id event)
          scalar_one_or_none) (\<lambda>workflow.
        case workflow of
          Some r \<Rightarrow>
            if wr_status r \<notin> {''COMPLETED'', ''FAILED''}
            then set_workflow (wr_id r)
              (\<lambda>r. log_event ''FAILED'' ''Checkout dispatch contract was rejected''
                 (r\<lparr>wr_status := ''FAILED'', wr_safe_error_code := Some ''OUTBOX_CONTRACT_INVALID''\<rparr>))
            else returnT ()
        | None \<Rightarrow> returnT ())) (u :: 'a world) = (Inr (), v)"
  then show "\<exists>now. rows v = (published_in event_id now (rows u))\<lparr>tb_workflows := tb_workflows (rows v)\<rparr>
      \<and> added v = added u"
    by (intro exI [of _ "now_of u (reads u)"])
      (auto simp: thenT_Inr bindT_Inr set_workflow_def published_in_def split: option.splits if_splits)
qed

section \<open>The delivery queue\<close>

text \<open>
  What the dispatcher promises: a first-in first-out queue whose head is handed to a log of started
  workflows, at most once per id. An event that matches no contract leaves the queue unstarted.
\<close>

type_synonym starts = "(string \<times> workflow_request) list"

definition start_once :: "string \<times> workflow_request \<Rightarrow> starts \<Rightarrow> starts" where
  "start_once s h = (if fst s \<in> fst ` set h then h else h @ [s])"

definition handed_over :: "dispatcher \<Rightarrow> string \<Rightarrow> OutboxEvent \<Rightarrow> starts \<Rightarrow> starts" where
  "handed_over d org e h = (case event_request d org e of Inl _ \<Rightarrow> h | Inr s \<Rightarrow> start_once s h)"

fun queue_step :: "dispatcher \<Rightarrow> string \<Rightarrow> OutboxEvent list \<times> starts \<Rightarrow> OutboxEvent list \<times> starts" where
  "queue_step d org ([], h) = ([], h)"
| "queue_step d org (e # q, h) = (q, handed_over d org e h)"

text \<open>
  What the program relies on of Temporal: a start under \<^verbatim>\<open>REJECT_DUPLICATE\<close> runs a workflow
  id at most once and says whether it did; a call that fails may still have started it.
\<close>

definition rejects_duplicates :: "'s temporal \<Rightarrow> ('s \<Rightarrow> starts) \<Rightarrow> bool" where
  "rejects_duplicates start execs =
     (\<forall>srv i r. case start srv i r of
        (Accepted, srv') \<Rightarrow> i \<notin> fst ` set (execs srv) \<and> execs srv' = execs srv @ [(i, r)]
      | (AlreadyStarted, srv') \<Rightarrow> i \<in> fst ` set (execs srv) \<and> execs srv' = execs srv
      | (StartFailed, srv') \<Rightarrow> execs srv' = execs srv \<or> execs srv' = start_once (i, r) (execs srv))"

lemma started:
  assumes "rejects_duplicates start execs" "start srv i r = (reply, srv')"
  shows "reply \<noteq> StartFailed \<Longrightarrow> execs srv' = start_once (i, r) (execs srv)"
    and "execs srv' \<in> {execs srv, start_once (i, r) (execs srv)}"
proof -
  have "case start srv i r of
        (Accepted, srv') \<Rightarrow> i \<notin> fst ` set (execs srv) \<and> execs srv' = execs srv @ [(i, r)]
      | (AlreadyStarted, srv') \<Rightarrow> i \<in> fst ` set (execs srv) \<and> execs srv' = execs srv
      | (StartFailed, srv') \<Rightarrow> execs srv' = execs srv \<or> execs srv' = start_once (i, r) (execs srv)"
    using assms(1) unfolding rejects_duplicates_def
    by (drule_tac x = srv in spec, drule_tac x = i in spec, drule_tac x = r in spec)
  with assms(2) show "reply \<noteq> StartFailed \<Longrightarrow> execs srv' = start_once (i, r) (execs srv)"
    and "execs srv' \<in> {execs srv, start_once (i, r) (execs srv)}"
    by (cases reply; auto simp: start_once_def)+
qed

lemma start_once_props:
  "fst s \<in> fst ` set (start_once s h)" "set h \<subseteq> set (start_once s h)"
  "distinct (map fst h) \<Longrightarrow> distinct (map fst (start_once s h))" "set (start_once s h) \<subseteq> insert s (set h)"
  by (auto simp: start_once_def)

lemma event_request_value_error: "event_request d org e = Inl x \<Longrightarrow> is_value_error x"
  by (auto simp: event_request_def checkout_workflow_request_def reversal_workflow_request_def
      prava_workflow_request_def bindR_Inl_iff ensure_Inl_iff assert_credential_free_contract_def Let_def
      is_value_error_def split: if_splits)

lemma pending_member:
  assumes "e \<in> set (pending_events d org t)"
  shows "e \<in> set (tb_outbox t)" "oe_organization_id e = org" "oe_published_at e = None"
    "oe_event_type e \<in> set (dp_event_types d)"
  using assms by (auto simp: pending_events_def)

lemma pending_published:
  assumes "distinct (map oe_id (tb_outbox t))" "pending_events d org t = e # q"
  shows "pending_events d org ((published_in (oe_id e) now t)\<lparr>tb_workflows := ws\<rparr>) = q"
proof -
  let ?P = "\<lambda>e. oe_organization_id e = org \<and> oe_event_type e \<in> set (dp_event_types d) \<and> oe_published_at e = None"
  have "filter ?P (assign oe_id i (\<lambda>e. e\<lparr>oe_published_at := Some now\<rparr>) xs)
      = filter (\<lambda>x. oe_id x \<noteq> i) (filter ?P xs)" for i and xs :: "OutboxEvent list"
    by (induction xs) (auto simp: assign_def)
  then have "pending_events d org ((published_in (oe_id e) now t)\<lparr>tb_workflows := ws\<rparr>)
      = filter (\<lambda>x. oe_id x \<noteq> oe_id e) (e # q)"
    by (simp add: pending_events_def filter_sort flip: assms(2))
  moreover have "distinct (map oe_id (e # q))"
    unfolding assms(2) [symmetric] pending_events_def
    using distinct_map_filter [OF assms(1), of ?P] by (simp add: distinct_map)
  ultimately show ?thesis by (auto simp: filter_id_conv) (metis image_eqI)
qed

lemma settles_pending:
  assumes "settles org (oe_id e) w r w'" "distinct (map oe_id (tb_outbox (rows w)))"
    and "pending_events d org (rows w) = e # q"
  shows "r = Inr () \<and> pending_events d org (rows w') = q \<or> (\<exists>x. r = Inl x) \<and> rows w' = rows w"
  using assms(1) unfolding settles_def
proof (elim disjE conjE exE bexE)
  fix event
  assume ev: "event \<in> set (tb_outbox (rows w))" "oe_id event = oe_id e" "oe_published_at event \<noteq> None"
  have "e \<in> set (tb_outbox (rows w))" "oe_published_at e = None"
    using pending_member [of e d org "rows w"] assms(3) by auto
  with ev assms(2) have False by (metis distinct_map inj_onD)
  then show ?thesis ..
next
  fix now ws
  assume "r = Inr ()" "rows w' = (published_in (oe_id e) now (rows w))\<lparr>tb_workflows := ws\<rparr>"
  then show ?thesis using pending_published [OF assms(2,3)] by simp
qed auto

lemma dispatch_empty:
  assumes "constraints (rows w)" "tenant org" "pending_events d org (rows w) = []"
  shows "dispatch_once d start org w srv = (Inr False, begin_tx w, srv)"
  by (simp add: dispatch_once_def next_event_eq assms)

lemma constraints_ids: "constraints t \<Longrightarrow> distinct (map oe_id (tb_outbox t))"
  by (simp add: constraints_def primary_keys_def)

lemma dispatch_queue_step:
  assumes "constraints (rows w)" "tenant org" "rejects_duplicates start execs"
    and run: "dispatch_once d start org w srv = (r, w', srv')"
  shows "case r of
      Inr b \<Rightarrow> b = (pending_events d org (rows w) \<noteq> [])
        \<and> (pending_events d org (rows w'), execs srv')
            = queue_step d org (pending_events d org (rows w), execs srv)
    | Inl _ \<Rightarrow> rows w' = rows w
        \<and> execs srv' \<in> {execs srv, snd (queue_step d org (pending_events d org (rows w), execs srv))}"
proof (cases "pending_events d org (rows w)")
  case Nil
  from run [unfolded dispatch_empty [OF assms(1,2) Nil]] have "r = Inr False" "w' = begin_tx w" "srv' = srv"
    by auto
  with Nil show ?thesis by simp
next
  case (Cons e q)
  have next': "next_event d org w = (Inr (Some e), begin_tx w)"
    using next_event_eq [OF assms(1,2)] Cons by simp
  have settled: "u = Inr () \<and> pending_events d org (rows v) = q \<or> (\<exists>x. u = Inl x) \<and> rows v = rows w"
    if "settles org (oe_id e) (begin_tx w) u v" for u v
    using settles_pending [OF that] constraints_ids [OF assms(1)] Cons by simp
  show ?thesis
  proof (cases "event_request d org e")
    case (Inl x)
    obtain u v where uv: "quarantine_invalid_event org (oe_id e) (begin_tx w) = (u, v)" by fastforce
    have "r = mapR_res (\<lambda>_. True) u" "w' = v" "srv' = srv"
      using run event_request_value_error [OF Inl] by (auto simp: dispatch_once_def next' Inl uv)
    with settled [OF quarantine_settles [OF uv]] Cons Inl show ?thesis
      by (auto simp: handed_over_def mapR_res_def)
  next
    case (Inr s)
    obtain i req where s: "s = (i, req)" by fastforce
    obtain reply srv1 where st: "start srv i req = (reply, srv1)" by fastforce
    obtain u v where uv: "acknowledge org (oe_id e) (oe_event_type e) i (begin_tx w) = (u, v)" by fastforce
    show ?thesis
    proof (cases "reply = StartFailed")
      case True
      then have "r = Inl RuntimeError" "rows w' = rows w" "srv' = srv1"
        using run by (auto simp: dispatch_once_def next' Inr s st)
      with started(2) [OF assms(3) st] Cons Inr s show ?thesis by (auto simp: handed_over_def)
    next
      case False
      then have "r = mapR_res (\<lambda>_. True) u" "w' = v" "srv' = srv1"
        using run by (cases reply; auto simp: dispatch_once_def next' Inr s st uv)+
      with settled [OF acknowledge_settles [OF uv]] started(1) [OF assms(3) st False] Cons Inr s show ?thesis
        by (auto simp: handed_over_def mapR_res_def)
    qed
  qed
qed

text \<open>
  C15. (refinement) Every delivery is a step of the abstract queue. When \<^verbatim>\<open>dispatch_once\<close>
  returns, the pending events and the started workflows are the abstract step of what they were,
  and it returns True exactly when there was an event. When it raises, every table is as it was and
  at most the start of the head has happened, which the next delivery of that event acknowledges.
\<close>

theorem dispatch_refines_queue:
  assumes "constraints (rows w)" "tenant org" "rejects_duplicates start execs"
    and run: "dispatch_once d start org w srv = (r, w', srv')"
  shows "case r of
      Inr b \<Rightarrow> b = (pending_events d org (rows w) \<noteq> [])
        \<and> (pending_events d org (rows w'), execs srv')
            = queue_step d org (pending_events d org (rows w), execs srv)
    | Inl _ \<Rightarrow> rows w' = rows w
        \<and> execs srv' \<in> {execs srv, snd (queue_step d org (pending_events d org (rows w), execs srv))}"
  by (rule dispatch_queue_step [OF assms])

section \<open>Draining\<close>

definition run_keys :: "tables \<Rightarrow> (string \<times> string \<times> string \<times> string) list" where
  "run_keys t =
     map (\<lambda>r. (wr_id r, wr_organization_id r, wr_aggregate_type r, wr_aggregate_id r)) (tb_workflows t)"

text \<open>
  The writer of an outbox event adds its workflow run in the same transaction: a pending event has
  the run its payload names, and one that matches no contract at most one run of its aggregate.
\<close>

definition deliverable :: "dispatcher \<Rightarrow> string \<Rightarrow> OutboxEvent \<Rightarrow> tables \<Rightarrow> bool" where
  "deliverable d org e t =
     (case event_request d org e of
        Inr (i, _) \<Rightarrow> list_ex (\<lambda>(j, o', _). j = i \<and> o' = org) (run_keys t)
      | Inl _ \<Rightarrow> length (filter (\<lambda>(_, o', ty, a). o' = org \<and> ty = oe_aggregate_type e \<and> a = oe_aggregate_id e)
                    (run_keys t)) \<le> 1)"

definition responsive :: "'s temporal \<Rightarrow> bool" where
  "responsive start = (\<forall>srv i r. fst (start srv i r) \<noteq> StartFailed)"

lemma run_keys_assign:
  "(\<And>r. (wr_id (f r), wr_organization_id (f r), wr_aggregate_type (f r), wr_aggregate_id (f r))
        = (wr_id r, wr_organization_id r, wr_aggregate_type r, wr_aggregate_id r)) \<Longrightarrow>
   run_keys (t\<lparr>tb_workflows := assign wr_id i f (tb_workflows t)\<rparr>) = run_keys t"
  by (simp add: run_keys_def map_assign)

lemma run_keys_published [simp]: "run_keys (published_in i now t) = run_keys t"
  by (simp add: run_keys_def)

lemma transaction_ok:
  assumes "tenant org" "body (begin_tx w) = (Inr x, u)" "added u = empty_tables" "rows u = t" "constraints t"
  shows "\<exists>w'. transaction org body w = (Inr x, w') \<and> rows w' = t"
  using assms by (auto simp: transaction_Inr tenant_def)

lemma one_event:
  assumes "constraints t" "e \<in> set (tb_outbox t)" "oe_organization_id e = org"
  shows "filter (\<lambda>x. oe_id x = oe_id e \<and> oe_organization_id x = org) (tb_outbox t) = [e]"
  using filter_key_some [OF constraints_ids [OF assms(1)], of e "oe_id e" "\<lambda>x. oe_organization_id x = org"] assms
  by simp

lemma acknowledge_ok:
  assumes "constraints (rows w)" "tenant org" "e \<in> set (tb_outbox (rows w))" "oe_organization_id e = org"
    and "oe_published_at e = None" "list_ex (\<lambda>(j, o', _). j = i \<and> o' = org) (run_keys (rows w))"
  shows "\<exists>w'. acknowledge org (oe_id e) ty i w = (Inr (), w') \<and> constraints (rows w')
    \<and> run_keys (rows w') = run_keys (rows w)"
proof -
  obtain r where r: "r \<in> set (tb_workflows (rows w))" "wr_id r = i" "wr_organization_id r = org"
    using assms(6) by (auto simp: run_keys_def list_ex_iff)
  have ids: "distinct (map wr_id (tb_workflows (rows w)))"
    using assms(1) by (simp add: constraints_def primary_keys_def)
  have one: "filter (\<lambda>r. wr_id r = i \<and> wr_organization_id r = org) (tb_workflows (rows w)) = [r]"
    using filter_key_some [OF ids r(1,2), of "\<lambda>r. wr_organization_id r = org"] r by simp
  let ?t = "published_in (oe_id e) (now_of w (reads w)) (rows w)"
  let ?f = "\<lambda>r :: WorkflowRun. log_event ''RUNNING'' (accepted_message ty) (r\<lparr>wr_status := ''RUNNING''\<rparr>)"
  let ?t' = "if wr_status r = ''PENDING'' then ?t\<lparr>tb_workflows := assign wr_id i ?f (tb_workflows ?t)\<rparr> else ?t"
  have "constraints ?t" using assms(1) by (rule constraints_published)
  moreover have "constraints (?t\<lparr>tb_workflows := assign wr_id i ?f (tb_workflows ?t)\<rparr>)"
    by (rule constraints_workflows [OF calculation]) (simp_all add: workflow_checks_def)
  ultimately have "constraints ?t'" by simp
  have keys: "run_keys ?t' = run_keys (rows w)"
    using run_keys_assign [of ?f i ?t] by simp
  have "\<exists>w'. acknowledge org (oe_id e) ty i w = (Inr (), w') \<and> rows w' = ?t'"
    unfolding acknowledge_def
    by (rule transaction_ok [where u = "(begin_tx w)\<lparr>reads := Suc (reads w), rows := ?t'\<rparr>", OF assms(2) _ _ _ \<open>constraints ?t'\<close>])
      (simp_all add: tx_run publish_def published_in_def set_event_def set_workflow_def scalar_one_def
        one one_event [OF assms(1,3,4)] assms(5) del: step_simps publish_step)
  then show ?thesis
  proof (elim exE conjE, intro exI conjI)
    fix w'
    assume "rows w' = ?t'"
    then show "constraints (rows w')" "run_keys (rows w') = run_keys (rows w)"
      by (simp_all only: \<open>constraints ?t'\<close> keys)
  qed
qed

lemma quarantine_ok:
  assumes "constraints (rows w)" "tenant org" "e \<in> set (tb_outbox (rows w))" "oe_organization_id e = org"
    and "oe_published_at e = None"
    and few: "length (filter (\<lambda>(_, o', ty, a). o' = org \<and> ty = oe_aggregate_type e \<and> a = oe_aggregate_id e)
        (run_keys (rows w))) \<le> 1"
  shows "\<exists>w'. quarantine_invalid_event org (oe_id e) w = (Inr (), w') \<and> constraints (rows w')
    \<and> run_keys (rows w') = run_keys (rows w)"
proof -
  let ?P = "\<lambda>r. wr_organization_id r = org \<and> wr_aggregate_type r = oe_aggregate_type e
      \<and> wr_aggregate_id r = oe_aggregate_id e"
  have "length (filter ?P (tb_workflows (rows w))) \<le> 1"
    using few by (simp add: run_keys_def filter_map comp_def case_prod_unfold)
  then obtain found where found: "scalar_one_or_none (filter ?P (tb_workflows (rows w))) = Inr found"
    by (auto simp: scalar_one_or_none_def le_Suc_eq length_Suc_conv)
  let ?t = "published_in (oe_id e) (now_of w (reads w)) (rows w)"
  let ?f = "\<lambda>r :: WorkflowRun. log_event ''FAILED'' ''Checkout dispatch contract was rejected''
      (r\<lparr>wr_status := ''FAILED'', wr_safe_error_code := Some ''OUTBOX_CONTRACT_INVALID''\<rparr>)"
  let ?t' = "case found of Some r \<Rightarrow> if wr_status r \<notin> {''COMPLETED'', ''FAILED''}
      then ?t\<lparr>tb_workflows := assign wr_id (wr_id r) ?f (tb_workflows ?t)\<rparr> else ?t | None \<Rightarrow> ?t"
  have "constraints ?t" using assms(1) by (rule constraints_published)
  moreover have "constraints (?t\<lparr>tb_workflows := assign wr_id i ?f (tb_workflows ?t)\<rparr>)" for i
    by (rule constraints_workflows [OF calculation]) (simp_all add: workflow_checks_def)
  ultimately have "constraints ?t'" by (auto split: option.splits)
  have keys: "run_keys ?t' = run_keys (rows w)"
    using run_keys_assign [of ?f _ ?t] by (auto split: option.splits)
  have "\<exists>w'. quarantine_invalid_event org (oe_id e) w = (Inr (), w') \<and> rows w' = ?t'"
    unfolding quarantine_invalid_event_def
    by (rule transaction_ok [where u = "(begin_tx w)\<lparr>reads := Suc (reads w), rows := ?t'\<rparr>", OF assms(2) _ _ _ \<open>constraints ?t'\<close>])
      (simp_all add: tx_run publish_def published_in_def set_event_def set_workflow_def scalar_one_def
        found one_event [OF assms(1,3,4)] assms(5)
        del: step_simps publish_step split: option.splits)
  then show ?thesis
  proof (elim exE conjE, intro exI conjI)
    fix w'
    assume "rows w' = ?t'"
    then show "constraints (rows w')" "run_keys (rows w') = run_keys (rows w)"
      by (simp_all only: \<open>constraints ?t'\<close> keys)
  qed
qed

lemma dispatch_progress:
  assumes ok: "constraints (rows w)" "tenant org" "rejects_duplicates start execs" "responsive start"
    and pending: "pending_events d org (rows w) = e # q" "deliverable d org e (rows w)"
  shows "\<exists>w' srv'. dispatch_once d start org w srv = (Inr True, w', srv') \<and> constraints (rows w')
    \<and> run_keys (rows w') = run_keys (rows w) \<and> pending_events d org (rows w') = q
    \<and> execs srv' = handed_over d org e (execs srv)"
proof -
  have next': "next_event d org w = (Inr (Some e), begin_tx w)"
    using next_event_eq [OF ok(1,2)] pending(1) by simp
  have e: "e \<in> set (tb_outbox (rows (begin_tx w)))" "oe_organization_id e = org" "oe_published_at e = None"
    using pending_member [of e d org "rows w"] pending(1) by auto
  have "\<exists>w' srv'. dispatch_once d start org w srv = (Inr True, w', srv') \<and> constraints (rows w')
      \<and> run_keys (rows w') = run_keys (rows w)"
  proof (cases "event_request d org e")
    case (Inl x)
    have "length (filter (\<lambda>(_, o', ty, a). o' = org \<and> ty = oe_aggregate_type e \<and> a = oe_aggregate_id e)
        (run_keys (rows (begin_tx w)))) \<le> 1"
      using pending(2) Inl by (simp add: deliverable_def)
    from quarantine_ok [OF _ ok(2) e this] ok(1) obtain w' where
      "quarantine_invalid_event org (oe_id e) (begin_tx w) = (Inr (), w')"
      "constraints (rows w')" "run_keys (rows w') = run_keys (rows w)" by auto
    with event_request_value_error [OF Inl] show ?thesis by (simp add: dispatch_once_def next' Inl)
  next
    case (Inr s)
    obtain i req where s: "s = (i, req)" by fastforce
    obtain reply srv1 where st: "start srv i req = (reply, srv1)" by fastforce
    have "reply \<noteq> StartFailed" using ok(4) st by (metis fst_conv responsive_def)
    then have "dispatch_once d start org w srv =
        (case acknowledge org (oe_id e) (oe_event_type e) i (begin_tx w) of (r, w2) \<Rightarrow> (mapR_res (\<lambda>_. True) r, w2, srv1))"
      by (cases reply) (simp_all add: dispatch_once_def next' Inr s st)
    moreover have "list_ex (\<lambda>(j, o', _). j = i \<and> o' = org) (run_keys (rows (begin_tx w)))"
      using pending(2) Inr s by (simp add: deliverable_def)
    from acknowledge_ok [OF _ ok(2) e this] ok(1) obtain w' where
      "acknowledge org (oe_id e) (oe_event_type e) i (begin_tx w) = (Inr (), w')"
      "constraints (rows w')" "run_keys (rows w') = run_keys (rows w)" by auto
    ultimately show ?thesis by simp
  qed
  then obtain w' srv' where run: "dispatch_once d start org w srv = (Inr True, w', srv')"
    "constraints (rows w')" "run_keys (rows w') = run_keys (rows w)" by blast
  with dispatch_queue_step [OF ok(1-3) run(1)] pending(1) show ?thesis by auto
qed

lemma deliverable_cong: "run_keys t = run_keys t' \<Longrightarrow> deliverable d org e t = deliverable d org e t'"
  by (auto simp: deliverable_def split: sum.split)

lemma drain_all:
  assumes "rejects_duplicates start execs" "responsive start" "tenant org"
    and "constraints (rows w)" "\<And>e. e \<in> set (pending_events d org (rows w)) \<Longrightarrow> deliverable d org e (rows w)"
    and "length (pending_events d org (rows w)) < n"
  shows "\<exists>w' srv'. drain n d start org b w srv
      = Some (b \<or> pending_events d org (rows w) \<noteq> [], False, w', srv')
    \<and> pending_events d org (rows w') = []
    \<and> execs srv' = fold (handed_over d org) (pending_events d org (rows w)) (execs srv)"
  using assms(4-)
proof (induction n arbitrary: w srv b)
  case 0
  then show ?case by simp
next
  case (Suc n)
  show ?case
  proof (cases "pending_events d org (rows w)")
    case Nil
    with dispatch_empty [OF Suc.prems(1) assms(3) Nil, of start srv] show ?thesis by simp
  next
    case (Cons e q)
    then obtain w1 srv1 where one: "dispatch_once d start org w srv = (Inr True, w1, srv1)"
      "constraints (rows w1)" "run_keys (rows w1) = run_keys (rows w)" "pending_events d org (rows w1) = q"
      "execs srv1 = handed_over d org e (execs srv)"
      using dispatch_progress [OF Suc.prems(1) assms(3,1,2) Cons, of srv] Suc.prems(2) [of e] by auto
    have "deliverable d org x (rows w1)" if "x \<in> set (pending_events d org (rows w1))" for x
      using that Suc.prems(2) [of x] Cons one(4) deliverable_cong [OF one(3)] by simp
    from Suc.IH [OF one(2) this, of True srv1] Suc.prems(3) Cons one show ?thesis by auto
  qed
qed

lemma handed_over_mono: "set h \<subseteq> set (handed_over d org e h)"
  by (auto simp: handed_over_def dest: start_once_props(2) [THEN subsetD] split: sum.splits)

lemma fold_handed_mono: "set h \<subseteq> set (fold (handed_over d org) es h)"
proof (induction es arbitrary: h)
  case Nil
  then show ?case by simp
next
  case (Cons e es)
  from handed_over_mono [of h d org e] Cons.IH [of "handed_over d org e h"] show ?case by auto
qed

lemma fold_handed_over:
  "e \<in> set es \<Longrightarrow> event_request d org e = Inr (i, r) \<Longrightarrow> i \<in> fst ` set (fold (handed_over d org) es h)"
proof (induction es arbitrary: h)
  case Nil
  then show ?case by simp
next
  case (Cons x es)
  show ?case
  proof (cases "e = x")
    case True
    then have "i \<in> fst ` set (handed_over d org x h)"
      using Cons.prems(2) start_once_props(1) [of "(i, r)" h] by (simp add: handed_over_def)
    with fold_handed_mono [of "handed_over d org x h" d org es] show ?thesis by auto
  next
    case False
    with Cons show ?thesis by simp
  qed
qed


section \<open>Crashes and concurrent dispatchers\<close>

text \<open>
  Any number of dispatcher processes share the database and Temporal. A process is between two
  deliveries, holds an event it has read, or has an accepted start it has not recorded; it may stop
  at any moment and lose that. Other transactions may add events and change every other table.
\<close>

datatype phase = Idle | Selected OutboxEvent | Started OutboxEvent string

type_synonym ('c, 's) system = "'c world \<times> 's \<times> (nat \<Rightarrow> phase)"

definition appends_events :: "tables \<Rightarrow> tables \<Rightarrow> bool" where
  "appends_events t t' =
     (constraints t' \<and> (\<exists>new. tb_outbox t' = tb_outbox t @ new \<and> (\<forall>e\<in>set new. oe_published_at e = None)))"

inductive delivery_step :: "dispatcher \<Rightarrow> 's temporal \<Rightarrow> ('c, 's) system \<Rightarrow> ('c, 's) system \<Rightarrow> bool"
  for d start where
  look: "p k = Idle \<Longrightarrow> next_event d org w = (r, w') \<Longrightarrow>
    delivery_step d start (w, srv, p)
      (w', srv, p(k := case r of Inr (Some e) \<Rightarrow> Selected e | _ \<Rightarrow> Idle))"
| call: "p k = Selected e \<Longrightarrow> event_request d (oe_organization_id e) e = Inr (i, req) \<Longrightarrow>
    start srv i req = (reply, srv') \<Longrightarrow>
    delivery_step d start (w, srv, p) (w, srv', p(k := if reply = StartFailed then Idle else Started e i))"
| reject: "p k = Selected e \<Longrightarrow> event_request d (oe_organization_id e) e = Inl x \<Longrightarrow>
    quarantine_invalid_event (oe_organization_id e) (oe_id e) w = (r, w') \<Longrightarrow>
    delivery_step d start (w, srv, p) (w', srv, p(k := Idle))"
| record': "p k = Started e i \<Longrightarrow>
    acknowledge (oe_organization_id e) (oe_id e) (oe_event_type e) i w = (r, w') \<Longrightarrow>
    delivery_step d start (w, srv, p) (w', srv, p(k := Idle))"
| crash: "delivery_step d start (w, srv, p) (w, srv, p(k := Idle))"
| other: "appends_events (rows w) (rows w') \<Longrightarrow> delivery_step d start (w, srv, p) (w', srv, p)"

inductive_cases delivery_stepE: "delivery_step d start (w, srv, p) y"

text \<open>One \<^verbatim>\<open>dispatch_once\<close> of an idle process is a run of these steps.\<close>

lemma dispatch_is_steps:
  assumes "p k = Idle" "constraints (rows w)" "tenant org"
    and run: "dispatch_once d start org w srv = (r, w', srv')"
  shows "(delivery_step d start)\<^sup>*\<^sup>* (w, srv, p) (w', srv', p)"
proof (cases "pending_events d org (rows w)")
  case Nil
  have "next_event d org w = (Inr None, begin_tx w)" using next_event_eq [OF assms(2,3)] Nil by simp
  from delivery_step.look [where p = p and k = k, OF assms(1) this, of start srv] assms(1)
  have "delivery_step d start (w, srv, p) (begin_tx w, srv, p)" by (simp add: fun_upd_idem)
  with run [unfolded dispatch_empty [OF assms(2,3) Nil]] show ?thesis by auto
next
  case (Cons e q)
  have next': "next_event d org w = (Inr (Some e), begin_tx w)" using next_event_eq [OF assms(2,3)] Cons by simp
  from delivery_step.look [where p = p and k = k, OF assms(1) this, of start srv]
  have look: "delivery_step d start (w, srv, p) (begin_tx w, srv, p(k := Selected e))" by simp
  have org: "oe_organization_id e = org" using pending_member [of e d org "rows w"] Cons by simp
  have idle: "p(k := Idle) = p" using assms(1) by (simp add: fun_upd_idem)
  show ?thesis
  proof (cases "event_request d org e")
    case (Inl x)
    obtain u v where uv: "quarantine_invalid_event org (oe_id e) (begin_tx w) = (u, v)" by fastforce
    have "delivery_step d start (begin_tx w, srv, p(k := Selected e)) (v, srv, p)"
      using delivery_step.reject [of "p(k := Selected e)" k e d x "begin_tx w" u v start srv] Inl uv org idle by simp
    moreover have "w' = v" "srv' = srv"
      using run event_request_value_error [OF Inl] by (auto simp: dispatch_once_def next' Inl uv)
    ultimately show ?thesis using look by (meson converse_rtranclp_into_rtranclp r_into_rtranclp)
  next
    case (Inr s)
    obtain i req where s: "s = (i, req)" by fastforce
    obtain reply srv1 where st: "start srv i req = (reply, srv1)" by fastforce
    let ?p = "p(k := if reply = StartFailed then Idle else Started e i)"
    have called: "delivery_step d start (begin_tx w, srv, p(k := Selected e)) (begin_tx w, srv1, ?p)"
      using delivery_step.call [of "p(k := Selected e)" k e d i req start srv reply srv1 "begin_tx w"] Inr s st org by simp
    show ?thesis
    proof (cases "reply = StartFailed")
      case True
      then have "w' = begin_tx w" "srv' = srv1" using run by (auto simp: dispatch_once_def next' Inr s st)
      with look called True idle show ?thesis by (simp add: converse_rtranclp_into_rtranclp)
    next
      case False
      obtain u v where uv: "acknowledge org (oe_id e) (oe_event_type e) i (begin_tx w) = (u, v)" by fastforce
      have "w' = v" "srv' = srv1"
        using run False by (cases reply; auto simp: dispatch_once_def next' Inr s st uv)+
      moreover have "delivery_step d start (begin_tx w, srv1, ?p) (v, srv1, p)"
        using delivery_step.record' [of ?p k e i "begin_tx w" u v d start srv1] False uv org idle by simp
      ultimately show ?thesis using look called
        by (meson converse_rtranclp_into_rtranclp r_into_rtranclp)
    qed
  qed
qed

definition unpublished :: "OutboxEvent \<Rightarrow> OutboxEvent" where
  "unpublished e = e\<lparr>oe_published_at := None\<rparr>"

definition own_request :: "dispatcher \<Rightarrow> OutboxEvent \<Rightarrow> (string \<times> workflow_request) result" where
  "own_request d e = event_request d (oe_organization_id e) e"

definition delivery_inv :: "dispatcher \<Rightarrow> ('s \<Rightarrow> starts) \<Rightarrow> ('c, 's) system \<Rightarrow> bool" where
  "delivery_inv d execs = (\<lambda>(w, srv, p).
     constraints (rows w) \<and> distinct (map fst (execs srv))
     \<and> (\<forall>e\<in>set (tb_outbox (rows w)). \<forall>s. oe_published_at e \<noteq> None \<longrightarrow> own_request d e = Inr s
          \<longrightarrow> fst s \<in> fst ` set (execs srv))
     \<and> (\<forall>s\<in>set (execs srv). \<exists>e\<in>set (tb_outbox (rows w)). own_request d e = Inr s)
     \<and> (\<forall>k. case p k of
          Idle \<Rightarrow> True
        | Selected e \<Rightarrow> unpublished e \<in> unpublished ` set (tb_outbox (rows w))
        | Started e i \<Rightarrow> unpublished e \<in> unpublished ` set (tb_outbox (rows w))
            \<and> (\<exists>req. own_request d e = Inr (i, req)) \<and> i \<in> fst ` set (execs srv)))"

lemma unpublished_same:
  "unpublished e = unpublished e' \<Longrightarrow> own_request d e = own_request d e'"
  "unpublished e = unpublished e' \<Longrightarrow> oe_id e = oe_id e' \<and> oe_organization_id e = oe_organization_id e'"
  by (cases e; cases e'; simp add: unpublished_def own_request_def event_request_def)+

lemma unpublished_update [simp]: "unpublished (e\<lparr>oe_published_at := x\<rparr>) = unpublished e"
  by (simp add: unpublished_def)

lemma own_request_update [simp]: "own_request d (e\<lparr>oe_published_at := x\<rparr>) = own_request d e"
  by (rule unpublished_same(1)) simp

lemma delivery_invD:
  assumes "delivery_inv d execs (w, srv, p)"
  shows "constraints (rows w)" "distinct (map fst (execs srv))"
    and "e \<in> set (tb_outbox (rows w)) \<Longrightarrow> oe_published_at e \<noteq> None \<Longrightarrow> own_request d e = Inr s \<Longrightarrow>
      fst s \<in> fst ` set (execs srv)"
    and "s \<in> set (execs srv) \<Longrightarrow> \<exists>e\<in>set (tb_outbox (rows w)). own_request d e = Inr s"
  using assms unfolding delivery_inv_def prod.case by blast+

lemma settles_outbox:
  "settles org i w r w' \<Longrightarrow> \<exists>f. (\<forall>e. \<exists>x. f e = e\<lparr>oe_published_at := x\<rparr>)
    \<and> tb_outbox (rows w') = assign oe_id i f (tb_outbox (rows w))"
proof -
  assume "settles org i w r w'"
  then consider "tb_outbox (rows w') = tb_outbox (rows w)"
    | now where "tb_outbox (rows w') = assign oe_id i (\<lambda>e. e\<lparr>oe_published_at := Some now\<rparr>) (tb_outbox (rows w))"
    unfolding settles_def by fastforce
  then show ?thesis
  proof cases
    case 1
    have "e = e\<lparr>oe_published_at := oe_published_at e\<rparr>" for e :: OutboxEvent by simp
    moreover have "tb_outbox (rows w') = assign oe_id i (\<lambda>e. e) (tb_outbox (rows w))"
      using 1 by (simp add: assign_def)
    ultimately show ?thesis by (intro exI [of _ "\<lambda>e. e"]) metis
  qed blast
qed

lemma transaction_keeps_constraints:
  "constraints (rows w) \<Longrightarrow> transaction org body w = (r, w') \<Longrightarrow> constraints (rows w')"
  by (cases r) (auto simp: transaction_Inr dest: transaction_Inl_rows)

lemma inv_settled:
  assumes inv: "delivery_inv d execs (w, srv, p)" and settled: "settles org (oe_id e) w r w'"
    and ok: "constraints (rows w')" and known: "unpublished e \<in> unpublished ` set (tb_outbox (rows w))"
    and started: "\<And>s. own_request d e = Inr s \<Longrightarrow> fst s \<in> fst ` set (execs srv)"
  shows "delivery_inv d execs (w', srv, p(k := Idle))"
proof -
  let ?O = "set (tb_outbox (rows w))" and ?O' = "set (tb_outbox (rows w'))"
  obtain f where f: "\<And>e. \<exists>x. f e = e\<lparr>oe_published_at := x\<rparr>"
    and out: "tb_outbox (rows w') = assign oe_id (oe_id e) f (tb_outbox (rows w))"
    using settles_outbox [OF settled] by blast
  have same: "unpublished (f x) = unpublished x" "own_request d (f x) = own_request d x" for x
    using f [of x] by auto
  have unp: "unpublished ` ?O' = unpublished ` ?O"
    unfolding out using map_assign [of unpublished f] same(1) by (metis set_map)
  from inv have ids: "distinct (map oe_id (tb_outbox (rows w)))"
    by (simp add: delivery_inv_def constraints_ids)
  have own: "unpublished x = unpublished e" if "x \<in> ?O" "oe_id x = oe_id e" for x
  proof -
    from known obtain y where y: "y \<in> ?O" "unpublished y = unpublished e" by auto
    with unpublished_same(2) [OF y(2)] that ids have "x = y" by (metis distinct_map inj_onD)
    with y show ?thesis by simp
  qed
  have published: "fst s \<in> fst ` set (execs srv)"
    if x: "x \<in> ?O'" "oe_published_at x \<noteq> None" "own_request d x = Inr s" for x s
  proof -
    from x(1) obtain y where y: "y \<in> ?O" "x = (if oe_id y = oe_id e then f y else y)"
      unfolding out assign_def by auto
    show ?thesis
    proof (cases "oe_id y = oe_id e")
      case True
      with own [OF y(1)] unpublished_same(1) [of y e d] y(2) x(3) same(2) started show ?thesis by simp
    next
      case False
      with delivery_invD(3) [OF inv, of y s] y x(2,3) show ?thesis by simp
    qed
  qed
  have source: "\<exists>x\<in>?O'. own_request d x = Inr s" if s: "s \<in> set (execs srv)" for s
  proof -
    obtain y where y: "y \<in> ?O" "own_request d y = Inr s" using delivery_invD(4) [OF inv s] by blast
    then show ?thesis unfolding out
      by (intro bexI [of _ "if oe_id y = oe_id e then f y else y"]) (auto simp: assign_def same)
  qed
  have phases: "\<forall>j. case (p(k := Idle)) j of
          Idle \<Rightarrow> True
        | Selected x \<Rightarrow> unpublished x \<in> unpublished ` ?O'
        | Started x i \<Rightarrow> unpublished x \<in> unpublished ` ?O'
            \<and> (\<exists>req. own_request d x = Inr (i, req)) \<and> i \<in> fst ` set (execs srv)"
    unfolding unp using inv by (auto simp: delivery_inv_def)
  show ?thesis unfolding delivery_inv_def prod.case
    using ok delivery_invD(2) [OF inv] published source phases by (intro conjI ballI allI impI) blast+
qed

lemma delivery_inv_step:
  assumes laws: "rejects_duplicates start execs"
  shows "delivery_step d start x y \<Longrightarrow> delivery_inv d execs x \<Longrightarrow> delivery_inv d execs y"
proof (induction rule: delivery_step.induct)
  case (look p k org w r w' srv)
  have kept: "rows w' = rows w"
  proof (cases r)
    case (Inr x)
    with look(2) show ?thesis by (auto simp: next_event_def transaction_Inr)
  qed (use look(2) transaction_Inl_rows next_event_def in metis)
  have "e \<in> set (tb_outbox (rows w))" if "r = Inr (Some e)" for e
  proof -
    have "e \<in> set (pending_events d org (rows w))"
      using look(2) unfolding that by (auto simp: next_event_def transaction_Inr split: list.splits)
    then show ?thesis by (rule pending_member(1))
  qed
  moreover have "delivery_inv d execs (w', srv, q) = delivery_inv d execs (w, srv, q)" for q
    by (simp only: delivery_inv_def kept prod.case)
  ultimately show ?case using look(3)
    by (auto simp: delivery_inv_def split: sum.splits option.splits)
next
  case (call p k e i req srv reply srv' w)
  have execs: "execs srv' \<in> {execs srv, start_once (i, req) (execs srv)}" using started(2) [OF laws call(3)] .
  have ok: "i \<in> fst ` set (execs srv')" if "reply \<noteq> StartFailed"
    using started(1) [OF laws call(3) that] start_once_props(1) [of "(i, req)" "execs srv"] by simp
  have grows: "set (execs srv) \<subseteq> set (execs srv')" using execs start_once_props(2) by fastforce
  then have ids: "fst ` set (execs srv) \<subseteq> fst ` set (execs srv')" by auto
  have dist: "distinct (map fst (execs srv'))"
    using execs start_once_props(3) [of "execs srv"] call(4) by (auto simp: delivery_inv_def)
  have mine: "unpublished e \<in> unpublished ` set (tb_outbox (rows w))"
    using call(1,4) by (auto simp: delivery_inv_def split: phase.splits)
  have "\<exists>x\<in>set (tb_outbox (rows w)). own_request d x = Inr s" if "s \<in> set (execs srv')" for s
  proof (cases "s \<in> set (execs srv)")
    case True
    with delivery_invD(4) [OF call(4)] show ?thesis by simp
  next
    case False
    with that execs start_once_props(4) [of "(i, req)" "execs srv"] have "s = (i, req)" by auto
    moreover obtain x where "x \<in> set (tb_outbox (rows w))" "unpublished x = unpublished e" using mine by auto
    ultimately show ?thesis using unpublished_same(1) [of x e d] call(2) by (auto simp: own_request_def)
  qed
  moreover have "\<forall>j. case (p(k := if reply = StartFailed then Idle else Started e i)) j of
          Idle \<Rightarrow> True
        | Selected x \<Rightarrow> unpublished x \<in> unpublished ` set (tb_outbox (rows w))
        | Started x i \<Rightarrow> unpublished x \<in> unpublished ` set (tb_outbox (rows w))
            \<and> (\<exists>req. own_request d x = Inr (i, req)) \<and> i \<in> fst ` set (execs srv')"
  proof
    fix j
    have "case p j of
          Idle \<Rightarrow> True
        | Selected x \<Rightarrow> unpublished x \<in> unpublished ` set (tb_outbox (rows w))
        | Started x i \<Rightarrow> unpublished x \<in> unpublished ` set (tb_outbox (rows w))
            \<and> (\<exists>req. own_request d x = Inr (i, req)) \<and> i \<in> fst ` set (execs srv')"
      using call(4) ids by (force simp: delivery_inv_def split: phase.splits)
    then show "case (p(k := if reply = StartFailed then Idle else Started e i)) j of
          Idle \<Rightarrow> True
        | Selected x \<Rightarrow> unpublished x \<in> unpublished ` set (tb_outbox (rows w))
        | Started x i \<Rightarrow> unpublished x \<in> unpublished ` set (tb_outbox (rows w))
            \<and> (\<exists>req. own_request d x = Inr (i, req)) \<and> i \<in> fst ` set (execs srv')"
      using ok mine call(2) by (auto simp: own_request_def)
  qed
  moreover have "\<forall>x\<in>set (tb_outbox (rows w)). \<forall>s. oe_published_at x \<noteq> None \<longrightarrow> own_request d x = Inr s
      \<longrightarrow> fst s \<in> fst ` set (execs srv')"
    using delivery_invD(3) [OF call(4)] ids by blast
  ultimately show ?case unfolding delivery_inv_def prod.case
    using dist delivery_invD(1) [OF call(4)] by (intro conjI ballI allI impI) blast+
next
  case (reject p k e x w r w' srv)
  have "unpublished e \<in> unpublished ` set (tb_outbox (rows w))"
    using reject(1,4) by (auto simp: delivery_inv_def split: phase.splits)
  moreover have "constraints (rows w')"
    using reject(3,4) transaction_keeps_constraints unfolding quarantine_invalid_event_def
    by (auto simp: delivery_inv_def)
  ultimately show ?case
    using inv_settled [OF reject(4) quarantine_settles [OF reject(3)]] reject(2) by (simp add: own_request_def)
next
  case (record' p k e i w r w' srv)
  have mine: "unpublished e \<in> unpublished ` set (tb_outbox (rows w))" "i \<in> fst ` set (execs srv)"
    "\<exists>req. own_request d e = Inr (i, req)"
    using record'(1,3) by (auto simp: delivery_inv_def split: phase.splits)
  have "constraints (rows w')"
    using record'(2,3) transaction_keeps_constraints unfolding acknowledge_def by (auto simp: delivery_inv_def)
  moreover have "fst s \<in> fst ` set (execs srv)" if "own_request d e = Inr s" for s
  proof -
    have "fst s = i" using mine(3) that by auto
    with mine(2) show ?thesis by simp
  qed
  ultimately show ?case using inv_settled [OF record'(3) acknowledge_settles [OF record'(2)]] mine(1) by blast
next
  case (crash w srv p k)
  then show ?case by (auto simp: delivery_inv_def)
next
  case (other w w' srv p)
  then obtain new where new: "tb_outbox (rows w') = tb_outbox (rows w) @ new"
    "\<forall>e\<in>set new. oe_published_at e = None" "constraints (rows w')" by (auto simp: appends_events_def)
  have "\<forall>k. case p k of
          Idle \<Rightarrow> True
        | Selected e \<Rightarrow> unpublished e \<in> unpublished ` set (tb_outbox (rows w'))
        | Started e i \<Rightarrow> unpublished e \<in> unpublished ` set (tb_outbox (rows w'))
            \<and> (\<exists>req. own_request d e = Inr (i, req)) \<and> i \<in> fst ` set (execs srv)"
    using other(2) by (force simp: delivery_inv_def new split: phase.splits)
  with other(2) new show ?case by (auto simp: delivery_inv_def)
qed

text \<open>
  C17. (safety) Exactly-once start. However dispatchers interleave, fail and crash, and whatever
  events are added meanwhile: no workflow id is ever started twice, every started workflow carries
  the request its own outbox event determines, and an event that matches its contract is published
  only after its workflow was started.
\<close>

theorem starts_exactly_once:
  assumes "rejects_duplicates start execs" "constraints (rows w0)" "execs srv0 = []"
    and "\<forall>e\<in>set (tb_outbox (rows w0)). oe_published_at e = None"
    and "(delivery_step d start)\<^sup>*\<^sup>* (w0, srv0, \<lambda>_. Idle) (w, srv, p)"
  shows "distinct (map fst (execs srv))
    \<and> (\<forall>s\<in>set (execs srv). \<exists>e\<in>set (tb_outbox (rows w)). event_request d (oe_organization_id e) e = Inr s)
    \<and> (\<forall>e\<in>set (tb_outbox (rows w)). \<forall>i req. oe_published_at e \<noteq> None
        \<longrightarrow> event_request d (oe_organization_id e) e = Inr (i, req) \<longrightarrow> i \<in> fst ` set (execs srv))"
proof -
  have "delivery_inv d execs (w0, srv0, \<lambda>_. Idle)" using assms(2-4) by (simp add: delivery_inv_def)
  with assms(5) have "delivery_inv d execs (w, srv, p)"
    by (induction rule: rtranclp_induct) (auto intro: delivery_inv_step [OF assms(1)])
  then show ?thesis by (fastforce simp: delivery_inv_def own_request_def)
qed

section \<open>A delivery, a crash and a redelivery\<close>

definition sample_event :: OutboxEvent where
  "sample_event =
     \<lparr>oe_id = ''out_1'', oe_organization_id = ''org1'', oe_aggregate_type = ''purchase_intent'',
      oe_aggregate_id = ''pi1'', oe_event_type = CHECKOUT_EVENT_TYPE, oe_event_key = ''k1'',
      oe_payload = [(''workflow_id'', PStr ''wf_checkout_pi1''), (''purchase_intent_id'', PStr ''pi1''),
        (''intent_hash'', PStr ''h''), (''payment_session_id'', PStr ''s''), (''prava_session_id'', PStr ''p'')],
      oe_occurred_at = 5, oe_published_at = None\<rparr>"

definition sample_run :: WorkflowRun where
  "sample_run =
     \<lparr>wr_id = ''wf_checkout_pi1'', wr_organization_id = ''org1'', wr_aggregate_type = ''purchase_intent'',
      wr_aggregate_id = ''pi1'', wr_operation = ''checkout'', wr_status = ''PENDING'',
      wr_result_reference = None, wr_safe_error_code = None, wr_event_log = []\<rparr>"

definition sample_world :: "unit world" where
  "sample_world =
     \<lparr>rows = empty_tables\<lparr>tb_outbox := [sample_event\<lparr>oe_id := ''out_2'', oe_event_key := ''k2'',
          oe_payload := [], oe_occurred_at := 9\<rparr>, sample_event], tb_workflows := [sample_run]\<rparr>,
      added = empty_tables, tx_now = 0, reads = 0, drawn = 0, now_of = int, hex_of = show_int \<circ> int,
      calls = []\<rparr>"

definition sample_dispatcher :: dispatcher where
  "sample_dispatcher =
     \<lparr>dp_merchant_adapter_id = ''m'', dp_task_queue = ''q'', dp_organization_ids = [''org1''],
      dp_event_types = [CHECKOUT_EVENT_TYPE]\<rparr>"

definition reject_duplicate :: "starts temporal" where
  "reject_duplicate h i r =
     (if i \<in> fst ` set h then (AlreadyStarted, h) else (Accepted, h @ [(i, r)]))"

lemma reject_duplicate_laws: "rejects_duplicates reject_duplicate id" "responsive reject_duplicate"
  by (auto simp: rejects_duplicates_def responsive_def reject_duplicate_def)

lemma sample_facts:
  "constraints (rows sample_world)" "tenant ''org1''"
  "list_all (\<lambda>e. deliverable sample_dispatcher ''org1'' e (rows sample_world))
     (pending_events sample_dispatcher ''org1'' (rows sample_world))"
  "map oe_id (pending_events sample_dispatcher ''org1'' (rows sample_world)) = [''out_1'', ''out_2'']"
  "list_all (\<lambda>e. oe_published_at e = None) (tb_outbox (rows sample_world))"
  by code_simp+

lemma dispatch_refines_queue_witness:
  "\<exists>w' srv'. dispatch_once sample_dispatcher reject_duplicate ''org1'' sample_world [] = (Inr True, w', srv')
    \<and> map oe_id (pending_events sample_dispatcher ''org1'' (rows w')) = [''out_2'']
    \<and> map fst srv' = [''wf_checkout_pi1'']"
proof -
  obtain r w' srv' where run: "dispatch_once sample_dispatcher reject_duplicate ''org1'' sample_world [] = (r, w', srv')"
    by (metis prod.exhaust)
  have "fst (dispatch_once sample_dispatcher reject_duplicate ''org1'' sample_world []) = Inr True"
    by code_simp
  with run have r: "r = Inr True" by simp
  have "map oe_id (fst (queue_step sample_dispatcher ''org1''
      (pending_events sample_dispatcher ''org1'' (rows sample_world), []))) = [''out_2'']"
    "map fst (snd (queue_step sample_dispatcher ''org1''
      (pending_events sample_dispatcher ''org1'' (rows sample_world), []))) = [''wf_checkout_pi1'']"
    by code_simp+
  with dispatch_refines_queue [OF sample_facts(1,2) reject_duplicate_laws(1) run] r run show ?thesis
    by (auto simp: prod_eq_iff)
qed


lemma starts_exactly_once_witness:
  "\<exists>w srv. (delivery_step sample_dispatcher reject_duplicate)\<^sup>*\<^sup>* (sample_world, [], \<lambda>_. Idle) (w, srv, \<lambda>_. Idle)
    \<and> map fst srv = [''wf_checkout_pi1''] \<and> distinct (map fst srv)
    \<and> map oe_published_at (tb_outbox (rows w)) = [None, Some 0]"
proof -
  let ?step = "delivery_step sample_dispatcher reject_duplicate :: (unit, starts) system \<Rightarrow> _"
  let ?w1 = "begin_tx sample_world"
  obtain e q where eq: "pending_events sample_dispatcher ''org1'' (rows sample_world) = e # q" "e = sample_event"
  proof -
    have "hd (pending_events sample_dispatcher ''org1'' (rows sample_world)) = sample_event"
      "pending_events sample_dispatcher ''org1'' (rows sample_world) \<noteq> []" by code_simp+
    then show ?thesis using that by (metis list.exhaust_sel)
  qed
  obtain req where req: "event_request sample_dispatcher (oe_organization_id sample_event) sample_event
      = Inr (''wf_checkout_pi1'', req)"
  proof -
    have "mapR_res fst (event_request sample_dispatcher (oe_organization_id sample_event) sample_event)
        = Inr ''wf_checkout_pi1''" by code_simp
    then show ?thesis using that by (auto simp: mapR_res_Inr_iff)
  qed
  let ?h = "[(''wf_checkout_pi1'', req)]"
  have look: "?step (sample_world, [], \<lambda>_. Idle) (?w1, [], (\<lambda>_. Idle)(0 := Selected sample_event))"
    using delivery_step.look [of "\<lambda>_. Idle" 0, OF _ next_event_eq [OF sample_facts(1,2)],
        where d = sample_dispatcher] eq by fastforce
  have called: "?step (?w1, [], (\<lambda>_. Idle)(0 := Selected sample_event))
      (?w1, ?h, (\<lambda>_. Idle)(0 := Started sample_event ''wf_checkout_pi1''))"
    using delivery_step.call [of "(\<lambda>_. Idle)(0 := Selected sample_event)" 0 sample_event sample_dispatcher
        "''wf_checkout_pi1''" req reject_duplicate "[]" Accepted ?h ?w1] req
    by (simp add: reject_duplicate_def)
  have crashed: "?step (?w1, ?h, (\<lambda>_. Idle)(0 := Started sample_event ''wf_checkout_pi1'')) (?w1, ?h, \<lambda>_. Idle)"
    using delivery_step.crash [of sample_dispatcher reject_duplicate ?w1 ?h
        "(\<lambda>_. Idle)(0 := Started sample_event ''wf_checkout_pi1'')" 0] by (simp add: fun_upd_idem)
  obtain r w' srv' where again: "dispatch_once sample_dispatcher reject_duplicate ''org1'' ?w1 ?h = (r, w', srv')"
    by (metis prod.exhaust)
  have "(\<lambda>(r, w', srv'). (map oe_published_at (tb_outbox (rows w')), map fst srv'))
      (dispatch_once sample_dispatcher reject_duplicate ''org1'' ?w1 ?h) = ([None, Some 0], [''wf_checkout_pi1''])"
    by code_simp
  with again have final: "map oe_published_at (tb_outbox (rows w')) = [None, Some 0]" "map fst srv' = [''wf_checkout_pi1'']"
    by auto
  have "?step\<^sup>*\<^sup>* (?w1, ?h, \<lambda>_. Idle) (w', srv', \<lambda>_. Idle)"
    using dispatch_is_steps [OF _ _ sample_facts(2) again] sample_facts(1) by simp
  with look called crashed have run: "?step\<^sup>*\<^sup>* (sample_world, [], \<lambda>_. Idle) (w', srv', \<lambda>_. Idle)"
    by (meson converse_rtranclp_into_rtranclp)
  from starts_exactly_once [OF reject_duplicate_laws(1) sample_facts(1) _ _ run] sample_facts(5)
  have "distinct (map fst srv')" by (simp add: list_all_iff)
  with run final show ?thesis by (intro exI [of _ w'] exI [of _ srv'] conjI)
qed

end
