(* ===== verification/StoreLaws.thy ===== *)
theory StoreLaws
  imports WorkflowStore
begin

text \<open>
  The laws the writers of the workflow store rely on: what one run of
  \<^verbatim>\<open>transition_purchase_intent\<close> leaves behind, that a transition key is applied once,
  and a calculus of frame conditions. A condition on the worlds before and after a step composes
  along a program when it is reflexive and transitive; the locale \<open>frame\<close> proves the rules of the
  transaction language for every such condition.
\<close>

section \<open>Frame conditions\<close>

definition framed :: "('c world \<Rightarrow> 'c world \<Rightarrow> bool) \<Rightarrow> ('c, 'a) tx \<Rightarrow> bool" where
  "framed R m = (\<forall>w. R w (snd (m w)))"

lemma framedD: "framed R m \<Longrightarrow> m w = (r, w') \<Longrightarrow> R w w'"
  by (metis snd_conv framed_def)

lemma framedI: "(\<And>w r w'. m w = (r, w') \<Longrightarrow> R w w') \<Longrightarrow> framed R m"
  by (metis framed_def surjective_pairing)

lemma framed_mono: "framed R m \<Longrightarrow> (\<And>u v. R u v \<Longrightarrow> Q u v) \<Longrightarrow> framed Q m"
  by (auto simp: framed_def)

lemma framed_conj: "framed (\<lambda>u v. R u v \<and> Q u v) m \<longleftrightarrow> framed R m \<and> framed Q m"
  by (auto simp: framed_def)

locale frame =
  fixes R :: "'c world \<Rightarrow> 'c world \<Rightarrow> bool"
  assumes still: "R w w"
    and trans: "R u v \<Longrightarrow> R v w \<Longrightarrow> R u w"
    and ticks: "R w (w\<lparr>reads := n\<rparr>)" "R w (w\<lparr>drawn := n\<rparr>)"
begin

lemma pure_steps:
  "framed R (returnT x)" "framed R (raiseT e)" "framed R (liftT q)" "framed R (ensureT b e)"
  "framed R (getT f)" "framed R (select table wh one)" "framed R utcnow" "framed R (new_id p)"
  by (simp_all add: framed_def tx_run still ticks)

lemma bind: "framed R m \<Longrightarrow> (\<And>x. framed R (f x)) \<Longrightarrow> framed R (bindT m f)"
  by (auto simp: framed_def bindT_def split: prod.split sum.split) (metis snd_conv trans)+

lemma seq: "framed R m \<Longrightarrow> framed R n \<Longrightarrow> framed R (thenT m n)"
  by (simp add: thenT_def bind)

lemma guarded: "(b \<Longrightarrow> framed R m) \<Longrightarrow> framed R (thenT (ensureT b e) m)"
  by (cases b) (simp_all add: framed_def tx_run ensure_def still)

lemmas rules = pure_steps bind seq

end

lemma case_raise:
  "(case x of None \<Rightarrow> raiseT e | Some y \<Rightarrow> f y) w = (Inr r, w') \<longleftrightarrow> (\<exists>y. x = Some y \<and> f y w = (Inr r, w'))"
  "(case x of None \<Rightarrow> m | Some y \<Rightarrow> raiseT (g y)) w = (Inr r, w') \<longleftrightarrow> x = None \<and> m w = (Inr r, w')"
  by (auto split: option.splits)

text \<open>Reading off what a transaction that returned has passed.\<close>

lemmas tx_inv = bindT_Inr thenT_Inr step_simps one_row ensure_Inr_iff case_raise

section \<open>Transitions\<close>

definition both :: "'c world \<Rightarrow> tables" where
  "both w = append_tables (rows w) (added w)"

lemma both_begin [simp]: "both (begin_tx w) = rows w"
  by (simp add: both_def)

lemma append_tables_sel [simp]:
  "tb_intents (append_tables s t) = tb_intents s @ tb_intents t"
  "tb_attempts (append_tables s t) = tb_attempts s @ tb_attempts t"
  "tb_sessions (append_tables s t) = tb_sessions s @ tb_sessions t"
  "tb_approvals (append_tables s t) = tb_approvals s @ tb_approvals t"
  "tb_orders (append_tables s t) = tb_orders s @ tb_orders t"
  "tb_transitions (append_tables s t) = tb_transitions s @ tb_transitions t"
  "tb_outbox (append_tables s t) = tb_outbox s @ tb_outbox t"
  "tb_workflows (append_tables s t) = tb_workflows s @ tb_workflows t"
  "tb_reversals (append_tables s t) = tb_reversals s @ tb_reversals t"
  "tb_receipts (append_tables s t) = tb_receipts s @ tb_receipts t"
  "tb_patches (append_tables s t) = tb_patches s @ tb_patches t"
  "tb_entitlements (append_tables s t) = tb_entitlements s @ tb_entitlements t"
  "tb_approval_events (append_tables s t) = tb_approval_events s @ tb_approval_events t"
  "tb_bindings (append_tables s t) = tb_bindings s @ tb_bindings t"
  "tb_idempotency (append_tables s t) = tb_idempotency s @ tb_idempotency t"
  "tb_decisions (append_tables s t) = tb_decisions s @ tb_decisions t"
  "tb_briefs (append_tables s t) = tb_briefs s @ tb_briefs t"
  by (simp_all add: append_tables_def)

lemma empty_tables_sel [simp]:
  "tb_intents empty_tables = []" "tb_attempts empty_tables = []" "tb_sessions empty_tables = []"
  "tb_approvals empty_tables = []" "tb_orders empty_tables = []" "tb_transitions empty_tables = []"
  "tb_outbox empty_tables = []" "tb_workflows empty_tables = []" "tb_reversals empty_tables = []"
  "tb_receipts empty_tables = []" "tb_patches empty_tables = []" "tb_entitlements empty_tables = []"
  "tb_approval_events empty_tables = []" "tb_bindings empty_tables = []" "tb_idempotency empty_tables = []"
  "tb_decisions empty_tables = []" "tb_briefs empty_tables = []"
  by (simp_all add: empty_tables_def)

text \<open>What a writer puts in the outbox: nothing when the key is there, otherwise one unpublished event.\<close>

definition new_event :: "string \<Rightarrow> string \<Rightarrow> (string \<times> pyval) list \<Rightarrow> tables \<Rightarrow> OutboxEvent list \<Rightarrow> bool" where
  "new_event org k payload t es \<longleftrightarrow>
     (es = [] \<and> (\<exists>e\<in>set (tb_outbox t). oe_organization_id e = org \<and> oe_event_key e = k))
     \<or> (\<exists>e. es = [e] \<and> oe_organization_id e = org \<and> oe_event_key e = k \<and> oe_payload e = payload
          \<and> oe_published_at e = None)"

lemma add_outbox_Inr:
  assumes "add_outbox org ty i et k p w = (Inr e, w')"
  shows "\<exists>es n m. new_event org k p (rows w) es
    \<and> w' = w\<lparr>drawn := m, reads := n, added := (added w)\<lparr>tb_outbox := tb_outbox (added w) @ es\<rparr>\<rparr>"
proof -
  let ?f = "filter (\<lambda>e. oe_organization_id e = org \<and> oe_event_key e = k) (tb_outbox (rows w))"
  from assms obtain x where x: "scalar_one_or_none ?f = Inr x"
    by (auto simp: add_outbox_def result_simps)
  show ?thesis
  proof (cases x)
    case None
    let ?e = "\<lparr>oe_id = ''out'' @ ''_'' @ hex_of w (drawn w), oe_organization_id = org, oe_aggregate_type = ty,
      oe_aggregate_id = i, oe_event_type = et, oe_event_key = k, oe_payload = p,
      oe_occurred_at = now_of w (reads w), oe_published_at = None\<rparr>"
    from assms x None have "w' = w\<lparr>drawn := Suc (drawn w), reads := Suc (reads w),
      added := (added w)\<lparr>tb_outbox := tb_outbox (added w) @ [?e]\<rparr>\<rparr>"
      by (simp add: add_outbox_def tx_run Let_def del: step_simps) (elim conjE, hypsubst, rule refl)
    moreover have "new_event org k p (rows w) [?e]" by (simp add: new_event_def)
    ultimately show ?thesis by blast
  next
    case (Some y)
    with x have y: "?f = [y]" by (simp add: result_simps)
    then have "y \<in> set ?f" by simp
    then have "y \<in> set (tb_outbox (rows w))" "oe_organization_id y = org" "oe_event_key y = k" by auto
    then have "new_event org k p (rows w) []" by (auto simp: new_event_def)
    moreover have "w' = w" using assms x Some by (simp add: add_outbox_def tx_run result_simps)
    ultimately show ?thesis by (intro exI [of _ "[]"] exI [of _ "reads w"] exI [of _ "drawn w"]) simp
  qed
qed

lemma apply_transition_Inr:
  assumes "apply_transition org a current w = (Inr (), w')"
  shows "\<exists>es i n m. new_event org (''outbox:'' @ ta_event_key a)
      [(''purchase_intent_id'', PStr (ta_intent_id a)), (''state_field'', PStr (ta_state_field a)),
       (''from'', PStr current), (''to'', PStr (ta_to_state a)), (''transition_id'', PStr i)] (rows w) es
    \<and> w' = w\<lparr>rows := (rows w)\<lparr>tb_intents := assign ir_id (ta_intent_id a)
                 (set_state (ta_state_field a) (ta_to_state a)) (tb_intents (rows w))\<rparr>,
             drawn := m, reads := n,
             added := (added w)\<lparr>tb_transitions := tb_transitions (added w) @ [transition_row org a current i],
                                tb_outbox := tb_outbox (added w) @ es\<rparr>\<rparr>"
proof -
  let ?u = "w\<lparr>rows := (rows w)\<lparr>tb_intents := assign ir_id (ta_intent_id a)
                 (set_state (ta_state_field a) (ta_to_state a)) (tb_intents (rows w))\<rparr>,
             drawn := Suc (drawn w),
             added := (added w)\<lparr>tb_transitions := tb_transitions (added w)
                @ [transition_row org a current (''tr_'' @ hex_of w (drawn w))]\<rparr>\<rparr>"
  from assms obtain e where e: "add_outbox org ''purchase_intent'' (ta_intent_id a)
      (''purchase_intent.'' @ ta_state_field a @ ''.changed'') (''outbox:'' @ ta_event_key a)
      [(''purchase_intent_id'', PStr (ta_intent_id a)), (''state_field'', PStr (ta_state_field a)),
       (''from'', PStr current), (''to'', PStr (ta_to_state a)),
       (''transition_id'', PStr (''tr_'' @ hex_of w (drawn w)))] ?u = (Inr e, w')"
    by (auto simp: apply_transition_def set_intent_def result_simps)
  from add_outbox_Inr [OF this] show ?thesis by (elim exE conjE) (intro exI conjI, simp_all add: new_event_def)
qed

definition replay_of :: "string \<Rightarrow> transition_args \<Rightarrow> TransactionTransition \<Rightarrow> bool" where
  "replay_of org a t \<longleftrightarrow> tt_organization_id t = org \<and> tt_purchase_intent_id t = ta_intent_id a
     \<and> tt_event_key t = ta_event_key a"

lemma transition_Inr:
  assumes "transition_purchase_intent org a w = (Inr (), w')"
  shows "ta_state_field a \<in> {''approval_status'', ''payment_status'', ''fulfillment_status''}
    \<and> (\<exists>intent. filter (\<lambda>r. ir_id r = ta_intent_id a \<and> ir_organization_id r = org) (tb_intents (rows w)) = [intent]
        \<and> ((\<exists>d. filter (replay_of org a) (tb_transitions (rows w)) = [d] \<and> tt_to_state d = ta_to_state a
              \<and> tt_payload_hash d = ta_payload_hash a \<and> w' = w)
           \<or> (filter (replay_of org a) (tb_transitions (rows w)) = []
              \<and> state_of (ta_state_field a) intent \<in> set (ta_allowed_from a)
              \<and> apply_transition org a (state_of (ta_state_field a) intent) w = (Inr (), w'))))"
proof -
  have same: "(\<lambda>t. tt_organization_id t = org \<and> tt_purchase_intent_id t = ta_intent_id a \<and> tt_event_key t = ta_event_key a)
      = replay_of org a" by (auto simp: replay_of_def fun_eq_iff)
  from assms obtain intent dup where valid: "ta_state_field a \<in> {''approval_status'', ''payment_status'', ''fulfillment_status''}"
    and i: "filter (\<lambda>r. ir_id r = ta_intent_id a \<and> ir_organization_id r = org) (tb_intents (rows w)) = [intent]"
    and d: "scalar_one_or_none (filter (replay_of org a) (tb_transitions (rows w))) = Inr dup"
    and rest: "(case dup of Some d \<Rightarrow> ensureT (tt_to_state d = ta_to_state a \<and> tt_payload_hash d = ta_payload_hash a)
                       replay_conflict
         | None \<Rightarrow> thenT (ensureT (state_of (ta_state_field a) intent \<in> set (ta_allowed_from a)) transition_conflict)
               (apply_transition org a (state_of (ta_state_field a) intent))) w = (Inr (), w')"
    unfolding transition_purchase_intent_def get_purchase_intent_def thenT_Inr bindT_Inr Let_def step_simps
      one_row ensure_Inr_iff same by blast
  show ?thesis
  proof (cases dup)
    case None
    with d rest have "filter (replay_of org a) (tb_transitions (rows w)) = []"
      "state_of (ta_state_field a) intent \<in> set (ta_allowed_from a)"
      "apply_transition org a (state_of (ta_state_field a) intent) w = (Inr (), w')"
      by (auto simp: result_simps)
    with valid i show ?thesis by blast
  next
    case (Some x)
    with d rest have "filter (replay_of org a) (tb_transitions (rows w)) = [x]"
      "tt_to_state x = ta_to_state a" "tt_payload_hash x = ta_payload_hash a" "w' = w"
      by (auto simp: result_simps)
    with valid i show ?thesis by blast
  qed
qed

lemma one_replay:
  assumes "constraints t" "d \<in> set (tb_transitions t)" "replay_of org a d"
  shows "filter (replay_of org a) (tb_transitions t) = [d]"
proof -
  let ?key = "\<lambda>x. (tt_organization_id x, tt_purchase_intent_id x, tt_event_key x)"
  have same: "replay_of org a = (\<lambda>r. ?key r = (org, ta_intent_id a, ta_event_key a) \<and> True)"
    by (simp add: fun_eq_iff replay_of_def)
  have "distinct (map ?key (tb_transitions t))" using assms(1) by (simp add: constraints_def unique_indexes_def)
  from filter_key_some [OF this assms(2), of _ "\<lambda>_. True"] assms(3) show ?thesis
    unfolding same by simp
qed

lemma one_intent:
  assumes "constraints t" "r \<in> set (tb_intents t)" "ir_id r = i" "ir_organization_id r = org"
  shows "filter (\<lambda>r. ir_id r = i \<and> ir_organization_id r = org) (tb_intents t) = [r]"
  using filter_key_some [of ir_id "tb_intents t" r i "\<lambda>r. ir_organization_id r = org"] assms
  by (simp add: constraints_def primary_keys_def)

lemma set_state_keeps [simp]:
  "ir_id (set_state f s r) = ir_id r" "ir_organization_id (set_state f s r) = ir_organization_id r"
  "ir_intent_hash (set_state f s r) = ir_intent_hash r" "ir_amount (set_state f s r) = ir_amount r"
  by (simp_all add: set_state_def)

lemma filter_oneD: "filter P xs = [x] \<Longrightarrow> x \<in> set xs \<and> P x"
  using set_filter [of P xs] by auto

lemma transition_replayed:
  assumes "constraints (rows w)" "r \<in> set (tb_intents (rows w))" "ir_id r = ta_intent_id b"
    "ir_organization_id r = org" "d \<in> set (tb_transitions (rows w))" "replay_of org b d"
    "ta_state_field b \<in> {''approval_status'', ''payment_status'', ''fulfillment_status''}"
  shows "transition_purchase_intent org b w =
    (ensure (tt_to_state d = ta_to_state b \<and> tt_payload_hash d = ta_payload_hash b) replay_conflict, w)"
proof -
  have same: "(\<lambda>t. tt_organization_id t = org \<and> tt_purchase_intent_id t = ta_intent_id b \<and> tt_event_key t = ta_event_key b)
      = replay_of org b" by (auto simp: replay_of_def fun_eq_iff)
  show ?thesis
    unfolding transition_purchase_intent_def get_purchase_intent_def same Let_def
    using one_intent [OF assms(1-4)] one_replay [OF assms(1,5,6)]
      ensure_True [of "ValueError ''Unsupported state field''"] assms(7)
    by (simp only: bindT_def thenT_def ensureT_def select_def one_or_missing_def scalar_one_or_none_def
        list.case option.case prod.case sum.case simp_thms)
qed

lemma both_updates [simp]:
  "both (w\<lparr>reads := n\<rparr>) = both w" "both (w\<lparr>drawn := n\<rparr>) = both w"
  by (simp_all add: both_def)

lemma both_sel:
  "tb_intents (both w) = tb_intents (rows w) @ tb_intents (added w)"
  "tb_attempts (both w) = tb_attempts (rows w) @ tb_attempts (added w)"
  "tb_transitions (both w) = tb_transitions (rows w) @ tb_transitions (added w)"
  "tb_outbox (both w) = tb_outbox (rows w) @ tb_outbox (added w)"
  by (simp_all add: both_def)

lemma transaction_both:
  assumes "transaction org body w = (Inr x, w')"
  obtains u where "body (begin_tx w) = (Inr x, u)" "constraints (both u)" "rows w' = both u"
    "calls w' = calls u" "org \<noteq> []" "str_strip org = org"
  using assms by (auto simp: transaction_Inr both_def)

lemma transaction_intro:
  assumes "body (begin_tx w) = (Inr x, u)" "constraints (both u)" "org \<noteq> []" "str_strip org = org"
  shows "transaction org body w = (Inr x, u\<lparr>rows := both u, added := empty_tables\<rparr>)"
  using assms by (simp add: transaction_Inr both_def)

lemma transaction_raise:
  assumes "body (begin_tx w) = (Inl e, u)" "org \<noteq> []" "str_strip org = org"
  shows "transaction org body w = (Inl e, u\<lparr>rows := rows w, added := empty_tables\<rparr>)"
  using assms by (simp add: transaction_def)

section \<open>A transition key is applied once\<close>

definition applied :: "string \<Rightarrow> transition_args \<Rightarrow> tables \<Rightarrow> bool" where
  "applied org a t \<longleftrightarrow> (\<exists>d\<in>set (tb_transitions t). replay_of org a d
     \<and> tt_to_state d = ta_to_state a \<and> tt_payload_hash d = ta_payload_hash a)"

lemma transition_commits:
  assumes run: "transaction org (transition_purchase_intent org a) w = (Inr (), w')"
  shows "constraints (rows w') \<and> applied org a (rows w')
    \<and> (\<exists>r\<in>set (tb_intents (rows w')). ir_id r = ta_intent_id a \<and> ir_organization_id r = org)
    \<and> ((applied org a (rows w) \<and> rows w' = rows w)
       \<or> (\<not> (\<exists>d\<in>set (tb_transitions (rows w)). replay_of org a d)
          \<and> (\<exists>r\<in>set (tb_intents (rows w)). ir_id r = ta_intent_id a \<and> ir_organization_id r = org
               \<and> state_of (ta_state_field a) r \<in> set (ta_allowed_from a)
               \<and> set_state (ta_state_field a) (ta_to_state a) r \<in> set (tb_intents (rows w')))
          \<and> (\<exists>e\<in>set (tb_outbox (rows w')). oe_organization_id e = org \<and> oe_event_key e = ''outbox:'' @ ta_event_key a)))"
proof -
  from run obtain u where body: "transition_purchase_intent org a (begin_tx w) = (Inr (), u)"
    and c: "constraints (both u)" and rows: "rows w' = both u" by (rule transaction_both)
  from transition_Inr [OF body] obtain r where
    r: "filter (\<lambda>r. ir_id r = ta_intent_id a \<and> ir_organization_id r = org) (tb_intents (rows w)) = [r]" and
    split: "(\<exists>d. filter (replay_of org a) (tb_transitions (rows w)) = [d] \<and> tt_to_state d = ta_to_state a
         \<and> tt_payload_hash d = ta_payload_hash a \<and> u = begin_tx w)
      \<or> (filter (replay_of org a) (tb_transitions (rows w)) = []
         \<and> state_of (ta_state_field a) r \<in> set (ta_allowed_from a)
         \<and> apply_transition org a (state_of (ta_state_field a) r) (begin_tx w) = (Inr (), u))"
    by auto
  note intent = filter_oneD [OF r]
  from split show ?thesis
  proof
    assume "\<exists>d. filter (replay_of org a) (tb_transitions (rows w)) = [d] \<and> tt_to_state d = ta_to_state a
         \<and> tt_payload_hash d = ta_payload_hash a \<and> u = begin_tx w"
    then obtain d where d: "filter (replay_of org a) (tb_transitions (rows w)) = [d]" "tt_to_state d = ta_to_state a"
      "tt_payload_hash d = ta_payload_hash a" "u = begin_tx w" by blast
    then have "rows w' = rows w" by (simp add: rows)
    moreover have "applied org a (rows w)" using filter_oneD [OF d(1)] d(2,3) unfolding applied_def by blast
    ultimately show ?thesis using c rows intent by auto
  next
    assume new: "filter (replay_of org a) (tb_transitions (rows w)) = []
         \<and> state_of (ta_state_field a) r \<in> set (ta_allowed_from a)
         \<and> apply_transition org a (state_of (ta_state_field a) r) (begin_tx w) = (Inr (), u)"
    then obtain es i n m p where es: "new_event org (''outbox:'' @ ta_event_key a) p (rows w) es"
      and u: "u = (begin_tx w)\<lparr>rows := (rows w)\<lparr>tb_intents := assign ir_id (ta_intent_id a)
                 (set_state (ta_state_field a) (ta_to_state a)) (tb_intents (rows w))\<rparr>,
             drawn := m, reads := n,
             added := empty_tables\<lparr>tb_transitions := [transition_row org a (state_of (ta_state_field a) r) i],
                                tb_outbox := es\<rparr>\<rparr>"
      using apply_transition_Inr [of org a "state_of (ta_state_field a) r" "begin_tx w" u] by auto
    have i: "set_state (ta_state_field a) (ta_to_state a) r \<in> set (tb_intents (rows w'))"
      using intent by (auto simp: rows u both_def set_assign)
    have "replay_of org a (transition_row org a (state_of (ta_state_field a) r) i)"
      by (simp add: replay_of_def transition_row_def)
    then have "applied org a (rows w')" by (auto simp: applied_def rows u both_def transition_row_def)
    moreover have "\<exists>e\<in>set (tb_outbox (rows w')). oe_organization_id e = org \<and> oe_event_key e = ''outbox:'' @ ta_event_key a"
      using es by (auto simp: new_event_def rows u both_def)
    moreover have "\<not> (\<exists>d\<in>set (tb_transitions (rows w)). replay_of org a d)"
      using new by (auto simp: filter_empty_conv)
    moreover have "\<exists>r\<in>set (tb_intents (rows w')). ir_id r = ta_intent_id a \<and> ir_organization_id r = org"
      using i intent by (intro bexI [OF _ i]) simp
    ultimately show ?thesis using c rows intent i new by auto
  qed
qed


definition sample_row :: IntentRow where
  "sample_row =
     \<lparr>ir_id = ''pi'', ir_organization_id = ''org'', ir_decision_id = ''dec'', ir_solution_plan_id = ''plan'',
      ir_stack_patch_id = ''patch'', ir_intent_hash = ''hash'', ir_merchant_id = ''m'', ir_merchant_name = ''M'',
      ir_merchant_url = ''https://m'', ir_pack_id = ''pack'', ir_pack_version = 1, ir_offer_id = ''offer'',
      ir_offer_version = 1, ir_quote_id = ''quote'', ir_quote_version = 1,
      ir_quote_expires_at = \<lparr>dt_local = 100, dt_offset = Some 0\<rparr>, ir_amount = Dec 1250 (- 2), ir_currency = ''USD'',
      ir_expected_fulfillments = [], ir_payload = [], ir_approval_status = ''APPROVED'',
      ir_payment_status = ''CARDHOLDER_PENDING'', ir_fulfillment_status = ''NOT_STARTED''\<rparr>"

definition sample_store :: "unit world" where
  "sample_store =
     \<lparr>rows = empty_tables\<lparr>tb_intents := [sample_row]\<rparr>, added = empty_tables, tx_now = 0, reads = 0, drawn = 0,
      now_of = int, hex_of = (\<lambda>n. replicate n CHR ''a''), calls = []\<rparr>"

definition sample_expiry :: transition_args where
  "sample_expiry =
     \<lparr>ta_intent_id = ''pi'', ta_state_field = ''payment_status'', ta_allowed_from = [''CARDHOLDER_PENDING''],
      ta_to_state = ''EXPIRED'', ta_event_key = ''expired'', ta_actor_type = ''worker'', ta_actor_id = ''w'',
      ta_reason_code = ''R'', ta_payload_hash = ''h'', ta_attempt_id = None, ta_provider_event_ref = None\<rparr>"


end
