(* ===== verification/Providers.thy ===== *)
theory Providers
  imports PyData Money
begin

text \<open>
  What the provider adapters exchange with the worker: \<^verbatim>\<open>integrations/common.py\<close>,
  \<^verbatim>\<open>integrations/errors.py\<close>, \<^verbatim>\<open>integrations/merchants/models.py\<close> and
  \<^verbatim>\<open>integrations/prava/models.py\<close>. A dataclass is a record and its
  \<^verbatim>\<open>__post_init__\<close> a checking constructor \<open>mk_\<close>.
\<close>

section \<open>Adapters and provider errors\<close>

datatype AdapterMode = PRODUCTION | DEVELOPMENT_FIXTURE

record AdapterDescriptor =
  ad_provider :: string
  ad_mode :: AdapterMode
  ad_production_capable :: bool
  ad_production_verified :: bool

definition mk_AdapterDescriptor :: "AdapterDescriptor \<Rightarrow> AdapterDescriptor result" where
  "mk_AdapterDescriptor d =
     bindR (ensure (str_strip (ad_provider d) \<noteq> []) (ValueError ''provider must not be empty'')) (\<lambda>_.
     bindR (ensure (\<not> (ad_mode d = DEVELOPMENT_FIXTURE
                        \<and> (ad_production_capable d \<or> ad_production_verified d)))
              (ValueError ''development fixtures cannot claim production status'')) (\<lambda>_.
     bindR (ensure (\<not> (ad_production_verified d \<and> \<not> ad_production_capable d))
              (ValueError ''production verification requires a production-capable adapter'')) (\<lambda>_.
     Inr d)))"

definition AdapterDescriptor_production :: "string \<Rightarrow> AdapterDescriptor result" where
  "AdapterDescriptor_production provider =
     mk_AdapterDescriptor \<lparr>ad_provider = provider, ad_mode = PRODUCTION, ad_production_capable = True,
                           ad_production_verified = False\<rparr>"

definition AdapterDescriptor_development_fixture :: "string \<Rightarrow> AdapterDescriptor result" where
  "AdapterDescriptor_development_fixture provider =
     mk_AdapterDescriptor \<lparr>ad_provider = provider, ad_mode = DEVELOPMENT_FIXTURE,
                           ad_production_capable = False, ad_production_verified = False\<rparr>"

datatype ProviderErrorCode =
    CONFIGURATION_INVALID | URL_NOT_ALLOWED | AUTHENTICATION_FAILED | ACCESS_DENIED
  | INSUFFICIENT_CREDITS | NOT_FOUND | RATE_LIMITED | INVALID_REQUEST | INVALID_STATE
  | INVALID_RESPONSE | PENDING | TIMEOUT | UNAVAILABLE | MERCHANT_DECLINED | CHECKOUT_UNCERTAIN
  | REVERSAL_UNCERTAIN | FIXTURE_ONLY

fun ProviderErrorCode_value :: "ProviderErrorCode \<Rightarrow> string" where
  "ProviderErrorCode_value CONFIGURATION_INVALID = ''PROVIDER_CONFIGURATION_INVALID''"
| "ProviderErrorCode_value URL_NOT_ALLOWED = ''PROVIDER_URL_NOT_ALLOWED''"
| "ProviderErrorCode_value AUTHENTICATION_FAILED = ''PROVIDER_AUTHENTICATION_FAILED''"
| "ProviderErrorCode_value ACCESS_DENIED = ''PROVIDER_ACCESS_DENIED''"
| "ProviderErrorCode_value INSUFFICIENT_CREDITS = ''PROVIDER_INSUFFICIENT_CREDITS''"
| "ProviderErrorCode_value NOT_FOUND = ''PROVIDER_NOT_FOUND''"
| "ProviderErrorCode_value RATE_LIMITED = ''PROVIDER_RATE_LIMITED''"
| "ProviderErrorCode_value INVALID_REQUEST = ''PROVIDER_INVALID_REQUEST''"
| "ProviderErrorCode_value INVALID_STATE = ''PROVIDER_INVALID_STATE''"
| "ProviderErrorCode_value INVALID_RESPONSE = ''PROVIDER_INVALID_RESPONSE''"
| "ProviderErrorCode_value PENDING = ''PROVIDER_PENDING''"
| "ProviderErrorCode_value TIMEOUT = ''PROVIDER_TIMEOUT''"
| "ProviderErrorCode_value UNAVAILABLE = ''PROVIDER_UNAVAILABLE''"
| "ProviderErrorCode_value MERCHANT_DECLINED = ''MERCHANT_DECLINED''"
| "ProviderErrorCode_value CHECKOUT_UNCERTAIN = ''MERCHANT_CHECKOUT_UNCERTAIN''"
| "ProviderErrorCode_value REVERSAL_UNCERTAIN = ''MERCHANT_REVERSAL_UNCERTAIN''"
| "ProviderErrorCode_value FIXTURE_ONLY = ''DEVELOPMENT_FIXTURE_ONLY''"

definition provider_error :: "ProviderErrorCode \<Rightarrow> bool \<Rightarrow> py_error" where
  "provider_error code retryable = ProviderError (ProviderErrorCode_value code) retryable"

definition status_mapping :: "int \<Rightarrow> (ProviderErrorCode \<times> bool) option" where
  "status_mapping = map_of
     [(400, (INVALID_REQUEST, False)), (401, (AUTHENTICATION_FAILED, False)), (403, (ACCESS_DENIED, False)),
      (402, (INSUFFICIENT_CREDITS, False)), (404, (NOT_FOUND, False)), (409, (INVALID_STATE, False)),
      (422, (INVALID_REQUEST, False)), (429, (RATE_LIMITED, True))]"

definition raise_for_status :: "int \<Rightarrow> unit result" where
  "raise_for_status status_code =
     (if 200 \<le> status_code \<and> status_code < 300 then Inr ()
      else case (case status_mapping status_code of Some m \<Rightarrow> m | None \<Rightarrow> (UNAVAILABLE, 500 \<le> status_code)) of
        (code, retryable) \<Rightarrow> Inl (provider_error code retryable))"

section \<open>Merchant models\<close>

text \<open>An exponent below -2 counts the digits as written: \<^verbatim>\<open>1.000\<close> is refused.\<close>

definition validate_amount :: "string \<Rightarrow> unit result" where
  "validate_amount v =
     (case parse_decimal v of
        None \<Rightarrow> Inl (ValueError ''amount must be a decimal string'')
      | Some (Dec c e) \<Rightarrow>
          ensure (0 < c \<and> - 2 \<le> e) (ValueError ''amount must be positive with at most two decimal places'')
      | Some _ \<Rightarrow> Inl (ValueError ''amount must be positive with at most two decimal places''))"

definition is_currency_code :: "string \<Rightarrow> bool" where
  "is_currency_code s = (length s = 3 \<and> list_all is_upper s)"

definition currency_error :: py_error where
  "currency_error = ValueError ''currency must be an uppercase ISO 4217 code''"

datatype MerchantOutcome = APPROVED | DECLINED | UNKNOWN

fun MerchantOutcome_value :: "MerchantOutcome \<Rightarrow> string" where
  "MerchantOutcome_value APPROVED = ''APPROVED''"
| "MerchantOutcome_value DECLINED = ''DECLINED''"
| "MerchantOutcome_value UNKNOWN = ''UNKNOWN''"

datatype EntitlementVerificationStatus = VERIFIED | PARTIAL | FAILED_RETRYABLE | FAILED_FINAL

fun EntitlementVerificationStatus_value :: "EntitlementVerificationStatus \<Rightarrow> string" where
  "EntitlementVerificationStatus_value VERIFIED = ''VERIFIED''"
| "EntitlementVerificationStatus_value PARTIAL = ''PARTIAL''"
| "EntitlementVerificationStatus_value FAILED_RETRYABLE = ''FAILED_RETRYABLE''"
| "EntitlementVerificationStatus_value FAILED_FINAL = ''FAILED_FINAL''"

datatype RefundOutcomeStatus =
    PENDING | PARTIALLY_REFUNDED | REFUNDED | REJECTED | UNKNOWN

fun RefundOutcomeStatus_value :: "RefundOutcomeStatus \<Rightarrow> string" where
  "RefundOutcomeStatus_value RefundOutcomeStatus.PENDING = ''PENDING''"
| "RefundOutcomeStatus_value PARTIALLY_REFUNDED = ''PARTIALLY_REFUNDED''"
| "RefundOutcomeStatus_value REFUNDED = ''REFUNDED''"
| "RefundOutcomeStatus_value REJECTED = ''REJECTED''"
| "RefundOutcomeStatus_value RefundOutcomeStatus.UNKNOWN = ''UNKNOWN''"

record MerchantCheckoutRequest =
  mr_purchase_intent_id :: string
  mr_prava_order_id :: string
  mr_idempotency_key :: string
  mr_merchant_url :: string
  mr_amount :: string
  mr_currency :: string

definition mk_MerchantCheckoutRequest :: "MerchantCheckoutRequest \<Rightarrow> MerchantCheckoutRequest result" where
  "mk_MerchantCheckoutRequest r =
     bindR (ensure (mr_purchase_intent_id r \<noteq> [] \<and> mr_prava_order_id r \<noteq> [] \<and> mr_idempotency_key r \<noteq> [])
              (ValueError ''purchase intent, Prava order, and idempotency key are required'')) (\<lambda>_.
     bindR (validate_amount (mr_amount r)) (\<lambda>_.
     bindR (ensure (is_currency_code (mr_currency r)) currency_error) (\<lambda>_. Inr r)))"

record MerchantCheckoutOutcome =
  mc_outcome :: MerchantOutcome
  mc_merchant_order_id :: "string option"
  mc_authorization_code :: "string option"
  mc_response_code :: "string option"
  mc_adapter :: AdapterDescriptor
  mc_provider_confirmed :: bool

definition mk_MerchantCheckoutOutcome :: "MerchantCheckoutOutcome \<Rightarrow> MerchantCheckoutOutcome result" where
  "mk_MerchantCheckoutOutcome r =
     bindR (ensure (\<not> (mc_outcome r = MerchantOutcome.APPROVED \<and> mc_merchant_order_id r \<in> {None, Some []}))
              (ValueError ''approved checkout requires a merchant order id'')) (\<lambda>_.
     bindR (ensure (\<not> (ad_mode (mc_adapter r) = DEVELOPMENT_FIXTURE \<and> mc_provider_confirmed r))
              (ValueError ''development fixtures cannot confirm a production checkout'')) (\<lambda>_. Inr r))"

record EntitlementVerificationRequest =
  vr_merchant_order_id :: string
  vr_entitlement_type :: string
  vr_minimum_quantity :: int
  vr_subject_id :: "string option"
  vr_product_id :: "string option"
  vr_product_version :: "string option"
  vr_region :: "string option"
  vr_scope :: "string option"
  vr_require_access_probe :: bool

definition mk_EntitlementVerificationRequest ::
    "EntitlementVerificationRequest \<Rightarrow> EntitlementVerificationRequest result" where
  "mk_EntitlementVerificationRequest r =
     bindR (ensure (vr_merchant_order_id r \<noteq> [] \<and> vr_entitlement_type r \<noteq> [])
              (ValueError ''merchant order and entitlement type are required'')) (\<lambda>_.
     bindR (ensure (1 \<le> vr_minimum_quantity r) (ValueError ''minimum_quantity must be positive'')) (\<lambda>_.
     Inr r))"

record EntitlementVerificationResult =
  ev_status :: EntitlementVerificationStatus
  ev_observed_quantity :: int
  ev_external_entitlement_ids :: "string list"
  ev_access_probe_verified :: bool
  ev_adapter :: AdapterDescriptor
  ev_provider_confirmed :: bool

definition mk_EntitlementVerificationResult ::
    "EntitlementVerificationResult \<Rightarrow> EntitlementVerificationResult result" where
  "mk_EntitlementVerificationResult r =
     bindR (ensure (0 \<le> ev_observed_quantity r) (ValueError ''observed_quantity must not be negative'')) (\<lambda>_.
     bindR (ensure (\<not> (ad_mode (ev_adapter r) = DEVELOPMENT_FIXTURE \<and> ev_provider_confirmed r))
              (ValueError ''development fixtures cannot confirm production fulfillment'')) (\<lambda>_. Inr r))"

record MerchantRefundRequest =
  mf_merchant_order_id :: string
  mf_idempotency_key :: string
  mf_amount :: string
  mf_currency :: string
  mf_reason_code :: string

definition mk_MerchantRefundRequest :: "MerchantRefundRequest \<Rightarrow> MerchantRefundRequest result" where
  "mk_MerchantRefundRequest r =
     bindR (ensure (mf_merchant_order_id r \<noteq> [] \<and> mf_idempotency_key r \<noteq> [] \<and> mf_reason_code r \<noteq> [])
              (ValueError ''merchant order, idempotency key, and reason code are required'')) (\<lambda>_.
     bindR (validate_amount (mf_amount r)) (\<lambda>_.
     bindR (ensure (is_currency_code (mf_currency r)) currency_error) (\<lambda>_. Inr r)))"

record MerchantRefundResult =
  rr_status :: RefundOutcomeStatus
  rr_provider_refund_id :: "string option"
  rr_refunded_amount :: string
  rr_currency :: string
  rr_entitlements_revoked :: bool
  rr_adapter :: AdapterDescriptor
  rr_provider_confirmed :: bool

definition refund_amount :: "string \<Rightarrow> (int \<times> int) result" where
  "refund_amount v =
     (case parse_decimal v of
        Some (Dec c e) \<Rightarrow> mapR_res (\<lambda>_. (c, e))
          (ensure (0 \<le> c) (ValueError ''refunded amount must be a non-negative decimal''))
      | _ \<Rightarrow> Inl (ValueError ''refunded amount must be a non-negative decimal''))"

definition mk_MerchantRefundResult :: "MerchantRefundResult \<Rightarrow> MerchantRefundResult result" where
  "mk_MerchantRefundResult r =
     bindR (refund_amount (rr_refunded_amount r)) (\<lambda>(c, e).
     bindR (ensure (is_currency_code (rr_currency r)) currency_error) (\<lambda>_.
     bindR (ensure (\<not> (rr_status r \<in> {PARTIALLY_REFUNDED, REFUNDED}
                        \<and> (rr_provider_refund_id r \<in> {None, Some []} \<or> c \<le> 0)))
              (ValueError ''confirmed refunds require a provider reference and positive amount'')) (\<lambda>_.
     bindR (ensure (\<not> (ad_mode (rr_adapter r) = DEVELOPMENT_FIXTURE \<and> rr_provider_confirmed r))
              (ValueError ''development fixtures cannot confirm a production refund'')) (\<lambda>_. Inr r))))"

section \<open>Prava models\<close>

datatype PravaPaymentStatus = PENDING | AWAITING_RESULT | COMPLETED | FAILED

fun PravaPaymentStatus_value :: "PravaPaymentStatus \<Rightarrow> string" where
  "PravaPaymentStatus_value PravaPaymentStatus.PENDING = ''pending''"
| "PravaPaymentStatus_value AWAITING_RESULT = ''awaiting_result''"
| "PravaPaymentStatus_value COMPLETED = ''completed''"
| "PravaPaymentStatus_value FAILED = ''failed''"

record PravaMerchantDetails =
  pm_name :: string
  pm_url :: string
  pm_country_code_iso2 :: string

definition mk_PravaMerchantDetails :: "PravaMerchantDetails \<Rightarrow> PravaMerchantDetails result" where
  "mk_PravaMerchantDetails m =
     bindR (ensure (str_strip (pm_name m) \<noteq> [] \<and> pm_url m \<noteq> [])
              (ValueError ''merchant name and URL are required'')) (\<lambda>_.
     bindR (ensure (length (pm_country_code_iso2 m) = 2 \<and> list_all is_upper (pm_country_code_iso2 m))
              (ValueError ''country_code_iso2 must be two uppercase letters'')) (\<lambda>_. Inr m))"

record PravaProductDetails =
  pp_description :: string
  pp_unit_price :: string
  pp_quantity :: int
  pp_product_id :: "string option"

definition mk_PravaProductDetails :: "PravaProductDetails \<Rightarrow> PravaProductDetails result" where
  "mk_PravaProductDetails p =
     bindR (ensure (str_strip (pp_description p) \<noteq> [] \<and> 1 \<le> pp_quantity p)
              (ValueError ''product description and positive quantity are required'')) (\<lambda>_.
     bindR (validate_amount (pp_unit_price p)) (\<lambda>_. Inr p))"

record PravaSessionRequest =
  pq_user_id :: string
  pq_user_email :: string
  pq_total_amount :: string
  pq_currency :: string
  pq_merchant :: PravaMerchantDetails
  pq_products :: "PravaProductDetails list"
  pq_callback_url :: string

definition mk_PravaSessionRequest :: "PravaSessionRequest \<Rightarrow> PravaSessionRequest result" where
  "mk_PravaSessionRequest q =
     bindR (ensure (pq_user_id q \<noteq> [] \<and> CHR ''@'' \<in> set (pq_user_email q))
              (ValueError ''user id and email are required'')) (\<lambda>_.
     bindR (validate_amount (pq_total_amount q)) (\<lambda>_.
     bindR (ensure (is_currency_code (pq_currency q)) currency_error) (\<lambda>_.
     bindR (ensure (pq_products q \<noteq> []) (ValueError ''at least one product is required'')) (\<lambda>_. Inr q))))"

record PravaHostedSession =
  ph_session_id :: string
  ph_hosted_url :: string
  ph_order_id :: string
  ph_expires_at :: py_datetime
  ph_adapter :: AdapterDescriptor

record PravaReportResult =
  rp_session_id :: string
  rp_transaction_reference :: string
  rp_provider_confirmed :: bool
  rp_adapter :: AdapterDescriptor

definition mk_PravaReportResult :: "PravaReportResult \<Rightarrow> PravaReportResult result" where
  "mk_PravaReportResult r =
     bindR (ensure (\<not> (ad_mode (rp_adapter r) = DEVELOPMENT_FIXTURE \<and> rp_provider_confirmed r))
              (ValueError ''a development fixture cannot confirm a production report'')) (\<lambda>_. Inr r)"

record PravaCheckoutResult =
  pc_session_id :: string
  pc_prava_order_id :: string
  pc_transaction_reference :: string
  pc_merchant :: MerchantCheckoutOutcome
  pc_provider_reported :: bool
  pc_final_status :: PravaPaymentStatus
  pc_reconciliation_required :: bool
  pc_adapter :: AdapterDescriptor

definition mk_PravaCheckoutResult :: "PravaCheckoutResult \<Rightarrow> PravaCheckoutResult result" where
  "mk_PravaCheckoutResult r =
     bindR (ensure (\<not> (ad_mode (pc_adapter r) = DEVELOPMENT_FIXTURE \<and> pc_provider_reported r))
              (ValueError ''a development fixture cannot confirm a production report'')) (\<lambda>_. Inr r)"

end
