(* ===== verification/Checkout.thy ===== *)
theory Checkout
  imports StoreLaws Contracts Providers Hashing
begin

text \<open>
  The checkout half of \<^verbatim>\<open>services/worker/sira_worker/coordinator.py\<close>: the guards and the
  attempt committed before a payment is dispatched, the one dispatch, the persisted outcome, and the
  reconciliation of an outcome that is not final. The provider adapters are not part of the program:
  a reply may depend on every call made before it, so an adapter is a function of the call history.
\<close>

section \<open>Providers\<close>

datatype provider_call =
    ExecuteCheckout string MerchantCheckoutRequest
  | ReconcileOrder MerchantCheckoutRequest
  | ReportOutcome string string MerchantCheckoutOutcome
  | VerifyEntitlements EntitlementVerificationRequest
  | RequestRefund MerchantRefundRequest
  | ReconcileRefund MerchantRefundRequest
  | CreateSession PravaSessionRequest

record providers =
  px_prava :: AdapterDescriptor
  px_merchant :: AdapterDescriptor
  px_reversal :: "AdapterDescriptor option"
  px_execute :: "provider_call list \<Rightarrow> string \<Rightarrow> MerchantCheckoutRequest \<Rightarrow> PravaCheckoutResult result"
  px_reconcile :: "provider_call list \<Rightarrow> MerchantCheckoutRequest \<Rightarrow> MerchantCheckoutOutcome result"
  px_report :: "provider_call list \<Rightarrow> string \<Rightarrow> string \<Rightarrow> MerchantCheckoutOutcome \<Rightarrow> PravaReportResult result"
  px_verify :: "provider_call list \<Rightarrow> EntitlementVerificationRequest \<Rightarrow> EntitlementVerificationResult result"
  px_refund :: "provider_call list \<Rightarrow> MerchantRefundRequest \<Rightarrow> MerchantRefundResult result"
  px_reconcile_refund :: "provider_call list \<Rightarrow> MerchantRefundRequest \<Rightarrow> MerchantRefundResult result"

type_synonym 'a worker = "(provider_call, 'a) tx"

text \<open>The outcome of a provider call is data here, so that the caller may catch it.\<close>

definition callT :: "provider_call \<Rightarrow> (provider_call list \<Rightarrow> 'a result) \<Rightarrow> 'a result worker" where
  "callT c reply w = (Inr (reply (calls w)), w\<lparr>calls := calls w @ [c]\<rparr>)"

text \<open>
  The coordinator's configuration, with \<^verbatim>\<open>content_hash\<close> as \<open>co_hash\<close> and \<^verbatim>\<open>str\<close> of a
  value that is not a string as \<open>co_text\<close>.
\<close>

record coordinator =
  co_merchant_adapter_id :: string
  co_environment :: string
  co_hash :: "pyval \<Rightarrow> string result"
  co_text :: "pyval \<Rightarrow> string"
  co_providers :: providers

definition mk_coordinator :: "coordinator \<Rightarrow> coordinator result" where
  "mk_coordinator c =
     mapR_res (\<lambda>_. c) (ensure (str_strip (co_merchant_adapter_id c) \<noteq> []) (ValueError ''merchant_adapter_id is required''))"

section \<open>Before the dispatch\<close>

definition invalid_state :: py_error where
  "invalid_state = provider_error INVALID_STATE False"

definition start_of_tx :: "'c world \<Rightarrow> int result \<times> 'c world" where
  "start_of_tx w = (Inr (tx_now w), w)"

text \<open>\<^verbatim>\<open>_as_utc\<close>: a naive time is read as UTC; the ends of the calendar overflow.\<close>

definition as_utc :: "py_datetime \<Rightarrow> int result" where
  "as_utc t =
     (let u = dt_instant t in if dt_aware t \<and> (u < 0 \<or> max_local_us < u) then Inl OverflowError else Inr u)"

definition utc_isoformat :: "int \<Rightarrow> string" where
  "utc_isoformat u =
     (let tod = u mod day_us; us = tod mod 1000000; sec = tod div 1000000
      in date_isoformat (u div day_us + 1) @ ''T'' @ pad 2 (sec div 3600) @ '':'' @ pad 2 (sec div 60 mod 60)
         @ '':'' @ pad 2 (sec mod 60) @ (if us = 0 then [] else CHR ''.'' # pad 6 us) @ ''+00:00'')"

definition merchant_request :: "IntentRow \<Rightarrow> PaymentSession \<Rightarrow> string \<Rightarrow> MerchantCheckoutRequest result" where
  "merchant_request intent session idempotency_key =
     mk_MerchantCheckoutRequest
       \<lparr>mr_purchase_intent_id = ir_id intent, mr_prava_order_id = ps_provider_order_id session,
        mr_idempotency_key = idempotency_key, mr_merchant_url = ir_merchant_url intent,
        mr_amount = decimal_text (ir_amount intent), mr_currency = ir_currency intent\<rparr>"

record authority =
  au_intent :: IntentRow
  au_approval :: ApprovalRequest
  au_session :: PaymentSession

text \<open>The guards of \<^verbatim>\<open>_prepare_attempt\<close>, in the order of the code.\<close>

definition checkout_authority :: "IsolatedCheckoutActivityInput \<Rightarrow> ('c, authority) tx" where
  "checkout_authority q =
     (let org = ici_organization_id q in
      bindT (get_purchase_intent org (ici_purchase_intent_id q)) (\<lambda>intent.
      thenT (ensureT (ir_intent_hash intent = ici_intent_hash q \<and> ir_approval_status intent = ''APPROVED'')
         invalid_state)
      (bindT (getT (\<lambda>t. latest ar_created_at (filter (\<lambda>a. ar_organization_id a = org
          \<and> ar_purchase_intent_id a = ir_id intent \<and> ar_intent_hash a = ir_intent_hash intent
          \<and> ar_status a = ''APPROVED'') (tb_approvals t)))) (\<lambda>found. case found of
         None \<Rightarrow> raiseT invalid_state
       | Some approval \<Rightarrow>
           thenT (ensureT (ir_payment_status intent = ''CARDHOLDER_PENDING'') invalid_state)
           (bindT (select tb_sessions (\<lambda>s. ps_organization_id s = org
               \<and> ps_purchase_intent_id s = ir_id intent
               \<and> ps_provider_session_id s = ici_prava_session_id q) scalar_one_or_none) (\<lambda>opened. case opened of
              None \<Rightarrow> raiseT (provider_error NOT_FOUND False)
            | Some session \<Rightarrow>
                thenT (ensureT (ps_status session = ''CARDHOLDER_PENDING'') invalid_state)
                (bindT (select tb_attempts (\<lambda>a. pa_organization_id a = org
                    \<and> pa_purchase_intent_id a = ir_id intent \<and> pa_closed_at a = None) scalar_one_or_none)
                  (\<lambda>existing. case existing of
                     Some _ \<Rightarrow> raiseT (provider_error CHECKOUT_UNCERTAIN False)
                   | None \<Rightarrow> returnT \<lparr>au_intent = intent, au_approval = approval, au_session = session\<rparr>))))))))"

definition expiry_reason :: "authority \<Rightarrow> int \<Rightarrow> string option result" where
  "expiry_reason a now =
     bindR (as_utc (ir_quote_expires_at (au_intent a))) (\<lambda>quote.
     if quote \<le> now then Inr (Some ''QUOTE_EXPIRED_BEFORE_CHECKOUT'')
     else bindR (as_utc (ar_expires_at (au_approval a))) (\<lambda>approval.
     if approval \<le> now then Inr (Some ''APPROVAL_EXPIRED_BEFORE_CHECKOUT'')
     else bindR (as_utc (ps_expires_at (au_session a))) (\<lambda>session.
     if session \<le> now then Inr (Some ''PAYMENT_SESSION_EXPIRED_BEFORE_CHECKOUT'') else Inr None)))"

definition expiry_payload :: "authority \<Rightarrow> string \<Rightarrow> pyval result" where
  "expiry_payload a reason =
     bindR (as_utc (ar_expires_at (au_approval a))) (\<lambda>approval.
     bindR (as_utc (ir_quote_expires_at (au_intent a))) (\<lambda>quote.
     bindR (as_utc (ps_expires_at (au_session a))) (\<lambda>session.
     Inr (obj [(''payment_session_id'', PStr (ps_id (au_session a))),
               (''approval_expires_at'', PStr (utc_isoformat approval)),
               (''quote_expires_at'', PStr (utc_isoformat quote)),
               (''session_expires_at'', PStr (utc_isoformat session)), (''reason'', PStr reason)]))))"

definition worker_transition :: "string \<Rightarrow> string \<Rightarrow> string list \<Rightarrow> string \<Rightarrow> string \<Rightarrow> string \<Rightarrow> string \<Rightarrow> transition_args" where
  "worker_transition intent_id state_field allowed_from to_state event_key reason_code payload_hash =
     \<lparr>ta_intent_id = intent_id, ta_state_field = state_field, ta_allowed_from = allowed_from,
      ta_to_state = to_state, ta_event_key = event_key, ta_actor_type = ''worker'',
      ta_actor_id = ''checkout_coordinator'', ta_reason_code = reason_code, ta_payload_hash = payload_hash,
      ta_attempt_id = None, ta_provider_event_ref = None\<rparr>"

definition expire_authority :: "coordinator \<Rightarrow> string \<Rightarrow> authority \<Rightarrow> string \<Rightarrow> ('c, unit) tx" where
  "expire_authority c org a reason =
     thenT (if reason = ''APPROVAL_EXPIRED_BEFORE_CHECKOUT''
            then thenT (set_approval (ar_id (au_approval a)) (\<lambda>r. r\<lparr>ar_status := ''EXPIRED''\<rparr>))
                   (set_intent (ir_id (au_intent a)) (\<lambda>r. r\<lparr>ir_approval_status := ''EXPIRED''\<rparr>))
            else returnT ())
     (thenT (set_session (ps_id (au_session a)) (\<lambda>r. r\<lparr>ps_status := ''EXPIRED''\<rparr>))
     (bindT (liftT (bindR (expiry_payload a reason) (co_hash c))) (\<lambda>h.
      transition_purchase_intent org
        (worker_transition (ir_id (au_intent a)) ''payment_status'' [''CARDHOLDER_PENDING''] ''EXPIRED''
           (''checkout-expired:'' @ ps_id (au_session a) @ '':'' @ str_lower reason) reason h))))"

definition new_attempt :: "string \<Rightarrow> authority \<Rightarrow> string \<Rightarrow> int \<Rightarrow> PaymentAttempt" where
  "new_attempt org a attempt_id now =
     \<lparr>pa_id = attempt_id, pa_organization_id = org, pa_purchase_intent_id = ir_id (au_intent a),
      pa_payment_session_id = ps_id (au_session a), pa_merchant_outcome = None,
      pa_external_order_id = None, pa_closed_at = None, pa_created_at = now\<rparr>"

definition dispatch_transition :: "authority \<Rightarrow> string \<Rightarrow> string \<Rightarrow> transition_args" where
  "dispatch_transition a attempt_id h =
     (worker_transition (ir_id (au_intent a)) ''payment_status'' [''CARDHOLDER_PENDING'']
        ''CHECKOUT_PENDING'' (''checkout-dispatched:'' @ attempt_id) ''ISOLATED_CHECKOUT_DISPATCHED'' h)
       \<lparr>ta_attempt_id := Some attempt_id\<rparr>"

definition open_attempt ::
    "coordinator \<Rightarrow> IsolatedCheckoutActivityInput \<Rightarrow> authority \<Rightarrow> ('c, MerchantCheckoutRequest \<times> string) tx" where
  "open_attempt c q a =
     (let org = ici_organization_id q in
      bindT (new_id ''payatt'') (\<lambda>attempt_id.
      bindT start_of_tx (\<lambda>now.
      thenT (addT (\<lambda>t. t\<lparr>tb_attempts := tb_attempts t @ [new_attempt org a attempt_id now]\<rparr>))
      (thenT (set_session (ps_id (au_session a)) (\<lambda>r. r\<lparr>ps_status := ''CHECKOUT_PENDING''\<rparr>))
      (bindT (liftT (co_hash c (obj [(''attempt_id'', PStr attempt_id),
          (''provider_session_id'', PStr (ici_prava_session_id q)),
          (''idempotency_key'', PStr (ici_idempotency_key q))]))) (\<lambda>h.
       thenT (transition_purchase_intent org (dispatch_transition a attempt_id h))
       (bindT (liftT (merchant_request (au_intent a) (au_session a) (ici_idempotency_key q))) (\<lambda>m.
        returnT (m, attempt_id)))))))))"

definition prepare_body ::
    "coordinator \<Rightarrow> IsolatedCheckoutActivityInput \<Rightarrow> ('c, (MerchantCheckoutRequest \<times> string) option) tx" where
  "prepare_body c q =
     bindT (checkout_authority q) (\<lambda>a.
     bindT utcnow (\<lambda>now.
     bindT (liftT (expiry_reason a now)) (\<lambda>reason. case reason of
        Some why \<Rightarrow> thenT (expire_authority c (ici_organization_id q) a why) (returnT None)
      | None \<Rightarrow> bindT (open_attempt c q a) (\<lambda>r. returnT (Some r)))))"

definition log_run :: "string \<Rightarrow> string \<Rightarrow> WorkflowRun \<Rightarrow> WorkflowRun" where
  "log_run status message r =
     r\<lparr>wr_event_log := wr_event_log r @
        [\<lparr>le_id = show_int (int (length (wr_event_log r)) + 1), le_status = status, le_message = message\<rparr>]\<rparr>"

definition finish_workflow_run :: "string \<Rightarrow> string \<Rightarrow> string \<Rightarrow> string option \<Rightarrow> string \<Rightarrow> ('c, unit) tx" where
  "finish_workflow_run org intent_id status safe_error_code message =
     transaction org
       (bindT (select tb_workflows (\<lambda>r. wr_id r = ''wf_checkout_'' @ intent_id \<and> wr_organization_id r = org)
          scalar_one_or_none) (\<lambda>found. case found of
            None \<Rightarrow> returnT ()
          | Some workflow \<Rightarrow>
              if wr_status workflow \<in> {''COMPLETED'', ''FAILED''} then returnT ()
              else set_workflow (wr_id workflow) (\<lambda>r. log_run status message
                     (r\<lparr>wr_status := status, wr_safe_error_code := safe_error_code\<rparr>))))"

definition prepare_attempt ::
    "coordinator \<Rightarrow> IsolatedCheckoutActivityInput \<Rightarrow> ('c, MerchantCheckoutRequest \<times> string) tx" where
  "prepare_attempt c q =
     thenT (ensureT (ici_merchant_adapter_id q = co_merchant_adapter_id c)
        (provider_error CONFIGURATION_INVALID False))
     (bindT (transaction (ici_organization_id q) (prepare_body c q)) (\<lambda>prepared. case prepared of
        Some r \<Rightarrow> returnT r
      | None \<Rightarrow>
          thenT (finish_workflow_run (ici_organization_id q) (ici_purchase_intent_id q) ''FAILED''
                   (Some ''CHECKOUT_AUTHORITY_EXPIRED'') ''Checkout authority expired before dispatch'')
            (raiseT invalid_state)))"

section \<open>The outcome of a dispatch\<close>

fun SafeMerchantOutcome_of :: "MerchantOutcome \<Rightarrow> SafeMerchantOutcome" where
  "SafeMerchantOutcome_of MerchantOutcome.APPROVED = SafeMerchantOutcome.APPROVED"
| "SafeMerchantOutcome_of MerchantOutcome.DECLINED = SafeMerchantOutcome.DECLINED"
| "SafeMerchantOutcome_of MerchantOutcome.UNKNOWN = SafeMerchantOutcome.UNKNOWN"

definition outcome_of :: "PravaCheckoutResult \<Rightarrow> MerchantOutcome" where
  "outcome_of r = mc_outcome (pc_merchant r)"

definition checkout_result :: "string \<Rightarrow> PravaCheckoutResult \<Rightarrow> CheckoutActivityResult" where
  "checkout_result intent_id r =
     \<lparr>car_purchase_intent_id = intent_id, car_prava_session_id = pc_session_id r,
      car_prava_order_id = pc_prava_order_id r, car_transaction_reference = pc_transaction_reference r,
      car_merchant_outcome = SafeMerchantOutcome_of (outcome_of r),
      car_merchant_order_id = mc_merchant_order_id (pc_merchant r),
      car_provider_reported = pc_provider_reported r,
      car_reconciliation_required = pc_reconciliation_required r\<rparr>"

definition record_outcome :: "string \<Rightarrow> PravaCheckoutResult \<Rightarrow> ('c, unit) tx" where
  "record_outcome attempt_id r =
     thenT (set_attempt attempt_id (\<lambda>a. a\<lparr>pa_merchant_outcome := Some (MerchantOutcome_value (outcome_of r)),
        pa_external_order_id := mc_merchant_order_id (pc_merchant r)\<rparr>))
     (if outcome_of r \<noteq> MerchantOutcome.UNKNOWN \<and> \<not> pc_reconciliation_required r
      then bindT utcnow (\<lambda>now. set_attempt attempt_id (\<lambda>a. a\<lparr>pa_closed_at := Some now\<rparr>))
      else returnT ())"

definition record_order ::
    "coordinator \<Rightarrow> string \<Rightarrow> IntentRow \<Rightarrow> string \<Rightarrow> PravaCheckoutResult \<Rightarrow> ('c, unit) tx" where
  "record_order c org intent idempotency_key r =
     (case mc_merchant_order_id (pc_merchant r) of
        None \<Rightarrow> returnT ()
      | Some external \<Rightarrow>
          bindT (select tb_orders (\<lambda>m. mo_organization_id m = org
              \<and> mo_merchant_adapter_id m = co_merchant_adapter_id c
              \<and> mo_idempotency_key m = idempotency_key) scalar_one_or_none) (\<lambda>existing. case existing of
             Some _ \<Rightarrow> returnT ()
           | None \<Rightarrow> bindT (new_id ''mord'') (\<lambda>i. addT (\<lambda>t. t\<lparr>tb_orders := tb_orders t @
               [\<lparr>mo_id = i, mo_organization_id = org, mo_purchase_intent_id = ir_id intent,
                 mo_merchant_adapter_id = co_merchant_adapter_id c, mo_idempotency_key = idempotency_key,
                 mo_external_order_id = external, mo_status = MerchantOutcome_value (outcome_of r),
                 mo_amount = ir_amount intent, mo_currency = ir_currency intent,
                 mo_safe_payload =
                   [(''provider_confirmed'', PBool (mc_provider_confirmed (pc_merchant r))),
                    (''response_code'', optional PStr (mc_response_code (pc_merchant r)))]\<rparr>]\<rparr>))))"

definition safe_payload_of :: "PravaCheckoutResult \<Rightarrow> pyval" where
  "safe_payload_of r =
     obj [(''outcome'', PStr (MerchantOutcome_value (outcome_of r))),
          (''transaction_reference'', PStr (pc_transaction_reference r)),
          (''provider_reported'', PBool (pc_provider_reported r)),
          (''reconciliation_required'', PBool (pc_reconciliation_required r))]"

definition outcome_transition ::
    "string \<Rightarrow> string \<Rightarrow> string list \<Rightarrow> string \<Rightarrow> string \<Rightarrow> string \<Rightarrow> string \<Rightarrow> string option \<Rightarrow> transition_args" where
  "outcome_transition intent_id attempt_id allowed_from to_state event_key reason_code payload_hash ref =
     (worker_transition intent_id ''payment_status'' allowed_from to_state event_key reason_code payload_hash)
       \<lparr>ta_attempt_id := Some attempt_id, ta_provider_event_ref := ref\<rparr>"

definition provider_ref :: "string \<Rightarrow> string option" where
  "provider_ref ref = (if prefix ''reconcile:'' ref then None else Some ref)"

text \<open>
  The three branches on the outcome. A known approval is entered twice: \<open>MERCHANT_APPROVED\<close>,
  unless an earlier call did, and then \<open>PRAVA_COMPLETED\<close> or \<open>REPORTING\<close>.
\<close>

definition settle_unknown :: "string \<Rightarrow> IntentRow \<Rightarrow> PaymentAttempt \<Rightarrow> string \<Rightarrow> PravaCheckoutResult \<Rightarrow> ('c, unit) tx" where
  "settle_unknown org intent attempt h r =
     thenT (set_session (pa_payment_session_id attempt) (\<lambda>s. s\<lparr>ps_status := ''UNCERTAIN''\<rparr>))
       (transition_purchase_intent org
         (outcome_transition (ir_id intent) (pa_id attempt) [''CHECKOUT_PENDING'', ''UNCERTAIN''] ''UNCERTAIN''
            (''checkout-uncertain:'' @ pa_id attempt) ''MERCHANT_OUTCOME_UNKNOWN'' h
            (provider_ref (pc_transaction_reference r))))"

definition settle_declined :: "string \<Rightarrow> IntentRow \<Rightarrow> PaymentAttempt \<Rightarrow> string \<Rightarrow> PravaCheckoutResult \<Rightarrow> ('c, unit) tx" where
  "settle_declined org intent attempt h r =
     thenT (set_session (pa_payment_session_id attempt) (\<lambda>s. s\<lparr>ps_status := ''DECLINED''\<rparr>))
       (transition_purchase_intent org
         (outcome_transition (ir_id intent) (pa_id attempt) [''CHECKOUT_PENDING'', ''UNCERTAIN''] ''DECLINED''
            (''checkout-declined:'' @ pa_id attempt) ''MERCHANT_DECLINED'' h
            (Some (pc_transaction_reference r))))"

definition report_target :: "PravaCheckoutResult \<Rightarrow> string" where
  "report_target r = (if pc_provider_reported r then ''PRAVA_COMPLETED'' else ''REPORTING'')"

definition settle_approved :: "string \<Rightarrow> IntentRow \<Rightarrow> PaymentAttempt \<Rightarrow> string \<Rightarrow> PravaCheckoutResult \<Rightarrow> ('c, unit) tx" where
  "settle_approved org intent attempt h r =
     thenT (if ir_payment_status intent \<in> {''CHECKOUT_PENDING'', ''UNCERTAIN''}
            then transition_purchase_intent org
              (outcome_transition (ir_id intent) (pa_id attempt) [''CHECKOUT_PENDING'', ''UNCERTAIN'']
                 ''MERCHANT_APPROVED'' (''merchant-approved:'' @ pa_id attempt) ''MERCHANT_APPROVED'' h None)
            else returnT ())
     (thenT (set_session (pa_payment_session_id attempt) (\<lambda>s. s\<lparr>ps_status := report_target r\<rparr>))
       (transition_purchase_intent org
         (outcome_transition (ir_id intent) (pa_id attempt) [''MERCHANT_APPROVED'', ''REPORTING'']
            (report_target r) (''prava-report:'' @ pa_id attempt @ '':'' @ str_lower (report_target r))
            (if pc_provider_reported r then ''PRAVA_REPORT_CONFIRMED''
             else ''PRAVA_REPORT_RECONCILIATION_REQUIRED'') h
            (Some (pc_transaction_reference r)))))"

definition settle :: "string \<Rightarrow> IntentRow \<Rightarrow> PaymentAttempt \<Rightarrow> string \<Rightarrow> PravaCheckoutResult \<Rightarrow> ('c, unit) tx" where
  "settle org intent attempt h r =
     (case outcome_of r of
        MerchantOutcome.UNKNOWN \<Rightarrow> settle_unknown org intent attempt h r
      | MerchantOutcome.DECLINED \<Rightarrow> settle_declined org intent attempt h r
      | MerchantOutcome.APPROVED \<Rightarrow> settle_approved org intent attempt h r)"

definition persist_body ::
    "coordinator \<Rightarrow> string \<Rightarrow> string \<Rightarrow> string \<Rightarrow> string \<Rightarrow> PravaCheckoutResult \<Rightarrow> ('c, CheckoutActivityResult) tx" where
  "persist_body c org intent_id attempt_id idempotency_key r =
     bindT (get_purchase_intent org intent_id) (\<lambda>intent.
     bindT (select tb_attempts (\<lambda>a. pa_id a = attempt_id \<and> pa_organization_id a = org) scalar_one)
       (\<lambda>attempt.
     bindT (select tb_sessions (\<lambda>s. ps_id s = pa_payment_session_id attempt \<and> ps_organization_id s = org)
       scalar_one) (\<lambda>_.
     thenT (record_outcome attempt_id r)
     (thenT (record_order c org intent idempotency_key r)
     (bindT (liftT (co_hash c (safe_payload_of r))) (\<lambda>h.
      thenT (settle org intent attempt h r) (returnT (checkout_result intent_id r))))))))"

definition persist_checkout_result ::
    "coordinator \<Rightarrow> string \<Rightarrow> string \<Rightarrow> string \<Rightarrow> string \<Rightarrow> PravaCheckoutResult \<Rightarrow> ('c, CheckoutActivityResult) tx" where
  "persist_checkout_result c org intent_id attempt_id idempotency_key r =
     transaction org (persist_body c org intent_id attempt_id idempotency_key r)"

section \<open>The two activities\<close>

text \<open>The result recorded when the dispatch raised: its outcome is not known.\<close>

definition uncertain_result ::
    "coordinator \<Rightarrow> string \<Rightarrow> MerchantCheckoutRequest \<Rightarrow> string \<Rightarrow> PravaCheckoutResult result" where
  "uncertain_result c session_id m attempt_id =
     bindR (mk_MerchantCheckoutOutcome
       \<lparr>mc_outcome = MerchantOutcome.UNKNOWN, mc_merchant_order_id = None, mc_authorization_code = None,
        mc_response_code = None, mc_adapter = px_merchant (co_providers c), mc_provider_confirmed = False\<rparr>)
     (\<lambda>outcome. mk_PravaCheckoutResult
       \<lparr>pc_session_id = session_id, pc_prava_order_id = mr_prava_order_id m,
        pc_transaction_reference = ''reconcile:'' @ attempt_id, pc_merchant = outcome,
        pc_provider_reported = False, pc_final_status = PravaPaymentStatus.AWAITING_RESULT,
        pc_reconciliation_required = True, pc_adapter = px_prava (co_providers c)\<rparr>)"

definition finish_if_final :: "string \<Rightarrow> string \<Rightarrow> CheckoutActivityResult \<Rightarrow> ('c, unit) tx" where
  "finish_if_final org intent_id out =
     (if \<not> car_reconciliation_required out \<and> car_merchant_outcome out \<noteq> SafeMerchantOutcome.APPROVED
      then finish_workflow_run org intent_id ''COMPLETED'' None
             (''Checkout finished with '' @ SafeMerchantOutcome_value (car_merchant_outcome out))
      else returnT ())"

definition dispatch ::
    "coordinator \<Rightarrow> string \<Rightarrow> MerchantCheckoutRequest \<Rightarrow> string \<Rightarrow> PravaCheckoutResult worker" where
  "dispatch c session_id m attempt_id =
     bindT (callT (ExecuteCheckout session_id m) (\<lambda>h. px_execute (co_providers c) h session_id m))
       (\<lambda>reply. case reply of
          Inr r \<Rightarrow> returnT r
        | Inl _ \<Rightarrow> liftT (uncertain_result c session_id m attempt_id))"

definition conclude ::
    "coordinator \<Rightarrow> string \<Rightarrow> string \<Rightarrow> string \<Rightarrow> string \<Rightarrow> PravaCheckoutResult \<Rightarrow> ('c, CheckoutActivityResult) tx" where
  "conclude c org intent_id attempt_id idempotency_key r =
     bindT (persist_checkout_result c org intent_id attempt_id idempotency_key r) (\<lambda>out.
     thenT (finish_if_final org intent_id out)
     (thenT (liftT (assert_credential_free_contract (CheckoutActivityResult_pyval out))) (returnT out)))"

definition execute_isolated_checkout ::
    "coordinator \<Rightarrow> IsolatedCheckoutActivityInput \<Rightarrow> CheckoutActivityResult worker" where
  "execute_isolated_checkout c q =
     thenT (liftT (assert_credential_free_contract (IsolatedCheckoutActivityInput_pyval q)))
     (bindT (prepare_attempt c q) (\<lambda>(m, attempt_id).
      bindT (dispatch c (ici_prava_session_id q) m attempt_id)
        (conclude c (ici_organization_id q) (ici_purchase_intent_id q) attempt_id (ici_idempotency_key q))))"

definition load_reconciliation_state ::
    "ReconcileActivityInput \<Rightarrow> ('c, MerchantCheckoutRequest \<times> string) tx" where
  "load_reconciliation_state q =
     transaction (rai_organization_id q)
       (bindT (get_purchase_intent (rai_organization_id q) (rai_purchase_intent_id q)) (\<lambda>intent.
        thenT (ensureT (ir_intent_hash intent = rai_intent_hash q) invalid_state)
        (bindT (select tb_sessions (\<lambda>s. ps_organization_id s = rai_organization_id q
            \<and> ps_purchase_intent_id s = ir_id intent \<and> ps_provider_session_id s = rai_prava_session_id q)
            scalar_one) (\<lambda>session.
         bindT (getT (\<lambda>t. latest pa_created_at (filter (\<lambda>a. pa_organization_id a = rai_organization_id q
            \<and> pa_purchase_intent_id a = ir_id intent) (tb_attempts t)))) (\<lambda>found. case found of
              None \<Rightarrow> raiseT NoResultFound
            | Some attempt \<Rightarrow>
                bindT (liftT (merchant_request intent session (rai_idempotency_key q))) (\<lambda>m.
                returnT (m, pa_id attempt)))))))"

definition result_of_reconciliation ::
    "coordinator \<Rightarrow> ReconcileActivityInput \<Rightarrow> MerchantCheckoutRequest \<Rightarrow> MerchantCheckoutOutcome \<Rightarrow>
     bool option \<Rightarrow> PravaCheckoutResult result" where
  "result_of_reconciliation c q m outcome confirmed =
     mk_PravaCheckoutResult
       \<lparr>pc_session_id = rai_prava_session_id q, pc_prava_order_id = mr_prava_order_id m,
        pc_transaction_reference = rai_transaction_reference q, pc_merchant = outcome,
        pc_provider_reported = (confirmed = Some True),
        pc_final_status =
          (if confirmed = None then PravaPaymentStatus.AWAITING_RESULT
           else if mc_outcome outcome = MerchantOutcome.APPROVED then PravaPaymentStatus.COMPLETED
           else PravaPaymentStatus.FAILED),
        pc_reconciliation_required = (confirmed \<noteq> Some True), pc_adapter = px_prava (co_providers c)\<rparr>"

definition reconcile_checkout :: "coordinator \<Rightarrow> ReconcileActivityInput \<Rightarrow> CheckoutActivityResult worker" where
  "reconcile_checkout c q =
     thenT (liftT (assert_credential_free_contract (ReconcileActivityInput_pyval q)))
     (bindT (load_reconciliation_state q) (\<lambda>(m, attempt_id).
      bindT (callT (ReconcileOrder m) (\<lambda>h. px_reconcile (co_providers c) h m)) (\<lambda>reply.
      bindT (liftT reply) (\<lambda>outcome.
      bindT (if mc_outcome outcome = MerchantOutcome.UNKNOWN then returnT None
             else bindT (callT (ReportOutcome (rai_prava_session_id q) (rai_transaction_reference q) outcome)
                    (\<lambda>h. px_report (co_providers c) h (rai_prava_session_id q)
                           (rai_transaction_reference q) outcome))
                  (\<lambda>report. bindT (liftT report) (\<lambda>p. returnT (Some (rp_provider_confirmed p)))))
        (\<lambda>confirmed.
      bindT (liftT (result_of_reconciliation c q m outcome confirmed))
        (conclude c (rai_organization_id q) (rai_purchase_intent_id q) attempt_id (rai_idempotency_key q)))))))"

definition fail_checkout_workflow :: "WorkflowFailureActivityInput \<Rightarrow> unit worker" where
  "fail_checkout_workflow q =
     thenT (liftT (assert_credential_free_contract (WorkflowFailureActivityInput_pyval q)))
       (finish_workflow_run (wfi_organization_id q) (wfi_purchase_intent_id q) ''FAILED''
          (Some (wfi_safe_code q)) ''Checkout workflow stopped after safe retry limits'')"

end
