(* ===== verification/Fulfillment.thy ===== *)
theory Fulfillment
  imports Checkout
begin

text \<open>
  The fulfillment half of \<^verbatim>\<open>services/worker/sira_worker/coordinator.py\<close>: the probes that verify
  the entitlements of a paid order, the persisted verdict, and the receipt with the staged stack patch.
\<close>

section \<open>The probes\<close>

definition start_transition :: "string \<Rightarrow> string \<Rightarrow> string \<Rightarrow> transition_args" where
  "start_transition intent_id merchant_order_id h =
     worker_transition intent_id ''fulfillment_status'' [''NOT_STARTED''] ''PENDING''
       (''fulfillment-started:'' @ merchant_order_id) ''ENTITLEMENT_VERIFICATION_STARTED'' h"

text \<open>\<open>None\<close> when the purchase is verified already, otherwise the fulfillments it expects.\<close>

definition start_fulfillment ::
    "coordinator \<Rightarrow> string \<Rightarrow> string \<Rightarrow> string \<Rightarrow> ('c, (string \<times> pyval) list list option) tx" where
  "start_fulfillment c org intent_id merchant_order_id =
     transaction org
       (bindT (get_purchase_intent org intent_id) (\<lambda>intent.
        if ir_fulfillment_status intent = ''VERIFIED'' then returnT None
        else thenT (if ir_fulfillment_status intent = ''NOT_STARTED''
                    then bindT (liftT (co_hash c (obj [(''merchant_order_id'', PStr merchant_order_id)]))) (\<lambda>h.
                           transition_purchase_intent org (start_transition intent_id merchant_order_id h))
                    else returnT ())
               (returnT (Some (ir_expected_fulfillments intent)))))"

definition item_at :: "(string \<times> pyval) list \<Rightarrow> string \<Rightarrow> pyval result" where
  "item_at item k = (case map_of item k of None \<Rightarrow> Inl KeyError | Some v \<Rightarrow> Inr v)"

definition str_text :: "coordinator \<Rightarrow> pyval \<Rightarrow> string" where
  "str_text c v = (case v of PStr s \<Rightarrow> s | _ \<Rightarrow> co_text c v)"

definition verification_request ::
    "coordinator \<Rightarrow> string \<Rightarrow> string \<Rightarrow> (string \<times> pyval) list \<Rightarrow> EntitlementVerificationRequest result" where
  "verification_request c org merchant_order_id item =
     (let method = (case map_of item ''verification_method'' of None \<Rightarrow> [] | Some v \<Rightarrow> str_text c v) in
      bindR (item_at item ''type'') (\<lambda>entitlement_type.
      bindR (item_at item ''minimum_quantity'') (\<lambda>minimum.
      bindR (py_int minimum) (\<lambda>quantity.
      mk_EntitlementVerificationRequest
        \<lparr>vr_merchant_order_id = merchant_order_id, vr_entitlement_type = str_text c entitlement_type,
         vr_minimum_quantity = quantity,
         vr_subject_id = (if map_of item ''subject_type'' = Some (PStr ''organization'') then Some org else None),
         vr_product_id = None, vr_product_version = None, vr_region = None, vr_scope = None,
         vr_require_access_probe = str_contains ''access_probe'' method\<rparr>))))"

type_synonym observation = "(string \<times> pyval) list \<times> EntitlementVerificationResult"

fun observe :: "coordinator \<Rightarrow> string \<Rightarrow> string \<Rightarrow> (string \<times> pyval) list list \<Rightarrow> observation list worker" where
  "observe c org merchant_order_id [] = returnT []"
| "observe c org merchant_order_id (item # items) =
     bindT (liftT (verification_request c org merchant_order_id item)) (\<lambda>m.
     bindT (callT (VerifyEntitlements m) (\<lambda>h. px_verify (co_providers c) h m)) (\<lambda>reply.
     bindT (liftT reply) (\<lambda>r.
     bindT (observe c org merchant_order_id items) (\<lambda>rest. returnT ((item, r) # rest)))))"

definition verdict :: "observation list \<Rightarrow> SafeFulfillmentStatus" where
  "verdict observations =
     (if list_all (\<lambda>(_, r). ev_status r = EntitlementVerificationStatus.VERIFIED) observations
        then SafeFulfillmentStatus.VERIFIED
      else if list_ex (\<lambda>(_, r). ev_status r = EntitlementVerificationStatus.FAILED_FINAL) observations
        then SafeFulfillmentStatus.FAILED_FINAL
      else if list_ex (\<lambda>(_, r). 0 < ev_observed_quantity r) observations
        then SafeFulfillmentStatus.PARTIAL
      else SafeFulfillmentStatus.FAILED_RETRYABLE)"

section \<open>The verdict\<close>

definition entitlement_row ::
    "coordinator \<Rightarrow> string \<Rightarrow> string \<Rightarrow> MerchantOrder \<Rightarrow> observation \<Rightarrow> string \<Rightarrow> string \<Rightarrow> EntitlementRow result" where
  "entitlement_row c org intent_id order observation external i =
     (case observation of (item, r) \<Rightarrow>
        bindR (item_at item ''fulfillment_item_id'') (\<lambda>item_id.
        bindR (item_at item ''type'') (\<lambda>entitlement_type.
        bindR (item_at item ''subject_type'') (\<lambda>subject_type.
        Inr \<lparr>en_id = i, en_organization_id = org, en_purchase_intent_id = intent_id,
             en_merchant_order_id = mo_id order, en_fulfillment_adapter_id = co_merchant_adapter_id c,
             en_external_entitlement_id = external, en_fulfillment_item_id = str_text c item_id,
             en_entitlement_type = str_text c entitlement_type, en_subject_type = str_text c subject_type,
             en_subject_id = org, en_quantity = ev_observed_quantity r,
             en_verification_status = EntitlementVerificationStatus_value (ev_status r),
             en_safe_payload =
               [(''provider_confirmed'', PBool (ev_provider_confirmed r)),
                (''access_probe_verified'', PBool (ev_access_probe_verified r))]\<rparr>))))"

definition record_entitlement ::
    "coordinator \<Rightarrow> string \<Rightarrow> string \<Rightarrow> MerchantOrder \<Rightarrow> observation \<Rightarrow> string \<Rightarrow> ('c, string) tx" where
  "record_entitlement c org intent_id order observation external =
     bindT (select tb_entitlements (\<lambda>e. en_organization_id e = org
         \<and> en_fulfillment_adapter_id e = co_merchant_adapter_id c
         \<and> en_external_entitlement_id e = external) scalar_one_or_none) (\<lambda>existing. case existing of
        Some e \<Rightarrow> returnT (en_id e)
      | None \<Rightarrow>
          bindT (new_id ''ent'') (\<lambda>i.
          bindT (liftT (entitlement_row c org intent_id order observation external i)) (\<lambda>row.
          thenT (addT (\<lambda>t. t\<lparr>tb_entitlements := tb_entitlements t @ [row]\<rparr>)) (returnT i))))"

fun record_all ::
    "coordinator \<Rightarrow> string \<Rightarrow> string \<Rightarrow> MerchantOrder \<Rightarrow> (observation \<times> string) list \<Rightarrow> ('c, string list) tx" where
  "record_all c org intent_id order [] = returnT []"
| "record_all c org intent_id order ((observation, external) # rest) =
     bindT (record_entitlement c org intent_id order observation external) (\<lambda>i.
     bindT (record_all c org intent_id order rest) (\<lambda>is. returnT (i # is)))"

definition reported_entitlements :: "observation list \<Rightarrow> (observation \<times> string) list" where
  "reported_entitlements observations =
     concat (map (\<lambda>x. map (Pair x) (ev_external_entitlement_ids (snd x))) observations)"

definition verdict_transition :: "string \<Rightarrow> string \<Rightarrow> string \<Rightarrow> string \<Rightarrow> transition_args" where
  "verdict_transition intent_id merchant_order_id target h =
     worker_transition intent_id ''fulfillment_status'' [''PENDING'', ''PARTIAL'', ''FAILED_RETRYABLE''] target
       (''fulfillment-result:'' @ merchant_order_id @ '':'' @ str_lower target) (''ENTITLEMENT_'' @ target) h"

section \<open>The receipt\<close>

text \<open>\<^verbatim>\<open>payload[key] = value\<close> on a dictionary.\<close>

definition put_item :: "string \<Rightarrow> pyval \<Rightarrow> (string \<times> pyval) list \<Rightarrow> (string \<times> pyval) list" where
  "put_item k v kvs =
     (if k \<in> set (map fst kvs) then map (\<lambda>(k', x). (k', if k' = k then v else x)) kvs else kvs @ [(k, v)])"

definition utc_zulu :: "int \<Rightarrow> string" where
  "utc_zulu u = (let s = utc_isoformat u in take (length s - 6) s @ ''Z'')"

definition receipt_provenance :: "coordinator \<Rightarrow> string \<times> string \<times> bool" where
  "receipt_provenance c =
     (let descriptors = [px_prava (co_providers c), px_merchant (co_providers c)] in
      if list_ex (\<lambda>d. ad_mode d = DEVELOPMENT_FIXTURE) descriptors
      then (''fixture'', ''DEVELOPMENT_FIXTURE_NOT_PRODUCTION'', False)
      else (co_environment c,
            ad_provider (px_prava (co_providers c)) @ ''+'' @ ad_provider (px_merchant (co_providers c)),
            co_environment c = ''production'' \<and> list_all ad_production_verified descriptors))"

definition stage_patch :: "coordinator \<Rightarrow> StackPatchRow \<Rightarrow> ('c, unit) tx" where
  "stage_patch c patch =
     (let payload = put_item ''status'' (PStr ''STAGED'') (sp_row_payload patch) in
      bindT (liftT (co_hash c (obj (filter (\<lambda>(k, _). k \<noteq> ''content_hash'') payload)))) (\<lambda>h.
      set_patch (sp_row_id patch) (\<lambda>r. r\<lparr>sp_row_state := ''STAGED'',
        sp_row_payload := put_item ''content_hash'' (PStr h) payload, sp_row_patch_hash := h\<rparr>)))"

text \<open>What a receipt quotes from the intent's payload; the merchant's country is read before.\<close>

record receipt_parts =
  rp_decision :: DecisionRow
  rp_approval :: ApprovalRequest
  rp_session :: PaymentSession
  rp_patch_id :: string
  rp_country :: string

definition receipt_payload ::
    "coordinator \<Rightarrow> IntentRow \<Rightarrow> MerchantOrder \<Rightarrow> receipt_parts \<Rightarrow> string list \<Rightarrow> string \<Rightarrow> string \<Rightarrow> int \<Rightarrow>
     (string \<times> pyval) list result" where
  "receipt_payload c intent order p entitlement_ids receipt_id purchase_id now =
     (case receipt_provenance c of (environment, label, success) \<Rightarrow>
      bindR (item_at (ir_payload intent) ''selection_id'') (\<lambda>selection.
      bindR (item_at (ir_payload intent) ''line_items'') (\<lambda>lines.
      bindR (item_at (ir_payload intent) ''merchant_subtotal'') (\<lambda>subtotal.
      bindR (item_at (ir_payload intent) ''fee_amount'') (\<lambda>fee.
      bindR (item_at (ir_payload intent) ''fee_schedule_version'') (\<lambda>schedule.
      bindR (item_at (ir_payload intent) ''tax_amount'') (\<lambda>tax.
      Inr [(''schema_version'', PStr ''1.0.0''), (''receipt_id'', PStr receipt_id),
           (''purchase_id'', PStr purchase_id), (''purchase_intent_id'', PStr (ir_id intent)),
           (''request_id'', PStr (dr_purchase_request_id (rp_decision p))),
           (''decision_id'', PStr (dr_id (rp_decision p))), (''decision_version'', PInt (dr_version (rp_decision p))),
           (''decision_hash'', PStr (dr_decision_hash (rp_decision p))), (''selection_id'', selection),
           (''solution_plan_id'', PStr (ir_solution_plan_id intent)), (''pack_id'', PStr (ir_pack_id intent)),
           (''pack_version'', PInt (ir_pack_version intent)), (''offer_id'', PStr (ir_offer_id intent)),
           (''offer_version'', PInt (ir_offer_version intent)), (''quote_id'', PStr (ir_quote_id intent)),
           (''quote_version'', PInt (ir_quote_version intent)),
           (''approval_request_id'', PStr (ar_id (rp_approval p))),
           (''approval_intent_hash'', PStr (ar_intent_hash (rp_approval p))),
           (''prava_session_reference'', PStr (ps_provider_session_id (rp_session p))),
           (''prava_order_reference'', PStr (ps_provider_order_id (rp_session p))),
           (''merchant_order_id'', PStr (mo_external_order_id order)),
           (''merchant'', obj [(''merchant_id'', PStr (ir_merchant_id intent)), (''name'', PStr (ir_merchant_name intent)),
              (''url'', PStr (ir_merchant_url intent)), (''country'', PStr (rp_country p))]),
           (''line_items'', lines), (''merchant_subtotal'', PStr (str_text c subtotal)),
           (''buyer_transaction_fee'', PStr (str_text c fee)),
           (''fee_schedule_version'', PStr (str_text c schedule)), (''tax_amount'', PStr (str_text c tax)),
           (''amount'', PStr (decimal_text (ir_amount intent))), (''currency'', PStr (ir_currency intent)),
           (''payment_status'', PStr ''PRAVA_COMPLETED''), (''fulfillment_status'', PStr ''VERIFIED''),
           (''entitlement_ids'', PList (map PStr (sort (remdups entitlement_ids)))),
           (''stack_patch_id'', PStr (rp_patch_id p)), (''stack_patch_status'', PStr ''STAGED''),
           (''issued_at'', PStr (utc_zulu now)), (''environment'', PStr environment),
           (''adapter_label'', PStr label), (''production_success'', PBool success)])))))))"

definition merchant_country :: "IntentRow \<Rightarrow> string result" where
  "merchant_country intent =
     (case map_of (ir_payload intent) ''merchant'' of
        Some (PDict kvs) \<Rightarrow>
          (case dict_get kvs ''country'' of Some (PStr country) \<Rightarrow> Inr country | _ \<Rightarrow> Inl invalid_state)
      | _ \<Rightarrow> Inl invalid_state)"

definition issue_receipt ::
    "coordinator \<Rightarrow> string \<Rightarrow> IntentRow \<Rightarrow> MerchantOrder \<Rightarrow> receipt_parts \<Rightarrow> string list \<Rightarrow> ('c, unit) tx" where
  "issue_receipt c org intent order p entitlement_ids =
     bindT (new_id ''receipt'') (\<lambda>receipt_id.
     bindT (new_id ''purchase'') (\<lambda>purchase_id.
     bindT utcnow (\<lambda>now.
     bindT (liftT (receipt_payload c intent order p entitlement_ids receipt_id purchase_id now)) (\<lambda>payload.
     bindT (liftT (co_hash c (obj payload))) (\<lambda>h.
     addT (\<lambda>t. t\<lparr>tb_receipts := tb_receipts t @
       [\<lparr>rc_id = receipt_id, rc_organization_id = org, rc_purchase_intent_id = ir_id intent,
         rc_receipt_hash = h, rc_payload = payload\<rparr>]\<rparr>))))))"

definition patch_open :: "StackPatchRow \<Rightarrow> bool" where
  "patch_open p = (sp_row_state p \<in> {''PROPOSED'', ''APPROVED'', ''STAGED''})"

definition latest_of :: "'r option \<Rightarrow> ('c, 'r) tx" where
  "latest_of found = (case found of None \<Rightarrow> raiseT NoResultFound | Some x \<Rightarrow> returnT x)"

definition create_receipt ::
    "coordinator \<Rightarrow> string \<Rightarrow> IntentRow \<Rightarrow> MerchantOrder \<Rightarrow> string list \<Rightarrow> ('c, unit) tx" where
  "create_receipt c org intent order entitlement_ids =
     bindT (select tb_receipts (\<lambda>r. rc_organization_id r = org \<and> rc_purchase_intent_id r = ir_id intent)
       scalar_one_or_none) (\<lambda>existing. case existing of
        Some _ \<Rightarrow> returnT ()
      | None \<Rightarrow>
          bindT (select tb_decisions (\<lambda>d. dr_organization_id d = org \<and> dr_id d = ir_decision_id intent)
            scalar_one) (\<lambda>decision.
          bindT (getT (\<lambda>t. latest ar_created_at (filter (\<lambda>a. ar_organization_id a = org
              \<and> ar_purchase_intent_id a = ir_id intent \<and> ar_status a = ''APPROVED'') (tb_approvals t)))) (\<lambda>a.
          bindT (latest_of a) (\<lambda>approval.
          bindT (getT (\<lambda>t. latest ps_created_at (filter (\<lambda>s. ps_organization_id s = org
              \<and> ps_purchase_intent_id s = ir_id intent) (tb_sessions t)))) (\<lambda>s.
          bindT (latest_of s) (\<lambda>session.
          bindT (select tb_patches (\<lambda>p. sp_row_organization_id p = org \<and> sp_row_id p = ir_stack_patch_id intent)
            scalar_one_or_none) (\<lambda>found. case found of
             None \<Rightarrow> raiseT invalid_state
           | Some patch \<Rightarrow>
               thenT (ensureT (patch_open patch) invalid_state)
               (thenT (stage_patch c patch)
               (bindT (liftT (merchant_country intent)) (\<lambda>country.
                issue_receipt c org intent order
                  \<lparr>rp_decision = decision, rp_approval = approval, rp_session = session,
                   rp_patch_id = sp_row_id patch, rp_country = country\<rparr> entitlement_ids))))))))))"

section \<open>The activity\<close>

definition record_verdict ::
    "coordinator \<Rightarrow> string \<Rightarrow> string \<Rightarrow> string \<Rightarrow> observation list \<Rightarrow> ('c, unit) tx" where
  "record_verdict c org intent_id merchant_order_id observations =
     (let target = SafeFulfillmentStatus_value (verdict observations) in
      bindT (get_purchase_intent org intent_id) (\<lambda>intent.
      bindT (select tb_orders (\<lambda>m. mo_organization_id m = org \<and> mo_purchase_intent_id m = intent_id
          \<and> mo_external_order_id m = merchant_order_id) scalar_one) (\<lambda>order.
      bindT (record_all c org intent_id order (reported_entitlements observations)) (\<lambda>ids.
      bindT (liftT (co_hash c (obj [(''merchant_order_id'', PStr merchant_order_id), (''status'', PStr target)])))
        (\<lambda>h.
      thenT (transition_purchase_intent org (verdict_transition intent_id merchant_order_id target h))
      (if verdict observations = SafeFulfillmentStatus.VERIFIED
       then create_receipt c org intent order ids else returnT ()))))))"

definition verify_purchase :: "coordinator \<Rightarrow> string \<Rightarrow> string \<Rightarrow> string \<Rightarrow> SafeFulfillmentStatus worker" where
  "verify_purchase c org intent_id merchant_order_id =
     bindT (start_fulfillment c org intent_id merchant_order_id) (\<lambda>started. case started of
        None \<Rightarrow> returnT SafeFulfillmentStatus.VERIFIED
      | Some expected \<Rightarrow>
          bindT (observe c org merchant_order_id expected) (\<lambda>observations.
          thenT (transaction org (record_verdict c org intent_id merchant_order_id observations))
            (returnT (verdict observations))))"

definition verify_fulfillment ::
    "coordinator \<Rightarrow> VerifyFulfillmentActivityInput \<Rightarrow> FulfillmentActivityResult worker" where
  "verify_fulfillment c q =
     (let org = vfi_organization_id q; intent_id = vfi_purchase_intent_id q in
      thenT (liftT (assert_credential_free_contract (VerifyFulfillmentActivityInput_pyval q)))
      (bindT (verify_purchase c org intent_id (vfi_merchant_order_id q)) (\<lambda>status.
       if status = SafeFulfillmentStatus.VERIFIED
       then thenT (finish_workflow_run org intent_id ''COMPLETED'' None ''Payment and fulfillment verified'')
              (returnT \<lparr>far_purchase_intent_id = intent_id, far_status = status\<rparr>)
       else if status = SafeFulfillmentStatus.FAILED_FINAL
       then thenT (finish_workflow_run org intent_id ''FAILED'' (Some ''FULFILLMENT_FAILED_FINAL'')
                    ''Fulfillment verification failed'')
              (raiseT (provider_error INVALID_STATE False))
       else raiseT (provider_error UNAVAILABLE True))))"

end
