(* ===== verification/Refunds.thy ===== *)
theory Refunds
  imports Checkout Transitions
begin

text \<open>
  The refund half of \<^verbatim>\<open>services/worker/sira_worker/coordinator.py\<close>: the guards before the
  reversal provider is asked, and the reversal, entitlement and workflow rows its answer leads to.
\<close>

definition refund_state_error :: py_error where
  "refund_state_error = provider_error INVALID_STATE False"

definition require_reversal_provider :: "coordinator \<Rightarrow> AdapterDescriptor result" where
  "require_reversal_provider c =
     (case px_reversal (co_providers c) of
        None \<Rightarrow> Inl (provider_error CONFIGURATION_INVALID False) | Some d \<Rightarrow> Inr d)"

definition refundable :: "string \<Rightarrow> bool" where
  "refundable s = (s \<in> {''REQUESTED'', ''PROVIDER_PENDING'', ''PARTIALLY_REFUNDED'', ''FAILED_RETRYABLE''})"

definition load_refund_state :: "RefundActivityInput \<Rightarrow> ('c, MerchantRefundRequest) tx" where
  "load_refund_state q =
     (let org = rfi_organization_id q in
      transaction org
        (bindT (select tb_reversals (\<lambda>v. rv_id v = rfi_reversal_id q \<and> rv_organization_id v = org
            \<and> rv_purchase_intent_id v = rfi_purchase_intent_id q) scalar_one) (\<lambda>reversal.
         bindT (select tb_intents (\<lambda>i. ir_id i = rfi_purchase_intent_id q \<and> ir_organization_id i = org)
            scalar_one) (\<lambda>intent.
         thenT (ensureT (ir_intent_hash intent = rfi_intent_hash q \<and> rv_intent_hash reversal = rfi_intent_hash q
             \<and> rv_currency reversal = ir_currency intent \<and> refundable (rv_status reversal)) refund_state_error)
         (liftT (mk_MerchantRefundRequest
            \<lparr>mf_merchant_order_id = rv_merchant_order_id reversal, mf_idempotency_key = rfi_idempotency_key q,
             mf_amount = decimal_text (rv_requested_amount reversal), mf_currency = rv_currency reversal,
             mf_reason_code = rv_reason_code reversal\<rparr>))))))"

text \<open>A value of a \<^verbatim>\<open>Numeric(20, 2)\<close> column: two places, half away from zero.\<close>

definition numeric2 :: "decimal \<Rightarrow> decimal" where
  "numeric2 d =
     (case d of
        Dec c e \<Rightarrow> if - 2 \<le> e then Dec (c * 10 ^ nat (e + 2)) (- 2)
                   else Dec (sgn c * ((2 * \<bar>c\<bar> + 10 ^ nat (- 2 - e)) div (2 * 10 ^ nat (- 2 - e)))) (- 2)
      | _ \<Rightarrow> d)"

text \<open>The checks on an answer; \<^verbatim>\<open>Decimal(result.refunded_amount)\<close> comes first.\<close>

definition refund_answer_error :: py_error where
  "refund_answer_error = provider_error INVALID_RESPONSE False"

definition accept_refund :: "PurchaseReversal \<Rightarrow> MerchantRefundResult \<Rightarrow> decimal result" where
  "accept_refund reversal r =
     (case parse_decimal (rr_refunded_amount r) of
        None \<Rightarrow> Inl InvalidOperation
      | Some amount \<Rightarrow>
          bindR (ensure (rr_currency r = rv_currency reversal) refund_answer_error) (\<lambda>_.
          bindR (dec_less (rv_requested_amount reversal) amount) (\<lambda>more.
          bindR (ensure (\<not> more \<and> \<not> (rr_provider_confirmed r \<and> ad_mode (rr_adapter r) \<noteq> PRODUCTION)
              \<and> \<not> (rr_status r \<in> {RefundOutcomeStatus.PARTIALLY_REFUNDED, RefundOutcomeStatus.REFUNDED,
                RefundOutcomeStatus.REJECTED} \<and> \<not> rr_provider_confirmed r))
              refund_answer_error) (\<lambda>_. Inr amount))))"

definition refund_status :: "IntentRow \<Rightarrow> PurchaseReversal \<Rightarrow> MerchantRefundResult \<Rightarrow> decimal \<Rightarrow> SafeReversalStatus" where
  "refund_status intent reversal r amount =
     (if rr_status r \<in> {RefundOutcomeStatus.PENDING, RefundOutcomeStatus.UNKNOWN}
        then SafeReversalStatus.PROVIDER_PENDING
      else if rr_status r = RefundOutcomeStatus.PARTIALLY_REFUNDED then SafeReversalStatus.PARTIALLY_REFUNDED
      else if rr_status r = RefundOutcomeStatus.REJECTED then SafeReversalStatus.REJECTED
      else if dec_eq amount (rv_requested_amount reversal)
              \<and> (ir_fulfillment_status intent \<noteq> ''VERIFIED'' \<or> rr_entitlements_revoked r)
        then SafeReversalStatus.REFUNDED
      else SafeReversalStatus.COMPENSATION_REQUIRED)"

definition refund_open :: "MerchantRefundResult \<Rightarrow> bool" where
  "refund_open r = (rr_status r \<in> {RefundOutcomeStatus.PENDING, RefundOutcomeStatus.UNKNOWN,
                 RefundOutcomeStatus.PARTIALLY_REFUNDED})"

definition ReversalStatus_of :: "string \<Rightarrow> ReversalStatus result" where
  "ReversalStatus_of s =
     (case enum_of ReversalStatus_value all_ReversalStatus s of
        Some v \<Rightarrow> Inr v | None \<Rightarrow> Inl (ValueError ''not a valid ReversalStatus''))"

definition reversal_move :: "PurchaseReversal \<Rightarrow> string \<Rightarrow> unit result" where
  "reversal_move reversal status =
     (if rv_status reversal = status then Inr ()
      else bindR (ReversalStatus_of (rv_status reversal)) (\<lambda>current.
           bindR (ReversalStatus_of status) (\<lambda>target.
           bindR (reversal_transition current target) (\<lambda>_. Inr ()))))"

definition refund_safe_error :: "string \<Rightarrow> string option" where
  "refund_safe_error status =
     (if status = ''COMPENSATION_REQUIRED'' then Some ''ENTITLEMENT_REVOCATION_REQUIRED'' else None)"

definition settle_reversal :: "PurchaseReversal \<Rightarrow> MerchantRefundResult \<Rightarrow> decimal \<Rightarrow> string \<Rightarrow> ('c, unit) tx" where
  "settle_reversal reversal r amount status =
     thenT (liftT (reversal_move reversal status))
     (thenT (set_reversal (rv_id reversal) (\<lambda>v. v\<lparr>rv_status := status, rv_refunded_amount := numeric2 amount,
          rv_provider_reference := rr_provider_refund_id r,
          rv_provider_confirmed := rr_provider_confirmed r, rv_safe_error_code := refund_safe_error status\<rparr>))
     (if refund_open r then returnT ()
      else bindT utcnow (\<lambda>now. set_reversal (rv_id reversal) (\<lambda>v. v\<lparr>rv_completed_at := Some now\<rparr>))))"

definition revocation :: "string \<Rightarrow> string \<Rightarrow> string \<Rightarrow> transition_args" where
  "revocation intent_id reversal_id h =
     (worker_transition intent_id ''fulfillment_status'' [''VERIFIED''] ''REVOKED''
        (''refund-entitlements-revoked:'' @ reversal_id) ''REFUND_ENTITLEMENTS_REVOKED'' h)
       \<lparr>ta_actor_id := ''refund_coordinator''\<rparr>"

definition revoke_entitlements ::
    "coordinator \<Rightarrow> string \<Rightarrow> IntentRow \<Rightarrow> PurchaseReversal \<Rightarrow> MerchantRefundResult \<Rightarrow> string \<Rightarrow> ('c, unit) tx" where
  "revoke_entitlements c org intent reversal r status =
     (if status = ''REFUNDED'' \<and> rr_entitlements_revoked r \<and> ir_fulfillment_status intent = ''VERIFIED''
      then bindT (liftT (co_hash c (obj [(''reversal_id'', PStr (rv_id reversal)),
              (''provider_reference'', optional PStr (rr_provider_refund_id r))]))) (\<lambda>h.
           transition_purchase_intent org (revocation (ir_id intent) (rv_id reversal) h))
      else returnT ())"

definition announce_reversal ::
    "coordinator \<Rightarrow> string \<Rightarrow> IntentRow \<Rightarrow> PurchaseReversal \<Rightarrow> MerchantRefundResult \<Rightarrow> decimal \<Rightarrow> string \<Rightarrow> ('c, unit) tx" where
  "announce_reversal c org intent reversal r amount status =
     bindT (liftT (co_hash c (obj [(''reversal_id'', PStr (rv_id reversal)), (''status'', PStr status),
         (''refunded_amount'', PStr (decimal_text amount)),
         (''provider_reference'', optional PStr (rr_provider_refund_id r)),
         (''provider_confirmed'', PBool (rr_provider_confirmed r)),
         (''entitlements_revoked'', PBool (rr_entitlements_revoked r))]))) (\<lambda>h.
     bindT (add_outbox org ''purchase_reversal'' (rv_id reversal) ''purchase_reversal.updated''
         (''purchase-reversal-updated:'' @ h)
         [(''reversal_id'', PStr (rv_id reversal)), (''purchase_intent_id'', PStr (ir_id intent)),
          (''status'', PStr status), (''refunded_amount'', PStr (decimal_text amount)),
          (''currency'', PStr (rv_currency reversal)), (''result_hash'', PStr h)]) (\<lambda>_. returnT ()))"

definition update_refund_run :: "string \<Rightarrow> PurchaseReversal \<Rightarrow> MerchantRefundResult \<Rightarrow> string \<Rightarrow> ('c, unit) tx" where
  "update_refund_run org reversal r status =
     bindT (select tb_workflows (\<lambda>w. wr_organization_id w = org \<and> wr_aggregate_type w = ''purchase_reversal''
         \<and> wr_aggregate_id w = rv_id reversal) scalar_one_or_none) (\<lambda>found. case found of
        None \<Rightarrow> returnT ()
      | Some workflow \<Rightarrow>
          let s = (if refund_open r then ''RUNNING'' else ''COMPLETED'') in
          set_workflow (wr_id workflow) (\<lambda>w. log_run s ''Refund state reconciled''
            (w\<lparr>wr_status := s, wr_result_reference := Some (rv_id reversal),
               wr_safe_error_code := refund_safe_error status\<rparr>)))"

definition persist_refund_body ::
    "coordinator \<Rightarrow> RefundActivityInput \<Rightarrow> MerchantRefundResult \<Rightarrow> ('c, RefundActivityResult) tx" where
  "persist_refund_body c q r =
     (let org = rfi_organization_id q in
      bindT (select tb_reversals (\<lambda>v. rv_id v = rfi_reversal_id q \<and> rv_organization_id v = org) scalar_one)
        (\<lambda>reversal.
      bindT (get_purchase_intent org (rfi_purchase_intent_id q)) (\<lambda>intent.
      bindT (liftT (accept_refund reversal r)) (\<lambda>amount.
      let safe = refund_status intent reversal r amount; status = SafeReversalStatus_value safe;
          out = \<lparr>rfr_reversal_id = rv_id reversal, rfr_status = safe, rfr_refunded_amount = decimal_text amount,
                 rfr_currency = rv_currency reversal, rfr_provider_reference = rr_provider_refund_id r,
                 rfr_entitlements_revoked = rr_entitlements_revoked r,
                 rfr_reconciliation_required = refund_open r\<rparr>
      in thenT (settle_reversal reversal r amount status)
         (thenT (revoke_entitlements c org intent reversal r status)
         (thenT (announce_reversal c org intent reversal r amount status)
         (thenT (update_refund_run org reversal r status)
         (thenT (liftT (assert_credential_free_contract (RefundActivityResult_pyval out)))
            (returnT out)))))))))"

definition persist_refund_result ::
    "coordinator \<Rightarrow> RefundActivityInput \<Rightarrow> MerchantRefundResult \<Rightarrow> ('c, RefundActivityResult) tx" where
  "persist_refund_result c q r = transaction (rfi_organization_id q) (persist_refund_body c q r)"

section \<open>The two activities\<close>

text \<open>A provider error that may have reached the provider leaves the refund unknown; any other is raised.\<close>

definition refund_uncertain :: "py_error \<Rightarrow> bool" where
  "refund_uncertain e =
     (case e of
        ProviderError code retryable \<Rightarrow> retryable \<or> code = ProviderErrorCode_value REVERSAL_UNCERTAIN
      | _ \<Rightarrow> False)"

definition unknown_refund :: "AdapterDescriptor \<Rightarrow> MerchantRefundRequest \<Rightarrow> MerchantRefundResult result" where
  "unknown_refund provider m =
     mk_MerchantRefundResult
       \<lparr>rr_status = RefundOutcomeStatus.UNKNOWN, rr_provider_refund_id = None, rr_refunded_amount = ''0.00'',
        rr_currency = mf_currency m, rr_entitlements_revoked = False, rr_adapter = provider,
        rr_provider_confirmed = False\<rparr>"

definition execute_refund :: "coordinator \<Rightarrow> RefundActivityInput \<Rightarrow> RefundActivityResult worker" where
  "execute_refund c q =
     thenT (liftT (assert_credential_free_contract (RefundActivityInput_pyval q)))
     (bindT (liftT (require_reversal_provider c)) (\<lambda>provider.
      bindT (load_refund_state q) (\<lambda>m.
      bindT (callT (RequestRefund m) (\<lambda>h. px_refund (co_providers c) h m)) (\<lambda>reply.
      bindT (case reply of
               Inr r \<Rightarrow> returnT r
             | Inl e \<Rightarrow> if refund_uncertain e then liftT (unknown_refund provider m) else raiseT e)
        (persist_refund_result c q)))))"

definition reconcile_refund :: "coordinator \<Rightarrow> RefundActivityInput \<Rightarrow> RefundActivityResult worker" where
  "reconcile_refund c q =
     thenT (liftT (assert_credential_free_contract (RefundActivityInput_pyval q)))
     (bindT (liftT (require_reversal_provider c)) (\<lambda>_.
      bindT (load_refund_state q) (\<lambda>m.
      bindT (callT (ReconcileRefund m) (\<lambda>h. px_reconcile_refund (co_providers c) h m)) (\<lambda>reply.
      bindT (liftT reply) (persist_refund_result c q)))))"

end
