(* ===== verification/CoordinatorLaws.thy ===== *)
theory CoordinatorLaws
  imports Fulfillment Refunds
begin

text \<open>
  What the coordinator's activities guarantee: a payment is dispatched only under live authority for the exact
  intent and at most once per purchase, whatever the providers answer; the bound fields of an intent never
  change; the history of transitions only grows, by the domain's transitions and a few shortcuts; an outcome
  that is not known stays open; and the persisted state follows the outcome.
\<close>

section \<open>Lawful transitions\<close>

definition steps_of :: "('s \<Rightarrow> string) \<Rightarrow> 's list \<Rightarrow> ('s \<Rightarrow> 's list option) \<Rightarrow> (string \<times> string) list" where
  "steps_of text_of' all' allowed =
     concat (map (\<lambda>a. map (\<lambda>b. (text_of' a, text_of' b))
       (case allowed a of None \<Rightarrow> [] | Some bs \<Rightarrow> bs)) all')"

text \<open>The transitions of the domain's payment and fulfillment services.\<close>

definition domain_steps :: "(string \<times> string) list" where
  "domain_steps =
     steps_of PaymentStatus_value all_PaymentStatus payment_allowed
     @ steps_of FulfillmentStatus_value all_FulfillmentStatus fulfillment_allowed"

text \<open>The transitions the worker makes and the domain's tables do not have.\<close>

definition shortcuts :: "(string \<times> string) list" where
  "shortcuts = [(''MERCHANT_APPROVED'', ''PRAVA_COMPLETED''), (''FAILED_RETRYABLE'', ''PARTIAL''),
                (''FAILED_RETRYABLE'', ''FAILED_FINAL'')]"

definition worker_step :: "string \<Rightarrow> string \<Rightarrow> bool" where
  "worker_step s t = ((s, t) \<in> set domain_steps \<or> s = t \<or> (s, t) \<in> set shortcuts)"

lemma worker_steps [simp]:
  "worker_step ''CARDHOLDER_PENDING'' ''EXPIRED''" "worker_step ''CARDHOLDER_PENDING'' ''CHECKOUT_PENDING''"
  "worker_step ''CHECKOUT_PENDING'' ''UNCERTAIN''" "worker_step ''CHECKOUT_PENDING'' ''DECLINED''"
  "worker_step ''CHECKOUT_PENDING'' ''MERCHANT_APPROVED''" "worker_step ''UNCERTAIN'' ''DECLINED''"
  "worker_step ''UNCERTAIN'' ''MERCHANT_APPROVED''" "worker_step ''MERCHANT_APPROVED'' ''REPORTING''"
  "worker_step ''MERCHANT_APPROVED'' ''PRAVA_COMPLETED''" "worker_step ''REPORTING'' ''PRAVA_COMPLETED''"
  "worker_step ''NOT_STARTED'' ''PENDING''" "worker_step ''PENDING'' ''VERIFIED''"
  "worker_step ''PENDING'' ''PARTIAL''" "worker_step ''PENDING'' ''FAILED_RETRYABLE''"
  "worker_step ''PENDING'' ''FAILED_FINAL''" "worker_step ''PARTIAL'' ''VERIFIED''"
  "worker_step ''PARTIAL'' ''FAILED_RETRYABLE''" "worker_step ''PARTIAL'' ''FAILED_FINAL''"
  "worker_step ''FAILED_RETRYABLE'' ''VERIFIED''" "worker_step ''FAILED_RETRYABLE'' ''PARTIAL''"
  "worker_step ''FAILED_RETRYABLE'' ''FAILED_FINAL''" "worker_step ''VERIFIED'' ''REVOKED''"
  "worker_step s s"
  by (code_simp+, simp add: worker_step_def)

definition lawful :: "TransactionTransition \<Rightarrow> bool" where
  "lawful t = (case tt_from_state t of None \<Rightarrow> False | Some s \<Rightarrow> worker_step s (tt_to_state t))"

definition logs :: "tables \<Rightarrow> tables \<Rightarrow> bool" where
  "logs s t \<longleftrightarrow> (\<exists>xs. tb_transitions t = tb_transitions s @ xs \<and> list_all lawful xs)"

lemma logs_refl [simp]: "tb_transitions t = tb_transitions s \<Longrightarrow> logs s t"
  by (simp add: logs_def)

lemma logs_trans: "logs r s \<Longrightarrow> logs s t \<Longrightarrow> logs r t"
  by (auto simp: logs_def)

section \<open>Frame conditions of the activities\<close>

definition unstated :: "IntentRow \<Rightarrow> IntentRow" where
  "unstated r = r\<lparr>ir_approval_status := [], ir_payment_status := [], ir_fulfillment_status := []\<rparr>"

text \<open>The states of a purchase that may still be dispatched, of its approval, and of an approval request.\<close>

definition early_states :: "string list" where
  "early_states = [''NOT_STARTED'', ''SESSION_CREATED'', ''CARDHOLDER_PENDING'']"

definition open_states :: "string list" where
  "open_states = [''NOT_REQUESTED'', ''PENDING'', ''APPROVED'']"

text \<open>No bound field changes and no purchase becomes ready for a dispatch.\<close>

definition bound_step :: "IntentRow \<Rightarrow> IntentRow \<Rightarrow> bool" where
  "bound_step a b \<longleftrightarrow> unstated b = unstated a
     \<and> (ir_payment_status b \<in> set early_states \<longrightarrow> ir_payment_status b = ir_payment_status a)
     \<and> (ir_approval_status b \<in> set open_states \<longrightarrow> ir_approval_status b = ir_approval_status a)"

text \<open>Of an approval request only the status changes, and never to one that is open.\<close>

definition approval_step :: "ApprovalRequest \<Rightarrow> ApprovalRequest \<Rightarrow> bool" where
  "approval_step a b \<longleftrightarrow> b\<lparr>ar_status := []\<rparr> = a\<lparr>ar_status := []\<rparr>
     \<and> (ar_status b \<in> set open_states \<longrightarrow> ar_status b = ar_status a)"

definition approvals_kept :: "tables \<Rightarrow> tables \<Rightarrow> bool" where
  "approvals_kept s t \<longleftrightarrow> list_all2 approval_step (tb_approvals s) (tb_approvals t)
     \<and> tb_approval_events t = tb_approval_events s"

lemma approvals_kept_same [simp]:
  "tb_approvals t = tb_approvals s \<Longrightarrow> tb_approval_events t = tb_approval_events s \<Longrightarrow> approvals_kept s t"
  by (simp add: approvals_kept_def list_all2_same approval_step_def)

lemma approvals_kept_trans: "approvals_kept r s \<Longrightarrow> approvals_kept s t \<Longrightarrow> approvals_kept r t"
  by (auto simp: approvals_kept_def intro: list_all2_trans [of approval_step approval_step approval_step, rotated])
    (auto simp: approval_step_def elim: list_all2_trans [rotated])

text \<open>Every recorded dispatch names an attempt that exists.\<close>

definition linked :: "tables \<Rightarrow> bool" where
  "linked t \<longleftrightarrow> (\<forall>x\<in>set (tb_transitions t). \<forall>k. tt_event_key x = ''checkout-dispatched:'' @ k \<longrightarrow>
     k \<in> pa_id ` set (tb_attempts t))"

definition inner :: "'c world \<Rightarrow> 'c world \<Rightarrow> bool" where
  "inner u v \<longleftrightarrow> list_all2 bound_step (tb_intents (rows u)) (tb_intents (rows v))
     \<and> tb_transitions (rows v) = tb_transitions (rows u) \<and> logs (added u) (added v)
     \<and> tb_intents (added v) = tb_intents (added u) \<and> calls v = calls u
     \<and> approvals_kept (rows u) (rows v) \<and> tb_approvals (added v) = tb_approvals (added u)
     \<and> tb_approval_events (added v) = tb_approval_events (added u)
     \<and> (linked (both u) \<longrightarrow> linked (both v))
     \<and> pa_id ` set (tb_attempts (both u)) \<subseteq> pa_id ` set (tb_attempts (both v))
     \<and> tb_briefs (rows v) = tb_briefs (rows u) \<and> tb_briefs (added v) = tb_briefs (added u)
     \<and> hex_of v = hex_of u"

definition outer :: "'c world \<Rightarrow> 'c world \<Rightarrow> bool" where
  "outer u v \<longleftrightarrow> list_all2 bound_step (tb_intents (rows u)) (tb_intents (rows v))
     \<and> approvals_kept (rows u) (rows v) \<and> (linked (rows u) \<longrightarrow> linked (rows v)) \<and> logs (rows u) (rows v)
     \<and> tb_briefs (rows v) = tb_briefs (rows u) \<and> hex_of v = hex_of u"

definition quiet :: "'c world \<Rightarrow> 'c world \<Rightarrow> bool" where
  "quiet u v \<longleftrightarrow> outer u v \<and> calls v = calls u"

lemma bound_refl: "list_all2 bound_step xs xs"
  by (simp add: list_all2_same bound_step_def)

lemma bound_trans: "list_all2 bound_step xs ys \<Longrightarrow> list_all2 bound_step ys zs \<Longrightarrow> list_all2 bound_step xs zs"
  by (rule list_all2_trans [of bound_step bound_step bound_step]) (auto simp: bound_step_def)

interpretation inner_frame: frame inner
  by unfold_locales (auto simp: inner_def bound_refl intro: bound_trans logs_trans approvals_kept_trans)

interpretation outer_frame: frame outer
  by unfold_locales (auto simp: outer_def bound_refl intro: bound_trans logs_trans approvals_kept_trans)

interpretation quiet_frame: frame quiet
  by unfold_locales (auto simp: quiet_def outer_frame.ticks outer_frame.still intro: outer_frame.trans)

lemma both_approvals:
  "tb_approvals (both w) = tb_approvals (rows w) @ tb_approvals (added w)"
  "tb_approval_events (both w) = tb_approval_events (rows w) @ tb_approval_events (added w)"
  "tb_briefs (both w) = tb_briefs (rows w) @ tb_briefs (added w)"
  by (simp_all add: both_def)

lemma framed_transaction:
  assumes "framed inner body"
  shows "framed quiet (transaction org body)"
proof -
  have "quiet w w'" if t: "transaction org body w = (r, w')" for w r w'
  proof (cases r)
    case (Inr x)
    with t obtain u where u: "body (begin_tx w) = (Inr x, u)" "rows w' = both u" "calls w' = calls u" "hex_of w' = hex_of u"
      by (auto simp: transaction_Inr both_def)
    from framedD [OF assms u(1)] u(2-4) show ?thesis
      by (auto simp: inner_def quiet_def outer_def both_sel both_approvals logs_def approvals_kept_def)
  next
    case (Inl e)
    with t have "rows w' = rows w" using transaction_Inl_rows by blast
    moreover have "calls w' = calls w \<and> hex_of w' = hex_of w"
    proof -
      from t Inl have "calls w' = calls w \<and> hex_of w' = hex_of w
          \<or> (\<exists>q u. body (begin_tx w) = (q, u) \<and> calls w' = calls u \<and> hex_of w' = hex_of u)"
        by (auto simp: transaction_def commit_tx_def split: prod.splits sum.splits if_splits)
      then show ?thesis using framedD [OF assms] by (fastforce simp: inner_def)
    qed
    ultimately show ?thesis by (simp add: quiet_def outer_def bound_refl)
  qed
  then show ?thesis by (rule framedI)
qed

lemma inner_set_intent: "(\<And>r. bound_step r (f r)) \<Longrightarrow> framed inner (set_intent i f)"
  by (simp add: framed_def inner_def set_intent_def tx_run assign_def both_sel linked_def list.rel_map
      list_all2_same bound_step_def)

lemma inner_changes:
  "framed inner (set_session i f1)" "framed inner (set_workflow i f3)"
  "framed inner (set_reversal i f4)" "framed inner (set_patch i f5)"
  by (simp_all add: framed_def inner_def set_session_def set_workflow_def set_reversal_def
      set_patch_def tx_run both_sel linked_def bound_refl)

lemma inner_set_approval: "s \<notin> set open_states \<Longrightarrow> framed inner (set_approval i (\<lambda>r. r\<lparr>ar_status := s\<rparr>))"
  by (simp add: framed_def inner_def set_approval_def tx_run both_sel linked_def bound_refl approvals_kept_def
      assign_def list.rel_map list_all2_same approval_step_def bound_step_def)

lemma inner_set_attempt: "(\<And>a. pa_id (f a) = pa_id a) \<Longrightarrow> framed inner (set_attempt i f)"
proof -
  assume "\<And>a. pa_id (f a) = pa_id a"
  then have "pa_id ` set (assign pa_id i f xs) = pa_id ` set xs" for xs
    by (metis map_assign set_map)
  then show ?thesis
    by (simp add: framed_def inner_def set_attempt_def tx_run both_sel linked_def bound_refl image_Un)
qed

lemma inner_add:
  "(\<And>t. tb_intents (g t) = tb_intents t \<and> tb_attempts (g t) = tb_attempts t \<and> tb_transitions (g t) = tb_transitions t
       \<and> tb_approvals (g t) = tb_approvals t \<and> tb_approval_events (g t) = tb_approval_events t
       \<and> tb_briefs (g t) = tb_briefs t)
     \<Longrightarrow> framed inner (addT g)"
  by (simp add: framed_def inner_def tx_run both_sel linked_def bound_refl)

lemma inner_add_transition:
  "(\<And>k. tt_event_key x \<noteq> ''checkout-dispatched:'' @ k) \<Longrightarrow> lawful x
     \<Longrightarrow> framed inner (addT (\<lambda>t. t\<lparr>tb_transitions := tb_transitions t @ [x]\<rparr>))"
  by (auto simp: framed_def inner_def tx_run both_sel linked_def bound_refl logs_def)

lemma inner_add_outbox: "framed inner (add_outbox org ty i et k p)"
  unfolding add_outbox_def Let_def
  by (intro inner_frame.rules) (auto split: option.split intro!: inner_frame.rules inner_add)

text \<open>A transition that does not lead to a state from which the purchase may be dispatched.\<close>

definition moves_on :: "transition_args \<Rightarrow> bool" where
  "moves_on a \<longleftrightarrow> (ta_state_field a = ''payment_status'' \<longrightarrow> ta_to_state a \<notin> set early_states)
     \<and> (ta_state_field a = ''approval_status'' \<longrightarrow> ta_to_state a \<notin> set open_states)"

lemmas moving = moves_on_def early_states_def open_states_def

lemma inner_apply_transition:
  assumes "\<And>k. ta_event_key a \<noteq> ''checkout-dispatched:'' @ k" "moves_on a"
    "worker_step cur (ta_to_state a)"
  shows "framed inner (apply_transition org a cur)"
proof -
  have "bound_step r (set_state (ta_state_field a) (ta_to_state a) r)" for r
    using assms(2) by (simp add: bound_step_def set_state_def unstated_def moves_on_def)
  moreover have "tt_event_key (transition_row org a cur i) \<noteq> ''checkout-dispatched:'' @ k"
    "lawful (transition_row org a cur i)" for i k
    using assms(1,3) by (simp_all add: transition_row_def lawful_def)
  ultimately show ?thesis unfolding apply_transition_def
    by (intro inner_frame.rules inner_set_intent inner_add_transition inner_add_outbox)
qed

lemma transition_rule:
  assumes "frame R" "\<And>cur. cur \<in> set (ta_allowed_from a) \<Longrightarrow> framed R (apply_transition org a cur)"
  shows "framed R (transition_purchase_intent org a)"
proof -
  note rules = frame.rules [OF assms(1)] and guarded = frame.guarded [OF assms(1)]
  have "framed R (case d of Some d \<Rightarrow> ensureT (P d) e
         | None \<Rightarrow> thenT (ensureT (cur \<in> set (ta_allowed_from a)) e') (apply_transition org a cur))" for d P e e' cur
    by (cases d) (auto intro!: guarded rules(4) assms(2))
  then show ?thesis unfolding transition_purchase_intent_def get_purchase_intent_def Let_def
    by (intro rules)
qed

lemma inner_transition:
  assumes "\<And>k. ta_event_key a \<noteq> ''checkout-dispatched:'' @ k" "moves_on a"
    "\<And>s. s \<in> set (ta_allowed_from a) \<Longrightarrow> worker_step s (ta_to_state a)"
  shows "framed inner (transition_purchase_intent org a)"
  by (intro transition_rule inner_frame.frame_axioms inner_apply_transition assms)

lemma quiet_finish: "framed quiet (finish_workflow_run org i s code msg)"
  unfolding finish_workflow_run_def
  by (intro framed_transaction inner_frame.rules)
    (auto split: option.split intro!: inner_frame.rules inner_changes)

lemma inner_expire: "framed inner (expire_authority c org a why)"
  unfolding expire_authority_def
  by (auto intro!: inner_frame.rules inner_changes inner_set_approval inner_set_intent inner_transition
      simp: bound_step_def unstated_def worker_transition_def moving)

lemma inner_authority: "framed inner (checkout_authority q)"
  unfolding checkout_authority_def get_purchase_intent_def Let_def
  by (intro inner_frame.rules) (auto split: option.split intro!: inner_frame.rules)

lemma inner_settle: "framed inner (settle org intent attempt h r)"
  unfolding settle_def settle_unknown_def settle_declined_def settle_approved_def
  by (auto split: MerchantOutcome.split intro!: inner_frame.rules inner_changes inner_transition
      simp: outcome_transition_def worker_transition_def report_target_def moving)

lemma inner_persist: "framed inner (persist_body c org i att key r)"
  unfolding persist_body_def get_purchase_intent_def record_outcome_def record_order_def
  by (intro inner_frame.rules)
    (auto split: option.split intro!: inner_frame.rules inner_changes inner_set_attempt inner_add inner_settle)

lemma quiet_conclude: "framed quiet (conclude c org i att key r)"
  unfolding conclude_def persist_checkout_result_def finish_if_final_def
  by (auto intro!: quiet_frame.rules framed_transaction inner_persist quiet_finish)

lemma quiet_fail: "framed quiet (fail_checkout_workflow q)"
  unfolding fail_checkout_workflow_def by (intro quiet_frame.rules quiet_finish)

lemma quiet_load: "framed quiet (load_reconciliation_state q)"
  unfolding load_reconciliation_state_def get_purchase_intent_def
  by (intro framed_transaction inner_frame.rules) (auto split: option.split intro!: inner_frame.rules)

text \<open>Once an attempt is there, the transition that records its dispatch keeps the rows linked.\<close>

definition inner_at :: "string \<Rightarrow> 'c world \<Rightarrow> 'c world \<Rightarrow> bool" where
  "inner_at k u v \<longleftrightarrow> list_all2 bound_step (tb_intents (rows u)) (tb_intents (rows v))
     \<and> tb_transitions (rows v) = tb_transitions (rows u) \<and> logs (added u) (added v)
     \<and> tb_intents (added v) = tb_intents (added u) \<and> calls v = calls u
     \<and> approvals_kept (rows u) (rows v) \<and> tb_approvals (added v) = tb_approvals (added u)
     \<and> tb_approval_events (added v) = tb_approval_events (added u)
     \<and> (linked (both u) \<and> k \<in> pa_id ` set (tb_attempts (both u)) \<longrightarrow> linked (both v))
     \<and> pa_id ` set (tb_attempts (both u)) \<subseteq> pa_id ` set (tb_attempts (both v))
     \<and> tb_briefs (rows v) = tb_briefs (rows u) \<and> tb_briefs (added v) = tb_briefs (added u)
     \<and> hex_of v = hex_of u"

interpretation at_frame: frame "inner_at k" for k
  by unfold_locales (auto simp: inner_at_def bound_refl intro: bound_trans logs_trans approvals_kept_trans)

lemma at_inner: "framed inner m \<Longrightarrow> framed (inner_at k) m"
  by (erule framed_mono) (auto simp: inner_def inner_at_def)

lemma at_apply_transition:
  assumes "ta_event_key a = ''checkout-dispatched:'' @ k" "moves_on a"
    "worker_step cur (ta_to_state a)"
  shows "framed (inner_at k) (apply_transition org a cur)"
proof -
  have "bound_step r (set_state (ta_state_field a) (ta_to_state a) r)" for r
    using assms(2) by (simp add: bound_step_def set_state_def unstated_def moves_on_def)
  note intents = at_inner [OF inner_set_intent [OF this]]
  have "framed (inner_at k) (addT (\<lambda>t. t\<lparr>tb_transitions := tb_transitions t @ [transition_row org a cur i]\<rparr>))" for i
    using assms(1,3) by (auto simp: framed_def inner_at_def tx_run both_sel linked_def bound_refl
        transition_row_def logs_def lawful_def)
  then show ?thesis unfolding apply_transition_def
    by (intro at_frame.rules intents at_inner [OF inner_add_outbox])
qed

lemma at_transition:
  assumes "ta_event_key a = ''checkout-dispatched:'' @ k" "moves_on a"
    "\<And>s. s \<in> set (ta_allowed_from a) \<Longrightarrow> worker_step s (ta_to_state a)"
  shows "framed (inner_at k) (transition_purchase_intent org a)"
  by (intro transition_rule at_frame.frame_axioms at_apply_transition assms)

lemma framed_from_attempt:
  assumes "framed (inner_at (pa_id x)) m"
  shows "framed inner (thenT (addT (\<lambda>t. t\<lparr>tb_attempts := tb_attempts t @ [x]\<rparr>)) m)"
proof -
  have "inner w w'" if run: "thenT (addT (\<lambda>t. t\<lparr>tb_attempts := tb_attempts t @ [x]\<rparr>)) m w = (r, w')" for w r w'
  proof -
    let ?u = "w\<lparr>added := (added w)\<lparr>tb_attempts := tb_attempts (added w) @ [x]\<rparr>\<rparr>"
    from run have "m ?u = (r, w')" by (simp add: thenT_def bindT_def addT_def)
    from framedD [OF assms this] have at: "inner_at (pa_id x) ?u w'" .
    have "linked (both w) \<Longrightarrow> linked (both ?u)" by (auto simp: linked_def both_sel)
    moreover have "pa_id x \<in> pa_id ` set (tb_attempts (both ?u))" by (simp add: both_sel)
    moreover have "pa_id ` set (tb_attempts (both w)) \<subseteq> pa_id ` set (tb_attempts (both ?u))" by (auto simp: both_sel)
    ultimately show ?thesis using at unfolding inner_at_def inner_def by (auto simp: logs_def)
  qed
  then show ?thesis by (rule framedI)
qed

lemma inner_open: "framed inner (open_attempt c q a)"
proof -
  have now: "framed inner start_of_tx"
    by (simp add: framed_def start_of_tx_def inner_frame.still)
  show ?thesis unfolding open_attempt_def Let_def
    by (rule inner_frame.bind inner_frame.rules now framed_from_attempt at_frame.seq at_inner [OF inner_changes(1)]
        at_frame.bind at_frame.rules at_transition | simp add: dispatch_transition_def worker_transition_def
        new_attempt_def moving)+
qed

lemma inner_prepare: "framed inner (prepare_body c q)"
  unfolding prepare_body_def
  by (intro inner_frame.rules inner_authority)
    (auto split: option.split intro!: inner_frame.rules inner_expire inner_open)

lemma quiet_prepare: "framed quiet (prepare_attempt c q)"
  unfolding prepare_attempt_def
  by (intro quiet_frame.rules framed_transaction inner_prepare)
    (auto split: option.split intro!: quiet_frame.rules quiet_finish)

text \<open>Fulfillment and refunds make no call that pays.\<close>

lemma inner_start_fulfillment: "framed quiet (start_fulfillment c org i m)"
proof -
  have "framed inner (transition_purchase_intent org (start_transition i m h))" for h
    by (rule inner_transition) (auto simp: start_transition_def worker_transition_def moving)
  then show ?thesis unfolding start_fulfillment_def get_purchase_intent_def
    by (intro framed_transaction inner_frame.rules) (auto intro!: inner_frame.rules)
qed

lemma inner_record_entitlement: "framed inner (record_entitlement c org i order x e)"
  unfolding record_entitlement_def
  by (intro inner_frame.rules) (auto split: option.split intro!: inner_frame.rules inner_add)

lemma inner_record_all: "framed inner (record_all c org i order xs)"
  by (induction xs) (auto intro!: inner_frame.rules inner_record_entitlement)

lemma inner_verdict_transition: "framed inner (transition_purchase_intent org
    (verdict_transition i m (SafeFulfillmentStatus_value v) h))"
  by (cases v; rule inner_transition) (auto simp: verdict_transition_def worker_transition_def moving)

lemma inner_create_receipt: "framed inner (create_receipt c org i order ids)"
  unfolding create_receipt_def stage_patch_def issue_receipt_def latest_of_def Let_def
  by (intro inner_frame.rules)
    (auto split: option.split intro!: inner_frame.rules inner_changes inner_add)

lemma inner_record_verdict: "framed inner (record_verdict c org i m obs)"
  unfolding record_verdict_def get_purchase_intent_def Let_def
  by (intro inner_frame.rules inner_record_all inner_verdict_transition)
    (auto intro!: inner_frame.rules inner_create_receipt)

lemma quiet_load_refund: "framed quiet (load_refund_state q)"
  unfolding load_refund_state_def Let_def
  by (intro framed_transaction inner_frame.rules)

lemma inner_persist_refund: "framed inner (persist_refund_body c q r)"
proof -
  have t: "framed inner (transition_purchase_intent org (revocation i v h))" for org i v h
    by (rule inner_transition) (auto simp: revocation_def worker_transition_def moving)
  show ?thesis
    unfolding persist_refund_body_def get_purchase_intent_def settle_reversal_def revoke_entitlements_def
      announce_reversal_def update_refund_run_def Let_def
    by (intro inner_frame.rules)
      (auto split: option.split intro!: inner_frame.rules inner_changes inner_add_outbox t)
qed

lemma outer_quiet: "framed quiet m \<Longrightarrow> framed outer m"
  by (erule framed_mono) (simp add: quiet_def)

lemma outer_call: "framed outer (callT x f)"
  by (simp add: framed_def callT_def outer_def bound_refl)

lemma outer_dispatch: "framed outer (dispatch c s m att)"
  unfolding dispatch_def by (intro outer_frame.rules outer_call) (auto split: sum.split intro: outer_frame.rules)

lemma outer_execute: "framed outer (execute_isolated_checkout c q)"
  unfolding execute_isolated_checkout_def
  by (intro outer_frame.rules outer_quiet [OF quiet_prepare])
    (auto intro!: outer_frame.rules outer_dispatch outer_quiet [OF quiet_conclude])

lemma outer_reconcile: "framed outer (reconcile_checkout c q)"
  unfolding reconcile_checkout_def
  by (intro outer_frame.rules outer_quiet [OF quiet_load])
    (auto intro!: outer_frame.rules outer_call outer_quiet [OF quiet_conclude])

section \<open>Authority\<close>

definition live_at :: "int \<Rightarrow> py_datetime \<Rightarrow> bool" where
  "live_at now t \<longleftrightarrow> (\<exists>u. as_utc t = Inr u \<and> now < u)"

text \<open>
  What a dispatch needs: the intent, an approval and a hosted session of the tenant, all bound to the
  requested hash and purchase, none expired, and no attempt whose outcome is open.
\<close>

definition authorises :: "IsolatedCheckoutActivityInput \<Rightarrow> tables \<Rightarrow> int \<Rightarrow> authority \<Rightarrow> bool" where
  "authorises q t now a \<longleftrightarrow>
     (let i = au_intent a; p = au_approval a; s = au_session a; org = ici_organization_id q in
      i \<in> set (tb_intents t) \<and> ir_id i = ici_purchase_intent_id q \<and> ir_organization_id i = org
      \<and> ir_intent_hash i = ici_intent_hash q \<and> ir_approval_status i = ''APPROVED''
      \<and> ir_payment_status i = ''CARDHOLDER_PENDING''
      \<and> p \<in> set (tb_approvals t) \<and> ar_organization_id p = org \<and> ar_purchase_intent_id p = ir_id i
      \<and> ar_intent_hash p = ici_intent_hash q \<and> ar_status p = ''APPROVED''
      \<and> s \<in> set (tb_sessions t) \<and> ps_organization_id s = org \<and> ps_purchase_intent_id s = ir_id i
      \<and> ps_provider_session_id s = ici_prava_session_id q \<and> ps_status s = ''CARDHOLDER_PENDING''
      \<and> (\<forall>x\<in>set (tb_attempts t). pa_organization_id x = org \<and> pa_purchase_intent_id x = ir_id i
           \<longrightarrow> pa_closed_at x \<noteq> None)
      \<and> live_at now (ir_quote_expires_at i) \<and> live_at now (ar_expires_at p) \<and> live_at now (ps_expires_at s))"

lemma latest_member: "latest f xs = Some x \<Longrightarrow> x \<in> set xs"
  by (induction xs arbitrary: x) (auto split: option.splits if_splits)

lemma checkout_authority_Inr:
  assumes "checkout_authority q w = (Inr a, w')"
  shows "w' = w \<and> (\<forall>now. expiry_reason a now = Inr None \<longrightarrow> authorises q (rows w) now a)"
proof -
  let ?org = "ici_organization_id q"
  from assms obtain i p s ex where
    i: "filter (\<lambda>r. ir_id r = ici_purchase_intent_id q \<and> ir_organization_id r = ?org) (tb_intents (rows w)) = [i]"
    "ir_intent_hash i = ici_intent_hash q \<and> ir_approval_status i = ''APPROVED''"
    and p: "latest ar_created_at (filter (\<lambda>a. ar_organization_id a = ?org \<and> ar_purchase_intent_id a = ir_id i
        \<and> ar_intent_hash a = ir_intent_hash i \<and> ar_status a = ''APPROVED'') (tb_approvals (rows w))) = Some p"
    and pay: "ir_payment_status i = ''CARDHOLDER_PENDING''"
    and s: "filter (\<lambda>s. ps_organization_id s = ?org \<and> ps_purchase_intent_id s = ir_id i
        \<and> ps_provider_session_id s = ici_prava_session_id q) (tb_sessions (rows w)) = [s]"
      "ps_status s = ''CARDHOLDER_PENDING''"
    and ex: "filter (\<lambda>a. pa_organization_id a = ?org \<and> pa_purchase_intent_id a = ir_id i
        \<and> pa_closed_at a = None) (tb_attempts (rows w)) = []"
    and a: "a = \<lparr>au_intent = i, au_approval = p, au_session = s\<rparr>" "w' = w"
    unfolding checkout_authority_def get_purchase_intent_def Let_def
    by (simp only: tx_inv sum.inject) (elim exE conjE, hypsubst, simp only: one_row)
  note i' = filter_oneD [OF i(1)] and p' = latest_member [OF p] and s' = filter_oneD [OF s(1)]
  have "authorises q (rows w) now a" if "expiry_reason a now = Inr None" for now
  proof -
    from that have live: "live_at now (ir_quote_expires_at i) \<and> live_at now (ar_expires_at p) \<and> live_at now (ps_expires_at s)"
      by (auto simp: expiry_reason_def a live_at_def result_simps split: if_splits)
    show ?thesis unfolding authorises_def Let_def a authority.select_convs
      using i(2) i' p' s' s(2) pay live ex by (auto simp: filter_empty_conv)
  qed
  with a(2) show ?thesis by blast
qed

lemma merchant_request_Inr:
  "merchant_request i s key = Inr m \<Longrightarrow>
     m = \<lparr>mr_purchase_intent_id = ir_id i, mr_prava_order_id = ps_provider_order_id s, mr_idempotency_key = key,
          mr_merchant_url = ir_merchant_url i, mr_amount = decimal_text (ir_amount i), mr_currency = ir_currency i\<rparr>"
  by (simp add: merchant_request_def mk_MerchantCheckoutRequest_def result_simps)

definition pending_dispatch :: "string \<Rightarrow> tables \<Rightarrow> bool" where
  "pending_dispatch i t \<longleftrightarrow> (\<exists>r\<in>set (tb_intents t). ir_id r = i \<and> ir_payment_status r = ''CARDHOLDER_PENDING'')"

lemma start_of_tx_Inr: "start_of_tx w = (Inr x, w') \<longleftrightarrow> x = tx_now w \<and> w' = w"
  by (auto simp: start_of_tx_def)

lemma distinct_added:
  "distinct (map f (xs @ [x])) \<Longrightarrow> f x \<notin> f ` set xs"
  by auto


lemma open_attempt_Inr:
  assumes run: "open_attempt c q a w = (Inr (m, att), w')" and c: "constraints (both w')" and "linked (both w)"
    and "tb_attempts (added w) = []"
  shows "merchant_request (au_intent a) (au_session a) (ici_idempotency_key q) = Inr m
    \<and> \<not> pending_dispatch (ir_id (au_intent a)) (rows w')
    \<and> (\<exists>x\<in>set (tb_attempts (both w')). pa_id x = att \<and> pa_organization_id x = ici_organization_id q
         \<and> pa_purchase_intent_id x = ir_id (au_intent a) \<and> pa_closed_at x = None)"
proof -
  let ?org = "ici_organization_id q"
  have "\<exists>h u y. transition_purchase_intent ?org (dispatch_transition a att h) u = (Inr y, w')
     \<and> tb_intents (rows u) = tb_intents (rows w) \<and> tb_transitions (rows u) = tb_transitions (rows w)
     \<and> tb_attempts (rows u) = tb_attempts (rows w)
     \<and> tb_attempts (added u) = [new_attempt ?org a att (tx_now w)]
     \<and> merchant_request (au_intent a) (au_session a) (ici_idempotency_key q) = Inr m"
    using run assms(4) unfolding open_attempt_def Let_def set_session_def
    by (simp only: tx_inv sum.inject start_of_tx_Inr prod.inject)
      (elim exE conjE, hypsubst, rule exI, rule exI, rule exI, rule conjI, assumption, simp)
  then obtain h u where t: "transition_purchase_intent ?org (dispatch_transition a att h) u = (Inr (), w')"
    and u: "tb_intents (rows u) = tb_intents (rows w)" "tb_transitions (rows u) = tb_transitions (rows w)"
      "tb_attempts (rows u) = tb_attempts (rows w)" "tb_attempts (added u) = [new_attempt ?org a att (tx_now w)]"
    and m: "merchant_request (au_intent a) (au_session a) (ici_idempotency_key q) = Inr m"
    by auto
  let ?t = "dispatch_transition a att h"
  have key: "ta_event_key ?t = ''checkout-dispatched:'' @ att" "ta_to_state ?t = ''CHECKOUT_PENDING''"
    "ta_state_field ?t = ''payment_status''" "ta_intent_id ?t = ir_id (au_intent a)"
    by (simp_all add: dispatch_transition_def worker_transition_def)
  have fresh: False if d: "filter (replay_of ?org ?t) (tb_transitions (rows u)) = [d]" and "w' = u" for d
  proof -
    have "d \<in> set (tb_transitions (rows w))" "tt_event_key d = ''checkout-dispatched:'' @ att"
      using filter_oneD [OF d] u(2) key(1) by (auto simp: replay_of_def)
    with assms(3,4) have "att \<in> pa_id ` set (tb_attempts (rows w))" by (auto simp: linked_def both_sel)
    moreover have "tb_attempts (both w') = tb_attempts (rows w) @ [new_attempt ?org a att (tx_now w)]"
      using that(2) u by (simp add: both_sel)
    moreover have "distinct (map pa_id (tb_attempts (both w')))"
      using c by (simp add: constraints_def primary_keys_def)
    ultimately show False by (auto simp: new_attempt_def)
  qed
  with transition_Inr [OF t] obtain cur where "apply_transition ?org ?t cur u = (Inr (), w')" by blast
  from apply_transition_Inr [OF this] obtain es i n l where w': "w' = u\<lparr>rows := (rows u)\<lparr>tb_intents := assign ir_id
      (ta_intent_id ?t) (set_state (ta_state_field ?t) (ta_to_state ?t)) (tb_intents (rows u))\<rparr>,
      drawn := l, reads := n, added := (added u)\<lparr>tb_transitions := tb_transitions (added u)
        @ [transition_row ?org ?t cur i], tb_outbox := tb_outbox (added u) @ es\<rparr>\<rparr>" by blast
  have "\<not> pending_dispatch (ir_id (au_intent a)) (rows w')"
    by (auto simp: w' key pending_dispatch_def set_assign set_state_def)
  moreover have "new_attempt ?org a att (tx_now w) \<in> set (tb_attempts (both w'))" by (simp add: w' both_sel u)
  ultimately show ?thesis using m by (intro conjI bexI) (auto simp: new_attempt_def)
qed

lemma prepare_body_Some:
  assumes "prepare_body c q w = (Inr (Some (m, att)), w')"
  obtains a where "authorises q (rows w) (now_of w (reads w)) a"
    "open_attempt c q a (w\<lparr>reads := Suc (reads w)\<rparr>) = (Inr (m, att), w')"
proof -
  from assms obtain a u reason where auth: "checkout_authority q w = (Inr a, u)"
    and reason: "expiry_reason a (now_of u (reads u)) = Inr reason"
    and rest: "(case reason of
        Some why \<Rightarrow> thenT (expire_authority c (ici_organization_id q) a why) (returnT None)
      | None \<Rightarrow> bindT (open_attempt c q a) (\<lambda>r. returnT (Some r))) (u\<lparr>reads := Suc (reads u)\<rparr>)
        = (Inr (Some (m, att)), w')"
    unfolding prepare_body_def tx_inv by blast
  note authority = checkout_authority_Inr [OF auth]
  have "reason = None"
  proof (cases reason)
    case (Some why)
    with rest show ?thesis by (simp add: thenT_Inr)
  qed
  with rest reason authority show thesis by (intro that [of a]) (auto simp: bindT_Inr)
qed

lemma prepare_attempt_Inr:
  assumes run: "prepare_attempt c q w = (Inr (m, att), w')" and linked: "linked (rows w)"
  obtains a where "authorises q (rows w) (now_of w (reads w)) a"
    "merchant_request (au_intent a) (au_session a) (ici_idempotency_key q) = Inr m"
    "\<not> pending_dispatch (ici_purchase_intent_id q) (rows w')"
    "\<exists>x\<in>set (tb_attempts (rows w')). pa_id x = att \<and> pa_organization_id x = ici_organization_id q
         \<and> pa_purchase_intent_id x = ici_purchase_intent_id q \<and> pa_closed_at x = None"
proof -
  from run obtain prepared u where t: "transaction (ici_organization_id q) (prepare_body c q) w = (Inr prepared, u)"
    and rest: "(case prepared of Some r \<Rightarrow> returnT r
      | None \<Rightarrow> thenT (finish_workflow_run (ici_organization_id q) (ici_purchase_intent_id q) ''FAILED''
                   (Some ''CHECKOUT_AUTHORITY_EXPIRED'') ''Checkout authority expired before dispatch'')
            (raiseT invalid_state)) u = (Inr (m, att), w')"
    unfolding prepare_attempt_def tx_inv by blast
  have "prepared = Some (m, att) \<and> u = w'"
    using rest by (cases prepared) (auto simp: thenT_Inr)
  with t obtain v where body: "prepare_body c q (begin_tx w) = (Inr (Some (m, att)), v)"
    and c: "constraints (both v)" and rows: "rows w' = both v" by (auto elim: transaction_both)
  from prepare_body_Some [OF body] obtain a where a: "authorises q (rows w) (now_of w (reads w)) a"
    and open': "open_attempt c q a ((begin_tx w)\<lparr>reads := Suc (reads w)\<rparr>) = (Inr (m, att), v)" by auto
  from a have id: "ir_id (au_intent a) = ici_purchase_intent_id q" by (simp add: authorises_def Let_def)
  from open_attempt_Inr [OF open' c] linked have o1:
    "merchant_request (au_intent a) (au_session a) (ici_idempotency_key q) = Inr m"
    "\<not> pending_dispatch (ir_id (au_intent a)) (rows v)"
    "\<exists>x\<in>set (tb_attempts (both v)). pa_id x = att \<and> pa_organization_id x = ici_organization_id q
         \<and> pa_purchase_intent_id x = ir_id (au_intent a) \<and> pa_closed_at x = None"
    by simp_all
  have "tb_intents (added v) = []"
    using framedD [OF inner_open open'] by (simp add: inner_def)
  then have "\<not> pending_dispatch (ir_id (au_intent a)) (rows w')"
    using o1(2) by (simp add: pending_dispatch_def both_sel rows)
  from that [OF a o1(1) this [unfolded id] o1(3) [unfolded id, folded rows]] show thesis .
qed

section \<open>A payment is dispatched under live authority and once\<close>

lemma dispatch_calls:
  assumes "dispatch c s m att w = (r, w')"
  shows "calls w' = calls w @ [ExecuteCheckout s m] \<and> rows w' = rows w"
  using assms by (auto simp: dispatch_def tx_run callT_def uncertain_result_def split: sum.splits prod.splits)

lemma execute_cases:
  assumes run: "execute_isolated_checkout c q w = (r, w')"
  obtains (silent) "calls w' = calls w"
  | (dispatched) m att u where "prepare_attempt c q w = (Inr (m, att), u)"
      "calls w' = calls w @ [ExecuteCheckout (ici_prava_session_id q) m]"
      "list_all2 bound_step (tb_intents (rows u)) (tb_intents (rows w'))"
proof (cases "assert_credential_free_contract (IsolatedCheckoutActivityInput_pyval q)")
  case (Inl e)
  with run have "w' = w" by (simp add: execute_isolated_checkout_def tx_run del: step_simps)
  then show thesis using silent by simp
next
  case free: (Inr x)
  obtain p u where p: "prepare_attempt c q w = (p, u)" by force
  have quiet: "calls u = calls w" using framedD [OF quiet_prepare p] by (simp add: quiet_def)
  show thesis
  proof (cases p)
    case (Inl e)
    with p free run have "w' = u" by (simp add: execute_isolated_checkout_def tx_run del: step_simps)
    then show thesis using silent quiet by simp
  next
    case (Inr y)
    then obtain m att where y: "p = Inr (m, att)" by (cases y) auto
    let ?rest = "bindT (dispatch c (ici_prava_session_id q) m att)
        (conclude c (ici_organization_id q) (ici_purchase_intent_id q) att (ici_idempotency_key q))"
    from p y free run have rest: "?rest u = (r, w')"
      by (simp add: execute_isolated_checkout_def tx_run del: step_simps)
    obtain d v where d: "dispatch c (ici_prava_session_id q) m att u = (d, v)" by force
    have "quiet v w'"
    proof (cases d)
      case (Inl e)
      with rest d show ?thesis by (simp add: bindT_def quiet_frame.still)
    next
      case (Inr z)
      with rest d have "conclude c (ici_organization_id q) (ici_purchase_intent_id q) att (ici_idempotency_key q) z v = (r, w')"
        by (simp add: bindT_def)
      from framedD [OF quiet_conclude this] show ?thesis .
    qed
    with dispatch_calls [OF d] quiet have "calls w' = calls w @ [ExecuteCheckout (ici_prava_session_id q) m]"
      "list_all2 bound_step (tb_intents (rows u)) (tb_intents (rows w'))"
      by (simp_all add: quiet_def outer_def)
    with dispatched p y show thesis by blast
  qed
qed

text \<open>
  C9. The checkout activity calls the payment provider at most once, and only when the rows committed before
  it hold an intent, an approval and a hosted session of the tenant for exactly the requested hash, all live
  at the instant of the check, and no attempt whose outcome is open. What it asks the provider to pay is the
  amount, currency and merchant of that intent.
\<close>
theorem dispatch_needs_authority:
  assumes "execute_isolated_checkout c q w = (r, w')" "calls w' \<noteq> calls w" "linked (rows w)"
  shows "\<exists>a m. authorises q (rows w) (now_of w (reads w)) a
    \<and> calls w' = calls w @ [ExecuteCheckout (ici_prava_session_id q) m]
    \<and> m = \<lparr>mr_purchase_intent_id = ici_purchase_intent_id q,
           mr_prava_order_id = ps_provider_order_id (au_session a), mr_idempotency_key = ici_idempotency_key q,
           mr_merchant_url = ir_merchant_url (au_intent a), mr_amount = decimal_text (ir_amount (au_intent a)),
           mr_currency = ir_currency (au_intent a)\<rparr>"
  using assms(1)
proof (cases rule: execute_cases)
  case silent
  with assms(2) show ?thesis by simp
next
  case (dispatched m att u)
  from prepare_attempt_Inr [OF dispatched(1) assms(3)] obtain a where
    a: "authorises q (rows w) (now_of w (reads w)) a"
    and m: "merchant_request (au_intent a) (au_session a) (ici_idempotency_key q) = Inr m" by blast
  moreover have "ir_id (au_intent a) = ici_purchase_intent_id q" using a by (simp add: authorises_def Let_def)
  ultimately show ?thesis using merchant_request_Inr [OF m] dispatched(2) by auto
qed

text \<open>The activities of the checkout workflow, each run by any worker with any providers.\<close>

datatype checkout_activity =
    Execute coordinator IsolatedCheckoutActivityInput
  | Reconcile coordinator ReconcileActivityInput
  | Fail WorkflowFailureActivityInput
  | Verify coordinator VerifyFulfillmentActivityInput
  | Refund coordinator RefundActivityInput
  | ReconcileTheRefund coordinator RefundActivityInput

definition run_activity :: "checkout_activity \<Rightarrow> provider_call world \<Rightarrow> provider_call world" where
  "run_activity x w =
     (case x of
        Execute c q \<Rightarrow> snd (execute_isolated_checkout c q w)
      | Reconcile c q \<Rightarrow> snd (reconcile_checkout c q w)
      | Fail q \<Rightarrow> snd (fail_checkout_workflow q w)
      | Verify c q \<Rightarrow> snd (verify_fulfillment c q w)
      | Refund c q \<Rightarrow> snd (execute_refund c q w)
      | ReconcileTheRefund c q \<Rightarrow> snd (reconcile_refund c q w))"

definition dispatches :: "string \<Rightarrow> provider_call list \<Rightarrow> nat" where
  "dispatches i cs =
     length (filter (\<lambda>c. case c of ExecuteCheckout _ m \<Rightarrow> mr_purchase_intent_id m = i | _ \<Rightarrow> False) cs)"

definition undispatched :: "string \<Rightarrow> provider_call world \<Rightarrow> provider_call world \<Rightarrow> bool" where
  "undispatched i u v \<longleftrightarrow> outer u v \<and> dispatches i (calls v) = dispatches i (calls u)"

interpretation undispatched_frame: frame "undispatched i" for i
  by unfold_locales (auto simp: undispatched_def outer_frame.still outer_frame.ticks intro: outer_frame.trans)

lemma undispatched_quiet: "framed quiet m \<Longrightarrow> framed (undispatched i) m"
  by (erule framed_mono) (simp add: quiet_def undispatched_def)

lemma undispatched_asks:
  "framed (undispatched i) (callT (ReconcileOrder m) f1)" "framed (undispatched i) (callT (ReportOutcome x y z) f2)"
  "framed (undispatched i) (callT (VerifyEntitlements e) f3)" "framed (undispatched i) (callT (RequestRefund g) f4)"
  "framed (undispatched i) (callT (ReconcileRefund g) f5)"
  by (simp_all add: framed_def callT_def undispatched_def outer_def bound_refl dispatches_def)

lemma undispatched_reconcile: "framed (undispatched i) (reconcile_checkout c q)"
  unfolding reconcile_checkout_def
  by (intro undispatched_frame.rules undispatched_quiet [OF quiet_load])
    (auto intro!: undispatched_frame.rules undispatched_asks undispatched_quiet [OF quiet_conclude])

lemma undispatched_observe: "framed (undispatched i) (observe c org m items)"
  by (induction items) (auto intro!: undispatched_frame.rules undispatched_asks)

lemma undispatched_verify: "framed (undispatched i) (verify_fulfillment c q)"
proof -
  have "framed (undispatched i) (verify_purchase c org j m)" for org j m
    unfolding verify_purchase_def
    by (intro undispatched_frame.rules undispatched_quiet [OF inner_start_fulfillment])
      (auto split: option.split intro!: undispatched_frame.rules undispatched_observe
        undispatched_quiet [OF framed_transaction] inner_record_verdict)
  then show ?thesis unfolding verify_fulfillment_def Let_def
    by (intro undispatched_frame.rules)
      (auto intro!: undispatched_frame.rules undispatched_quiet [OF quiet_finish])
qed

lemma undispatched_persist_refund: "framed (undispatched i) (persist_refund_result c q r)"
  unfolding persist_refund_result_def by (intro undispatched_quiet framed_transaction inner_persist_refund)

lemma undispatched_refunds:
  "framed (undispatched i) (execute_refund c q)" "framed (undispatched i) (reconcile_refund c q)"
  unfolding execute_refund_def reconcile_refund_def
  by (auto split: sum.split intro!: undispatched_frame.rules undispatched_quiet [OF quiet_load_refund]
      undispatched_asks undispatched_persist_refund)

lemma unstated_id: "unstated a = unstated b \<Longrightarrow> ir_id a = ir_id b"
  by (cases a; cases b) (simp add: unstated_def)

lemma pending_step:
  assumes "list_all2 bound_step (tb_intents s) (tb_intents t)" "pending_dispatch i t"
  shows "pending_dispatch i s"
proof -
  from assms(2) obtain r where r: "r \<in> set (tb_intents t)" "ir_id r = i" "ir_payment_status r = ''CARDHOLDER_PENDING''"
    by (auto simp: pending_dispatch_def)
  with assms(1) obtain r' where r': "r' \<in> set (tb_intents s)" "bound_step r' r"
    by (metis in_set_conv_nth list_all2_conv_all_nth)
  then have "ir_id r' = i" using r(2) unstated_id [of r r'] by (simp add: bound_step_def)
  with r r' show ?thesis by (auto simp: pending_dispatch_def bound_step_def early_states_def)
qed

lemma authorises_pending: "authorises q t now a \<Longrightarrow> pending_dispatch (ici_purchase_intent_id q) t"
  by (auto simp: authorises_def pending_dispatch_def Let_def)

definition dispatch_budget :: "string \<Rightarrow> provider_call world \<Rightarrow> nat" where
  "dispatch_budget i w = dispatches i (calls w) + (if pending_dispatch i (rows w) then 1 else 0)"

lemma budget_undispatched: "undispatched i u v \<Longrightarrow> dispatch_budget i v \<le> dispatch_budget i u"
  using pending_step [of "rows u" "rows v" i] by (auto simp: dispatch_budget_def undispatched_def outer_def)

lemma activity_budget:
  assumes "linked (rows w)"
  shows "dispatch_budget i (run_activity x w) \<le> dispatch_budget i w \<and> outer w (run_activity x w)"
proof (cases x)
  case (Execute c q)
  obtain r w' where run: "execute_isolated_checkout c q w = (r, w')" by force
  have outer: "outer w w'" using framedD [OF outer_execute run] .
  from run have "dispatch_budget i w' \<le> dispatch_budget i w"
  proof (cases rule: execute_cases)
    case silent
    then show ?thesis using outer budget_undispatched [of i w w'] by (simp add: undispatched_def)
  next
    case (dispatched m att u)
    from prepare_attempt_Inr [OF dispatched(1) assms] obtain a where
      a: "authorises q (rows w) (now_of w (reads w)) a"
      and m: "merchant_request (au_intent a) (au_session a) (ici_idempotency_key q) = Inr m"
      and off: "\<not> pending_dispatch (ici_purchase_intent_id q) (rows u)" by blast
    have id: "mr_purchase_intent_id m = ici_purchase_intent_id q"
      using merchant_request_Inr [OF m] a by (simp add: authorises_def Let_def)
    note pend = authorises_pending [OF a]
    have off': "\<not> pending_dispatch (ici_purchase_intent_id q) (rows w')"
      using pending_step [OF dispatched(3)] off by blast
    show ?thesis
    proof (cases "i = ici_purchase_intent_id q")
      case True
      with pend off' id dispatched(2) show ?thesis by (simp add: dispatch_budget_def dispatches_def)
    next
      case False
      with id dispatched(2) have "dispatches i (calls w') = dispatches i (calls w)" by (simp add: dispatches_def)
      with outer show ?thesis by (intro budget_undispatched) (simp add: undispatched_def)
    qed
  qed
  with outer Execute run show ?thesis by (simp add: run_activity_def)
qed (use undispatched_reconcile [of i] undispatched_quiet [OF quiet_fail, of i] undispatched_verify [of i]
    undispatched_refunds [of i] budget_undispatched in
    \<open>auto simp: run_activity_def framed_def undispatched_def\<close>)

lemma activities_budget:
  assumes "linked (rows w)"
  shows "dispatch_budget i (fold run_activity xs w) \<le> dispatch_budget i w \<and> outer w (fold run_activity xs w)"
  using assms
proof (induction xs arbitrary: w)
  case Nil
  then show ?case by (simp add: outer_frame.still)
next
  case (Cons x xs)
  note step = activity_budget [OF Cons.prems, of i x]
  then have "linked (rows (run_activity x w))" using Cons.prems by (simp add: outer_def)
  from Cons.IH [OF this] step show ?case by (auto intro: outer_frame.trans order_trans)
qed


section \<open>A checkout\<close>

definition sample_adapter :: AdapterDescriptor where
  "sample_adapter =
     \<lparr>ad_provider = ''p'', ad_mode = PRODUCTION, ad_production_capable = True, ad_production_verified = True\<rparr>"

definition sample_outcome :: MerchantCheckoutOutcome where
  "sample_outcome =
     \<lparr>mc_outcome = MerchantOutcome.APPROVED, mc_merchant_order_id = Some ''order'', mc_authorization_code = None,
      mc_response_code = None, mc_adapter = sample_adapter, mc_provider_confirmed = True\<rparr>"

definition sample_answer :: "bool \<Rightarrow> PravaCheckoutResult" where
  "sample_answer reported =
     \<lparr>pc_session_id = ''session'', pc_prava_order_id = ''prava'', pc_transaction_reference = ''txn'',
      pc_merchant = sample_outcome, pc_provider_reported = reported,
      pc_final_status = PravaPaymentStatus.COMPLETED, pc_reconciliation_required = (\<not> reported),
      pc_adapter = sample_adapter\<rparr>"

definition sample_providers :: providers where
  "sample_providers =
     \<lparr>px_prava = sample_adapter, px_merchant = sample_adapter, px_reversal = None,
      px_execute = (\<lambda>_ _ _. Inr (sample_answer False)), px_reconcile = (\<lambda>_ _. Inr sample_outcome),
      px_report = (\<lambda>_ s t _. Inr \<lparr>rp_session_id = s, rp_transaction_reference = t,
                                 rp_provider_confirmed = True, rp_adapter = sample_adapter\<rparr>),
      px_verify = (\<lambda>_ _. Inl RuntimeError), px_refund = (\<lambda>_ _. Inl RuntimeError),
      px_reconcile_refund = (\<lambda>_ _. Inl RuntimeError)\<rparr>"

definition sample_coordinator :: coordinator where
  "sample_coordinator =
     \<lparr>co_merchant_adapter_id = ''adapter'', co_environment = ''sandbox'', co_hash = (\<lambda>_. Inr ''digest''),
      co_text = (\<lambda>_. []), co_providers = sample_providers\<rparr>"

definition sample_input :: IsolatedCheckoutActivityInput where
  "sample_input =
     \<lparr>ici_organization_id = ''org'', ici_purchase_intent_id = ''pi'', ici_intent_hash = ''hash'',
      ici_prava_session_id = ''session'', ici_merchant_adapter_id = ''adapter'', ici_idempotency_key = ''key''\<rparr>"

definition sample_reconcile :: ReconcileActivityInput where
  "sample_reconcile =
     \<lparr>rai_organization_id = ''org'', rai_purchase_intent_id = ''pi'', rai_intent_hash = ''hash'',
      rai_prava_session_id = ''session'', rai_merchant_adapter_id = ''adapter'', rai_idempotency_key = ''key'',
      rai_transaction_reference = ''txn''\<rparr>"

definition sample_rows :: tables where
  "sample_rows = empty_tables\<lparr>
     tb_intents := [sample_row],
     tb_approvals := [\<lparr>ar_id = ''ap'', ar_organization_id = ''org'', ar_purchase_intent_id = ''pi'',
       ar_intent_hash = ''hash'', ar_policy_version = 1, ar_status = ''APPROVED'',
       ar_required_roles = [''cfo''], ar_approved_roles = [''cfo''], ar_expires_at = \<lparr>dt_local = 50, dt_offset = None\<rparr>,
       ar_created_at = 0\<rparr>],
     tb_sessions := [\<lparr>ps_id = ''ps'', ps_organization_id = ''org'', ps_purchase_intent_id = ''pi'',
       ps_provider = ''prava'', ps_provider_session_id = ''session'', ps_provider_order_id = ''prava'',
       ps_hosted_url = [], ps_expires_at = \<lparr>dt_local = 60, dt_offset = Some 0\<rparr>, ps_status = ''CARDHOLDER_PENDING'',
       ps_created_at = 0\<rparr>]\<rparr>"

definition sample_start :: "provider_call world" where
  "sample_start =
     \<lparr>rows = sample_rows, added = empty_tables, tx_now = 0, reads = 0, drawn = 0, now_of = int,
      hex_of = (\<lambda>n. replicate n CHR ''a''), calls = []\<rparr>"

lemma sample_linked: "linked (rows sample_start)"
  by (simp add: linked_def sample_start_def sample_rows_def)

lemma dispatch_needs_authority_witness:
  "\<exists>a m. authorises sample_input (rows sample_start) 0 a
     \<and> calls (snd (execute_isolated_checkout sample_coordinator sample_input sample_start))
         = [ExecuteCheckout ''session'' m] \<and> mr_amount m = ''12.50''"
proof -
  have "calls (snd (execute_isolated_checkout sample_coordinator sample_input sample_start)) \<noteq> calls sample_start"
    by code_simp
  from dispatch_needs_authority [OF surjective_pairing this sample_linked] obtain a m where
    a: "authorises sample_input sample_rows 0 a"
    and calls: "calls (snd (execute_isolated_checkout sample_coordinator sample_input sample_start))
      = [ExecuteCheckout ''session'' m]"
    and m: "mr_amount m = decimal_text (ir_amount (au_intent a))"
    by (auto simp: sample_start_def sample_input_def)
  from a have "au_intent a = sample_row" by (simp add: authorises_def Let_def sample_rows_def)
  then have "mr_amount m = ''12.50''" unfolding m by (simp, code_simp)
  with a calls show ?thesis by (auto simp: sample_start_def)
qed


end
