(* ===== verification/Outcomes.thy ===== *)
theory Outcomes
  imports CoordinatorLaws
begin

text \<open>
  What the rows say after \<^verbatim>\<open>_persist_checkout_result\<close> returned, and the outcomes it can never
  persist: a provider reference belongs to one transition, so an outcome that was recorded before its report
  was confirmed cannot be recorded again when it is.
\<close>

section \<open>Settling an outcome\<close>

definition settled_state :: "PravaCheckoutResult \<Rightarrow> string" where
  "settled_state r =
     (case outcome_of r of
        MerchantOutcome.UNKNOWN \<Rightarrow> ''UNCERTAIN'' | MerchantOutcome.DECLINED \<Rightarrow> ''DECLINED''
      | MerchantOutcome.APPROVED \<Rightarrow> (if pc_provider_reported r then ''PRAVA_COMPLETED'' else ''REPORTING''))"

definition settled_key :: "string \<Rightarrow> PravaCheckoutResult \<Rightarrow> string" where
  "settled_key attempt_id r =
     (case outcome_of r of
        MerchantOutcome.UNKNOWN \<Rightarrow> ''checkout-uncertain:'' @ attempt_id
      | MerchantOutcome.DECLINED \<Rightarrow> ''checkout-declined:'' @ attempt_id
      | MerchantOutcome.APPROVED \<Rightarrow> ''prava-report:'' @ attempt_id @ '':'' @ str_lower (settled_state r))"

definition settled_ref :: "PravaCheckoutResult \<Rightarrow> string option" where
  "settled_ref r =
     (if outcome_of r = MerchantOutcome.UNKNOWN then provider_ref (pc_transaction_reference r)
      else Some (pc_transaction_reference r))"

definition recorded :: "string \<Rightarrow> string \<Rightarrow> string \<Rightarrow> tables \<Rightarrow> bool" where
  "recorded org intent_id key t \<longleftrightarrow> (\<exists>d\<in>set (tb_transitions t). tt_organization_id d = org
     \<and> tt_purchase_intent_id d = intent_id \<and> tt_event_key d = key)"

text \<open>A step that leaves every table alone but the intents and what transitions add.\<close>

definition moves :: "'c world \<Rightarrow> 'c world \<Rightarrow> bool" where
  "moves u v \<longleftrightarrow> tb_sessions (rows v) = tb_sessions (rows u) \<and> tb_attempts (rows v) = tb_attempts (rows u)
     \<and> tb_attempts (added v) = tb_attempts (added u) \<and> tb_orders (rows v) = tb_orders (rows u)
     \<and> tb_orders (added v) = tb_orders (added u) \<and> tb_sessions (added v) = tb_sessions (added u)
     \<and> map ir_id (tb_intents (rows v)) = map ir_id (tb_intents (rows u))
     \<and> tb_intents (added v) = tb_intents (added u)
     \<and> tb_transitions (rows v) = tb_transitions (rows u)
     \<and> prefix (tb_transitions (added u)) (tb_transitions (added v))"

lemma moves_refl [simp]: "moves w w"
  by (simp add: moves_def)

lemma moves_trans: "moves u v \<Longrightarrow> moves v w \<Longrightarrow> moves u w"
  by (auto simp: moves_def intro: prefix_order.trans)

lemma transition_moves:
  assumes "transition_purchase_intent org a w = (Inr (), w')"
  shows "moves w w'"
  using transition_Inr [OF assms] apply_transition_Inr [of org a _ w w']
  by (force simp: moves_def map_assign)

lemma transition_fresh:
  assumes "transition_purchase_intent org a w = (Inr (), w')" "\<not> recorded org (ta_intent_id a) (ta_event_key a) (rows w)"
  obtains intent i where
    "filter (\<lambda>r. ir_id r = ta_intent_id a \<and> ir_organization_id r = org) (tb_intents (rows w)) = [intent]"
    "state_of (ta_state_field a) intent \<in> set (ta_allowed_from a)"
    "tb_intents (rows w') = assign ir_id (ta_intent_id a) (set_state (ta_state_field a) (ta_to_state a)) (tb_intents (rows w))"
    "tb_transitions (added w') = tb_transitions (added w)
       @ [transition_row org a (state_of (ta_state_field a) intent) i]"
proof -
  have none: "filter (replay_of org a) (tb_transitions (rows w)) = []"
    using assms(2) by (auto simp: recorded_def replay_of_def filter_empty_conv)
  with transition_Inr [OF assms(1)] obtain intent where
    i: "filter (\<lambda>r. ir_id r = ta_intent_id a \<and> ir_organization_id r = org) (tb_intents (rows w)) = [intent]"
      "state_of (ta_state_field a) intent \<in> set (ta_allowed_from a)"
    and ap: "apply_transition org a (state_of (ta_state_field a) intent) w = (Inr (), w')" by auto
  from apply_transition_Inr [OF ap] obtain j where
    "tb_intents (rows w') = assign ir_id (ta_intent_id a) (set_state (ta_state_field a) (ta_to_state a)) (tb_intents (rows w))"
    "tb_transitions (added w') = tb_transitions (added w) @ [transition_row org a (state_of (ta_state_field a) intent) j]"
    by auto
  with i that show thesis by blast
qed

lemma transition_recorded:
  assumes "transition_purchase_intent org a w = (Inr (), w')"
  shows "\<exists>d\<in>set (tb_transitions (both w')). replay_of org a d \<and> tt_to_state d = ta_to_state a
    \<and> tt_payload_hash d = ta_payload_hash a"
proof (cases "recorded org (ta_intent_id a) (ta_event_key a) (rows w)")
  case False
  from transition_fresh [OF assms this] obtain cur i where
    "tb_transitions (added w') = tb_transitions (added w) @ [transition_row org a cur i]" by metis
  then have "transition_row org a cur i \<in> set (tb_transitions (both w'))" by (simp add: both_sel)
  then show ?thesis by (rule bexI [rotated]) (simp add: replay_of_def transition_row_def)
next
  case True
  then have "filter (replay_of org a) (tb_transitions (rows w)) \<noteq> []"
    by (auto simp: recorded_def replay_of_def filter_empty_conv)
  with transition_Inr [OF assms] obtain d where d: "filter (replay_of org a) (tb_transitions (rows w)) = [d]"
    "tt_to_state d = ta_to_state a" "tt_payload_hash d = ta_payload_hash a" "w' = w" by auto
  from filter_oneD [OF d(1)] d(2-4) show ?thesis by (intro bexI [of _ d]) (auto simp: both_sel)
qed

lemma settle_Inr:
  assumes "settle org intent attempt h r w = (Inr (), w')"
  obtains a u v where "transition_purchase_intent org a u = (Inr (), w')"
    "u = v\<lparr>rows := (rows v)\<lparr>tb_sessions := assign ps_id (pa_payment_session_id attempt)
            (\<lambda>s. s\<lparr>ps_status := settled_state r\<rparr>) (tb_sessions (rows v))\<rparr>\<rparr>"
    "v = w \<or> (outcome_of r = MerchantOutcome.APPROVED
        \<and> ir_payment_status intent \<in> {''CHECKOUT_PENDING'', ''UNCERTAIN''}
        \<and> transition_purchase_intent org (outcome_transition (ir_id intent) (pa_id attempt)
            [''CHECKOUT_PENDING'', ''UNCERTAIN''] ''MERCHANT_APPROVED'' (''merchant-approved:'' @ pa_id attempt)
            ''MERCHANT_APPROVED'' h None) w = (Inr (), v))"
    "ta_event_key a = settled_key (pa_id attempt) r" "ta_to_state a = settled_state r"
    "ta_state_field a = ''payment_status''" "ta_intent_id a = ir_id intent" "ta_payload_hash a = h"
    "ta_provider_event_ref a = settled_ref r"
    "set (ta_allowed_from a) = (if outcome_of r = MerchantOutcome.APPROVED then {''MERCHANT_APPROVED'', ''REPORTING''}
       else {''CHECKOUT_PENDING'', ''UNCERTAIN''})"
proof (cases "outcome_of r")
  case UNKNOWN
  with assms show thesis
    by (intro that [of "outcome_transition (ir_id intent) (pa_id attempt) [''CHECKOUT_PENDING'', ''UNCERTAIN''] ''UNCERTAIN''
            (''checkout-uncertain:'' @ pa_id attempt) ''MERCHANT_OUTCOME_UNKNOWN'' h
            (provider_ref (pc_transaction_reference r))" _ w])
      (auto simp: settle_def settle_unknown_def set_session_def thenT_Inr outcome_transition_def worker_transition_def
        settled_key_def settled_state_def settled_ref_def)
next
  case DECLINED
  with assms show thesis
    by (intro that [of "outcome_transition (ir_id intent) (pa_id attempt) [''CHECKOUT_PENDING'', ''UNCERTAIN''] ''DECLINED''
            (''checkout-declined:'' @ pa_id attempt) ''MERCHANT_DECLINED'' h
            (Some (pc_transaction_reference r))" _ w])
      (auto simp: settle_def settle_declined_def set_session_def thenT_Inr outcome_transition_def worker_transition_def
        settled_key_def settled_state_def settled_ref_def)
next
  case APPROVED
  then have target: "report_target r = settled_state r" by (simp add: report_target_def settled_state_def)
  from APPROVED assms obtain v where
    v: "v = w \<and> ir_payment_status intent \<notin> {''CHECKOUT_PENDING'', ''UNCERTAIN''}
      \<or> ir_payment_status intent \<in> {''CHECKOUT_PENDING'', ''UNCERTAIN''}
        \<and> transition_purchase_intent org (outcome_transition (ir_id intent) (pa_id attempt)
            [''CHECKOUT_PENDING'', ''UNCERTAIN''] ''MERCHANT_APPROVED'' (''merchant-approved:'' @ pa_id attempt)
            ''MERCHANT_APPROVED'' h None) w = (Inr (), v)"
    and t: "transition_purchase_intent org
         (outcome_transition (ir_id intent) (pa_id attempt) [''MERCHANT_APPROVED'', ''REPORTING'']
            (report_target r) (''prava-report:'' @ pa_id attempt @ '':'' @ str_lower (report_target r))
            (if pc_provider_reported r then ''PRAVA_REPORT_CONFIRMED''
             else ''PRAVA_REPORT_RECONCILIATION_REQUIRED'') h
            (Some (pc_transaction_reference r)))
         (v\<lparr>rows := (rows v)\<lparr>tb_sessions := assign ps_id (pa_payment_session_id attempt)
            (\<lambda>s. s\<lparr>ps_status := report_target r\<rparr>) (tb_sessions (rows v))\<rparr>\<rparr>) = (Inr (), w')"
  proof (cases "ir_payment_status intent \<in> {''CHECKOUT_PENDING'', ''UNCERTAIN''}")
    case True
    with assms APPROVED show thesis
      unfolding settle_def settle_approved_def set_session_def
      by (simp only: MerchantOutcome.case if_True tx_inv)
        (elim exE conjE, hypsubst, rule that, rule disjI2, simp, simp only: unit_eq)
  next
    case False
    with assms APPROVED show thesis
      unfolding settle_def settle_approved_def set_session_def
      by (simp only: MerchantOutcome.case if_False tx_inv)
        (elim exE conjE, hypsubst, rule that, rule disjI1, simp, simp only: unit_eq)
  qed
  show thesis
    by (rule that [OF t [unfolded target] refl])
      (use v APPROVED target in \<open>auto simp: outcome_transition_def worker_transition_def settled_key_def settled_ref_def\<close>)
qed

definition known_and_final :: "PravaCheckoutResult \<Rightarrow> bool" where
  "known_and_final r \<longleftrightarrow> outcome_of r \<noteq> MerchantOutcome.UNKNOWN \<and> \<not> pc_reconciliation_required r"

definition with_outcome :: "PravaCheckoutResult \<Rightarrow> int \<Rightarrow> PaymentAttempt \<Rightarrow> PaymentAttempt" where
  "with_outcome r now x =
     x\<lparr>pa_merchant_outcome := Some (MerchantOutcome_value (outcome_of r)),
       pa_external_order_id := mc_merchant_order_id (pc_merchant r),
       pa_closed_at := (if known_and_final r then Some now else pa_closed_at x)\<rparr>"

lemma assign_twice:
  "(\<And>r. key (f r) = key r) \<Longrightarrow> assign key i g (assign key i f xs) = assign key i (\<lambda>r. g (f r)) xs"
  by (simp add: assign_def)

lemma record_outcome_Inr:
  assumes "record_outcome att r w = (Inr y, w')"
  obtains n where "w' = w\<lparr>reads := n, rows := (rows w)\<lparr>tb_attempts := assign pa_id att (with_outcome r (now_of w (reads w)))
      (tb_attempts (rows w))\<rparr>\<rparr>"
proof -
  let ?f = "\<lambda>a. a\<lparr>pa_merchant_outcome := Some (MerchantOutcome_value (outcome_of r)),
        pa_external_order_id := mc_merchant_order_id (pc_merchant r)\<rparr>"
  let ?w = "w\<lparr>rows := (rows w)\<lparr>tb_attempts := assign pa_id att ?f (tb_attempts (rows w))\<rparr>\<rparr>"
  show thesis
  proof (cases "known_and_final r")
    case True
    then have f: "with_outcome r now = (\<lambda>x. (?f x)\<lparr>pa_closed_at := Some now\<rparr>)" for now
      by (simp add: fun_eq_iff with_outcome_def)
    from assms True have "w' = w\<lparr>reads := Suc (reads w), rows := (rows ?w)\<lparr>tb_attempts := assign pa_id att
        (\<lambda>a. a\<lparr>pa_closed_at := Some (now_of w (reads w))\<rparr>) (tb_attempts (rows ?w))\<rparr>\<rparr>"
      by (simp add: record_outcome_def known_and_final_def set_attempt_def tx_run del: step_simps)
    then have "w' = w\<lparr>reads := Suc (reads w), rows := (rows w)\<lparr>tb_attempts := assign pa_id att (with_outcome r (now_of w (reads w)))
      (tb_attempts (rows w))\<rparr>\<rparr>"
      unfolding f by (simp add: assign_twice)
    then show thesis by (rule that)
  next
    case False
    then have f: "with_outcome r now = ?f" for now by (simp add: fun_eq_iff with_outcome_def)
    from assms False have "w' = ?w"
      by (auto simp: record_outcome_def known_and_final_def set_attempt_def tx_run simp del: step_simps)
    then have "w' = w\<lparr>reads := reads w, rows := (rows w)\<lparr>tb_attempts := assign pa_id att
        (with_outcome r (now_of w (reads w))) (tb_attempts (rows w))\<rparr>\<rparr>" unfolding f by simp
    then show thesis by (rule that)
  qed
qed

definition order_recorded :: "coordinator \<Rightarrow> string \<Rightarrow> string \<Rightarrow> MerchantOrder list \<Rightarrow> bool" where
  "order_recorded c org key xs \<longleftrightarrow> (\<exists>m\<in>set xs. mo_organization_id m = org
     \<and> mo_merchant_adapter_id m = co_merchant_adapter_id c \<and> mo_idempotency_key m = key)"

lemma record_order_Inr:
  assumes "record_order c org intent key r w = (Inr y, w')"
  obtains n os where "w' = w\<lparr>drawn := n, added := (added w)\<lparr>tb_orders := tb_orders (added w) @ os\<rparr>\<rparr>"
    "mc_merchant_order_id (pc_merchant r) \<noteq> None \<Longrightarrow> order_recorded c org key (tb_orders (rows w) @ os)"
proof (cases "mc_merchant_order_id (pc_merchant r)")
  case None
  with assms have "w' = w\<lparr>drawn := drawn w, added := (added w)\<lparr>tb_orders := tb_orders (added w) @ []\<rparr>\<rparr>"
    by (simp add: record_order_def)
  then show thesis by (rule that) (simp add: None)
next
  case (Some e)
  let ?P = "\<lambda>m. mo_organization_id m = org \<and> mo_merchant_adapter_id m = co_merchant_adapter_id c
    \<and> mo_idempotency_key m = key"
  from assms Some obtain ex where ex: "scalar_one_or_none (filter ?P (tb_orders (rows w))) = Inr ex"
    by (auto simp: record_order_def tx_inv)
  show thesis
  proof (cases ex)
    case None
    let ?o = "\<lparr>mo_id = ''mord'' @ ''_'' @ hex_of w (drawn w), mo_organization_id = org,
        mo_purchase_intent_id = ir_id intent, mo_merchant_adapter_id = co_merchant_adapter_id c,
        mo_idempotency_key = key, mo_external_order_id = e, mo_status = MerchantOutcome_value (outcome_of r),
        mo_amount = ir_amount intent, mo_currency = ir_currency intent,
        mo_safe_payload = [(''provider_confirmed'', PBool (mc_provider_confirmed (pc_merchant r))),
          (''response_code'', optional PStr (mc_response_code (pc_merchant r)))]\<rparr>"
    from assms Some ex None
    have "w' = w\<lparr>drawn := Suc (drawn w), added := (added w)\<lparr>tb_orders := tb_orders (added w) @ [?o]\<rparr>\<rparr>"
      by (simp add: record_order_def tx_run del: step_simps)
    then show thesis by (rule that) (simp add: order_recorded_def)
  next
    case (Some m)
    with ex have "filter ?P (tb_orders (rows w)) = [m]" by (simp add: one_row)
    from filter_oneD [OF this] have "order_recorded c org key (tb_orders (rows w) @ [])"
      by (auto simp: order_recorded_def)
    moreover have "w' = w\<lparr>drawn := drawn w, added := (added w)\<lparr>tb_orders := tb_orders (added w) @ []\<rparr>\<rparr>"
      using assms \<open>mc_merchant_order_id (pc_merchant r) = Some e\<close> ex Some
      by (simp add: record_order_def tx_run del: step_simps)
    ultimately show thesis using that by blast
  qed
qed

lemma persist_body_Inr:
  assumes "persist_body c org i att key r w = (Inr out, w')"
  obtains intent x s h u v where
    "filter (\<lambda>a. ir_id a = i \<and> ir_organization_id a = org) (tb_intents (rows w)) = [intent]"
    "filter (\<lambda>a. pa_id a = att \<and> pa_organization_id a = org) (tb_attempts (rows w)) = [x]"
    "filter (\<lambda>a. ps_id a = pa_payment_session_id x \<and> ps_organization_id a = org) (tb_sessions (rows w)) = [s]"
    "record_outcome att r w = (Inr (), u)" "record_order c org intent key r u = (Inr (), v)"
    "co_hash c (safe_payload_of r) = Inr h" "settle org intent x h r v = (Inr (), w')"
    "out = checkout_result i r"
proof -
  from assms obtain intent x s h u v y z k where
    "filter (\<lambda>a. ir_id a = i \<and> ir_organization_id a = org) (tb_intents (rows w)) = [intent]"
    "filter (\<lambda>a. pa_id a = att \<and> pa_organization_id a = org) (tb_attempts (rows w)) = [x]"
    "filter (\<lambda>a. ps_id a = pa_payment_session_id x \<and> ps_organization_id a = org) (tb_sessions (rows w)) = [s]"
    "record_outcome att r w = (Inr y, u)" "record_order c org intent key r u = (Inr z, v)"
    "co_hash c (safe_payload_of r) = Inr h" "settle org intent x h r v = (Inr k, w')"
    "out = checkout_result i r"
    unfolding persist_body_def get_purchase_intent_def
    by (simp only: tx_inv sum.inject) (elim exE conjE, hypsubst, rule that, assumption+)
  then show thesis using that by simp
qed

lemma with_outcome_keeps [simp]:
  "pa_id (with_outcome r n x) = pa_id x" "pa_payment_session_id (with_outcome r n x) = pa_payment_session_id x"
  by (simp_all add: with_outcome_def)

text \<open>The world a settlement starts from, and what it does besides the transitions.\<close>

lemma persist_Inr:
  fixes w :: "'c world"
  assumes "persist_checkout_result c org i att key r w = (Inr out, w')"
  obtains intent x s h and v u :: "'c world" where
    "filter (\<lambda>a. ir_id a = i \<and> ir_organization_id a = org) (tb_intents (rows w)) = [intent]"
    "x \<in> set (tb_attempts (rows w))" "pa_id x = att" "pa_organization_id x = org"
    "s \<in> set (tb_sessions (rows w))" "ps_id s = pa_payment_session_id x"
    "co_hash c (safe_payload_of r) = Inr h" "settle org intent x h r v = (Inr (), u)"
    "tb_intents (rows v) = tb_intents (rows w)" "tb_sessions (rows v) = tb_sessions (rows w)"
    "tb_transitions (rows v) = tb_transitions (rows w)" "tb_transitions (added v) = []"
    "tb_attempts (rows v) = assign pa_id att (with_outcome r (now_of w (reads w))) (tb_attempts (rows w))"
    "mc_merchant_order_id (pc_merchant r) \<noteq> None \<longrightarrow> order_recorded c org key (tb_orders (both v))"
    "constraints (both u)" "rows w' = both u" "out = checkout_result i r"
proof -
  from assms obtain u where body: "persist_body c org i att key r (begin_tx w) = (Inr out, u)"
    and c: "constraints (both u)" "rows w' = both u"
    unfolding persist_checkout_result_def by (auto elim: transaction_both)
  from persist_body_Inr [OF body, unfolded begin_tx_simps] obtain intent x s h and u1 v :: "'c world" where
    i: "filter (\<lambda>a. ir_id a = i \<and> ir_organization_id a = org) (tb_intents (rows w)) = [intent]"
    and x: "filter (\<lambda>a. pa_id a = att \<and> pa_organization_id a = org) (tb_attempts (rows w)) = [x]"
    and s: "filter (\<lambda>a. ps_id a = pa_payment_session_id x \<and> ps_organization_id a = org) (tb_sessions (rows w)) = [s]"
    and o1: "record_outcome att r (begin_tx w) = (Inr (), u1)" and o2: "record_order c org intent key r u1 = (Inr (), v)"
    and h: "co_hash c (safe_payload_of r) = Inr h" and t: "settle org intent x h r v = (Inr (), u)"
    and out: "out = checkout_result i r" .
  from record_outcome_Inr [OF o1] obtain n where u1: "u1 = (begin_tx w)\<lparr>reads := n, rows := (rows w)\<lparr>tb_attempts :=
      assign pa_id att (with_outcome r (now_of w (reads w))) (tb_attempts (rows w))\<rparr>\<rparr>" by auto
  from record_order_Inr [OF o2] obtain k os where v: "v = u1\<lparr>drawn := k, added := (added u1)\<lparr>tb_orders := tb_orders (added u1) @ os\<rparr>\<rparr>"
    and ord: "mc_merchant_order_id (pc_merchant r) \<noteq> None \<Longrightarrow> order_recorded c org key (tb_orders (rows u1) @ os)" by blast
  have "mc_merchant_order_id (pc_merchant r) \<noteq> None \<longrightarrow> order_recorded c org key (tb_orders (both v))"
    using ord by (simp add: v u1 both_def)
  with i filter_oneD [OF x] filter_oneD [OF s] h t c out show thesis
    by (intro that [of intent x s h v u]) (simp_all add: v u1)
qed

lemma persist_settles:
  fixes w :: "'c world"
  assumes "persist_checkout_result c org i att key r w = (Inr out, w')"
  obtains intent x h and v u :: "'c world" where
    "filter (\<lambda>a. ir_id a = i \<and> ir_organization_id a = org) (tb_intents (rows w)) = [intent]"
    "ir_id intent = i" "pa_id x = att" "co_hash c (safe_payload_of r) = Inr h"
    "settle org intent x h r v = (Inr (), u)" "tb_intents (rows v) = tb_intents (rows w)"
    "tb_transitions (rows v) = tb_transitions (rows w)" "constraints (both u)" "rows w' = both u"
  by (rule persist_Inr [OF assms]) (rule that, assumption, (drule filter_oneD, simp)?, assumption+)

lemma settle_tables:
  assumes "settle org intent x h r v = (Inr (), u)"
  shows "tb_sessions (rows u) = assign ps_id (pa_payment_session_id x) (\<lambda>s. s\<lparr>ps_status := settled_state r\<rparr>) (tb_sessions (rows v))"
    "tb_attempts (rows u) = tb_attempts (rows v)" "tb_attempts (added u) = tb_attempts (added v)"
    "tb_orders (both u) = tb_orders (both v)" "map ir_id (tb_intents (rows u)) = map ir_id (tb_intents (rows v))"
    "tb_transitions (rows u) = tb_transitions (rows v)"
    "\<exists>d\<in>set (tb_transitions (both u)). tt_organization_id d = org \<and> tt_purchase_intent_id d = ir_id intent
       \<and> tt_event_key d = settled_key (pa_id x) r \<and> tt_to_state d = settled_state r \<and> tt_payload_hash d = h"
proof -
  from settle_Inr [OF assms] obtain a y z where t: "transition_purchase_intent org a y = (Inr (), u)"
    and y: "y = z\<lparr>rows := (rows z)\<lparr>tb_sessions := assign ps_id (pa_payment_session_id x)
            (\<lambda>s. s\<lparr>ps_status := settled_state r\<rparr>) (tb_sessions (rows z))\<rparr>\<rparr>"
    and z: "moves v z"
    and a: "ta_event_key a = settled_key (pa_id x) r" "ta_to_state a = settled_state r"
      "ta_intent_id a = ir_id intent" "ta_payload_hash a = h"
    using transition_moves moves_refl by metis
  note m = transition_moves [OF t]
  show "tb_sessions (rows u) = assign ps_id (pa_payment_session_id x) (\<lambda>s. s\<lparr>ps_status := settled_state r\<rparr>) (tb_sessions (rows v))"
    "tb_attempts (rows u) = tb_attempts (rows v)" "tb_attempts (added u) = tb_attempts (added v)"
    "tb_orders (both u) = tb_orders (both v)" "map ir_id (tb_intents (rows u)) = map ir_id (tb_intents (rows v))"
    "tb_transitions (rows u) = tb_transitions (rows v)"
    using m z by (simp_all add: moves_def y both_def)
  show "\<exists>d\<in>set (tb_transitions (both u)). tt_organization_id d = org \<and> tt_purchase_intent_id d = ir_id intent
       \<and> tt_event_key d = settled_key (pa_id x) r \<and> tt_to_state d = settled_state r \<and> tt_payload_hash d = h"
    using transition_recorded [OF t] a by (simp add: replay_of_def)
qed

text \<open>A settlement that is not a replay moves the purchase.\<close>

lemma settle_moves:
  assumes run: "settle org intent x h r v = (Inr (), u)"
    and fresh: "\<not> recorded org (ir_id intent) (settled_key (pa_id x) r) (rows v)"
    and intent: "filter (\<lambda>a. ir_id a = ir_id intent \<and> ir_organization_id a = org) (tb_intents (rows v)) = [intent]"
  shows "ir_payment_status intent \<in> (if outcome_of r = MerchantOutcome.APPROVED
      then {''CHECKOUT_PENDING'', ''UNCERTAIN'', ''MERCHANT_APPROVED'', ''REPORTING''} else {''CHECKOUT_PENDING'', ''UNCERTAIN''})
    \<and> (\<forall>b\<in>set (tb_intents (rows u)). ir_id b = ir_id intent \<longrightarrow> ir_payment_status b = settled_state r)
    \<and> (\<exists>row\<in>set (tb_transitions (added u)). tt_provider_event_ref row = settled_ref r
         \<and> tt_organization_id row = org \<and> tt_to_state row = settled_state r)"
proof -
  from settle_Inr [OF run] obtain a y z where t: "transition_purchase_intent org a y = (Inr (), u)"
    and y: "y = z\<lparr>rows := (rows z)\<lparr>tb_sessions := assign ps_id (pa_payment_session_id x)
            (\<lambda>s. s\<lparr>ps_status := settled_state r\<rparr>) (tb_sessions (rows z))\<rparr>\<rparr>"
    and z: "z = v \<or> outcome_of r = MerchantOutcome.APPROVED \<and> ir_payment_status intent \<in> {''CHECKOUT_PENDING'', ''UNCERTAIN''}"
    and zm: "moves v z"
    and a: "ta_event_key a = settled_key (pa_id x) r" "ta_to_state a = settled_state r"
      "ta_state_field a = ''payment_status''" "ta_intent_id a = ir_id intent" "ta_provider_event_ref a = settled_ref r"
      "set (ta_allowed_from a) = (if outcome_of r = MerchantOutcome.APPROVED then {''MERCHANT_APPROVED'', ''REPORTING''}
       else {''CHECKOUT_PENDING'', ''UNCERTAIN''})"
    using transition_moves moves_refl by metis
  have "\<not> recorded org (ta_intent_id a) (ta_event_key a) (rows y)"
    using fresh zm by (simp add: recorded_def a y moves_def)
  from transition_fresh [OF t this] obtain cur i where
    cur: "filter (\<lambda>r. ir_id r = ta_intent_id a \<and> ir_organization_id r = org) (tb_intents (rows y)) = [cur]"
      "state_of (ta_state_field a) cur \<in> set (ta_allowed_from a)"
    and intents: "tb_intents (rows u) = assign ir_id (ta_intent_id a) (set_state (ta_state_field a) (ta_to_state a)) (tb_intents (rows y))"
    and row: "tb_transitions (added u) = tb_transitions (added y) @ [transition_row org a (state_of (ta_state_field a) cur) i]" .
  have "z = v \<Longrightarrow> cur = intent" using cur(1) intent by (simp add: y a)
  then have "ir_payment_status intent \<in> (if outcome_of r = MerchantOutcome.APPROVED
      then {''CHECKOUT_PENDING'', ''UNCERTAIN'', ''MERCHANT_APPROVED'', ''REPORTING''} else {''CHECKOUT_PENDING'', ''UNCERTAIN''})"
    using z cur(2) a(3,6) by (auto simp: state_of_def split: if_splits)
  moreover have "\<forall>b\<in>set (tb_intents (rows u)). ir_id b = ir_id intent \<longrightarrow> ir_payment_status b = settled_state r"
    by (auto simp: intents a set_assign set_state_def)
  moreover have "\<exists>row\<in>set (tb_transitions (added u)). tt_provider_event_ref row = settled_ref r
         \<and> tt_organization_id row = org \<and> tt_to_state row = settled_state r"
    by (simp add: row transition_row_def a)
  ultimately show ?thesis by blast
qed

section \<open>What a persisted outcome says\<close>


section \<open>An outcome recorded before its report is confirmed\<close>

lemma unique_by_append:
  assumes "unique_by f (xs @ ys)" "x \<in> set xs" "y \<in> set ys" "f x = Some k"
  shows "f y \<noteq> Some k"
proof
  assume "f y = Some k"
  with assms(2-4) have "k \<in> set (List.map_filter f xs)" "k \<in> set (List.map_filter f ys)"
    by (force simp: List.map_filter_def)+
  with assms(1) show False by (auto simp: unique_by_def List.map_filter_def)
qed

lemma same_transition:
  assumes "constraints t" "a \<in> set (tb_transitions t)" "b \<in> set (tb_transitions t)"
    "tt_organization_id a = tt_organization_id b" "tt_purchase_intent_id a = tt_purchase_intent_id b"
    "tt_event_key a = tt_event_key b"
  shows "a = b"
proof -
  have "inj_on (\<lambda>x. (tt_organization_id x, tt_purchase_intent_id x, tt_event_key x)) (set (tb_transitions t))"
    using assms(1) by (simp add: constraints_def unique_indexes_def distinct_map)
  then show ?thesis by (rule inj_onD) (use assms(2-6) in auto)
qed

text \<open>
  C22. A result that is not final is recorded with the provider's reference. The known outcome a reconciliation
  finds for that reference later never commits: either its event is new, and records the same reference under a
  second transition, which the unique index refuses, or it replays the event key of the first with another payload
  hash. Every such attempt raises and leaves all rows as they were.
\<close>
theorem confirmation_never_commits:
  fixes w w2 :: "'c world"
  assumes first: "persist_checkout_result c org i att key r w = (Inr out, w1)"
      "\<not> recorded org i (settled_key att r) (rows w)"
    and later: "set (tb_transitions (rows w1)) \<subseteq> set (tb_transitions (rows w2))"
    and concluded: "outcome_of r' \<noteq> MerchantOutcome.UNKNOWN" "settled_ref r = Some (pc_transaction_reference r')"
    and new: "if settled_key att r' = settled_key att r
      then co_hash c (safe_payload_of r') \<noteq> co_hash c (safe_payload_of r)
      else \<not> recorded org i (settled_key att r') (rows w2)"
  shows "\<exists>e w3. persist_checkout_result c org i att key r' w2 = (Inl e, w3) \<and> rows w3 = rows w2"
proof (rule ccontr)
  assume neg: "\<not> ?thesis"
  obtain q w3 where q: "persist_checkout_result c org i att key r' w2 = (q, w3)" by force
  have "\<exists>out'. q = Inr out'"
  proof (cases q)
    case (Inl e)
    with q have "rows w3 = rows w2" unfolding persist_checkout_result_def by (auto dest: transaction_Inl_rows)
    with q Inl neg show ?thesis by blast
  qed simp
  then obtain out' where second: "persist_checkout_result c org i att key r' w2 = (Inr out', w3)" using q by blast
  from persist_settles [OF first(1)] obtain intent x h and v u :: "'c world" where
    i: "filter (\<lambda>a. ir_id a = i \<and> ir_organization_id a = org) (tb_intents (rows w)) = [intent]" "ir_id intent = i"
    and x: "pa_id x = att" and h: "co_hash c (safe_payload_of r) = Inr h" and t: "settle org intent x h r v = (Inr (), u)"
    and v: "tb_intents (rows v) = tb_intents (rows w)" "tb_transitions (rows v) = tb_transitions (rows w)"
    and c: "constraints (both u)" and rows: "rows w1 = both u" .
  from persist_settles [OF second] obtain intent' x' h' and v' u' :: "'c world" where
    i': "filter (\<lambda>a. ir_id a = i \<and> ir_organization_id a = org) (tb_intents (rows w2)) = [intent']" "ir_id intent' = i"
    and x': "pa_id x' = att" and h': "co_hash c (safe_payload_of r') = Inr h'"
    and t': "settle org intent' x' h' r' v' = (Inr (), u')"
    and v': "tb_intents (rows v') = tb_intents (rows w2)" "tb_transitions (rows v') = tb_transitions (rows w2)"
    and c': "constraints (both u')" and rows': "rows w3 = both u'" .
  note id = i(2) i'(2)
  note tables' = settle_tables [OF t']
  have earlier: "set (tb_transitions (both u)) \<subseteq> set (tb_transitions (rows u'))"
    using later rows v'(2) tables'(6) by simp
  show False
  proof (cases "settled_key att r' = settled_key att r")
    case False
    have "\<not> recorded org (ir_id intent) (settled_key (pa_id x) r) (rows v)"
      using first(2) by (simp add: recorded_def id x v)
    from settle_moves [OF t this] i(1) obtain old where "old \<in> set (tb_transitions (added u))"
      "tt_provider_event_ref old = settled_ref r" "tt_organization_id old = org" by (auto simp: id v)
    then have old: "old \<in> set (tb_transitions (rows u'))"
      "provider_event_key old = Some (org, pc_transaction_reference r')"
      using earlier concluded by (auto simp: both_sel provider_event_key_def)
    have "\<not> recorded org (ir_id intent') (settled_key (pa_id x') r') (rows v')"
      using new False by (simp add: recorded_def id x' v')
    from settle_moves [OF t' this] i'(1) obtain new where "new \<in> set (tb_transitions (added u'))"
      "tt_provider_event_ref new = settled_ref r'" "tt_organization_id new = org" by (auto simp: id v')
    then have "new \<in> set (tb_transitions (added u'))"
      "provider_event_key new = Some (org, pc_transaction_reference r')"
      using concluded(1) by (auto simp: settled_ref_def provider_event_key_def)
    with old unique_by_append [of provider_event_key "tb_transitions (rows u')" "tb_transitions (added u')"] c'
    show False by (auto simp: constraints_def unique_indexes_def both_sel)
  next
    case True
    from settle_tables(7) [OF t] obtain old where old: "old \<in> set (tb_transitions (both u))" "tt_organization_id old = org"
      "tt_purchase_intent_id old = i" "tt_event_key old = settled_key att r" "tt_payload_hash old = h"
      by (auto simp: id x)
    from tables'(7) obtain new where new': "new \<in> set (tb_transitions (both u'))" "tt_organization_id new = org"
      "tt_purchase_intent_id new = i" "tt_event_key new = settled_key att r" "tt_payload_hash new = h'"
      by (auto simp: id x' True)
    have "old \<in> set (tb_transitions (both u'))"
      using old(1) earlier by (auto simp: both_sel)
    from same_transition [OF c' this new'(1)] old new' have "h = h'" by simp
    with new True h h' show False by simp
  qed
qed

section \<open>A reported approval\<close>

definition sample_hashing :: coordinator where
  "sample_hashing = sample_coordinator\<lparr>co_hash := (\<lambda>v. Inr (if v = safe_payload_of (sample_answer True) then ''b'' else ''a''))\<rparr>"

definition sample_dispatched :: "provider_call world" where
  "sample_dispatched = snd (prepare_attempt sample_hashing sample_input sample_start)"

definition sample_reporting :: "CheckoutActivityResult result \<times> provider_call world" where
  "sample_reporting =
     persist_checkout_result sample_hashing ''org'' ''pi'' ''payatt_'' ''key'' (sample_answer False) sample_dispatched"

lemma sample_reporting_run:
  "sample_reporting = (Inr (checkout_result ''pi'' (sample_answer False)), snd sample_reporting)"
proof -
  have "fst sample_reporting = Inr (checkout_result ''pi'' (sample_answer False))" by code_simp
  then show ?thesis by (metis prod.collapse)
qed

lemma sample_dispatched_fresh:
  "\<not> recorded ''org'' ''pi'' (settled_key ''payatt_'' (sample_answer False)) (rows sample_dispatched)"
  by code_simp


lemma confirmation_never_commits_witness:
  "\<exists>e w3. persist_checkout_result sample_hashing ''org'' ''pi'' ''payatt_'' ''key'' (sample_answer True) (snd sample_reporting)
     = (Inl e, w3) \<and> rows w3 = rows (snd sample_reporting)"
proof (rule confirmation_never_commits [OF sample_reporting_run [unfolded sample_reporting_def],
    folded sample_reporting_def])
  show "\<not> recorded ''org'' ''pi'' (settled_key ''payatt_'' (sample_answer False)) (rows sample_dispatched)"
    by (rule sample_dispatched_fresh)
  have "\<not> recorded ''org'' ''pi'' (settled_key ''payatt_'' (sample_answer True)) (rows (snd sample_reporting))"
    by code_simp
  moreover have "settled_key ''payatt_'' (sample_answer True) \<noteq> settled_key ''payatt_'' (sample_answer False)"
    by code_simp
  ultimately show "if settled_key ''payatt_'' (sample_answer True) = settled_key ''payatt_'' (sample_answer False)
      then co_hash sample_hashing (safe_payload_of (sample_answer True))
             \<noteq> co_hash sample_hashing (safe_payload_of (sample_answer False))
      else \<not> recorded ''org'' ''pi'' (settled_key ''payatt_'' (sample_answer True)) (rows (snd sample_reporting))"
    by simp
qed (simp_all add: sample_answer_def sample_outcome_def outcome_of_def settled_ref_def)

end
