(* ===== verification/RefundLaws.thy ===== *)
theory RefundLaws
  imports Outcomes
begin

text \<open>
  What a persisted refund answer guarantees about the reversal, and the answers that can never be persisted.
\<close>

section \<open>Reading a persisted answer\<close>

lemma enum_of_value: "enum_of value' members s = Some v \<Longrightarrow> value' v = s"
  by (auto simp: enum_of_def find_Some_iff)

lemma ReversalStatus_of_Inr: "ReversalStatus_of s = Inr v \<Longrightarrow> ReversalStatus_value v = s"
  by (auto simp: ReversalStatus_of_def dest: enum_of_value split: option.splits)

definition reversal_step :: "string \<Rightarrow> string \<Rightarrow> bool" where
  "reversal_step s t \<longleftrightarrow> (\<exists>a b bs. ReversalStatus_value a = s \<and> ReversalStatus_value b = t
     \<and> reversal_allowed a = Some bs \<and> b \<in> set bs)"

lemma reversal_move_Inr:
  assumes "reversal_move v s = Inr ()"
  shows "rv_status v = s \<or> reversal_step (rv_status v) s"
proof (cases "rv_status v = s")
  case False
  with assms obtain a b where "ReversalStatus_of (rv_status v) = Inr a" "ReversalStatus_of s = Inr b"
    "reversal_transition a b = Inr b"
    by (auto simp: reversal_move_def reversal_transition_def result_simps)
  then show ?thesis
    using ReversalStatus_of_Inr [of "rv_status v" a] ReversalStatus_of_Inr [of s b]
    by (auto simp: reversal_transition_def check_allowed_def reversal_step_def result_simps split: option.splits)
qed simp

lemma accept_refund_Inr:
  assumes "accept_refund v r = Inr amount"
  shows "parse_decimal (rr_refunded_amount r) = Some amount \<and> rr_currency r = rv_currency v
    \<and> dec_less (rv_requested_amount v) amount = Inr False
    \<and> (rr_provider_confirmed r \<longrightarrow> ad_mode (rr_adapter r) = PRODUCTION)
    \<and> (rr_status r \<in> {RefundOutcomeStatus.PARTIALLY_REFUNDED, RefundOutcomeStatus.REFUNDED, RefundOutcomeStatus.REJECTED}
         \<longrightarrow> rr_provider_confirmed r)"
  using assms by (auto simp: accept_refund_def result_simps split: option.splits)

definition with_refund :: "MerchantRefundResult \<Rightarrow> decimal \<Rightarrow> string \<Rightarrow> int option \<Rightarrow> PurchaseReversal \<Rightarrow> PurchaseReversal" where
  "with_refund r amount status completed v =
     v\<lparr>rv_status := status, rv_refunded_amount := numeric2 amount, rv_provider_reference := rr_provider_refund_id r,
       rv_provider_confirmed := rr_provider_confirmed r, rv_safe_error_code := refund_safe_error status,
       rv_completed_at := completed\<rparr>"

lemma settle_reversal_Inr:
  assumes "settle_reversal v r amount status w = (Inr y, w')"
  shows "reversal_move v status = Inr () \<and> tb_intents (rows w') = tb_intents (rows w)
    \<and> tb_transitions (rows w') = tb_transitions (rows w) \<and> tb_transitions (added w') = tb_transitions (added w)
    \<and> tb_reversals (added w') = tb_reversals (added w)
    \<and> (v \<in> set (tb_reversals (rows w)) \<longrightarrow>
         with_refund r amount status (if refund_open r then rv_completed_at v else Some (now_of w (reads w))) v
           \<in> set (tb_reversals (rows w')))"
proof (cases "refund_open r")
  case True
  with assms show ?thesis
    by (auto simp: settle_reversal_def set_reversal_def tx_inv set_assign with_refund_def)
next
  case False
  with assms show ?thesis
    by (auto simp: settle_reversal_def set_reversal_def tx_inv set_assign with_refund_def image_iff)
qed

definition reversals_kept :: "'c world \<Rightarrow> 'c world \<Rightarrow> bool" where
  "reversals_kept u v \<longleftrightarrow> tb_reversals (rows v) = tb_reversals (rows u) \<and> tb_reversals (added v) = tb_reversals (added u)"

interpretation reversals_frame: frame reversals_kept
  by unfold_locales (auto simp: reversals_kept_def)

lemma reversals_changes:
  "framed reversals_kept (set_intent i f1)" "framed reversals_kept (set_workflow i f2)"
  "(\<And>t. tb_reversals (g t) = tb_reversals t) \<Longrightarrow> framed reversals_kept (addT g)"
  by (simp_all add: framed_def reversals_kept_def set_intent_def set_workflow_def tx_run)

lemma reversals_add_outbox: "framed reversals_kept (add_outbox org ty i et k p)"
  unfolding add_outbox_def Let_def
  by (intro reversals_frame.rules) (auto split: option.split intro!: reversals_frame.rules reversals_changes)

lemma reversals_transition: "framed reversals_kept (transition_purchase_intent org a)"
proof (rule transition_rule [OF reversals_frame.frame_axioms])
  show "framed reversals_kept (apply_transition org a cur)" for cur
    unfolding apply_transition_def
    by (intro reversals_frame.rules reversals_changes reversals_add_outbox) simp
qed

lemma reversals_rest:
  "framed reversals_kept (revoke_entitlements c org i v r s)"
  "framed reversals_kept (announce_reversal c org i v r a s)"
  "framed reversals_kept (update_refund_run org v r s)"
  unfolding revoke_entitlements_def announce_reversal_def update_refund_run_def Let_def
  by (auto split: option.split intro!: reversals_frame.rules reversals_changes reversals_transition
      reversals_add_outbox)

lemma persist_refund_Inr:
  fixes w :: "'c world"
  assumes "persist_refund_result c q r w = (Inr out, w')"
  obtains v intent amount and u1 :: "'c world" where
    "v \<in> set (tb_reversals (rows w))" "rv_id v = rfi_reversal_id q" "rv_organization_id v = rfi_organization_id q"
    "filter (\<lambda>a. ir_id a = rfi_purchase_intent_id q \<and> ir_organization_id a = rfi_organization_id q)
       (tb_intents (rows w)) = [intent]"
    "accept_refund v r = Inr amount"
    "rfr_status out = refund_status intent v r amount" "rfr_refunded_amount out = decimal_text amount"
    "settle_reversal v r amount (SafeReversalStatus_value (rfr_status out)) (begin_tx w) = (Inr (), u1)"
    "tb_reversals (rows w') = tb_reversals (rows u1) @ tb_reversals (added u1)"
    "constraints (rows w')"
proof -
  let ?org = "rfi_organization_id q"
  from assms obtain u where body: "persist_refund_body c q r (begin_tx w) = (Inr out, u)"
    and c: "constraints (both u)" and rows: "rows w' = both u"
    unfolding persist_refund_result_def by (auto elim: transaction_both)
  from body obtain v intent amount y1 y2 y3 y4 and u1 u2 u3 :: "'c world" where
    v: "filter (\<lambda>v. rv_id v = rfi_reversal_id q \<and> rv_organization_id v = ?org) (tb_reversals (rows (begin_tx w))) = [v]"
    and i: "filter (\<lambda>a. ir_id a = rfi_purchase_intent_id q \<and> ir_organization_id a = ?org) (tb_intents (rows (begin_tx w))) = [intent]"
    and a: "accept_refund v r = Inr amount"
    and s1: "settle_reversal v r amount (SafeReversalStatus_value (refund_status intent v r amount)) (begin_tx w) = (Inr y1, u1)"
    and s2: "revoke_entitlements c ?org intent v r (SafeReversalStatus_value (refund_status intent v r amount)) u1 = (Inr y2, u2)"
    and s3: "announce_reversal c ?org intent v r amount (SafeReversalStatus_value (refund_status intent v r amount)) u2 = (Inr y3, u3)"
    and s4: "update_refund_run ?org v r (SafeReversalStatus_value (refund_status intent v r amount)) u3 = (Inr y4, u)"
    and out: "out = \<lparr>rfr_reversal_id = rv_id v, rfr_status = refund_status intent v r amount,
        rfr_refunded_amount = decimal_text amount,
                 rfr_currency = rv_currency v, rfr_provider_reference = rr_provider_refund_id r,
                 rfr_entitlements_revoked = rr_entitlements_revoked r,
                 rfr_reconciliation_required = refund_open r\<rparr>"
    unfolding persist_refund_body_def get_purchase_intent_def Let_def
    by (simp only: tx_inv sum.inject) (elim exE conjE, hypsubst, rule that, assumption+)
  have "reversals_kept u1 u"
    using framedD [OF reversals_rest(1) s2] framedD [OF reversals_rest(2) s3] framedD [OF reversals_rest(3) s4]
    by (blast intro: reversals_frame.trans)
  then have "tb_reversals (rows w') = tb_reversals (rows u1) @ tb_reversals (added u1)"
    by (simp add: rows both_def reversals_kept_def)
  with filter_oneD [OF v] i a s1 c show thesis
    by (intro that [of v intent amount u1]) (simp_all add: rows out)
qed

text \<open>
  C21. A persisted refund answer is bounded by the request and moves the reversal along the domain's table. A
  reversal is settled only by a provider that runs in production and confirms it; it counts as refunded only for
  the full amount and, when the purchase was fulfilled, with its entitlements revoked.
\<close>
theorem refund_persisted:
  fixes w :: "'c world"
  assumes run: "persist_refund_result c q r w = (Inr out, w')"
  shows "\<exists>v\<in>set (tb_reversals (rows w)). \<exists>v'\<in>set (tb_reversals (rows w')). \<exists>amount.
      \<exists>i\<in>set (tb_intents (rows w)).
      rv_id v = rfi_reversal_id q \<and> rv_id v' = rfi_reversal_id q \<and> ir_id i = rfi_purchase_intent_id q
    \<and> parse_decimal (rr_refunded_amount r) = Some amount \<and> dec_less (rv_requested_amount v) amount = Inr False
    \<and> rv_status v' = SafeReversalStatus_value (rfr_status out) \<and> rv_refunded_amount v' = numeric2 amount
    \<and> (rv_status v = rv_status v' \<or> reversal_step (rv_status v) (rv_status v'))
    \<and> (rfr_status out \<noteq> SafeReversalStatus.PROVIDER_PENDING \<longrightarrow>
         rr_provider_confirmed r \<and> ad_mode (rr_adapter r) = PRODUCTION)
    \<and> (rfr_status out = SafeReversalStatus.REFUNDED \<longrightarrow>
         dec_eq amount (rv_requested_amount v) \<and> (ir_fulfillment_status i = ''VERIFIED'' \<longrightarrow> rr_entitlements_revoked r))"
proof -
  from persist_refund_Inr [OF run] obtain v intent amount and u1 :: "'c world" where
    v: "v \<in> set (tb_reversals (rows w))" "rv_id v = rfi_reversal_id q" "rv_organization_id v = rfi_organization_id q"
    and i: "filter (\<lambda>a. ir_id a = rfi_purchase_intent_id q \<and> ir_organization_id a = rfi_organization_id q)
       (tb_intents (rows w)) = [intent]"
    and a: "accept_refund v r = Inr amount" and s: "rfr_status out = refund_status intent v r amount"
    and am: "rfr_refunded_amount out = decimal_text amount"
    and st: "settle_reversal v r amount (SafeReversalStatus_value (rfr_status out)) (begin_tx w) = (Inr (), u1)"
    and rows: "tb_reversals (rows w') = tb_reversals (rows u1) @ tb_reversals (added u1)"
    and c: "constraints (rows w')" .
  let ?s = "SafeReversalStatus_value (rfr_status out)"
  note settled = settle_reversal_Inr [OF st] and accepted = accept_refund_Inr [OF a]
  let ?v = "with_refund r amount ?s (if refund_open r then rv_completed_at v else Some (now_of w (reads w))) v"
  have in': "?v \<in> set (tb_reversals (rows w'))" using settled v(1) by (auto simp: rows)
  have moved: "rv_status v = ?s \<or> reversal_step (rv_status v) ?s" using settled reversal_move_Inr by blast
  have final: "rfr_status out \<noteq> SafeReversalStatus.PROVIDER_PENDING \<longrightarrow>
      rr_status r \<in> {RefundOutcomeStatus.PARTIALLY_REFUNDED, RefundOutcomeStatus.REFUNDED, RefundOutcomeStatus.REJECTED}"
    unfolding s refund_status_def by (cases "rr_status r") auto
  with accepted have confirmed: "rfr_status out \<noteq> SafeReversalStatus.PROVIDER_PENDING \<longrightarrow>
      rr_provider_confirmed r \<and> ad_mode (rr_adapter r) = PRODUCTION" by blast
  have full: "rfr_status out = SafeReversalStatus.REFUNDED \<longrightarrow> dec_eq amount (rv_requested_amount v)
      \<and> (ir_fulfillment_status intent = ''VERIFIED'' \<longrightarrow> rr_entitlements_revoked r)"
    unfolding s refund_status_def by auto
  show ?thesis
    by (rule bexI [OF _ v(1)], rule bexI [OF _ in'], rule exI [of _ amount], rule bexI [of _ intent])
      (use v filter_oneD [OF i] accepted moved confirmed full in \<open>simp_all add: with_refund_def\<close>)
qed

section \<open>A refund\<close>

definition sample_reversal :: PurchaseReversal where
  "sample_reversal =
     \<lparr>rv_id = ''rev'', rv_organization_id = ''org'', rv_purchase_intent_id = ''pi'', rv_intent_hash = ''hash'',
      rv_status = ''REQUESTED'', rv_requested_amount = Dec 500 (- 2), rv_refunded_amount = Dec 0 (- 2),
      rv_currency = ''USD'', rv_merchant_order_id = ''order'', rv_provider_reference = None,
      rv_provider_confirmed = False, rv_reason_code = ''R'', rv_safe_error_code = None, rv_completed_at = None\<rparr>"

definition sample_refund :: MerchantRefundResult where
  "sample_refund =
     \<lparr>rr_status = RefundOutcomeStatus.REFUNDED, rr_provider_refund_id = Some ''ref'', rr_refunded_amount = ''5.00'',
      rr_currency = ''USD'', rr_entitlements_revoked = False, rr_adapter = sample_adapter, rr_provider_confirmed = True\<rparr>"

definition sample_refund_input :: RefundActivityInput where
  "sample_refund_input =
     \<lparr>rfi_organization_id = ''org'', rfi_reversal_id = ''rev'', rfi_purchase_intent_id = ''pi'',
      rfi_intent_hash = ''hash'', rfi_idempotency_key = ''key''\<rparr>"

definition sample_refunded :: "RefundActivityResult result \<times> provider_call world" where
  "sample_refunded = persist_refund_result sample_coordinator sample_refund_input sample_refund
     (sample_start\<lparr>rows := sample_rows\<lparr>tb_reversals := [sample_reversal]\<rparr>\<rparr>)"

lemma refund_persisted_witness:
  "\<exists>v\<in>set (tb_reversals (rows (snd sample_refunded))). rv_status v = ''REFUNDED''"
proof -
  have "(case fst sample_refunded of Inr out \<Rightarrow> rfr_status out = SafeReversalStatus.REFUNDED | Inl e \<Rightarrow> False)" by code_simp
  then obtain out where out: "fst sample_refunded = Inr out" "rfr_status out = SafeReversalStatus.REFUNDED"
    by (auto split: sum.splits)
  then have "persist_refund_result sample_coordinator sample_refund_input sample_refund
     (sample_start\<lparr>rows := sample_rows\<lparr>tb_reversals := [sample_reversal]\<rparr>\<rparr>) = (Inr out, snd sample_refunded)"
    unfolding sample_refunded_def by (metis prod.collapse)
  from refund_persisted [OF this] out(2) show ?thesis by auto
qed

end
