(* ===== verification/FulfillmentLaws.thy ===== *)
theory FulfillmentLaws
  imports Outcomes
begin

text \<open>
  What a fulfilled purchase rests on: a verified answer for every fulfillment it expects, and one receipt.
\<close>

section \<open>The probes\<close>

lemma call_Inr:
  assumes "callT x f w = (Inr y, w')"
  shows "y = f (calls w) \<and> calls w' = calls w @ [x]"
  using assms by (auto simp: callT_def)

text \<open>
  An observation of an activity that began after the calls \<open>old\<close> and ended after the calls \<open>cs\<close>: it is what
  the merchant answered, at some point in between, when asked for exactly that fulfillment.
\<close>

definition probed ::
    "coordinator \<Rightarrow> string \<Rightarrow> string \<Rightarrow> provider_call list \<Rightarrow> provider_call list \<Rightarrow> observation \<Rightarrow> bool" where
  "probed c org merchant_order_id old cs x \<longleftrightarrow>
     (\<exists>h m. verification_request c org merchant_order_id (fst x) = Inr m
        \<and> px_verify (co_providers c) h m = Inr (snd x)
        \<and> prefix old h \<and> prefix (h @ [VerifyEntitlements m]) cs)"

lemma probed_mono: "probed c org mo old' cs x \<Longrightarrow> prefix old old' \<Longrightarrow> probed c org mo old cs x"
  by (auto simp: probed_def intro: prefix_order.trans)

lemma observe_Inr:
  assumes "observe c org mo items w = (Inr obs, w')"
  shows "map fst obs = items \<and> list_all (probed c org mo (calls w) (calls w')) obs \<and> prefix (calls w) (calls w')"
  using assms
proof (induction items arbitrary: w obs)
  case Nil
  then show ?case by simp
next
  case (Cons item items)
  from Cons.prems obtain m reply r rest u where m: "verification_request c org mo item = Inr m"
    and call: "callT (VerifyEntitlements m) (\<lambda>h. px_verify (co_providers c) h m) w = (Inr reply, u)"
    and reply: "reply = Inr r" and rest: "observe c org mo items u = (Inr rest, w')" and obs: "obs = (item, r) # rest"
    by (auto simp: tx_inv)
  from Cons.IH [OF rest] have ih: "map fst rest = items" "list_all (probed c org mo (calls u) (calls w')) rest"
    "prefix (calls u) (calls w')" by simp_all
  from call_Inr [OF call] have asked: "px_verify (co_providers c) (calls w) m = Inr r"
    "calls u = calls w @ [VerifyEntitlements m]"
    by (simp_all add: reply)
  with m ih(3) have "probed c org mo (calls w) (calls w') (item, r)" by (auto simp: probed_def)
  moreover have "prefix (calls w) (calls u)" by (simp add: asked)
  ultimately show ?case
    using ih obs by (auto simp: list_all_iff intro: probed_mono prefix_order.trans)
qed

section \<open>The receipt\<close>

definition receipts_grow :: "'c world \<Rightarrow> 'c world \<Rightarrow> bool" where
  "receipts_grow u v \<longleftrightarrow> tb_receipts (rows v) = tb_receipts (rows u) \<and> prefix (tb_receipts (added u)) (tb_receipts (added v))"

interpretation receipts_frame: frame receipts_grow
  by unfold_locales (auto simp: receipts_grow_def intro: prefix_order.trans)

text \<open>A receipt is sealed by its hash and issued for the purchase.\<close>

definition issued :: "coordinator \<Rightarrow> string \<Rightarrow> string \<Rightarrow> tables \<Rightarrow> bool" where
  "issued c org intent_id t \<longleftrightarrow> (\<exists>rc\<in>set (tb_receipts t). rc_organization_id rc = org
     \<and> rc_purchase_intent_id rc = intent_id \<and> co_hash c (obj (rc_payload rc)) = Inr (rc_receipt_hash rc)
     \<and> map_of (rc_payload rc) ''amount'' \<noteq> None)"

lemma issue_receipt_Inr:
  assumes "issue_receipt c org intent order p ids w = (Inr y, w')"
  shows "\<exists>rc\<in>set (tb_receipts (added w')). rc_organization_id rc = org \<and> rc_purchase_intent_id rc = ir_id intent
    \<and> co_hash c (obj (rc_payload rc)) = Inr (rc_receipt_hash rc)
    \<and> (\<exists>n m. receipt_payload c intent order p ids (''receipt_'' @ hex_of w (drawn w)) (''purchase_'' @ hex_of w n) m
         = Inr (rc_payload rc))"
  using assms unfolding issue_receipt_def
  by (simp only: tx_inv sum.inject) (elim exE conjE, hypsubst, force)

lemma case_some_return:
  "(case x of Some y \<Rightarrow> returnT z | None \<Rightarrow> m) w = (Inr r, w') \<longleftrightarrow>
     (x \<noteq> None \<and> r = z \<and> w' = w) \<or> (x = None \<and> m w = (Inr r, w'))"
  by (cases x) auto

lemma create_receipt_Inr:
  fixes w :: "'c world"
  assumes run: "create_receipt c org intent order ids w = (Inr y, w')"
  shows "(\<exists>rc\<in>set (tb_receipts (rows w)). rc_organization_id rc = org \<and> rc_purchase_intent_id rc = ir_id intent)
    \<or> ((\<exists>rc\<in>set (tb_receipts (added w')). rc_organization_id rc = org \<and> rc_purchase_intent_id rc = ir_id intent
          \<and> co_hash c (obj (rc_payload rc)) = Inr (rc_receipt_hash rc))
       \<and> (\<exists>p\<in>set (tb_patches (rows w')). sp_row_id p = ir_stack_patch_id intent \<and> sp_row_state p = ''STAGED''))"
proof -
  let ?P = "\<lambda>r. rc_organization_id r = org \<and> rc_purchase_intent_id r = ir_id intent"
  from run obtain ex where ex: "scalar_one_or_none (filter ?P (tb_receipts (rows w))) = Inr ex"
    unfolding create_receipt_def tx_inv by blast
  show ?thesis
  proof (cases ex)
    case (Some rc)
    with ex have "filter ?P (tb_receipts (rows w)) = [rc]" by (simp add: one_row)
    from filter_oneD [OF this] show ?thesis by blast
  next
    case None
    with run ex obtain p patch z and u v :: "'c world" where
      patch: "filter (\<lambda>p. sp_row_organization_id p = org \<and> sp_row_id p = ir_stack_patch_id intent) (tb_patches (rows u)) = [patch]"
      and st: "stage_patch c patch u = (Inr z, v)"
      and issue: "issue_receipt c org intent order p ids v = (Inr y, w')"
      unfolding create_receipt_def
      apply (simp only: tx_inv case_some_return sum.inject latest_of_def)
      apply (elim exE conjE disjE)
       apply simp
      apply hypsubst
      apply (rule that)
      apply (simp only: one_row)
      apply assumption
      apply assumption
      done
    from st obtain h where v: "v = u\<lparr>rows := (rows u)\<lparr>tb_patches := assign sp_row_id (sp_row_id patch)
        (\<lambda>r. r\<lparr>sp_row_state := ''STAGED'',
          sp_row_payload := put_item ''content_hash'' (PStr h) (put_item ''status'' (PStr ''STAGED'') (sp_row_payload patch)),
          sp_row_patch_hash := h\<rparr>) (tb_patches (rows u))\<rparr>\<rparr>"
      unfolding stage_patch_def set_patch_def Let_def tx_inv by auto
    have "\<exists>p\<in>set (tb_patches (rows v)). sp_row_id p = ir_stack_patch_id intent \<and> sp_row_state p = ''STAGED''"
    proof (rule bexI)
      let ?p = "patch\<lparr>sp_row_state := ''STAGED'',
          sp_row_payload := put_item ''content_hash'' (PStr h) (put_item ''status'' (PStr ''STAGED'') (sp_row_payload patch)),
          sp_row_patch_hash := h\<rparr>"
      show "?p \<in> set (tb_patches (rows v))"
        using filter_oneD [OF patch] by (simp add: v assign_def image_iff) (rule bexI [of _ patch]; simp)
      show "sp_row_id ?p = ir_stack_patch_id intent \<and> sp_row_state ?p = ''STAGED''"
        using filter_oneD [OF patch] by simp
    qed
    moreover have "rows w' = rows v"
      using issue unfolding issue_receipt_def tx_inv by auto
    ultimately show ?thesis using issue_receipt_Inr [OF issue] by auto
  qed
qed

lemma receipts_frames:
  "framed receipts_grow (set_patch i f)" "framed receipts_grow (set_intent i g)" "framed receipts_grow (set_workflow i k)"
  "(\<And>t. prefix (tb_receipts t) (tb_receipts (m t))) \<Longrightarrow> framed receipts_grow (addT m)"
  by (simp_all add: framed_def receipts_grow_def set_patch_def set_intent_def set_workflow_def tx_run)

lemma receipts_create: "framed receipts_grow (create_receipt c org i order ids)"
  unfolding create_receipt_def stage_patch_def issue_receipt_def latest_of_def Let_def
  by (intro receipts_frame.rules) (auto split: option.split intro!: receipts_frame.rules receipts_frames)

definition receipts_stay :: "'c world \<Rightarrow> 'c world \<Rightarrow> bool" where
  "receipts_stay u v \<longleftrightarrow> set (tb_receipts (rows u)) \<subseteq> set (tb_receipts (rows v))"

lemma receipts_transaction:
  assumes "framed receipts_grow body"
  shows "framed receipts_stay (transaction org body)"
proof (rule framedI)
  fix w r w'
  assume t: "transaction org body w = (r, w')"
  show "receipts_stay w w'"
  proof (cases r)
    case (Inl e)
    with t have "rows w' = rows w" using transaction_Inl_rows by blast
    then show ?thesis by (simp add: receipts_stay_def)
  next
    case (Inr x)
    with t obtain u where "body (begin_tx w) = (Inr x, u)" "rows w' = both u" by (auto elim: transaction_both)
    with framedD [OF assms] have "receipts_grow (begin_tx w) u" by blast
    then show ?thesis using \<open>rows w' = both u\<close> by (auto simp: receipts_stay_def receipts_grow_def both_def)
  qed
qed

lemma receipts_finish: "framed receipts_stay (finish_workflow_run org i s e msg)"
  unfolding finish_workflow_run_def
  by (intro receipts_transaction receipts_frame.rules)
    (auto split: option.split intro!: receipts_frame.rules receipts_frames)

section \<open>A verified purchase\<close>

definition verified_key :: "string \<Rightarrow> string" where
  "verified_key merchant_order_id = ''fulfillment-result:'' @ merchant_order_id @ '':verified''"

lemma record_verdict_Inr:
  fixes w :: "'c world"
  assumes run: "transaction org (record_verdict c org i mo obs) w = (Inr y, w')"
    and verified: "verdict obs = SafeFulfillmentStatus.VERIFIED"
  shows "recorded org i (verified_key mo) (rows w')
    \<and> (\<exists>rc\<in>set (tb_receipts (rows w')). rc_organization_id rc = org \<and> rc_purchase_intent_id rc = i)"
proof -
  from run obtain u' where body: "record_verdict c org i mo obs (begin_tx w) = (Inr y, u')" and rows: "rows w' = both u'"
    by (auto elim: transaction_both)
  from body obtain intent order ids h x1 x2 x3 and u1 u2 :: "'c world" where
    i: "filter (\<lambda>r. ir_id r = i \<and> ir_organization_id r = org) (tb_intents (rows (begin_tx w))) = [intent]"
    and t: "transition_purchase_intent org (verdict_transition i mo ''VERIFIED'' h) u1 = (Inr x2, u2)"
    and cr: "create_receipt c org intent order ids u2 = (Inr x3, u')"
    unfolding record_verdict_def get_purchase_intent_def Let_def verified SafeFulfillmentStatus_value.simps simp_thms if_True
    by (simp only: tx_inv sum.inject) (elim exE conjE, hypsubst, rule that, assumption+)
  let ?a = "verdict_transition i mo ''VERIFIED'' h"
  have id: "ir_id intent = i" using filter_oneD [OF i] by simp
  have "str_lower ''VERIFIED'' = ''verified''" by code_simp
  then have "ta_event_key ?a = verified_key mo" "ta_intent_id ?a = i"
    by (simp_all add: verdict_transition_def worker_transition_def verified_key_def)
  with transition_recorded [of org ?a u1 u2] t obtain d where
    d: "d \<in> set (tb_transitions (both u2))" "tt_organization_id d = org" "tt_purchase_intent_id d = i" "tt_event_key d = verified_key mo"
    by (auto simp: replay_of_def)
  have "d \<in> set (tb_transitions (both u'))"
    using d(1) framedD [OF inner_create_receipt cr] by (auto simp: inner_def logs_def both_sel)
  with d have "recorded org i (verified_key mo) (rows w')" by (auto simp: recorded_def rows)
  moreover have "\<exists>rc\<in>set (tb_receipts (rows w')). rc_organization_id rc = org \<and> rc_purchase_intent_id rc = i"
    using create_receipt_Inr [OF cr] framedD [OF receipts_create cr]
    by (auto simp: rows both_def receipts_grow_def id)
  ultimately show ?thesis ..
qed

lemma start_fulfillment_Inr:
  assumes "start_fulfillment c org i mo w = (Inr started, w')"
  shows "\<exists>intent\<in>set (tb_intents (rows w)). ir_id intent = i \<and> ir_organization_id intent = org
    \<and> started = (if ir_fulfillment_status intent = ''VERIFIED'' then None else Some (ir_expected_fulfillments intent))"
proof -
  from assms obtain u where body: "bindT (get_purchase_intent org i) (\<lambda>intent.
        if ir_fulfillment_status intent = ''VERIFIED'' then returnT None
        else thenT (if ir_fulfillment_status intent = ''NOT_STARTED''
                    then bindT (liftT (co_hash c (obj [(''merchant_order_id'', PStr mo)]))) (\<lambda>h.
                           transition_purchase_intent org (start_transition i mo h))
                    else returnT ())
               (returnT (Some (ir_expected_fulfillments intent)))) (begin_tx w) = (Inr started, u)"
    unfolding start_fulfillment_def by (auto elim: transaction_both)
  then obtain intent where i: "filter (\<lambda>r. ir_id r = i \<and> ir_organization_id r = org) (tb_intents (rows (begin_tx w))) = [intent]"
    and rest: "(if ir_fulfillment_status intent = ''VERIFIED'' then returnT None
        else thenT (if ir_fulfillment_status intent = ''NOT_STARTED''
                    then bindT (liftT (co_hash c (obj [(''merchant_order_id'', PStr mo)]))) (\<lambda>h.
                           transition_purchase_intent org (start_transition i mo h))
                    else returnT ())
               (returnT (Some (ir_expected_fulfillments intent)))) (begin_tx w) = (Inr started, u)"
    unfolding get_purchase_intent_def tx_inv by blast
  from rest have "started = (if ir_fulfillment_status intent = ''VERIFIED'' then None else Some (ir_expected_fulfillments intent))"
    by (cases "ir_fulfillment_status intent = ''VERIFIED''") (auto simp: thenT_Inr)
  with filter_oneD [OF i] show ?thesis by auto
qed

lemma verdict_verified:
  "verdict obs = SafeFulfillmentStatus.VERIFIED \<Longrightarrow> x \<in> set obs \<Longrightarrow> ev_status (snd x) = EntitlementVerificationStatus.VERIFIED"
  by (force simp: verdict_def list_all_iff split: if_splits)

text \<open>
  C20. The fulfillment activity returns only for a purchase that was verified before, or for one whose every
  expected fulfillment the merchant answered as verified when this activity asked for exactly that fulfillment;
  then the verdict is recorded and a receipt of the purchase exists. In every other case the activity raises.
\<close>
theorem fulfillment_rests_on_answers:
  fixes w :: "provider_call world"
  assumes run: "verify_fulfillment c q w = (Inr out, w')"
  shows "far_status out = SafeFulfillmentStatus.VERIFIED
    \<and> (\<exists>i\<in>set (tb_intents (rows w)). ir_id i = vfi_purchase_intent_id q \<and> ir_organization_id i = vfi_organization_id q
         \<and> (ir_fulfillment_status i = ''VERIFIED''
            \<or> (\<forall>item\<in>set (ir_expected_fulfillments i). \<exists>h m r.
                  verification_request c (vfi_organization_id q) (vfi_merchant_order_id q) item = Inr m
                  \<and> prefix (calls w) h \<and> prefix (h @ [VerifyEntitlements m]) (calls w')
                  \<and> px_verify (co_providers c) h m = Inr r \<and> ev_status r = EntitlementVerificationStatus.VERIFIED)
              \<and> recorded (vfi_organization_id q) (vfi_purchase_intent_id q) (verified_key (vfi_merchant_order_id q)) (rows w')
              \<and> (\<exists>rc\<in>set (tb_receipts (rows w')). rc_organization_id rc = vfi_organization_id q
                   \<and> rc_purchase_intent_id rc = vfi_purchase_intent_id q)))"
proof -
  let ?org = "vfi_organization_id q" and ?i = "vfi_purchase_intent_id q" and ?mo = "vfi_merchant_order_id q"
  from run obtain status and u :: "provider_call world" where v: "verify_purchase c ?org ?i ?mo w = (Inr status, u)"
    and rest: "(if status = SafeFulfillmentStatus.VERIFIED
       then thenT (finish_workflow_run ?org ?i ''COMPLETED'' None ''Payment and fulfillment verified'')
              (returnT \<lparr>far_purchase_intent_id = ?i, far_status = status\<rparr>)
       else if status = SafeFulfillmentStatus.FAILED_FINAL
       then thenT (finish_workflow_run ?org ?i ''FAILED'' (Some ''FULFILLMENT_FAILED_FINAL'')
                    ''Fulfillment verification failed'')
              (raiseT (provider_error ProviderErrorCode.INVALID_STATE False))
       else raiseT (provider_error ProviderErrorCode.UNAVAILABLE True)) u = (Inr out, w')"
    unfolding verify_fulfillment_def Let_def tx_inv by blast
  have s: "status = SafeFulfillmentStatus.VERIFIED"
    using rest by (auto simp: tx_inv split: if_splits)
  with rest obtain y where fin: "finish_workflow_run ?org ?i ''COMPLETED'' None ''Payment and fulfillment verified'' u = (Inr y, w')"
    and out: "far_status out = SafeFulfillmentStatus.VERIFIED" by (auto simp: tx_inv)
  from v obtain started and u1 :: "provider_call world" where st: "start_fulfillment c ?org ?i ?mo w = (Inr started, u1)"
    and rest: "(case started of
        None \<Rightarrow> returnT SafeFulfillmentStatus.VERIFIED
      | Some expected \<Rightarrow>
          bindT (observe c ?org ?mo expected) (\<lambda>observations.
          thenT (transaction ?org (record_verdict c ?org ?i ?mo observations))
            (returnT (verdict observations)))) u1 = (Inr status, u)"
    unfolding verify_purchase_def tx_inv by blast
  from start_fulfillment_Inr [OF st] obtain i where i: "i \<in> set (tb_intents (rows w))" "ir_id i = ?i" "ir_organization_id i = ?org"
    "started = (if ir_fulfillment_status i = ''VERIFIED'' then None else Some (ir_expected_fulfillments i))" by blast
  show ?thesis
  proof (cases "ir_fulfillment_status i = ''VERIFIED''")
    case True
    with out i show ?thesis by blast
  next
    case False
    with i(4) rest obtain obs y and u2 :: "provider_call world" where obs: "observe c ?org ?mo (ir_expected_fulfillments i) u1 = (Inr obs, u2)"
      and rec: "transaction ?org (record_verdict c ?org ?i ?mo obs) u2 = (Inr y, u)" and vd: "verdict obs = status"
      by (auto simp: tx_inv)
    note ob = observe_Inr [OF obs] and rv = record_verdict_Inr [OF rec vd [unfolded s]]
    have q1: "quiet u2 u" using framedD [OF framed_transaction [OF inner_record_verdict] rec] .
    have q2: "quiet u w'" using framedD [OF quiet_finish fin] .
    have calls: "calls w' = calls u2" using q1 q2 by (simp add: quiet_def)
    have start: "calls u1 = calls w" using framedD [OF inner_start_fulfillment st] by (simp add: quiet_def)
    have "\<exists>h m r. verification_request c ?org ?mo item = Inr m
        \<and> prefix (calls w) h \<and> prefix (h @ [VerifyEntitlements m]) (calls w')
        \<and> px_verify (co_providers c) h m = Inr r \<and> ev_status r = EntitlementVerificationStatus.VERIFIED"
      if "item \<in> set (ir_expected_fulfillments i)" for item
    proof -
      from that ob obtain x where x: "x \<in> set obs" "item = fst x" by (metis (no_types, lifting) image_iff list.set_map)
      with ob have "probed c ?org ?mo (calls u1) (calls u2) x" by (simp add: list_all_iff)
      with verdict_verified [OF vd [unfolded s] x(1)] show ?thesis unfolding probed_def x(2) calls start by blast
    qed
    moreover have "recorded ?org ?i (verified_key ?mo) (rows w')"
      using rv q2 by (auto simp: recorded_def quiet_def outer_def logs_def)
    moreover have "\<exists>rc\<in>set (tb_receipts (rows w')). rc_organization_id rc = ?org \<and> rc_purchase_intent_id rc = ?i"
      using rv framedD [OF receipts_finish fin] by (auto simp: receipts_stay_def)
    ultimately show ?thesis using out i(1-3) by blast
  qed
qed

section \<open>A verified order\<close>

definition sample_paid :: tables where
  "sample_paid = sample_rows\<lparr>
     tb_intents := [sample_row\<lparr>ir_payment_status := ''PRAVA_COMPLETED'', ir_fulfillment_status := ''PENDING'',
       ir_expected_fulfillments := [[(''fulfillment_item_id'', PStr ''f''), (''type'', PStr ''seat''),
         (''minimum_quantity'', PInt 2), (''subject_type'', PStr ''organization''),
         (''verification_method'', PStr ''access_probe'')]],
       ir_payload := [(''selection_id'', PStr ''s''), (''line_items'', PList []), (''merchant_subtotal'', PStr ''12.50''),
         (''fee_amount'', PStr ''0''), (''fee_schedule_version'', PStr ''1''), (''tax_amount'', PStr ''0''),
         (''merchant'', PDict [(PStr ''country'', PStr ''US'')])]\<rparr>],
     tb_orders := [\<lparr>mo_id = ''mo'', mo_organization_id = ''org'', mo_purchase_intent_id = ''pi'',
       mo_merchant_adapter_id = ''adapter'', mo_idempotency_key = ''key'', mo_external_order_id = ''order'',
       mo_status = ''APPROVED'', mo_amount = Dec 1250 (- 2), mo_currency = ''USD'', mo_safe_payload = []\<rparr>],
     tb_decisions := [\<lparr>dr_id = ''dec'', dr_organization_id = ''org'', dr_purchase_request_id = ''req'', dr_purchase_brief_id = ''brief'',
       dr_version = 1, dr_decision_hash = ''d''\<rparr>],
     tb_patches := [\<lparr>sp_row_id = ''patch'', sp_row_organization_id = ''org'', sp_row_state = ''PROPOSED'',
       sp_row_payload = [], sp_row_patch_hash = []\<rparr>]\<rparr>"

definition sample_verified :: EntitlementVerificationResult where
  "sample_verified =
     \<lparr>ev_status = EntitlementVerificationStatus.VERIFIED, ev_observed_quantity = 2,
      ev_external_entitlement_ids = [], ev_access_probe_verified = True, ev_adapter = sample_adapter,
      ev_provider_confirmed = True\<rparr>"

definition sample_verifier :: coordinator where
  "sample_verifier = sample_coordinator\<lparr>co_providers := sample_providers\<lparr>px_verify := (\<lambda>_ _. Inr sample_verified)\<rparr>\<rparr>"

definition sample_verify :: VerifyFulfillmentActivityInput where
  "sample_verify = \<lparr>vfi_organization_id = ''org'', vfi_purchase_intent_id = ''pi'', vfi_merchant_order_id = ''order''\<rparr>"

definition sample_fulfilled :: "FulfillmentActivityResult result \<times> provider_call world" where
  "sample_fulfilled = verify_fulfillment sample_verifier sample_verify (sample_start\<lparr>rows := sample_paid\<rparr>)"

lemma fulfillment_rests_on_answers_witness:
  "\<exists>rc\<in>set (tb_receipts (rows (snd sample_fulfilled))). rc_purchase_intent_id rc = ''pi''"
proof -
  have "fst sample_fulfilled = Inr \<lparr>far_purchase_intent_id = ''pi'', far_status = SafeFulfillmentStatus.VERIFIED\<rparr>"
    by code_simp
  then have "verify_fulfillment sample_verifier sample_verify (sample_start\<lparr>rows := sample_paid\<rparr>)
      = (Inr \<lparr>far_purchase_intent_id = ''pi'', far_status = SafeFulfillmentStatus.VERIFIED\<rparr>, snd sample_fulfilled)"
    unfolding sample_fulfilled_def by (metis prod.collapse)
  from fulfillment_rests_on_answers [OF this] show ?thesis
    by (auto simp: sample_paid_def sample_rows_def sample_row_def sample_verify_def)
qed

end
