(* ===== verification/Shopping.thy ===== *)
theory Shopping
  imports StoreLaws Contracts Checkout
begin

text \<open>
  \<^verbatim>\<open>services/worker/sira_worker/prava_mcp_coordinator.py\<close>: the shopping run that follows a hosted
  payment. The client of the shopping service, with the token it needs, is not modelled: what a tool call
  answers is a function of the calls made before it.
\<close>

datatype mcp_call = McpTool string string "(string \<times> string) list"

type_synonym mcp = "mcp_call list \<Rightarrow> mcp_call \<Rightarrow> (string \<times> pyval) list result"

definition mcp_status :: "(string \<times> pyval) list \<Rightarrow> string result" where
  "mcp_status payload =
     (case List.find (\<lambda>k. case map_of payload k of Some (PStr s) \<Rightarrow> s \<noteq> [] | _ \<Rightarrow> False)
         [''status'', ''payment_status'', ''state''] of
        Some k \<Rightarrow> (case map_of payload k of Some (PStr s) \<Rightarrow> Inr (str_upper s) | _ \<Rightarrow> Inl TypeError)
      | None \<Rightarrow> Inl (ValueError ''Prava status response is incomplete''))"

text \<open>\<^verbatim>\<open>payload.get("order_id", payload.get("merchant_order_id"))\<close>, if a non-empty string.\<close>

definition mcp_order_id :: "(string \<times> pyval) list \<Rightarrow> string option" where
  "mcp_order_id payload =
     (case (case map_of payload ''order_id'' of Some v \<Rightarrow> Some v | None \<Rightarrow> map_of payload ''merchant_order_id'') of
        Some (PStr s) \<Rightarrow> if s = [] then None else Some s
      | _ \<Rightarrow> None)"

definition terminal_failure :: "string \<Rightarrow> bool" where
  "terminal_failure status =
     (status \<in> {''FAILED'', ''DECLINED'', ''CANCELLED'', ''EXPIRED'', ''APPROVAL_TIMEOUT''})"

definition checkpoint_log :: "string \<Rightarrow> bool \<Rightarrow> string \<times> string" where
  "checkpoint_log status placed =
     (if placed then (''COMPLETED'', ''Prava order placed'')
      else if terminal_failure status then (''FAILED'', ''Prava approval did not complete'')
      else (''RUNNING'', ''Waiting for Prava approval''))"

definition checkpoint_run :: "string \<Rightarrow> string option \<Rightarrow> bool \<Rightarrow> PravaShoppingRun \<Rightarrow> PravaShoppingRun" where
  "checkpoint_run status order_id placed r =
     r\<lparr>sr_status := (if placed then ''COMPLETED'' else status),
       sr_order_id := (case order_id of None \<Rightarrow> sr_order_id r | Some i \<Rightarrow> Some i)\<rparr>"

definition checkpoint_workflow :: "string \<Rightarrow> string option \<Rightarrow> bool \<Rightarrow> WorkflowRun \<Rightarrow> WorkflowRun" where
  "checkpoint_workflow status order_id placed r =
     (case checkpoint_log status placed of (s, message) \<Rightarrow>
        log_run s message
          (if placed
           then r\<lparr>wr_status := ''COMPLETED'',
                  wr_result_reference := (case order_id of None \<Rightarrow> wr_result_reference r | Some i \<Rightarrow> Some i)\<rparr>
           else if terminal_failure status
           then r\<lparr>wr_status := ''FAILED'', wr_safe_error_code := Some (''PRAVA_'' @ status)\<rparr> else r))"

definition checkpoint ::
    "PravaShoppingWorkflowInput \<Rightarrow> string \<Rightarrow> string option \<Rightarrow> bool \<Rightarrow> ('c, unit) tx" where
  "checkpoint q status order_id placed =
     (let org = swi_organization_id q in
      transaction org
        (bindT (select tb_shopping (\<lambda>r. sr_organization_id r = org \<and> sr_id r = swi_shopping_run_id q) scalar_one)
          (\<lambda>run.
         thenT (set_shopping (sr_id run) (checkpoint_run status order_id placed))
         (bindT (select tb_workflows (\<lambda>w. wr_organization_id w = org
             \<and> wr_id w = ''wf_prava_shop_'' @ swi_shopping_run_id q) scalar_one) (\<lambda>workflow.
          set_workflow (wr_id workflow) (checkpoint_workflow status order_id placed))))))"

definition mcp_tool :: "mcp \<Rightarrow> mcp_call \<Rightarrow> (mcp_call, (string \<times> pyval) list) tx" where
  "mcp_tool client x w = (client (calls w) x, w\<lparr>calls := calls w @ [x]\<rparr>)"

definition status_call :: "PravaShoppingWorkflowInput \<Rightarrow> mcp_call" where
  "status_call q =
     McpTool (swi_organization_id q) ''get_payment_status'' [(''session_id'', swi_payment_session_id q)]"

definition checkout_call :: "PravaShoppingWorkflowInput \<Rightarrow> mcp_call" where
  "checkout_call q =
     McpTool (swi_organization_id q) ''shop_checkout''
       [(''checkout_session_id'', swi_checkout_session_id q), (''payment_session_id'', swi_payment_session_id q)]"

definition payment_status :: "mcp \<Rightarrow> PravaShoppingWorkflowInput \<Rightarrow> (mcp_call, PravaPaymentStatusResult) tx" where
  "payment_status client q =
     bindT (mcp_tool client (status_call q)) (\<lambda>payload.
     bindT (liftT (mcp_status payload)) (\<lambda>status.
     thenT (checkpoint q status None False)
       (returnT \<lparr>psr_shopping_run_id = swi_shopping_run_id q, psr_status = status\<rparr>)))"

definition shop_checkout :: "mcp \<Rightarrow> PravaShoppingWorkflowInput \<Rightarrow> (mcp_call, PravaShoppingWorkflowResult) tx" where
  "shop_checkout client q =
     bindT (mcp_tool client (checkout_call q)) (\<lambda>payload.
     bindT (liftT (mcp_status payload)) (\<lambda>status.
     let order_id = mcp_order_id payload in
     thenT (checkpoint q status order_id True)
       (returnT \<lparr>swr_shopping_run_id = swi_shopping_run_id q, swr_status = status, swr_order_id = order_id\<rparr>)))"

definition fail_shopping :: "PravaShoppingWorkflowInput \<Rightarrow> string \<Rightarrow> (mcp_call, unit) tx" where
  "fail_shopping q status = checkpoint q status None False"

section \<open>Which checkpoints the database accepts\<close>

definition stored_status :: "string \<Rightarrow> bool \<Rightarrow> string" where
  "stored_status status placed = (if placed then ''COMPLETED'' else status)"

lemma checkpoint_Inr:
  fixes w :: "'c world"
  assumes "checkpoint q status order_id placed w = (Inr y, w')"
  shows "stored_status status placed \<in> {''QUOTED'', ''AWAITING_APPROVAL'', ''QUEUED'', ''RUNNING'', ''PAID'', ''FAILED''}"
proof -
  let ?org = "swi_organization_id q"
  from assms obtain u where body: "bindT (select tb_shopping (\<lambda>r. sr_organization_id r = ?org \<and> sr_id r = swi_shopping_run_id q) scalar_one)
          (\<lambda>run.
         thenT (set_shopping (sr_id run) (checkpoint_run status order_id placed))
         (bindT (select tb_workflows (\<lambda>w. wr_organization_id w = ?org
             \<and> wr_id w = ''wf_prava_shop_'' @ swi_shopping_run_id q) scalar_one) (\<lambda>workflow.
          set_workflow (wr_id workflow) (checkpoint_workflow status order_id placed)))) (begin_tx w) = (Inr y, u)"
    and c: "constraints (both u)"
    unfolding checkpoint_def Let_def by (auto elim: transaction_both)
  from body obtain run where run: "filter (\<lambda>r. sr_organization_id r = ?org \<and> sr_id r = swi_shopping_run_id q) (tb_shopping (rows w)) = [run]"
    and u: "tb_shopping (rows u) = assign sr_id (sr_id run) (checkpoint_run status order_id placed) (tb_shopping (rows w))"
    unfolding set_shopping_def set_workflow_def by (auto simp: tx_inv)
  have "checkpoint_run status order_id placed run \<in> set (tb_shopping (both u))"
    using filter_oneD [OF run] by (auto simp: both_def append_tables_def u assign_def)
  with c have "shopping_checks (checkpoint_run status order_id placed run)"
    by (simp add: constraints_def row_checks_def list_all_iff)
  then show ?thesis by (simp add: shopping_checks_def checkpoint_run_def stored_status_def)
qed

lemma checkpoint_placed_raises:
  "\<exists>e w'. checkpoint q status order_id True w = (Inl e, w') \<and> rows w' = rows w"
proof (cases "checkpoint q status order_id True w")
  case (Pair r w')
  show ?thesis
  proof (cases r)
    case (Inl e)
    with Pair transaction_Inl_rows show ?thesis unfolding checkpoint_def Let_def by blast
  next
    case (Inr y)
    with Pair checkpoint_Inr [of q status order_id True w y w'] show ?thesis by (simp add: stored_status_def)
  qed
qed

text \<open>A checkpoint makes no tool call.\<close>

definition same_calls :: "'c world \<Rightarrow> 'c world \<Rightarrow> bool" where
  "same_calls u v \<longleftrightarrow> calls v = calls u"

interpretation calls_frame: frame same_calls
  by unfold_locales (auto simp: same_calls_def)

lemma calls_transaction: "framed same_calls body \<Longrightarrow> framed same_calls (transaction org body)"
  by (auto simp: framed_def same_calls_def transaction_def commit_tx_def split: prod.split sum.split)
    (metis begin_tx_simps(3) snd_conv)+

lemma checkpoint_calls: "framed same_calls (checkpoint q status order_id placed)"
proof -
  have "framed same_calls (set_shopping i f)" "framed same_calls (set_workflow i g)" for i f g
    by (simp_all add: framed_def same_calls_def set_shopping_def set_workflow_def tx_run)
  then show ?thesis unfolding checkpoint_def Let_def
    by (intro calls_transaction calls_frame.rules)
qed

end
