(* ===== verification/Activities.thy ===== *)
theory Activities
  imports Fulfillment Refunds Shopping
begin

text \<open>
  \<^verbatim>\<open>services/worker/sira_worker/activities.py\<close>: the activities a workflow runs. Each checks that its
  request carries no credential, calls the coordinator, turns whatever was raised into an error that names only a
  safe code and says whether a retry may help, and checks the result.
\<close>

section \<open>Redacted failures\<close>

definition catchT :: "('c, 'a) tx \<Rightarrow> (py_error \<Rightarrow> py_error) \<Rightarrow> ('c, 'a) tx" where
  "catchT m redacted w = (case m w of (Inl e, w') \<Rightarrow> (Inl (redacted e), w') | (Inr x, w') \<Rightarrow> (Inr x, w'))"

definition checkout_failure :: "py_error \<Rightarrow> py_error" where
  "checkout_failure e =
     (case e of
        ProviderError code _ \<Rightarrow> ApplicationError code True
      | _ \<Rightarrow> ApplicationError ''CHECKOUT_ACTIVITY_REDACTED_FAILURE'' True)"

definition reconciliation_failure :: "py_error \<Rightarrow> py_error" where
  "reconciliation_failure e =
     (case e of
        ProviderError code retryable \<Rightarrow> ApplicationError code (\<not> retryable)
      | _ \<Rightarrow> ApplicationError ''RECONCILIATION_ACTIVITY_REDACTED_FAILURE'' True)"

definition fulfillment_failure :: "py_error \<Rightarrow> py_error" where
  "fulfillment_failure e =
     (case e of
        ProviderError code retryable \<Rightarrow> ApplicationError code (\<not> retryable)
      | _ \<Rightarrow> ApplicationError ''FULFILLMENT_ACTIVITY_REDACTED_FAILURE'' False)"

definition refund_failure :: "py_error \<Rightarrow> py_error" where
  "refund_failure e =
     (case e of
        ProviderError code retryable \<Rightarrow> ApplicationError code (\<not> retryable)
      | _ \<Rightarrow> ApplicationError ''REFUND_ACTIVITY_REDACTED_FAILURE'' True)"

section \<open>The activities\<close>

definition guarded_activity ::
    "pyval \<Rightarrow> ('c, 'a) tx \<Rightarrow> (py_error \<Rightarrow> py_error) \<Rightarrow> ('a \<Rightarrow> pyval) \<Rightarrow> ('c, 'a) tx" where
  "guarded_activity request body redacted result_value =
     thenT (liftT (assert_credential_free_contract request))
     (bindT (catchT body redacted) (\<lambda>result.
      thenT (liftT (assert_credential_free_contract (result_value result))) (returnT result)))"

definition isolated_checkout_activity ::
    "coordinator \<Rightarrow> IsolatedCheckoutActivityInput \<Rightarrow> CheckoutActivityResult worker" where
  "isolated_checkout_activity c q =
     guarded_activity (IsolatedCheckoutActivityInput_pyval q) (execute_isolated_checkout c q) checkout_failure
       CheckoutActivityResult_pyval"

definition reconcile_activity :: "coordinator \<Rightarrow> ReconcileActivityInput \<Rightarrow> CheckoutActivityResult worker" where
  "reconcile_activity c q =
     guarded_activity (ReconcileActivityInput_pyval q) (reconcile_checkout c q) reconciliation_failure
       CheckoutActivityResult_pyval"

definition fulfillment_activity ::
    "coordinator \<Rightarrow> VerifyFulfillmentActivityInput \<Rightarrow> FulfillmentActivityResult worker" where
  "fulfillment_activity c q =
     guarded_activity (VerifyFulfillmentActivityInput_pyval q) (verify_fulfillment c q) fulfillment_failure
       FulfillmentActivityResult_pyval"

definition failure_activity :: "WorkflowFailureActivityInput \<Rightarrow> unit worker" where
  "failure_activity q =
     thenT (liftT (assert_credential_free_contract (WorkflowFailureActivityInput_pyval q)))
       (catchT (fail_checkout_workflow q)
          (\<lambda>_. ApplicationError ''WORKFLOW_FAILURE_CHECKPOINT_REDACTED_FAILURE'' False))"

definition refund_activity :: "coordinator \<Rightarrow> RefundActivityInput \<Rightarrow> bool \<Rightarrow> RefundActivityResult worker" where
  "refund_activity c q reconcile =
     guarded_activity (RefundActivityInput_pyval q)
       (if reconcile then reconcile_refund c q else execute_refund c q) refund_failure RefundActivityResult_pyval"

definition execute_refund_activity :: "coordinator \<Rightarrow> RefundActivityInput \<Rightarrow> RefundActivityResult worker" where
  "execute_refund_activity c q = refund_activity c q False"

definition reconcile_refund_activity :: "coordinator \<Rightarrow> RefundActivityInput \<Rightarrow> RefundActivityResult worker" where
  "reconcile_refund_activity c q = refund_activity c q True"

definition payment_status_activity ::
    "mcp \<Rightarrow> PravaShoppingWorkflowInput \<Rightarrow> (mcp_call, PravaPaymentStatusResult) tx" where
  "payment_status_activity client q =
     guarded_activity (PravaShoppingWorkflowInput_pyval q) (payment_status client q)
       (\<lambda>_. ApplicationError ''PRAVA_STATUS_REDACTED_FAILURE'' False) PravaPaymentStatusResult_pyval"

definition shop_checkout_activity ::
    "mcp \<Rightarrow> PravaShoppingWorkflowInput \<Rightarrow> (mcp_call, PravaShoppingWorkflowResult) tx" where
  "shop_checkout_activity client q =
     guarded_activity (PravaShoppingWorkflowInput_pyval q) (shop_checkout client q)
       (\<lambda>_. ApplicationError ''PRAVA_CHECKOUT_REDACTED_FAILURE'' False) PravaShoppingWorkflowResult_pyval"

definition shopping_failed_activity :: "PravaShoppingWorkflowInput \<Rightarrow> (mcp_call, unit) tx" where
  "shopping_failed_activity q =
     thenT (liftT (assert_credential_free_contract (PravaShoppingWorkflowInput_pyval q)))
       (catchT (fail_shopping q ''APPROVAL_TIMEOUT'')
          (\<lambda>_. ApplicationError ''PRAVA_CHECKPOINT_REDACTED_FAILURE'' False))"

section \<open>What an activity does\<close>

lemma catchT_Inr [result_simps]: "catchT m h w = (Inr x, w') \<longleftrightarrow> m w = (Inr x, w')"
  by (auto simp: catchT_def split: prod.splits sum.splits)

lemma snd_catchT [simp]: "snd (catchT m h w) = snd (m w)"
  by (simp add: catchT_def split: prod.split sum.split)

text \<open>The credential checks change nothing: an activity leaves the world as it was or as its body does.\<close>

lemma guarded_activity_world: "snd (guarded_activity r body h v w) \<in> {w, snd (body w)}"
  by (auto simp: guarded_activity_def thenT_def bindT_def liftT_def returnT_def catchT_def
      split: prod.splits sum.splits)

lemma guarded_activity_Inr:
  "guarded_activity r body h v w = (Inr x, w') \<Longrightarrow> body w = (Inr x, w')"
  by (auto simp: guarded_activity_def thenT_def bindT_def liftT_def returnT_def catchT_def
      split: prod.splits sum.splits)

end
