(* ===== verification/Workflows.thy ===== *)
theory Workflows
  imports Activities CoordinatorLaws
begin

text \<open>
  \<^verbatim>\<open>services/worker/sira_worker/workflows.py\<close>: the three workflows. The Temporal service that runs
  their activities is not part of the program. Of an attempt it decides the fate: the result arrives, the
  activity ran but its result was lost (a crash or a timeout), or it never started. Which fate meets which
  attempt is a parameter; attempts of one execution do not overlap. Sleeping changes nothing the model keeps.
\<close>

section \<open>Executing an activity\<close>

datatype fate = Delivered | ResultLost | NeverStarted

text \<open>The fate of every attempt, by the activity's name, which execution of it in the workflow, and attempt.\<close>

type_synonym fates = "string \<Rightarrow> nat \<Rightarrow> nat \<Rightarrow> fate"

definition final_failure :: "py_error \<Rightarrow> bool" where
  "final_failure e = (case e of ApplicationError _ non_retryable \<Rightarrow> non_retryable | _ \<Rightarrow> False)"

text \<open>
  \<^verbatim>\<open>workflow.execute_activity\<close> with \<open>n\<close> attempts left, the next of which is number \<open>k\<close>: a failure
  that is marked as not retryable ends it, as does the last attempt.
\<close>

fun execute_activity :: "nat \<Rightarrow> (nat \<Rightarrow> fate) \<Rightarrow> nat \<Rightarrow> ('c, 'a) tx \<Rightarrow> ('c, 'a) tx" where
  "execute_activity 0 fate k m w = (Inl ActivityTimeout, w)"
| "execute_activity (Suc n) fate k m w =
     (case fate k of
        NeverStarted \<Rightarrow> execute_activity n fate (Suc k) m w
      | ResultLost \<Rightarrow> execute_activity n fate (Suc k) m (snd (m w))
      | Delivered \<Rightarrow>
          (case m w of
             (Inr x, w') \<Rightarrow> (Inr x, w')
           | (Inl e, w') \<Rightarrow>
               if final_failure e \<or> n = 0 then (Inl e, w') else execute_activity n fate (Suc k) m w'))"

text \<open>\<^verbatim>\<open>try ... except Exception: ...; raise\<close> around an activity.\<close>

definition on_failure :: "('c, 'a) tx \<Rightarrow> ('c, 'b) tx \<Rightarrow> ('c, 'a) tx" where
  "on_failure m cleanup w =
     (case m w of (Inl e, w') \<Rightarrow> thenT cleanup (raiseT e) w' | (Inr x, w') \<Rightarrow> (Inr x, w'))"

definition checked :: "('a \<Rightarrow> pyval) \<Rightarrow> ('c, 'a) tx \<Rightarrow> ('c, 'a) tx" where
  "checked result_value m =
     bindT m (\<lambda>x. thenT (liftT (assert_credential_free_contract (result_value x))) (returnT x))"

section \<open>The checkout workflow\<close>

definition RECONCILIATION_DELAYS_SECONDS :: "nat list" where
  "RECONCILIATION_DELAYS_SECONDS = [0, 15, 60, 300, 900]"

definition reconciliation_input :: "PurchaseCheckoutWorkflowInput \<Rightarrow> string \<Rightarrow> ReconcileActivityInput" where
  "reconciliation_input q transaction_reference =
     \<lparr>rai_organization_id = cwi_organization_id q, rai_purchase_intent_id = cwi_purchase_intent_id q,
      rai_intent_hash = cwi_intent_hash q, rai_prava_session_id = cwi_prava_session_id q,
      rai_merchant_adapter_id = cwi_merchant_adapter_id q, rai_idempotency_key = cwi_idempotency_key q,
      rai_transaction_reference = transaction_reference\<rparr>"

text \<open>One round for every delay, until a result needs no reconciliation; \<open>checkout\<close> is the result so far.\<close>

fun reconcile_rounds ::
    "fates \<Rightarrow> coordinator \<Rightarrow> ReconcileActivityInput \<Rightarrow> nat \<Rightarrow> nat list \<Rightarrow> CheckoutActivityResult \<Rightarrow>
     CheckoutActivityResult worker" where
  "reconcile_rounds fate c q r [] checkout = returnT checkout"
| "reconcile_rounds fate c q r (delay # delays) checkout =
     bindT (checked CheckoutActivityResult_pyval
              (execute_activity 5 (fate ''sira.reconcile_checkout'' r) 0 (reconcile_activity c q)))
       (\<lambda>checkout. if car_reconciliation_required checkout
                   then reconcile_rounds fate c q (Suc r) delays checkout else returnT checkout)"

definition workflow_failure :: "PurchaseCheckoutWorkflowInput \<Rightarrow> string \<Rightarrow> WorkflowFailureActivityInput" where
  "workflow_failure q safe_code =
     \<lparr>wfi_organization_id = cwi_organization_id q, wfi_purchase_intent_id = cwi_purchase_intent_id q,
      wfi_safe_code = safe_code\<rparr>"

definition reconcile_phase ::
    "fates \<Rightarrow> coordinator \<Rightarrow> PurchaseCheckoutWorkflowInput \<Rightarrow> CheckoutActivityResult \<Rightarrow>
     CheckoutActivityResult worker" where
  "reconcile_phase fate c q checkout =
     (if car_reconciliation_required checkout
      then bindT (reconcile_rounds fate c (reconciliation_input q (car_transaction_reference checkout)) 0
                    RECONCILIATION_DELAYS_SECONDS checkout) (\<lambda>checkout.
           thenT (if car_reconciliation_required checkout
                  then execute_activity 3 (fate ''sira.fail_checkout_workflow'' 0) 0
                         (failure_activity (workflow_failure q ''CHECKOUT_RECONCILIATION_INCOMPLETE''))
                  else returnT ())
             (returnT checkout))
      else returnT checkout)"

definition ready_to_verify :: "CheckoutActivityResult \<Rightarrow> bool" where
  "ready_to_verify checkout =
     (car_merchant_outcome checkout = SafeMerchantOutcome.APPROVED \<and> car_provider_reported checkout
      \<and> \<not> car_reconciliation_required checkout \<and> car_merchant_order_id checkout \<noteq> None)"

definition fulfillment_input :: "PurchaseCheckoutWorkflowInput \<Rightarrow> string \<Rightarrow> VerifyFulfillmentActivityInput" where
  "fulfillment_input q order =
     \<lparr>vfi_organization_id = cwi_organization_id q, vfi_purchase_intent_id = cwi_purchase_intent_id q,
      vfi_merchant_order_id = order\<rparr>"

definition verify_phase ::
    "fates \<Rightarrow> coordinator \<Rightarrow> PurchaseCheckoutWorkflowInput \<Rightarrow> CheckoutActivityResult \<Rightarrow> unit worker" where
  "verify_phase fate c q checkout =
     (case (ready_to_verify checkout, car_merchant_order_id checkout) of
        (True, Some order) \<Rightarrow>
          thenT (on_failure
            (checked FulfillmentActivityResult_pyval
              (execute_activity 5 (fate ''sira.verify_fulfillment'' 0) 0
                 (fulfillment_activity c (fulfillment_input q order))))
            (execute_activity 3 (fate ''sira.fail_checkout_workflow'' 1) 0
               (failure_activity (workflow_failure q ''FULFILLMENT_RETRY_EXHAUSTED''))))
          (returnT ())
      | _ \<Rightarrow> returnT ())"

definition purchase_checkout_workflow ::
    "fates \<Rightarrow> coordinator \<Rightarrow> PurchaseCheckoutWorkflowInput \<Rightarrow> PurchaseCheckoutWorkflowResult worker" where
  "purchase_checkout_workflow fate c q =
     thenT (liftT (assert_credential_free_contract (PurchaseCheckoutWorkflowInput_pyval q)))
     (bindT (checked CheckoutActivityResult_pyval
               (execute_activity 1 (fate ''sira.execute_isolated_checkout'' 0) 0
                  (isolated_checkout_activity c (PurchaseCheckoutWorkflowInput_activity_input q))))
       (\<lambda>checkout. bindT (reconcile_phase fate c q checkout) (\<lambda>checkout.
        thenT (verify_phase fate c q checkout)
          (returnT \<lparr>cwr_purchase_intent_id = cwi_purchase_intent_id q,
                    cwr_merchant_outcome = car_merchant_outcome checkout,
                    cwr_merchant_order_id = car_merchant_order_id checkout,
                    cwr_provider_reported = car_provider_reported checkout,
                    cwr_reconciliation_required = car_reconciliation_required checkout\<rparr>))))"

section \<open>The reversal workflow\<close>

fun refund_rounds ::
    "fates \<Rightarrow> coordinator \<Rightarrow> RefundActivityInput \<Rightarrow> nat \<Rightarrow> nat list \<Rightarrow> RefundActivityResult \<Rightarrow>
     RefundActivityResult worker" where
  "refund_rounds fate c q r [] result = returnT result"
| "refund_rounds fate c q r (delay # delays) result =
     bindT (checked RefundActivityResult_pyval
              (execute_activity 5 (fate ''sira.reconcile_refund'' r) 0 (reconcile_refund_activity c q)))
       (\<lambda>result. if rfr_reconciliation_required result
                 then refund_rounds fate c q (Suc r) delays result else returnT result)"

definition purchase_reversal_workflow ::
    "fates \<Rightarrow> coordinator \<Rightarrow> PurchaseReversalWorkflowInput \<Rightarrow> PurchaseReversalWorkflowResult worker" where
  "purchase_reversal_workflow fate c q =
     (let activity_input = PurchaseReversalWorkflowInput_activity_input q in
      thenT (liftT (assert_credential_free_contract (PurchaseReversalWorkflowInput_pyval q)))
      (bindT (checked RefundActivityResult_pyval
                (execute_activity 1 (fate ''sira.execute_refund'' 0) 0 (execute_refund_activity c activity_input)))
        (\<lambda>result. bindT (if rfr_reconciliation_required result
                    then refund_rounds fate c activity_input 0 RECONCILIATION_DELAYS_SECONDS result
                    else returnT result) (\<lambda>result.
         returnT \<lparr>rwr_reversal_id = rfr_reversal_id result, rwr_status = rfr_status result,
                  rwr_refunded_amount = rfr_refunded_amount result, rwr_currency = rfr_currency result,
                  rwr_provider_reference = rfr_provider_reference result,
                  rwr_entitlements_revoked = rfr_entitlements_revoked result,
                  rwr_reconciliation_required = rfr_reconciliation_required result\<rparr>))))"

section \<open>The shopping workflow\<close>

definition approved_status :: "string \<Rightarrow> bool" where
  "approved_status s = (s \<in> {''COMPLETED'', ''APPROVED'', ''PAID'', ''SUCCESS''})"

definition refused_status :: "string \<Rightarrow> bool" where
  "refused_status s = (s \<in> {''FAILED'', ''DECLINED'', ''CANCELLED'', ''EXPIRED''})"

definition shopping_result :: "PravaShoppingWorkflowInput \<Rightarrow> string \<Rightarrow> PravaShoppingWorkflowResult" where
  "shopping_result q status =
     \<lparr>swr_shopping_run_id = swi_shopping_run_id q, swr_status = status, swr_order_id = None\<rparr>"

text \<open>\<open>n\<close> polls are left, the next of which is number \<open>r\<close>.\<close>

fun poll_payment ::
    "fates \<Rightarrow> mcp \<Rightarrow> PravaShoppingWorkflowInput \<Rightarrow> nat \<Rightarrow> nat \<Rightarrow> (mcp_call, PravaShoppingWorkflowResult) tx" where
  "poll_payment fate client q r 0 =
     thenT (execute_activity 3 (fate ''sira.prava_checkout_failed'' 0) 0 (shopping_failed_activity q))
       (returnT (shopping_result q ''APPROVAL_TIMEOUT''))"
| "poll_payment fate client q r (Suc n) =
     bindT (execute_activity 3 (fate ''sira.prava_payment_status'' r) 0 (payment_status_activity client q))
       (\<lambda>status. let normalized = str_upper (psr_status status) in
          if approved_status normalized
          then execute_activity 3 (fate ''sira.prava_shop_checkout'' 0) 0 (shop_checkout_activity client q)
          else if refused_status normalized then returnT (shopping_result q normalized)
          else poll_payment fate client q (Suc r) n)"

definition prava_shopping_workflow ::
    "fates \<Rightarrow> mcp \<Rightarrow> PravaShoppingWorkflowInput \<Rightarrow> (mcp_call, PravaShoppingWorkflowResult) tx" where
  "prava_shopping_workflow fate client q =
     thenT (liftT (assert_credential_free_contract (PravaShoppingWorkflowInput_pyval q)))
       (poll_payment fate client q 0 60)"

end
