(* ===== verification/WorkflowLaws.thy ===== *)
theory WorkflowLaws
  imports Workflows
begin

text \<open>
  What the workflows do whatever fate their attempts meet: the checkout workflow runs the activities of a bounded
  plan and reports an approved purchase only after its fulfillment was verified; the shopping workflow never
  returns an order.
\<close>

section \<open>Which activities a computation runs\<close>

definition performs :: "checkout_activity list set \<Rightarrow> 'a worker \<Rightarrow> bool" where
  "performs L m \<longleftrightarrow> (\<forall>w. \<exists>xs\<in>L. snd (m w) = fold run_activity xs w)"

definition up_to :: "nat \<Rightarrow> checkout_activity \<Rightarrow> checkout_activity list set" where
  "up_to n x = {replicate k x |k. k \<le> n}"

definition followed_by :: "checkout_activity list set \<Rightarrow> checkout_activity list set \<Rightarrow> checkout_activity list set" where
  "followed_by A B = {xs @ ys |xs ys. xs \<in> A \<and> ys \<in> B}"

lemma Nil_up_to [simp, intro]: "[] \<in> up_to n x"
  by (auto simp: up_to_def)

lemma Nil_followed_by [simp, intro]: "[] \<in> A \<Longrightarrow> [] \<in> B \<Longrightarrow> [] \<in> followed_by A B"
  by (auto simp: followed_by_def)

lemma up_to_followed_by: "followed_by (up_to m x) (up_to n x) \<subseteq> up_to (m + n) x"
  by (auto simp: followed_by_def up_to_def replicate_add [symmetric] intro: exI [of _ "i + j" for i j])

lemma up_to_mono: "m \<le> n \<Longrightarrow> up_to m x \<subseteq> up_to n x"
  by (auto simp: up_to_def)

lemma performs_mono: "performs A m \<Longrightarrow> A \<subseteq> B \<Longrightarrow> performs B m"
  unfolding performs_def by blast

lemma performs_nothing: "[] \<in> L \<Longrightarrow> performs L (returnT x)" "[] \<in> L \<Longrightarrow> performs L (raiseT e)"
  "[] \<in> L \<Longrightarrow> performs L (liftT r)"
  by (force simp: performs_def tx_run)+

lemma performs_bind:
  assumes "performs A m" "\<And>x. performs B (f x)" "[] \<in> B"
  shows "performs (followed_by A B) (bindT m f)"
  unfolding performs_def
proof
  fix w
  from assms(1) obtain xs where xs: "xs \<in> A" "snd (m w) = fold run_activity xs w" by (auto simp: performs_def)
  show "\<exists>zs\<in>followed_by A B. snd (bindT m f w) = fold run_activity zs w"
  proof (cases "fst (m w)")
    case (Inl e)
    then have "snd (bindT m f w) = fold run_activity (xs @ []) w"
      using xs(2) by (cases "m w") (simp add: bindT_def)
    with xs(1) assms(3) show ?thesis
      by (intro bexI [of _ "xs @ []"]) (auto simp: followed_by_def intro: exI [of _ "[]"])
  next
    case (Inr x)
    from assms(2) obtain ys where ys: "ys \<in> B" "snd (f x (snd (m w))) = fold run_activity ys (snd (m w))"
      unfolding performs_def by blast
    with Inr xs(2) have "snd (bindT m f w) = fold run_activity (xs @ ys) w"
      by (cases "m w") (simp add: bindT_def)
    with xs(1) ys(1) show ?thesis by (intro bexI [of _ "xs @ ys"]) (auto simp: followed_by_def)
  qed
qed

lemma performs_seq: "performs A m \<Longrightarrow> performs B n \<Longrightarrow> [] \<in> B \<Longrightarrow> performs (followed_by A B) (thenT m n)"
  unfolding thenT_def by (rule performs_bind)

text \<open>Steps that run no activity add nothing to the plan.\<close>

lemma performs_bind_right:
  assumes "performs A m" "\<And>x. performs {[]} (f x)" shows "performs A (bindT m f)"
  using performs_bind [OF assms] by (simp add: followed_by_def)

lemma performs_bind_left:
  assumes "performs {[]} m" "\<And>x. performs B (f x)" "[] \<in> B" shows "performs B (bindT m f)"
  using performs_bind [OF assms] by (simp add: followed_by_def)

lemma performs_checked: "performs A m \<Longrightarrow> performs A (checked v m)"
  unfolding checked_def thenT_def
  by (intro performs_bind_right) (auto intro!: performs_bind_right performs_nothing)

lemma performs_on_failure:
  assumes "performs A m" "performs B n" "[] \<in> B"
  shows "performs (followed_by A B) (on_failure m n)"
  unfolding performs_def
proof
  fix w
  have "performs B (thenT n (raiseT e))" for e
    unfolding thenT_def using assms(2) by (intro performs_bind_right) (auto intro: performs_nothing)
  then have "performs (followed_by A B) (bindT (\<lambda>w. (Inr (fst (m w)), snd (m w)))
      (\<lambda>r. case r of Inl e \<Rightarrow> thenT n (raiseT e) | Inr x \<Rightarrow> returnT x))"
    using assms(1,3)
    by (intro performs_bind) (simp_all add: performs_def split: sum.split, auto intro: bexI [of _ "[]"] simp: returnT_def)
  moreover have "on_failure m n w = bindT (\<lambda>w. (Inr (fst (m w)), snd (m w)))
      (\<lambda>r. case r of Inl e \<Rightarrow> thenT n (raiseT e) | Inr x \<Rightarrow> returnT x) w"
    by (simp add: on_failure_def bindT_def returnT_def split: prod.split sum.split)
  ultimately show "\<exists>xs\<in>followed_by A B. snd (on_failure m n w) = fold run_activity xs w"
    by (simp add: performs_def)
qed

section \<open>The attempts of an activity\<close>

lemma performs_activity:
  assumes "\<And>w. snd (m w) \<in> {w, run_activity x w}"
  shows "performs (up_to n x) (execute_activity n fate k m)"
  unfolding performs_def
proof
  fix w
  show "\<exists>xs\<in>up_to n x. snd (execute_activity n fate k m w) = fold run_activity xs w"
  proof (induction n arbitrary: k w)
    case 0
    then show ?case by (intro bexI [of _ "[]"]) auto
  next
    case (Suc n)
    have longer: "\<exists>xs\<in>up_to (Suc n) x. v = fold run_activity xs w"
      if "\<exists>xs\<in>up_to n x. v = fold run_activity xs u" "u \<in> {w, run_activity x w}" for u v
    proof -
      from that(1) obtain j where j: "j \<le> n" "v = fold run_activity (replicate j x) u" by (auto simp: up_to_def)
      from that(2) consider "u = w" | "u = run_activity x w" by blast
      then show ?thesis
      proof cases
        case 1
        with j show ?thesis by (intro bexI [of _ "replicate j x"]) (auto simp: up_to_def)
      next
        case 2
        with j show ?thesis
          by (intro bexI [of _ "replicate (Suc j) x"]) (auto simp: up_to_def intro: exI [of _ "Suc j"])
      qed
    qed
    have stays: "\<exists>xs\<in>up_to n x. u = fold run_activity xs u" for u
      by (intro bexI [of _ "[]"]) auto
    have again: "\<exists>xs\<in>up_to (Suc n) x. snd (execute_activity n fate (Suc k) m u) = fold run_activity xs w"
      if "u \<in> {w, run_activity x w}" for u
      using longer [OF Suc.IH that] .
    have ends: "\<exists>xs\<in>up_to (Suc n) x. u = fold run_activity xs w" if "u \<in> {w, run_activity x w}" for u
      using longer [OF stays that] .
    note next_world = assms [of w]
    show ?case
    proof (cases "m w")
      case (Pair r w')
      with next_world have w': "w' \<in> {w, run_activity x w}" by simp
      show ?thesis
      proof (cases "fate k")
        case Delivered
        with Pair again [OF w'] ends [OF w'] show ?thesis by (cases r) simp_all
      next
        case ResultLost
        with Pair again [OF w'] show ?thesis by simp
      next
        case NeverStarted
        with again [of w] show ?thesis by simp
      qed
    qed
  qed
qed

lemma execute_activity_Inr:
  "execute_activity n fate k m w = (Inr x, w') \<Longrightarrow> \<exists>v. m v = (Inr x, w')"
proof (induction n arbitrary: k w)
  case (Suc n)
  show ?case
  proof (cases "m w")
    case (Pair r u)
    with Suc show ?thesis by (auto split: fate.splits sum.splits if_splits)
  qed
qed simp

lemma activity_worlds:
  "snd (isolated_checkout_activity c q1 w) \<in> {w, run_activity (Execute c q1) w}"
  "snd (reconcile_activity c q2 w) \<in> {w, run_activity (Reconcile c q2) w}"
  "snd (fulfillment_activity c q3 w) \<in> {w, run_activity (Verify c q3) w}"
  "snd (failure_activity q4 w) \<in> {w, run_activity (Fail q4) w}"
  unfolding isolated_checkout_activity_def reconcile_activity_def fulfillment_activity_def failure_activity_def
    run_activity_def checkout_activity.case
  by (rule guarded_activity_world)+ (simp add: tx_run)

section \<open>The checkout workflow\<close>

lemma performs_reconcile:
  "performs (up_to 5 (Reconcile c q)) (checked v (execute_activity 5 fate k (reconcile_activity c q)))"
  by (intro performs_checked performs_activity activity_worlds)

lemma performs_rounds:
  "performs (up_to (5 * length delays) (Reconcile c q)) (reconcile_rounds fate c q r delays checkout)"
proof (induction delays arbitrary: r checkout)
  case Nil
  then show ?case by (simp add: performs_nothing)
next
  case (Cons d delays)
  show ?case
    by (simp, rule performs_mono [OF performs_bind [OF performs_reconcile] subset_trans [OF up_to_followed_by]])
      (auto intro: Cons.IH performs_nothing)
qed

definition checkout_plan :: "coordinator \<Rightarrow> PurchaseCheckoutWorkflowInput \<Rightarrow> checkout_activity list \<Rightarrow> bool" where
  "checkout_plan c q xs \<longleftrightarrow> (\<exists>ref order. xs \<in>
     followed_by (up_to 1 (Execute c (PurchaseCheckoutWorkflowInput_activity_input q)))
     (followed_by (up_to 25 (Reconcile c (reconciliation_input q ref)))
     (followed_by (up_to 3 (Fail (workflow_failure q ''CHECKOUT_RECONCILIATION_INCOMPLETE'')))
     (followed_by (up_to 5 (Verify c (fulfillment_input q order)))
                  (up_to 3 (Fail (workflow_failure q ''FULFILLMENT_RETRY_EXHAUSTED'')))))))"

definition rest_plan ::
    "coordinator \<Rightarrow> PurchaseCheckoutWorkflowInput \<Rightarrow> string \<Rightarrow> checkout_activity list set" where
  "rest_plan c q order =
     followed_by (up_to 5 (Verify c (fulfillment_input q order)))
       (up_to 3 (Fail (workflow_failure q ''FULFILLMENT_RETRY_EXHAUSTED'')))"

lemma performs_verify: "performs (\<Union>order. rest_plan c q order) (verify_phase fate c q checkout)"
proof -
  have "performs (rest_plan c q order) (thenT (on_failure
          (checked FulfillmentActivityResult_pyval (execute_activity 5 f 0 (fulfillment_activity c (fulfillment_input q order))))
          (execute_activity 3 g 0 (failure_activity (workflow_failure q ''FULFILLMENT_RETRY_EXHAUSTED''))))
        (returnT ()))" for order f g
    unfolding thenT_def rest_plan_def
    by (intro performs_bind_right performs_on_failure performs_checked performs_activity activity_worlds)
      (auto intro: performs_nothing)
  then have "performs (\<Union>order. rest_plan c q order) (thenT (on_failure
          (checked FulfillmentActivityResult_pyval (execute_activity 5 f 0 (fulfillment_activity c (fulfillment_input q order))))
          (execute_activity 3 g 0 (failure_activity (workflow_failure q ''FULFILLMENT_RETRY_EXHAUSTED''))))
        (returnT ()))" for order f g
    by (rule performs_mono) blast
  moreover have "performs (\<Union>order. rest_plan c q order) (returnT ())"
    by (rule performs_nothing) (auto simp: rest_plan_def)
  ultimately show ?thesis unfolding verify_phase_def by (auto split: bool.split option.split)
qed

lemma performs_reconcile_phase:
  "performs (\<Union>ref. followed_by (up_to 25 (Reconcile c (reconciliation_input q ref)))
       (up_to 3 (Fail (workflow_failure q ''CHECKOUT_RECONCILIATION_INCOMPLETE''))))
     (reconcile_phase fate c q checkout)"
proof (cases "car_reconciliation_required checkout")
  case True
  let ?ref = "car_transaction_reference checkout"
  have rounds: "performs (up_to 25 (Reconcile c (reconciliation_input q ?ref)))
      (reconcile_rounds fate c (reconciliation_input q ?ref) 0 RECONCILIATION_DELAYS_SECONDS checkout)"
    using performs_rounds [where delays = RECONCILIATION_DELAYS_SECONDS] by (simp add: RECONCILIATION_DELAYS_SECONDS_def)
  have failing: "performs (up_to 3 (Fail (workflow_failure q ''CHECKOUT_RECONCILIATION_INCOMPLETE'')))
      (thenT (if car_reconciliation_required x
              then execute_activity 3 (fate ''sira.fail_checkout_workflow'' 0) 0
                     (failure_activity (workflow_failure q ''CHECKOUT_RECONCILIATION_INCOMPLETE''))
              else returnT ()) (returnT x))" for x
    unfolding thenT_def
    by (cases "car_reconciliation_required x"; simp only: if_True if_False)
      (intro performs_bind_right performs_activity activity_worlds performs_nothing; simp)+
  have "performs (followed_by (up_to 25 (Reconcile c (reconciliation_input q ?ref)))
       (up_to 3 (Fail (workflow_failure q ''CHECKOUT_RECONCILIATION_INCOMPLETE'')))) (reconcile_phase fate c q checkout)"
    unfolding reconcile_phase_def if_P [OF True] by (rule performs_bind [OF rounds failing Nil_up_to])
  then show ?thesis by (rule performs_mono) blast
next
  case False
  then show ?thesis by (auto simp: reconcile_phase_def intro!: performs_nothing)
qed

lemma performs_checkout_workflow:
  "\<exists>xs. checkout_plan c q xs \<and> snd (purchase_checkout_workflow fate c q w) = fold run_activity xs w"
proof -
  let ?E = "up_to 1 (Execute c (PurchaseCheckoutWorkflowInput_activity_input q))"
  let ?R = "\<Union>ref. followed_by (up_to 25 (Reconcile c (reconciliation_input q ref)))
       (up_to 3 (Fail (workflow_failure q ''CHECKOUT_RECONCILIATION_INCOMPLETE'')))"
  let ?V = "\<Union>order. rest_plan c q order"
  have nil: "[] \<in> ?V" by (auto simp: rest_plan_def)
  have "performs (followed_by ?E (followed_by ?R ?V)) (purchase_checkout_workflow fate c q)"
    unfolding purchase_checkout_workflow_def thenT_def
    by (intro performs_bind_left performs_bind performs_bind_right performs_checked performs_activity activity_worlds
        performs_reconcile_phase performs_verify performs_nothing nil Nil_followed_by) auto
  then obtain xs where xs: "xs \<in> followed_by ?E (followed_by ?R ?V)"
    and w: "snd (purchase_checkout_workflow fate c q w) = fold run_activity xs w" unfolding performs_def by blast
  from xs have "checkout_plan c q xs"
    unfolding checkout_plan_def rest_plan_def followed_by_def by clarsimp (metis append.assoc)
  with w show ?thesis by blast
qed

lemma checked_Inr: "checked v m w = (Inr x, w') \<Longrightarrow> m w = (Inr x, w')"
  by (auto simp: checked_def tx_inv)

lemma verify_phase_Inr:
  assumes "verify_phase fate c q checkout w = (Inr y, w')" "ready_to_verify checkout"
  shows "\<exists>order v out. car_merchant_order_id checkout = Some order
    \<and> verify_fulfillment c (fulfillment_input q order) v = (Inr out, w')"
proof -
  from assms(2) obtain order where order: "car_merchant_order_id checkout = Some order"
    by (auto simp: ready_to_verify_def)
  with assms obtain out where "on_failure
      (checked FulfillmentActivityResult_pyval (execute_activity 5 (fate ''sira.verify_fulfillment'' 0) 0
         (fulfillment_activity c (fulfillment_input q order))))
      (execute_activity 3 (fate ''sira.fail_checkout_workflow'' 1) 0
         (failure_activity (workflow_failure q ''FULFILLMENT_RETRY_EXHAUSTED''))) w = (Inr out, w')"
    unfolding verify_phase_def by (auto simp: tx_inv)
  then have "checked FulfillmentActivityResult_pyval (execute_activity 5 (fate ''sira.verify_fulfillment'' 0) 0
         (fulfillment_activity c (fulfillment_input q order))) w = (Inr out, w')"
    unfolding on_failure_def by (auto simp: tx_inv split: prod.splits sum.splits)
  from execute_activity_Inr [OF checked_Inr [OF this]] obtain v where
    "fulfillment_activity c (fulfillment_input q order) v = (Inr out, w')" by blast
  from guarded_activity_Inr [OF this [unfolded fulfillment_activity_def]] order show ?thesis by blast
qed


definition sample_workflow :: PurchaseCheckoutWorkflowInput where
  "sample_workflow =
     \<lparr>cwi_organization_id = ''org'', cwi_purchase_intent_id = ''pi'', cwi_intent_hash = ''hash'',
      cwi_prava_session_id = ''session'', cwi_merchant_adapter_id = ''adapter'', cwi_idempotency_key = ''key''\<rparr>"

definition all_delivered :: fates where
  "all_delivered name r k = Delivered"


section \<open>The shopping workflow\<close>

lemma calls_checkpoint: "calls (snd (checkpoint q status order_id placed w)) = calls w"
  by (rule checkpoint_calls [unfolded framed_def same_calls_def, rule_format])

text \<open>Every attempt to place the order calls the tool once and fails; every status poll that returns was stored.\<close>

lemma shop_checkout_attempt:
  "\<exists>e w'. shop_checkout_activity client q w = (Inl e, w') \<and> \<not> final_failure e
     \<and> calls w' = calls w @ [checkout_call q]"
proof -
  obtain e u where body: "shop_checkout client q w = (Inl e, u)" and calls: "calls u = calls w @ [checkout_call q]"
  proof (cases "client (calls w) (checkout_call q)")
    case (Inl e)
    then show thesis
      by (intro that [of e "w\<lparr>calls := calls w @ [checkout_call q]\<rparr>"]) (simp_all add: shop_checkout_def mcp_tool_def bindT_def)
  next
    case (Inr payload)
    let ?w = "w\<lparr>calls := calls w @ [checkout_call q]\<rparr>"
    show thesis
    proof (cases "mcp_status payload")
      case (Inl e)
      with Inr show thesis by (intro that [of e ?w]) (simp_all add: shop_checkout_def mcp_tool_def bindT_def liftT_def)
    next
      case (Inr status)
      from checkpoint_placed_raises [of q status "mcp_order_id payload" ?w] obtain e u where
        u: "checkpoint q status (mcp_order_id payload) True ?w = (Inl e, u)" by blast
      with calls_checkpoint [of q status "mcp_order_id payload" True ?w] have "calls u = calls w @ [checkout_call q]"
        by simp
      then show thesis using Inr \<open>client (calls w) (checkout_call q) = Inr payload\<close> u
        by (intro that [of e u]) (simp_all add: shop_checkout_def mcp_tool_def bindT_def thenT_def liftT_def Let_def)
    qed
  qed
  then show ?thesis
    by (simp add: shop_checkout_activity_def guarded_activity_def catchT_def tx_run final_failure_def)
qed

lemma poll_attempt:
  "calls (snd (payment_status_activity client q w)) = calls w @ [status_call q]"
  "payment_status_activity client q w = (Inr st, w') \<Longrightarrow>
     psr_status st \<in> {''QUOTED'', ''AWAITING_APPROVAL'', ''QUEUED'', ''RUNNING'', ''PAID'', ''FAILED''}"
proof -
  let ?w = "w\<lparr>calls := calls w @ [status_call q]\<rparr>"
  have "calls (snd (payment_status client q w)) = calls w @ [status_call q]"
  proof (cases "client (calls w) (status_call q)")
    case (Inr payload)
    show ?thesis
    proof (cases "mcp_status payload")
      fix status
      assume "mcp_status payload = Inr status"
      with Inr calls_checkpoint [of q status None False ?w] show ?thesis
        by (cases "checkpoint q status None False ?w")
          (simp add: payment_status_def mcp_tool_def bindT_def thenT_def liftT_def returnT_def split: sum.split)
    qed (use Inr in \<open>simp add: payment_status_def mcp_tool_def bindT_def liftT_def\<close>)
  qed (simp add: payment_status_def mcp_tool_def bindT_def)
  then show "calls (snd (payment_status_activity client q w)) = calls w @ [status_call q]"
    by (cases "payment_status client q w")
      (simp add: payment_status_activity_def guarded_activity_def tx_run catchT_def split: sum.split)
next
  assume "payment_status_activity client q w = (Inr st, w')"
  then have "payment_status client q w = (Inr st, w')"
    unfolding payment_status_activity_def by (rule guarded_activity_Inr)
  then obtain y and u v :: "mcp_call world" where "checkpoint q (psr_status st) None False u = (Inr y, v)"
    unfolding payment_status_def by (auto simp: tx_inv)
  from checkpoint_Inr [OF this] show "psr_status st \<in> {''QUOTED'', ''AWAITING_APPROVAL'', ''QUEUED'', ''RUNNING'', ''PAID'', ''FAILED''}"
    by (simp add: stored_status_def)
qed

definition orders :: "PravaShoppingWorkflowInput \<Rightarrow> mcp_call world \<Rightarrow> nat" where
  "orders q w = count_list (calls w) (checkout_call q)"

lemma orders_simps:
  "calls u = calls w \<Longrightarrow> orders q u = orders q w"
  "calls u = calls w @ [status_call q] \<Longrightarrow> orders q u = orders q w"
  "calls u = calls w @ [checkout_call q] \<Longrightarrow> orders q u = Suc (orders q w)"
  by (simp_all add: orders_def status_call_def checkout_call_def)

lemma place_order:
  assumes "execute_activity n fate k (shop_checkout_activity client q) w = (r, w')"
  shows "(\<exists>e. r = Inl e) \<and> orders q w' \<le> orders q w + n
    \<and> ((\<forall>k. fate k = Delivered) \<longrightarrow> orders q w' = orders q w + n)"
  using assms
proof (induction n arbitrary: k w)
  case 0
  then have "r = Inl ActivityTimeout" "w' = w" by simp_all
  then show ?case by simp
next
  case (Suc n)
  obtain e u where u: "shop_checkout_activity client q w = (Inl e, u)" "\<not> final_failure e"
    "orders q u = Suc (orders q w)"
    using shop_checkout_attempt orders_simps(3) by blast
  show ?case
  proof (cases "fate k")
    case Delivered
    with Suc.prems u Suc.IH [of "Suc k" u] show ?thesis by (cases "n = 0") auto
  next
    case ResultLost
    with Suc.prems u Suc.IH [of "Suc k" u] show ?thesis by (auto intro: exI [of _ k])
  next
    case NeverStarted
    with Suc.prems Suc.IH [of "Suc k" w] show ?thesis by (auto intro: exI [of _ k])
  qed
qed

lemma orders_execute:
  assumes "\<And>w. orders q (snd (m w)) = orders q w"
  shows "orders q (snd (execute_activity n fate k m w)) = orders q w"
proof (induction n arbitrary: k w)
  case (Suc n)
  obtain r u where u: "m w = (r, u)" by fastforce
  with assms [of w] have "orders q u = orders q w" by simp
  with u Suc.IH [of "Suc k" u] Suc.IH [of "Suc k" w] show ?case
    by (cases "fate k"; cases r) simp_all
qed simp

lemma timeout_never_stored: "execute_activity n fate k (shopping_failed_activity q) w \<noteq> (Inr y, w')"
proof
  assume "execute_activity n fate k (shopping_failed_activity q) w = (Inr y, w')"
  from execute_activity_Inr [OF this] obtain v where "shopping_failed_activity q v = (Inr y, w')" by blast
  then have "catchT (checkpoint q ''APPROVAL_TIMEOUT'' None False)
      (\<lambda>_. ApplicationError ''PRAVA_CHECKPOINT_REDACTED_FAILURE'' False) v = (Inr y, w')"
    unfolding shopping_failed_activity_def fail_shopping_def contracts_pass thenT_def bindT_def liftT_def prod.case sum.case .
  then have "checkpoint q ''APPROVAL_TIMEOUT'' None False v = (Inr y, w')" unfolding catchT_Inr .
  note stored = checkpoint_Inr [OF this]
  show False using stored unfolding stored_status_def by simp
qed

lemma stored_upper:
  "s \<in> {''QUOTED'', ''AWAITING_APPROVAL'', ''QUEUED'', ''RUNNING'', ''PAID'', ''FAILED''} \<Longrightarrow>
     (refused_status (str_upper s) \<longleftrightarrow> s = ''FAILED'') \<and> str_upper ''FAILED'' = ''FAILED''"
  by (auto simp: refused_status_def str_upper_def) (code_simp+)

lemma poll_payment_outcome:
  assumes "poll_payment fate client q k n w = (r, w')"
  shows "(\<forall>out. r = Inr out \<longrightarrow> out = shopping_result q ''FAILED'') \<and> orders q w' \<le> orders q w + 3
    \<and> ((\<forall>k. fate ''sira.prava_shop_checkout'' 0 k = Delivered) \<longrightarrow>
         orders q w' = orders q w \<or> orders q w' = orders q w + 3)"
  using assms
proof (induction n arbitrary: k w)
  case 0
  have "orders q (snd (shopping_failed_activity q u)) = orders q u" for u
    by (intro orders_simps) (simp add: shopping_failed_activity_def fail_shopping_def tx_run calls_checkpoint)
  then have "orders q (snd (execute_activity 3 (fate ''sira.prava_checkout_failed'' 0) 0 (shopping_failed_activity q) w)) = orders q w"
    by (rule orders_execute)
  with 0 timeout_never_stored show ?case
    by (auto simp: thenT_def bindT_def returnT_def split: prod.splits sum.splits)
next
  case (Suc n)
  let ?m = "execute_activity 3 (fate ''sira.prava_payment_status'' k) 0 (payment_status_activity client q)"
  have "orders q (snd (?m w)) = orders q w"
    by (rule orders_execute) (intro orders_simps poll_attempt(1))
  show ?case
  proof (cases "?m w")
    case (Pair s u)
    with \<open>orders q (snd (?m w)) = orders q w\<close> have same: "orders q u = orders q w" by simp
    show ?thesis
    proof (cases s)
      case (Inl e)
      with Suc.prems Pair same show ?thesis by (auto simp: bindT_def)
    next
      case (Inr st)
      from execute_activity_Inr [OF Pair [unfolded Inr]] obtain v where
        "payment_status_activity client q v = (Inr st, u)" by blast
      note upper = stored_upper [OF poll_attempt(2) [OF this]]
      from Suc.prems Pair Inr have rest: "(if approved_status (str_upper (psr_status st))
          then execute_activity 3 (fate ''sira.prava_shop_checkout'' 0) 0 (shop_checkout_activity client q)
          else if refused_status (str_upper (psr_status st))
          then returnT (shopping_result q (str_upper (psr_status st)))
          else poll_payment fate client q (Suc k) n) u = (r, w')" by (simp add: bindT_def Let_def)
      consider (approved) "approved_status (str_upper (psr_status st))"
        | (refused) "\<not> approved_status (str_upper (psr_status st))" "refused_status (str_upper (psr_status st))"
        | (waiting) "\<not> approved_status (str_upper (psr_status st))" "\<not> refused_status (str_upper (psr_status st))"
        by blast
      then show ?thesis
      proof cases
        case approved
        with rest have "execute_activity 3 (fate ''sira.prava_shop_checkout'' 0) 0 (shop_checkout_activity client q) u = (r, w')"
          by (simp only: if_True)
        from place_order [OF this] same show ?thesis by (elim conjE exE) simp
      next
        case refused
        with rest have "r = Inr (shopping_result q (str_upper (psr_status st))) \<and> w' = u"
          by (simp only: if_True if_False step_simps simp_thms)
        with refused upper same show ?thesis by simp
      next
        case waiting
        with rest have "poll_payment fate client q (Suc k) n u = (r, w')" by (simp only: if_False)
        from Suc.IH [OF this] same show ?thesis by simp
      qed
    qed
  qed
qed


definition sample_shopping :: PravaShoppingWorkflowInput where
  "sample_shopping =
     \<lparr>swi_organization_id = ''org'', swi_shopping_run_id = ''run'', swi_checkout_session_id = ''cs'',
      swi_payment_session_id = ''ps''\<rparr>"

definition sample_shop :: "mcp_call world" where
  "sample_shop =
     \<lparr>rows = empty_tables\<lparr>
        tb_shopping := [\<lparr>sr_id = ''run'', sr_organization_id = ''org'', sr_status = ''QUEUED'', sr_order_id = None\<rparr>],
        tb_workflows := [\<lparr>wr_id = ''wf_prava_shop_run'', wr_organization_id = ''org'',
          wr_aggregate_type = ''prava_shopping_run'', wr_aggregate_id = ''run'', wr_operation = ''checkout'',
          wr_status = ''RUNNING'', wr_result_reference = None, wr_safe_error_code = None, wr_event_log = []\<rparr>]\<rparr>,
      added = empty_tables, tx_now = 0, reads = 0, drawn = 0, now_of = int,
      hex_of = (\<lambda>n. replicate n CHR ''a''), calls = []\<rparr>"

definition paying_client :: mcp where
  "paying_client h x = Inr [(''status'', PStr ''paid''), (''order_id'', PStr ''o'')]"


end
