(* ===== verification/UrlPolicy.thy ===== *)
theory UrlPolicy
  imports Providers
begin

text \<open>
  \<^verbatim>\<open>src/python/integrations/security.py\<close>: which addresses the provider adapters may call. The parts of
  \<^verbatim>\<open>urllib.parse\<close>, \<^verbatim>\<open>ipaddress\<close> and the \<^verbatim>\<open>idna\<close> codec it uses are written out for ASCII text.
  What they say of other characters comes from the Unicode database: the host such a name normalises to, whether an
  authority is unchanged by compatibility normalisation, and whether the other characters of an identifier are
  alphanumeric and few enough are parameters.
\<close>

record unicode_tables =
  uc_host :: "string \<Rightarrow> string option"
  uc_netloc :: "string \<Rightarrow> bool"
  uc_identifier :: "string \<Rightarrow> bool"

definition is_ascii :: "string \<Rightarrow> bool" where
  "is_ascii s = list_all (\<lambda>c. (of_char c :: nat) < 128) s"

section \<open>Hosts\<close>

text \<open>The ASCII case of the codec: labels of 1 to 63 bytes, the last of which may be empty.\<close>

definition idna_ascii :: "string \<Rightarrow> string option" where
  "idna_ascii s =
     (let labels = split_on CHR ''.'' s in
      if s = [] \<or> list_all (\<lambda>l. l \<noteq> [] \<and> length l < 64) (butlast labels) \<and> length (last labels) < 64
      then Some s else None)"

definition is_octet :: "string \<Rightarrow> bool" where
  "is_octet p =
     (p \<noteq> [] \<and> list_all is_digit p \<and> length p \<le> 3 \<and> (p = ''0'' \<or> hd p \<noteq> CHR ''0'') \<and> digits_value 0 p \<le> 255)"

definition is_ipv4 :: "string \<Rightarrow> bool" where
  "is_ipv4 s = (let parts = split_on CHR ''.'' s in length parts = 4 \<and> list_all is_octet parts)"

definition is_hextet :: "string \<Rightarrow> bool" where
  "is_hextet p = (p \<noteq> [] \<and> length p \<le> 4 \<and> list_all (\<lambda>c. is_hex_lower (lower_char c)) p)"

definition compressed_parts :: "string list \<Rightarrow> nat \<Rightarrow> bool" where
  "compressed_parts parts k =
     (let hi = (if hd parts = [] then k - 1 else k);
          lo = (if last parts = [] then length parts - k - 2 else length parts - k - 1)
      in (hd parts = [] \<longrightarrow> hi = 0) \<and> (last parts = [] \<longrightarrow> lo = 0) \<and> hi + lo < 8
         \<and> list_all is_hextet (take hi parts) \<and> list_all is_hextet (drop (length parts - lo) parts))"

definition is_ipv6_parts :: "string list \<Rightarrow> bool" where
  "is_ipv6_parts parts =
     (length parts \<le> 9
      \<and> (case filter (\<lambda>i. parts ! i = []) [1..<length parts - 1] of
           [] \<Rightarrow> length parts = 8 \<and> list_all is_hextet parts
         | [k] \<Rightarrow> compressed_parts parts k
         | _ \<Rightarrow> False))"

definition is_ipv6 :: "string \<Rightarrow> bool" where
  "is_ipv6 s =
     (let parts = split_on CHR '':'' (takeWhile (\<lambda>c. c \<noteq> CHR ''%'') s);
          scope_ok = (case after_first CHR ''%'' s of None \<Rightarrow> True | Some z \<Rightarrow> z \<noteq> [] \<and> CHR ''%'' \<notin> set z)
      in scope_ok \<and> 3 \<le> length parts
         \<and> (if CHR ''.'' \<in> set (last parts)
            then is_ipv4 (last parts) \<and> is_ipv6_parts (butlast parts @ [''0'', ''0''])
            else is_ipv6_parts parts))"

definition is_ip_address :: "string \<Rightarrow> bool" where
  "is_ip_address s = (CHR ''/'' \<notin> set s \<and> (is_ipv4 s \<or> is_ipv6 s))"

definition normalized_host :: "unicode_tables \<Rightarrow> string \<Rightarrow> string result" where
  "normalized_host tables host =
     (let normalized =
        (if is_ascii host
         then (case idna_ascii (rev (dropWhile (\<lambda>c. c = CHR ''.'') (rev host))) of
                 None \<Rightarrow> [] | Some s \<Rightarrow> str_lower s)
         else (case uc_host tables host of None \<Rightarrow> [] | Some s \<Rightarrow> s))
      in if normalized = [] then Inl (ValueError ''invalid host'')
         else if is_ip_address normalized then Inl (ValueError ''IP literal hosts are not allowed'')
         else if normalized = ''localhost'' \<or> suffix ''.localhost'' normalized
         then Inl (ValueError ''local hosts are not allowed'')
         else Inr normalized)"

section \<open>Splitting an address\<close>

record split_url =
  su_scheme :: string
  su_netloc :: string
  su_path :: string
  su_query :: string
  su_fragment :: string

definition is_alpha :: "char \<Rightarrow> bool" where
  "is_alpha c = (is_lower c \<or> is_upper c)"

definition is_scheme_char :: "char \<Rightarrow> bool" where
  "is_scheme_char c = (is_alnum c \<or> c \<in> {CHR ''+'', CHR ''-'', CHR ''.''})"

definition before :: "char \<Rightarrow> string \<Rightarrow> string" where
  "before c s = takeWhile (\<lambda>x. x \<noteq> c) s"

definition behind :: "char \<Rightarrow> string \<Rightarrow> string" where
  "behind c s = (case after_first c s of None \<Rightarrow> [] | Some r \<Rightarrow> r)"

text \<open>Leading control characters and spaces go, and tabs and line ends anywhere.\<close>

definition clean_url :: "string \<Rightarrow> string" where
  "clean_url url =
     filter (\<lambda>c. (of_char c :: nat) \<notin> {9, 10, 13}) (dropWhile (\<lambda>c. (of_char c :: nat) \<le> 32) url)"

definition split_scheme :: "string \<Rightarrow> string \<times> string" where
  "split_scheme url =
     (let s = before CHR '':'' url in
      if CHR '':'' \<in> set url \<and> s \<noteq> [] \<and> is_alpha (hd s) \<and> list_all is_scheme_char s
      then (str_lower s, behind CHR '':'' url) else ([], url))"

definition ends_netloc :: "char \<Rightarrow> bool" where
  "ends_netloc c = (c \<in> {CHR ''/'', CHR ''?'', CHR ''#''})"

text \<open>Brackets enclose an IPv6 address or, after a \<^verbatim>\<open>v\<close>, a future form; nothing else stands beside them.\<close>

definition bracketed_ok :: "string \<Rightarrow> bool" where
  "bracketed_ok netloc =
     (let open' = CHR ''['' \<in> set netloc; close = CHR '']'' \<in> set netloc;
          inner = before CHR '']'' (behind CHR ''['' netloc);
          after = behind CHR '']'' (behind CHR ''['' netloc)
      in open' = close
         \<and> (open' \<longrightarrow> before CHR ''['' netloc = [] \<and> (after = [] \<or> hd after = CHR '':'')
              \<and> (if inner \<noteq> [] \<and> hd inner = CHR ''v''
                 then before CHR ''.'' (tl inner) \<noteq> []
                      \<and> list_all (\<lambda>c. is_hex_lower (lower_char c)) (before CHR ''.'' (tl inner))
                      \<and> behind CHR ''.'' (tl inner) \<noteq> []
                 else is_ipv6 inner)))"

definition urlsplit :: "unicode_tables \<Rightarrow> string \<Rightarrow> split_url result" where
  "urlsplit tables url =
     (case split_scheme (clean_url url) of (scheme, rest) \<Rightarrow>
        let has_netloc = prefix ''//'' rest;
            netloc = (if has_netloc then takeWhile (\<lambda>c. \<not> ends_netloc c) (drop 2 rest) else []);
            rest = (if has_netloc then dropWhile (\<lambda>c. \<not> ends_netloc c) (drop 2 rest) else rest)
        in bindR (ensure (bracketed_ok netloc) (ValueError ''Invalid IPv6 URL'')) (\<lambda>_.
           bindR (ensure (is_ascii netloc \<or> uc_netloc tables netloc)
             (ValueError ''netloc contains invalid characters under NFKC normalization'')) (\<lambda>_.
           Inr \<lparr>su_scheme = scheme, su_netloc = netloc,
                su_path = before CHR ''?'' (before CHR ''#'' rest),
                su_query = behind CHR ''?'' (before CHR ''#'' rest),
                su_fragment = behind CHR ''#'' rest\<rparr>)))"

text \<open>\<^verbatim>\<open>hostname\<close> and \<^verbatim>\<open>port\<close> of an authority without \<^verbatim>\<open>@\<close>; an empty port is none.\<close>

definition host_text :: "string \<Rightarrow> string" where
  "host_text netloc =
     (if CHR ''['' \<in> set netloc then before CHR '']'' (behind CHR ''['' netloc) else before CHR '':'' netloc)"

definition hostname :: "string \<Rightarrow> string" where
  "hostname netloc =
     (let h = host_text netloc in str_lower (before CHR ''%'' h) @ dropWhile (\<lambda>c. c \<noteq> CHR ''%'') h)"

definition port_text :: "string \<Rightarrow> string" where
  "port_text netloc =
     behind CHR '':'' (if CHR ''['' \<in> set netloc then behind CHR '']'' (behind CHR ''['' netloc) else netloc)"

definition port_ok :: "string \<Rightarrow> bool" where
  "port_ok p = (p = [] \<or> list_all is_digit p \<and> digits_value 0 p = 443)"

section \<open>The policy\<close>

record HttpsUrlPolicy =
  hp_allowed_hosts :: "string list"

definition url_not_allowed :: py_error where
  "url_not_allowed = provider_error URL_NOT_ALLOWED False"

definition mk_HttpsUrlPolicy :: "unicode_tables \<Rightarrow> string list \<Rightarrow> HttpsUrlPolicy result" where
  "mk_HttpsUrlPolicy tables allowed_hosts =
     (case traverse (normalized_host tables) allowed_hosts of
        Inr (h # hs) \<Rightarrow> Inr \<lparr>hp_allowed_hosts = h # hs\<rparr>
      | _ \<Rightarrow> Inl url_not_allowed)"

definition unsplit :: "string \<Rightarrow> split_url \<Rightarrow> string" where
  "unsplit host u =
     ''https://'' @ host @ su_path u @ (if su_query u = [] then [] else CHR ''?'' # su_query u)
       @ (if su_fragment u = [] then [] else CHR ''#'' # su_fragment u)"

definition check_url :: "unicode_tables \<Rightarrow> HttpsUrlPolicy \<Rightarrow> string \<Rightarrow> bool \<Rightarrow> bool \<Rightarrow> string result" where
  "check_url tables p url allow_query allow_fragment =
     bindR (urlsplit tables url) (\<lambda>u.
     bindR (ensure (str_lower (su_scheme u) = ''https'') (ValueError ''HTTPS is required'')) (\<lambda>_.
     bindR (ensure (CHR ''@'' \<notin> set (su_netloc u)) (ValueError ''userinfo is prohibited'')) (\<lambda>_.
     bindR (ensure (hostname (su_netloc u) \<noteq> []) (ValueError ''host is required'')) (\<lambda>_.
     bindR (normalized_host tables (hostname (su_netloc u))) (\<lambda>host.
     bindR (ensure (host \<in> set (hp_allowed_hosts p)) (ValueError ''host is not allowlisted'')) (\<lambda>_.
     bindR (ensure (port_ok (port_text (su_netloc u))) (ValueError ''only port 443 is allowed'')) (\<lambda>_.
     bindR (ensure (su_query u = [] \<or> allow_query) (ValueError ''query is not allowed'')) (\<lambda>_.
     bindR (ensure (su_fragment u = [] \<or> allow_fragment) (ValueError ''fragment is not allowed'')) (\<lambda>_.
     Inr (unsplit host u))))))))))"

definition validate_url :: "unicode_tables \<Rightarrow> HttpsUrlPolicy \<Rightarrow> string \<Rightarrow> bool \<Rightarrow> bool \<Rightarrow> string result" where
  "validate_url tables p url allow_query allow_fragment =
     (case check_url tables p url allow_query allow_fragment of
        Inl _ \<Rightarrow> Inl url_not_allowed | Inr v \<Rightarrow> Inr v)"

definition identifier_char :: "char \<Rightarrow> bool" where
  "identifier_char c = (is_alnum c \<or> c \<in> {CHR ''_'', CHR ''-''})"

definition validate_identifier :: "unicode_tables \<Rightarrow> string \<Rightarrow> string result" where
  "validate_identifier tables v =
     (if v \<noteq> [] \<and> list_all (\<lambda>c. (of_char c :: nat) < 128 \<longrightarrow> identifier_char c) v
         \<and> (if is_ascii v then length v \<le> 255 else uc_identifier tables v)
      then Inr v else Inl (provider_error INVALID_REQUEST False))"

section \<open>What a validated address is\<close>

lemma before_no_sep: "c \<notin> set (before c s)"
  by (auto simp: before_def dest: set_takeWhileD)

lemma set_before: "set (before c s) \<subseteq> set s"
  by (auto simp: before_def dest: set_takeWhileD)

lemma host_char:
  assumes "c \<in> set (host_text netloc)" shows "c \<in> set netloc"
proof -
  have "set (behind x s) \<subseteq> set s" for x s
    by (auto simp: behind_def after_first_def split: list.splits)
      (metis list.set_intros(2) set_dropWhileD)
  with set_before assms show ?thesis unfolding host_text_def by (auto split: if_splits) blast+
qed

text \<open>
  The text of a validated address starts with \<^verbatim>\<open>https://\<close> and an allowlisted host; what follows the host is
  empty or starts a path, a query or a fragment, so no reader can take a longer or a different authority from it.
\<close>

definition authority_ends :: "string \<Rightarrow> bool" where
  "authority_ends rest \<longleftrightarrow> rest = [] \<or> ends_netloc (hd rest)"

lemma path_start:
  assumes "rest = dropWhile (\<lambda>c. \<not> ends_netloc c) s"
  shows "before CHR ''?'' (before CHR ''#'' rest) = [] \<or> hd (before CHR ''?'' (before CHR ''#'' rest)) = CHR ''/''"
proof (cases rest)
  case Nil
  then show ?thesis by (simp add: before_def)
next
  case (Cons x xs)
  with assms have "ends_netloc x" by (metis hd_dropWhile list.distinct(1) list.sel(1))
  with Cons show ?thesis by (auto simp: before_def ends_netloc_def)
qed

text \<open>
  C26. A validated address is the text \<^verbatim>\<open>https://\<close> followed by a host of the allowlist, after which the
  authority ends; it carries no query and no fragment unless they were allowed. The host is the normalised host
  of the address, is no IP address and not local, and the address named no user.
\<close>
theorem validated_url_allowlisted:
  assumes valid: "validate_url tables p url allow_query allow_fragment = Inr v"
  shows "\<exists>host\<in>set (hp_allowed_hosts p). \<exists>u. urlsplit tables url = Inr u \<and> v = ''https://'' @ host @ su_path u
       @ (if su_query u = [] then [] else CHR ''?'' # su_query u)
       @ (if su_fragment u = [] then [] else CHR ''#'' # su_fragment u)
     \<and> (su_path u = [] \<or> hd (su_path u) = CHR ''/'')
     \<and> CHR ''?'' \<notin> set (su_path u) \<and> CHR ''#'' \<notin> set (su_path u) \<and> CHR ''#'' \<notin> set (su_query u)
     \<and> (su_query u \<noteq> [] \<longrightarrow> allow_query) \<and> (su_fragment u \<noteq> [] \<longrightarrow> allow_fragment)
     \<and> host \<noteq> [] \<and> \<not> is_ip_address host \<and> host \<noteq> ''localhost'' \<and> \<not> suffix ''.localhost'' host
     \<and> normalized_host tables (hostname (su_netloc u)) = Inr host \<and> CHR ''@'' \<notin> set (su_netloc u)"
proof -
  from valid obtain u host where u: "urlsplit tables url = Inr u" and https: "str_lower (su_scheme u) = ''https''"
    and at: "CHR ''@'' \<notin> set (su_netloc u)" and host: "normalized_host tables (hostname (su_netloc u)) = Inr host"
    and allowed: "host \<in> set (hp_allowed_hosts p)" and flags: "su_query u = [] \<or> allow_query" "su_fragment u = [] \<or> allow_fragment"
    and v: "v = unsplit host u"
    by (auto simp: validate_url_def check_url_def bindR_Inr_iff ensure_Inr_iff split: sum.splits)
  from host have good: "host \<noteq> []" "\<not> is_ip_address host" "host \<noteq> ''localhost''" "\<not> suffix ''.localhost'' host"
    by (auto simp: normalized_host_def Let_def split: if_splits)
  obtain scheme rest where s: "split_scheme (clean_url url) = (scheme, rest)" by fastforce
  have netloc: "prefix ''//'' rest"
  proof (rule ccontr)
    assume "\<not> prefix ''//'' rest"
    with u s have "su_netloc u = []" by (auto simp: urlsplit_def Let_def bindR_Inr_iff)
    with host have "normalized_host tables [] = Inr host" by (simp add: hostname_def host_text_def before_def str_lower_def)
    then show False by (simp add: normalized_host_def is_ascii_def idna_ascii_def str_lower_def)
  qed
  define tail' where "tail' = dropWhile (\<lambda>c. \<not> ends_netloc c) (drop 2 rest)"
  from u s netloc have parts: "su_path u = before CHR ''?'' (before CHR ''#'' tail')"
    "su_query u = behind CHR ''?'' (before CHR ''#'' tail')" "su_fragment u = behind CHR ''#'' tail'"
    by (auto simp: urlsplit_def Let_def bindR_Inr_iff tail'_def)
  have "CHR ''#'' \<notin> set (su_path u)" using before_no_sep set_before unfolding parts by blast
  moreover have "CHR ''#'' \<notin> set (su_query u)"
    using before_no_sep [of "CHR ''#''" tail'] unfolding parts behind_def after_first_def
    by (auto split: option.splits list.splits) (metis list.set_intros(2) set_dropWhileD)
  ultimately show ?thesis
    using path_start [OF tail'_def] u allowed good flags host at before_no_sep [of "CHR ''?''"] unfolding v unsplit_def
    by (intro bexI [of _ host] exI [of _ u]) (auto simp: parts)
qed

definition no_tables :: unicode_tables where
  "no_tables = \<lparr>uc_host = (\<lambda>_. None), uc_netloc = (\<lambda>_. False), uc_identifier = (\<lambda>_. False)\<rparr>"

lemma validated_url_allowlisted_witness:
  "\<exists>host\<in>set [''shop.example'']. \<exists>u. urlsplit no_tables '' HTTPS://Shop.Example.:443/a?b'' = Inr u
     \<and> su_path u = ''/a'' \<and> host = ''shop.example''"
proof -
  have valid: "validate_url no_tables \<lparr>hp_allowed_hosts = [''shop.example'']\<rparr> '' HTTPS://Shop.Example.:443/a?b'' True False
      = Inr ''https://shop.example/a?b''" by code_simp
  have split: "urlsplit no_tables '' HTTPS://Shop.Example.:443/a?b''
      = Inr \<lparr>su_scheme = ''https'', su_netloc = ''Shop.Example.:443'', su_path = ''/a'', su_query = ''b'', su_fragment = []\<rparr>"
    by code_simp
  from validated_url_allowlisted [OF valid] show ?thesis by (auto simp: split)
qed

end
