(* ===== verification/MerchantRest.thy ===== *)
theory MerchantRest
  imports UrlPolicy WorkflowStore Enums
begin

text \<open>
  \<^verbatim>\<open>src/python/integrations/merchants/rest.py\<close>: the HTTP adapter of a controlled merchant. The server and
  the network are not part of the program: a request is answered by a function of the requests sent before it, with
  a response, a timeout or another transport failure.
\<close>

section \<open>HTTP\<close>

record http_request =
  hq_method :: string
  hq_url :: string
  hq_headers :: "(string \<times> string) list"
  hq_json :: "pyval option"

text \<open>A response is its status code and its body, \<open>None\<close> when the body is not JSON.\<close>

datatype http_reply = TimedOut | TransportFailed | Response int "pyval option"

type_synonym server = "http_request list \<Rightarrow> http_request \<Rightarrow> http_reply"

type_synonym 'a http = "(http_request, 'a) tx"

definition http_send :: "server \<Rightarrow> http_request \<Rightarrow> http_reply http" where
  "http_send server x w = (Inr (server (calls w) x), w\<lparr>calls := calls w @ [x]\<rparr>)"

definition object_payload :: "pyval option \<Rightarrow> ((pyval \<times> pyval) list) result" where
  "object_payload body = (case body of Some (PDict kvs) \<Rightarrow> Inr kvs | _ \<Rightarrow> Inl (provider_error INVALID_RESPONSE False))"

text \<open>\<^verbatim>\<open>payload.get(k1, payload.get(k2))\<close>: the second key only when the first is absent.\<close>

definition get_either :: "(pyval \<times> pyval) list \<Rightarrow> string \<Rightarrow> string \<Rightarrow> pyval option" where
  "get_either payload k1 k2 = (case dict_get payload k1 of Some v \<Rightarrow> Some v | None \<Rightarrow> dict_get payload k2)"

definition str_or_none :: "pyval option \<Rightarrow> string option" where
  "str_or_none v = (case v of Some (PStr s) \<Rightarrow> Some s | _ \<Rightarrow> None)"

text \<open>\<^verbatim>\<open>urllib.parse.quote(s, safe="")\<close> of UTF-8 bytes.\<close>

definition hex_upper :: "nat \<Rightarrow> char" where
  "hex_upper n = (if n < 10 then char_of (48 + n) else char_of (55 + n))"

definition quote_char :: "char \<Rightarrow> string" where
  "quote_char c =
     (if is_alnum c \<or> c \<in> {CHR ''_'', CHR ''.'', CHR ''-'', CHR ''~''} then [c]
      else [CHR ''%'', hex_upper (of_char c div 16), hex_upper (of_char c mod 16)])"

definition quote :: "string \<Rightarrow> string" where
  "quote s = concat (map quote_char s)"

section \<open>The adapter\<close>

text \<open>\<open>mt_float\<close> is \<^verbatim>\<open>str\<close> of a float.\<close>

record merchant_rest =
  mt_base_url :: string
  mt_api_key :: string
  mt_descriptor :: AdapterDescriptor
  mt_server :: server
  mt_tables :: unicode_tables
  mt_float :: "pyfloat \<Rightarrow> string"

definition invalid_response :: py_error where
  "invalid_response = provider_error INVALID_RESPONSE False"

definition strip_slashes :: "string \<Rightarrow> string" where
  "strip_slashes s = rev (dropWhile (\<lambda>c. c = CHR ''/'') (rev s))"

definition mk_merchant_rest ::
    "server \<Rightarrow> unicode_tables \<Rightarrow> (pyfloat \<Rightarrow> string) \<Rightarrow> string \<Rightarrow> string \<Rightarrow> string list \<Rightarrow> merchant_rest result" where
  "mk_merchant_rest server tables float_text base_url api_key allowed_hosts =
     bindR (ensure (str_strip api_key \<noteq> []) (provider_error CONFIGURATION_INVALID False)) (\<lambda>_.
     bindR (mk_HttpsUrlPolicy tables allowed_hosts) (\<lambda>policy.
     bindR (validate_url tables policy base_url False False) (\<lambda>url.
     bindR (AdapterDescriptor_production ''controlled_merchant'') (\<lambda>d.
     Inr \<lparr>mt_base_url = strip_slashes url, mt_api_key = api_key, mt_descriptor = d, mt_server = server,
          mt_tables = tables, mt_float = float_text\<rparr>))))"

definition merchant_headers :: "merchant_rest \<Rightarrow> (string \<times> string) list" where
  "merchant_headers a = [(''Authorization'', ''Bearer '' @ mt_api_key a), (''Accept'', ''application/json'')]"

definition merchant_call ::
    "merchant_rest \<Rightarrow> string \<Rightarrow> string \<Rightarrow> pyval option \<Rightarrow> (string \<times> string) list \<Rightarrow> (int \<times> pyval option) http" where
  "merchant_call a method path json headers =
     bindT (http_send (mt_server a)
        \<lparr>hq_method = method, hq_url = mt_base_url a @ path, hq_headers = merchant_headers a @ headers, hq_json = json\<rparr>)
       (\<lambda>reply. case reply of
          TimedOut \<Rightarrow> raiseT (provider_error ProviderErrorCode.TIMEOUT True)
        | TransportFailed \<Rightarrow> raiseT (provider_error ProviderErrorCode.UNAVAILABLE True)
        | Response status body \<Rightarrow> returnT (status, body))"

section \<open>Checkout\<close>

definition all_MerchantOutcome :: "MerchantOutcome list" where
  "all_MerchantOutcome = [MerchantOutcome.APPROVED, MerchantOutcome.DECLINED, MerchantOutcome.UNKNOWN]"

definition read_checkout :: "merchant_rest \<Rightarrow> (pyval \<times> pyval) list \<Rightarrow> MerchantCheckoutOutcome result" where
  "read_checkout a payload =
     (case get_either payload ''outcome'' ''status'' of
        Some (PStr s) \<Rightarrow>
          (case enum_of MerchantOutcome_value all_MerchantOutcome (str_upper s) of
             None \<Rightarrow> Inl (ValueError ''not a valid MerchantOutcome'')
           | Some outcome \<Rightarrow>
               mk_MerchantCheckoutOutcome
                 \<lparr>mc_outcome = outcome,
                  mc_merchant_order_id = str_or_none (get_either payload ''merchant_order_id'' ''order_id''),
                  mc_authorization_code = str_or_none (dict_get payload ''authorization_code''),
                  mc_response_code = str_or_none (dict_get payload ''response_code''),
                  mc_adapter = mt_descriptor a, mc_provider_confirmed = True\<rparr>)
      | _ \<Rightarrow> Inl (ValueError []))"

definition parse_checkout :: "merchant_rest \<Rightarrow> int \<Rightarrow> pyval option \<Rightarrow> MerchantCheckoutOutcome result" where
  "parse_checkout a status body =
     (if status = 402
      then mk_MerchantCheckoutOutcome
        \<lparr>mc_outcome = MerchantOutcome.DECLINED, mc_merchant_order_id = None, mc_authorization_code = None,
         mc_response_code = None, mc_adapter = mt_descriptor a, mc_provider_confirmed = True\<rparr>
      else bindR (raise_for_status status) (\<lambda>_.
           bindR (object_payload body) (\<lambda>payload.
           case read_checkout a payload of
             Inr outcome \<Rightarrow> Inr outcome
           | Inl e \<Rightarrow> Inl (if is_value_error e \<or> e = TypeError then invalid_response else e))))"

record card =
  cd_token :: string
  cd_cvv :: string
  cd_month :: string
  cd_year :: string

definition card_complete :: "card \<Rightarrow> bool" where
  "card_complete k = (cd_token k \<noteq> [] \<and> cd_cvv k \<noteq> [] \<and> cd_month k \<noteq> [] \<and> cd_year k \<noteq> [])"

definition checkout_json :: "MerchantCheckoutRequest \<Rightarrow> card \<Rightarrow> pyval" where
  "checkout_json q k =
     obj [(''purchase_intent_id'', PStr (mr_purchase_intent_id q)), (''prava_order_id'', PStr (mr_prava_order_id q)),
          (''amount'', PStr (mr_amount q)), (''currency'', PStr (mr_currency q)),
          (''payment_method'', obj [(''type'', PStr ''prava_network_token''), (''token'', PStr (cd_token k)),
             (''dynamic_cvv'', PStr (cd_cvv k)), (''expiry_month'', PStr (cd_month k)),
             (''expiry_year'', PStr (cd_year k))])]"

definition checkout_request :: "merchant_rest \<Rightarrow> MerchantCheckoutRequest \<Rightarrow> card \<Rightarrow> http_request" where
  "checkout_request a q k =
     \<lparr>hq_method = ''POST'', hq_url = mt_base_url a @ ''/v1/checkout'',
      hq_headers = merchant_headers a @ [(''Idempotency-Key'', mr_idempotency_key q)],
      hq_json = Some (checkout_json q k)\<rparr>"

definition uncertain_status :: "int \<Rightarrow> bool" where
  "uncertain_status s = (s \<in> {408, 409, 425, 429} \<or> 500 \<le> s)"

definition checkout_uncertain :: py_error where
  "checkout_uncertain = provider_error CHECKOUT_UNCERTAIN False"

definition checkout_with_ephemeral_card ::
    "merchant_rest \<Rightarrow> MerchantCheckoutRequest \<Rightarrow> card \<Rightarrow> MerchantCheckoutOutcome http" where
  "checkout_with_ephemeral_card a q k =
     thenT (ensureT (card_complete k) (provider_error INVALID_REQUEST False))
     (bindT (http_send (mt_server a) (checkout_request a q k)) (\<lambda>reply. case reply of
        Response status body \<Rightarrow>
          if uncertain_status status then raiseT checkout_uncertain else liftT (parse_checkout a status body)
      | _ \<Rightarrow> raiseT checkout_uncertain))"

definition reconcile_order :: "merchant_rest \<Rightarrow> MerchantCheckoutRequest \<Rightarrow> MerchantCheckoutOutcome http" where
  "reconcile_order a q =
     bindT (merchant_call a ''GET'' (''/v1/orders/by-idempotency-key/'' @ quote (mr_idempotency_key q)) None [])
       (\<lambda>(status, body). liftT (parse_checkout a status body))"

section \<open>Entitlements\<close>

text \<open>What was counted so far: external ids, quantity, and whether an access probe was verified.\<close>

type_synonym entitlement_count = "string list \<times> int \<times> bool"

definition dimension_matches :: "(pyval \<times> pyval) list \<Rightarrow> string \<Rightarrow> string option \<Rightarrow> bool" where
  "dimension_matches item name expected =
     (case expected of None \<Rightarrow> True | Some s \<Rightarrow> dict_get item name = Some (PStr s))"

definition entitlement_matches :: "EntitlementVerificationRequest \<Rightarrow> (pyval \<times> pyval) list \<Rightarrow> bool" where
  "entitlement_matches q item =
     (dict_get item ''type'' = Some (PStr (vr_entitlement_type q)) \<and> dict_get item ''status'' = Some (PStr ''active'')
      \<and> dimension_matches item ''subject_id'' (vr_subject_id q)
      \<and> dimension_matches item ''product_id'' (vr_product_id q)
      \<and> dimension_matches item ''product_version'' (vr_product_version q)
      \<and> dimension_matches item ''region'' (vr_region q) \<and> dimension_matches item ''scope'' (vr_scope q)
      \<and> (vr_require_access_probe q \<longrightarrow> dict_get item ''access_probe_verified'' = Some (PBool True)))"

definition count_entitlement ::
    "EntitlementVerificationRequest \<Rightarrow> pyval \<Rightarrow> entitlement_count \<Rightarrow> entitlement_count result" where
  "count_entitlement q x n =
     (case x of
        PDict item \<Rightarrow>
          if \<not> entitlement_matches q item then Inr n
          else (case (get_either item ''external_entitlement_id'' ''id'',
                      (case dict_get item ''quantity'' of None \<Rightarrow> PInt 1 | Some v \<Rightarrow> v), n) of
                  (Some (PStr i), PInt k, (ids, counted, probe)) \<Rightarrow>
                    if k < 1 then Inl TypeError
                    else Inr (ids @ [i], counted + k,
                              probe \<or> dict_get item ''access_probe_verified'' = Some (PBool True))
                | _ \<Rightarrow> Inl TypeError)
      | _ \<Rightarrow> Inl TypeError)"

definition entitlement_status :: "EntitlementVerificationRequest \<Rightarrow> int \<Rightarrow> EntitlementVerificationStatus" where
  "entitlement_status q counted =
     (if vr_minimum_quantity q \<le> counted then EntitlementVerificationStatus.VERIFIED
      else if 0 < counted then EntitlementVerificationStatus.PARTIAL
      else EntitlementVerificationStatus.FAILED_RETRYABLE)"

definition read_entitlements ::
    "merchant_rest \<Rightarrow> EntitlementVerificationRequest \<Rightarrow> (pyval \<times> pyval) list \<Rightarrow> EntitlementVerificationResult result" where
  "read_entitlements a q payload =
     (case dict_get payload ''entitlements'' of
        Some (PList xs) \<Rightarrow>
          (case foldR (count_entitlement q) xs ([], 0, False) of
             Inl _ \<Rightarrow> Inl invalid_response
           | Inr (ids, counted, probe) \<Rightarrow>
               mk_EntitlementVerificationResult
                 \<lparr>ev_status = entitlement_status q counted, ev_observed_quantity = counted,
                  ev_external_entitlement_ids = ids, ev_access_probe_verified = probe,
                  ev_adapter = mt_descriptor a, ev_provider_confirmed = True\<rparr>)
      | _ \<Rightarrow> Inl invalid_response)"

definition verify_entitlements ::
    "merchant_rest \<Rightarrow> EntitlementVerificationRequest \<Rightarrow> EntitlementVerificationResult http" where
  "verify_entitlements a q =
     bindT (liftT (validate_identifier (mt_tables a) (vr_merchant_order_id q))) (\<lambda>order.
     bindT (merchant_call a ''GET'' (''/v1/orders/'' @ order @ ''/entitlements'') None []) (\<lambda>(status, body).
     liftT (bindR (raise_for_status status) (\<lambda>_.
            bindR (object_payload body) (read_entitlements a q)))))"

section \<open>Refunds\<close>

definition all_RefundOutcomeStatus :: "RefundOutcomeStatus list" where
  "all_RefundOutcomeStatus =
     [RefundOutcomeStatus.PENDING, RefundOutcomeStatus.PARTIALLY_REFUNDED, RefundOutcomeStatus.REFUNDED,
      RefundOutcomeStatus.REJECTED, RefundOutcomeStatus.UNKNOWN]"

definition amount_text :: "merchant_rest \<Rightarrow> pyval option \<Rightarrow> string option" where
  "amount_text a v =
     (case v of
        None \<Rightarrow> Some ''0.00'' | Some (PStr s) \<Rightarrow> Some s | Some (PInt n) \<Rightarrow> Some (show_int n)
      | Some (PFloat f) \<Rightarrow> Some (mt_float a f) | _ \<Rightarrow> None)"

definition refund_error :: py_error where
  "refund_error = ValueError []"

definition read_refund ::
    "merchant_rest \<Rightarrow> MerchantRefundRequest \<Rightarrow> (pyval \<times> pyval) list \<Rightarrow> MerchantRefundResult result" where
  "read_refund a q payload =
     (case (dict_get payload ''status'', amount_text a (dict_get payload ''refunded_amount'')) of
        (Some (PStr s), Some raw) \<Rightarrow>
          (case (enum_of RefundOutcomeStatus_value all_RefundOutcomeStatus (str_upper s), parse_decimal raw,
                 parse_decimal (mf_amount q), dict_get payload ''refund_id'', dict_get payload ''entitlements_revoked'') of
             (Some status, Some (Dec n e), Some requested, refund_id, Some (PBool revoked)) \<Rightarrow>
               bindR (ensure (0 \<le> n) refund_error) (\<lambda>_.
               bindR (dec_less requested (Dec n e)) (\<lambda>more.
               bindR (ensure (\<not> more \<and> dict_get payload ''currency'' = Some (PStr (mf_currency q))
                        \<and> (case refund_id of Some (PStr _) \<Rightarrow> True | Some PNone \<Rightarrow> True | None \<Rightarrow> True | _ \<Rightarrow> False))
                        refund_error) (\<lambda>_.
               mk_MerchantRefundResult
                 \<lparr>rr_status = status, rr_provider_refund_id = str_or_none refund_id,
                  rr_refunded_amount = decimal_text (Dec n e), rr_currency = mf_currency q,
                  rr_entitlements_revoked = revoked, rr_adapter = mt_descriptor a,
                  rr_provider_confirmed = True\<rparr>)))
           | _ \<Rightarrow> Inl refund_error)
      | _ \<Rightarrow> Inl refund_error)"

text \<open>Every failure to read the payload is the same provider error.\<close>

definition parse_refund ::
    "merchant_rest \<Rightarrow> int \<Rightarrow> pyval option \<Rightarrow> MerchantRefundRequest \<Rightarrow> MerchantRefundResult result" where
  "parse_refund a status body q =
     bindR (raise_for_status status) (\<lambda>_.
     bindR (object_payload body) (\<lambda>payload.
     case read_refund a q payload of
       Inr r \<Rightarrow> Inr r
     | Inl e \<Rightarrow> Inl (if is_value_error e \<or> e = InvalidOperation then invalid_response else e)))"

definition request_refund :: "merchant_rest \<Rightarrow> MerchantRefundRequest \<Rightarrow> MerchantRefundResult http" where
  "request_refund a q =
     bindT (liftT (validate_identifier (mt_tables a) (mf_merchant_order_id q))) (\<lambda>order.
     bindT (merchant_call a ''POST'' (''/v1/orders/'' @ order @ ''/refunds'')
        (Some (obj [(''amount'', PStr (mf_amount q)), (''currency'', PStr (mf_currency q)),
                    (''reason_code'', PStr (mf_reason_code q))]))
        [(''Idempotency-Key'', mf_idempotency_key q)]) (\<lambda>(status, body).
     liftT (parse_refund a status body q)))"

definition reconcile_merchant_refund :: "merchant_rest \<Rightarrow> MerchantRefundRequest \<Rightarrow> MerchantRefundResult http" where
  "reconcile_merchant_refund a q =
     bindT (merchant_call a ''GET'' (''/v1/refunds/by-idempotency-key/'' @ quote (mf_idempotency_key q)) None [])
       (\<lambda>(status, body). liftT (parse_refund a status body q))"


section \<open>What is counted\<close>

text \<open>An active entitlement of the requested type that agrees with every dimension the request names.\<close>

definition matching :: "EntitlementVerificationRequest \<Rightarrow> pyval \<Rightarrow> bool" where
  "matching q x \<longleftrightarrow> (\<exists>item. x = PDict item
     \<and> dict_get item ''type'' = Some (PStr (vr_entitlement_type q)) \<and> dict_get item ''status'' = Some (PStr ''active'')
     \<and> (\<forall>(name, expected)\<in>set [(''subject_id'', vr_subject_id q), (''product_id'', vr_product_id q),
            (''product_version'', vr_product_version q), (''region'', vr_region q), (''scope'', vr_scope q)].
          expected \<noteq> None \<longrightarrow> dict_get item name = map_option PStr expected)
     \<and> (vr_require_access_probe q \<longrightarrow> dict_get item ''access_probe_verified'' = Some (PBool True)))"

lemma matching_PDict [simp]: "matching q (PDict item) = entitlement_matches q item"
  by (auto simp: matching_def entitlement_matches_def dimension_matches_def split: option.splits)

definition quantity_of :: "pyval \<Rightarrow> int" where
  "quantity_of x =
     (case x of PDict item \<Rightarrow> (case dict_get item ''quantity'' of Some (PInt k) \<Rightarrow> k | _ \<Rightarrow> 1) | _ \<Rightarrow> 0)"

definition external_id_of :: "pyval \<Rightarrow> string" where
  "external_id_of x =
     (case x of PDict item \<Rightarrow> the (str_or_none (get_either item ''external_entitlement_id'' ''id'')) | _ \<Rightarrow> [])"

definition probed :: "pyval \<Rightarrow> bool" where
  "probed x \<longleftrightarrow> (case x of PDict item \<Rightarrow> dict_get item ''access_probe_verified'' = Some (PBool True) | _ \<Rightarrow> False)"

lemma count_entitlement_Inr:
  assumes "count_entitlement q x (ids, n, b) = Inr m"
  shows "m = (if matching q x then (ids @ [external_id_of x], n + quantity_of x, b \<or> probed x) else (ids, n, b))
    \<and> (matching q x \<longrightarrow> 1 \<le> quantity_of x)"
  using assms
  by (auto simp: count_entitlement_def quantity_of_def external_id_of_def probed_def str_or_none_def
      split: pyval.splits option.splits if_splits)

lemma count_entitlements:
  "foldR (count_entitlement q) xs (ids, n, b) = Inr (ids', n', b') \<Longrightarrow>
     ids' = ids @ map external_id_of (filter (matching q) xs)
     \<and> n' = n + sum_list (map quantity_of (filter (matching q) xs))
     \<and> b' = (b \<or> (\<exists>x\<in>set xs. matching q x \<and> probed x))
     \<and> (\<forall>x\<in>set xs. matching q x \<longrightarrow> 1 \<le> quantity_of x)"
proof (induction xs arbitrary: ids n b)
  case (Cons x xs)
  then obtain m where m: "count_entitlement q x (ids, n, b) = Inr m" "foldR (count_entitlement q) xs m = Inr (ids', n', b')"
    by (auto simp: bindR_Inr_iff)
  obtain i k c where "m = (i, k, c)" by (cases m)
  with Cons.IH [of i k c] m count_entitlement_Inr [OF m(1)] show ?case by (auto split: if_splits)
qed simp

lemma quantities_positive:
  assumes "\<forall>x\<in>set xs. 1 \<le> quantity_of x"
  shows "0 < sum_list (map quantity_of xs) \<longleftrightarrow> xs \<noteq> []"
proof -
  from assms have "int (length xs) \<le> sum_list (map quantity_of xs)" by (induction xs) auto
  then show ?thesis by (cases xs) auto
qed

text \<open>
  C25. What the merchant adapter reports of an order's entitlements is what the answer of the server holds: the
  identifiers and the summed quantity of exactly the active entitlements of the requested type, subject,
  product, version, region and scope, each with a verified probe when one is required. The request is verified
  exactly when they reach the minimum, partial when there are some but too few, and to be retried when there are
  none.
\<close>
theorem entitlements_counted:
  assumes run: "verify_entitlements a q w = (Inr r, w')" and minimum: "1 \<le> vr_minimum_quantity q"
  shows "\<exists>sent status payload xs. calls w' = calls w @ [sent] \<and> hq_method sent = ''GET''
     \<and> hq_url sent = mt_base_url a @ ''/v1/orders/'' @ vr_merchant_order_id q @ ''/entitlements''
     \<and> mt_server a (calls w) sent = Response status (Some (PDict payload)) \<and> 200 \<le> status \<and> status < 300
     \<and> dict_get payload ''entitlements'' = Some (PList xs)
     \<and> ev_external_entitlement_ids r = map external_id_of (filter (matching q) xs)
     \<and> ev_observed_quantity r = sum_list (map quantity_of (filter (matching q) xs))
     \<and> (vr_require_access_probe q \<and> filter (matching q) xs \<noteq> [] \<longrightarrow> ev_access_probe_verified r)
     \<and> (ev_status r = EntitlementVerificationStatus.VERIFIED \<longleftrightarrow> vr_minimum_quantity q \<le> ev_observed_quantity r)
     \<and> (ev_status r = EntitlementVerificationStatus.FAILED_RETRYABLE \<longleftrightarrow> filter (matching q) xs = [])
     \<and> (ev_status r = EntitlementVerificationStatus.PARTIAL \<longleftrightarrow>
          filter (matching q) xs \<noteq> [] \<and> ev_observed_quantity r < vr_minimum_quantity q)"
proof -
  let ?sent = "\<lparr>hq_method = ''GET'', hq_url = mt_base_url a @ ''/v1/orders/'' @ vr_merchant_order_id q @ ''/entitlements'',
     hq_headers = merchant_headers a, hq_json = None\<rparr>"
  have id: "validate_identifier t v = Inr y \<Longrightarrow> y = v" for t v y
    by (simp add: validate_identifier_def split: if_splits)
  from run obtain status body where reply: "mt_server a (calls w) ?sent = Response status body"
    and calls: "calls w' = calls w @ [?sent]" and ok: "raise_for_status status = Inr ()"
    and read: "bindR (object_payload body) (read_entitlements a q) = Inr r"
    by (auto simp: verify_entitlements_def merchant_call_def http_send_def tx_run bindR_def dest: id
        split: sum.splits prod.splits http_reply.splits)
  from read obtain payload where body: "body = Some (PDict payload)" and read': "read_entitlements a q payload = Inr r"
    by (auto simp: bindR_Inr_iff object_payload_def split: option.splits pyval.splits)
  from read' obtain xs ids n b where xs: "dict_get payload ''entitlements'' = Some (PList xs)"
    and folded: "foldR (count_entitlement q) xs ([], 0, False) = Inr (ids, n, b)"
    and r: "ev_external_entitlement_ids r = ids" "ev_observed_quantity r = n" "ev_access_probe_verified r = b"
      "ev_status r = entitlement_status q n"
    by (auto simp: read_entitlements_def mk_EntitlementVerificationResult_def bindR_Inr_iff
        split: option.splits pyval.splits sum.splits)
  note count = count_entitlements [OF folded]
  have some: "0 < n \<longleftrightarrow> filter (matching q) xs \<noteq> []"
    using quantities_positive [of "filter (matching q) xs"] count by simp
  have probe: "matching q x \<Longrightarrow> vr_require_access_probe q \<Longrightarrow> probed x" for x
    by (auto simp: matching_def probed_def)
  have "200 \<le> status \<and> status < 300" using ok by (auto simp: raise_for_status_def split: prod.splits if_splits)
  moreover have "vr_require_access_probe q \<and> filter (matching q) xs \<noteq> [] \<longrightarrow> b"
    using count probe by (auto simp: filter_empty_conv)
  moreover have "entitlement_status q n = EntitlementVerificationStatus.VERIFIED \<longleftrightarrow> vr_minimum_quantity q \<le> n"
    "entitlement_status q n = EntitlementVerificationStatus.FAILED_RETRYABLE \<longleftrightarrow> filter (matching q) xs = []"
    "entitlement_status q n = EntitlementVerificationStatus.PARTIAL \<longleftrightarrow> filter (matching q) xs \<noteq> [] \<and> n < vr_minimum_quantity q"
    using minimum some by (auto simp: entitlement_status_def)
  ultimately show ?thesis using reply calls body xs r count
    by (intro exI [of _ ?sent] exI [of _ status] exI [of _ payload] exI [of _ xs]) simp
qed


definition sample_seats :: server where
  "sample_seats _ _ = Response 200 (Some (obj [(''entitlements'', PList
     [obj [(''type'', PStr ''seat''), (''status'', PStr ''active''), (''id'', PStr ''e1''), (''quantity'', PInt 2)],
      obj [(''type'', PStr ''seat''), (''status'', PStr ''revoked''), (''id'', PStr ''e2''), (''quantity'', PInt 5)]])]))"

definition sample_seat_merchant :: merchant_rest where
  "sample_seat_merchant =
     \<lparr>mt_base_url = ''https://shop.example'', mt_api_key = ''key'',
      mt_descriptor = \<lparr>ad_provider = ''p'', ad_mode = PRODUCTION, ad_production_capable = True, ad_production_verified = False\<rparr>,
      mt_server = sample_seats, mt_tables = no_tables, mt_float = (\<lambda>_. [])\<rparr>"

definition sample_seat_request :: EntitlementVerificationRequest where
  "sample_seat_request =
     \<lparr>vr_merchant_order_id = ''order-1'', vr_entitlement_type = ''seat'', vr_minimum_quantity = 3, vr_subject_id = None,
      vr_product_id = None, vr_product_version = None, vr_region = None, vr_scope = None, vr_require_access_probe = False\<rparr>"

definition sample_seat_world :: "http_request world" where
  "sample_seat_world =
     \<lparr>rows = empty_tables, added = empty_tables, tx_now = 0, reads = 0, drawn = 0, now_of = (\<lambda>_. 0),
      hex_of = (\<lambda>_. []), calls = []\<rparr>"

lemma entitlements_counted_witness:
  "\<exists>r. fst (verify_entitlements sample_seat_merchant sample_seat_request sample_seat_world) = Inr r
     \<and> ev_status r = EntitlementVerificationStatus.PARTIAL"
proof -
  let ?run = "verify_entitlements sample_seat_merchant sample_seat_request sample_seat_world"
  have "mapR_res ev_observed_quantity (fst ?run) = Inr 2" by code_simp
  then obtain r where r: "fst ?run = Inr r" "ev_observed_quantity r = 2" by (auto simp: mapR_res_def bindR_Inr_iff)
  have "?run = (Inr r, snd ?run)" using r(1) by (metis prod.collapse)
  from entitlements_counted [OF this] have "vr_minimum_quantity sample_seat_request \<le> 2 \<or> (\<exists>ms.
      2 = sum_list (map quantity_of ms) \<and> (ev_status r = EntitlementVerificationStatus.PARTIAL \<longleftrightarrow> ms \<noteq> []))"
    using r(2) by (force simp: sample_seat_request_def)
  moreover have "\<not> vr_minimum_quantity sample_seat_request \<le> 2" by (simp add: sample_seat_request_def)
  ultimately show ?thesis using r(1) by auto
qed

end
