(* ===== verification/PravaRest.thy ===== *)
theory PravaRest
  imports MerchantRest
begin

text \<open>
  \<^verbatim>\<open>src/python/integrations/prava/rest.py\<close>: the hosted checkout adapter and the one operation that
  holds a payment credential: it polls the session, takes the credential out of the answer, passes it to the
  merchant, reports the outcome and polls again.
\<close>

section \<open>The adapter\<close>

record prava_rest =
  pv_base_url :: string
  pv_secret_key :: string
  pv_merchant_policy :: HttpsUrlPolicy
  pv_callback_policy :: HttpsUrlPolicy
  pv_hosted_policy :: HttpsUrlPolicy
  pv_descriptor :: AdapterDescriptor
  pv_server :: server
  pv_tables :: unicode_tables

definition mk_prava_rest ::
    "server \<Rightarrow> unicode_tables \<Rightarrow> string \<Rightarrow> string list \<Rightarrow> string list \<Rightarrow> string \<Rightarrow> string list \<Rightarrow> string list \<Rightarrow>
     prava_rest result" where
  "mk_prava_rest server tables secret_key merchant_hosts callback_hosts base_url api_hosts hosted_checkout_hosts =
     bindR (ensure (str_strip secret_key \<noteq> []) (provider_error CONFIGURATION_INVALID False)) (\<lambda>_.
     bindR (mk_HttpsUrlPolicy tables api_hosts) (\<lambda>api.
     bindR (validate_url tables api base_url False False) (\<lambda>url.
     bindR (mk_HttpsUrlPolicy tables merchant_hosts) (\<lambda>merchant.
     bindR (mk_HttpsUrlPolicy tables callback_hosts) (\<lambda>callback.
     bindR (mk_HttpsUrlPolicy tables hosted_checkout_hosts) (\<lambda>hosted.
     bindR (AdapterDescriptor_production ''prava'') (\<lambda>d.
     Inr \<lparr>pv_base_url = strip_slashes url, pv_secret_key = secret_key, pv_merchant_policy = merchant,
          pv_callback_policy = callback, pv_hosted_policy = hosted, pv_descriptor = d, pv_server = server,
          pv_tables = tables\<rparr>)))))))"

definition prava_request :: "prava_rest \<Rightarrow> string \<Rightarrow> string \<Rightarrow> pyval option \<Rightarrow> http_request" where
  "prava_request p method path json =
     \<lparr>hq_method = method, hq_url = pv_base_url p @ path,
      hq_headers = [(''Authorization'', ''Bearer '' @ pv_secret_key p), (''Accept'', ''application/json'')],
      hq_json = json\<rparr>"

definition prava_call :: "prava_rest \<Rightarrow> string \<Rightarrow> string \<Rightarrow> pyval option \<Rightarrow> pyval option http" where
  "prava_call p method path json =
     bindT (http_send (pv_server p) (prava_request p method path json)) (\<lambda>reply. case reply of
        TimedOut \<Rightarrow> raiseT (provider_error ProviderErrorCode.TIMEOUT True)
      | TransportFailed \<Rightarrow> raiseT (provider_error ProviderErrorCode.UNAVAILABLE True)
      | Response status body \<Rightarrow> thenT (liftT (raise_for_status status)) (returnT body))"

section \<open>Credentials\<close>

definition secret_fields :: "string list" where
  "secret_fields = [''token'', ''dynamic_cvv'', ''expiry_month'', ''expiry_year'']"

text \<open>The payload after \<^verbatim>\<open>_scrub_credentials\<close>: the keys of a JSON object are strings.\<close>

fun scrub_credentials :: "pyval \<Rightarrow> pyval" where
  "scrub_credentials (PDict kvs) =
     PDict (map (\<lambda>(k, v). (k, if k \<in> set (map PStr secret_fields) then PNone else scrub_credentials v)) kvs)"
| "scrub_credentials (PList xs) = PList (map scrub_credentials xs)"
| "scrub_credentials v = v"

fun holds_secret :: "pyval \<Rightarrow> bool" where
  "holds_secret (PDict kvs) = list_ex (\<lambda>(k, v). k \<in> set (map PStr secret_fields) \<and> v \<noteq> PNone \<or> holds_secret v) kvs"
| "holds_secret (PList xs) = list_ex holds_secret xs"
| "holds_secret v = False"

lemma scrubbed: "\<not> holds_secret (scrub_credentials v)"
  by (induction v rule: scrub_credentials.induct) (auto simp: list_ex_iff split: if_splits)

record ephemeral_credential =
  cr_card :: "card option"
  cr_used :: bool

text \<open>What using the credential does, and the credential left behind.\<close>

definition consume ::
    "(MerchantCheckoutRequest \<Rightarrow> card \<Rightarrow> MerchantCheckoutOutcome http) \<Rightarrow> MerchantCheckoutRequest \<Rightarrow>
     ephemeral_credential \<Rightarrow> MerchantCheckoutOutcome http \<times> ephemeral_credential" where
  "consume checkout q k =
     (if cr_used k then (raiseT (provider_error INVALID_STATE False), k)
      else case cr_card k of
        Some c \<Rightarrow>
          if card_complete c then (checkout q c, \<lparr>cr_card = None, cr_used = True\<rparr>)
          else (raiseT invalid_response, k)
      | None \<Rightarrow> (raiseT invalid_response, k))"

section \<open>The payment result\<close>

definition poll_payment_result :: "prava_rest \<Rightarrow> string \<Rightarrow> ((pyval \<times> pyval) list) http" where
  "poll_payment_result p session_id =
     bindT (liftT (validate_identifier (pv_tables p) session_id)) (\<lambda>safe.
     bindT (prava_call p ''GET'' (''/v1/sessions/'' @ safe @ ''/payment-result'') None) (\<lambda>body.
     liftT (object_payload body)))"

definition all_PravaPaymentStatus :: "PravaPaymentStatus list" where
  "all_PravaPaymentStatus =
     [PravaPaymentStatus.PENDING, PravaPaymentStatus.AWAITING_RESULT, PravaPaymentStatus.COMPLETED,
      PravaPaymentStatus.FAILED]"

definition read_status :: "(pyval \<times> pyval) list \<Rightarrow> PravaPaymentStatus result" where
  "read_status payload =
     (case dict_get payload ''status'' of
        Some (PStr s) \<Rightarrow>
          (case enum_of PravaPaymentStatus_value all_PravaPaymentStatus s of
             Some status \<Rightarrow> Inr status | None \<Rightarrow> Inl invalid_response)
      | _ \<Rightarrow> Inl invalid_response)"

definition line_items_of :: "pyval \<Rightarrow> ((pyval \<times> pyval) list) list" where
  "line_items_of transaction' =
     (case transaction' of
        PDict t \<Rightarrow>
          (case dict_get t ''line_items'' of
             Some (PList xs) \<Rightarrow> concat (map (\<lambda>x. case x of PDict item \<Rightarrow> [item] | _ \<Rightarrow> []) xs)
           | _ \<Rightarrow> [])
      | _ \<Rightarrow> [])"

definition line_items :: "(pyval \<times> pyval) list \<Rightarrow> ((pyval \<times> pyval) list) list" where
  "line_items payload =
     (case dict_get payload ''transactions'' of
        Some (PList ts) \<Rightarrow> concat (map line_items_of ts)
      | _ \<Rightarrow> [])"

definition read_card :: "(pyval \<times> pyval) list \<Rightarrow> card result" where
  "read_card item =
     (case (dict_get item ''token'', dict_get item ''dynamic_cvv'', dict_get item ''expiry_month'',
            dict_get item ''expiry_year'') of
        (Some (PStr t), Some (PStr v), Some (PStr m), Some (PStr y)) \<Rightarrow>
          (let c = \<lparr>cd_token = t, cd_cvv = v, cd_month = m, cd_year = y\<rparr>
           in bindR (ensure (card_complete c) invalid_response) (\<lambda>_. Inr c))
      | _ \<Rightarrow> Inl invalid_response)"

definition merchant_url_matches :: "prava_rest \<Rightarrow> string \<Rightarrow> pyval option \<Rightarrow> bool result" where
  "merchant_url_matches p expected v =
     (case v of
        Some (PStr url) \<Rightarrow>
          bindR (validate_url (pv_tables p) (pv_merchant_policy p) url False False) (\<lambda>actual.
          Inr (actual = expected))
      | _ \<Rightarrow> Inr True)"

text \<open>An amount that is no decimal does not match; neither does a NaN.\<close>

definition amount_matches :: "string \<Rightarrow> string \<Rightarrow> bool" where
  "amount_matches actual requested =
     (case (parse_decimal actual, parse_decimal requested) of
        (Some a, Some b) \<Rightarrow> dec_eq a b
      | _ \<Rightarrow> False)"

definition text_or_absent :: "pyval option \<Rightarrow> bool" where
  "text_or_absent v = (case v of None \<Rightarrow> True | Some PNone \<Rightarrow> True | Some (PStr _) \<Rightarrow> True | _ \<Rightarrow> False)"

definition read_line_item ::
    "prava_rest \<Rightarrow> MerchantCheckoutRequest \<Rightarrow> (pyval \<times> pyval) list \<Rightarrow> (string \<times> ephemeral_credential) result" where
  "read_line_item p q item =
     (case (dict_get item ''txn_ref_id'', dict_get item ''total_amount'') of
        (Some (PStr transaction_reference), Some (PStr amount)) \<Rightarrow>
          bindR (ensure (text_or_absent (dict_get item ''merchant_url'')) invalid_response) (\<lambda>_.
          bindR (validate_url (pv_tables p) (pv_merchant_policy p) (mr_merchant_url q) False False) (\<lambda>expected.
          bindR (merchant_url_matches p expected (dict_get item ''merchant_url'')) (\<lambda>same_merchant.
          bindR (ensure (same_merchant \<and> amount_matches amount (mr_amount q)) invalid_response) (\<lambda>_.
          bindR (read_card item) (\<lambda>c.
          Inr (transaction_reference, \<lparr>cr_card = Some c, cr_used = False\<rparr>))))))
      | _ \<Rightarrow> Inl invalid_response)"

definition extract_credential ::
    "prava_rest \<Rightarrow> (pyval \<times> pyval) list \<Rightarrow> string \<Rightarrow> MerchantCheckoutRequest \<Rightarrow>
     (string \<times> ephemeral_credential) result" where
  "extract_credential p payload session_id q =
     bindR (read_status payload) (\<lambda>status.
     bindR (ensure (status \<noteq> PravaPaymentStatus.PENDING) (provider_error ProviderErrorCode.PENDING True)) (\<lambda>_.
     bindR (ensure (status = PravaPaymentStatus.AWAITING_RESULT) (provider_error INVALID_STATE False)) (\<lambda>_.
     bindR (ensure (dict_get payload ''session_id'' = Some (PStr session_id)
                    \<and> dict_get payload ''order_id'' = Some (PStr (mr_prava_order_id q))) invalid_response) (\<lambda>_.
     case line_items payload of [item] \<Rightarrow> read_line_item p q item | _ \<Rightarrow> Inl invalid_response))))"

section \<open>The report\<close>

definition report_json :: "string \<Rightarrow> MerchantCheckoutOutcome \<Rightarrow> pyval" where
  "report_json reference outcome =
     obj ([(''txn_ref_id'', PStr reference), (''txn_status'', PStr (MerchantOutcome_value (mc_outcome outcome))),
           (''txn_type'', PStr ''PURCHASE'')]
          @ (case mc_authorization_code outcome of None \<Rightarrow> [] | Some s \<Rightarrow> [(''authorization_code'', PStr s)])
          @ (case mc_response_code outcome of None \<Rightarrow> [] | Some s \<Rightarrow> [(''response_code'', PStr s)]))"

definition report :: "prava_rest \<Rightarrow> string \<Rightarrow> string \<Rightarrow> MerchantCheckoutOutcome \<Rightarrow> PravaReportResult http" where
  "report p session_id transaction_reference outcome =
     bindT (liftT (validate_identifier (pv_tables p) session_id)) (\<lambda>safe_session.
     bindT (liftT (validate_identifier (pv_tables p) transaction_reference)) (\<lambda>safe_reference.
     thenT (ensureT (mc_outcome outcome \<noteq> MerchantOutcome.UNKNOWN) (provider_error INVALID_STATE False))
     (bindT (prava_call p ''POST'' (''/v1/sessions/'' @ safe_session @ ''/report-status'')
               (Some (report_json safe_reference outcome))) (\<lambda>body.
      bindT (liftT (object_payload body)) (\<lambda>payload.
      thenT (ensureT (dict_get payload ''status'' = Some (PStr ''confirmed'')
                      \<and> dict_get payload ''txn_ref_id'' = Some (PStr safe_reference)) invalid_response)
      (liftT (mk_PravaReportResult
         \<lparr>rp_session_id = safe_session, rp_transaction_reference = safe_reference,
          rp_provider_confirmed = True, rp_adapter = pv_descriptor p\<rparr>)))))))"

definition report_known_outcome ::
    "prava_rest \<Rightarrow> string \<Rightarrow> string \<Rightarrow> MerchantCheckoutOutcome \<Rightarrow> PravaReportResult http" where
  "report_known_outcome = report"

section \<open>The isolated checkout\<close>

text \<open>The payloads of the two polls are scrubbed after they were read and then dropped.\<close>

text \<open>\<^verbatim>\<open>try\<close>: what was raised is data for its handler.\<close>

definition tryT :: "('c, 'a) tx \<Rightarrow> ('c, 'a result) tx" where
  "tryT m w = (case m w of (r, w') \<Rightarrow> (Inr r, w'))"

definition is_provider_error :: "py_error \<Rightarrow> bool" where
  "is_provider_error e = (case e of ProviderError _ _ \<Rightarrow> True | _ \<Rightarrow> False)"

definition is_checkout_uncertain :: "py_error \<Rightarrow> bool" where
  "is_checkout_uncertain e =
     (case e of ProviderError code _ \<Rightarrow> code = ProviderErrorCode_value CHECKOUT_UNCERTAIN | _ \<Rightarrow> False)"

text \<open>The merchant's outcome, unknown when the merchant could not say what happened.\<close>

definition merchant_outcome ::
    "AdapterDescriptor \<Rightarrow> MerchantCheckoutOutcome http \<Rightarrow> MerchantCheckoutOutcome http" where
  "merchant_outcome merchant m =
     bindT (tryT m) (\<lambda>reply. case reply of
        Inr outcome \<Rightarrow> returnT outcome
      | Inl e \<Rightarrow>
          if is_checkout_uncertain e
          then liftT (mk_MerchantCheckoutOutcome
            \<lparr>mc_outcome = MerchantOutcome.UNKNOWN, mc_merchant_order_id = None, mc_authorization_code = None,
             mc_response_code = None, mc_adapter = merchant, mc_provider_confirmed = False\<rparr>)
          else raiseT e)"

definition isolated_result ::
    "prava_rest \<Rightarrow> string \<Rightarrow> MerchantCheckoutRequest \<Rightarrow> string \<Rightarrow> MerchantCheckoutOutcome \<Rightarrow> bool \<Rightarrow>
     PravaPaymentStatus \<Rightarrow> bool \<Rightarrow> PravaCheckoutResult result" where
  "isolated_result p session_id q transaction_reference outcome reported final_status required =
     mk_PravaCheckoutResult
       \<lparr>pc_session_id = session_id, pc_prava_order_id = mr_prava_order_id q,
        pc_transaction_reference = transaction_reference, pc_merchant = outcome,
        pc_provider_reported = reported, pc_final_status = final_status,
        pc_reconciliation_required = required, pc_adapter = pv_descriptor p\<rparr>"

definition expected_final :: "MerchantCheckoutOutcome \<Rightarrow> PravaPaymentStatus" where
  "expected_final outcome =
     (if mc_outcome outcome = MerchantOutcome.APPROVED then PravaPaymentStatus.COMPLETED
      else PravaPaymentStatus.FAILED)"

definition finish_checkout ::
    "prava_rest \<Rightarrow> string \<Rightarrow> MerchantCheckoutRequest \<Rightarrow> string \<Rightarrow> MerchantCheckoutOutcome \<Rightarrow> PravaCheckoutResult http" where
  "finish_checkout p session_id q transaction_reference outcome =
     (if mc_outcome outcome = MerchantOutcome.UNKNOWN
      then liftT (isolated_result p session_id q transaction_reference outcome False
                    PravaPaymentStatus.AWAITING_RESULT True)
      else bindT (tryT (report p session_id transaction_reference outcome)) (\<lambda>reply. case reply of
        Inl e \<Rightarrow>
          if is_provider_error e
          then liftT (isolated_result p session_id q transaction_reference outcome False
                        PravaPaymentStatus.AWAITING_RESULT True)
          else raiseT e
      | Inr _ \<Rightarrow>
          bindT (poll_payment_result p session_id) (\<lambda>payload.
          bindT (liftT (read_status payload)) (\<lambda>final_status.
          liftT (isolated_result p session_id q transaction_reference outcome True final_status
                   (final_status \<noteq> expected_final outcome))))))"

definition hosted_checkout ::
    "prava_rest \<Rightarrow> AdapterDescriptor \<Rightarrow> (MerchantCheckoutRequest \<Rightarrow> card \<Rightarrow> MerchantCheckoutOutcome http) \<Rightarrow>
     string \<Rightarrow> MerchantCheckoutRequest \<Rightarrow> PravaCheckoutResult http" where
  "hosted_checkout p merchant checkout session_id q =
     thenT (ensureT (ad_mode merchant = AdapterMode.PRODUCTION) (provider_error FIXTURE_ONLY False))
     (bindT (poll_payment_result p session_id) (\<lambda>payload.
      bindT (liftT (extract_credential p payload session_id q)) (\<lambda>(transaction_reference, credential).
      bindT (merchant_outcome merchant (fst (consume checkout q credential))) (\<lambda>outcome.
      finish_checkout p session_id q transaction_reference outcome))))"

end
