(* ===== verification/RestLaws.thy ===== *)
theory RestLaws
  imports PravaRest Outcomes
begin

text \<open>
  What the HTTP adapters send and when: the card of a session goes to the merchant in one request and nowhere
  else, a checkout is settled only by a confirmed report, and what the coordinator's activities make of the two
  adapters together.
\<close>

section \<open>Requests\<close>

definition sent :: "http_request list \<Rightarrow> http_request world \<Rightarrow> http_request world" where
  "sent xs w = w\<lparr>calls := calls w @ xs\<rparr>"

lemma sent_simps [simp]:
  "sent [] w = w" "sent ys (sent xs w) = sent (xs @ ys) w" "calls (sent xs w) = calls w @ xs" "rows (sent xs w) = rows w"
  by (simp_all add: sent_def)

definition poll_request :: "prava_rest \<Rightarrow> string \<Rightarrow> http_request" where
  "poll_request p s = prava_request p ''GET'' (''/v1/sessions/'' @ s @ ''/payment-result'') None"

definition report_request :: "prava_rest \<Rightarrow> string \<Rightarrow> string \<Rightarrow> MerchantCheckoutOutcome \<Rightarrow> http_request" where
  "report_request p s reference outcome =
     prava_request p ''POST'' (''/v1/sessions/'' @ s @ ''/report-status'') (Some (report_json reference outcome))"

definition succeeds :: "http_reply \<Rightarrow> (pyval \<times> pyval) list \<Rightarrow> bool" where
  "succeeds reply payload \<longleftrightarrow>
     (case reply of Response status body \<Rightarrow> 200 \<le> status \<and> status < 300 \<and> body = Some (PDict payload) | _ \<Rightarrow> False)"

lemma object_payload_Inr: "object_payload body = Inr payload \<longleftrightarrow> body = Some (PDict payload)"
  by (auto simp: object_payload_def split: option.splits pyval.splits)

lemma raise_for_status_Inr: "raise_for_status s = Inr x \<longleftrightarrow> 200 \<le> s \<and> s < 300"
  by (auto simp: raise_for_status_def split: prod.splits if_splits)

lemma prava_call_steps:
  assumes "prava_call p m path j w = (r, w')"
  shows "w' = sent [prava_request p m path j] w"
    and "r = Inr body \<Longrightarrow> object_payload body = Inr payload
           \<Longrightarrow> succeeds (pv_server p (calls w) (prava_request p m path j)) payload"
proof -
  from assms show "w' = sent [prava_request p m path j] w"
    by (auto simp: prava_call_def http_send_def tx_run sent_def split: http_reply.splits sum.splits prod.splits)
  assume "r = Inr body" "object_payload body = Inr payload"
  with assms show "succeeds (pv_server p (calls w) (prava_request p m path j)) payload"
    by (auto simp: prava_call_def http_send_def tx_run succeeds_def raise_for_status_Inr object_payload_Inr
        split: http_reply.splits sum.splits prod.splits)
qed

lemma validate_identifier_Inr:
  "validate_identifier t v = Inr x \<Longrightarrow> x = v \<and> (\<forall>c\<in>set v. (of_char c :: nat) < 128 \<longrightarrow> identifier_char c)"
  by (auto simp: validate_identifier_def list_all_iff split: if_splits)

lemma poll_steps:
  assumes "poll_payment_result p s w = (r, w')"
  obtains (refused) e where "r = Inl e" "w' = w"
  | (sent) "w' = sent [poll_request p s] w" "\<And>payload. r = Inr payload \<Longrightarrow>
      succeeds (pv_server p (calls w) (poll_request p s)) payload"
proof (cases "validate_identifier (pv_tables p) s")
  case (Inl e)
  with assms have "r = Inl e" "w' = w" by (auto simp: poll_payment_result_def tx_run)
  then show thesis by (rule refused)
next
  case (Inr x)
  then have x: "x = s" using validate_identifier_Inr by blast
  obtain b u where call: "prava_call p ''GET'' (''/v1/sessions/'' @ s @ ''/payment-result'') None w = (b, u)" by force
  note steps = prava_call_steps [OF call, folded poll_request_def]
  from Inr x call assms have "w' = u" "r = bindR b object_payload"
    by (auto simp: poll_payment_result_def tx_run bindR_def split: sum.splits)
  with steps show thesis by (intro sent) (simp, metis bindR_Inr_iff)
qed

lemma report_steps:
  assumes "report p s reference outcome w = (r, w')"
  obtains (refused) e where "r = Inl e" "w' = w"
  | (sent) "w' = sent [report_request p s reference outcome] w" "mc_outcome outcome \<noteq> MerchantOutcome.UNKNOWN"
      "\<And>x. r = Inr x \<Longrightarrow> \<exists>payload. succeeds (pv_server p (calls w) (report_request p s reference outcome)) payload
         \<and> dict_get payload ''status'' = Some (PStr ''confirmed'')
         \<and> dict_get payload ''txn_ref_id'' = Some (PStr reference)"
proof (cases "validate_identifier (pv_tables p) s = Inr s \<and> validate_identifier (pv_tables p) reference = Inr reference
    \<and> mc_outcome outcome \<noteq> MerchantOutcome.UNKNOWN")
  case False
  then have "w' = w \<and> (\<exists>e. r = Inl e)"
    using assms validate_identifier_Inr [of "pv_tables p" s] validate_identifier_Inr [of "pv_tables p" reference]
    by (auto simp: report_def tx_run ensure_def split: sum.splits prod.splits if_splits)
  with refused show thesis by blast
next
  case True
  obtain b u where call: "prava_call p ''POST'' (''/v1/sessions/'' @ s @ ''/report-status'')
      (Some (report_json reference outcome)) w = (b, u)" by force
  note steps = prava_call_steps [OF call, folded report_request_def]
  from True call assms have "w' = u" "\<And>x. r = Inr x \<Longrightarrow> \<exists>body payload. b = Inr body \<and> object_payload body = Inr payload
      \<and> dict_get payload ''status'' = Some (PStr ''confirmed'')
      \<and> dict_get payload ''txn_ref_id'' = Some (PStr reference)"
    by (auto simp: report_def tx_run ensure_def split: sum.splits prod.splits if_splits)
  note ok = this
  show thesis
  proof (rule sent)
    show "w' = sent [report_request p s reference outcome] w" using ok(1) steps(1) by simp
    show "mc_outcome outcome \<noteq> MerchantOutcome.UNKNOWN" using True by simp
    fix x
    assume "r = Inr x"
    from ok(2) [OF this] steps(2) show "\<exists>payload. succeeds (pv_server p (calls w) (report_request p s reference outcome)) payload
         \<and> dict_get payload ''status'' = Some (PStr ''confirmed'')
         \<and> dict_get payload ''txn_ref_id'' = Some (PStr reference)" by blast
  qed
qed

lemma checkout_steps:
  assumes "checkout_with_ephemeral_card a q k w = (r, w')" "card_complete k"
  shows "w' = sent [checkout_request a q k] w"
  using assms by (auto simp: checkout_with_ephemeral_card_def http_send_def tx_run ensure_def sent_def
      split: http_reply.splits if_splits)

section \<open>One card, one request\<close>

text \<open>What the poll of a session must say before its card is used.\<close>

definition bound_card ::
    "prava_rest \<Rightarrow> string \<Rightarrow> MerchantCheckoutRequest \<Rightarrow> (pyval \<times> pyval) list \<Rightarrow> string \<Rightarrow> card \<Rightarrow> bool" where
  "bound_card p s q payload reference k \<longleftrightarrow>
     dict_get payload ''status'' = Some (PStr ''awaiting_result'')
     \<and> dict_get payload ''session_id'' = Some (PStr s)
     \<and> dict_get payload ''order_id'' = Some (PStr (mr_prava_order_id q))
     \<and> (\<exists>item amount expected. line_items payload = [item]
          \<and> dict_get item ''txn_ref_id'' = Some (PStr reference)
          \<and> dict_get item ''total_amount'' = Some (PStr amount) \<and> amount_matches amount (mr_amount q)
          \<and> validate_url (pv_tables p) (pv_merchant_policy p) (mr_merchant_url q) False False = Inr expected
          \<and> (\<forall>url. dict_get item ''merchant_url'' = Some (PStr url)
                \<longrightarrow> validate_url (pv_tables p) (pv_merchant_policy p) url False False = Inr expected)
          \<and> dict_get item ''token'' = Some (PStr (cd_token k))
          \<and> dict_get item ''dynamic_cvv'' = Some (PStr (cd_cvv k)))"

lemma read_status_Inr:
  "read_status payload = Inr st \<Longrightarrow> dict_get payload ''status'' = Some (PStr (PravaPaymentStatus_value st))"
  by (auto simp: read_status_def enum_of_def find_Some_iff split: option.splits pyval.splits)

lemma extract_credential_Inr:
  assumes "extract_credential p payload s q = Inr (reference, credential)"
  obtains k where "credential = \<lparr>cr_card = Some k, cr_used = False\<rparr>" "card_complete k" "bound_card p s q payload reference k"
proof -
  from assms obtain item where st: "read_status payload = Inr PravaPaymentStatus.AWAITING_RESULT"
    and ids: "dict_get payload ''session_id'' = Some (PStr s)"
      "dict_get payload ''order_id'' = Some (PStr (mr_prava_order_id q))"
    and item: "line_items payload = [item]" "read_line_item p q item = Inr (reference, credential)"
    by (auto simp: extract_credential_def bindR_Inr_iff ensure_Inr_iff split: list.splits)
  from item(2) obtain amount expected k where
    k: "dict_get item ''txn_ref_id'' = Some (PStr reference)" "dict_get item ''total_amount'' = Some (PStr amount)"
      "validate_url (pv_tables p) (pv_merchant_policy p) (mr_merchant_url q) False False = Inr expected"
      "merchant_url_matches p expected (dict_get item ''merchant_url'') = Inr True"
      "amount_matches amount (mr_amount q)" "read_card item = Inr k"
      "credential = \<lparr>cr_card = Some k, cr_used = False\<rparr>"
    by (auto simp: read_line_item_def bindR_Inr_iff ensure_Inr_iff split: option.splits pyval.splits)
  from k(6) have "card_complete k" "dict_get item ''token'' = Some (PStr (cd_token k))"
    "dict_get item ''dynamic_cvv'' = Some (PStr (cd_cvv k))"
    by (auto simp: read_card_def Let_def bindR_Inr_iff ensure_Inr_iff split: option.splits pyval.splits)
  moreover have "validate_url (pv_tables p) (pv_merchant_policy p) url False False = Inr expected"
    if "dict_get item ''merchant_url'' = Some (PStr url)" for url
    using k(4) that by (simp add: merchant_url_matches_def bindR_Inr_iff)
  ultimately show thesis using that [OF k(7)] read_status_Inr [OF st] ids item(1) k(1-3,5)
    by (simp add: bound_card_def)
qed

lemma finish_steps:
  assumes "finish_checkout p s q reference outcome w = (r, w')"
  obtains "w' = w" | "mc_outcome outcome \<noteq> MerchantOutcome.UNKNOWN" "w' = sent [report_request p s reference outcome] w"
  | "mc_outcome outcome \<noteq> MerchantOutcome.UNKNOWN"
    "w' = sent [report_request p s reference outcome, poll_request p s] w"
proof (cases "mc_outcome outcome = MerchantOutcome.UNKNOWN")
  case True
  with assms that(1) show thesis by (auto simp: finish_checkout_def tx_run)
next
  case False
  obtain x u where report: "report p s reference outcome w = (x, u)" by force
  have u: "u = w \<or> u = sent [report_request p s reference outcome] w"
    using report by (rule report_steps) simp_all
  have after: "u = sent [report_request p s reference outcome] w" if "x = Inr y" for y
    using report by (rule report_steps) (use that in simp_all)
  show thesis
  proof (cases x)
    case (Inl e)
    with assms report False have "w' = u"
      by (auto simp: finish_checkout_def tryT_def tx_run split: if_splits)
    with u that(1,2) False show thesis by blast
  next
    case (Inr y)
    obtain b v where poll: "poll_payment_result p s u = (b, v)" by force
    have v: "v = u \<or> v = sent [poll_request p s] u" using poll by (rule poll_steps) simp_all
    from Inr assms report poll False have "w' = v"
      by (auto simp: finish_checkout_def tryT_def tx_run split: sum.splits prod.splits)
    with v after [OF Inr] that(2,3) False show thesis by auto
  qed
qed

lemma finish_suffix:
  assumes "finish_checkout p s q reference outcome w = (r, w')"
  shows "\<exists>suffix. w' = sent suffix w \<and> prefix suffix [report_request p s reference outcome, poll_request p s]
    \<and> (suffix = [] \<or> mc_outcome outcome \<noteq> MerchantOutcome.UNKNOWN)"
  using assms
proof (cases rule: finish_steps)
  case 1
  then show ?thesis by (intro exI [of _ "[]"]) simp
next
  case 2
  then show ?thesis by (intro exI [of _ "[report_request p s reference outcome]"]) simp
next
  case 3
  then show ?thesis by (intro exI [of _ "[report_request p s reference outcome, poll_request p s]"]) simp
qed

lemma hosted_checkout_requests:
  assumes run: "hosted_checkout p merchant (checkout_with_ephemeral_card a) s q w = (r, w')"
  shows "\<exists>new. w' = sent new w
     \<and> (prefix new [poll_request p s]
        \<or> (\<exists>payload reference k outcome. succeeds (pv_server p (calls w) (poll_request p s)) payload
             \<and> bound_card p s q payload reference k \<and> mc_outcome outcome \<noteq> MerchantOutcome.UNKNOWN
             \<and> prefix new [poll_request p s, checkout_request a q k, report_request p s reference outcome,
                           poll_request p s]))"
proof -
  obtain b u where poll: "poll_payment_result p s w = (b, u)" by force
  have u: "u = w \<or> u = sent [poll_request p s] w" using poll by (rule poll_steps) simp_all
  show ?thesis
  proof (cases "ad_mode merchant = AdapterMode.PRODUCTION")
    case False
    with run have "w' = w" by (auto simp: hosted_checkout_def tx_run ensure_def)
    then show ?thesis by (intro exI [of _ "[]"]) simp
  next
    case real: True
    show ?thesis
    proof (cases "\<exists>payload reference credential. b = Inr payload
        \<and> extract_credential p payload s q = Inr (reference, credential)")
      case False
      with run poll real have "w' = u"
        by (auto simp: hosted_checkout_def tx_run ensure_def split: sum.splits)
      with u show ?thesis by (metis Nil_prefix prefix_order.order_refl sent_simps(1))
    next
      case True
      then obtain payload reference credential where b: "b = Inr payload"
        and ex: "extract_credential p payload s q = Inr (reference, credential)" by blast
      from extract_credential_Inr [OF ex] obtain k where k: "credential = \<lparr>cr_card = Some k, cr_used = False\<rparr>"
        "card_complete k" "bound_card p s q payload reference k" by blast
      have u': "u = sent [poll_request p s] w" and ok: "succeeds (pv_server p (calls w) (poll_request p s)) payload"
        using poll by (rule poll_steps, simp_all add: b)+
      obtain y v where pay: "checkout_with_ephemeral_card a q k u = (y, v)" by force
      from checkout_steps [OF pay k(2)] u' have v: "v = sent [poll_request p s, checkout_request a q k] w" by simp
      from run poll real b ex k pay have "(\<exists>outcome. finish_checkout p s q reference outcome v = (r, w')) \<or> w' = v"
        by (auto simp: hosted_checkout_def tx_run ensure_def consume_def merchant_outcome_def tryT_def
            split: sum.splits if_splits)
      moreover have "\<exists>outcome :: MerchantCheckoutOutcome. mc_outcome outcome \<noteq> MerchantOutcome.UNKNOWN"
        by (rule exI [of _ "\<lparr>mc_outcome = MerchantOutcome.DECLINED, mc_merchant_order_id = None,
              mc_authorization_code = None, mc_response_code = None, mc_adapter = merchant,
              mc_provider_confirmed = False\<rparr>"]) simp
      ultimately have "\<exists>outcome suffix. mc_outcome outcome \<noteq> MerchantOutcome.UNKNOWN \<and> w' = sent suffix v
          \<and> prefix suffix [report_request p s reference outcome, poll_request p s]"
        by (metis Nil_prefix finish_suffix sent_simps(1))
      then obtain outcome suffix where known: "mc_outcome outcome \<noteq> MerchantOutcome.UNKNOWN"
        and suffix: "prefix suffix [report_request p s reference outcome, poll_request p s]" "w' = sent suffix v"
        by blast
      have "prefix ([poll_request p s, checkout_request a q k] @ suffix) [poll_request p s, checkout_request a q k,
          report_request p s reference outcome, poll_request p s]" using suffix(1) by simp
      moreover have "w' = sent ([poll_request p s, checkout_request a q k] @ suffix) w" using suffix(2) v by simp
      ultimately show ?thesis using ok k(3) known by blast
    qed
  qed
qed

text \<open>
  C12. A hosted checkout sends at most four requests, in this order: a poll of the session, one checkout with the
  card, one report, one more poll. It goes beyond the poll only when the answer awaits a result, names the
  session and the order of the request, and holds exactly one line item, for the requested amount at the
  merchant's address, with the card that is then sent; the outcome it reports is known. The other requests are
  written out here: none of them holds the card.
\<close>
theorem card_sent_once:
  assumes run: "hosted_checkout p merchant (checkout_with_ephemeral_card a) s q w = (r, w')"
  shows "rows w' = rows w \<and> (\<exists>new. calls w' = calls w @ new
     \<and> (prefix new [poll_request p s]
        \<or> (\<exists>payload reference k outcome. succeeds (pv_server p (calls w) (poll_request p s)) payload
             \<and> bound_card p s q payload reference k \<and> mc_outcome outcome \<noteq> MerchantOutcome.UNKNOWN
             \<and> prefix new [poll_request p s, checkout_request a q k, report_request p s reference outcome,
                           poll_request p s])))"
  using hosted_checkout_requests [OF run] by (metis sent_simps(3,4))

section \<open>A settled checkout\<close>

lemma isolated_result_Inr:
  "isolated_result p s q reference outcome reported status required = Inr x \<Longrightarrow>
     x = \<lparr>pc_session_id = s, pc_prava_order_id = mr_prava_order_id q, pc_transaction_reference = reference,
          pc_merchant = outcome, pc_provider_reported = reported, pc_final_status = status,
          pc_reconciliation_required = required, pc_adapter = pv_descriptor p\<rparr>"
  by (auto simp: isolated_result_def mk_PravaCheckoutResult_def bindR_Inr_iff)

lemma finish_checkout_Inr:
  assumes run: "finish_checkout p s q reference outcome w = (Inr x, w')"
  obtains (open') "\<not> pc_provider_reported x" "pc_final_status x = PravaPaymentStatus.AWAITING_RESULT"
      "pc_reconciliation_required x" "pc_transaction_reference x = reference" "pc_merchant x = outcome"
  | (confirmed) payload final where "w' = sent [report_request p s reference outcome, poll_request p s] w"
      "mc_outcome outcome \<noteq> MerchantOutcome.UNKNOWN"
      "succeeds (pv_server p (calls w) (report_request p s reference outcome)) payload"
      "dict_get payload ''status'' = Some (PStr ''confirmed'')"
      "dict_get payload ''txn_ref_id'' = Some (PStr reference)"
      "succeeds (pv_server p (calls w @ [report_request p s reference outcome]) (poll_request p s)) final"
      "dict_get final ''status'' = Some (PStr (PravaPaymentStatus_value (pc_final_status x)))"
      "pc_provider_reported x" "pc_reconciliation_required x = (pc_final_status x \<noteq> expected_final outcome)"
      "pc_transaction_reference x = reference" "pc_merchant x = outcome"
proof (cases "mc_outcome outcome = MerchantOutcome.UNKNOWN")
  case True
  with run have "isolated_result p s q reference outcome False PravaPaymentStatus.AWAITING_RESULT True = Inr x"
    by (auto simp: finish_checkout_def tx_run)
  from isolated_result_Inr [OF this] show thesis by (intro open') simp_all
next
  case known: False
  obtain y u where report: "report p s reference outcome w = (y, u)" by force
  show thesis
  proof (cases y)
    case (Inl e)
    with run report known have "isolated_result p s q reference outcome False PravaPaymentStatus.AWAITING_RESULT True = Inr x"
      by (auto simp: finish_checkout_def tryT_def tx_run split: if_splits)
    from isolated_result_Inr [OF this] show thesis by (intro open') simp_all
  next
    case (Inr z)
    obtain b v where poll: "poll_payment_result p s u = (b, v)" by force
    from Inr run report poll known obtain final status where final: "b = Inr final" "read_status final = Inr status"
      and x: "isolated_result p s q reference outcome True status (status \<noteq> expected_final outcome) = Inr x" and "w' = v"
      by (auto simp: finish_checkout_def tryT_def tx_run split: sum.splits prod.splits)
    obtain payload where u: "u = sent [report_request p s reference outcome] w"
      and payload: "succeeds (pv_server p (calls w) (report_request p s reference outcome)) payload"
        "dict_get payload ''status'' = Some (PStr ''confirmed'')"
        "dict_get payload ''txn_ref_id'' = Some (PStr reference)"
      using report by (rule report_steps) (use Inr in auto)
    have "v = sent [poll_request p s] u \<and> succeeds (pv_server p (calls u) (poll_request p s)) final"
      using poll by (rule poll_steps) (use final in auto)
    with u \<open>w' = v\<close> have "w' = sent [report_request p s reference outcome, poll_request p s] w"
      "succeeds (pv_server p (calls w @ [report_request p s reference outcome]) (poll_request p s)) final" by simp_all
    with isolated_result_Inr [OF x] payload read_status_Inr [OF final(2)] known show thesis
      by (intro confirmed) simp_all
  qed
qed

text \<open>
  C13. A hosted checkout that returns is either left open (not reported, awaiting its result, to be reconciled)
  or ends with a report that the provider confirmed for the same transaction reference and a poll, and then its
  final status is the one polled; it needs no reconciliation only when that is COMPLETED after an approved and
  FAILED after a declined merchant outcome.
\<close>
theorem settled_only_when_confirmed:
  assumes run: "hosted_checkout p merchant (checkout_with_ephemeral_card a) s q w = (Inr x, w')"
  shows "\<not> pc_provider_reported x \<and> pc_final_status x = PravaPaymentStatus.AWAITING_RESULT \<and> pc_reconciliation_required x
    \<or> (let said = report_request p s (pc_transaction_reference x) (pc_merchant x) in \<exists>h payload final.
         calls w' = h @ [said, poll_request p s]
         \<and> succeeds (pv_server p h said) payload \<and> dict_get payload ''status'' = Some (PStr ''confirmed'')
         \<and> dict_get payload ''txn_ref_id'' = Some (PStr (pc_transaction_reference x))
         \<and> succeeds (pv_server p (h @ [said]) (poll_request p s)) final
         \<and> dict_get final ''status'' = Some (PStr (PravaPaymentStatus_value (pc_final_status x)))
         \<and> pc_provider_reported x \<and> mc_outcome (pc_merchant x) \<noteq> MerchantOutcome.UNKNOWN
         \<and> pc_reconciliation_required x = (pc_final_status x \<noteq>
              (if mc_outcome (pc_merchant x) = MerchantOutcome.APPROVED then PravaPaymentStatus.COMPLETED
               else PravaPaymentStatus.FAILED)))"
proof -
  from run obtain reference outcome v where "finish_checkout p s q reference outcome v = (Inr x, w')"
    by (auto simp: hosted_checkout_def tx_run ensure_def split: sum.splits prod.splits if_splits)
  then show ?thesis
  proof (cases rule: finish_checkout_Inr)
    case (confirmed payload final)
    then show ?thesis unfolding Let_def
      by (intro disjI2 exI [of _ "calls v"] exI [of _ payload] exI [of _ final]) (simp add: expected_final_def)
  qed simp
qed

section \<open>The coordinator over the two adapters\<close>

text \<open>
  A worker in the legacy mode wires the coordinator to the two adapters; the merchant adapter also refunds. The
  coordinator's model asks a provider by the history of its calls: what they sent before is replayed. A session is
  opened by the API's process, not by a worker.
\<close>

definition http_world :: "http_request list \<Rightarrow> http_request world" where
  "http_world h =
     \<lparr>rows = empty_tables, added = empty_tables, tx_now = 0, reads = 0, drawn = 0, now_of = (\<lambda>_. 0),
      hex_of = (\<lambda>_. []), calls = h\<rparr>"

definition perform :: "prava_rest \<Rightarrow> merchant_rest \<Rightarrow> provider_call \<Rightarrow> http_request list \<Rightarrow> http_request list" where
  "perform p a c h =
     (case c of
        ExecuteCheckout s m \<Rightarrow>
          calls (snd (hosted_checkout p (mt_descriptor a) (checkout_with_ephemeral_card a) s m (http_world h)))
      | ReconcileOrder m \<Rightarrow> calls (snd (reconcile_order a m (http_world h)))
      | ReportOutcome s t x \<Rightarrow> calls (snd (report_known_outcome p s t x (http_world h)))
      | VerifyEntitlements q \<Rightarrow> calls (snd (verify_entitlements a q (http_world h)))
      | RequestRefund q \<Rightarrow> calls (snd (request_refund a q (http_world h)))
      | ReconcileRefund q \<Rightarrow> calls (snd (reconcile_merchant_refund a q (http_world h)))
      | CreateSession _ \<Rightarrow> h)"

definition requests_after :: "prava_rest \<Rightarrow> merchant_rest \<Rightarrow> provider_call list \<Rightarrow> http_request list" where
  "requests_after p a cs = fold (perform p a) cs []"

definition world_after :: "prava_rest \<Rightarrow> merchant_rest \<Rightarrow> provider_call list \<Rightarrow> http_request world" where
  "world_after p a cs = http_world (requests_after p a cs)"

definition rest_providers :: "prava_rest \<Rightarrow> merchant_rest \<Rightarrow> providers" where
  "rest_providers p a =
     \<lparr>px_prava = pv_descriptor p, px_merchant = mt_descriptor a, px_reversal = Some (mt_descriptor a),
      px_execute = (\<lambda>cs s m. fst (hosted_checkout p (mt_descriptor a) (checkout_with_ephemeral_card a) s m (world_after p a cs))),
      px_reconcile = (\<lambda>cs m. fst (reconcile_order a m (world_after p a cs))),
      px_report = (\<lambda>cs s t x. fst (report_known_outcome p s t x (world_after p a cs))),
      px_verify = (\<lambda>cs q. fst (verify_entitlements a q (world_after p a cs))),
      px_refund = (\<lambda>cs q. fst (request_refund a q (world_after p a cs))),
      px_reconcile_refund = (\<lambda>cs q. fst (reconcile_merchant_refund a q (world_after p a cs)))\<rparr>"

definition legacy_coordinator :: "prava_rest \<Rightarrow> merchant_rest \<Rightarrow> coordinator \<Rightarrow> coordinator" where
  "legacy_coordinator p a c = c\<lparr>co_providers := rest_providers p a\<rparr>"

section \<open>Card requests of a purchase\<close>

definition posts_card :: "string \<Rightarrow> http_request \<Rightarrow> bool" where
  "posts_card i x =
     (case hq_json x of
        Some (PDict kvs) \<Rightarrow>
          dict_get kvs ''payment_method'' \<noteq> None \<and> dict_get kvs ''purchase_intent_id'' = Some (PStr i)
      | _ \<Rightarrow> False)"

definition card_posts :: "string \<Rightarrow> http_request list \<Rightarrow> nat" where
  "card_posts i xs = length (filter (posts_card i) xs)"

lemma card_posts_append [simp]: "card_posts i (xs @ ys) = card_posts i xs + card_posts i ys"
  by (simp add: card_posts_def)

lemma card_posts_prefix: "prefix xs ys \<Longrightarrow> card_posts i xs \<le> card_posts i ys"
  by (auto simp: prefix_def)

lemma merchant_call_sends:
  assumes "merchant_call a m path j hs w = (r, w')"
  shows "w' = sent [\<lparr>hq_method = m, hq_url = mt_base_url a @ path, hq_headers = merchant_headers a @ hs, hq_json = j\<rparr>] w"
  using assms by (auto simp: merchant_call_def http_send_def tx_run sent_def split: http_reply.splits)

lemma posts_card_simps [simp]:
  "\<not> posts_card i (poll_request p s)" "\<not> posts_card i (report_request p s t x)"
  "hq_json q = None \<Longrightarrow> \<not> posts_card i q"
  "posts_card i (checkout_request a m k) \<longleftrightarrow> mr_purchase_intent_id m = i"
  by (simp_all add: posts_card_def poll_request_def report_request_def prava_request_def report_json_def
      checkout_request_def checkout_json_def obj_def split: option.split)

definition no_card :: "string \<Rightarrow> http_request world \<Rightarrow> http_request world \<Rightarrow> bool" where
  "no_card i u v \<longleftrightarrow> (\<exists>xs. calls v = calls u @ xs \<and> card_posts i xs = 0)"

interpretation no_card_frame: frame "no_card i" for i
proof unfold_locales
  fix u v w
  assume "no_card i u v" "no_card i v w"
  then obtain xs ys where "calls w = calls u @ (xs @ ys)" "card_posts i (xs @ ys) = 0"
    by (auto simp: no_card_def)
  then show "no_card i u w" unfolding no_card_def by blast
qed (auto simp: no_card_def card_posts_def)

lemma no_card_send: "\<not> posts_card i x \<Longrightarrow> no_card i w (sent [x] w)"
  by (auto simp: no_card_def card_posts_def)

lemma no_card_merchant:
  assumes "\<not> posts_card i \<lparr>hq_method = m, hq_url = mt_base_url a @ path, hq_headers = merchant_headers a @ hs, hq_json = j\<rparr>"
  shows "framed (no_card i) (merchant_call a m path j hs)"
  by (rule framedI) (auto dest!: merchant_call_sends intro: no_card_send [OF assms])

lemma no_card_adapters:
  "framed (no_card i) (reconcile_order a m)" "framed (no_card i) (verify_entitlements a v)"
  "framed (no_card i) (request_refund a f)" "framed (no_card i) (reconcile_merchant_refund a f)"
  unfolding reconcile_order_def verify_entitlements_def request_refund_def reconcile_merchant_refund_def
  by (auto intro!: no_card_frame.rules no_card_merchant split: prod.split simp: posts_card_def obj_def)

lemma no_card_report: "framed (no_card i) (report_known_outcome p s t x)"
proof (rule framedI)
  fix w r w'
  assume "report_known_outcome p s t x w = (r, w')"
  then show "no_card i w w'" unfolding report_known_outcome_def
    by (rule report_steps) (auto intro: no_card_send no_card_frame.still)
qed

lemma no_card_calls:
  assumes "framed (no_card i) m"
  shows "card_posts i (calls (snd (m (http_world h)))) \<le> card_posts i h"
  using framedD [OF assms surjective_pairing, of "http_world h"] by (auto simp: no_card_def http_world_def)

lemma hosted_checkout_posts:
  assumes "hosted_checkout p merchant (checkout_with_ephemeral_card a) s q w = (r, w')"
  shows "card_posts i (calls w') \<le> card_posts i (calls w) + (if mr_purchase_intent_id q = i then 1 else 0)"
proof -
  from hosted_checkout_requests [OF assms] obtain new reference k outcome where
    new: "w' = sent new w" "prefix new [poll_request p s] \<or> prefix new [poll_request p s, checkout_request a q k,
       report_request p s reference outcome, poll_request p s]" by blast
  from new(2) have "card_posts i new \<le> (if mr_purchase_intent_id q = i then 1 else 0)"
    by (auto dest!: card_posts_prefix [of _ _ i] simp: card_posts_def split: if_splits)
  with new(1) show ?thesis by simp
qed

lemma perform_posts:
  "card_posts i (perform p a c h) \<le> card_posts i h + dispatches i [c]"
proof (cases c)
  case (ExecuteCheckout s m)
  show ?thesis unfolding ExecuteCheckout perform_def
    using hosted_checkout_posts [where p = p and merchant = "mt_descriptor a" and a = a and s = s and q = m
        and w = "http_world h" and i = i, OF surjective_pairing]
    by (auto simp: dispatches_def http_world_def split: if_splits)
qed (simp_all add: perform_def dispatches_def no_card_calls no_card_adapters no_card_report)

lemma requests_posts: "card_posts i (requests_after p a cs) \<le> dispatches i cs"
proof (induction cs rule: rev_induct)
  case Nil
  then show ?case by (simp add: requests_after_def card_posts_def)
next
  case (snoc c cs)
  have "dispatches i (cs @ [c]) = dispatches i cs + dispatches i [c]" by (simp add: dispatches_def)
  with snoc perform_posts [of i p a c "requests_after p a cs"] show ?case by (simp add: requests_after_def)
qed

text \<open>The same activity run by a worker in the legacy mode.\<close>

definition legacy_activity :: "prava_rest \<Rightarrow> merchant_rest \<Rightarrow> checkout_activity \<Rightarrow> checkout_activity" where
  "legacy_activity p a x =
     (case x of
        Execute c q \<Rightarrow> Execute (legacy_coordinator p a c) q
      | Reconcile c q \<Rightarrow> Reconcile (legacy_coordinator p a c) q
      | Fail q \<Rightarrow> Fail q
      | Verify c q \<Rightarrow> Verify (legacy_coordinator p a c) q
      | Refund c q \<Rightarrow> Refund (legacy_coordinator p a c) q
      | ReconcileTheRefund c q \<Rightarrow> ReconcileTheRefund (legacy_coordinator p a c) q)"

text \<open>
  C10. Whatever sequence of activities workers run over the two HTTP adapters from a start at which nothing was
  sent, in any order, with any retries and whatever the two servers answer: the requests that carry a card for
  a purchase are at most one, and none unless the purchase was awaiting its cardholder.
\<close>
theorem card_posted_at_most_once:
  assumes start: "linked (rows w)" "calls w = []"
    and run: "w' = fold run_activity (map (legacy_activity p a) xs) w"
  shows "card_posts i (requests_after p a (calls w')) \<le> (if pending_dispatch i (rows w) then 1 else 0)"
proof -
  have "dispatches i (calls w') \<le> (if pending_dispatch i (rows w) then 1 else 0)"
    using activities_budget [OF start(1), of i "map (legacy_activity p a) xs", folded run] start(2)
    by (simp add: dispatch_budget_def dispatches_def split: if_splits)
  with requests_posts [of i p a "calls w'"] show ?thesis by linarith
qed

section \<open>A checkout whose dispatch raised\<close>

lemma validate_recovery: "validate_identifier t (''reconcile:'' @ k) = Inl (provider_error INVALID_REQUEST False)"
proof -
  have "\<not> identifier_char (CHR '':'') \<and> (of_char (CHR '':'') :: nat) < 128" by code_simp
  then show ?thesis by (auto simp: validate_identifier_def)
qed

lemma report_rejects:
  assumes "validate_identifier (pv_tables p) t = Inl (provider_error INVALID_REQUEST False)"
  shows "report_known_outcome p s t x w = (Inl (provider_error INVALID_REQUEST False), w)"
proof (cases "validate_identifier (pv_tables p) s")
  case (Inl e)
  then have "e = provider_error INVALID_REQUEST False" by (auto simp: validate_identifier_def split: if_splits)
  with Inl show ?thesis by (simp add: report_known_outcome_def report_def tx_run)
qed (simp add: report_known_outcome_def report_def tx_run assms)

lemma conclude_Inr:
  assumes "conclude c org i att key r w = (Inr out, w')"
  shows "out = checkout_result i r"
proof -
  from assms obtain u where "persist_checkout_result c org i att key r w = (Inr out, u)"
    by (auto simp: conclude_def bindT_Inr thenT_Inr)
  then show ?thesis by (rule persist_Inr) auto
qed

lemma dispatch_raised:
  assumes "px_execute (co_providers c) (calls u) s m = Inl e" "dispatch c s m att u = (Inr r, v)"
  shows "pc_transaction_reference r = ''reconcile:'' @ att \<and> outcome_of r = MerchantOutcome.UNKNOWN
    \<and> pc_reconciliation_required r"
  using assms by (auto simp: dispatch_def callT_def tx_run uncertain_result_def mk_MerchantCheckoutOutcome_def
      mk_PravaCheckoutResult_def bindR_Inr_iff outcome_of_def)

lemma execute_raised:
  assumes prepared: "prepare_attempt c x w = (Inr (m, att), u)"
    and raised: "px_execute (co_providers c) (calls u) (ici_prava_session_id x) m = Inl e"
    and run: "execute_isolated_checkout c x w = (Inr out, v)"
  shows "car_transaction_reference out = ''reconcile:'' @ att"
proof -
  from run prepared obtain r u' where d: "dispatch c (ici_prava_session_id x) m att u = (Inr r, u')"
    and out: "conclude c (ici_organization_id x) (ici_purchase_intent_id x) att (ici_idempotency_key x) r u' = (Inr out, v)"
    by (auto simp: execute_isolated_checkout_def bindT_Inr thenT_Inr)
  from conclude_Inr [OF out] dispatch_raised [OF raised d] show ?thesis by (simp add: checkout_result_def)
qed

definition idle :: "'c world \<Rightarrow> 'c world \<Rightarrow> bool" where
  "idle u v \<longleftrightarrow> rows v = rows u \<and> added v = added u"

interpretation idle_frame: frame idle
  by unfold_locales (simp_all add: idle_def)

lemma idle_transaction:
  assumes "framed idle body" "transaction org body w = (Inr x, w')"
  shows "rows w' = rows w"
proof -
  from assms(2) obtain u where "body (begin_tx w) = (Inr x, u)" "rows w' = both u" by (auto elim: transaction_both)
  with framedD [OF assms(1)] show ?thesis by (fastforce simp: idle_def both_def)
qed

lemma load_keeps:
  assumes "load_reconciliation_state k w = (Inr y, u)"
  shows "rows u = rows w" "calls u = calls w"
proof -
  show "calls u = calls w" using framedD [OF quiet_load assms] by (simp add: quiet_def)
  show "rows u = rows w"
    using assms unfolding load_reconciliation_state_def get_purchase_intent_def
    by (rule idle_transaction [rotated]) (auto intro!: idle_frame.rules split: option.split)
qed

lemma reconcile_Inr:
  assumes "reconcile_checkout c k w = (Inr out, w')"
  obtains m att u outcome confirmed where "load_reconciliation_state k w = (Inr (m, att), u)"
    "px_reconcile (co_providers c) (calls u) m = Inr outcome"
    "mc_outcome outcome = MerchantOutcome.UNKNOWN \<and> confirmed = None
     \<or> (\<exists>cs y. px_report (co_providers c) cs (rai_prava_session_id k) (rai_transaction_reference k) outcome = Inr y)"
    "car_merchant_outcome out = SafeMerchantOutcome_of (mc_outcome outcome)"
    "car_reconciliation_required out = (confirmed \<noteq> Some True)"
proof -
  from assms obtain m att u outcome confirmed z v v' v'' where
    l: "load_reconciliation_state k w = (Inr (m, att), u)"
    and o: "px_reconcile (co_providers c) (calls u) m = Inr outcome"
    and asked: "(if mc_outcome outcome = MerchantOutcome.UNKNOWN then returnT None
        else bindT (callT (ReportOutcome (rai_prava_session_id k) (rai_transaction_reference k) outcome)
               (\<lambda>h. px_report (co_providers c) h (rai_prava_session_id k) (rai_transaction_reference k) outcome))
             (\<lambda>report. bindT (liftT report) (\<lambda>p. returnT (Some (rp_provider_confirmed p))))) v'' = (Inr confirmed, v')"
    and r: "result_of_reconciliation c k m outcome confirmed = Inr z"
    and d: "conclude c (rai_organization_id k) (rai_purchase_intent_id k) att (rai_idempotency_key k) z v = (Inr out, w')"
    by (clarsimp simp: reconcile_checkout_def bindT_Inr thenT_Inr callT_def)
  from asked have p: "mc_outcome outcome = MerchantOutcome.UNKNOWN \<and> confirmed = None
      \<or> (\<exists>cs y. px_report (co_providers c) cs (rai_prava_session_id k) (rai_transaction_reference k) outcome = Inr y)"
    by (auto simp: bindT_Inr callT_def split: if_splits)
  from r have "outcome_of z = mc_outcome outcome" "pc_reconciliation_required z = (confirmed \<noteq> Some True)"
    by (auto simp: result_of_reconciliation_def mk_PravaCheckoutResult_def bindR_Inr_iff outcome_of_def)
  with conclude_Inr [OF d] l o p that show thesis by (simp add: checkout_result_def)
qed


section \<open>Two adapters and their servers\<close>

definition sample_rest_merchant :: merchant_rest where
  "sample_rest_merchant =
     \<lparr>mt_base_url = ''https://shop.example'', mt_api_key = ''key'', mt_descriptor = sample_adapter,
      mt_server = (\<lambda>_ _. Response 200 (Some (obj [(''outcome'', PStr ''approved''), (''order_id'', PStr ''order'')]))),
      mt_tables = no_tables, mt_float = (\<lambda>_. [])\<rparr>"

definition sample_awaiting :: pyval where
  "sample_awaiting =
     obj [(''status'', PStr ''awaiting_result''), (''session_id'', PStr ''session''), (''order_id'', PStr ''prava''),
          (''transactions'', PList [obj [(''line_items'', PList [obj [(''txn_ref_id'', PStr ''txn''),
             (''total_amount'', PStr ''12.5''), (''token'', PStr ''t''), (''dynamic_cvv'', PStr ''1''),
             (''expiry_month'', PStr ''2''), (''expiry_year'', PStr ''3'')]])]])]"

definition sample_server :: server where
  "sample_server h x =
     (if hq_method x = ''POST''
      then Response 200 (Some (obj [(''status'', PStr ''confirmed''), (''txn_ref_id'', PStr ''txn'')]))
      else if h = [] then Response 200 (Some sample_awaiting)
      else Response 200 (Some (obj [(''status'', PStr ''completed'')])))"

definition sample_rest_prava :: "server \<Rightarrow> prava_rest" where
  "sample_rest_prava server =
     (let policy = \<lparr>hp_allowed_hosts = [''shop.example'']\<rparr> in
      \<lparr>pv_base_url = ''https://prava.example'', pv_secret_key = ''secret'', pv_merchant_policy = policy,
       pv_callback_policy = policy, pv_hosted_policy = policy, pv_descriptor = sample_adapter,
       pv_server = server, pv_tables = no_tables\<rparr>)"

definition sample_request :: MerchantCheckoutRequest where
  "sample_request =
     \<lparr>mr_purchase_intent_id = ''pi'', mr_prava_order_id = ''prava'', mr_idempotency_key = ''key'',
      mr_merchant_url = ''https://shop.example'', mr_amount = ''12.50'', mr_currency = ''USD''\<rparr>"

definition sample_hosted :: "PravaCheckoutResult result \<times> http_request world" where
  "sample_hosted =
     hosted_checkout (sample_rest_prava sample_server) sample_adapter (checkout_with_ephemeral_card sample_rest_merchant)
       ''session'' sample_request (http_world [])"

definition sample_settled :: PravaCheckoutResult where
  "sample_settled =
     \<lparr>pc_session_id = ''session'', pc_prava_order_id = ''prava'', pc_transaction_reference = ''txn'',
      pc_merchant = sample_outcome, pc_provider_reported = True, pc_final_status = PravaPaymentStatus.COMPLETED,
      pc_reconciliation_required = False, pc_adapter = sample_adapter\<rparr>"

lemma sample_hosted_result: "fst sample_hosted = Inr sample_settled"
  by code_simp

lemma sample_hosted_calls: "length (calls (snd sample_hosted)) = 4"
  by code_simp

lemma sample_hosted_run:
  "hosted_checkout (sample_rest_prava sample_server) sample_adapter (checkout_with_ephemeral_card sample_rest_merchant)
     ''session'' sample_request (http_world []) = (Inr sample_settled, snd sample_hosted)"
  using sample_hosted_result unfolding sample_hosted_def by (metis prod.collapse)

lemma card_sent_once_witness:
  "\<exists>k. calls (snd sample_hosted) ! 1 = checkout_request sample_rest_merchant sample_request k"
proof -
  from card_sent_once [OF sample_hosted_run] have "\<exists>new. calls (snd sample_hosted) = new
     \<and> (prefix new [poll_request (sample_rest_prava sample_server) ''session'']
        \<or> (\<exists>reference k outcome. prefix new [poll_request (sample_rest_prava sample_server) ''session'',
               checkout_request sample_rest_merchant sample_request k,
               report_request (sample_rest_prava sample_server) ''session'' reference outcome,
               poll_request (sample_rest_prava sample_server) ''session'']))"
    by (auto simp: http_world_def)
  moreover from sample_hosted_calls obtain x1 x2 x3 x4 where "calls (snd sample_hosted) = [x1, x2, x3, x4]"
    by (auto simp: numeral_eq_Suc length_Suc_conv)
  ultimately show ?thesis by auto
qed

lemma settled_only_when_confirmed_witness:
  "\<exists>h. calls (snd sample_hosted) =
     h @ [report_request (sample_rest_prava sample_server) ''session'' ''txn'' sample_outcome,
          poll_request (sample_rest_prava sample_server) ''session'']"
  using settled_only_when_confirmed [OF sample_hosted_run] by (auto simp: sample_settled_def Let_def)

lemma card_posted_at_most_once_witness:
  "card_posts ''pi'' (requests_after (sample_rest_prava sample_server) sample_rest_merchant (calls (fold run_activity
     (map (legacy_activity (sample_rest_prava sample_server) sample_rest_merchant)
        [Execute sample_coordinator sample_input, Execute sample_coordinator sample_input]) sample_start))) \<le> 1"
proof -
  have "calls sample_start = []" by (simp add: sample_start_def)
  from card_posted_at_most_once [OF sample_linked this refl, of "''pi''" "sample_rest_prava sample_server" sample_rest_merchant
      "[Execute sample_coordinator sample_input, Execute sample_coordinator sample_input]"]
  show ?thesis by (simp split: if_splits)
qed

definition sample_timed_out :: coordinator where
  "sample_timed_out = legacy_coordinator (sample_rest_prava (\<lambda>_ _. TimedOut)) sample_rest_merchant sample_coordinator"

definition sample_recovery :: ReconcileActivityInput where
  "sample_recovery = sample_reconcile\<lparr>rai_transaction_reference := ''reconcile:payatt_''\<rparr>"

definition sample_raised :: "CheckoutActivityResult result \<times> provider_call world" where
  "sample_raised = execute_isolated_checkout sample_timed_out sample_input sample_start"

definition sample_request_of :: "MerchantCheckoutRequest \<times> string" where
  "sample_request_of =
     (\<lparr>mr_purchase_intent_id = ''pi'', mr_prava_order_id = ''prava'', mr_idempotency_key = ''key'',
       mr_merchant_url = ir_merchant_url sample_row, mr_amount = ''12.50'', mr_currency = ir_currency sample_row\<rparr>, ''payatt_'')"

lemma sample_prepared:
  "fst (prepare_attempt sample_timed_out sample_input sample_start) = Inr sample_request_of"
  by code_simp

lemma sample_dispatch_raised:
  "px_execute (co_providers sample_timed_out) [] ''session'' (fst sample_request_of)
     = Inl (provider_error ProviderErrorCode.TIMEOUT True)"
  by code_simp

lemma sample_loaded:
  "fst (load_reconciliation_state sample_recovery (snd sample_raised)) = Inr sample_request_of"
  by code_simp

lemma sample_approved:
  "mapR_res mc_outcome (px_reconcile (co_providers sample_timed_out) (calls (snd sample_raised)) (fst sample_request_of))
     = Inr MerchantOutcome.APPROVED"
  by code_simp

lemma sample_reference:
  "mapR_res car_transaction_reference (fst sample_raised) = Inr ''reconcile:payatt_''"
  by code_simp


end
