(* ===== verification/Approvals.thy ===== *)
theory Approvals
  imports Checkout
begin

text \<open>
  The approval half of the API's purchase service, \<^verbatim>\<open>services/api/sira_api/service.py\<close>: a
  request for approval of one exact intent, its ordered stages, rejection, revocation and expiry. The
  handlers share the tables, the transactions and the repository of the worker; they run in processes of
  their own, so any of them may run between two activities.
\<close>

section \<open>Callers, replies and the service\<close>

text \<open>
  The verified identity of a request with its idempotency key; \<open>ca_raced\<close> is what the savepoint of
  \<^verbatim>\<open>claim_idempotency\<close> meets when another request takes the same key meanwhile.
\<close>

record caller =
  ca_organization_id :: string
  ca_actor_id :: string
  ca_roles :: "string list"
  ca_step_up :: bool
  ca_key :: string
  ca_raced :: "IdempotencyRecord option option"

type_synonym reply = "int \<times> (string \<times> pyval) list"

record ApprovalCreate =
  ac_intent_hash :: string
  ac_actor_role :: string

record ApprovalRejectCreate =
  ax_intent_hash :: string
  ax_actor_role :: string
  ax_reason :: string

text \<open>
  \<^verbatim>\<open>content_hash\<close>, and the fixed clock of quote-bound operations in the demonstration mode
  (otherwise quotes and everything else read the host's clock).
\<close>

record approval_service =
  as_hash :: "pyval \<Rightarrow> string result"
  as_quote_clock :: "int option"

definition quote_now :: "approval_service \<Rightarrow> ('c, int) tx" where
  "quote_now s = (case as_quote_clock s of Some t \<Rightarrow> returnT t | None \<Rightarrow> utcnow)"

definition missing :: "string \<Rightarrow> py_error" where
  "missing kind = ApiProblem (kind @ ''_NOT_FOUND'') 404"

definition not_found :: "string \<Rightarrow> ('c, 'a) tx \<Rightarrow> ('c, 'a) tx" where
  "not_found kind m w =
     (case m w of (Inl RecordNotFound, w') \<Rightarrow> (Inl (missing kind), w') | other \<Rightarrow> other)"

definition get_decision :: "string \<Rightarrow> string \<Rightarrow> ('c, DecisionRow) tx" where
  "get_decision org decision_id =
     select tb_decisions (\<lambda>d. dr_id d = decision_id \<and> dr_organization_id d = org) one_or_missing"

text \<open>The newest version of the request's decisions must be the one the intent was locked from.\<close>

definition require_current_decision :: "string \<Rightarrow> DecisionRow \<Rightarrow> ('c, unit) tx" where
  "require_current_decision org decision =
     bindT (getT (\<lambda>t. latest dr_version (filter (\<lambda>d. dr_organization_id d = org
         \<and> dr_purchase_request_id d = dr_purchase_request_id decision) (tb_decisions t)))) (\<lambda>current.
     case current of
       None \<Rightarrow> raiseT NoResultFound
     | Some d \<Rightarrow> ensureT (dr_id d = dr_id decision) (ApiProblem ''DECISION_SUPERSEDED'' 409))"

text \<open>
  A handler's guard against replays: a completed claim answers with the stored response, a fresh one runs the
  handler's body on its record.
\<close>

definition replayed :: "int \<Rightarrow> IdempotencyRecord \<Rightarrow> reply" where
  "replayed usual r =
     ((case im_response_status r of None \<Rightarrow> usual | Some n \<Rightarrow> if n = 0 then usual else n),
      (case im_response_payload r of None \<Rightarrow> [] | Some p \<Rightarrow> p))"

definition idempotently ::
    "caller \<Rightarrow> string \<Rightarrow> string \<Rightarrow> int \<Rightarrow> (IdempotencyRecord \<Rightarrow> ('c, reply) tx) \<Rightarrow> ('c, reply) tx" where
  "idempotently c operation request_hash usual body =
     bindT (claim_idempotency (ca_organization_id c) (ca_raced c) (ca_actor_id c) operation (ca_key c) request_hash)
       (\<lambda>claim. if ic_replay claim then returnT (replayed usual (ic_record claim)) else body (ic_record claim))"

definition answer :: "caller \<Rightarrow> IdempotencyRecord \<Rightarrow> int \<Rightarrow> (string \<times> pyval) list \<Rightarrow> string \<Rightarrow> ('c, reply) tx" where
  "answer c r status response reference =
     thenT (complete_idempotency (ca_organization_id c) r status response (Some reference)) (returnT (status, response))"

text \<open>\<^verbatim>\<open>datetime.isoformat()\<close>, with the seconds of an offset that has them.\<close>

definition offset_text :: "int \<Rightarrow> string" where
  "offset_text off =
     (let n = abs off; sec = n div 1000000; us = n mod 1000000
      in (if off < 0 then ''-'' else ''+'') @ pad 2 (sec div 3600) @ '':'' @ pad 2 (sec div 60 mod 60)
         @ (if sec mod 60 = 0 \<and> us = 0 then [] else '':'' @ pad 2 (sec mod 60))
         @ (if us = 0 then [] else CHR ''.'' # pad 6 us))"

definition isoformat :: "py_datetime \<Rightarrow> string" where
  "isoformat t =
     (let tod = dt_local t mod day_us; us = tod mod 1000000; sec = tod div 1000000
      in date_isoformat (dt_date t) @ ''T'' @ pad 2 (sec div 3600) @ '':'' @ pad 2 (sec div 60 mod 60)
         @ '':'' @ pad 2 (sec mod 60) @ (if us = 0 then [] else CHR ''.'' # pad 6 us)
         @ (case dt_offset t of None \<Rightarrow> [] | Some off \<Rightarrow> offset_text off))"

definition approval_view :: "ApprovalRequest \<Rightarrow> (string \<times> pyval) list" where
  "approval_view a =
     [(''id'', PStr (ar_id a)), (''purchase_intent_id'', PStr (ar_purchase_intent_id a)),
      (''intent_hash'', PStr (ar_intent_hash a)), (''status'', PStr (ar_status a)),
      (''required_roles'', PList (map PStr (ar_required_roles a))),
      (''approved_roles'', PList (map PStr (ar_approved_roles a))),
      (''expires_at'', PStr (isoformat (ar_expires_at a)))]"

text \<open>The host's time plus some seconds; past the year 9999 the addition overflows.\<close>

definition later_by :: "int \<Rightarrow> int \<Rightarrow> py_datetime result" where
  "later_by now seconds =
     (let u = now + seconds * 1000000
      in if max_local_us < u then Inl OverflowError else Inr \<lparr>dt_local = u, dt_offset = Some 0\<rparr>)"

section \<open>Requesting approval\<close>

text \<open>The roles of the brief's required approvals, in its order.\<close>

definition required_role :: "pyval \<Rightarrow> string option" where
  "required_role v =
     (case v of
        PDict kvs \<Rightarrow>
          (case (dict_get kvs ''required'', dict_get kvs ''role'') of
             (Some (PBool True), Some (PStr role)) \<Rightarrow> Some role
           | _ \<Rightarrow> None)
      | _ \<Rightarrow> None)"

definition approval_roles :: "PurchaseBriefVersion \<Rightarrow> string list result" where
  "approval_roles brief =
     (case map_of (pb_payload brief) ''approval_requirements'' of
        Some (PList requirements) \<Rightarrow>
          (let roles = List.map_filter required_role requirements
           in bindR (ensure (roles \<noteq> [] \<and> distinct roles) (ApiProblem ''APPROVAL_POLICY_INVALID'' 409))
                (\<lambda>_. Inr roles))
      | _ \<Rightarrow> Inl (ApiProblem ''APPROVAL_POLICY_INVALID'' 409))"

definition policy_version :: "IntentRow \<Rightarrow> int result" where
  "policy_version intent =
     (case map_of (ir_payload intent) ''approval_policy_version'' of
        None \<Rightarrow> Inl KeyError | Some v \<Rightarrow> py_int v)"

definition new_approval :: "string \<Rightarrow> IntentRow \<Rightarrow> string list \<Rightarrow> ('c, ApprovalRequest) tx" where
  "new_approval org intent roles =
     bindT (new_id ''apr'') (\<lambda>i.
     bindT (liftT (policy_version intent)) (\<lambda>version.
     bindT utcnow (\<lambda>now.
     bindT (liftT (later_by now 3600)) (\<lambda>deadline.
     bindT start_of_tx (\<lambda>created.
       returnT \<lparr>ar_id = i, ar_organization_id = org, ar_purchase_intent_id = ir_id intent,
                ar_intent_hash = ir_intent_hash intent, ar_policy_version = version, ar_status = ''PENDING'',
                ar_required_roles = roles, ar_approved_roles = [], ar_expires_at = deadline,
                ar_created_at = created\<rparr>)))))"

definition open_approval :: "approval_service \<Rightarrow> caller \<Rightarrow> string \<Rightarrow> IdempotencyRecord \<Rightarrow> ('c, reply) tx" where
  "open_approval s c intent_id claimed =
     (let org = ca_organization_id c in
      bindT (not_found ''PURCHASE_INTENT'' (get_purchase_intent org intent_id)) (\<lambda>intent.
      bindT (not_found ''DECISION'' (get_decision org (ir_decision_id intent))) (\<lambda>decision.
      thenT (require_current_decision org decision)
      (bindT (liftT (as_utc (ir_quote_expires_at intent))) (\<lambda>quote.
       bindT (quote_now s) (\<lambda>now.
       thenT (ensureT (now < quote) (ApiProblem ''QUOTE_EXPIRED'' 409))
      (thenT (ensureT (ir_approval_status intent = ''NOT_REQUESTED'') (ApiProblem ''APPROVAL_ALREADY_STARTED'' 409))
      (bindT (select tb_briefs (\<lambda>b. pb_id b = dr_purchase_brief_id decision \<and> pb_organization_id b = org)
         scalar_one_or_none) (\<lambda>brief. case brief of
           None \<Rightarrow> raiseT (missing ''PURCHASE_BRIEF'')
         | Some b \<Rightarrow>
             bindT (liftT (approval_roles b)) (\<lambda>roles.
             bindT (new_approval org intent roles) (\<lambda>approval.
             thenT (addT (\<lambda>t. t\<lparr>tb_approvals := tb_approvals t @ [approval]\<rparr>))
             (thenT (set_intent (ir_id intent) (\<lambda>r. r\<lparr>ir_approval_status := ''PENDING''\<rparr>))
               (answer c claimed 201 (approval_view approval) (ar_id approval))))))))))))))"

definition create_approval_request :: "approval_service \<Rightarrow> caller \<Rightarrow> string \<Rightarrow> ('c, reply) tx" where
  "create_approval_request s c intent_id =
     bindT (liftT (as_hash s (obj [(''intent_id'', PStr intent_id)]))) (\<lambda>h.
     transaction (ca_organization_id c)
       (idempotently c ''approval_requests.create'' h 201 (open_approval s c intent_id)))"

section \<open>Approving and rejecting\<close>

definition step_up_required :: "caller \<Rightarrow> unit result" where
  "step_up_required c = ensure (ca_step_up c) (ApiProblem ''STEP_UP_REQUIRED'' 403)"

definition load_approval :: "string \<Rightarrow> string \<Rightarrow> ('c, ApprovalRequest) tx" where
  "load_approval org approval_id =
     bindT (select tb_approvals (\<lambda>a. ar_id a = approval_id \<and> ar_organization_id a = org) scalar_one_or_none)
       (\<lambda>found. case found of None \<Rightarrow> raiseT (missing ''APPROVAL_REQUEST'') | Some a \<Rightarrow> returnT a)"

definition approval_expiry_problem ::
    "approval_service \<Rightarrow> ApprovalRequest \<Rightarrow> IntentRow \<Rightarrow> int \<Rightarrow> ('c, py_error option) tx" where
  "approval_expiry_problem s approval intent now =
     bindT (liftT (as_utc (ar_expires_at approval))) (\<lambda>deadline.
     if deadline \<le> now then returnT (Some (ApiProblem ''APPROVAL_EXPIRED'' 409))
     else bindT (liftT (as_utc (ir_quote_expires_at intent))) (\<lambda>quote.
          bindT (quote_now s) (\<lambda>quoted.
          returnT (if quote \<le> quoted then Some (ApiProblem ''QUOTE_EXPIRED'' 409) else None))))"

definition expire_approval :: "ApprovalRequest \<Rightarrow> IntentRow \<Rightarrow> ('c, unit) tx" where
  "expire_approval approval intent =
     thenT (set_approval (ar_id approval) (\<lambda>r. r\<lparr>ar_status := ''EXPIRED''\<rparr>))
       (set_intent (ir_id intent) (\<lambda>r. r\<lparr>ir_approval_status := ''EXPIRED''\<rparr>))"

text \<open>
  What \<^verbatim>\<open>approve\<close> and \<^verbatim>\<open>reject_approval\<close> do before their idempotency claim. An
  expiry is committed, so it is a value of the transaction and raised after it.
\<close>

definition load_subject :: "caller \<Rightarrow> string \<Rightarrow> ('c, ApprovalRequest \<times> IntentRow) tx" where
  "load_subject c approval_id =
     (let org = ca_organization_id c in
      bindT (load_approval org approval_id) (\<lambda>approval.
      bindT (get_purchase_intent org (ar_purchase_intent_id approval)) (\<lambda>intent.
      bindT (get_decision org (ir_decision_id intent)) (\<lambda>decision.
      thenT (require_current_decision org decision) (returnT (approval, intent))))))"

definition unless_expired ::
    "approval_service \<Rightarrow> caller \<Rightarrow> string \<Rightarrow> (ApprovalRequest \<Rightarrow> IntentRow \<Rightarrow> ('c, reply) tx) \<Rightarrow>
     ('c, reply result) tx" where
  "unless_expired s c approval_id act =
     bindT (load_subject c approval_id) (\<lambda>(approval, intent).
     bindT utcnow (\<lambda>now.
     bindT (approval_expiry_problem s approval intent now) (\<lambda>problem. case problem of
        Some e \<Rightarrow> thenT (expire_approval approval intent) (returnT (Inl e))
      | None \<Rightarrow> bindT (act approval intent) (\<lambda>r. returnT (Inr r)))))"

definition require_verified_approval_role :: "ApprovalRequest \<Rightarrow> string list \<Rightarrow> string \<Rightarrow> unit result" where
  "require_verified_approval_role approval actor_roles role =
     bindR (ensure (role \<in> set actor_roles) (ApiProblem ''APPROVER_ROLE_NOT_VERIFIED'' 403)) (\<lambda>_.
     ensure (role \<in> set (ar_required_roles approval)) (ApiProblem ''APPROVER_ROLE_NOT_REQUIRED'' 403))"

definition require_approval_role :: "ApprovalRequest \<Rightarrow> string list \<Rightarrow> string \<Rightarrow> unit result" where
  "require_approval_role approval actor_roles role =
     bindR (require_verified_approval_role approval actor_roles role) (\<lambda>_.
     (let stage = length (ar_approved_roles approval) in
      bindR (ensure (stage < length (ar_required_roles approval)) (ApiProblem ''APPROVAL_ALREADY_FINAL'' 409)) (\<lambda>_.
      ensure (ar_required_roles approval ! stage = role) (ApiProblem ''APPROVAL_STAGE_OUT_OF_ORDER'' 409))))"

definition approve_stage ::
    "caller \<Rightarrow> ApprovalCreate \<Rightarrow> ApprovalRequest \<Rightarrow> IntentRow \<Rightarrow> IdempotencyRecord \<Rightarrow> ('c, reply) tx" where
  "approve_stage c b approval intent claimed =
     (let org = ca_organization_id c; role = ac_actor_role b in
      thenT (liftT (require_approval_role approval (ca_roles c) role))
      (bindT (select tb_approval_events (\<lambda>e. ae_organization_id e = org
          \<and> ae_approval_request_id e = ar_id approval \<and> ae_actor_id e = ca_actor_id c
          \<and> ae_action e = ''APPROVE'') scalar_one_or_none) (\<lambda>existing.
       thenT (ensureT (existing = None \<or> role \<in> set (ar_approved_roles approval))
          (ApiProblem ''SEPARATION_OF_DUTIES'' 403))
      (bindT (record_approval_event org (ar_id approval) (ac_intent_hash b) (ca_actor_id c) role ''APPROVE''
          (''approve:'' @ ar_id approval @ '':'' @ role @ '':'' @ ca_actor_id c) None) (\<lambda>_.
       let approved = (if role \<in> set (ar_approved_roles approval) then ar_approved_roles approval
                       else ar_approved_roles approval @ [role]);
           final = (approved = ar_required_roles approval);
           status = (if final then ''APPROVED'' else ar_status approval)
       in thenT (set_approval (ar_id approval) (\<lambda>r. r\<lparr>ar_approved_roles := approved, ar_status := status\<rparr>))
          (thenT (if final then set_intent (ir_id intent) (\<lambda>r. r\<lparr>ir_approval_status := ''APPROVED''\<rparr>)
                  else returnT ())
            (answer c claimed 200
               (approval_view (approval\<lparr>ar_approved_roles := approved, ar_status := status\<rparr>)) (ar_id approval))))))))"

definition approve :: "approval_service \<Rightarrow> caller \<Rightarrow> string \<Rightarrow> ApprovalCreate \<Rightarrow> ('c, reply) tx" where
  "approve s c approval_id b =
     thenT (liftT (step_up_required c))
     (bindT (liftT (as_hash s (obj [(''approval_id'', PStr approval_id), (''intent_hash'', PStr (ac_intent_hash b)),
         (''actor_role'', PStr (ac_actor_role b))]))) (\<lambda>h.
      bindT (transaction (ca_organization_id c) (unless_expired s c approval_id (\<lambda>approval intent.
          idempotently c ''approval_requests.approve'' h 200 (approve_stage c b approval intent)))) liftT))"

definition reject_stage ::
    "caller \<Rightarrow> ApprovalRejectCreate \<Rightarrow> ApprovalRequest \<Rightarrow> IntentRow \<Rightarrow> IdempotencyRecord \<Rightarrow> ('c, reply) tx" where
  "reject_stage c b approval intent claimed =
     (let org = ca_organization_id c; role = ax_actor_role b in
      thenT (liftT (require_approval_role approval (ca_roles c) role))
      (bindT (record_approval_event org (ar_id approval) (ax_intent_hash b) (ca_actor_id c) role ''REJECT''
          (''reject:'' @ ar_id approval @ '':'' @ role @ '':'' @ ca_actor_id c) (Some (ax_reason b))) (\<lambda>_.
       thenT (set_approval (ar_id approval) (\<lambda>r. r\<lparr>ar_status := ''REJECTED''\<rparr>))
      (thenT (set_intent (ir_id intent) (\<lambda>r. r\<lparr>ir_approval_status := ''REJECTED''\<rparr>))
      (bindT (add_outbox org ''purchase_intent'' (ir_id intent) ''approval.rejected''
          (''approval-rejected:'' @ ar_id approval)
          [(''purchase_intent_id'', PStr (ir_id intent)), (''approval_request_id'', PStr (ar_id approval)),
           (''actor_role'', PStr role)]) (\<lambda>_.
       answer c claimed 200 (approval_view (approval\<lparr>ar_status := ''REJECTED''\<rparr>)) (ar_id approval)))))))"

definition closing_body :: "string \<Rightarrow> ApprovalRejectCreate \<Rightarrow> pyval" where
  "closing_body approval_id b =
     obj [(''approval_id'', PStr approval_id), (''intent_hash'', PStr (ax_intent_hash b)),
          (''actor_role'', PStr (ax_actor_role b)), (''reason'', PStr (ax_reason b))]"

definition reject_approval ::
    "approval_service \<Rightarrow> caller \<Rightarrow> string \<Rightarrow> ApprovalRejectCreate \<Rightarrow> ('c, reply) tx" where
  "reject_approval s c approval_id b =
     thenT (liftT (step_up_required c))
     (bindT (liftT (as_hash s (closing_body approval_id b))) (\<lambda>h.
      bindT (transaction (ca_organization_id c) (unless_expired s c approval_id (\<lambda>approval intent.
          idempotently c ''approval_requests.reject'' h 200 (reject_stage c b approval intent)))) liftT))"

section \<open>Revoking\<close>

definition revoke_sessions :: "PaymentSession list \<Rightarrow> ('c, unit) tx" where
  "revoke_sessions found =
     changeT (\<lambda>t. t\<lparr>tb_sessions := map (\<lambda>r.
       if ps_id r \<in> ps_id ` set found \<and> ps_status r \<in> {''SESSION_CREATED'', ''CARDHOLDER_PENDING''}
       then r\<lparr>ps_status := ''REVOKED''\<rparr> else r) (tb_sessions t)\<rparr>)"

definition consume_bindings :: "string \<Rightarrow> string \<Rightarrow> int \<Rightarrow> ('c, unit) tx" where
  "consume_bindings org intent_id now =
     changeT (\<lambda>t. t\<lparr>tb_bindings := map (\<lambda>r.
       if bb_organization_id r = org \<and> bb_purchase_intent_id r = intent_id \<and> bb_consumed_at r = None
       then r\<lparr>bb_consumed_at := Some now\<rparr> else r) (tb_bindings t)\<rparr>)"

definition drop_queued_checkout :: "string \<Rightarrow> string \<Rightarrow> int \<Rightarrow> ('c, unit) tx" where
  "drop_queued_checkout org intent_id now =
     changeT (\<lambda>t. t\<lparr>tb_outbox := map (\<lambda>r.
       if oe_organization_id r = org \<and> oe_aggregate_type r = ''purchase_intent'' \<and> oe_aggregate_id r = intent_id
          \<and> oe_event_type r = ''purchase_checkout.requested'' \<and> oe_published_at r = None
       then r\<lparr>oe_published_at := Some now\<rparr> else r) (tb_outbox t)\<rparr>)"

definition stop_pending_workflow :: "string \<Rightarrow> string \<Rightarrow> ('c, unit) tx" where
  "stop_pending_workflow org intent_id =
     bindT (select tb_workflows (\<lambda>r. wr_id r = ''wf_checkout_'' @ intent_id \<and> wr_organization_id r = org)
        scalar_one_or_none) (\<lambda>found. case found of
       None \<Rightarrow> returnT ()
     | Some workflow \<Rightarrow>
         if wr_status workflow = ''PENDING''
         then set_workflow (wr_id workflow) (\<lambda>r. log_run ''FAILED'' ''Approval revoked before merchant dispatch''
                (r\<lparr>wr_status := ''FAILED'', wr_safe_error_code := Some ''APPROVAL_REVOKED''\<rparr>))
         else returnT ())"

definition withdraw :: "caller \<Rightarrow> ApprovalRequest \<Rightarrow> IntentRow \<Rightarrow> PaymentSession list \<Rightarrow> int \<Rightarrow> ('c, unit) tx" where
  "withdraw c approval intent found now =
     (let org = ca_organization_id c in
      thenT (set_approval (ar_id approval) (\<lambda>r. r\<lparr>ar_status := ''REVOKED''\<rparr>))
      (thenT (set_intent (ir_id intent) (\<lambda>r. r\<lparr>ir_approval_status := ''REVOKED''\<rparr>))
      (thenT (revoke_sessions found)
      (thenT (consume_bindings org (ir_id intent) now)
      (thenT (drop_queued_checkout org (ir_id intent) now)
         (stop_pending_workflow org (ir_id intent)))))))"

definition revoke_stage ::
    "caller \<Rightarrow> ApprovalRejectCreate \<Rightarrow> ApprovalRequest \<Rightarrow> IntentRow \<Rightarrow> IdempotencyRecord \<Rightarrow> ('c, reply) tx" where
  "revoke_stage c b approval intent claimed =
     (let org = ca_organization_id c; role = ax_actor_role b in
      thenT (ensureT (ar_status approval \<in> {''PENDING'', ''APPROVED''}) (ApiProblem ''APPROVAL_NOT_REVOCABLE'' 409))
      (thenT (ensureT (ir_payment_status intent \<in> {''NOT_STARTED'', ''SESSION_CREATED'', ''CARDHOLDER_PENDING''})
         (ApiProblem ''REVOCATION_TOO_LATE'' 409))
      (bindT (getT (\<lambda>t. filter (\<lambda>p. ps_organization_id p = org \<and> ps_purchase_intent_id p = ir_id intent)
         (tb_sessions t))) (\<lambda>found.
       thenT (ensureT (\<not> list_ex (\<lambda>p. ps_status p = ''CREATING'') found) (ApiProblem ''SESSION_CREATE_PENDING'' 409))
      (thenT (liftT (require_verified_approval_role approval (ca_roles c) role))
      (bindT (record_approval_event org (ar_id approval) (ax_intent_hash b) (ca_actor_id c) role ''REVOKE''
          (''revoke:'' @ ar_id approval @ '':'' @ ca_actor_id c) (Some (ax_reason b))) (\<lambda>_.
       bindT utcnow (\<lambda>now.
       thenT (withdraw c approval intent found now)
      (bindT (add_outbox org ''purchase_intent'' (ir_id intent) ''approval.revoked''
          (''approval-revoked:'' @ ar_id approval)
          [(''purchase_intent_id'', PStr (ir_id intent)), (''approval_request_id'', PStr (ar_id approval)),
           (''actor_role'', PStr role)]) (\<lambda>_.
       answer c claimed 200 (approval_view (approval\<lparr>ar_status := ''REVOKED''\<rparr>)) (ar_id approval)))))))))))"

definition revoke_approval ::
    "approval_service \<Rightarrow> caller \<Rightarrow> string \<Rightarrow> ApprovalRejectCreate \<Rightarrow> ('c, reply) tx" where
  "revoke_approval s c approval_id b =
     thenT (liftT (step_up_required c))
     (bindT (liftT (as_hash s (closing_body approval_id b))) (\<lambda>h.
      transaction (ca_organization_id c)
        (bindT (load_subject c approval_id) (\<lambda>(approval, intent).
          idempotently c ''approval_requests.revoke'' h 200 (revoke_stage c b approval intent)))))"

section \<open>Expiry before a payment step\<close>

definition expire_purchase_approval_if_needed ::
    "approval_service \<Rightarrow> string \<Rightarrow> string \<Rightarrow> ('c, py_error option) tx" where
  "expire_purchase_approval_if_needed s org intent_id =
     transaction org
       (bindT (get_purchase_intent org intent_id) (\<lambda>intent.
        bindT (getT (\<lambda>t. latest ar_created_at (filter (\<lambda>a. ar_organization_id a = org
            \<and> ar_purchase_intent_id a = ir_id intent \<and> ar_intent_hash a = ir_intent_hash intent)
            (tb_approvals t)))) (\<lambda>found. case found of
          None \<Rightarrow> returnT None
        | Some approval \<Rightarrow>
            if ar_status approval \<noteq> ''APPROVED'' \<or> ir_approval_status intent \<noteq> ''APPROVED'' then returnT None
            else bindT utcnow (\<lambda>now.
                 bindT (approval_expiry_problem s approval intent now) (\<lambda>problem. case problem of
                   None \<Rightarrow> returnT None
                 | Some e \<Rightarrow> thenT (expire_approval approval intent) (returnT (Some e)))))))"

end
