(* ===== verification/CallbackState.thy ===== *)
theory CallbackState
  imports Sha256 UrlPolicy
begin

text \<open>
  \<^verbatim>\<open>services/api/sira_api/callback_state.py\<close>: the opaque state a browser carries to the hosted checkout
  and back. The keyed hash (RFC 2104) and the URL-safe alphabet (RFC 4648) are those of the standard library; a
  state is believed exactly when its signature is the one its key gives.
\<close>

unbundle bit_operations_syntax

section \<open>Keyed hash and encoding\<close>

definition word_bytes :: "word32 \<Rightarrow> string" where
  "word_bytes w = map (\<lambda>i. char_of (uint w div 256 ^ i mod 256)) (rev [0..<4])"

definition sha256_digest :: "string \<Rightarrow> string" where
  "sha256_digest msg = concat (map word_bytes (sha256_words msg))"

definition xor_pad :: "nat \<Rightarrow> string \<Rightarrow> string" where
  "xor_pad n block = map (\<lambda>c. char_of ((of_char c :: nat) XOR n)) block"

definition hmac_sha256 :: "string \<Rightarrow> string \<Rightarrow> string" where
  "hmac_sha256 key msg =
     (let short = (if 64 < length key then sha256_digest key else key);
          block = short @ replicate (64 - length short) (char_of (0 :: nat))
      in sha256_digest (xor_pad 92 block @ sha256_digest (xor_pad 54 block @ msg)))"

definition base64_char :: "nat \<Rightarrow> char" where
  "base64_char n =
     (if n < 26 then char_of (65 + n) else if n < 52 then char_of (71 + n) else if n < 62 then char_of (n - 4)
      else if n = 62 then CHR ''-'' else CHR ''_'')"

fun urlsafe_base64 :: "nat list \<Rightarrow> string" where
  "urlsafe_base64 (a # b # c # rest) =
     [base64_char (a div 4), base64_char (a mod 4 * 16 + b div 16), base64_char (b mod 16 * 4 + c div 64),
      base64_char (c mod 64)] @ urlsafe_base64 rest"
| "urlsafe_base64 [a, b] =
     [base64_char (a div 4), base64_char (a mod 4 * 16 + b div 16), base64_char (b mod 16 * 4), CHR ''='']"
| "urlsafe_base64 [a] = [base64_char (a div 4), base64_char (a mod 4 * 16), CHR ''='', CHR ''='']"
| "urlsafe_base64 [] = []"

definition signature :: "string \<Rightarrow> string \<Rightarrow> string" where
  "signature key payload =
     rev (dropWhile (\<lambda>c. c = CHR ''='') (rev (urlsafe_base64 (map of_char (hmac_sha256 key payload)))))"

section \<open>The signer\<close>

record BrowserReturnStateSigner =
  bs_key :: string

definition mk_BrowserReturnStateSigner :: "string \<Rightarrow> BrowserReturnStateSigner result" where
  "mk_BrowserReturnStateSigner signing_key =
     bindR (ensure (32 \<le> length signing_key)
              (ValueError ''browser-return signing key must contain at least 32 bytes''))
       (\<lambda>_. Inr \<lparr>bs_key = signing_key\<rparr>)"

text \<open>The nonce is what \<^verbatim>\<open>secrets.token_urlsafe(32)\<close> returned.\<close>

definition issue :: "BrowserReturnStateSigner \<Rightarrow> string \<Rightarrow> string" where
  "issue s nonce = (let payload = ''br1.'' @ nonce in payload @ ''.'' @ signature (bs_key s) payload)"

definition verify :: "BrowserReturnStateSigner \<Rightarrow> string \<Rightarrow> bool result" where
  "verify s state =
     (if 256 < length state then Inr False
      else case split_on CHR ''.'' state of
        [version, nonce, supplied] \<Rightarrow>
          if version \<noteq> ''br1'' \<or> nonce = [] \<or> supplied = [] then Inr False
          else if \<not> is_ascii nonce then Inl (ValueError ''ascii codec cannot encode characters'')
          else if \<not> is_ascii supplied then Inr False
          else Inr (supplied = signature (bs_key s) (version @ ''.'' @ nonce))
      | _ \<Rightarrow> Inr False)"

definition digest :: "string \<Rightarrow> string" where
  "digest v = ''sha256:'' @ sha256_hexdigest v"

section \<open>What the signer promises\<close>

lemma base64_char_safe: "n < 64 \<Longrightarrow> base64_char n \<noteq> CHR ''.'' \<and> (of_char (base64_char n) :: nat) < 128 \<and> base64_char n \<noteq> CHR ''=''"
proof -
  assume "n < 64"
  then have "(of_char (base64_char n) :: nat) < 128 \<and> (of_char (base64_char n) :: nat) \<noteq> 46
    \<and> (of_char (base64_char n) :: nat) \<noteq> 61"
    by (auto simp: base64_char_def)
  then show ?thesis by auto
qed

lemma sextets:
  "b < 256 \<Longrightarrow> a mod 4 * 16 + b div 16 < (64 :: nat)" "d < 256 \<Longrightarrow> b mod 16 * 4 + d div 64 < (64 :: nat)"
  "a < 256 \<Longrightarrow> a div 4 < (64 :: nat)" "a mod 4 * 16 < (64 :: nat)" "b mod 16 * 4 < (64 :: nat)" "d mod 64 < (64 :: nat)"
proof -
  note small = mod_less_divisor [of 4 a] mod_less_divisor [of 16 b]
  show "b < 256 \<Longrightarrow> a mod 4 * 16 + b div 16 < 64" using small less_mult_imp_div_less [of b 16 16] by simp
  show "d < 256 \<Longrightarrow> b mod 16 * 4 + d div 64 < 64" using small less_mult_imp_div_less [of d 4 64] by simp
  show "a < 256 \<Longrightarrow> a div 4 < 64" using less_mult_imp_div_less [of a 64 4] by simp
  show "a mod 4 * 16 < 64" "b mod 16 * 4 < 64" "d mod 64 < 64" using small by simp_all
qed

lemma base64_safe:
  assumes "\<forall>b\<in>set bs. b < 256" "c \<in> set (urlsafe_base64 bs)"
  shows "c \<noteq> CHR ''.'' \<and> (of_char c :: nat) < 128"
  using assms
proof (induction bs rule: urlsafe_base64.induct)
  case (1 a b d rest)
  then show ?case using base64_char_safe [of "a div 4"] base64_char_safe [of "a mod 4 * 16 + b div 16"]
      base64_char_safe [of "b mod 16 * 4 + d div 64"] base64_char_safe [of "d mod 64"]
    by (auto simp: sextets simp del: of_char_eq_iff)
next
  case (2 a b)
  then show ?case using base64_char_safe [of "a div 4"] base64_char_safe [of "a mod 4 * 16 + b div 16"]
      base64_char_safe [of "b mod 16 * 4"] by (auto simp: sextets)
next
  case (3 a)
  then show ?case using base64_char_safe [of "a div 4"] base64_char_safe [of "a mod 4 * 16"] by (auto simp: sextets)
qed simp

lemma length_sha256_digest [simp]: "length (sha256_digest msg) = 32"
proof -
  have "length (concat (map word_bytes ws)) = 4 * length ws" for ws
    by (induction ws) (simp_all add: word_bytes_def)
  then show ?thesis by (simp add: sha256_digest_def)
qed

lemma length_base64: "length (urlsafe_base64 bs) = (length bs + 2) div 3 * 4"
proof (induction bs rule: urlsafe_base64.induct)
  case (1 a b c rest)
  then show ?case by simp presburger
qed simp_all

lemma signature_shape:
  "CHR ''.'' \<notin> set (signature k m)" "is_ascii (signature k m)" "length (signature k m) \<le> 44" "signature k m \<noteq> []"
proof -
  let ?bs = "map of_char (hmac_sha256 k m) :: nat list"
  let ?b = "urlsafe_base64 ?bs"
  have len: "length ?bs = 32" by (simp add: hmac_sha256_def Let_def)
  have sub: "set (signature k m) \<subseteq> set ?b"
    by (auto simp: signature_def dest: set_dropWhileD)
  have small: "\<forall>b\<in>set ?bs. b < 256" by auto
  from sub base64_safe [OF small] show "CHR ''.'' \<notin> set (signature k m)" "is_ascii (signature k m)"
    by (auto simp: is_ascii_def list_all_iff)
  have "length ?b = 44" using len by (simp add: length_base64)
  then show "length (signature k m) \<le> 44"
    by (metis signature_def length_dropWhile_le length_rev)
  obtain a b c rest where bs: "?bs = a # b # c # rest" "a \<in> set ?bs"
    using len by (cases ?bs rule: urlsafe_base64.cases) (simp_all del: length_map)
  then have "base64_char (a div 4) \<noteq> CHR ''=''" using small base64_char_safe [of "a div 4"] sextets(3) by blast
  moreover have "base64_char (a div 4) \<in> set ?b" by (simp add: bs(1))
  ultimately show "signature k m \<noteq> []" unfolding signature_def by (auto simp: dropWhile_eq_Nil_conv)
qed

lemma split_on_seg: "c \<notin> set seg \<Longrightarrow> split_on c (seg @ c # rest) = seg # split_on c rest"
  by (induction seg) auto

lemma split_on_last: "c \<notin> set seg \<Longrightarrow> split_on c seg = [seg]"
  by (induction seg) auto

lemma issue_parts:
  assumes "CHR ''.'' \<notin> set nonce"
  shows "split_on CHR ''.'' (issue s nonce) = [''br1'', nonce, signature (bs_key s) (''br1.'' @ nonce)]"
  using assms signature_shape(1) split_on_seg [of "CHR ''.''" "''br1''"]
    split_on_seg [of "CHR ''.''" nonce "signature (bs_key s) (''br1.'' @ nonce)"]
  by (simp add: issue_def Let_def split_on_last)

text \<open>
  C11. A browser-return state verifies exactly when the signer issued it: every state made from a URL-safe nonce is
  accepted, and whatever is accepted, of at most 256 characters, is the state the key signs for the nonce in it, so
  a state with another nonce, another version or another encoding of the signature is refused.
\<close>
theorem state_verifies_iff_issued:
  "verify s state = Inr True \<longleftrightarrow>
     (\<exists>nonce. state = issue s nonce \<and> length state \<le> 256 \<and> nonce \<noteq> [] \<and> is_ascii nonce
        \<and> CHR ''.'' \<notin> set nonce)"
proof
  assume "verify s state = Inr True"
  then obtain nonce where short: "length state \<le> 256" and parts: "split_on CHR ''.'' state
      = [''br1'', nonce, signature (bs_key s) (''br1.'' @ nonce)]" "nonce \<noteq> []" "is_ascii nonce"
    by (auto simp: verify_def split: if_splits list.splits)
  have "state = issue s nonce"
    using join_split_on [of "CHR ''.''" state] unfolding parts(1) by (simp add: issue_def Let_def)
  moreover have "CHR ''.'' \<notin> set nonce"
    using split_on_no_sep [of nonce "CHR ''.''" state] parts(1) by simp
  ultimately show "\<exists>nonce. state = issue s nonce \<and> length state \<le> 256 \<and> nonce \<noteq> [] \<and> is_ascii nonce
        \<and> CHR ''.'' \<notin> set nonce" using short parts by blast
next
  assume "\<exists>nonce. state = issue s nonce \<and> length state \<le> 256 \<and> nonce \<noteq> [] \<and> is_ascii nonce
        \<and> CHR ''.'' \<notin> set nonce"
  then obtain nonce where n: "state = issue s nonce" "length state \<le> 256" "nonce \<noteq> []" "is_ascii nonce"
    "CHR ''.'' \<notin> set nonce" by blast
  show "verify s state = Inr True"
    unfolding verify_def n(1) issue_parts [OF n(5)]
    using n signature_shape [of "bs_key s" "''br1.'' @ nonce"] by simp
qed

end
