(* ===== verification/Sessions.thy ===== *)
theory Sessions
  imports Approvals CallbackState PravaRest
begin

text \<open>
  The payment half of the API's purchase service: \<^verbatim>\<open>create_prava_session\<close> with its two transactions
  around the provider's answer, \<^verbatim>\<open>accept_prava_browser_return\<close>, and the provider configuration of
  \<^verbatim>\<open>services/api/sira_api/providers.py\<close> they check addresses with.
\<close>

section \<open>Provider configuration\<close>

definition setup_blocked :: py_error where
  "setup_blocked = ApiProblem ''PROVIDER_SETUP_BLOCKED'' 503"

definition return_url_not_allowed :: py_error where
  "return_url_not_allowed = ApiProblem ''RETURN_URL_NOT_ALLOWED'' 422"

record provider_settings =
  st_prava_base_url :: string
  st_prava_secret_key :: string
  st_prava_merchant_url :: string
  st_prava_callback_url :: string
  st_prava_user_email :: string
  st_prava_merchant_country :: string
  st_prava_hosted_checkout_hosts :: string
  st_web_base_url :: string

record PravaRuntimeConfiguration =
  rc_base_url :: string
  rc_secret_key :: string
  rc_callback_url :: string
  rc_merchant_url :: string
  rc_merchant_country :: string
  rc_user_email :: string
  rc_web_base_url :: string
  rc_hosted_checkout_hosts :: "string list"

definition default_checkout_hosts :: "string list" where
  "default_checkout_hosts =
     [''checkout.prava.space'', ''collect.prava.space'', ''sandbox.checkout.prava.space'',
      ''sandbox.collect.prava.space'']"

definition load_configuration :: "provider_settings \<Rightarrow> PravaRuntimeConfiguration result" where
  "load_configuration s =
     (let country = str_upper (str_strip (st_prava_merchant_country s));
          email = str_strip (st_prava_user_email s);
          hosts = map (\<lambda>h. str_lower (str_strip h))
            (filter (\<lambda>h. str_strip h \<noteq> []) (split_on CHR '','' (st_prava_hosted_checkout_hosts s)))
      in bindR (ensure (list_all (\<lambda>v. str_strip v \<noteq> []) [st_prava_base_url s, st_prava_secret_key s,
                  st_prava_merchant_url s, st_prava_callback_url s, st_prava_user_email s]) setup_blocked) (\<lambda>_.
         bindR (ensure (length country = 2 \<and> list_all is_alpha country) setup_blocked) (\<lambda>_.
         bindR (ensure (CHR ''@'' \<in> set email) setup_blocked) (\<lambda>_.
         Inr \<lparr>rc_base_url = str_strip (st_prava_base_url s), rc_secret_key = str_strip (st_prava_secret_key s),
              rc_callback_url = str_strip (st_prava_callback_url s),
              rc_merchant_url = str_strip (st_prava_merchant_url s), rc_merchant_country = country,
              rc_user_email = email, rc_web_base_url = str_strip (st_web_base_url s),
              rc_hosted_checkout_hosts = hosts @ default_checkout_hosts\<rparr>))))"

definition https_host :: "unicode_tables \<Rightarrow> string \<Rightarrow> string result" where
  "https_host tables v =
     bindR (urlsplit tables v) (\<lambda>u.
     bindR (ensure (str_lower (su_scheme u) = ''https'' \<and> hostname (su_netloc u) \<noteq> []
                    \<and> CHR ''@'' \<notin> set (su_netloc u) \<and> su_fragment u = []) setup_blocked) (\<lambda>_.
     Inr (str_lower (hostname (su_netloc u)))))"

text \<open>\<^verbatim>\<open>SplitResult.port\<close>: the digits behind the host, at most 65535.\<close>

definition port_of :: "string \<Rightarrow> int option result" where
  "port_of netloc =
     (let p = port_text netloc; n = digits_value 0 p in
      if p = [] then Inr None
      else bindR (ensure (list_all is_digit p \<and> n \<le> 65535) (ValueError ''Port out of range 0-65535''))
             (\<lambda>_. Inr (Some n)))"

definition origin :: "unicode_tables \<Rightarrow> string \<Rightarrow> bool \<Rightarrow> (string \<times> int option) result" where
  "origin tables v require_https =
     bindR (urlsplit tables v) (\<lambda>u.
     bindR (ensure (str_lower (su_scheme u) \<in> (if require_https then {''https''} else {''http'', ''https''})
                    \<and> hostname (su_netloc u) \<noteq> [] \<and> CHR ''@'' \<notin> set (su_netloc u)) return_url_not_allowed) (\<lambda>_.
     bindR (port_of (su_netloc u)) (\<lambda>port.
     Inr (str_lower (hostname (su_netloc u)), port))))"

definition validate_return_url :: "unicode_tables \<Rightarrow> PravaRuntimeConfiguration \<Rightarrow> string \<Rightarrow> unit result" where
  "validate_return_url tables c return_url =
     bindR (origin tables (rc_web_base_url c) False) (\<lambda>expected.
     (let local = fst expected \<in> {''localhost'', ''127.0.0.1'', ''::1''} in
      bindR (origin tables return_url (\<not> local)) (\<lambda>supplied.
      ensure (supplied = expected) return_url_not_allowed)))"

definition validate_merchant_url :: "unicode_tables \<Rightarrow> PravaRuntimeConfiguration \<Rightarrow> string \<Rightarrow> string result" where
  "validate_merchant_url tables c canonical =
     bindR (ensure (strip_slashes (rc_merchant_url c) = strip_slashes canonical)
              (ApiProblem ''MERCHANT_CHAIN_MISMATCH'' 409)) (\<lambda>_.
     https_host tables (strip_slashes canonical))"

text \<open>\<^verbatim>\<open>parse_qsl(query, keep_blank_values=True)\<close>, \<^verbatim>\<open>urlencode\<close> and \<^verbatim>\<open>urlunsplit\<close>.\<close>

definition hex_value :: "char \<Rightarrow> nat" where
  "hex_value c = (if is_digit c then of_char c - 48 else of_char (lower_char c) - 87)"

definition is_hex :: "char \<Rightarrow> bool" where
  "is_hex c = is_hex_lower (lower_char c)"

fun unquote :: "string \<Rightarrow> string" where
  "unquote (p # a # b # rest) =
     (if p = CHR ''%'' \<and> is_hex a \<and> is_hex b then char_of (hex_value a * 16 + hex_value b) # unquote rest
      else p # unquote (a # b # rest))"
| "unquote s = s"

definition unplus :: "string \<Rightarrow> string" where
  "unplus s = unquote (map (\<lambda>c. if c = CHR ''+'' then CHR '' '' else c) s)"

definition parse_qsl :: "string \<Rightarrow> (string \<times> string) list" where
  "parse_qsl query =
     map (\<lambda>f. (unplus (before CHR ''='' f), unplus (behind CHR ''='' f)))
       (filter (\<lambda>f. f \<noteq> []) (split_on CHR ''&'' query))"

definition quote_plus :: "string \<Rightarrow> string" where
  "quote_plus s = concat (map (\<lambda>c. if c = CHR '' '' then ''+'' else quote_char c) s)"

definition urlencode :: "(string \<times> string) list \<Rightarrow> string" where
  "urlencode kvs = str_join ''&'' (map (\<lambda>(k, v). quote_plus k @ ''='' @ quote_plus v) kvs)"

definition uses_netloc :: "string list" where
  "uses_netloc =
     [[], ''ftp'', ''http'', ''gopher'', ''nntp'', ''telnet'', ''imap'', ''wais'', ''file'', ''mms'', ''https'',
      ''shttp'', ''snews'', ''prospero'', ''rtsp'', ''rtsps'', ''rtspu'', ''rsync'', ''svn'', ''svn+ssh'', ''sftp'',
      ''nfs'', ''git'', ''git+ssh'', ''ws'', ''wss'', ''itms-services'']"

definition urlunsplit :: "string \<Rightarrow> string \<Rightarrow> string \<Rightarrow> string \<Rightarrow> string" where
  "urlunsplit scheme netloc path query =
     (let rooted = (if path \<noteq> [] \<and> hd path \<noteq> CHR ''/'' then CHR ''/'' # path else path);
          url = (if netloc \<noteq> [] then ''//'' @ netloc @ rooted
                 else if prefix ''//'' path then ''//'' @ path
                 else if scheme \<noteq> [] \<and> scheme \<in> set uses_netloc \<and> (path = [] \<or> hd path = CHR ''/'')
                      then ''//'' @ path
                 else path)
      in (if scheme = [] then [] else scheme @ '':'') @ url @ (if query = [] then [] else CHR ''?'' # query))"

definition callback_url_with_state :: "unicode_tables \<Rightarrow> PravaRuntimeConfiguration \<Rightarrow> string \<Rightarrow> string result" where
  "callback_url_with_state tables c state =
     bindR (urlsplit tables (rc_callback_url c)) (\<lambda>u.
     (let query = parse_qsl (su_query u) in
      bindR (ensure (\<not> list_ex (\<lambda>kv. fst kv = ''state'') query) setup_blocked) (\<lambda>_.
      Inr (urlunsplit (su_scheme u) (su_netloc u) (su_path u) (urlencode (query @ [(''state'', state)]))))))"

definition build_adapter :: "server \<Rightarrow> unicode_tables \<Rightarrow> PravaRuntimeConfiguration \<Rightarrow> string \<Rightarrow> prava_rest result" where
  "build_adapter server tables c canonical =
     bindR (https_host tables (rc_base_url c)) (\<lambda>api_host.
     bindR (validate_merchant_url tables c canonical) (\<lambda>merchant_host.
     bindR (https_host tables (rc_callback_url c)) (\<lambda>callback_host.
     mk_prava_rest server tables (rc_secret_key c) [merchant_host] [callback_host] (rc_base_url c) [api_host]
       (rc_hosted_checkout_hosts c))))"

section \<open>The service\<close>

text \<open>
  The API around the provider adapter: \<open>ss_create\<close> is its \<^verbatim>\<open>create_session\<close> by the calls made
  before, and \<open>ss_text\<close> is \<^verbatim>\<open>str\<close> of a value that is not a string.
\<close>

record session_service =
  ss_approvals :: approval_service
  ss_settings :: provider_settings
  ss_signer :: BrowserReturnStateSigner
  ss_ttl_seconds :: int
  ss_text :: "pyval \<Rightarrow> string"
  ss_server :: server
  ss_tables :: unicode_tables
  ss_create :: "prava_rest \<Rightarrow> provider_call list \<Rightarrow> PravaSessionRequest \<Rightarrow> PravaHostedSession result"

definition str_of :: "session_service \<Rightarrow> pyval \<Rightarrow> string" where
  "str_of s v = (case v of PStr t \<Rightarrow> t | _ \<Rightarrow> ss_text s v)"

definition token_urlsafe :: "('c, string) tx" where
  "token_urlsafe w = (Inr (hex_of w (drawn w)), w\<lparr>drawn := Suc (drawn w)\<rparr>)"

definition prava_session_view :: "PaymentSession \<Rightarrow> (string \<times> pyval) list" where
  "prava_session_view p =
     [(''id'', PStr (ps_id p)), (''purchase_intent_id'', PStr (ps_purchase_intent_id p)),
      (''status'', PStr (ps_status p)), (''hosted_url'', PStr (ps_hosted_url p)),
      (''expires_at'', PStr (isoformat (ps_expires_at p))), (''production_provider'', PStr ''PRAVA''),
      (''production_verified'', PBool False), (''setup_blocked'', PBool False),
      (''missing_configuration'', PList [])]"

section \<open>Opening a hosted session\<close>

definition product_of :: "session_service \<Rightarrow> (pyval \<times> pyval) list \<Rightarrow> PravaProductDetails result" where
  "product_of s item =
     bindR (py_item (PDict item) ''description'') (\<lambda>description.
     bindR (py_item (PDict item) ''unit_amount'') (\<lambda>unit_amount.
     bindR (bindR (py_item (PDict item) ''quantity'') py_int) (\<lambda>quantity.
     bindR (py_item (PDict item) ''line_item_id'') (\<lambda>line_item_id.
     mk_PravaProductDetails \<lparr>pp_description = str_of s description, pp_unit_price = str_of s unit_amount,
       pp_quantity = quantity, pp_product_id = Some (str_of s line_item_id)\<rparr>))))"

definition dict_items :: "pyval list \<Rightarrow> ((pyval \<times> pyval) list) list" where
  "dict_items vs = List.map_filter (\<lambda>v. case v of PDict kvs \<Rightarrow> Some kvs | _ \<Rightarrow> None) vs"

definition session_products :: "session_service \<Rightarrow> IntentRow \<Rightarrow> PravaProductDetails list result" where
  "session_products s intent =
     (case map_of (ir_payload intent) ''line_items'' of
        Some (PList (v # vs)) \<Rightarrow> traverse (product_of s) (dict_items (v # vs))
      | _ \<Rightarrow> Inl (ApiProblem ''PURCHASE_INTENT_INVALID'' 409))"

definition session_request ::
    "session_service \<Rightarrow> PravaRuntimeConfiguration \<Rightarrow> string \<Rightarrow> string \<Rightarrow> IntentRow \<Rightarrow> PravaSessionRequest result" where
  "session_request s cfg actor_id state intent =
     bindR (validate_merchant_url (ss_tables s) cfg (ir_merchant_url intent)) (\<lambda>_.
     bindR (session_products s intent) (\<lambda>products.
     bindR (mk_PravaMerchantDetails \<lparr>pm_name = ir_merchant_name intent, pm_url = ir_merchant_url intent,
         pm_country_code_iso2 = rc_merchant_country cfg\<rparr>) (\<lambda>merchant.
     bindR (callback_url_with_state (ss_tables s) cfg state) (\<lambda>callback.
     mk_PravaSessionRequest \<lparr>pq_user_id = actor_id, pq_user_email = rc_user_email cfg,
       pq_total_amount = decimal_text (ir_amount intent), pq_currency = ir_currency intent,
       pq_merchant = merchant, pq_products = products, pq_callback_url = callback\<rparr>))))"

text \<open>The live approval of exactly this intent, and a session of its own that is not in the way.\<close>

definition approved_request :: "string \<Rightarrow> IntentRow \<Rightarrow> ('c, ApprovalRequest option) tx" where
  "approved_request org intent =
     getT (\<lambda>t. latest ar_created_at (filter (\<lambda>a. ar_organization_id a = org
       \<and> ar_purchase_intent_id a = ir_id intent \<and> ar_intent_hash a = ir_intent_hash intent
       \<and> ar_status a = ''APPROVED'') (tb_approvals t)))"

definition require_live_approval :: "approval_service \<Rightarrow> string \<Rightarrow> IntentRow \<Rightarrow> ('c, unit) tx" where
  "require_live_approval s org intent =
     thenT (ensureT (ir_approval_status intent = ''APPROVED'') (ApiProblem ''APPROVAL_REQUIRED'' 409))
     (bindT (approved_request org intent) (\<lambda>found. case found of
        None \<Rightarrow> raiseT (ApiProblem ''APPROVAL_REQUIRED'' 409)
      | Some approval \<Rightarrow>
          bindT (liftT (as_utc (ar_expires_at approval))) (\<lambda>deadline.
          bindT utcnow (\<lambda>now.
          thenT (ensureT (now < deadline) (ApiProblem ''APPROVAL_EXPIRED'' 409))
          (bindT (liftT (as_utc (ir_quote_expires_at intent))) (\<lambda>quote.
           bindT (quote_now s) (\<lambda>quoted.
           ensureT (quoted < quote) (ApiProblem ''QUOTE_EXPIRED'' 409))))))))"

text \<open>The session found, when it can be handed out again; otherwise it has been put aside or blocks.\<close>

definition reusable_session :: "string \<Rightarrow> string \<Rightarrow> ('c, PaymentSession option) tx" where
  "reusable_session org intent_id =
     bindT (getT (\<lambda>t. latest ps_created_at (filter (\<lambda>p. ps_organization_id p = org
         \<and> ps_purchase_intent_id p = intent_id) (tb_sessions t)))) (\<lambda>found. case found of
       None \<Rightarrow> returnT None
     | Some existing \<Rightarrow>
         if ps_status existing = ''SESSION_CREATED'' then returnT (Some existing)
         else if ps_status existing = ''CREATING'' then
           bindT (liftT (as_utc (ps_expires_at existing))) (\<lambda>deadline.
           bindT utcnow (\<lambda>now.
           thenT (ensureT (deadline \<le> now) (ApiProblem ''SESSION_CREATE_PENDING'' 409))
           (thenT (set_session (ps_id existing) (\<lambda>r. r\<lparr>ps_status := ''EXPIRED''\<rparr>)) (returnT None))))
         else thenT (ensureT (ps_status existing \<in> {''FAILED'', ''UNCERTAIN'', ''EXPIRED''})
                (ApiProblem ''SESSION_CREATE_NOT_RETRYABLE'' 409)) (returnT None))"

definition add_placeholder :: "string \<Rightarrow> string \<Rightarrow> string \<Rightarrow> ('c, unit) tx" where
  "add_placeholder org intent_id session_id =
     bindT utcnow (\<lambda>now.
     bindT (liftT (later_by now 900)) (\<lambda>deadline.
     bindT start_of_tx (\<lambda>created.
     addT (\<lambda>t. t\<lparr>tb_sessions := tb_sessions t @ [\<lparr>ps_id = session_id, ps_organization_id = org,
       ps_purchase_intent_id = intent_id, ps_provider = ''PRAVA'', ps_provider_session_id = ''pending:'' @ session_id,
       ps_provider_order_id = ''pending:'' @ session_id, ps_hosted_url = [], ps_expires_at = deadline,
       ps_status = ''CREATING'', ps_created_at = created\<rparr>]\<rparr>))))"

text \<open>
  The first transaction answers at once (a replay, or a session that is still open), or leaves a placeholder
  behind and goes on with a request for the provider and the claim.
\<close>

datatype reservation = Answered reply | Reserved PravaSessionRequest string

definition reserve_session ::
    "session_service \<Rightarrow> PravaRuntimeConfiguration \<Rightarrow> caller \<Rightarrow> string \<Rightarrow> string \<Rightarrow> string \<Rightarrow> string \<Rightarrow>
     ('c, reservation) tx" where
  "reserve_session s cfg c intent_id state request_hash session_id =
     (let org = ca_organization_id c in
      transaction org
       (bindT (claim_idempotency org (ca_raced c) (ca_actor_id c) ''prava_sessions.create'' (ca_key c) request_hash)
         (\<lambda>claim. if ic_replay claim then returnT (Answered (replayed 201 (ic_record claim)))
          else
            bindT (not_found ''PURCHASE_INTENT'' (get_purchase_intent org intent_id)) (\<lambda>intent.
            bindT (get_decision org (ir_decision_id intent)) (\<lambda>decision.
            thenT (require_current_decision org decision)
            (thenT (require_live_approval (ss_approvals s) org intent)
            (bindT (reusable_session org intent_id) (\<lambda>open'. case open' of
               Some existing \<Rightarrow>
                 bindT (answer c (ic_record claim) 201 (prava_session_view existing) (ps_id existing))
                   (\<lambda>r. returnT (Answered r))
             | None \<Rightarrow>
                 bindT (liftT (session_request s cfg (ca_actor_id c) state intent)) (\<lambda>q.
                 thenT (add_placeholder org intent_id session_id)
                   (returnT (Reserved q (im_id (ic_record claim)))))))))))))"

definition mark_session_create_failed :: "string \<Rightarrow> string \<Rightarrow> string \<Rightarrow> bool \<Rightarrow> ('c, unit) tx" where
  "mark_session_create_failed org intent_id session_id uncertain =
     transaction org
       (bindT (select tb_sessions (\<lambda>p. ps_id p = session_id \<and> ps_organization_id p = org) scalar_one) (\<lambda>session.
        thenT (set_session (ps_id session) (\<lambda>r. r\<lparr>ps_status := (if uncertain then ''UNCERTAIN'' else ''FAILED'')\<rparr>))
        (bindT (select tb_intents (\<lambda>r. ir_id r = intent_id \<and> ir_organization_id r = org) scalar_one) (\<lambda>intent.
         ensureT (ir_payment_status intent = ''NOT_STARTED'')
           (PersistenceConflict ''Provider session failure cannot rewrite an active payment state'')))))"

text \<open>A provider's refusal names its code; anything else counts as unavailable and worth a retry.\<close>

definition failure_of :: "py_error \<Rightarrow> string \<times> bool" where
  "failure_of e = (case e of ProviderError code retryable \<Rightarrow> (code, retryable)
                   | _ \<Rightarrow> (ProviderErrorCode_value ProviderErrorCode.UNAVAILABLE, True))"

definition session_created :: "string \<Rightarrow> PravaHostedSession \<Rightarrow> string \<Rightarrow> transition_args" where
  "session_created intent_id hosted h =
     \<lparr>ta_intent_id = intent_id, ta_state_field = ''payment_status'', ta_allowed_from = [''NOT_STARTED''],
      ta_to_state = ''SESSION_CREATED'', ta_event_key = ''prava-session-created:'' @ ph_session_id hosted,
      ta_actor_type = ''provider'', ta_actor_id = ''prava'', ta_reason_code = ''HOSTED_SESSION_CREATED'',
      ta_payload_hash = h, ta_attempt_id = None, ta_provider_event_ref = Some (ph_session_id hosted)\<rparr>"

definition open_binding ::
    "session_service \<Rightarrow> caller \<Rightarrow> string \<Rightarrow> string \<Rightarrow> string \<Rightarrow> string \<Rightarrow> PravaHostedSession \<Rightarrow> ('c, unit) tx" where
  "open_binding s c intent_id session_id state return_url hosted =
     bindT (new_id ''brb'') (\<lambda>i.
     bindT (liftT (as_utc (ph_expires_at hosted))) (\<lambda>provider_deadline.
     bindT utcnow (\<lambda>now.
     bindT (liftT (later_by now (ss_ttl_seconds s))) (\<lambda>own.
     addT (\<lambda>t. t\<lparr>tb_bindings := tb_bindings t @ [\<lparr>bb_id = i, bb_organization_id = ca_organization_id c,
       bb_purchase_intent_id = intent_id, bb_payment_session_id = session_id, bb_actor_id = ca_actor_id c,
       bb_state_hash = digest state, bb_provider_session_hash = digest (ph_session_id hosted),
       bb_return_url_hash = digest return_url,
       bb_expires_at = (if provider_deadline \<le> dt_local own then \<lparr>dt_local = provider_deadline, dt_offset = Some 0\<rparr>
                        else own),
       bb_consumed_at = None\<rparr>]\<rparr>)))))"

definition hosted_row :: "PravaHostedSession \<Rightarrow> PaymentSession \<Rightarrow> PaymentSession" where
  "hosted_row hosted r =
     r\<lparr>ps_provider_session_id := ph_session_id hosted, ps_provider_order_id := ph_order_id hosted,
       ps_hosted_url := ph_hosted_url hosted, ps_expires_at := ph_expires_at hosted,
       ps_status := ''SESSION_CREATED''\<rparr>"

definition confirm_session ::
    "session_service \<Rightarrow> caller \<Rightarrow> string \<Rightarrow> string \<Rightarrow> string \<Rightarrow> string \<Rightarrow> string \<Rightarrow> PravaHostedSession \<Rightarrow>
     ('c, reply) tx" where
  "confirm_session s c intent_id session_id state return_url claim_id hosted =
     (let org = ca_organization_id c in
      transaction org
       (bindT (select tb_sessions (\<lambda>p. ps_id p = session_id \<and> ps_organization_id p = org) scalar_one) (\<lambda>session.
        thenT (set_session (ps_id session) (hosted_row hosted))
        (thenT (open_binding s c intent_id (ps_id session) state return_url hosted)
        (bindT (liftT (as_hash (ss_approvals s) (obj [(''session_id'', PStr (ph_session_id hosted)),
            (''order_id'', PStr (ph_order_id hosted)), (''expires_at'', PStr (isoformat (ph_expires_at hosted)))])))
         (\<lambda>h. thenT (transition_purchase_intent org (session_created intent_id hosted h))
          (bindT (select tb_idempotency (\<lambda>r. im_id r = claim_id \<and> im_organization_id r = org) scalar_one) (\<lambda>claimed.
           answer c claimed 201 (prava_session_view (hosted_row hosted session)) (ps_id session)))))))))"

definition create_prava_session ::
    "session_service \<Rightarrow> caller \<Rightarrow> string \<Rightarrow> string \<Rightarrow> reply worker" where
  "create_prava_session s c intent_id return_url =
     (let org = ca_organization_id c in
      bindT (liftT (load_configuration (ss_settings s))) (\<lambda>cfg.
      thenT (liftT (validate_return_url (ss_tables s) cfg return_url))
      (bindT token_urlsafe (\<lambda>nonce.
       let state = issue (ss_signer s) nonce in
       bindT (liftT (as_hash (ss_approvals s) (obj [(''intent_id'', PStr intent_id),
          (''return_url'', PStr return_url)]))) (\<lambda>h.
       bindT (new_id ''pays'') (\<lambda>session_id.
       bindT (expire_purchase_approval_if_needed (ss_approvals s) org intent_id) (\<lambda>expired. case expired of
          Some e \<Rightarrow> raiseT e
        | None \<Rightarrow>
            bindT (reserve_session s cfg c intent_id state h session_id) (\<lambda>reserved. case reserved of
               Answered r \<Rightarrow> returnT r
             | Reserved q claim_id \<Rightarrow>
                 bindT (liftT (build_adapter (ss_server s) (ss_tables s) cfg (pm_url (pq_merchant q)))) (\<lambda>adapter.
                 bindT (callT (CreateSession q) (\<lambda>before. ss_create s adapter before q)) (\<lambda>created. case created of
                    Inl e \<Rightarrow>
                      (case failure_of e of (code, retryable) \<Rightarrow>
                        thenT (mark_session_create_failed org intent_id session_id retryable)
                          (raiseT (ApiProblem code (if retryable then 503 else 502))))
                  | Inr hosted \<Rightarrow> confirm_session s c intent_id session_id state return_url claim_id hosted))))))))))"

section \<open>The browser comes back\<close>

definition browser_return :: "string \<Rightarrow> string \<Rightarrow> string \<Rightarrow> string \<Rightarrow> transition_args" where
  "browser_return intent_id session_id actor_id h =
     \<lparr>ta_intent_id = intent_id, ta_state_field = ''payment_status'', ta_allowed_from = [''SESSION_CREATED''],
      ta_to_state = ''CARDHOLDER_PENDING'', ta_event_key = ''prava-browser-return:'' @ session_id,
      ta_actor_type = ''user'', ta_actor_id = actor_id, ta_reason_code = ''AUTHENTICATED_BROWSER_RETURN'',
      ta_payload_hash = h, ta_attempt_id = None, ta_provider_event_ref = None\<rparr>"

definition queue_checkout_run :: "string \<Rightarrow> string \<Rightarrow> ('c, unit) tx" where
  "queue_checkout_run org intent_id =
     bindT (select tb_workflows (\<lambda>r. wr_id r = ''wf_checkout_'' @ intent_id \<and> wr_organization_id r = org)
        scalar_one_or_none) (\<lambda>found. case found of
       Some _ \<Rightarrow> returnT ()
     | None \<Rightarrow>
         addT (\<lambda>t. t\<lparr>tb_workflows := tb_workflows t @ [\<lparr>wr_id = ''wf_checkout_'' @ intent_id,
           wr_organization_id = org, wr_aggregate_type = ''purchase_intent'', wr_aggregate_id = intent_id,
           wr_operation = ''purchase_checkout'', wr_status = ''PENDING'',
           wr_result_reference = Some (''/v1/purchase-intents/'' @ intent_id @ ''/status''),
           wr_safe_error_code = None,
           wr_event_log = [\<lparr>le_id = ''1'', le_status = ''PENDING'',
             le_message = ''Hosted authorization returned; checkout queued''\<rparr>]\<rparr>]\<rparr>))"

definition valid_binding :: "caller \<Rightarrow> string \<Rightarrow> BrowserReturnBinding option \<Rightarrow> BrowserReturnBinding result" where
  "valid_binding c return_url found =
     (case found of
        None \<Rightarrow> Inl (ApiProblem ''CALLBACK_STATE_INVALID'' 403)
      | Some b \<Rightarrow>
          bindR (ensure (bb_actor_id b = ca_actor_id c) (ApiProblem ''CALLBACK_STATE_INVALID'' 403)) (\<lambda>_.
          bindR (ensure (bb_consumed_at b = None) (ApiProblem ''CALLBACK_STATE_REPLAYED'' 409)) (\<lambda>_.
          bindR (ensure (bb_return_url_hash b = digest return_url) (ApiProblem ''CALLBACK_BINDING_MISMATCH'' 403)) (\<lambda>_.
          Inr b))))"

text \<open>
  The condition of \<^verbatim>\<open>CALLBACK_STATE_EXPIRED\<close>, a chain of \<^verbatim>\<open>or\<close> read from the left: the
  binding, the session and the quote may have expired, the approval may be missing or expired.
\<close>

definition return_expired ::
    "approval_service \<Rightarrow> BrowserReturnBinding \<Rightarrow> PaymentSession \<Rightarrow> IntentRow \<Rightarrow> ApprovalRequest option \<Rightarrow> int \<Rightarrow>
     ('c, bool) tx" where
  "return_expired s binding session intent approval now =
     bindT (liftT (as_utc (bb_expires_at binding))) (\<lambda>d. if d \<le> now then returnT True else
     bindT (liftT (as_utc (ps_expires_at session))) (\<lambda>d. if d \<le> now then returnT True else
     bindT (liftT (as_utc (ir_quote_expires_at intent))) (\<lambda>d.
     bindT (quote_now s) (\<lambda>quoted. if d \<le> quoted then returnT True else
     case approval of
       None \<Rightarrow> returnT True
     | Some a \<Rightarrow> bindT (liftT (as_utc (ar_expires_at a))) (\<lambda>d. returnT (d \<le> now))))))"

definition accept_return ::
    "session_service \<Rightarrow> caller \<Rightarrow> BrowserReturnBinding \<Rightarrow> PaymentSession \<Rightarrow> IntentRow \<Rightarrow> int \<Rightarrow>
     ('c, (string \<times> pyval) list) tx" where
  "accept_return s c binding session intent now =
     (let org = ca_organization_id c; workflow_id = ''wf_checkout_'' @ ir_id intent in
      thenT (set_binding (bb_id binding) (\<lambda>r. r\<lparr>bb_consumed_at := Some now\<rparr>))
      (thenT (set_session (ps_id session) (\<lambda>r. r\<lparr>ps_status := ''CARDHOLDER_PENDING''\<rparr>))
      (bindT (liftT (as_hash (ss_approvals s) (obj [(''payment_session_id'', PStr (ps_id session)),
          (''state_hash'', PStr (bb_state_hash binding))]))) (\<lambda>h.
       thenT (transition_purchase_intent org (browser_return (ir_id intent) (ps_id session) (ca_actor_id c) h))
      (thenT (queue_checkout_run org (ir_id intent))
      (bindT (add_outbox org ''purchase_intent'' (ir_id intent) ''purchase_checkout.requested''
          (''purchase-checkout-requested:'' @ ps_id session)
          [(''workflow_id'', PStr workflow_id), (''purchase_intent_id'', PStr (ir_id intent)),
           (''intent_hash'', PStr (ir_intent_hash intent)), (''payment_session_id'', PStr (ps_id session)),
           (''prava_session_id'', PStr (ps_provider_session_id session))]) (\<lambda>_.
       returnT [(''workflow_id'', PStr workflow_id), (''status_url'', PStr (''/v1/workflows/'' @ workflow_id)),
                (''events_url'', PStr (''/v1/workflows/'' @ workflow_id @ ''/events''))])))))))"

definition return_body ::
    "session_service \<Rightarrow> caller \<Rightarrow> string \<Rightarrow> string \<Rightarrow> int \<Rightarrow> ('c, (string \<times> pyval) list) tx" where
  "return_body s c state return_url now =
     (let org = ca_organization_id c in
      bindT (select tb_bindings (\<lambda>b. bb_organization_id b = org \<and> bb_state_hash b = digest state)
        scalar_one_or_none) (\<lambda>found.
      bindT (liftT (valid_binding c return_url found)) (\<lambda>binding.
      bindT (select tb_sessions (\<lambda>p. ps_id p = bb_payment_session_id binding \<and> ps_organization_id p = org)
        scalar_one_or_none) (\<lambda>session. case session of
          None \<Rightarrow> raiseT (ApiProblem ''CALLBACK_BINDING_MISMATCH'' 409)
        | Some session \<Rightarrow>
            bindT (get_purchase_intent org (bb_purchase_intent_id binding)) (\<lambda>intent.
            bindT (approved_request org intent) (\<lambda>approval.
            thenT (ensureT (ps_purchase_intent_id session = ir_id intent
                \<and> bb_provider_session_hash binding = digest (ps_provider_session_id session))
              (ApiProblem ''CALLBACK_BINDING_MISMATCH'' 409))
            (bindT (return_expired (ss_approvals s) binding session intent approval now) (\<lambda>expired.
             thenT (ensureT (\<not> expired) (ApiProblem ''CALLBACK_STATE_EXPIRED'' 409))
            (thenT (ensureT (ps_status session = ''SESSION_CREATED'' \<and> ir_payment_status intent = ''SESSION_CREATED''
                \<and> ir_approval_status intent = ''APPROVED'') (ApiProblem ''CALLBACK_STATE_INVALID_STATE'' 409))
              (accept_return s c binding session intent now))))))))))"

definition bound_intent :: "caller \<Rightarrow> string \<Rightarrow> ('c, string option) tx" where
  "bound_intent c state =
     (let org = ca_organization_id c in
      transaction org
        (bindT (select tb_bindings (\<lambda>b. bb_organization_id b = org \<and> bb_state_hash b = digest state
            \<and> bb_actor_id b = ca_actor_id c) scalar_one_or_none) (\<lambda>found.
         returnT (map_option bb_purchase_intent_id found))))"

definition expire_bound :: "session_service \<Rightarrow> caller \<Rightarrow> string option \<Rightarrow> ('c, unit) tx" where
  "expire_bound s c found =
     (case found of
        None \<Rightarrow> returnT ()
      | Some intent_id \<Rightarrow>
          bindT (expire_purchase_approval_if_needed (ss_approvals s) (ca_organization_id c) intent_id) (\<lambda>expired.
          case expired of Some e \<Rightarrow> raiseT e | None \<Rightarrow> returnT ()))"

definition accept_prava_browser_return ::
    "session_service \<Rightarrow> caller \<Rightarrow> string \<Rightarrow> string \<Rightarrow> ('c, (string \<times> pyval) list) tx" where
  "accept_prava_browser_return s c state return_url =
     bindT (liftT (verify (ss_signer s) state)) (\<lambda>ours.
     thenT (ensureT ours (ApiProblem ''CALLBACK_STATE_INVALID'' 400))
     (bindT (bound_intent c state) (\<lambda>found.
      thenT (expire_bound s c found)
      (bindT utcnow (\<lambda>now.
       transaction (ca_organization_id c) (return_body s c state return_url now))))))"

end
